(* ===== verification/Prelude.thy ===== *)
theory Prelude
  imports Main "HOL-Library.AList" "HOL-Library.Char_ord" "HOL-Library.List_Lexorder"
begin

text \<open>
  Shared vocabulary of the development: results of fallible code, the string
  operations of JavaScript that the sources call, lower-case hexadecimal
  digests, decimal printing, insertion-ordered maps, and the generic lemmas the
  components use.

  JavaScript strings are HOL strings, so a code unit is below 256; \<open>trim\<close> and
  \<open>toLowerCase\<close> are the standard ones on that range.
\<close>

named_theorems result_simps \<open>rewriting of fallible computations\<close>
named_theorems js_simps \<open>evaluation of JavaScript values\<close>
named_theorems store_simps \<open>evaluation of store operations\<close>

section \<open>Results\<close>

text \<open>A computation that may throw: \<open>Inl\<close> is the thrown error.\<close>

type_synonym ('e, 'a) result = "'e + 'a"

fun rbind :: "('e, 'a) result \<Rightarrow> ('a \<Rightarrow> ('e, 'b) result) \<Rightarrow> ('e, 'b) result" where
  "rbind (Inl e) f = Inl e"
| "rbind (Inr a) f = f a"

definition check :: "bool \<Rightarrow> 'e \<Rightarrow> ('e, unit) result" where
  "check c e = (if c then Inr () else Inl e)"

fun mapM :: "('a \<Rightarrow> ('e, 'b) result) \<Rightarrow> 'a list \<Rightarrow> ('e, 'b list) result" where
  "mapM f [] = Inr []"
| "mapM f (x # xs) = rbind (f x) (\<lambda>y. rbind (mapM f xs) (\<lambda>ys. Inr (y # ys)))"

fun is_ok :: "('e, 'a) result \<Rightarrow> bool" where
  "is_ok (Inl e) = False"
| "is_ok (Inr a) = True"

definition map_err :: "('e \<Rightarrow> 'f) \<Rightarrow> ('e, 'a) result \<Rightarrow> ('f, 'a) result" where
  "map_err g r = (case r of Inl e \<Rightarrow> Inl (g e) | Inr a \<Rightarrow> Inr a)"

lemma rbind_eq_Inr [result_simps, simp]:
  "rbind r f = Inr b \<longleftrightarrow> (\<exists>a. r = Inr a \<and> f a = Inr b)"
  by (cases r) auto

lemma rbind_eq_Inl [result_simps, simp]:
  "rbind r f = Inl e \<longleftrightarrow> r = Inl e \<or> (\<exists>a. r = Inr a \<and> f a = Inl e)"
  by (cases r) auto

lemma check_eq_Inr [result_simps, simp]: "check c e = Inr u \<longleftrightarrow> c"
  by (simp add: check_def)

lemma check_eq_Inl [result_simps, simp]: "check c e = Inl e' \<longleftrightarrow> \<not> c \<and> e' = e"
  by (auto simp: check_def)

lemma map_err_simps [simp]:
  "map_err g (Inl e) = Inl (g e)" "map_err g (Inr a) = Inr a"
  by (simp_all add: map_err_def)

lemma is_ok_iff: "is_ok r \<longleftrightarrow> (\<exists>a. r = Inr a)"
  by (cases r) auto

lemma mapM_eq_Inr_iff:
  "mapM f xs = Inr ys \<longleftrightarrow> list_all2 (\<lambda>x y. f x = Inr y) xs ys"
  by (induction xs arbitrary: ys) (auto simp: list_all2_Cons1)

lemma mapM_Inr_map:
  "(\<And>x. x \<in> set xs \<Longrightarrow> f (g x) = Inr (h x)) \<Longrightarrow> mapM f (map g xs) = Inr (map h xs)"
  by (induction xs) auto

section \<open>Strings\<close>

text \<open>\<open>String.prototype.trim\<close>: the white space and line terminators below 256.\<close>

definition is_ws :: "char \<Rightarrow> bool" where
  "is_ws c = (let n = (of_char c :: nat) in (9 \<le> n \<and> n \<le> 13) \<or> n = 32 \<or> n = 160)"

definition trim :: "string \<Rightarrow> string" where
  "trim s = rev (dropWhile is_ws (rev (dropWhile is_ws s)))"

text \<open>\<open>String.prototype.toLowerCase\<close> on the Latin-1 range.\<close>

definition lower_char :: "char \<Rightarrow> char" where
  "lower_char c = (let n = (of_char c :: nat) in
     if (65 \<le> n \<and> n \<le> 90) \<or> (192 \<le> n \<and> n \<le> 222 \<and> n \<noteq> 215) then char_of (n + 32) else c)"

definition toLowerCase :: "string \<Rightarrow> string" where
  "toLowerCase s = map lower_char s"

definition blank :: "string \<Rightarrow> bool" where
  "blank s = (trim s = [])"

lemma trim_Nil_iff: "trim s = [] \<longleftrightarrow> (\<forall>c \<in> set s. is_ws c)"
proof -
  have "trim s = [] \<longleftrightarrow> (\<forall>c \<in> set (dropWhile is_ws s). is_ws c)"
    by (simp add: trim_def)
  also have "\<dots> \<longleftrightarrow> dropWhile is_ws s = []"
    by (metis dropWhile_eq_Nil_conv hd_dropWhile hd_in_set set_dropWhileD)
  finally show ?thesis by simp
qed

lemma blank_iff: "blank s \<longleftrightarrow> (\<forall>c \<in> set s. is_ws c)"
  by (simp add: blank_def trim_Nil_iff)

lemma blank_Nil [simp]: "blank []"
  by (simp add: blank_iff)

lemma not_blank_nonempty: "\<not> blank s \<Longrightarrow> s \<noteq> []"
  by auto

section \<open>Hexadecimal digests\<close>

definition lower_hex :: "char \<Rightarrow> bool" where
  "lower_hex c = (let n = (of_char c :: nat) in (48 \<le> n \<and> n \<le> 57) \<or> (97 \<le> n \<and> n \<le> 102))"

definition any_hex :: "char \<Rightarrow> bool" where
  "any_hex c = (let n = (of_char c :: nat) in
     (48 \<le> n \<and> n \<le> 57) \<or> (97 \<le> n \<and> n \<le> 102) \<or> (65 \<le> n \<and> n \<le> 70))"

text \<open>The pattern \<open>/^[a-f0-9]{64}$/u\<close>.\<close>

definition is_hex64 :: "string \<Rightarrow> bool" where
  "is_hex64 s = (length s = 64 \<and> list_all lower_hex s)"

lemma lower_hex_not_ws: "lower_hex c \<Longrightarrow> \<not> is_ws c"
  by (auto simp: lower_hex_def is_ws_def Let_def)

lemma lower_char_hex [simp]: "lower_hex c \<Longrightarrow> lower_char c = c"
  by (auto simp: lower_hex_def lower_char_def Let_def)

lemma lower_char_any_hex: "any_hex c \<Longrightarrow> lower_hex (lower_char c)"
proof -
  assume "any_hex c"
  then consider (low) "lower_hex c" | (up) "65 \<le> (of_char c :: nat)" "(of_char c :: nat) \<le> 70"
    by (auto simp: any_hex_def lower_hex_def Let_def)
  then show ?thesis
  proof cases
    case low
    then show ?thesis by simp
  next
    case up
    then show ?thesis by (simp add: lower_char_def lower_hex_def Let_def)
  qed
qed

lemma toLowerCase_hex: "list_all lower_hex s \<Longrightarrow> toLowerCase s = s"
  by (induction s) (auto simp: toLowerCase_def)

lemma toLowerCase_any_hex: "list_all any_hex s \<Longrightarrow> list_all lower_hex (toLowerCase s)"
  by (induction s) (auto simp: toLowerCase_def lower_char_any_hex)

lemma toLowerCase_idem [simp]: "toLowerCase (toLowerCase s) = toLowerCase s"
  by (induction s) (auto simp: toLowerCase_def lower_char_def Let_def)

lemma length_toLowerCase [simp]: "length (toLowerCase s) = length s"
  by (simp add: toLowerCase_def)

lemma is_hex64_not_blank: "is_hex64 s \<Longrightarrow> \<not> blank s"
proof -
  assume "is_hex64 s"
  then obtain c t where "s = c # t" "lower_hex c"
    by (cases s) (auto simp: is_hex64_def)
  then show ?thesis using lower_hex_not_ws by (auto simp: blank_iff)
qed

section \<open>Decimal numbers\<close>

definition digit_char :: "nat \<Rightarrow> char" where
  "digit_char d = char_of (48 + d)"

definition is_digit :: "char \<Rightarrow> bool" where
  "is_digit c = (let n = (of_char c :: nat) in 48 \<le> n \<and> n \<le> 57)"

definition digit_val :: "char \<Rightarrow> nat" where
  "digit_val c = of_char c - 48"

fun show_nat :: "nat \<Rightarrow> string" where
  "show_nat n = (if n < 10 then [digit_char n] else show_nat (n div 10) @ [digit_char (n mod 10)])"

declare show_nat.simps [simp del]

definition show_int :: "int \<Rightarrow> string" where
  "show_int i = (if i < 0 then CHR ''-'' # show_nat (nat (- i)) else show_nat (nat i))"

definition read_nat :: "string \<Rightarrow> nat" where
  "read_nat s = foldl (\<lambda>n c. 10 * n + digit_val c) 0 s"

lemma digit_val_char [simp]: "d < 10 \<Longrightarrow> digit_val (digit_char d) = d"
  by (simp add: digit_val_def digit_char_def)

lemma is_digit_char [simp]: "d < 10 \<Longrightarrow> is_digit (digit_char d)"
  by (simp add: is_digit_def digit_char_def Let_def)

lemma read_show_nat [simp]: "read_nat (show_nat n) = n"
proof (induction n rule: show_nat.induct)
  case (1 n)
  show ?case
  proof (cases "n < 10")
    case True
    then show ?thesis by (subst show_nat.simps) (simp add: read_nat_def)
  next
    case False
    then show ?thesis using 1 by (subst show_nat.simps) (simp add: read_nat_def)
  qed
qed

lemma show_nat_digits: "list_all is_digit (show_nat n)"
proof (induction n rule: show_nat.induct)
  case (1 n)
  then show ?case by (subst show_nat.simps) auto
qed

lemma show_nat_nonempty [simp]: "show_nat n \<noteq> []"
  by (subst show_nat.simps) simp

lemma digit_char_val: "is_digit c \<Longrightarrow> digit_char (digit_val c) = c"
  by (auto simp: digit_char_def digit_val_def is_digit_def Let_def)

lemma digit_val_less: "is_digit c \<Longrightarrow> digit_val c < 10"
  by (auto simp: digit_val_def is_digit_def Let_def)

lemma digit_val_zero: "is_digit c \<Longrightarrow> digit_val c = 0 \<Longrightarrow> c = CHR ''0''"
proof -
  assume "is_digit c" "digit_val c = 0"
  then have "(of_char c :: nat) = of_char (CHR ''0'')"
    by (simp add: is_digit_def digit_val_def Let_def)
  then show ?thesis by (simp only: of_char_eq_iff)
qed

lemma read_nat_snoc [simp]: "read_nat (s @ [c]) = 10 * read_nat s + digit_val c"
  by (simp add: read_nat_def)

lemma read_nat_Cons_pos:
  assumes "list_all is_digit (c # s)" "c \<noteq> CHR ''0''" shows "0 < read_nat (c # s)"
  using assms
proof (induction s rule: rev_induct)
  case Nil
  then show ?case using digit_val_zero by (auto simp: read_nat_def)
next
  case (snoc x s)
  then show ?case using read_nat_snoc [of "c # s" x] by simp
qed

text \<open>A decimal without a redundant leading zero is the printed form of its value.\<close>

lemma show_read_nat:
  assumes "s \<noteq> []" "list_all is_digit s" "s = ''0'' \<or> hd s \<noteq> CHR ''0''"
  shows "show_nat (read_nat s) = s"
  using assms
proof (induction s rule: rev_induct)
  case Nil
  then show ?case by simp
next
  case (snoc x s)
  note d = digit_val_less [of x] digit_char_val [of x]
  show ?case
  proof (cases s)
    case Nil
    then show ?thesis using snoc.prems d by (subst show_nat.simps) (simp add: read_nat_def)
  next
    case (Cons c t)
    then have "0 < read_nat s" "show_nat (read_nat s) = s"
      using snoc read_nat_Cons_pos [of c t] by auto
    then show ?thesis using snoc.prems d by (subst show_nat.simps) simp
  qed
qed

lemma show_nat_no_leading_zero: "show_nat n = ''0'' \<or> hd (show_nat n) \<noteq> CHR ''0''"
proof (induction n rule: show_nat.induct)
  case (1 n)
  show ?case
  proof (cases "n < 10")
    case True
    then show ?thesis
      by (subst (1 2) show_nat.simps) (cases n; auto simp: digit_char_def)
  next
    case False
    then have "0 < n div 10" by simp
    moreover have "read_nat ''0'' = 0" by (simp add: read_nat_def digit_val_def)
    ultimately have "show_nat (n div 10) \<noteq> ''0''"
      using read_show_nat [of "n div 10"] by (metis less_irrefl)
    then show ?thesis using 1 False by (subst (1 2) show_nat.simps) simp
  qed
qed

section \<open>Insertion-ordered maps\<close>

text \<open>
  A JavaScript \<open>Map\<close> is an association list in insertion order: \<open>set\<close> is
  \<^const>\<open>AList.update\<close> (replace in place or append), \<open>get\<close> is \<^const>\<open>map_of\<close>.
\<close>

type_synonym 'a jsmap = "(string \<times> 'a) list"

abbreviation map_set :: "string \<Rightarrow> 'a \<Rightarrow> 'a jsmap \<Rightarrow> 'a jsmap" where
  "map_set \<equiv> AList.update"

abbreviation map_values :: "'a jsmap \<Rightarrow> 'a list" where
  "map_values m \<equiv> map snd m"

definition keys_ok :: "('a \<Rightarrow> string) \<Rightarrow> 'a jsmap \<Rightarrow> bool" where
  "keys_ok key m = (distinct (map fst m) \<and> (\<forall>(k, v) \<in> set m. key v = k))"

lemma map_of_map_set [simp]: "map_of (map_set k v m) = (map_of m)(k \<mapsto> v)"
  by (simp add: update_conv')

lemma set_map_set: "(k', v') \<in> set (map_set k v m) \<Longrightarrow> (k', v') = (k, v) \<or> (k', v') \<in> set m"
  by (induction m) (auto split: if_splits)

lemma keys_ok_map_set: "keys_ok key m \<Longrightarrow> key v = k \<Longrightarrow> keys_ok key (map_set k v m)"
  unfolding keys_ok_def by (auto simp: distinct_update dest!: set_map_set)

lemma keys_ok_map_of:
  "keys_ok key m \<Longrightarrow> v \<in> set (map_values m) \<longleftrightarrow> map_of m (key v) = Some v"
  unfolding keys_ok_def by (force simp: map_of_eq_Some_iff)

lemma keys_ok_key: "keys_ok key m \<Longrightarrow> map_of m k = Some v \<Longrightarrow> key v = k"
  unfolding keys_ok_def by (auto dest: map_of_SomeD)

lemma keys_ok_ball:
  assumes "keys_ok key m"
  shows "(\<forall>v \<in> set (map_values m). P v) \<longleftrightarrow> (\<forall>k v. map_of m k = Some v \<longrightarrow> P v)"
  using keys_ok_map_of [OF assms] keys_ok_key [OF assms] by metis

lemma keys_ok_bex:
  assumes "keys_ok key m"
  shows "(\<exists>v \<in> set (map_values m). P v) \<longleftrightarrow> (\<exists>k v. map_of m k = Some v \<and> P v)"
  using keys_ok_map_of [OF assms] keys_ok_key [OF assms] by metis

lemma keys_ok_Nil [simp]: "keys_ok key []"
  by (simp add: keys_ok_def)

lemma find_None_ball: "find P xs = None \<longleftrightarrow> (\<forall>x \<in> set xs. \<not> P x)"
  by (induction xs) auto

lemma find_Some_iff:
  "find P xs = Some x \<Longrightarrow> x \<in> set xs \<and> P x"
  by (induction xs) (auto split: if_splits)

end
