(* ===== verification/Js_Value.thy ===== *)
theory Js_Value
  imports Prelude
begin

text \<open>
  JavaScript values as they cross a JSON boundary, the property reads and type
  tests the sources apply to them, and the enumeration order of own properties.

  A JSON object is an association list in enumeration order. Numbers are the
  integers of the sources; a number with a fraction or an exponent is kept as
  its text and is not an integer of the model. An absent property reads as
  \<open>undefined\<close>, which is \<^const>\<open>None\<close>.
\<close>

section \<open>Values\<close>

datatype jnum = JInt int | JFrac string

datatype json =
    JNull
  | JBool bool
  | JNum jnum
  | JStr string
  | JArr "json list"
  | JObj "(string \<times> json) list"

fun isRecord :: "json \<Rightarrow> bool" where
  "isRecord (JObj ps) = True"
| "isRecord _ = False"

fun isArray :: "json \<Rightarrow> bool" where
  "isArray (JArr xs) = True"
| "isArray _ = False"

text \<open>\<open>value.key\<close> for a value already known to be an object.\<close>

fun fld :: "json \<Rightarrow> string \<Rightarrow> json option" where
  "fld (JObj ps) k = map_of ps k"
| "fld _ k = None"

fun entries :: "json \<Rightarrow> (string \<times> json) list" where
  "entries (JObj ps) = ps"
| "entries _ = []"

fun as_str :: "json option \<Rightarrow> string option" where
  "as_str (Some (JStr s)) = Some s"
| "as_str _ = None"

abbreviation is_str :: "json option \<Rightarrow> bool" where
  "is_str v \<equiv> as_str v \<noteq> None"

definition max_safe :: int where
  "max_safe = 9007199254740991"

text \<open>\<open>Number.isSafeInteger\<close>; the integer when it is one.\<close>

fun safe_int :: "json option \<Rightarrow> int option" where
  "safe_int (Some (JNum (JInt n))) = (if \<bar>n\<bar> \<le> max_safe then Some n else None)"
| "safe_int _ = None"

text \<open>Truthiness of a value, of \<open>undefined\<close> and of an optional string.\<close>

fun truthy :: "json option \<Rightarrow> bool" where
  "truthy None = False"
| "truthy (Some JNull) = False"
| "truthy (Some (JBool b)) = b"
| "truthy (Some (JNum (JInt n))) = (n \<noteq> 0)"
| "truthy (Some (JNum (JFrac s))) = True"
| "truthy (Some (JStr s)) = (s \<noteq> [])"
| "truthy (Some (JArr xs)) = True"
| "truthy (Some (JObj ps)) = True"

fun truthy_str :: "string option \<Rightarrow> string option" where
  "truthy_str None = None"
| "truthy_str (Some s) = (if s = [] then None else Some s)"

text \<open>The operator \<open>??\<close>: \<open>null\<close> and \<open>undefined\<close> fall through.\<close>

fun nullish :: "json option \<Rightarrow> json option \<Rightarrow> json option" where
  "nullish None d = d"
| "nullish (Some JNull) d = d"
| "nullish (Some v) d = Some v"

lemma as_str_eq_Some [js_simps, simp]: "as_str v = Some s \<longleftrightarrow> v = Some (JStr s)"
  by (cases v rule: as_str.cases) auto

lemma safe_int_eq_Some [js_simps]: "safe_int v = Some n \<longleftrightarrow> v = Some (JNum (JInt n)) \<and> \<bar>n\<bar> \<le> max_safe"
  by (cases v rule: safe_int.cases) auto

lemma safe_int_JInt [simp]: "\<bar>n\<bar> \<le> max_safe \<Longrightarrow> safe_int (Some (JNum (JInt n))) = Some n"
  by simp

lemma isRecord_iff: "isRecord v \<longleftrightarrow> (\<exists>ps. v = JObj ps)"
  by (cases v) auto

lemma truthy_str_eq_Some [simp]: "truthy_str x = Some s \<longleftrightarrow> x = Some s \<and> s \<noteq> []"
  by (cases x) auto

lemma truthy_str_eq_None [simp]: "truthy_str x = None \<longleftrightarrow> x = None \<or> x = Some []"
  by (cases x) auto

lemma truthy_str_idem [simp]: "truthy_str (truthy_str x) = truthy_str x"
  by (cases x) auto

section \<open>Optional properties\<close>

text \<open>The spread \<open>...(c ? { k: v } : {})\<close>.\<close>

fun opt_prop :: "string \<Rightarrow> ('a \<Rightarrow> json) \<Rightarrow> 'a option \<Rightarrow> (string \<times> json) list" where
  "opt_prop k f None = []"
| "opt_prop k f (Some v) = [(k, f v)]"

lemma map_of_append_opt: "map_of (xs @ ys) k = (case map_of xs k of Some v \<Rightarrow> Some v | None \<Rightarrow> map_of ys k)"
  by (simp add: map_add_def)

lemma map_of_opt_prop [simp]:
  "map_of (opt_prop k f v) k' = (if k = k' then map_option f v else None)"
  by (cases v) auto

section \<open>Plain objects used as dictionaries\<close>

text \<open>
  Own properties are enumerated with the array-index keys first, ascending, and
  the others in insertion order. \<open>obj_set\<close> keeps the list in that order.
\<close>

definition is_index_key :: "string \<Rightarrow> bool" where
  "is_index_key k = (k \<noteq> [] \<and> list_all is_digit k \<and> (k = ''0'' \<or> hd k \<noteq> CHR ''0'')
      \<and> read_nat k < 4294967295)"

fun obj_insert :: "string \<Rightarrow> 'a \<Rightarrow> 'a jsmap \<Rightarrow> 'a jsmap" where
  "obj_insert k v [] = [(k, v)]"
| "obj_insert k v ((k', v') # m) =
     (if is_index_key k \<and> (\<not> is_index_key k' \<or> read_nat k < read_nat k')
      then (k, v) # (k', v') # m else (k', v') # obj_insert k v m)"

definition obj_set :: "string \<Rightarrow> 'a \<Rightarrow> 'a jsmap \<Rightarrow> 'a jsmap" where
  "obj_set k v m = (if k \<in> fst ` set m then AList.update k v m else obj_insert k v m)"

text \<open>Names every plain object inherits from \<open>Object.prototype\<close>.\<close>

definition proto_names :: "string list" where
  "proto_names = [''constructor'', ''__defineGetter__'', ''__defineSetter__'', ''hasOwnProperty'',
     ''__lookupGetter__'', ''__lookupSetter__'', ''isPrototypeOf'', ''propertyIsEnumerable'',
     ''toString'', ''valueOf'', ''__proto__'', ''toLocaleString'']"

text \<open>A property read: an own value, an inherited member, or \<open>undefined\<close>.\<close>

datatype 'a obj_read = Own 'a | Inherited | Undefined

definition obj_get :: "'a jsmap \<Rightarrow> string \<Rightarrow> 'a obj_read" where
  "obj_get m k = (case map_of m k of Some v \<Rightarrow> Own v
     | None \<Rightarrow> if k \<in> set proto_names then Inherited else Undefined)"

text \<open>The enumeration order, as a property of the list of keys.\<close>

definition key_before :: "string \<Rightarrow> string \<Rightarrow> bool" where
  "key_before k k' = (is_index_key k' \<longrightarrow> is_index_key k \<and> read_nat k < read_nat k')"

definition obj_ordered :: "'a jsmap \<Rightarrow> bool" where
  "obj_ordered m = sorted_wrt key_before (map fst m)"

lemma set_obj_insert [simp]: "set (obj_insert k v m) = insert (k, v) (set m)"
proof (induction m)
  case (Cons p m)
  then show ?case by (cases p) (simp add: insert_commute)
qed simp

lemma fst_set_obj_set [simp]: "fst ` set (obj_set k v m) = insert k (fst ` set m)"
  by (auto simp: obj_set_def dom_update)

lemma map_of_obj_insert: "k \<notin> fst ` set m \<Longrightarrow> map_of (obj_insert k v m) = (map_of m)(k \<mapsto> v)"
  by (induction m) (auto simp: fun_eq_iff)

lemma map_of_obj_set [simp]: "map_of (obj_set k v m) = (map_of m)(k \<mapsto> v)"
  by (simp add: obj_set_def map_of_obj_insert)

lemma distinct_obj_insert:
  "k \<notin> fst ` set m \<Longrightarrow> distinct (map fst (obj_insert k v m)) = distinct (map fst m)"
proof (induction m)
  case (Cons p m)
  then show ?case by (cases p) (auto simp: rev_image_eqI)
qed simp

lemma keys_ok_obj_set: "keys_ok key m \<Longrightarrow> key v = k \<Longrightarrow> keys_ok key (obj_set k v m)"
  unfolding obj_set_def
  by (cases "k \<in> fst ` set m") (simp_all add: keys_ok_map_set, auto simp: keys_ok_def distinct_obj_insert)

lemma obj_insert_last:
  "\<forall>k' \<in> fst ` set m. key_before k' k \<Longrightarrow> obj_insert k v m = m @ [(k, v)]"
  by (induction m) (auto simp: key_before_def)

lemma obj_ordered_rebuild:
  assumes "distinct (map fst (xs @ ys))" "obj_ordered (xs @ ys)"
  shows "fold (\<lambda>(k, v). obj_set k v) ys xs = xs @ ys"
  using assms
proof (induction ys arbitrary: xs)
  case Nil
  then show ?case by simp
next
  case (Cons y ys)
  obtain k v where y: "y = (k, v)" by (cases y)
  have "obj_set k v xs = xs @ [(k, v)]"
    using Cons.prems unfolding obj_ordered_def y
    by (subst obj_insert_last [symmetric]) (auto simp: obj_set_def sorted_wrt_append)
  moreover have "fold (\<lambda>(k, v). obj_set k v) ys (xs @ [(k, v)]) = (xs @ [(k, v)]) @ ys"
    using Cons.prems y by (intro Cons.IH) auto
  ultimately show ?case using y by simp
qed

lemma index_key_inj:
  assumes "is_index_key k" "is_index_key k'" "read_nat k = read_nat k'"
  shows "k = k'"
  using assms show_read_nat [of k] show_read_nat [of k'] unfolding is_index_key_def by metis

lemma key_before_total: "k \<noteq> k' \<Longrightarrow> \<not> key_before k k' \<Longrightarrow> key_before k' k"
  using index_key_inj [of k k'] nat_neq_iff by (auto simp: key_before_def)

lemma key_before_trans: "key_before a b \<Longrightarrow> key_before b c \<Longrightarrow> key_before a c"
  by (auto simp: key_before_def)

lemma obj_ordered_insert:
  "k \<notin> fst ` set m \<Longrightarrow> obj_ordered m \<Longrightarrow> obj_ordered (obj_insert k v m)"
proof (induction m)
  case Nil
  then show ?case by (simp add: obj_ordered_def)
next
  case (Cons p m)
  obtain k' v' where p: "p = (k', v')" by (cases p)
  have ord: "\<forall>x \<in> fst ` set m. key_before k' x" "obj_ordered m"
    using Cons.prems by (auto simp: obj_ordered_def p)
  show ?case
  proof (cases "is_index_key k \<and> (\<not> is_index_key k' \<or> read_nat k < read_nat k')")
    case True
    then have "key_before k k'" by (auto simp: key_before_def)
    then show ?thesis
      using True Cons.prems(2) ord key_before_trans by (auto simp: obj_ordered_def p)
  next
    case False
    then have "key_before k' k"
      using Cons.prems(1) index_key_inj [of k k'] by (force simp: key_before_def p)
    moreover have "obj_ordered (obj_insert k v m)"
      using Cons.IH Cons.prems(1) ord(2) by (simp add: p)
    ultimately show ?thesis
      using False ord(1) by (auto simp: obj_ordered_def p)
  qed
qed

lemma obj_ordered_set: "obj_ordered m \<Longrightarrow> obj_ordered (obj_set k v m)"
proof (cases "k \<in> fst ` set m")
  case True
  assume "obj_ordered m"
  moreover have "map fst (AList.update k v m) = map fst m"
    using True by (simp add: update_keys)
  ultimately show ?thesis using True by (simp add: obj_set_def obj_ordered_def)
next
  case False
  assume "obj_ordered m"
  then show ?thesis using False by (simp add: obj_set_def obj_ordered_insert)
qed

end
