(* ===== verification/Js_Json.thy ===== *)
theory Js_Json
  imports Js_Value
begin

text \<open>
  JSON text: \<open>JSON.stringify\<close> without indentation and \<open>JSON.parse\<close>, on the value
  type of \<^theory_text>\<open>Js_Value\<close>, and the round trip between them. The parser is the
  grammar of RFC 8259 on code units below 256 (an escape that denotes a larger
  code unit has no value in the model). Its recursion is bounded by the length
  of the text, which \<open>parse_stringify\<close> shows to be enough.
\<close>

section \<open>Printing\<close>

abbreviation "quote_c \<equiv> CHR 0x22"
abbreviation "bslash_c \<equiv> CHR 0x5C"

definition hex_digit :: "nat \<Rightarrow> char" where
  "hex_digit n = (if n < 10 then char_of (48 + n) else char_of (87 + n))"

definition hex_val :: "char \<Rightarrow> nat" where
  "hex_val c = (let n = of_char c in if n \<le> 57 then n - 48 else if n \<le> 70 then n - 55 else n - 87)"

definition escape :: "char \<Rightarrow> string" where
  "escape c = (let n = (of_char c :: nat) in
     if c = quote_c then [bslash_c, quote_c]
     else if c = bslash_c then [bslash_c, bslash_c]
     else if n = 8 then [bslash_c, CHR ''b'']
     else if n = 9 then [bslash_c, CHR ''t'']
     else if n = 10 then [bslash_c, CHR ''n'']
     else if n = 12 then [bslash_c, CHR ''f'']
     else if n = 13 then [bslash_c, CHR ''r'']
     else if n < 32 then [bslash_c, CHR ''u'', CHR ''0'', CHR ''0'', hex_digit (n div 16), hex_digit (n mod 16)]
     else [c])"

definition stringify_str :: "string \<Rightarrow> string" where
  "stringify_str s = quote_c # concat (map escape s) @ [quote_c]"

fun join :: "string \<Rightarrow> string list \<Rightarrow> string" where
  "join sep [] = []"
| "join sep [x] = x"
| "join sep (x # y # xs) = x @ sep @ join sep (y # xs)"

fun stringify_num :: "jnum \<Rightarrow> string" where
  "stringify_num (JInt n) = show_int n"
| "stringify_num (JFrac s) = s"

fun stringify :: "json \<Rightarrow> string" where
  "stringify JNull = ''null''"
| "stringify (JBool b) = (if b then ''true'' else ''false'')"
| "stringify (JNum n) = stringify_num n"
| "stringify (JStr s) = stringify_str s"
| "stringify (JArr xs) = ''['' @ join '','' (map stringify xs) @ '']''"
| "stringify (JObj ps) =
     ''{'' @ join '','' (map (\<lambda>(k, v). stringify_str k @ '':'' @ stringify v) ps) @ ''}''"

section \<open>Parsing\<close>

definition json_ws :: "char \<Rightarrow> bool" where
  "json_ws c = (let n = (of_char c :: nat) in n = 9 \<or> n = 10 \<or> n = 13 \<or> n = 32)"

abbreviation "skip_ws \<equiv> dropWhile json_ws"

fun simple_escape :: "char \<Rightarrow> char option" where
  "simple_escape e =
     (if e = quote_c \<or> e = bslash_c \<or> e = CHR ''/'' then Some e
      else if e = CHR ''b'' then Some (char_of (8::nat))
      else if e = CHR ''t'' then Some (char_of (9::nat))
      else if e = CHR ''n'' then Some (char_of (10::nat))
      else if e = CHR ''f'' then Some (char_of (12::nat))
      else if e = CHR ''r'' then Some (char_of (13::nat))
      else None)"

definition unicode_escape :: "char \<Rightarrow> char \<Rightarrow> char \<Rightarrow> char \<Rightarrow> char option" where
  "unicode_escape a b c d =
     (if any_hex a \<and> any_hex b \<and> any_hex c \<and> any_hex d \<and> hex_val a = 0 \<and> hex_val b = 0
      then Some (char_of (16 * hex_val c + hex_val d)) else None)"

fun parse_str :: "string \<Rightarrow> (string \<times> string) option" where
  "parse_str [] = None"
| "parse_str (c # cs) =
     (if c = quote_c then Some ([], cs)
      else if c = bslash_c then
        (case cs of
           [] \<Rightarrow> None
         | e # es \<Rightarrow>
             if e = CHR ''u'' then
               (case es of
                  h1 # h2 # h3 # h4 # r \<Rightarrow>
                    (case unicode_escape h1 h2 h3 h4 of
                       None \<Rightarrow> None
                     | Some x \<Rightarrow> map_option (\<lambda>(t, r'). (x # t, r')) (parse_str r))
                | _ \<Rightarrow> None)
             else
               (case simple_escape e of
                  None \<Rightarrow> None
                | Some x \<Rightarrow> map_option (\<lambda>(t, r'). (x # t, r')) (parse_str es)))
      else if (of_char c :: nat) < 32 then None
      else map_option (\<lambda>(t, r'). (c # t, r')) (parse_str cs))"

definition parse_frac :: "string \<Rightarrow> (string \<times> string) option" where
  "parse_frac s = (case s of
     c # cs \<Rightarrow> if c = CHR ''.'' then
         (if takeWhile is_digit cs = [] then None
          else Some (c # takeWhile is_digit cs, dropWhile is_digit cs))
       else Some ([], s)
   | [] \<Rightarrow> Some ([], []))"

definition parse_exp :: "string \<Rightarrow> (string \<times> string) option" where
  "parse_exp s = (case s of
     c # cs \<Rightarrow> if c = CHR ''e'' \<or> c = CHR ''E'' then
         (let sg = takeWhile (\<lambda>x. x = CHR ''+'' \<or> x = CHR ''-'') cs;
              r = dropWhile (\<lambda>x. x = CHR ''+'' \<or> x = CHR ''-'') cs
          in if length sg \<le> 1 \<and> takeWhile is_digit r \<noteq> []
             then Some (c # sg @ takeWhile is_digit r, dropWhile is_digit r) else None)
       else Some ([], s)
   | [] \<Rightarrow> Some ([], []))"

definition parse_num :: "string \<Rightarrow> (json \<times> string) option" where
  "parse_num s =
     (let neg = (s \<noteq> [] \<and> hd s = CHR ''-'');
          s1 = (if neg then tl s else s);
          ds = takeWhile is_digit s1
      in if ds = [] \<or> (hd ds = CHR ''0'' \<and> ds \<noteq> ''0'') then None
         else case parse_frac (dropWhile is_digit s1) of
             None \<Rightarrow> None
           | Some (fr, r1) \<Rightarrow>
               (case parse_exp r1 of
                  None \<Rightarrow> None
                | Some (ex, r2) \<Rightarrow>
                    if fr = [] \<and> ex = []
                    then Some (JNum (JInt (if neg then - int (read_nat ds) else int (read_nat ds))), r2)
                    else Some (JNum (JFrac ((if neg then ''-'' else []) @ ds @ fr @ ex)), r2)))"

definition parse_lit :: "string \<Rightarrow> (json \<times> string) option" where
  "parse_lit s =
     (if take 4 s = ''null'' then Some (JNull, drop 4 s)
      else if take 4 s = ''true'' then Some (JBool True, drop 4 s)
      else if take 5 s = ''false'' then Some (JBool False, drop 5 s)
      else parse_num s)"

text \<open>
  \<open>parse_elems\<close> and \<open>parse_members\<close> read the rest of an array and of an object whose
  first element is still to come; a repeated key keeps its place and takes the
  last value.
\<close>

fun parse_value :: "nat \<Rightarrow> string \<Rightarrow> (json \<times> string) option"
  and parse_elems :: "nat \<Rightarrow> json list \<Rightarrow> string \<Rightarrow> (json list \<times> string) option"
  and parse_members :: "nat \<Rightarrow> (string \<times> json) list \<Rightarrow> string \<Rightarrow> ((string \<times> json) list \<times> string) option"
where
  "parse_value 0 s = None"
| "parse_value (Suc f) s =
     (case skip_ws s of
        [] \<Rightarrow> None
      | c # cs \<Rightarrow>
          if c = CHR ''{'' then
            (case skip_ws cs of
               [] \<Rightarrow> None
             | d # ds \<Rightarrow> if d = CHR ''}'' then Some (JObj [], ds)
                 else map_option (\<lambda>(ps, r). (JObj ps, r)) (parse_members f [] (d # ds)))
          else if c = CHR ''['' then
            (case skip_ws cs of
               [] \<Rightarrow> None
             | d # ds \<Rightarrow> if d = CHR '']'' then Some (JArr [], ds)
                 else map_option (\<lambda>(xs, r). (JArr xs, r)) (parse_elems f [] (d # ds)))
          else if c = quote_c then map_option (\<lambda>(t, r). (JStr t, r)) (parse_str cs)
          else parse_lit (c # cs))"
| "parse_elems 0 acc s = None"
| "parse_elems (Suc f) acc s =
     (case parse_value f s of
        None \<Rightarrow> None
      | Some (v, r) \<Rightarrow>
          (case skip_ws r of
             [] \<Rightarrow> None
           | c # cs \<Rightarrow> if c = CHR '','' then parse_elems f (acc @ [v]) cs
               else if c = CHR '']'' then Some (acc @ [v], cs) else None))"
| "parse_members 0 acc s = None"
| "parse_members (Suc f) acc s =
     (case skip_ws s of
        [] \<Rightarrow> None
      | q # qs \<Rightarrow> if q \<noteq> quote_c then None else
          (case parse_str qs of
             None \<Rightarrow> None
           | Some (k, r) \<Rightarrow>
               (case skip_ws r of
                  [] \<Rightarrow> None
                | c # cs \<Rightarrow> if c \<noteq> CHR '':'' then None else
                    (case parse_value f cs of
                       None \<Rightarrow> None
                     | Some (v, r2) \<Rightarrow>
                         (case skip_ws r2 of
                            [] \<Rightarrow> None
                          | d # ds \<Rightarrow> if d = CHR '','' then parse_members f (obj_set k v acc) ds
                              else if d = CHR ''}'' then Some (obj_set k v acc, ds) else None)))))"

definition json_parse :: "string \<Rightarrow> json option" where
  "json_parse s = (case parse_value (Suc (2 * length s)) s of
     Some (v, r) \<Rightarrow> if skip_ws r = [] then Some v else None
   | None \<Rightarrow> None)"

section \<open>Round trip\<close>

text \<open>The values \<open>JSON.stringify\<close> prints back exactly: objects in enumeration order, integers.\<close>

fun wf_json :: "json \<Rightarrow> bool" where
  "wf_json (JNum (JFrac s)) = False"
| "wf_json (JArr xs) = list_all wf_json xs"
| "wf_json (JObj ps) = (distinct (map fst ps) \<and> obj_ordered ps \<and> list_all (\<lambda>(k, v). wf_json v) ps)"
| "wf_json _ = True"

definition stop :: "string \<Rightarrow> bool" where
  "stop r = (r = [] \<or> hd r = CHR '','' \<or> hd r = CHR '']'' \<or> hd r = CHR ''}'')"

lemma stop_Nil [simp]: "stop []"
  by (simp add: stop_def)

lemma stop_Cons [simp]: "stop (c # r) \<longleftrightarrow> c = CHR '','' \<or> c = CHR '']'' \<or> c = CHR ''}''"
  by (simp add: stop_def)

lemma hex_digit_any_hex: "n < 16 \<Longrightarrow> any_hex (hex_digit n)"
  by (simp add: hex_digit_def any_hex_def Let_def)

lemma hex_val_digit: "n < 16 \<Longrightarrow> hex_val (hex_digit n) = n"
  by (simp add: hex_digit_def hex_val_def Let_def)

lemma unicode_escape_low:
  "n < 32 \<Longrightarrow> unicode_escape (CHR ''0'') (CHR ''0'') (hex_digit (n div 16)) (hex_digit (n mod 16))
     = Some (char_of n)"
  by (simp add: unicode_escape_def hex_digit_any_hex hex_val_digit)
     (simp add: any_hex_def hex_val_def)

lemma char_of_eqI: "of_char c = (n :: nat) \<Longrightarrow> char_of n = c"
  by auto

lemma parse_str_escape:
  "parse_str (escape c @ t) = map_option (\<lambda>(u, r). (c # u, r)) (parse_str t)"
proof -
  let ?n = "of_char c :: nat"
  consider (q) "c = quote_c" | (b) "c = bslash_c" "c \<noteq> quote_c"
    | (e) "?n \<in> {8, 9, 10, 12, 13}" "c \<noteq> quote_c" "c \<noteq> bslash_c"
    | (u) "?n < 32" "?n \<notin> {8, 9, 10, 12, 13}" "c \<noteq> quote_c" "c \<noteq> bslash_c"
    | (o) "\<not> ?n < 32" "c \<noteq> quote_c" "c \<noteq> bslash_c"
    by blast
  then show ?thesis
  proof cases
    case e
    then show ?thesis by (auto simp: escape_def Let_def dest!: char_of_eqI)
  next
    case u
    have "unicode_escape (CHR ''0'') (CHR ''0'') (hex_digit (?n div 16)) (hex_digit (?n mod 16)) = Some c"
      using unicode_escape_low [OF u(1)] by simp
    then show ?thesis using u by (simp add: escape_def Let_def)
  next
    case o
    then have "?n \<notin> {8, 9, 10, 12, 13}" by auto
    then show ?thesis using o by (simp add: escape_def Let_def)
  qed (simp_all add: escape_def Let_def)
qed

lemma parse_str_stringify: "parse_str (concat (map escape s) @ quote_c # r) = Some (s, r)"
proof (induction s)
  case (Cons c s)
  then show ?case by (simp add: parse_str_escape)
qed simp

lemma is_digit_simps [simp]:
  "\<not> is_digit (CHR '','')" "\<not> is_digit (CHR '']'')" "\<not> is_digit (CHR ''}'')" "\<not> is_digit (CHR ''-'')"
  by (simp_all add: is_digit_def)

lemma stop_num:
  assumes "stop r"
  shows "takeWhile is_digit r = []" "dropWhile is_digit r = r" "parse_frac r = Some ([], r)" "parse_exp r = Some ([], r)"
  using assms by (cases r; auto simp: parse_frac_def parse_exp_def)+

lemma takeWhile_digits:
  assumes "stop r"
  shows "takeWhile is_digit (show_nat n @ r) = show_nat n" "dropWhile is_digit (show_nat n @ r) = r"
  using assms show_nat_digits [of n] stop_num by (auto simp: takeWhile_append dropWhile_append list_all_iff)

lemma show_nat_hd: "is_digit (hd (show_nat n))"
  using show_nat_digits [of n] by (cases "show_nat n") auto

lemma parse_num_show:
  assumes "stop r" shows "parse_num (show_int i @ r) = Some (JNum (JInt i), r)"
proof (cases "i < 0")
  case True
  then show ?thesis
    using assms show_nat_no_leading_zero [of "nat (- i)"]
    by (auto simp: parse_num_def show_int_def takeWhile_digits stop_num Let_def)
next
  case False
  have "hd (show_nat (nat i) @ r) \<noteq> CHR ''-''"
    using show_nat_hd [of "nat i"] by auto
  then show ?thesis
    using False assms show_nat_no_leading_zero [of "nat i"]
    by (auto simp: parse_num_def show_int_def takeWhile_digits stop_num Let_def)
qed

lemma digit_or_minus_cases:
  "is_digit c \<or> c = CHR ''-'' \<Longrightarrow>
    \<not> json_ws c \<and> c \<noteq> CHR '']'' \<and> c \<noteq> CHR ''}'' \<and> c \<noteq> CHR ''{'' \<and> c \<noteq> CHR ''['' \<and> c \<noteq> quote_c
      \<and> c \<noteq> CHR ''n'' \<and> c \<noteq> CHR ''t'' \<and> c \<noteq> CHR ''f''"
  by (auto simp: is_digit_def json_ws_def Let_def)

lemma show_int_first:
  "\<exists>c t. show_int i = c # t \<and> (is_digit c \<or> c = CHR ''-'')"
  using show_nat_hd [of "nat i"] by (cases "show_nat (nat i)") (auto simp: show_int_def)

text \<open>No printed value starts with white space or a closing bracket.\<close>

lemma stringify_first:
  "wf_json j \<Longrightarrow> \<exists>c t. stringify j = c # t \<and> \<not> json_ws c \<and> c \<noteq> CHR '']'' \<and> c \<noteq> CHR ''}''"
proof (cases j)
  case (JNum n)
  assume "wf_json j"
  then obtain i where "n = JInt i" using JNum by (cases n) auto
  then show ?thesis using JNum show_int_first [of i] digit_or_minus_cases by force
qed (auto simp: json_ws_def stringify_str_def)

lemma parse_value_scalar:
  assumes "stop r"
  shows "parse_value (Suc f) (stringify JNull @ r) = Some (JNull, r)"
    and "parse_value (Suc f) (stringify (JBool b) @ r) = Some (JBool b, r)"
    and "parse_value (Suc f) (stringify (JNum (JInt i)) @ r) = Some (JNum (JInt i), r)"
    and "parse_value (Suc f) (stringify (JStr s) @ r) = Some (JStr s, r)"
proof -
  obtain c t where ct: "show_int i = c # t" "is_digit c \<or> c = CHR ''-''"
    using show_int_first by blast
  note c = digit_or_minus_cases [OF ct(2)]
  have "parse_lit (show_int i @ r) = parse_num (show_int i @ r)"
    using c by (auto simp: parse_lit_def ct(1))
  then show "parse_value (Suc f) (stringify (JNum (JInt i)) @ r) = Some (JNum (JInt i), r)"
    using c parse_num_show [OF assms, of i] by (simp add: ct(1))
qed (use assms parse_str_stringify in \<open>auto simp: json_ws_def parse_lit_def stringify_str_def\<close>)

lemma parse_elems_stringify:
  assumes "\<And>x f r. x \<in> set (y # xs) \<Longrightarrow> stop r \<Longrightarrow> 2 * length (stringify x) < f
             \<Longrightarrow> parse_value f (stringify x @ r) = Some (x, r)"
    and "2 * length (join '','' (map stringify (y # xs))) + 1 < f"
  shows "parse_elems f acc (join '','' (map stringify (y # xs)) @ CHR '']'' # r) = Some (acc @ y # xs, r)"
  using assms
proof (induction xs arbitrary: f acc y)
  case Nil
  obtain f' where f: "f = Suc f'" using Nil.prems(2) by (cases f) auto
  then show ?case using Nil.prems by (simp add: json_ws_def)
next
  case (Cons x xs)
  obtain f' where f: "f = Suc f'" using Cons.prems(2) by (cases f) auto
  let ?rest = "join '','' (map stringify (x # xs)) @ CHR '']'' # r"
  have "parse_value f' (stringify y @ CHR '','' # ?rest) = Some (y, CHR '','' # ?rest)"
    using Cons.prems f by simp
  moreover have "parse_elems f' (acc @ [y]) ?rest = Some ((acc @ [y]) @ x # xs, r)"
    using Cons.prems f by (intro Cons.IH) auto
  ultimately show ?case using f by (simp add: json_ws_def)
qed

definition member_text :: "string \<times> json \<Rightarrow> string" where
  "member_text = (\<lambda>(k, v). stringify_str k @ '':'' @ stringify v)"

lemma member_text_pair [simp]: "member_text (k, v) = stringify_str k @ '':'' @ stringify v"
  by (simp add: member_text_def)

lemma parse_members_stringify:
  assumes "\<And>k x f r. (k, x) \<in> set (y # ps) \<Longrightarrow> stop r \<Longrightarrow> 2 * length (stringify x) < f
             \<Longrightarrow> parse_value f (stringify x @ r) = Some (x, r)"
    and "2 * length (join '','' (map member_text (y # ps))) + 1 < f"
  shows "parse_members f acc (join '','' (map member_text (y # ps)) @ CHR ''}'' # r)
    = Some (fold (\<lambda>(k, v). obj_set k v) (y # ps) acc, r)"
  using assms
proof (induction ps arbitrary: f acc y)
  case Nil
  obtain f' where f: "f = Suc f'" using Nil.prems(2) by (cases f) auto
  obtain k v where y: "y = (k, v)" by (cases y)
  have "parse_value f' (stringify v @ CHR ''}'' # r) = Some (v, CHR ''}'' # r)"
    using Nil.prems f y by simp
  then show ?case using f y by (simp add: stringify_str_def parse_str_stringify json_ws_def)
next
  case (Cons p ps)
  obtain f' where f: "f = Suc f'" using Cons.prems(2) by (cases f) auto
  obtain k v where y: "y = (k, v)" by (cases y)
  let ?rest = "join '','' (map member_text (p # ps)) @ CHR ''}'' # r"
  have "parse_value f' (stringify v @ CHR '','' # ?rest) = Some (v, CHR '','' # ?rest)"
    using Cons.prems(1) [of k v] Cons.prems(2) f y by simp
  moreover have "parse_members f' (obj_set k v acc) ?rest
      = Some (fold (\<lambda>(k, v). obj_set k v) (p # ps) (obj_set k v acc), r)"
    using Cons.prems f by (intro Cons.IH) auto
  ultimately show ?case
    using f y by (simp add: stringify_str_def parse_str_stringify json_ws_def)
qed

text \<open>Two units of recursion per character are enough to read a printed value back.\<close>

lemma parse_value_stringify:
  "wf_json j \<Longrightarrow> stop r \<Longrightarrow> 2 * length (stringify j) < f \<Longrightarrow> parse_value f (stringify j @ r) = Some (j, r)"
proof (induction j arbitrary: f r rule: stringify.induct)
  case 1
  then show ?case using parse_value_scalar(1) by (metis gr0_implies_Suc not_less_zero bot_nat_0.not_eq_extremum)
next
  case (2 b)
  then show ?case using parse_value_scalar(2) by (metis gr0_implies_Suc not_less_zero bot_nat_0.not_eq_extremum)
next
  case (3 n)
  then obtain i where "n = JInt i" by (cases n) auto
  then show ?case using 3 parse_value_scalar(3) by (metis gr0_implies_Suc not_less_zero bot_nat_0.not_eq_extremum)
next
  case (4 s)
  then show ?case using parse_value_scalar(4) by (metis gr0_implies_Suc not_less_zero bot_nat_0.not_eq_extremum)
next
  case (5 xs)
  obtain f' where f: "f = Suc f'" using 5 by (cases f) auto
  show ?case
  proof (cases xs)
    case Nil
    then show ?thesis using f by (simp add: json_ws_def)
  next
    case (Cons y ys)
    obtain c t where c: "stringify y = c # t" "\<not> json_ws c" "c \<noteq> CHR '']''"
      using 5(2) Cons stringify_first by force
    then obtain t' where t': "join '','' (map stringify xs) = c # t'"
      using Cons by (cases ys) auto
    have "parse_elems f' [] (join '','' (map stringify xs) @ CHR '']'' # r) = Some ([] @ xs, r)"
      using 5 f Cons by (intro parse_elems_stringify [of y ys, folded Cons]) (auto simp: list_all_iff)
    then show ?thesis using f c t' by (simp add: json_ws_def)
  qed
next
  case (6 ps)
  obtain f' where f: "f = Suc f'" using 6 by (cases f) auto
  have shape: "stringify (JObj ps) = ''{'' @ join '','' (map member_text ps) @ ''}''"
    by (simp add: member_text_def)
  show ?case
  proof (cases ps)
    case Nil
    then show ?thesis using f by (simp add: json_ws_def)
  next
    case (Cons y ys)
    obtain t' where t': "join '','' (map member_text ps) = quote_c # t'"
      using Cons by (cases y; cases ys) (auto simp: stringify_str_def)
    have ih: "parse_value f (stringify x @ r) = Some (x, r)"
      if "(k, x) \<in> set ps" "stop r" "2 * length (stringify x) < f" for k x f r
      using 6(1) [OF that(1) refl, of r f] that 6(2) by (auto simp: list_all_iff)
    have "2 * length (join '','' (map member_text ps)) + 1 < f'"
      using 6(4) f unfolding shape by simp
    then have "parse_members f' [] (join '','' (map member_text ps) @ CHR ''}'' # r)
        = Some (fold (\<lambda>(k, v). obj_set k v) ps [], r)"
      using ih unfolding Cons by (intro parse_members_stringify) auto
    moreover have "fold (\<lambda>(k, v). obj_set k v) ps [] = ps"
      using obj_ordered_rebuild [of "[]" ps] 6(2) by simp
    ultimately show ?thesis using f t' unfolding shape by (simp add: json_ws_def)
  qed
qed

lemma parse_stringify [js_simps]: "wf_json j \<Longrightarrow> json_parse (stringify j) = Some j"
  using parse_value_stringify [of j "[]"] by (simp add: json_parse_def del: parse_value.simps)

section \<open>UTF-8\<close>

text \<open>UTF-8 of code units below 256, and its decoding (no value for other sequences).\<close>

definition utf8_char :: "char \<Rightarrow> string" where
  "utf8_char c = (let n = (of_char c :: nat) in
     if n < 128 then [c] else [char_of (192 + n div 64), char_of (128 + n mod 64)])"

definition utf8 :: "string \<Rightarrow> string" where
  "utf8 s = concat (map utf8_char s)"

fun utf8_decode :: "string \<Rightarrow> string option" where
  "utf8_decode [] = Some []"
| "utf8_decode (c # cs) =
     (if (of_char c :: nat) < 128 then map_option ((#) c) (utf8_decode cs)
      else case cs of
          [] \<Rightarrow> None
        | d # ds \<Rightarrow>
            (let n = of_char c; m = of_char d in
             if (n = 194 \<or> n = 195) \<and> 128 \<le> m \<and> m < 192
             then map_option ((#) (char_of ((n - 192) * 64 + (m - 128 :: nat)))) (utf8_decode ds)
             else None))"

lemma utf8_decode_char: "utf8_decode (utf8_char c @ s) = map_option ((#) c) (utf8_decode s)"
proof (cases "(of_char c :: nat) < 128")
  case True
  then show ?thesis by (simp add: utf8_char_def Let_def)
next
  case False
  let ?n = "of_char c :: nat"
  have n: "128 \<le> ?n" "?n < 256" using False by auto
  have "?n div 64 < 4" using less_mult_imp_div_less [of ?n 4 64] n(2) by linarith
  moreover have "2 \<le> ?n div 64" using div_le_mono [OF n(1), of 64] by simp
  ultimately have "?n div 64 = 2 \<or> ?n div 64 = 3" by linarith
  moreover have "char_of (?n div 64 * 64 + ?n mod 64) = c" by (simp only: div_mult_mod_eq char_of_char)
  moreover have "?n < 64 + ?n div 64 * 64" using dividend_less_div_times [of 64 ?n] by simp
  ultimately show ?thesis using False n(1)
    by (elim disjE) (simp_all add: utf8_char_def Let_def)
qed

lemma utf8_decode_utf8 [js_simps]: "utf8_decode (utf8 s) = Some s"
  by (induction s) (auto simp: utf8_def utf8_decode_char)

lemma utf8_inject [simp]: "utf8 s = utf8 t \<longleftrightarrow> s = t"
  by (metis utf8_decode_utf8 option.inject)

end
