(* ===== verification/Utc_Date.thy ===== *)
theory Utc_Date
  imports Prelude
begin

text \<open>
  The UTC calendar of JavaScript's \<open>Date\<close> as the program uses it: the fields of a time
  value, \<open>setUTCFullYear\<close> and \<open>toISOString\<close>. Time values are milliseconds since 1970, days
  and years follow the definitions of the language (the proleptic Gregorian calendar).
\<close>

section \<open>Days and years\<close>

definition day_from_year :: "int \<Rightarrow> int" where
  "day_from_year y = 365 * (y - 1970) + (y - 1969) div 4 - (y - 1901) div 100 + (y - 1601) div 400"

definition leap_year :: "int \<Rightarrow> bool" where
  "leap_year y = ((y mod 4 = 0 \<and> y mod 100 \<noteq> 0) \<or> y mod 400 = 0)"

definition year_from_day :: "int \<Rightarrow> int" where
  "year_from_day d = (let y = 1970 + (400 * d) div 146097 in
     if d < day_from_year y then y - 1 else if day_from_year (y + 1) \<le> d then y + 1 else y)"

definition month_starts :: "bool \<Rightarrow> int list" where
  "month_starts leap = (let l = (if leap then 1 else 0) in
     [0, 31, 59 + l, 90 + l, 120 + l, 151 + l, 181 + l, 212 + l, 243 + l, 273 + l, 304 + l, 334 + l])"

text \<open>Year, month from 0 and day of the month of a day.\<close>

definition month_date :: "bool \<Rightarrow> int \<Rightarrow> nat \<times> int" where
  "month_date leap n = (let m = length (takeWhile (\<lambda>s. s \<le> n) (month_starts leap)) - 1 in (m, n - month_starts leap ! m + 1))"

definition day_fields :: "int \<Rightarrow> int \<times> nat \<times> int" where
  "day_fields d = (let y = year_from_day d in (y, month_date (leap_year y) (d - day_from_year y)))"

definition make_day :: "int \<Rightarrow> nat \<Rightarrow> int \<Rightarrow> int" where
  "make_day y m date = day_from_year y + month_starts (leap_year y) ! m + date - 1"

definition ms_per_day :: int where
  "ms_per_day = 86400000"

definition utc_fields :: "int \<Rightarrow> int \<times> nat \<times> int" where
  "utc_fields t = day_fields (t div ms_per_day)"

definition setUTCFullYear :: "int \<Rightarrow> int \<Rightarrow> int" where
  "setUTCFullYear y t = (case utc_fields t of (_, m, date) \<Rightarrow> make_day y m date * ms_per_day + t mod ms_per_day)"

definition pad :: "nat \<Rightarrow> int \<Rightarrow> string" where
  "pad w n = (let s = show_nat (nat n) in replicate (w - length s) (CHR ''0'') @ s)"

definition iso_year :: "int \<Rightarrow> string" where
  "iso_year y = (if 0 \<le> y \<and> y \<le> 9999 then pad 4 y
     else if y < 0 then CHR ''-'' # pad 6 (- y) else CHR ''+'' # pad 6 y)"

definition toISOString :: "int \<Rightarrow> string" where
  "toISOString t =
     (let (y, m, d) = utc_fields t; r = t mod ms_per_day
      in iso_year y @ ''-'' @ pad 2 (int m + 1) @ ''-'' @ pad 2 d @ ''T''
         @ pad 2 (r div 3600000) @ '':'' @ pad 2 (r div 60000 mod 60) @ '':''
         @ pad 2 (r div 1000 mod 60) @ ''.'' @ pad 3 (r mod 1000) @ ''Z'')"

lemma toISOString_nonempty [simp]: "toISOString t \<noteq> []"
  by (simp add: toISOString_def Let_def split: prod.splits)

section \<open>The calendar is one\<close>

lemma div_next:
  fixes x k :: int
  assumes "0 < k"
  shows "(x + 1) div k = x div k + (if (x + 1) mod k = 0 then 1 else 0)"
proof (cases "x mod k + 1 < k")
  case True
  have "x + 1 = k * (x div k) + (x mod k + 1)" by simp
  moreover have "0 \<le> x mod k + 1" using assms by (simp add: add_nonneg_nonneg)
  ultimately have "(x + 1) div k = x div k" "(x + 1) mod k = x mod k + 1"
    using True int_div_pos_eq int_mod_pos_eq by blast+
  moreover have "x mod k + 1 \<noteq> 0" using assms by (simp add: add_nonneg_eq_0_iff)
  ultimately show ?thesis by simp
next
  case False
  then have "x mod k = k - 1" using assms pos_mod_bound [of k x] by linarith
  then have "x + 1 = k * (x div k) + k" using mult_div_mod_eq [of k x] by linarith
  then have "x + 1 = k * (x div k + 1) + 0" by (simp add: distrib_left)
  then have "(x + 1) div k = x div k + 1" "(x + 1) mod k = 0"
    using assms int_div_pos_eq [of "x + 1" k "x div k + 1" 0] int_mod_pos_eq [of "x + 1" k "x div k + 1" 0] by simp_all
  then show ?thesis by simp
qed

lemma mod_shift: "(y - c * k) mod k = y mod k" for y c k :: int
  using mod_mult_self1 [of y "- c" k] by simp

lemma leap_divisors: "y mod 400 = 0 \<Longrightarrow> y mod 100 = 0" "y mod 100 = 0 \<Longrightarrow> y mod 4 = 0" for y :: int
  using dvd_trans [of 100 400 y] dvd_trans [of 4 100 y] by (simp_all add: mod_eq_0_iff_dvd)

lemma leap_if:
  "(C \<Longrightarrow> B) \<Longrightarrow> (B \<Longrightarrow> A) \<Longrightarrow> (if (A \<and> \<not> B) \<or> C then 366 else 365 :: int)
     = 365 + (if A then 1 else 0) - (if B then 1 else 0) + (if C then 1 else 0)"
  by (cases A; cases B; cases C) simp_all

lemma day_from_year_next: "day_from_year (y + 1) = day_from_year y + (if leap_year y then 366 else 365)"
proof -
  have four: "(y - 1968) div 4 = (y - 1969) div 4 + (if y mod 4 = 0 then 1 else 0)"
    using div_next [of 4 "y - 1969"] mod_shift [of y 492 4] by simp
  have hundred: "(y - 1900) div 100 = (y - 1901) div 100 + (if y mod 100 = 0 then 1 else 0)"
    using div_next [of 100 "y - 1901"] mod_shift [of y 19 100] by simp
  have many: "(y - 1600) div 400 = (y - 1601) div 400 + (if y mod 400 = 0 then 1 else 0)"
    using div_next [of 400 "y - 1601"] mod_shift [of y 4 400] by simp
  have leap: "(if leap_year y then 366 else 365 :: int)
      = 365 + (if y mod 4 = 0 then 1 else 0) - (if y mod 100 = 0 then 1 else 0) + (if y mod 400 = 0 then 1 else 0)"
    unfolding leap_year_def by (rule leap_if [OF leap_divisors])
  have "day_from_year (y + 1) = 365 * (y - 1970) + 365 + (y - 1968) div 4 - (y - 1900) div 100 + (y - 1600) div 400"
    by (simp add: day_from_year_def)
  also have "\<dots> = day_from_year y + (365 + (if y mod 4 = 0 then 1 else 0) - (if y mod 100 = 0 then 1 else 0)
      + (if y mod 400 = 0 then 1 else 0))"
    unfolding four hundred many day_from_year_def by (simp only: algebra_simps)
  finally show ?thesis unfolding leap .
qed

lemma div_bounds: "k * (x div k) \<le> x" "x < k * (x div k) + k" if "0 < k" for x k :: int
proof -
  have "k * (x div k) + x mod k = x" by simp
  moreover have "0 \<le> x mod k" "x mod k < k" using that by simp_all
  ultimately show "k * (x div k) \<le> x" "x < k * (x div k) + k" by linarith+
qed

lemma linear_years_le:
  fixes y d a b c :: int
  assumes "4 * a \<le> y - 1970" "y - 1902 < 100 * b + 100" "400 * c \<le> y - 1602" "146097 * (y - 1970) \<le> 400 * d"
  shows "400 * 365 * (y - 1971) + 400 * a - 400 * b + 400 * c \<le> 400 * d"
proof -
  have "400 * a \<le> 100 * (y - 1970)" "4 * (y - 1902) \<le> 400 * b + 400" using assms(1,2) by simp_all
  then show ?thesis using assms(3,4) by simp
qed

lemma linear_years_less:
  fixes y d a b c :: int
  assumes "y - 1967 < 4 * a + 4" "100 * b \<le> y - 1899" "y - 1599 < 400 * c + 400" "400 * d < 146097 * (y - 1970) + 146097"
  shows "400 * d < 400 * 365 * (y - 1968) + 400 * a - 400 * b + 400 * c"
proof -
  have "100 * (y - 1967) \<le> 400 * a + 400" "400 * b \<le> 4 * (y - 1899)" using assms(1,2) by simp_all
  then show ?thesis using assms(3,4) by simp
qed

lemma year_estimate:
  assumes "y = 1970 + (400 * d) div 146097"
  shows "day_from_year (y - 1) \<le> d" "d < day_from_year (y + 2)"
proof -
  have y: "y - 1970 = (400 * d) div 146097" using assms by simp
  have e: "146097 * (y - 1970) \<le> 400 * d" "400 * d < 146097 * (y - 1970) + 146097"
    unfolding y by (rule div_bounds, simp)+
  have "400 * day_from_year (y - 1) = 400 * 365 * (y - 1971) + 400 * ((y - 1970) div 4) - 400 * ((y - 1902) div 100)
      + 400 * ((y - 1602) div 400)"
    by (simp add: day_from_year_def algebra_simps)
  also have "\<dots> \<le> 400 * d"
    by (rule linear_years_le [OF div_bounds(1) div_bounds(2) div_bounds(1) e(1)]) simp_all
  finally show "day_from_year (y - 1) \<le> d" by simp
  have "400 * d < 400 * 365 * (y - 1968) + 400 * ((y - 1967) div 4) - 400 * ((y - 1899) div 100)
      + 400 * ((y - 1599) div 400)"
    by (rule linear_years_less [OF div_bounds(2) div_bounds(1) div_bounds(2) e(2)]) simp_all
  also have "\<dots> = 400 * day_from_year (y + 2)"
    by (simp add: day_from_year_def algebra_simps)
  finally show "d < day_from_year (y + 2)" by simp
qed

text \<open>The year of a day is the one it lies in.\<close>

lemma year_from_day_bounds: "day_from_year (year_from_day d) \<le> d" "d < day_from_year (year_from_day d + 1)"
proof -
  define y where "y = 1970 + (400 * d) div 146097"
  have "day_from_year (y - 1) \<le> d" "d < day_from_year (y + 2)" using year_estimate [OF y_def] .
  then have "day_from_year (year_from_day d) \<le> d \<and> d < day_from_year (year_from_day d + 1)"
    unfolding year_from_day_def y_def [symmetric] Let_def by (auto simp: add.commute)
  then show "day_from_year (year_from_day d) \<le> d" "d < day_from_year (year_from_day d + 1)" by simp_all
qed

lemma month_date_bounds:
  assumes "0 \<le> n" "n < (if leap then 366 else 365)" "month_date leap n = (m, date)"
  shows "m < 12" "1 \<le> date" "date \<le> 31" "month_starts leap ! m + date - 1 = n"
proof -
  have "m < 12 \<and> 1 \<le> date \<and> date \<le> 31 \<and> month_starts leap ! m + date - 1 = n"
    using assms by (cases leap) (auto simp: month_date_def month_starts_def Let_def split: if_splits)
  then show "m < 12" "1 \<le> date" "date \<le> 31" "month_starts leap ! m + date - 1 = n" by simp_all
qed

text \<open>The fields of a day name that day.\<close>

lemma make_day_fields:
  assumes "day_fields d = (y, m, date)"
  shows "make_day y m date = d" "m < 12" "1 \<le> date" "date \<le> 31"
proof -
  have y: "y = year_from_day d" "month_date (leap_year y) (d - day_from_year y) = (m, date)"
    using assms by (auto simp: day_fields_def Let_def)
  have "0 \<le> d - day_from_year y" "d - day_from_year y < (if leap_year y then 366 else 365)"
    using year_from_day_bounds [of d] day_from_year_next [of y] y(1) by auto
  note b = month_date_bounds [OF this y(2)]
  show "m < 12" "1 \<le> date" "date \<le> 31" using b by simp_all
  show "make_day y m date = d" using b(4) by (simp add: make_day_def)
qed

end
