(* ===== verification/Receipts.thy ===== *)
theory Receipts
  imports Js_Json Utc_Date
begin

text \<open>
  The canonical public receipt (\<open>api/src/receipts/canonical.ts\<close>): the guard at
  every durable or public receipt boundary, and the construction of a receipt
  from a confirmed indexer observation. \<open>Date.parse\<close> on a textual timestamp is
  implementation-defined and is the argument \<open>date_parse\<close> (milliseconds, or
  \<^const>\<open>None\<close> for an invalid date); indexer timestamps are numbers.
\<close>

section \<open>Domain types\<close>

datatype CivicActionKind = Credential | Vote | Cohort

datatype MidnightRuntimeNetwork = Preview | Devnet | Mainnet | Undeployed

fun action_str :: "CivicActionKind \<Rightarrow> string" where
  "action_str Credential = ''credential''"
| "action_str Vote = ''vote''"
| "action_str Cohort = ''cohort''"

fun network_str :: "MidnightRuntimeNetwork \<Rightarrow> string" where
  "network_str Preview = ''preview''"
| "network_str Devnet = ''devnet''"
| "network_str Mainnet = ''mainnet''"
| "network_str Undeployed = ''undeployed''"

text \<open>\<open>isAction\<close> and \<open>isNetwork\<close>: the member of the union, when the value is one.\<close>

definition action_of_str :: "string \<Rightarrow> CivicActionKind option" where
  "action_of_str s = (if s = ''credential'' then Some Credential
     else if s = ''vote'' then Some Vote else if s = ''cohort'' then Some Cohort else None)"

definition network_of_str :: "string \<Rightarrow> MidnightRuntimeNetwork option" where
  "network_of_str s = (if s = ''preview'' then Some Preview else if s = ''devnet'' then Some Devnet
     else if s = ''undeployed'' then Some Undeployed else if s = ''mainnet'' then Some Mainnet else None)"

definition isAction :: "json option \<Rightarrow> CivicActionKind option" where
  "isAction v = Option.bind (as_str v) action_of_str"

definition isNetwork :: "json option \<Rightarrow> MidnightRuntimeNetwork option" where
  "isNetwork v = Option.bind (as_str v) network_of_str"

record receipt =
  r_action :: CivicActionKind
  r_network :: MidnightRuntimeNetwork
  r_transactionId :: string
  r_transactionHash :: string
  r_contractAddress :: string
  r_circuit :: string
  r_blockHeight :: int
  r_blockHash :: string
  r_blockTimestamp :: string
  r_explorerUrl :: "string option"

text \<open>The object literal of a receipt, in the order of its keys.\<close>

definition receipt_json :: "receipt \<Rightarrow> json" where
  "receipt_json r = JObj (
     [(''status'', JStr ''confirmed''), (''action'', JStr (action_str (r_action r))),
      (''network'', JStr (network_str (r_network r))),
      (''transactionId'', JStr (r_transactionId r)),
      (''transactionHash'', JStr (r_transactionHash r)),
      (''contractAddress'', JStr (r_contractAddress r)),
      (''circuit'', JStr (r_circuit r)), (''blockHeight'', JNum (JInt (r_blockHeight r))),
      (''blockHash'', JStr (r_blockHash r)), (''blockTimestamp'', JStr (r_blockTimestamp r))]
     @ opt_prop ''explorerUrl'' JStr (r_explorerUrl r))"

datatype receipt_error =
    ReceiptNotObject
  | ReceiptNotCanonical
  | NotConfirmed
  | ContractMismatch
  | InvalidLabel string
  | InvalidBlockHeight
  | InvalidTimestamp

section \<open>The receipt guard\<close>

abbreviation nonempty_str :: "json option \<Rightarrow> bool" where
  "nonempty_str v \<equiv> (case as_str v of Some s \<Rightarrow> s \<noteq> [] | None \<Rightarrow> False)"

definition sanitizeCanonicalReceipt :: "json \<Rightarrow> (receipt_error, receipt) result" where
  "sanitizeCanonicalReceipt v =
     (if \<not> isRecord v then Inl ReceiptNotObject
      else if fld v ''status'' \<noteq> Some (JStr ''confirmed'')
        \<or> isAction (fld v ''action'') = None
        \<or> isNetwork (fld v ''network'') = None
        \<or> \<not> nonempty_str (fld v ''transactionId'')
        \<or> \<not> nonempty_str (fld v ''transactionHash'')
        \<or> \<not> nonempty_str (fld v ''contractAddress'')
        \<or> \<not> nonempty_str (fld v ''circuit'')
        \<or> safe_int (fld v ''blockHeight'') = None
        \<or> the (safe_int (fld v ''blockHeight'')) < 0
        \<or> \<not> nonempty_str (fld v ''blockHash'')
        \<or> \<not> nonempty_str (fld v ''blockTimestamp'')
        \<or> (fld v ''explorerUrl'' \<noteq> None \<and> \<not> is_str (fld v ''explorerUrl''))
      then Inl ReceiptNotCanonical
      else Inr \<lparr> r_action = the (isAction (fld v ''action'')),
                 r_network = the (isNetwork (fld v ''network'')),
                 r_transactionId = the (as_str (fld v ''transactionId'')),
                 r_transactionHash = the (as_str (fld v ''transactionHash'')),
                 r_contractAddress = the (as_str (fld v ''contractAddress'')),
                 r_circuit = the (as_str (fld v ''circuit'')),
                 r_blockHeight = the (safe_int (fld v ''blockHeight'')),
                 r_blockHash = the (as_str (fld v ''blockHash'')),
                 r_blockTimestamp = the (as_str (fld v ''blockTimestamp'')),
                 r_explorerUrl = as_str (fld v ''explorerUrl'') \<rparr>)"

definition isCanonicalReceipt :: "json \<Rightarrow> bool" where
  "isCanonicalReceipt v = is_ok (sanitizeCanonicalReceipt v)"

section \<open>Dates\<close>

definition max_time :: int where
  "max_time = 8640000000000000"

datatype timestamp = TsNum int | TsStr string

definition isoTimestamp :: "(string \<Rightarrow> int option) \<Rightarrow> timestamp \<Rightarrow> (receipt_error, string) result" where
  "isoTimestamp date_parse v =
     (let t = (case v of
          TsNum n \<Rightarrow> Some (if n < 1000000000000 then n * 1000 else n)
        | TsStr s \<Rightarrow> date_parse s)
      in case t of
           Some ms \<Rightarrow> if \<bar>ms\<bar> \<le> max_time then Inr (toISOString ms) else Inl InvalidTimestamp
         | None \<Rightarrow> Inl InvalidTimestamp)"

section \<open>Receipts from indexer observations\<close>

text \<open>\<open>encodeURIComponent\<close>: unreserved characters stay, the others are percent-encoded UTF-8.\<close>

definition upper_hex_digit :: "nat \<Rightarrow> char" where
  "upper_hex_digit n = (if n < 10 then char_of (48 + n) else char_of (55 + n))"

definition uri_unreserved :: "char \<Rightarrow> bool" where
  "uri_unreserved c = (let n = (of_char c :: nat) in
     (48 \<le> n \<and> n \<le> 57) \<or> (65 \<le> n \<and> n \<le> 90) \<or> (97 \<le> n \<and> n \<le> 122)
     \<or> n \<in> {45, 95, 46, 33, 126, 42, 39, 40, 41})"

definition percent :: "char \<Rightarrow> string" where
  "percent b = (let n = of_char b in [CHR ''%'', upper_hex_digit (n div 16), upper_hex_digit (n mod 16)])"

definition encodeURIComponent :: "string \<Rightarrow> string" where
  "encodeURIComponent s = concat (map (\<lambda>c. if uri_unreserved c then [c] else concat (map percent (utf8_char c))) s)"

definition strip_slashes :: "string \<Rightarrow> string" where
  "strip_slashes s = rev (dropWhile (\<lambda>c. c = CHR ''/'') (rev s))"

definition explorerFor :: "string option \<Rightarrow> string \<Rightarrow> string option" where
  "explorerFor baseUrl transactionId = (case baseUrl of
     None \<Rightarrow> None
   | Some b \<Rightarrow> if blank b then None
       else Some (strip_slashes b @ ''/'' @ encodeURIComponent transactionId))"

record observation =
  o_status :: string
  o_transactionId :: string
  o_transactionHash :: string
  o_contractAddress :: string
  o_blockHeight :: int
  o_blockHash :: string
  o_blockTimestamp :: timestamp
  o_explorerUrl :: "string option"

record receipt_context =
  c_action :: CivicActionKind
  c_network :: MidnightRuntimeNetwork
  c_contractAddress :: string
  c_circuit :: string
  c_explorerBaseUrl :: "string option"

definition nonEmpty :: "string \<Rightarrow> string \<Rightarrow> (receipt_error, string) result" where
  "nonEmpty v label = (if blank v then Inl (InvalidLabel label) else Inr v)"

definition canonicalReceiptFromIndexer ::
  "(string \<Rightarrow> int option) \<Rightarrow> observation \<Rightarrow> receipt_context \<Rightarrow> (receipt_error, receipt) result" where
  "canonicalReceiptFromIndexer date_parse obs ctx =
     rbind (check (o_status obs = ''confirmed'') NotConfirmed) (\<lambda>_.
     rbind (check (o_contractAddress obs = c_contractAddress ctx) ContractMismatch) (\<lambda>_.
     rbind (nonEmpty (o_transactionId obs) ''transactionId'') (\<lambda>transactionId.
     rbind (nonEmpty (o_transactionHash obs) ''transactionHash'') (\<lambda>transactionHash.
     rbind (nonEmpty (o_contractAddress obs) ''contractAddress'') (\<lambda>contractAddress.
     rbind (nonEmpty (c_circuit ctx) ''circuit'') (\<lambda>circuit.
     rbind (nonEmpty (o_blockHash obs) ''blockHash'') (\<lambda>blockHash.
     rbind (check (\<bar>o_blockHeight obs\<bar> \<le> max_safe \<and> \<not> o_blockHeight obs < 0) InvalidBlockHeight) (\<lambda>_.
     rbind (isoTimestamp date_parse (o_blockTimestamp obs)) (\<lambda>blockTimestamp.
     Inr \<lparr> r_action = c_action ctx, r_network = c_network ctx,
           r_transactionId = transactionId, r_transactionHash = transactionHash,
           r_contractAddress = contractAddress, r_circuit = circuit,
           r_blockHeight = o_blockHeight obs, r_blockHash = blockHash,
           r_blockTimestamp = blockTimestamp,
           r_explorerUrl = truthy_str (case o_explorerUrl obs of Some u \<Rightarrow> Some u
             | None \<Rightarrow> explorerFor (c_explorerBaseUrl ctx) transactionId) \<rparr>)))))))))"

section \<open>Lemmas\<close>

definition wf_receipt :: "receipt \<Rightarrow> bool" where
  "wf_receipt r = (r_transactionId r \<noteq> [] \<and> r_transactionHash r \<noteq> [] \<and> r_contractAddress r \<noteq> []
     \<and> r_circuit r \<noteq> [] \<and> 0 \<le> r_blockHeight r \<and> r_blockHeight r \<le> max_safe
     \<and> r_blockHash r \<noteq> [] \<and> r_blockTimestamp r \<noteq> [])"

lemma action_of_str_action_str [js_simps, simp]: "action_of_str (action_str a) = Some a"
  by (cases a) (simp_all add: action_of_str_def)

lemma network_of_str_network_str [js_simps, simp]: "network_of_str (network_str n) = Some n"
  by (cases n) (simp_all add: network_of_str_def)

lemma action_of_str_eq_Some: "action_of_str s = Some a \<longleftrightarrow> s = action_str a"
  by (cases a) (auto simp: action_of_str_def split: if_splits)

lemma network_of_str_eq_Some: "network_of_str s = Some n \<longleftrightarrow> s = network_str n"
  by (cases n) (auto simp: network_of_str_def split: if_splits)

lemma action_str_inject [simp]: "action_str a = action_str b \<longleftrightarrow> a = b"
  by (cases a; cases b) simp_all

lemma network_str_inject [simp]: "network_str a = network_str b \<longleftrightarrow> a = b"
  by (cases a; cases b) simp_all

lemma receipt_json_inject [simp]: "receipt_json r = receipt_json r' \<longleftrightarrow> r = r'"
  by (cases "r_explorerUrl r"; cases "r_explorerUrl r'") (auto simp: receipt_json_def intro: receipt.equality)

lemma isAction_JStr [js_simps, simp]: "isAction (Some (JStr (action_str a))) = Some a"
  by (simp add: isAction_def)

lemma isNetwork_JStr [js_simps, simp]: "isNetwork (Some (JStr (network_str n))) = Some n"
  by (simp add: isNetwork_def)

lemma isAction_eq_Some: "isAction v = Some a \<longleftrightarrow> v = Some (JStr (action_str a))"
  by (cases v rule: as_str.cases) (auto simp: isAction_def action_of_str_eq_Some)

text \<open>Accepting a printed receipt is exactly its well-formedness.\<close>

lemma sanitize_receipt_json:
  "sanitizeCanonicalReceipt (receipt_json r)
     = (if wf_receipt r then Inr r else Inl ReceiptNotCanonical)"
  by (cases "r_explorerUrl r")
     (auto simp: sanitizeCanonicalReceipt_def receipt_json_def wf_receipt_def max_safe_def)

lemma sanitize_wf: "sanitizeCanonicalReceipt v = Inr r \<Longrightarrow> wf_receipt r"
  by (auto simp: sanitizeCanonicalReceipt_def wf_receipt_def js_simps split: if_splits option.splits)

lemma nonEmpty_eq_Inr [simp]: "nonEmpty v l = Inr w \<longleftrightarrow> \<not> blank v \<and> w = v"
  by (auto simp: nonEmpty_def)

lemma isoTimestamp_nonempty: "isoTimestamp dp v = Inr s \<Longrightarrow> s \<noteq> []"
  by (auto simp: isoTimestamp_def Let_def split: option.splits if_splits)

lemma receipt_from_indexer_wf:
  "canonicalReceiptFromIndexer dp obs ctx = Inr r \<Longrightarrow> wf_receipt r"
  unfolding canonicalReceiptFromIndexer_def
  by (auto simp: wf_receipt_def isoTimestamp_nonempty dest: not_blank_nonempty)

lemma receipt_from_indexer_binds:
  assumes "canonicalReceiptFromIndexer dp obs ctx = Inr r"
  shows "r_transactionId r = o_transactionId obs" "r_contractAddress r = c_contractAddress ctx"
    "r_circuit r = c_circuit ctx" "r_action r = c_action ctx" "r_network r = c_network ctx"
    "o_status obs = ''confirmed''" "r_blockHash r = o_blockHash obs" "r_blockHeight r = o_blockHeight obs"
  using assms unfolding canonicalReceiptFromIndexer_def by auto

section \<open>Properties\<close>

definition public_receipt_fields :: "string list" where
  "public_receipt_fields = [''status'', ''action'', ''network'', ''transactionId'', ''transactionHash'',
     ''contractAddress'', ''circuit'', ''blockHeight'', ''blockHash'', ''blockTimestamp'', ''explorerUrl'']"

definition sample_receipt :: receipt where
  "sample_receipt = \<lparr> r_action = Vote, r_network = Preview, r_transactionId = ''t1'', r_transactionHash = ''h1'',
     r_contractAddress = ''c1'', r_circuit = ''castVote'', r_blockHeight = 7, r_blockHash = ''b1'',
     r_blockTimestamp = ''1970-01-01T00:00:00.000Z'', r_explorerUrl = None \<rparr>"

lemma receipt_json_wf: "wf_json (receipt_json r)"
  by (cases "r_explorerUrl r")
     (simp_all add: receipt_json_def obj_ordered_def key_before_def is_index_key_def is_digit_def)

lemma receipt_json_fields: "set (map fst (entries (receipt_json r))) \<subseteq> set public_receipt_fields"
  by (cases "r_explorerUrl r") (simp_all add: receipt_json_def public_receipt_fields_def)

text \<open>
  A value that passes the receipt guard is reduced to the eleven public fields,
  and the reduced receipt survives printing to JSON text, parsing and a second
  pass of the guard unchanged.
\<close>

theorem receipt_guard_roundtrip:
  assumes "sanitizeCanonicalReceipt v = Inr r"
  shows "set (map fst (entries (receipt_json r))) \<subseteq> set public_receipt_fields
    \<and> (\<exists>v'. json_parse (stringify (receipt_json r)) = Some v' \<and> sanitizeCanonicalReceipt v' = Inr r)"
  using assms receipt_json_fields parse_stringify [OF receipt_json_wf] sanitize_wf
  by (auto simp: sanitize_receipt_json)

theorem receipt_guard_roundtrip_witness:
  "sanitizeCanonicalReceipt (JObj ((''seed'', JStr ''x'') # entries (receipt_json sample_receipt))) = Inr sample_receipt
   \<and> (\<exists>v'. json_parse (stringify (receipt_json sample_receipt)) = Some v' \<and> sanitizeCanonicalReceipt v' = Inr sample_receipt)"
proof -
  have ok: "sanitizeCanonicalReceipt (JObj ((''seed'', JStr ''x'') # entries (receipt_json sample_receipt))) = Inr sample_receipt"
    by code_simp
  show ?thesis using ok receipt_guard_roundtrip [OF ok] by blast
qed

text \<open>
  A receipt built from an indexer observation passes the receipt guard, and it
  names the observed transaction and block, and the contract, circuit, action and
  network of the request; an observation of another contract, an unconfirmed one
  or one with an invalid height is refused.
\<close>

theorem receipt_from_indexer_canonical:
  "(canonicalReceiptFromIndexer date_parse obs ctx = Inr r \<longrightarrow>
      isCanonicalReceipt (receipt_json r) \<and> r_transactionId r = o_transactionId obs
      \<and> r_blockHash r = o_blockHash obs \<and> r_blockHeight r = o_blockHeight obs
      \<and> r_contractAddress r = c_contractAddress ctx \<and> r_circuit r = c_circuit ctx
      \<and> r_action r = c_action ctx \<and> r_network r = c_network ctx)
   \<and> (o_contractAddress obs \<noteq> c_contractAddress ctx \<or> o_status obs \<noteq> ''confirmed'' \<or> o_blockHeight obs < 0 \<longrightarrow>
      \<not> is_ok (canonicalReceiptFromIndexer date_parse obs ctx))"
proof (intro conjI impI)
  assume r: "canonicalReceiptFromIndexer date_parse obs ctx = Inr r"
  note wf = receipt_from_indexer_wf [OF r] and binds = receipt_from_indexer_binds [OF r]
  show "isCanonicalReceipt (receipt_json r)" using wf by (simp add: isCanonicalReceipt_def sanitize_receipt_json)
  show "r_transactionId r = o_transactionId obs" "r_blockHash r = o_blockHash obs"
    "r_blockHeight r = o_blockHeight obs" "r_contractAddress r = c_contractAddress ctx"
    "r_circuit r = c_circuit ctx" "r_action r = c_action ctx" "r_network r = c_network ctx"
    using binds by simp_all
next
  assume "o_contractAddress obs \<noteq> c_contractAddress ctx \<or> o_status obs \<noteq> ''confirmed'' \<or> o_blockHeight obs < 0"
  then show "\<not> is_ok (canonicalReceiptFromIndexer date_parse obs ctx)"
    by (auto simp: is_ok_iff canonicalReceiptFromIndexer_def)
qed

definition sample_observation :: observation where
  "sample_observation = \<lparr> o_status = ''confirmed'', o_transactionId = ''t1'', o_transactionHash = ''h1'',
     o_contractAddress = ''c1'', o_blockHeight = 7, o_blockHash = ''b1'', o_blockTimestamp = TsNum 0,
     o_explorerUrl = None \<rparr>"

definition sample_context :: receipt_context where
  "sample_context = \<lparr> c_action = Vote, c_network = Preview, c_contractAddress = ''c1'', c_circuit = ''castVote'',
     c_explorerBaseUrl = None \<rparr>"

lemma sample_from_indexer: "canonicalReceiptFromIndexer (\<lambda>_. None) sample_observation sample_context = Inr sample_receipt"
  by code_simp

theorem receipt_from_indexer_canonical_witness:
  "isCanonicalReceipt (receipt_json sample_receipt) \<and> r_transactionId sample_receipt = o_transactionId sample_observation"
  using receipt_from_indexer_canonical [of "\<lambda>_. None" sample_observation sample_context sample_receipt]
    sample_from_indexer by simp

end
