(* ===== verification/V2_Types.thy ===== *)
theory V2_Types
  imports Receipts
begin

text \<open>
  The records and codes of the walletless relay (\<open>relayer/src/v2-types.ts\<close>): the
  durable job, the capability reservation, error codes, and the public view of
  a job. Job statuses are ordered by the lifecycle, so progress of a job is
  progress in that order.
\<close>

section \<open>Statuses\<close>

datatype V2ActionJobStatus =
    Authorized
  | Validated
  | DustReserved
  | Finalized
  | Submitted
  | IndexerPending
  | Confirmed
  | Failed
  | RecoveryRequired

fun status_str :: "V2ActionJobStatus \<Rightarrow> string" where
  "status_str Authorized = ''authorized''"
| "status_str Validated = ''validated''"
| "status_str DustReserved = ''dust_reserved''"
| "status_str Finalized = ''finalized''"
| "status_str Submitted = ''submitted''"
| "status_str IndexerPending = ''indexer_pending''"
| "status_str Confirmed = ''confirmed''"
| "status_str Failed = ''failed''"
| "status_str RecoveryRequired = ''recovery_required''"

definition all_statuses :: "V2ActionJobStatus list" where
  "all_statuses = [Authorized, Validated, DustReserved, Finalized, Submitted, IndexerPending,
     Confirmed, Failed, RecoveryRequired]"

text \<open>\<open>isStatus\<close>: the status a value denotes, when it denotes one.\<close>

definition status_of_str :: "string \<Rightarrow> V2ActionJobStatus option" where
  "status_of_str s = find (\<lambda>t. status_str t = s) all_statuses"

definition isStatus :: "json option \<Rightarrow> V2ActionJobStatus option" where
  "isStatus v = Option.bind (as_str v) status_of_str"

lemma status_of_str_str [js_simps, simp]: "status_of_str (status_str s) = Some s"
  by (cases s) (simp_all add: status_of_str_def all_statuses_def)

lemma isStatus_JStr [js_simps, simp]: "isStatus (Some (JStr (status_str s))) = Some s"
  by (simp add: isStatus_def)

lemma status_of_str_eq_Some: "status_of_str t = Some s \<longleftrightarrow> t = status_str s"
  using status_of_str_str by (auto simp: status_of_str_def dest: find_Some_iff)

lemma status_str_inject [simp]: "status_str a = status_str b \<longleftrightarrow> a = b"
  by (metis status_of_str_str option.inject)

text \<open>The lifecycle order.\<close>

fun status_rank :: "V2ActionJobStatus \<Rightarrow> nat" where
  "status_rank Authorized = 0"
| "status_rank Validated = 1"
| "status_rank DustReserved = 2"
| "status_rank Finalized = 3"
| "status_rank Submitted = 4"
| "status_rank IndexerPending = 5"
| "status_rank RecoveryRequired = 6"
| "status_rank Failed = 7"
| "status_rank Confirmed = 8"

lemma status_rank_inject [simp]: "status_rank a = status_rank b \<longleftrightarrow> a = b"
  by (cases a; cases b) simp_all

instantiation V2ActionJobStatus :: linorder
begin

definition less_eq_V2ActionJobStatus :: "V2ActionJobStatus \<Rightarrow> V2ActionJobStatus \<Rightarrow> bool" where
  "less_eq_V2ActionJobStatus a b = (status_rank a \<le> status_rank b)"

definition less_V2ActionJobStatus :: "V2ActionJobStatus \<Rightarrow> V2ActionJobStatus \<Rightarrow> bool" where
  "less_V2ActionJobStatus a b = (status_rank a < status_rank b)"

instance
  by standard (auto simp: less_eq_V2ActionJobStatus_def less_V2ActionJobStatus_def)

end

lemma status_less_code: "(a :: V2ActionJobStatus) < b \<longleftrightarrow> status_rank a < status_rank b"
  by (simp add: less_V2ActionJobStatus_def)

section \<open>Error codes\<close>

datatype V2ActionErrorCode =
    Idempotency_conflict
  | Capability_invalid
  | Capability_replayed
  | Invalid_request
  | Not_allowlisted
  | Transaction_rejected
  | Submission_unknown
  | Submission_id_mismatch
  | Indexer_contract_mismatch
  | Indexer_rejected
  | Recovery_required
  | Internal_error

fun code_str :: "V2ActionErrorCode \<Rightarrow> string" where
  "code_str Idempotency_conflict = ''idempotency_conflict''"
| "code_str Capability_invalid = ''capability_invalid''"
| "code_str Capability_replayed = ''capability_replayed''"
| "code_str Invalid_request = ''invalid_request''"
| "code_str Not_allowlisted = ''not_allowlisted''"
| "code_str Transaction_rejected = ''transaction_rejected''"
| "code_str Submission_unknown = ''submission_unknown''"
| "code_str Submission_id_mismatch = ''submission_id_mismatch''"
| "code_str Indexer_contract_mismatch = ''indexer_contract_mismatch''"
| "code_str Indexer_rejected = ''indexer_rejected''"
| "code_str Recovery_required = ''recovery_required''"
| "code_str Internal_error = ''internal_error''"

text \<open>
  What a call of the relay may throw: a \<open>V2ActionError\<close> with its code and HTTP
  status, the store's \<open>V2StoreConflictError\<close>, or any other error.
\<close>

datatype v2_error =
    V2ActionError V2ActionErrorCode int
  | V2StoreConflictError
  | OtherError string

section \<open>Records\<close>

record action_request =
  q_actionId :: string
  q_idempotencyKey :: string
  q_requestHash :: "string option"
  q_network :: string
  q_contractAddress :: string
  q_circuit :: string
  q_action :: CivicActionKind
  q_tx :: string

record capability_reservation =
  k_digest :: string
  k_actionId :: string
  k_idempotencyKey :: string
  k_requestHash :: string
  k_network :: string
  k_contractAddress :: string
  k_circuit :: string
  k_action :: CivicActionKind
  k_expiresAt :: int

text \<open>
  The error code of a persisted job is a string: the file adapter reads back any
  string (\<open>v2-store.ts\<close>, \<open>parseJob\<close>).
\<close>

record job =
  j_id :: string
  j_idempotencyKey :: string
  j_capabilityDigest :: string
  j_requestHash :: string
  j_txDigest :: string
  j_network :: string
  j_contractAddress :: string
  j_circuit :: string
  j_action :: CivicActionKind
  j_status :: V2ActionJobStatus
  j_transitions :: "V2ActionJobStatus list"
  j_dustReservationId :: "string option"
  j_transactionId :: "string option"
  j_receipt :: "receipt option"
  j_errorCode :: "string option"
  j_createdAt :: string
  j_updatedAt :: string

record new_job =
  n_id :: string
  n_actionId :: string
  n_idempotencyKey :: string
  n_capabilityDigest :: string
  n_requestHash :: string
  n_txDigest :: string
  n_network :: string
  n_contractAddress :: string
  n_circuit :: string
  n_action :: CivicActionKind
  n_now :: string

text \<open>The argument of \<open>transition\<close>: a property that is absent leaves the job's.\<close>

record patch =
  p_status :: "V2ActionJobStatus option"
  p_dustReservationId :: "string option"
  p_transactionId :: "string option"
  p_receipt :: "receipt option"
  p_errorCode :: "string option"

definition patch_status :: "V2ActionJobStatus \<Rightarrow> patch" where
  "patch_status s = \<lparr> p_status = Some s, p_dustReservationId = None, p_transactionId = None,
     p_receipt = None, p_errorCode = None \<rparr>"

lemma patch_status_simps [simp]:
  "p_status (patch_status s) = Some s" "p_dustReservationId (patch_status s) = None"
  "p_transactionId (patch_status s) = None" "p_receipt (patch_status s) = None"
  "p_errorCode (patch_status s) = None"
  by (simp_all add: patch_status_def)

section \<open>Public view\<close>

datatype public_status = PubPending | PubConfirmed | PubFailed | PubRecoveryRequired

fun public_status_str :: "public_status \<Rightarrow> string" where
  "public_status_str PubPending = ''pending''"
| "public_status_str PubConfirmed = ''confirmed''"
| "public_status_str PubFailed = ''failed''"
| "public_status_str PubRecoveryRequired = ''recovery_required''"

record public_job =
  b_actionId :: string
  b_status :: public_status
  b_requestHash :: string
  b_network :: string
  b_contractAddress :: string
  b_circuit :: string
  b_transitions :: "V2ActionJobStatus list"
  b_transactionId :: "string option"
  b_receipt :: "receipt option"
  b_errorCode :: "string option"

definition publicJob :: "job \<Rightarrow> public_job" where
  "publicJob j = \<lparr> b_actionId = j_id j,
     b_status = (if j_status j = Confirmed then PubConfirmed
       else if j_status j = Failed then PubFailed
       else if j_status j = RecoveryRequired then PubRecoveryRequired else PubPending),
     b_requestHash = j_requestHash j, b_network = j_network j,
     b_contractAddress = j_contractAddress j, b_circuit = j_circuit j,
     b_transitions = j_transitions j,
     b_transactionId = truthy_str (j_transactionId j),
     b_receipt = j_receipt j,
     b_errorCode = truthy_str (j_errorCode j) \<rparr>"

text \<open>The object the public view is, in the order of its keys.\<close>

definition public_job_json :: "public_job \<Rightarrow> json" where
  "public_job_json b = JObj (
     [(''actionId'', JStr (b_actionId b)), (''status'', JStr (public_status_str (b_status b))),
      (''requestHash'', JStr (b_requestHash b)), (''network'', JStr (b_network b)),
      (''contractAddress'', JStr (b_contractAddress b)), (''circuit'', JStr (b_circuit b)),
      (''transitions'', JArr (map (\<lambda>s. JStr (status_str s)) (b_transitions b)))]
     @ opt_prop ''transactionId'' JStr (b_transactionId b)
     @ opt_prop ''receipt'' receipt_json (b_receipt b)
     @ opt_prop ''errorCode'' JStr (b_errorCode b))"

text \<open>The statuses that hold the relayer's single DUST lease, and the final ones.\<close>

definition lease_holder :: "V2ActionJobStatus \<Rightarrow> bool" where
  "lease_holder s = (s = DustReserved \<or> s = Finalized \<or> s = Submitted \<or> s = IndexerPending)"

definition terminal :: "V2ActionJobStatus \<Rightarrow> bool" where
  "terminal s = (s = Confirmed \<or> s = Failed \<or> s = RecoveryRequired)"

end
