(* ===== verification/V2_Hash.thy ===== *)
theory V2_Hash
  imports V2_Types "HOL-Library.Multiset"
begin

text \<open>
  Request, transaction and capability digests (\<open>relayer/src/v2-hash.ts\<close>). SHA-256
  is \<open>node:crypto\<close>: the argument \<open>sha256\<close> maps the hashed bytes to the lower-case
  hexadecimal digest. Successive \<open>update\<close> calls hash the concatenation.
\<close>

section \<open>Deterministic JSON\<close>

function (sequential) stableJson :: "json \<Rightarrow> string" where
  "stableJson (JArr xs) = ''['' @ join '','' (map stableJson xs) @ '']''"
| "stableJson (JObj ps) =
     ''{'' @ join '','' (map (\<lambda>(k, v). stringify_str k @ '':'' @ stableJson v) (sort_key fst ps)) @ ''}''"
| "stableJson v = stringify v"
  by pat_completeness auto
termination
proof (relation "measure size", goal_cases)
  case (2 xs x)
  then show ?case by (auto dest: size_list_estimation' [OF _ order_refl, of _ _ size])
next
  case (3 ps p k v)
  then have "(k, v) \<in> set ps" by simp
  then have "size v < Suc (size_list (size_prod (\<lambda>x. 0) size) ps)"
    using size_list_estimation' [of "(k, v)" ps "size v" "size_prod (\<lambda>x. 0) size"] by simp
  then show ?case by simp
qed auto

section \<open>Digests\<close>

definition V2_ACTION_VERSION :: int where
  "V2_ACTION_VERSION = 1"

definition request_hash_object :: "string \<Rightarrow> string \<Rightarrow> string \<Rightarrow> CivicActionKind \<Rightarrow> string \<Rightarrow> json" where
  "request_hash_object network contractAddress circuit action tx = JObj
     [(''action'', JStr (action_str action)), (''contractAddress'', JStr contractAddress),
      (''circuit'', JStr circuit), (''network'', JStr network),
      (''tx'', JStr (toLowerCase tx)), (''version'', JNum (JInt V2_ACTION_VERSION))]"

definition v2RequestHash ::
  "(string \<Rightarrow> string) \<Rightarrow> string \<Rightarrow> string \<Rightarrow> string \<Rightarrow> CivicActionKind \<Rightarrow> string \<Rightarrow> string" where
  "v2RequestHash sha256 network contractAddress circuit action tx =
     sha256 (utf8 (''midnight-referendum:v2-action:'' @ show_int V2_ACTION_VERSION @ '':'')
       @ utf8 (stableJson (request_hash_object network contractAddress circuit action tx)))"

definition digestTransaction :: "(string \<Rightarrow> string) \<Rightarrow> string \<Rightarrow> string" where
  "digestTransaction sha256 tx = sha256 (utf8 ''midnight-referendum:v2-tx:1:'' @ utf8 tx)"

definition digestCapability :: "(string \<Rightarrow> string) \<Rightarrow> string \<Rightarrow> string" where
  "digestCapability sha256 token =
     sha256 (utf8 ''midnight-referendum:v2-capability-digest:1:'' @ utf8 token)"

definition actionForCircuit :: "string \<Rightarrow> CivicActionKind option" where
  "actionForCircuit circuit =
     (if circuit = ''castVote'' \<or> circuit = ''closeVote'' \<or> circuit = ''revealVote'' \<or> circuit = ''finalizeVote''
      then Some Vote
      else if circuit = ''addCredential'' \<or> circuit = ''freeze'' then Some Credential
      else if circuit = ''recordPublicCohort'' then Some Cohort
      else None)"

section \<open>Lemmas\<close>

lemma mset_short_eq: "mset xs = mset ys \<Longrightarrow> length xs \<le> 1 \<Longrightarrow> xs = ys"
  by (cases xs) (auto simp: mset_single_iff_right)

lemma sort_key_distinct_perm:
  assumes "mset ps = mset qs" "distinct (map fst ps)"
  shows "sort_key fst ps = sort_key fst qs"
proof (rule properties_for_sort_key [symmetric])
  show "mset (sort_key fst ps) = mset qs" using assms(1) by simp
  show "filter (\<lambda>x. fst k = fst x) (sort_key fst ps) = filter (\<lambda>x. fst k = fst x) qs"
    if "k \<in> set (sort_key fst ps)" for k
  proof -
    have len: "length (filter (\<lambda>x. fst k = fst x) ps) \<le> 1"
      using assms(2) by (induction ps) (auto simp: filter_empty_conv)
    have m: "mset (filter (\<lambda>x. fst k = fst x) (sort_key fst ps)) = mset (filter (\<lambda>x. fst k = fst x) ps)"
      by simp
    have "filter (\<lambda>x. fst k = fst x) (sort_key fst ps) = filter (\<lambda>x. fst k = fst x) ps"
      using mset_short_eq [OF m [symmetric] len] by simp
    moreover have "filter (\<lambda>x. fst k = fst x) ps = filter (\<lambda>x. fst k = fst x) qs"
      by (rule mset_short_eq [OF _ len]) (use assms(1) in simp)
    ultimately show ?thesis by simp
  qed
qed simp

text \<open>The digest input does not depend on the order of the keys.\<close>

lemma stableJson_key_order:
  "mset ps = mset qs \<Longrightarrow> distinct (map fst ps) \<Longrightarrow> stableJson (JObj ps) = stableJson (JObj qs)"
  by (simp add: sort_key_distinct_perm)

lemma stableJson_request:
  "stableJson (request_hash_object n ca ci a tx) = stringify (JObj
     [(''action'', JStr (action_str a)), (''circuit'', JStr ci), (''contractAddress'', JStr ca),
      (''network'', JStr n), (''tx'', JStr (toLowerCase tx)), (''version'', JNum (JInt V2_ACTION_VERSION))])"
  by (simp add: request_hash_object_def)

lemma stableJson_request_inject:
  assumes "stableJson (request_hash_object n ca ci a tx) = stableJson (request_hash_object n' ca' ci' a' tx')"
  shows "n = n' \<and> ca = ca' \<and> ci = ci' \<and> a = a' \<and> toLowerCase tx = toLowerCase tx'"
proof -
  let ?obj = "\<lambda>n ca ci a tx. JObj
     [(''action'', JStr (action_str a)), (''circuit'', JStr ci), (''contractAddress'', JStr ca),
      (''network'', JStr n), (''tx'', JStr (toLowerCase tx)), (''version'', JNum (JInt V2_ACTION_VERSION))]"
  have wf: "wf_json (?obj n ca ci a tx)" for n ca ci a tx
    by (simp add: obj_ordered_def key_before_def is_index_key_def is_digit_def)
  have P: "json_parse (stringify (?obj n ca ci a tx)) = Some (?obj n ca ci a tx)" for n ca ci a tx
    by (rule parse_stringify [OF wf])
  have "json_parse (stringify (?obj n ca ci a tx)) = json_parse (stringify (?obj n' ca' ci' a' tx'))"
    using assms by (simp only: stableJson_request)
  then have "Some (?obj n ca ci a tx) = Some (?obj n' ca' ci' a' tx')" by (simp only: P)
  then show ?thesis by simp
qed

section \<open>Properties\<close>

text \<open>
  The request hash commits to the action, contract, circuit, network and
  transaction: two requests with the same hash, for a digest that does not collide
  on their two preimages, agree on all of them (the transaction up to letter case).
\<close>

theorem request_hash_binds:
  assumes "v2RequestHash sha256 n ca ci a tx = v2RequestHash sha256 n' ca' ci' a' tx'"
    and "\<And>x y. sha256 x = sha256 y \<Longrightarrow>
      x \<in> {utf8 (''midnight-referendum:v2-action:'' @ show_int V2_ACTION_VERSION @ '':'')
             @ utf8 (stableJson (request_hash_object n ca ci a tx)),
           utf8 (''midnight-referendum:v2-action:'' @ show_int V2_ACTION_VERSION @ '':'')
             @ utf8 (stableJson (request_hash_object n' ca' ci' a' tx'))} \<Longrightarrow>
      y \<in> {utf8 (''midnight-referendum:v2-action:'' @ show_int V2_ACTION_VERSION @ '':'')
             @ utf8 (stableJson (request_hash_object n ca ci a tx)),
           utf8 (''midnight-referendum:v2-action:'' @ show_int V2_ACTION_VERSION @ '':'')
             @ utf8 (stableJson (request_hash_object n' ca' ci' a' tx'))} \<Longrightarrow> x = y"
  shows "n = n' \<and> ca = ca' \<and> ci = ci' \<and> a = a' \<and> toLowerCase tx = toLowerCase tx'"
proof -
  have "utf8 (stableJson (request_hash_object n ca ci a tx)) = utf8 (stableJson (request_hash_object n' ca' ci' a' tx'))"
    using assms(2) [OF assms(1) [unfolded v2RequestHash_def]] by simp
  then show ?thesis by (intro stableJson_request_inject) simp
qed

theorem request_hash_binds_witness:
  "v2RequestHash id ''n'' ''c'' ''castVote'' Vote ''AB'' = v2RequestHash id ''n'' ''c'' ''castVote'' Vote ''ab''
   \<and> toLowerCase ''AB'' = toLowerCase ''ab''"
proof -
  have "toLowerCase ''AB'' = toLowerCase ''ab''" by code_simp
  then have eq: "v2RequestHash id ''n'' ''c'' ''castVote'' Vote ''AB'' = v2RequestHash id ''n'' ''c'' ''castVote'' Vote ''ab''"
    by (simp add: v2RequestHash_def request_hash_object_def)
  show ?thesis using eq request_hash_binds [OF eq] by simp
qed

end
