(* ===== verification/V2_Capability.thy ===== *)
theory V2_Capability
  imports V2_Hash
begin

text \<open>
  One-time action capabilities (\<open>relayer/src/v2-capability.ts\<close>): a base64url
  payload and its HMAC-SHA-256 signature. The HMAC is \<open>node:crypto\<close>: the argument
  \<open>hmac\<close> maps the secret and the message bytes to the signature bytes.
\<close>

section \<open>Base64url\<close>

definition b64_char :: "nat \<Rightarrow> char" where
  "b64_char n = (if n < 26 then char_of (65 + n) else if n < 52 then char_of (71 + n)
     else if n < 62 then char_of (n - 4) else if n = 62 then CHR ''-'' else CHR ''_'')"

text \<open>\<open>Buffer.from(s, 'base64url')\<close> accepts both alphabets and skips every other character.\<close>

definition b64_val :: "char \<Rightarrow> nat option" where
  "b64_val c = (let n = of_char c in
     if 65 \<le> n \<and> n \<le> 90 then Some (n - 65)
     else if 97 \<le> n \<and> n \<le> 122 then Some (n - 71)
     else if 48 \<le> n \<and> n \<le> 57 then Some (n + 4)
     else if n = 45 \<or> n = 43 then Some 62
     else if n = 95 \<or> n = 47 then Some 63
     else None)"

fun b64_enc :: "nat list \<Rightarrow> nat list" where
  "b64_enc [] = []"
| "b64_enc [a] = [a div 4, (a mod 4) * 16]"
| "b64_enc [a, b] = [a div 4, (a mod 4) * 16 + b div 16, (b mod 16) * 4]"
| "b64_enc (a # b # c # r) =
     [a div 4, (a mod 4) * 16 + b div 16, (b mod 16) * 4 + c div 64, c mod 64] @ b64_enc r"

fun b64_dec :: "nat list \<Rightarrow> nat list" where
  "b64_dec (v # w # x # y # r) =
     [v * 4 + w div 16, (w mod 16) * 16 + x div 4, (x mod 4) * 64 + y] @ b64_dec r"
| "b64_dec [v, w, x] = [v * 4 + w div 16, (w mod 16) * 16 + x div 4]"
| "b64_dec [v, w] = [v * 4 + w div 16]"
| "b64_dec _ = []"

definition base64Url :: "string \<Rightarrow> string" where
  "base64Url bytes = map b64_char (b64_enc (map of_char bytes))"

definition fromBase64Url :: "string \<Rightarrow> string" where
  "fromBase64Url s = map char_of (b64_dec (List.map_filter b64_val s))"

section \<open>Signing and verifying\<close>

record capability_claims =
  cc_actionId :: string
  cc_idempotencyKey :: string
  cc_network :: string
  cc_contractAddress :: string
  cc_circuit :: string
  cc_action :: CivicActionKind
  cc_requestHash :: string

datatype capability_error = InvalidCapability | ExpiredCapability | BindingMismatch

definition claims_json :: "capability_claims \<Rightarrow> int \<Rightarrow> json" where
  "claims_json c expiresAt = JObj
     [(''v'', JNum (JInt 1)),
      (''actionId'', JStr (cc_actionId c)), (''idempotencyKey'', JStr (cc_idempotencyKey c)),
      (''network'', JStr (cc_network c)), (''contractAddress'', JStr (cc_contractAddress c)),
      (''circuit'', JStr (cc_circuit c)), (''action'', JStr (action_str (cc_action c))),
      (''requestHash'', JStr (cc_requestHash c)), (''expiresAt'', JNum (JInt expiresAt))]"

definition signature :: "(string \<Rightarrow> string \<Rightarrow> string) \<Rightarrow> string \<Rightarrow> string \<Rightarrow> string" where
  "signature hmac payload secret = hmac (utf8 secret) (utf8 (''midnight-referendum:v2-capability:1:'' @ payload))"

definition signV2Capability ::
  "(string \<Rightarrow> string \<Rightarrow> string) \<Rightarrow> capability_claims \<Rightarrow> int \<Rightarrow> string \<Rightarrow> string" where
  "signV2Capability hmac claims expiresAt secret =
     (let payload = base64Url (utf8 (stringify (claims_json claims expiresAt)))
      in payload @ ''.'' @ base64Url (signature hmac payload secret))"

text \<open>\<open>token.split('.')\<close>\<close>

fun split_on :: "char \<Rightarrow> string \<Rightarrow> string list" where
  "split_on sep [] = [[]]"
| "split_on sep (c # cs) = (if c = sep then [] # split_on sep cs
     else case split_on sep cs of p # ps \<Rightarrow> (c # p) # ps | [] \<Rightarrow> [[c]])"

definition expected_entries :: "capability_claims \<Rightarrow> (string \<times> json) list" where
  "expected_entries c =
     [(''actionId'', JStr (cc_actionId c)), (''action'', JStr (action_str (cc_action c))),
      (''contractAddress'', JStr (cc_contractAddress c)), (''circuit'', JStr (cc_circuit c)),
      (''idempotencyKey'', JStr (cc_idempotencyKey c)), (''network'', JStr (cc_network c)),
      (''requestHash'', JStr (cc_requestHash c))]"

definition verify_payload ::
  "json option \<Rightarrow> capability_claims \<Rightarrow> int \<Rightarrow> (capability_error, int) result" where
  "verify_payload parsed expected nowSeconds = (case parsed of
     None \<Rightarrow> Inl InvalidCapability
   | Some payload \<Rightarrow>
       if \<not> isRecord payload \<or> fld payload ''v'' \<noteq> Some (JNum (JInt 1))
       then Inl InvalidCapability
       else (case safe_int (fld payload ''expiresAt'') of
           None \<Rightarrow> Inl InvalidCapability
         | Some expiresAt \<Rightarrow>
             if expiresAt \<le> nowSeconds then Inl ExpiredCapability
             else if \<not> list_all (\<lambda>(k, v). fld payload k = Some v) (expected_entries expected)
             then Inl BindingMismatch
             else Inr expiresAt))"

definition verifyV2Capability ::
  "(string \<Rightarrow> string) \<Rightarrow> (string \<Rightarrow> string \<Rightarrow> string) \<Rightarrow> string \<Rightarrow> string \<Rightarrow> capability_claims \<Rightarrow> int
     \<Rightarrow> (capability_error, string \<times> int) result" where
  "verifyV2Capability sha256 hmac token secret expected nowSeconds =
     (if secret = [] \<or> length token > 4096 then Inl InvalidCapability
      else case split_on (CHR ''.'') token of
          [encodedPayload, encodedSignature] \<Rightarrow>
            if encodedPayload = [] \<or> encodedSignature = [] then Inl InvalidCapability
            else if fromBase64Url encodedSignature \<noteq> signature hmac encodedPayload secret
            then Inl InvalidCapability
            else rbind (verify_payload
                (Option.bind (utf8_decode (fromBase64Url encodedPayload)) json_parse) expected nowSeconds)
              (\<lambda>expiresAt. Inr (digestCapability sha256 token, expiresAt))
        | _ \<Rightarrow> Inl InvalidCapability)"

section \<open>Lemmas\<close>

lemma b64_val_char [simp]: "n < 64 \<Longrightarrow> b64_val (b64_char n) = Some n"
  by (auto simp: b64_val_def b64_char_def Let_def)

lemma b64_char_no_dot: "b64_char n \<noteq> CHR ''.''"
proof -
  have "(of_char (b64_char n) :: nat) \<noteq> of_char (CHR ''.'')"
    by (auto simp: b64_char_def)
  then show ?thesis by metis
qed

lemma b64_enc_bounds: "\<forall>b \<in> set bs. b < 256 \<Longrightarrow> \<forall>v \<in> set (b64_enc bs). v < 64"
  by (induction bs rule: b64_enc.induct) auto

lemma b64_dec_enc: "\<forall>b \<in> set bs. b < 256 \<Longrightarrow> b64_dec (b64_enc bs) = bs"
  by (induction bs rule: b64_enc.induct) auto

lemma map_filter_b64: "\<forall>v \<in> set vs. v < 64 \<Longrightarrow> List.map_filter b64_val (map b64_char vs) = vs"
  by (induction vs) (auto simp: List.map_filter_simps)

lemma fromBase64Url_base64Url [simp]: "fromBase64Url (base64Url s) = s"
proof -
  have b: "\<forall>b \<in> set (map of_char s). b < (256 :: nat)" by auto
  show ?thesis
    unfolding fromBase64Url_def base64Url_def map_filter_b64 [OF b64_enc_bounds [OF b]] b64_dec_enc [OF b]
    by (simp add: comp_def)
qed

lemma base64Url_no_dot: "CHR ''.'' \<notin> set (base64Url s)"
  using b64_char_no_dot unfolding base64Url_def set_map image_iff by metis

lemma base64Url_Nil_iff [simp]: "base64Url s = [] \<longleftrightarrow> s = []"
  by (cases "map of_char s :: nat list" rule: b64_enc.cases) (auto simp: base64Url_def)

lemma split_on_none: "sep \<notin> set s \<Longrightarrow> split_on sep s = [s]"
  by (induction s) auto

lemma split_on_one: "sep \<notin> set a \<Longrightarrow> split_on sep (a @ sep # b) = a # split_on sep b"
  by (induction a) auto

lemma split_on_two:
  "sep \<notin> set a \<Longrightarrow> sep \<notin> set b \<Longrightarrow> split_on sep (a @ sep # b) = [a, b]"
  by (simp add: split_on_one split_on_none)

lemma join_split_on: "join [sep] (split_on sep s) = s"
proof (induction s)
  case (Cons c cs)
  then show ?case
    by (cases "split_on sep cs"; cases "tl (split_on sep cs)") auto
qed simp

lemma claims_json_wf: "wf_json (claims_json c e)"
  by (simp add: claims_json_def obj_ordered_def key_before_def is_index_key_def is_digit_def)

text \<open>The payload of a token the issuer signed, as the verifier reads it.\<close>

lemma verify_payload_claims:
  assumes "\<bar>e\<bar> \<le> max_safe" "now < e"
  shows "verify_payload (Some (claims_json c e)) c now = Inr e"
  using assms by (simp add: verify_payload_def claims_json_def expected_entries_def)

lemma verify_signed:
  assumes "secret \<noteq> []" "length (signV2Capability hmac c e secret) \<le> 4096"
    and "signature hmac (base64Url (utf8 (stringify (claims_json c e)))) secret \<noteq> []"
  shows "verifyV2Capability sha hmac (signV2Capability hmac c e secret) secret expected now
    = rbind (verify_payload (Some (claims_json c e)) expected now)
        (\<lambda>x. Inr (digestCapability sha (signV2Capability hmac c e secret), x))"
proof -
  let ?p = "base64Url (utf8 (stringify (claims_json c e)))"
  let ?t = "signV2Capability hmac c e secret"
  have split: "split_on (CHR ''.'') ?t = [?p, base64Url (signature hmac ?p secret)]"
    by (simp add: signV2Capability_def Let_def split_on_two base64Url_no_dot)
  have "?p \<noteq> []"
    using utf8_decode_utf8 [of "stringify (claims_json c e)"] parse_stringify [OF claims_json_wf, of c e]
    by (auto simp: claims_json_def)
  then show ?thesis
    using assms split
    by (simp add: verifyV2Capability_def utf8_decode_utf8 parse_stringify [OF claims_json_wf])
qed

lemma verify_payload_Inr:
  assumes "verify_payload p expected now = Inr e"
  obtains payload where "p = Some payload" "isRecord payload" "now < e" "\<bar>e\<bar> \<le> max_safe"
    "fld payload ''expiresAt'' = Some (JNum (JInt e))"
    "\<And>k v. (k, v) \<in> set (expected_entries expected) \<Longrightarrow> fld payload k = Some v"
  using assms
  by (auto simp: verify_payload_def list_all_iff js_simps split: option.splits if_splits)

section \<open>Properties\<close>

definition sample_claims :: capability_claims where
  "sample_claims = \<lparr> cc_actionId = ''a'', cc_idempotencyKey = ''k'', cc_network = ''n'', cc_contractAddress = ''c'',
     cc_circuit = ''v'', cc_action = Vote, cc_requestHash = ''h'' \<rparr>"

definition sample_hmac :: "string \<Rightarrow> string \<Rightarrow> string" where
  "sample_hmac secret message = ''mac''"

definition sample_token :: string where
  "sample_token = signV2Capability sample_hmac sample_claims 9 ''s''"

lemma sample_token_length: "length sample_token < 4096"
  by code_simp

lemma sample_verified:
  "verifyV2Capability id sample_hmac sample_token ''s'' sample_claims 5 = Inr (digestCapability id sample_token, 9)"
  using sample_token_length unfolding sample_token_def
  by (simp add: verify_signed signature_def sample_hmac_def verify_payload_claims max_safe_def)

text \<open>
  A capability signed by the issuer is accepted by the verifier for exactly its
  own claims, until it expires, and yields its digest and expiry.
\<close>

theorem capability_roundtrip:
  assumes "secret \<noteq> []" "length (signV2Capability hmac c e secret) \<le> 4096"
    and "\<And>k m. hmac k m \<noteq> []" "\<bar>e\<bar> \<le> max_safe" "now < e"
  shows "verifyV2Capability sha256 hmac (signV2Capability hmac c e secret) secret c now
    = Inr (digestCapability sha256 (signV2Capability hmac c e secret), e)"
  using assms by (simp add: verify_signed signature_def verify_payload_claims)

theorem capability_roundtrip_witness:
  "verifyV2Capability id sample_hmac sample_token ''s'' sample_claims 5 = Inr (digestCapability id sample_token, 9)"
  unfolding sample_token_def
  by (rule capability_roundtrip) (use sample_token_length in \<open>simp_all add: sample_token_def sample_hmac_def max_safe_def\<close>)

text \<open>
  C11: A token the verifier accepts is two base64url parts whose second decodes to
  the HMAC of the first under the secret, and whose payload carries every expected
  claim and an expiry after the current time.
\<close>

theorem capability_sound:
  assumes "verifyV2Capability sha256 hmac token secret expected now = Inr (d, e)"
  shows "now < e \<and> d = digestCapability sha256 token \<and> (\<exists>p s payload. token = p @ ''.'' @ s
    \<and> fromBase64Url s = signature hmac p secret
    \<and> Option.bind (utf8_decode (fromBase64Url p)) json_parse = Some payload
    \<and> fld payload ''expiresAt'' = Some (JNum (JInt e))
    \<and> (\<forall>(k, v) \<in> set (expected_entries expected). fld payload k = Some v))"
proof -
  obtain p s where ps: "split_on (CHR ''.'') token = [p, s]" "fromBase64Url s = signature hmac p secret"
    and v: "verify_payload (Option.bind (utf8_decode (fromBase64Url p)) json_parse) expected now = Inr e"
    and d: "d = digestCapability sha256 token"
    using assms by (auto simp: verifyV2Capability_def split: if_splits list.splits)
  have "token = p @ ''.'' @ s" using join_split_on [of "CHR ''.''" token] ps(1) by simp
  moreover obtain payload where "Option.bind (utf8_decode (fromBase64Url p)) json_parse = Some payload"
    "now < e" "fld payload ''expiresAt'' = Some (JNum (JInt e))"
    "\<And>k v. (k, v) \<in> set (expected_entries expected) \<Longrightarrow> fld payload k = Some v"
    using verify_payload_Inr [OF v] by metis
  ultimately show ?thesis using ps(2) d by blast
qed

theorem capability_sound_witness:
  "\<exists>p s payload. sample_token = p @ ''.'' @ s \<and> fromBase64Url s = signature sample_hmac p ''s''
     \<and> Option.bind (utf8_decode (fromBase64Url p)) json_parse = Some payload
     \<and> fld payload ''actionId'' = Some (JStr ''a'')"
  using capability_sound [OF sample_verified] by (fastforce simp: expected_entries_def sample_claims_def)

text \<open>
  A capability has several accepted spellings: appending the padding character
  to a signed token gives a different token that verifies for the same claims, so
  the digest under which a capability is consumed identifies the text of the token
  and not the grant.
\<close>

theorem capability_respelled:
  assumes "secret \<noteq> []" "length (signV2Capability hmac c e secret) < 4096"
    and "\<And>k m. hmac k m \<noteq> []" "\<bar>e\<bar> \<le> max_safe" "now < e"
  shows "verifyV2Capability sha256 hmac (signV2Capability hmac c e secret @ ''='') secret c now
    = Inr (digestCapability sha256 (signV2Capability hmac c e secret @ ''=''), e)"
proof -
  let ?p = "base64Url (utf8 (stringify (claims_json c e)))"
  let ?s = "base64Url (signature hmac ?p secret)"
  have t: "signV2Capability hmac c e secret = ?p @ ''.'' @ ?s" by (simp add: signV2Capability_def Let_def)
  have "CHR ''.'' \<notin> set (?s @ ''='')" using base64Url_no_dot by auto
  then have split: "split_on (CHR ''.'') (?p @ ''.'' @ ?s @ ''='') = [?p, ?s @ ''='']"
    using split_on_two [OF base64Url_no_dot, of "?s @ ''=''"] by simp
  have "fromBase64Url (?s @ ''='') = fromBase64Url ?s"
    by (simp add: fromBase64Url_def map_filter_def b64_val_def)
  then have sig: "fromBase64Url (?s @ ''='') = signature hmac ?p secret" by simp
  have "stringify (claims_json c e) \<noteq> []" by (simp add: claims_json_def)
  then have p: "?p \<noteq> []" using utf8_inject [of "stringify (claims_json c e)" "[]"] by (simp add: utf8_def)
  show ?thesis
    using assms split sig p unfolding t
    by (simp add: verifyV2Capability_def utf8_decode_utf8 parse_stringify [OF claims_json_wf] verify_payload_claims)
qed

theorem capability_respelled_witness:
  "verifyV2Capability id sample_hmac (sample_token @ ''='') ''s'' sample_claims 5
     = Inr (digestCapability id (sample_token @ ''=''), 9)
   \<and> digestCapability id (sample_token @ ''='') \<noteq> digestCapability id sample_token"
proof -
  have "verifyV2Capability id sample_hmac (sample_token @ ''='') ''s'' sample_claims 5
      = Inr (digestCapability id (sample_token @ ''=''), 9)"
    unfolding sample_token_def
    by (rule capability_respelled) (use sample_token_length in \<open>simp_all add: sample_token_def sample_hmac_def max_safe_def\<close>)
  then show ?thesis by (simp add: digestCapability_def)
qed

end
