(* ===== verification/V2_Journal.thy ===== *)
theory V2_Journal
  imports V2_Capability
begin

text \<open>
  The action journal (\<open>V2ActionStore\<close> of \<open>relayer/src/v2-types.ts\<close>): its
  operations as a record, the laws every adapter promises as the locale
  \<open>action_store\<close>, and what the relay may rely on whatever the interleaving of its
  store calls. Each adapter serialises its operations (a promise tail, a file
  lock, a database transaction), so an operation is a function from state to
  state; the clock \<open>new Date().toISOString()\<close> is the argument \<open>now\<close>.
\<close>

section \<open>The interface\<close>

record 's v2_store =
  createOrGet :: "'s \<Rightarrow> new_job \<Rightarrow> 's \<times> (v2_error, job \<times> bool) result"
  getJob :: "'s \<Rightarrow> string \<Rightarrow> (v2_error, job option) result"
  getByIdempotencyKey :: "'s \<Rightarrow> string \<Rightarrow> (v2_error, job option) result"
  consumeCapability :: "'s \<Rightarrow> capability_reservation \<Rightarrow> 's \<times> (v2_error, bool) result"
  transition :: "string \<Rightarrow> 's \<Rightarrow> string \<Rightarrow> V2ActionJobStatus list \<Rightarrow> patch \<Rightarrow> 's \<times> (v2_error, job option) result"
  reserveDust :: "string \<Rightarrow> 's \<Rightarrow> string \<Rightarrow> string \<Rightarrow> 's \<times> (v2_error, job option) result"
  listRecoverable :: "'s \<Rightarrow> (v2_error, job list) result"

definition recoverableStatuses :: "V2ActionJobStatus list" where
  "recoverableStatuses = [Authorized, Validated, DustReserved, Finalized, Submitted, IndexerPending]"

section \<open>Laws\<close>

definition same_identity :: "job \<Rightarrow> job \<Rightarrow> bool" where
  "same_identity j j' = (j_id j' = j_id j \<and> j_idempotencyKey j' = j_idempotencyKey j
     \<and> j_capabilityDigest j' = j_capabilityDigest j \<and> j_requestHash j' = j_requestHash j
     \<and> j_txDigest j' = j_txDigest j \<and> j_network j' = j_network j
     \<and> j_contractAddress j' = j_contractAddress j \<and> j_circuit j' = j_circuit j \<and> j_action j' = j_action j)"

fun or_else :: "'a option \<Rightarrow> 'a option \<Rightarrow> 'a option" where
  "or_else None d = d"
| "or_else (Some v) d = Some v"

definition patched :: "V2ActionJobStatus \<Rightarrow> patch \<Rightarrow> job \<Rightarrow> job \<Rightarrow> bool" where
  "patched s p j j' = (same_identity j j' \<and> j_status j' = s
     \<and> (s \<noteq> j_status j \<longrightarrow> j_transitions j' = j_transitions j @ [s])
     \<and> j_dustReservationId j' = j_dustReservationId j
     \<and> j_transactionId j' = or_else (p_transactionId p) (j_transactionId j)
     \<and> j_receipt j' = or_else (p_receipt p) (j_receipt j)
     \<and> j_errorCode j' = or_else (p_errorCode p) (j_errorCode j))"

definition reserved :: "string \<Rightarrow> job \<Rightarrow> job \<Rightarrow> bool" where
  "reserved rid j j' = (same_identity j j' \<and> j_status j' = DustReserved
     \<and> j_transitions j' = j_transitions j @ [DustReserved] \<and> j_dustReservationId j' = Some rid
     \<and> j_transactionId j' = j_transactionId j \<and> j_receipt j' = j_receipt j
     \<and> j_errorCode j' = j_errorCode j)"

text \<open>The patches the relay writes: a status, and no empty strings.\<close>

definition wf_patch :: "patch \<Rightarrow> bool" where
  "wf_patch p = (p_status p \<noteq> None \<and> p_dustReservationId p = None \<and> p_transactionId p \<noteq> Some []
     \<and> p_errorCode p \<noteq> Some [] \<and> (\<forall>r. p_receipt p = Some r \<longrightarrow> wf_receipt r))"

definition ok_id :: "string \<Rightarrow> bool" where
  "ok_id v = (\<not> blank v \<and> length v \<le> 256)"

definition wf_new :: "new_job \<Rightarrow> bool" where
  "wf_new n = (ok_id (n_id n) \<and> ok_id (n_idempotencyKey n) \<and> is_hex64 (n_capabilityDigest n)
     \<and> is_hex64 (n_requestHash n) \<and> is_hex64 (n_txDigest n) \<and> ok_id (n_network n)
     \<and> ok_id (n_contractAddress n) \<and> ok_id (n_circuit n))"

definition wf_reservation :: "capability_reservation \<Rightarrow> bool" where
  "wf_reservation c = (is_hex64 (k_digest c) \<and> is_hex64 (k_requestHash c) \<and> \<bar>k_expiresAt c\<bar> \<le> max_safe)"

definition created_from :: "new_job \<Rightarrow> job \<Rightarrow> bool" where
  "created_from n j = (j_id j = n_id n \<and> j_idempotencyKey j = n_idempotencyKey n
     \<and> j_capabilityDigest j = n_capabilityDigest n \<and> j_requestHash j = n_requestHash n
     \<and> j_txDigest j = n_txDigest n \<and> j_network j = n_network n
     \<and> j_contractAddress j = n_contractAddress n \<and> j_circuit j = n_circuit n \<and> j_action j = n_action n
     \<and> j_status j = Authorized \<and> j_transitions j = [Authorized] \<and> j_dustReservationId j = None
     \<and> j_transactionId j = None \<and> j_receipt j = None \<and> j_errorCode j = None)"

definition leased :: "(string \<Rightarrow> job option) \<Rightarrow> bool" where
  "leased lk = (\<exists>i j. lk i = Some j \<and> lease_holder (j_status j))"

section \<open>The journal as a specification\<close>

text \<open>
  The lifecycle edges the relay takes, with what each may write: a receipt only
  on confirmation, an error code only on failure or recovery, a transaction id
  when the transaction is finalised or submitted.
\<close>

definition lifecycle_edge :: "V2ActionJobStatus \<Rightarrow> V2ActionJobStatus \<Rightarrow> bool" where
  "lifecycle_edge old s = (case s of
       Validated \<Rightarrow> old = Authorized
     | Finalized \<Rightarrow> old = DustReserved
     | Submitted \<Rightarrow> old = Finalized
     | IndexerPending \<Rightarrow> old = Submitted
     | Confirmed \<Rightarrow> old = Submitted \<or> old = IndexerPending
     | Failed \<Rightarrow> old = Authorized \<or> old = DustReserved \<or> old = Submitted \<or> old = IndexerPending
     | RecoveryRequired \<Rightarrow> old = Authorized \<or> old = Validated \<or> old = DustReserved \<or> old = Finalized \<or> old = Submitted
     | _ \<Rightarrow> False)"

definition allowed :: "V2ActionJobStatus \<Rightarrow> patch \<Rightarrow> bool" where
  "allowed old p = (wf_patch p \<and> lifecycle_edge old (the (p_status p))
     \<and> (p_receipt p \<noteq> None \<longleftrightarrow> the (p_status p) = Confirmed)
     \<and> (p_errorCode p \<noteq> None \<longleftrightarrow> the (p_status p) = Failed \<or> the (p_status p) = RecoveryRequired)
     \<and> (the (p_status p) = IndexerPending \<longrightarrow> p_transactionId p \<noteq> None)
     \<and> (p_transactionId p \<noteq> None \<longrightarrow> the (p_status p) = Finalized \<or> the (p_status p) = IndexerPending))"

inductive jstep :: "(string \<Rightarrow> job option) \<Rightarrow> (string \<Rightarrow> job option) \<Rightarrow> bool" where
  stay: "jstep lk lk"
| create: "lk (n_id n) = None \<Longrightarrow> created_from n j \<Longrightarrow> jstep lk (lk(n_id n \<mapsto> j))"
| move: "lk i = Some j \<Longrightarrow> allowed (j_status j) p \<Longrightarrow> patched (the (p_status p)) p j j' \<Longrightarrow>
    jstep lk (lk(i \<mapsto> j'))"
| reserve: "lk i = Some j \<Longrightarrow> j_status j = Validated \<Longrightarrow> \<not> leased lk \<Longrightarrow> reserved rid j j' \<Longrightarrow>
    jstep lk (lk(i \<mapsto> j'))"

text \<open>What holds of every job of the journal, and of the journal as a whole.\<close>

definition job_ok :: "job \<Rightarrow> bool" where
  "job_ok j = (j_transitions j \<noteq> [] \<and> hd (j_transitions j) = Authorized
     \<and> last (j_transitions j) = j_status j \<and> sorted_wrt (<) (j_transitions j)
     \<and> (j_receipt j \<noteq> None \<longleftrightarrow> j_status j = Confirmed)
     \<and> (\<forall>r. j_receipt j = Some r \<longrightarrow> wf_receipt r)
     \<and> (j_errorCode j \<noteq> None \<longleftrightarrow> j_status j = Failed \<or> j_status j = RecoveryRequired)
     \<and> (j_status j = IndexerPending \<longrightarrow> j_transactionId j \<noteq> None)
     \<and> (lease_holder (j_status j) \<longrightarrow> j_dustReservationId j \<noteq> None))"

definition journal_ok :: "(string \<Rightarrow> job option) \<Rightarrow> bool" where
  "journal_ok lk = ((\<forall>i j. lk i = Some j \<longrightarrow> job_ok j \<and> j_id j = i)
     \<and> (\<forall>i j i' j'. lk i = Some j \<longrightarrow> lk i' = Some j' \<longrightarrow> lease_holder (j_status j)
          \<longrightarrow> lease_holder (j_status j') \<longrightarrow> i = i'))"

lemma lifecycle_edge_less: "lifecycle_edge old s \<Longrightarrow> old < s"
  by (cases s) (auto simp: lifecycle_edge_def status_less_code)

lemma lifecycle_edge_lease: "lifecycle_edge old s \<Longrightarrow> lease_holder s \<Longrightarrow> lease_holder old"
  by (cases s) (auto simp: lifecycle_edge_def lease_holder_def)

lemma lifecycle_edge_not_terminal: "lifecycle_edge old s \<Longrightarrow> \<not> terminal old"
  by (cases s) (auto simp: lifecycle_edge_def terminal_def)

lemma sorted_wrt_snoc_status:
  "sorted_wrt (<) ts \<Longrightarrow> ts \<noteq> [] \<Longrightarrow> last ts < (s :: V2ActionJobStatus) \<Longrightarrow> sorted_wrt (<) (ts @ [s])"
proof (induction ts)
  case (Cons a ts)
  have "a < s"
  proof (cases "ts = []")
    case False
    then have "a < last ts" "last ts < s" using Cons.prems by auto
    then show ?thesis by (rule less_trans)
  qed (use Cons.prems in simp)
  moreover have "ts \<noteq> [] \<Longrightarrow> sorted_wrt (<) (ts @ [s])" using Cons by simp
  ultimately show ?case using Cons.prems(1) by (cases "ts = []") simp_all
qed simp

lemma job_ok_created: "created_from n j \<Longrightarrow> job_ok j"
  by (simp add: created_from_def job_ok_def lease_holder_def)

lemma job_ok_patched:
  assumes "job_ok j" "allowed (j_status j) p" "patched (the (p_status p)) p j j'"
  shows "job_ok j'"
proof -
  let ?s = "the (p_status p)"
  have edge: "lifecycle_edge (j_status j) ?s" using assms(2) by (simp add: allowed_def)
  have "j_transitions j' = j_transitions j @ [?s]"
    using assms(3) less_imp_neq [OF lifecycle_edge_less [OF edge]] by (auto simp: patched_def)
  moreover have "sorted_wrt (<) (j_transitions j @ [?s])"
    using assms(1) lifecycle_edge_less [OF edge] by (intro sorted_wrt_snoc_status) (auto simp: job_ok_def)
  moreover have "j_receipt j = None" "j_errorCode j = None"
    using assms(1) lifecycle_edge_not_terminal [OF edge] by (auto simp: job_ok_def terminal_def)
  moreover have "lease_holder ?s \<longrightarrow> j_dustReservationId j \<noteq> None"
    using assms(1) lifecycle_edge_lease [OF edge] by (auto simp: job_ok_def)
  ultimately show ?thesis
    using assms unfolding job_ok_def patched_def allowed_def wf_patch_def
    by (cases "p_receipt p"; cases "p_errorCode p"; cases "p_transactionId p") auto
qed

lemma job_ok_reserved:
  assumes "job_ok j" "j_status j = Validated" "reserved rid j j'"
  shows "job_ok j'"
proof -
  have "sorted_wrt (<) (j_transitions j @ [DustReserved])"
    using assms(1,2) by (intro sorted_wrt_snoc_status) (auto simp: job_ok_def status_less_code)
  then show ?thesis using assms by (auto simp: job_ok_def reserved_def)
qed

lemma same_identity_id: "same_identity j j' \<Longrightarrow> j_id j' = j_id j"
  by (simp add: same_identity_def)

lemma journal_ok_update:
  assumes "journal_ok lk" "job_ok j'" "j_id j' = i"
    and "lease_holder (j_status j') \<Longrightarrow>
      (\<exists>j. lk i = Some j \<and> lease_holder (j_status j)) \<or> \<not> leased lk"
  shows "journal_ok (lk(i \<mapsto> j'))"
  using assms unfolding journal_ok_def leased_def by (auto split: if_splits)

text \<open>Every step of the specification keeps the journal well-formed.\<close>

lemma jstep_journal_ok: "jstep lk lk' \<Longrightarrow> journal_ok lk \<Longrightarrow> journal_ok lk'"
proof (induction rule: jstep.induct)
  case (create lk n j)
  then show ?case
    by (intro journal_ok_update) (auto simp: job_ok_created, auto simp: created_from_def lease_holder_def)
next
  case (move lk i j p j')
  have j: "job_ok j" "j_id j = i" using move(1,4) by (simp_all add: journal_ok_def)
  have edge: "lifecycle_edge (j_status j) (j_status j')"
    using move(2,3) by (simp add: allowed_def patched_def)
  show ?case
  proof (rule journal_ok_update [OF move(4)])
    show "job_ok j'" by (rule job_ok_patched [OF j(1) move(2,3)])
    show "j_id j' = i" using move(3) j(2) by (simp add: patched_def same_identity_def)
    show "(\<exists>j. lk i = Some j \<and> lease_holder (j_status j)) \<or> \<not> leased lk" if "lease_holder (j_status j')"
      using lifecycle_edge_lease [OF edge that] move(1) by blast
  qed
next
  case (reserve lk i j rid j')
  have j: "job_ok j" "j_id j = i" using reserve(1,5) by (simp_all add: journal_ok_def)
  show ?case
  proof (rule journal_ok_update [OF reserve(5)])
    show "job_ok j'" by (rule job_ok_reserved [OF j(1) reserve(2,4)])
    show "j_id j' = i" using reserve(4) j(2) by (simp add: reserved_def same_identity_def)
  qed (use reserve(3) in simp)
qed

text \<open>A finished job is never written again; every job keeps its identity and its history.\<close>

lemma jstep_keeps:
  assumes "jstep lk lk'" "lk i = Some j"
  obtains j' where "lk' i = Some j'" "same_identity j j'" "\<exists>ts. j_transitions j' = j_transitions j @ ts"
    "terminal (j_status j) \<Longrightarrow> j' = j"
  using assms
proof (cases rule: jstep.cases)
  case (move i' j1 p j')
  note edge = \<open>allowed (j_status j1) p\<close>
  then have "lifecycle_edge (j_status j1) (the (p_status p))" by (simp add: allowed_def)
  from lifecycle_edge_less [OF this] lifecycle_edge_not_terminal [OF this] show ?thesis
    using move assms(2) that by (cases "i = i'") (auto simp: patched_def same_identity_def)
next
  case (reserve i' j1 rid j')
  then show ?thesis
    using assms(2) that by (cases "i = i'") (auto simp: reserved_def same_identity_def terminal_def)
next
  case (create n j1)
  then have "lk' i = Some j" using assms(2) by auto
  then show ?thesis using that by (auto simp: same_identity_def)
next
  case stay
  then show ?thesis using assms(2) that by (auto simp: same_identity_def)
qed

text \<open>The status of a job never goes back.\<close>

lemma jstep_status:
  assumes "jstep lk lk'" "lk i = Some j"
  shows "\<exists>j'. lk' i = Some j' \<and> j_status j \<le> j_status j'"
  using assms
proof (cases rule: jstep.cases)
  case (move i' j1 p j')
  then have "lifecycle_edge (j_status j1) (the (p_status p))" by (simp add: allowed_def)
  from lifecycle_edge_less [OF this] show ?thesis
    using move assms(2) by (cases "i = i'") (auto simp: patched_def)
next
  case (reserve i' j1 rid j')
  then show ?thesis
    using assms(2) by (cases "i = i'") (auto simp: reserved_def less_eq_V2ActionJobStatus_def)
qed auto

section \<open>The interface laws\<close>

text \<open>
  An adapter: its states satisfy \<open>inv\<close>, \<open>lookup\<close> is the journal a state stands
  for, \<open>spent\<close> the capability digests it has consumed, and \<open>key_ok\<close> the action
  identifiers it can read.
\<close>

locale action_store =
  fixes ops :: "'s v2_store"
    and inv :: "'s \<Rightarrow> bool"
    and lookup :: "'s \<Rightarrow> string \<Rightarrow> job option"
    and spent :: "'s \<Rightarrow> string set"
    and key_ok :: "string \<Rightarrow> bool"
    and empty :: 's
  assumes empty_law: "inv empty" "lookup empty = Map.empty" "spent empty = {}"
    and lookup_id: "inv s \<Longrightarrow> lookup s i = Some j \<Longrightarrow> j_id j = i"
    and unique_law: "inv s \<Longrightarrow> lookup s i = Some j \<Longrightarrow> lookup s i' = Some j' \<Longrightarrow>
      j_idempotencyKey j = j_idempotencyKey j' \<or> j_requestHash j = j_requestHash j' \<Longrightarrow> i = i'"
    and get_law: "inv s \<Longrightarrow> key_ok i \<Longrightarrow> getJob ops s i = Inr (lookup s i)"
    and by_key_law: "inv s \<Longrightarrow> \<exists>r. getByIdempotencyKey ops s k = Inr r \<and>
      (case r of Some j \<Rightarrow> lookup s (j_id j) = Some j \<and> j_idempotencyKey j = k
       | None \<Rightarrow> \<forall>i j. lookup s i = Some j \<longrightarrow> j_idempotencyKey j \<noteq> k)"
    and list_law: "inv s \<Longrightarrow> \<exists>js. listRecoverable ops s = Inr js \<and>
      set js = {j. \<exists>i. lookup s i = Some j \<and> j_status j \<in> set recoverableStatuses}"
    and create_law: "inv s \<Longrightarrow> wf_new n \<Longrightarrow> createOrGet ops s n = (s', r) \<Longrightarrow>
      inv s' \<and> spent s' = spent s \<and>
      (case r of Inl e \<Rightarrow> lookup s' = lookup s
       | Inr (j, c) \<Rightarrow> if c
           then lookup s (n_id n) = None \<and> created_from n j \<and> lookup s' = (lookup s)(n_id n \<mapsto> j)
           else lookup s' = lookup s \<and> lookup s (j_id j) = Some j \<and> j_requestHash j = n_requestHash n)"
    and create_fresh: "inv s \<Longrightarrow> wf_new n \<Longrightarrow> key_ok (n_id n) \<Longrightarrow> lookup s (n_id n) = None \<Longrightarrow>
      (\<And>i j. lookup s i = Some j \<Longrightarrow> j_idempotencyKey j \<noteq> n_idempotencyKey n
         \<and> j_requestHash j \<noteq> n_requestHash n \<and> j_capabilityDigest j \<noteq> n_capabilityDigest n) \<Longrightarrow>
      \<exists>s' j. createOrGet ops s n = (s', Inr (j, True))"
    and consume_law: "inv s \<Longrightarrow> wf_reservation c \<Longrightarrow> consumeCapability ops s c = (s', b) \<Longrightarrow>
      inv s' \<and> lookup s' = lookup s \<and> b = Inr (k_digest c \<notin> spent s)
      \<and> spent s' = insert (k_digest c) (spent s)"
    and transition_law: "inv s \<Longrightarrow> wf_patch p \<Longrightarrow> transition ops now s i ex p = (s', m) \<Longrightarrow>
      inv s' \<and> spent s' = spent s \<and>
      (case lookup s i of
         Some j \<Rightarrow> if j_status j \<in> set ex
           then \<exists>j'. m = Inr (Some j') \<and> patched (the (p_status p)) p j j' \<and> lookup s' = (lookup s)(i \<mapsto> j')
           else m = Inr None \<and> lookup s' = lookup s
       | None \<Rightarrow> m = Inr None \<and> lookup s' = lookup s)"
    and reserve_law: "inv s \<Longrightarrow> rid \<noteq> [] \<Longrightarrow>
      (\<And>k j. lookup s k = Some j \<Longrightarrow> j_dustReservationId j \<noteq> Some rid) \<Longrightarrow>
      reserveDust ops now s i rid = (s', m) \<Longrightarrow>
      inv s' \<and> spent s' = spent s \<and>
      (if \<exists>j. lookup s i = Some j \<and> j_status j = Validated \<and> \<not> leased (lookup s)
       then \<exists>j'. m = Inr (Some j') \<and> reserved rid (the (lookup s i)) j' \<and> lookup s' = (lookup s)(i \<mapsto> j')
       else m = Inr None \<and> lookup s' = lookup s)"
    and create_existing: "inv s \<Longrightarrow> wf_new n \<Longrightarrow> lookup s (n_id n) = Some j \<Longrightarrow>
      j_idempotencyKey j = n_idempotencyKey n \<Longrightarrow> j_requestHash j = n_requestHash n \<Longrightarrow>
      \<exists>s'. createOrGet ops s n = (s', Inr (j, False))"


section \<open>Store calls of the relay\<close>

text \<open>
  One constructor per call site of \<open>relayer/src/v2-service.ts\<close> that writes the
  journal. Handlers and the wallet stage of the relay are sequences of these
  calls, and calls of different handlers interleave at every \<open>await\<close>.
\<close>

datatype store_call =
    CreateCall new_job
  | ConsumeCall capability_reservation
  | ReplayCall string
  | RecoverCall string
  | ValidateCall string
  | ReserveCall string string
  | BalanceFailedCall string
  | FinalizeCall string "string option"
  | IntentCall string
  | SubmitLostCall string string
  | SubmitUnknownCall string
  | SubmitMismatchCall string
  | SubmittedCall string string
  | ConfirmCall string receipt
  | RejectCall string V2ActionErrorCode

definition error_patch :: "V2ActionJobStatus \<Rightarrow> V2ActionErrorCode \<Rightarrow> patch" where
  "error_patch s c = (patch_status s) \<lparr> p_errorCode := Some (code_str c) \<rparr>"

text \<open>The compare-and-set arguments of a call: the job, the expected statuses, the patch.\<close>

fun call_move :: "store_call \<Rightarrow> (string \<times> V2ActionJobStatus list \<times> patch) option" where
  "call_move (ReplayCall i) = Some (i, [Authorized], error_patch Failed Capability_replayed)"
| "call_move (RecoverCall i) =
     Some (i, [Authorized, Validated, DustReserved, Finalized], error_patch RecoveryRequired Recovery_required)"
| "call_move (ValidateCall i) = Some (i, [Authorized], patch_status Validated)"
| "call_move (BalanceFailedCall i) = Some (i, [DustReserved], error_patch Failed Transaction_rejected)"
| "call_move (FinalizeCall i d) =
     Some (i, [DustReserved], (patch_status Finalized) \<lparr> p_transactionId := truthy_str d \<rparr>)"
| "call_move (IntentCall i) = Some (i, [Finalized], patch_status Submitted)"
| "call_move (SubmitLostCall i d) =
     Some (i, [Submitted], (patch_status IndexerPending) \<lparr> p_transactionId := Some d \<rparr>)"
| "call_move (SubmitUnknownCall i) = Some (i, [Submitted], error_patch RecoveryRequired Submission_unknown)"
| "call_move (SubmitMismatchCall i) = Some (i, [Submitted], error_patch Failed Submission_id_mismatch)"
| "call_move (SubmittedCall i t) =
     Some (i, [Submitted], (patch_status IndexerPending) \<lparr> p_transactionId := Some t \<rparr>)"
| "call_move (ConfirmCall i r) =
     Some (i, [Submitted, IndexerPending], (patch_status Confirmed) \<lparr> p_receipt := Some r \<rparr>)"
| "call_move (RejectCall i c) = Some (i, [Submitted, IndexerPending], error_patch Failed c)"
| "call_move _ = None"

definition run_call :: "'s v2_store \<Rightarrow> string \<Rightarrow> 's \<Rightarrow> store_call \<Rightarrow> 's" where
  "run_call ops now s c = (case c of
       CreateCall n \<Rightarrow> fst (createOrGet ops s n)
     | ConsumeCall k \<Rightarrow> fst (consumeCapability ops s k)
     | ReserveCall i rid \<Rightarrow> fst (reserveDust ops now s i rid)
     | _ \<Rightarrow> (case call_move c of
         Some (i, ex, p) \<Rightarrow> fst (transition ops now s i ex p)
       | None \<Rightarrow> s))"

text \<open>
  What the relay guarantees of a call's arguments: validated request fields,
  64-digit digests, transaction ids that are not empty, receipts that passed the
  guard, and reservation ids that are fresh (they end in a random UUID).
\<close>

fun wf_call :: "(string \<Rightarrow> job option) \<Rightarrow> store_call \<Rightarrow> bool" where
  "wf_call lk (CreateCall n) = wf_new n"
| "wf_call lk (ConsumeCall k) = wf_reservation k"
| "wf_call lk (ReserveCall i rid) = (rid \<noteq> [] \<and> (\<forall>k j. lk k = Some j \<longrightarrow> j_dustReservationId j \<noteq> Some rid))"
| "wf_call lk (SubmitLostCall i d) = (d \<noteq> [])"
| "wf_call lk (SubmittedCall i t) = (t \<noteq> [])"
| "wf_call lk (ConfirmCall i r) = wf_receipt r"
| "wf_call lk _ = True"

text \<open>Any interleaving of calls, from any handler and any process.\<close>

inductive journal_run :: "'s v2_store \<Rightarrow> ('s \<Rightarrow> string \<Rightarrow> job option) \<Rightarrow> 's \<Rightarrow> 's \<Rightarrow> bool"
  for ops lookup where
  run_refl: "journal_run ops lookup s s"
| run_step: "journal_run ops lookup s s' \<Longrightarrow> wf_call (lookup s') c \<Longrightarrow>
    journal_run ops lookup s (run_call ops now s' c)"

lemma code_str_nonempty [simp]: "code_str c \<noteq> []"
  by (cases c) auto

lemma error_patch_simps [simp]:
  "p_status (error_patch s c) = Some s" "p_dustReservationId (error_patch s c) = None"
  "p_transactionId (error_patch s c) = None" "p_receipt (error_patch s c) = None"
  "p_errorCode (error_patch s c) = Some (code_str c)"
  by (simp_all add: error_patch_def)

text \<open>Every compare-and-set of the relay is a lifecycle edge of the specification.\<close>

lemma call_move_allowed:
  assumes "call_move c = Some (i, ex, p)" "wf_call lk c" "old \<in> set ex"
  shows "allowed old p"
  using assms by (cases c) (auto simp: allowed_def wf_patch_def lifecycle_edge_def)

lemma call_move_wf_patch: "call_move c = Some (i, ex, p) \<Longrightarrow> wf_call lk c \<Longrightarrow> wf_patch p"
  by (cases c) (auto simp: wf_patch_def)

lemma run_call_cases:
  fixes ops :: "'s v2_store"
  obtains (create) n where "c = CreateCall n"
  | (consume) k where "c = ConsumeCall k"
  | (reserve) i rid where "c = ReserveCall i rid"
  | (move) i ex p where "call_move c = Some (i, ex, p)"
      "run_call ops now s c = fst (transition ops now s i ex p)"
  by (cases c) (auto simp: run_call_def)

context action_store
begin

lemma lookup_law_id: "inv s \<Longrightarrow> lookup s (j_id j) = Some j' \<Longrightarrow> j_id j' = j_id j"
  by (rule lookup_id)

text \<open>A call of the relay keeps the adapter's invariant and refines a step of the specification.\<close>

lemma run_call_refines:
  assumes "inv s" "wf_call (lookup s) c"
  shows "inv (run_call ops now s c) \<and> jstep (lookup s) (lookup (run_call ops now s c))"
proof (cases rule: run_call_cases [where c = c and ops = ops and now = now and s = s])
  case (create n)
  obtain s' r where r: "createOrGet ops s n = (s', r)" by (cases "createOrGet ops s n")
  note law = create_law [OF assms(1) _ r]
  have "jstep (lookup s) (lookup s')"
  proof (cases r)
    case (Inr jc)
    then show ?thesis using law assms(2) create
      by (cases jc) (auto split: if_splits intro: jstep.intros)
  qed (use law assms(2) create in \<open>auto intro: jstep.stay\<close>)
  then show ?thesis using law r assms(2) create by (simp add: run_call_def)
next
  case (consume k)
  then show ?thesis using consume_law [OF assms(1)] assms(2)
    by (cases "consumeCapability ops s k") (auto simp: run_call_def intro: jstep.stay)
next
  case (reserve i rid)
  obtain s' r where r: "reserveDust ops now s i rid = (s', r)" by (cases "reserveDust ops now s i rid")
  have law: "inv s'" "if \<exists>j. lookup s i = Some j \<and> j_status j = Validated \<and> \<not> leased (lookup s)
       then \<exists>j'. r = Inr (Some j') \<and> reserved rid (the (lookup s i)) j' \<and> lookup s' = (lookup s)(i \<mapsto> j')
       else r = Inr None \<and> lookup s' = lookup s"
    using reserve_law [OF assms(1) _ _ r] assms(2) reserve by auto
  then have "jstep (lookup s) (lookup s')"
    by (auto split: if_splits intro: jstep.intros)
  then show ?thesis using law(1) r reserve by (simp add: run_call_def)
next
  case (move i ex p)
  obtain s' r where r: "transition ops now s i ex p = (s', r)" by (cases "transition ops now s i ex p")
  note law = transition_law [OF assms(1) call_move_wf_patch [OF move(1) assms(2)] r]
  have "jstep (lookup s) (lookup s')"
  proof (cases "\<exists>j. lookup s i = Some j \<and> j_status j \<in> set ex")
    case True
    then obtain j j' where "lookup s i = Some j" "j_status j \<in> set ex"
      "patched (the (p_status p)) p j j'" "lookup s' = (lookup s)(i \<mapsto> j')"
      using law by auto
    then show ?thesis using call_move_allowed [OF move(1) assms(2)] by (auto intro: jstep.move)
  next
    case False
    then have "lookup s' = lookup s" using law by (auto split: option.splits if_splits)
    then show ?thesis by (auto intro: jstep.stay)
  qed
  then show ?thesis using law move(2) r by simp
qed

lemma journal_run_refines:
  "journal_run ops lookup s s' \<Longrightarrow> inv s \<Longrightarrow> inv s' \<and> jstep\<^sup>*\<^sup>* (lookup s) (lookup s')"
proof (induction s s' rule: journal_run.induct)
  case (run_step s s' c now)
  then show ?case using run_call_refines [of s' c now] by (meson rtranclp.rtrancl_into_rtrancl)
qed simp

lemma journal_run_ok:
  assumes "journal_run ops lookup s s'" "inv s" "journal_ok (lookup s)"
  shows "inv s' \<and> journal_ok (lookup s')"
proof -
  have "jstep\<^sup>*\<^sup>* (lookup s) (lookup s')" "inv s'" using journal_run_refines [OF assms(1,2)] by auto
  then have "journal_ok (lookup s')" using assms(3)
    by (induction rule: rtranclp_induct) (auto intro: jstep_journal_ok)
  then show ?thesis using \<open>inv s'\<close> by simp
qed

lemma journal_reachable:
  "journal_run ops lookup empty s \<Longrightarrow> inv s \<and> journal_ok (lookup s)"
  using journal_run_ok [of empty s] empty_law by (simp add: journal_ok_def)

text \<open>At any moment at most one job holds the DUST lease.\<close>

lemma lease_exclusive:
  assumes "journal_run ops lookup empty s" "lookup s i = Some j" "lookup s i' = Some j'"
    and "lease_holder (j_status j)" "lease_holder (j_status j')"
  shows "i = i'"
  using journal_reachable [OF assms(1)] assms(2-) by (auto simp: journal_ok_def)

lemma journal_keeps:
  assumes "journal_run ops lookup s s'" "inv s" "lookup s i = Some j"
  shows "\<exists>j'. lookup s' i = Some j' \<and> same_identity j j' \<and> (\<exists>ts. j_transitions j' = j_transitions j @ ts)
    \<and> (terminal (j_status j) \<longrightarrow> j' = j)"
proof -
  have "jstep\<^sup>*\<^sup>* (lookup s) (lookup s')" using journal_run_refines [OF assms(1,2)] by auto
  then show ?thesis
  proof (induction rule: rtranclp_induct)
    case base
    then show ?case using assms(3) by (simp add: same_identity_def)
  next
    case (step lk lk')
    then obtain j1 where j1: "lk i = Some j1" "same_identity j j1"
      "\<exists>ts. j_transitions j1 = j_transitions j @ ts" "terminal (j_status j) \<longrightarrow> j1 = j" by auto
    obtain j2 where "lk' i = Some j2" "same_identity j1 j2" "\<exists>ts. j_transitions j2 = j_transitions j1 @ ts"
      "terminal (j_status j1) \<Longrightarrow> j2 = j1"
      using jstep_keeps [OF step.hyps(2) j1(1)] by metis
    then show ?case using j1 by (auto simp: same_identity_def)
  qed
qed

lemma journal_status:
  assumes "journal_run ops lookup s s'" "inv s" "lookup s i = Some j"
  shows "\<exists>j'. lookup s' i = Some j' \<and> j_status j \<le> j_status j'"
proof -
  have "jstep\<^sup>*\<^sup>* (lookup s) (lookup s')" using journal_run_refines [OF assms(1,2)] by auto
  then show ?thesis
  proof (induction rule: rtranclp_induct)
    case (step lk lk')
    then show ?case using jstep_status order_trans by metis
  qed (use assms(3) in auto)
qed

end

end
