(* ===== verification/V2_Indexer.thy ===== *)
theory V2_Indexer
  imports V2_Types
begin

text \<open>
  The receipt resolver (\<open>relayer/src/v2-indexer.ts\<close>): how one answer of the
  indexer's GraphQL endpoint becomes a receipt, "not yet", a definitive rejection,
  or an outage. The HTTP exchange is the argument \<open>answer\<close>.
\<close>

section \<open>Answers\<close>

text \<open>
  What \<open>fetch\<close> and \<open>response.json()\<close> deliver: the timeout abort, any other
  network or parse error, or a response with its \<open>ok\<close> flag and its payload.
\<close>

datatype indexer_answer = Aborted | FetchFailed | Response bool json

record indexer_transaction =
  t_hash :: string
  t_identifiers :: "string list"
  t_status :: string
  t_contractActions :: "string list"
  t_height :: int
  t_blockHash :: string
  t_timestamp :: int

fun strings_of :: "json list \<Rightarrow> string list option" where
  "strings_of [] = Some []"
| "strings_of (JStr s # vs) = map_option ((#) s) (strings_of vs)"
| "strings_of (_ # vs) = None"

fun elements :: "json option \<Rightarrow> json list option" where
  "elements (Some (JArr vs)) = Some vs"
| "elements _ = None"

fun sub :: "json option \<Rightarrow> string \<Rightarrow> json option" where
  "sub (Some (JObj ps)) k = map_of ps k"
| "sub _ k = None"

abbreviation is_rec :: "json option \<Rightarrow> bool" where
  "is_rec v \<equiv> (case v of Some x \<Rightarrow> isRecord x | None \<Rightarrow> False)"

text \<open>The addresses of the contract actions that are objects; all must be strings.\<close>

definition action_addresses :: "json list \<Rightarrow> string list option" where
  "action_addresses vs =
     (let recs = filter isRecord vs in
      if list_all (\<lambda>a. is_str (fld a ''address'')) recs
      then Some (map (\<lambda>a. the (as_str (fld a ''address''))) recs) else None)"

definition transactionFrom :: "json \<Rightarrow> (v2_error, indexer_transaction option) result" where
  "transactionFrom value =
     (case elements (sub (fld value ''data'') ''transactions'') of
        None \<Rightarrow> Inr None
      | Some [] \<Rightarrow> Inr None
      | Some (tx # _) \<Rightarrow>
          if \<not> isRecord tx then Inr None
          else
            let actions = elements (fld tx ''contractActions'');
                block = fld tx ''block'';
                identifiers = Option.bind (elements (fld tx ''identifiers'')) strings_of;
                outcome = fld tx ''transactionResult''
            in if \<not> is_str (fld tx ''hash'') \<or> actions = None \<or> identifiers = None
                 \<or> \<not> is_rec block \<or> safe_int (sub block ''height'') = None
                 \<or> \<not> is_str (sub block ''hash'') \<or> safe_int (sub block ''timestamp'') = None
                 \<or> \<not> is_rec outcome \<or> \<not> is_str (sub outcome ''status'')
               then Inl (OtherError ''indexer returned malformed transaction data'')
               else (case action_addresses (the actions) of
                   None \<Rightarrow> Inl (OtherError ''indexer returned malformed contract actions'')
                 | Some addresses \<Rightarrow>
                     Inr (Some \<lparr> t_hash = the (as_str (fld tx ''hash'')), t_identifiers = the identifiers,
                       t_status = the (as_str (sub outcome ''status'')), t_contractActions = addresses,
                       t_height = the (safe_int (sub block ''height'')),
                       t_blockHash = the (as_str (sub block ''hash'')),
                       t_timestamp = the (safe_int (sub block ''timestamp'')) \<rparr>)))"

section \<open>Resolving\<close>

record resolve_input =
  i_transactionId :: string
  i_network :: string
  i_contractAddress :: string
  i_circuit :: string
  i_action :: CivicActionKind

definition receipt_of_transaction ::
  "(string \<Rightarrow> int option) \<Rightarrow> string option \<Rightarrow> resolve_input \<Rightarrow> indexer_transaction \<Rightarrow> (v2_error, receipt option) result" where
  "receipt_of_transaction date_parse explorerBaseUrl inp t =
     (if i_transactionId inp \<notin> set (t_identifiers t) then Inr None
      else if t_status t \<noteq> ''SUCCESS'' then Inl (V2ActionError Indexer_rejected 409)
      else if i_contractAddress inp \<notin> set (t_contractActions t)
      then Inl (V2ActionError Indexer_contract_mismatch 409)
      else (case network_of_str (i_network inp) of
          None \<Rightarrow> Inl (OtherError ''unsupported network'')
        | Some network \<Rightarrow>
            map_err (\<lambda>_. OtherError ''receipt'')
              (rbind (canonicalReceiptFromIndexer date_parse
                 \<lparr> o_status = ''confirmed'', o_transactionId = i_transactionId inp, o_transactionHash = t_hash t,
                   o_contractAddress = i_contractAddress inp, o_blockHeight = t_height t,
                   o_blockHash = t_blockHash t, o_blockTimestamp = TsNum (t_timestamp t), o_explorerUrl = None \<rparr>
                 \<lparr> c_action = i_action inp, c_network = network, c_contractAddress = i_contractAddress inp,
                   c_circuit = i_circuit inp, c_explorerBaseUrl = explorerBaseUrl \<rparr>)
               (\<lambda>r. Inr (Some r)))))"

definition resolve ::
  "(string \<Rightarrow> int option) \<Rightarrow> string option \<Rightarrow> indexer_answer \<Rightarrow> resolve_input \<Rightarrow> (v2_error, receipt option) result" where
  "resolve date_parse explorerBaseUrl answer inp = (case answer of
     Aborted \<Rightarrow> Inr None
   | FetchFailed \<Rightarrow> Inl (OtherError ''fetch'')
   | Response ok payload \<Rightarrow>
       if \<not> ok then Inl (OtherError ''indexer HTTP'')
       else if \<not> isRecord payload \<or> (case elements (fld payload ''errors'') of Some (e # es) \<Rightarrow> True | _ \<Rightarrow> False)
       then Inl (OtherError ''indexer returned a GraphQL error'')
       else rbind (transactionFrom payload) (\<lambda>found. case found of
           None \<Rightarrow> Inr None
         | Some t \<Rightarrow> receipt_of_transaction date_parse explorerBaseUrl inp t))"

section \<open>Lemmas\<close>

lemma map_err_eq_Inr [simp]: "map_err g r = Inr a \<longleftrightarrow> r = Inr a"
  by (cases r) auto

text \<open>A receipt is issued for exactly the transaction, contract, circuit and action asked for.\<close>

lemma receipt_of_transaction_Some:
  assumes "receipt_of_transaction dp ex inp t = Inr (Some r)"
  shows "wf_receipt r" "r_transactionId r = i_transactionId inp" "r_contractAddress r = i_contractAddress inp"
    "r_circuit r = i_circuit inp" "r_action r = i_action inp" "network_str (r_network r) = i_network inp"
    "r_blockHash r = t_blockHash t" "t_status t = ''SUCCESS''"
    "i_transactionId inp \<in> set (t_identifiers t)" "i_contractAddress inp \<in> set (t_contractActions t)"
  using assms
  by (auto simp: receipt_of_transaction_def network_of_str_eq_Some receipt_from_indexer_wf
      dest: receipt_from_indexer_binds split: if_splits option.splits)

lemma resolve_Some:
  assumes "resolve dp ex answer inp = Inr (Some r)"
  obtains payload t where "answer = Response True payload" "transactionFrom payload = Inr (Some t)"
    "receipt_of_transaction dp ex inp t = Inr (Some r)"
  using assms that
  by (auto simp: resolve_def split: indexer_answer.splits if_splits option.splits)

lemma resolve_rejected:
  assumes "resolve dp ex answer inp = Inl (V2ActionError c h)"
  obtains payload t where "answer = Response True payload" "transactionFrom payload = Inr (Some t)"
    "i_transactionId inp \<in> set (t_identifiers t)"
    "(c = Indexer_rejected \<and> t_status t \<noteq> ''SUCCESS'') \<or>
     (c = Indexer_contract_mismatch \<and> i_contractAddress inp \<notin> set (t_contractActions t))"
proof -
  have no: "transactionFrom payload \<noteq> Inl (V2ActionError c h)" for payload
    by (auto simp: transactionFrom_def Let_def split: option.splits list.splits if_splits)
  show ?thesis
    using assms no that
    by (auto simp: resolve_def receipt_of_transaction_def map_err_def
        split: indexer_answer.splits if_splits option.splits sum.splits)
qed

section \<open>Properties\<close>

text \<open>
  C33: The resolver returns a receipt only for a successful answer whose first
  transaction carries the requested identifier, has status SUCCESS and touches the
  requested contract; the receipt passes the guard and names the requested
  transaction, contract, circuit, action and network.
\<close>

theorem resolver_sound:
  assumes "resolve date_parse explorerBaseUrl answer inp = Inr (Some r)"
  shows "(\<exists>payload t. answer = Response True payload \<and> transactionFrom payload = Inr (Some t)
      \<and> t_status t = ''SUCCESS'' \<and> i_transactionId inp \<in> set (t_identifiers t)
      \<and> i_contractAddress inp \<in> set (t_contractActions t) \<and> r_blockHash r = t_blockHash t)
    \<and> wf_receipt r \<and> r_transactionId r = i_transactionId inp \<and> r_contractAddress r = i_contractAddress inp
    \<and> r_circuit r = i_circuit inp \<and> r_action r = i_action inp \<and> network_str (r_network r) = i_network inp"
proof -
  obtain payload t where "answer = Response True payload" "transactionFrom payload = Inr (Some t)"
    and t: "receipt_of_transaction date_parse explorerBaseUrl inp t = Inr (Some r)"
    by (rule resolve_Some [OF assms])
  then show ?thesis using receipt_of_transaction_Some [OF t] by auto
qed

definition sample_payload :: "string \<Rightarrow> json" where
  "sample_payload status = JObj [(''data'', JObj [(''transactions'', JArr [JObj
     [(''hash'', JStr ''h1''), (''contractActions'', JArr [JObj [(''address'', JStr ''c1'')]]),
      (''block'', JObj [(''height'', JNum (JInt 7)), (''hash'', JStr ''b1''), (''timestamp'', JNum (JInt 0))]),
      (''identifiers'', JArr [JStr ''t0'', JStr ''t1'']),
      (''transactionResult'', JObj [(''status'', JStr status)])]])])]"

definition sample_input :: resolve_input where
  "sample_input = \<lparr> i_transactionId = ''t1'', i_network = ''preview'', i_contractAddress = ''c1'',
     i_circuit = ''castVote'', i_action = Vote \<rparr>"

lemma sample_resolved:
  "resolve (\<lambda>_. None) None (Response True (sample_payload ''SUCCESS'')) sample_input = Inr (Some sample_receipt)"
  by code_simp

theorem resolver_sound_witness:
  "r_transactionId sample_receipt = i_transactionId sample_input \<and> wf_receipt sample_receipt"
  using resolver_sound [OF sample_resolved] by simp

text \<open>
  The resolver reports a definitive failure only from a successful answer about
  the requested transaction that was not successful or did not touch the contract;
  an abort, an HTTP error, a GraphQL error or a malformed payload never rejects an
  action.
\<close>

theorem resolver_rejects_definitively:
  assumes "resolve date_parse explorerBaseUrl answer inp = Inl (V2ActionError c h)"
  shows "\<exists>payload t. answer = Response True payload \<and> transactionFrom payload = Inr (Some t)
    \<and> i_transactionId inp \<in> set (t_identifiers t)
    \<and> ((c = Indexer_rejected \<and> t_status t \<noteq> ''SUCCESS'')
       \<or> (c = Indexer_contract_mismatch \<and> i_contractAddress inp \<notin> set (t_contractActions t)))"
proof -
  obtain payload t where "answer = Response True payload" "transactionFrom payload = Inr (Some t)"
    "i_transactionId inp \<in> set (t_identifiers t)"
    "(c = Indexer_rejected \<and> t_status t \<noteq> ''SUCCESS'') \<or>
     (c = Indexer_contract_mismatch \<and> i_contractAddress inp \<notin> set (t_contractActions t))"
    by (rule resolve_rejected [OF assms])
  then show ?thesis by blast
qed

lemma sample_failed:
  "resolve (\<lambda>_. None) None (Response True (sample_payload ''FAILURE'')) sample_input
     = Inl (V2ActionError Indexer_rejected 409)"
  by code_simp

theorem resolver_rejects_definitively_witness:
  "\<exists>t. transactionFrom (sample_payload ''FAILURE'') = Inr (Some t) \<and> t_status t \<noteq> ''SUCCESS''"
  using resolver_rejects_definitively [OF sample_failed] by auto

end
