(* ===== verification/V2_Service.thy ===== *)
theory V2_Service
  imports V2_Journal V2_Indexer
begin

text \<open>
  The walletless action service (\<open>relayer/src/v2-service.ts\<close>), over any adapter of
  the journal: request parsing, \<open>accept\<close>, \<open>get\<close>, \<open>getReceipt\<close>, \<open>reconcile\<close>,
  restart recovery and the wallet stage. Each handler is a function of the
  service state; between its store calls other handlers may run, which
  \<^theory_text>\<open>V2_Journal\<close> covers for the journal. Clocks, identifiers and digests are
  arguments; the wallet executor and the transaction decoder are parameters.
\<close>

section \<open>Options and state\<close>

record service_options =
  so_allowedNetworks :: "string list"
  so_allowedContracts :: "string list"
  so_allowedCircuits :: "string list"
  so_capabilitySecret :: string
  so_validateTransaction :: "string \<Rightarrow> v2_error option"
  so_confirmationRetryMs :: nat

text \<open>\<open>V2RelayerExecutor\<close>: a call that throws is \<^const>\<open>None\<close>.\<close>

record executor =
  ex_balanceAndFinalize :: "string \<Rightarrow> string option"
  ex_submit :: "string \<Rightarrow> string option"
  ex_transactionId :: "string \<Rightarrow> string option"

record request_headers =
  h_idempotencyKey :: "string option"
  h_requestHash :: "string option"
  h_capability :: "string option"

datatype timer = ReconcileTimer string nat | RunTimer string nat

text \<open>
  The memory of a service process: its store, the unbound transactions it holds,
  the jobs whose wallet stage is queued, the timers it has set, and the log of
  transactions handed to the node.
\<close>

record 's service =
  sv_store :: 's
  sv_transient :: "string jsmap"
  sv_running :: "string list"
  sv_timers :: "timer list"
  sv_submitted :: "(string \<times> string) list"

section \<open>Request parsing\<close>

definition forbiddenRequestKeys :: "string list" where
  "forbiddenRequestKeys = map toLowerCase
     [''proof'', ''witness'', ''choice'', ''ballot'', ''ballotChoice'', ''voteChoice'', ''secret'', ''seed'',
      ''seedPhrase'', ''voterSecret'', ''voteSalt'', ''passport'', ''profile'', ''name'', ''email'',
      ''passportNumber'', ''mrz'', ''mrzData'', ''nfc'', ''nfcPayload'', ''credentialBlind'', ''credentialLeaf'']"

definition forbidden_key :: "string \<Rightarrow> bool" where
  "forbidden_key k = (toLowerCase k \<in> set forbiddenRequestKeys)"

fun is_object :: "json \<Rightarrow> bool" where
  "is_object (JArr vs) = True"
| "is_object (JObj ps) = True"
| "is_object _ = False"

text \<open>The loop over \<open>Object.entries\<close>: a forbidden key throws, object children are pushed.\<close>

fun push_children :: "(string \<times> json) list \<Rightarrow> json list \<Rightarrow> json list option" where
  "push_children [] pending = Some pending"
| "push_children ((k, child) # ps) pending =
     (if forbidden_key k then None
      else push_children ps (if is_object child then child # pending else pending))"

fun weight :: "json \<Rightarrow> nat" where
  "weight (JArr vs) = Suc (sum_list (map weight vs))"
| "weight (JObj ps) = Suc (sum_list (map (\<lambda>(k, v). weight v) ps))"
| "weight _ = 1"

lemma weight_push_children:
  "push_children ps pending = Some q \<Longrightarrow>
     sum_list (map weight q) \<le> sum_list (map weight pending) + sum_list (map (\<lambda>(k, v). weight v) ps)"
  by (induction ps pending rule: push_children.induct) (auto split: if_splits)

text \<open>The work list of \<open>assertNoForbiddenKeys\<close>, its last element first; \<^const>\<open>False\<close> when it throws.\<close>

function scan_pending :: "json list \<Rightarrow> bool" where
  "scan_pending [] = True"
| "scan_pending (candidate # pending) =
     (case candidate of
        JArr vs \<Rightarrow> scan_pending (rev vs @ pending)
      | JObj ps \<Rightarrow> (case push_children ps pending of None \<Rightarrow> False | Some q \<Rightarrow> scan_pending q)
      | _ \<Rightarrow> scan_pending pending)"
  by pat_completeness auto
termination
  by (relation "measure (\<lambda>q. sum_list (map weight q))")
     (auto simp: rev_map [symmetric] sum_list_rev dest: weight_push_children)

declare scan_pending.simps [simp del]

definition assertNoForbiddenKeys :: "json \<Rightarrow> (v2_error, unit) result" where
  "assertNoForbiddenKeys v = check (scan_pending [v]) (V2ActionError Invalid_request 400)"

definition field :: "json option \<Rightarrow> (v2_error, string) result" where
  "field v = (case as_str v of
     Some s \<Rightarrow> if blank s \<or> length s > 256 then Inl (V2ActionError Invalid_request 400) else Inr s
   | None \<Rightarrow> Inl (V2ActionError Invalid_request 400))"

definition optionalDigest :: "json option \<Rightarrow> (v2_error, string option) result" where
  "optionalDigest v = (case v of
     None \<Rightarrow> Inr None
   | Some (JStr s) \<Rightarrow> if length s = 64 \<and> list_all any_hex s then Inr (Some (toLowerCase s))
       else Inl (V2ActionError Invalid_request 400)
   | Some _ \<Rightarrow> Inl (V2ActionError Invalid_request 400))"

definition header_mismatch :: "string option \<Rightarrow> json option \<Rightarrow> bool" where
  "header_mismatch header body = (case truthy_str header of
     None \<Rightarrow> False | Some h \<Rightarrow> truthy body \<and> body \<noteq> Some (JStr h))"

definition MAX_TRANSACTION_HEX_LENGTH :: nat where
  "MAX_TRANSACTION_HEX_LENGTH = 2097152"

definition tx_field :: "json option \<Rightarrow> (v2_error, string) result" where
  "tx_field v = (case as_str v of
     Some tx \<Rightarrow> if tx = [] \<or> length tx > MAX_TRANSACTION_HEX_LENGTH \<or> \<not> list_all any_hex tx \<or> length tx mod 2 \<noteq> 0
       then Inl (V2ActionError Invalid_request 400) else Inr tx
   | None \<Rightarrow> Inl (V2ActionError Invalid_request 400))"

definition action_field :: "json option \<Rightarrow> string \<Rightarrow> (v2_error, CivicActionKind) result" where
  "action_field v circuit = (case v of
     None \<Rightarrow> (case actionForCircuit circuit of Some a \<Rightarrow> Inr a | None \<Rightarrow> Inl (V2ActionError Invalid_request 400))
   | Some _ \<Rightarrow>
       (case isAction v of
          None \<Rightarrow> Inl (V2ActionError Invalid_request 400)
        | Some a \<Rightarrow> if actionForCircuit circuit \<noteq> Some a then Inl (V2ActionError Invalid_request 400) else Inr a))"

definition parseV2ActionRequest ::
  "service_options \<Rightarrow> json \<Rightarrow> request_headers \<Rightarrow> (v2_error, action_request) result" where
  "parseV2ActionRequest opts value headers =
     rbind (check (isRecord value) (V2ActionError Invalid_request 400)) (\<lambda>_.
     rbind (assertNoForbiddenKeys value) (\<lambda>_.
     rbind (field (nullish (fld value ''idempotencyKey'') (map_option JStr (h_idempotencyKey headers)))) (\<lambda>idempotencyKey.
     rbind (check (\<not> header_mismatch (h_idempotencyKey headers) (fld value ''idempotencyKey''))
       (V2ActionError Invalid_request 400)) (\<lambda>_.
     rbind (optionalDigest (nullish (fld value ''requestHash'') (map_option JStr (h_requestHash headers)))) (\<lambda>requestHash.
     rbind (check (\<not> header_mismatch (h_requestHash headers) (fld value ''requestHash''))
       (V2ActionError Invalid_request 400)) (\<lambda>_.
     rbind (field (fld value ''network'')) (\<lambda>network.
     rbind (field (fld value ''contractAddress'')) (\<lambda>contractAddress.
     rbind (field (fld value ''circuit'')) (\<lambda>circuit.
     rbind (tx_field (nullish (fld value ''tx'') (fld value ''transaction''))) (\<lambda>tx.
     rbind (action_field (fld value ''action'') circuit) (\<lambda>action.
     rbind (check (network \<in> set (so_allowedNetworks opts)) (V2ActionError Not_allowlisted 403)) (\<lambda>_.
     rbind (check (contractAddress \<in> set (so_allowedContracts opts)) (V2ActionError Not_allowlisted 403)) (\<lambda>_.
     rbind (check (circuit \<in> set (so_allowedCircuits opts)) (V2ActionError Not_allowlisted 403)) (\<lambda>_.
     rbind (case so_validateTransaction opts tx of Some e \<Rightarrow> Inl e | None \<Rightarrow> Inr ()) (\<lambda>_.
     rbind (field (fld value ''actionId'')) (\<lambda>actionId.
     Inr \<lparr> q_actionId = actionId, q_idempotencyKey = idempotencyKey, q_requestHash = requestHash,
           q_network = network, q_contractAddress = contractAddress, q_circuit = circuit,
           q_action = action, q_tx = toLowerCase tx \<rparr>))))))))))))))))"

section \<open>Accepting a request\<close>

definition scheduleReconcile :: "string \<Rightarrow> nat \<Rightarrow> 's service \<Rightarrow> 's service" where
  "scheduleReconcile i delay sv = sv \<lparr> sv_timers := sv_timers sv @ [ReconcileTimer i delay] \<rparr>"

definition scheduleRun :: "string \<Rightarrow> nat \<Rightarrow> 's service \<Rightarrow> 's service" where
  "scheduleRun i delay sv = sv \<lparr> sv_timers := sv_timers sv @ [RunTimer i delay] \<rparr>"

text \<open>\<open>run\<close> queues the wallet stage of a job.\<close>

definition run_job :: "string \<Rightarrow> 's service \<Rightarrow> 's service" where
  "run_job i sv = sv \<lparr> sv_running := sv_running sv @ [i] \<rparr>"

definition reconcilable :: "job \<Rightarrow> bool" where
  "reconcilable j = ((j_status j = Submitted \<or> j_status j = IndexerPending) \<and> truthy_str (j_transactionId j) \<noteq> None)"

text \<open>What a request is reduced to once it is parsed, hashed and authorised.\<close>

definition authorize ::
  "(string \<Rightarrow> string) \<Rightarrow> (string \<Rightarrow> string \<Rightarrow> string) \<Rightarrow> service_options \<Rightarrow> string \<Rightarrow> int \<Rightarrow> json \<Rightarrow> request_headers
     \<Rightarrow> (v2_error, action_request \<times> new_job \<times> capability_reservation) result" where
  "authorize sha256 hmac opts now nowSeconds body headers =
     rbind (parseV2ActionRequest opts body headers) (\<lambda>request.
     let requestHash = v2RequestHash sha256 (q_network request) (q_contractAddress request) (q_circuit request)
           (q_action request) (q_tx request)
     in
     rbind (check (truthy_str (q_requestHash request) = None \<or> q_requestHash request = Some requestHash)
       (V2ActionError Invalid_request 400)) (\<lambda>_.
     rbind (map_err (\<lambda>_. V2ActionError Capability_invalid 401)
         (verifyV2Capability sha256 hmac (case h_capability headers of Some t \<Rightarrow> t | None \<Rightarrow> [])
           (so_capabilitySecret opts)
           \<lparr> cc_actionId = q_actionId request, cc_idempotencyKey = q_idempotencyKey request,
             cc_network = q_network request, cc_contractAddress = q_contractAddress request,
             cc_circuit = q_circuit request, cc_action = q_action request, cc_requestHash = requestHash \<rparr>
           nowSeconds)) (\<lambda>(digest, expiresAt).
     Inr (request,
       \<lparr> n_id = q_actionId request, n_actionId = q_actionId request,
         n_idempotencyKey = q_idempotencyKey request, n_capabilityDigest = digest,
         n_requestHash = requestHash, n_txDigest = digestTransaction sha256 (q_tx request),
         n_network = q_network request, n_contractAddress = q_contractAddress request,
         n_circuit = q_circuit request, n_action = q_action request, n_now = now \<rparr>,
       \<lparr> k_digest = digest, k_actionId = q_actionId request, k_idempotencyKey = q_idempotencyKey request,
         k_requestHash = requestHash, k_network = q_network request,
         k_contractAddress = q_contractAddress request, k_circuit = q_circuit request,
         k_action = q_action request, k_expiresAt = expiresAt \<rparr>))))"

text \<open>The last part of \<open>accept\<close>: hold the bytes, queue or reconcile, answer.\<close>

definition attach_and_run :: "bool \<Rightarrow> job \<Rightarrow> string \<Rightarrow> 's service \<Rightarrow> 's service" where
  "attach_and_run created existing tx sv =
     (let sv1 = (if j_status existing = Authorized \<or> created
            then sv \<lparr> sv_transient := map_set (j_id existing) tx (sv_transient sv) \<rparr> else sv)
      in if j_status existing = Authorized \<and> j_id existing \<notin> set (sv_running sv1) then run_job (j_id existing) sv1
         else if reconcilable existing then scheduleReconcile (j_id existing) 0 sv1
         else sv1)"

definition accept ::
  "'s v2_store \<Rightarrow> (string \<Rightarrow> string) \<Rightarrow> (string \<Rightarrow> string \<Rightarrow> string) \<Rightarrow> service_options \<Rightarrow> string \<Rightarrow> int
     \<Rightarrow> json \<Rightarrow> request_headers \<Rightarrow> 's service \<Rightarrow> 's service \<times> (v2_error, public_job) result" where
  "accept ops sha256 hmac opts now nowSeconds body headers sv =
     (case authorize sha256 hmac opts now nowSeconds body headers of
        Inl e \<Rightarrow> (sv, Inl e)
      | Inr (request, jobInput, reservation) \<Rightarrow>
     (case createOrGet ops (sv_store sv) jobInput of
        (s1, Inl V2StoreConflictError) \<Rightarrow> (sv \<lparr> sv_store := s1 \<rparr>, Inl (V2ActionError Idempotency_conflict 409))
      | (s1, Inl e) \<Rightarrow> (sv \<lparr> sv_store := s1 \<rparr>, Inl e)
      | (s1, Inr (existing, created)) \<Rightarrow>
          let sv1 = sv \<lparr> sv_store := s1 \<rparr> in
          if j_requestHash existing \<noteq> n_requestHash jobInput
          then (sv1, Inl (V2ActionError Idempotency_conflict 409))
          else (case getByIdempotencyKey ops s1 (q_idempotencyKey request) of
              Inl e \<Rightarrow> (sv1, Inl e)
            | Inr existingByKey \<Rightarrow>
                if (case existingByKey of None \<Rightarrow> False
                    | Some k \<Rightarrow> j_requestHash k \<noteq> n_requestHash jobInput
                        \<or> j_capabilityDigest k \<noteq> n_capabilityDigest jobInput)
                then (sv1, Inl (V2ActionError Idempotency_conflict 409))
                else if created then
                  (case consumeCapability ops s1 reservation of
                     (s2, Inl e) \<Rightarrow> (sv1 \<lparr> sv_store := s2 \<rparr>, Inl e)
                   | (s2, Inr True) \<Rightarrow>
                       (attach_and_run created existing (q_tx request) (sv1 \<lparr> sv_store := s2 \<rparr>), Inr (publicJob existing))
                   | (s2, Inr False) \<Rightarrow>
                       (case transition ops now s2 (j_id existing) [Authorized] (error_patch Failed Capability_replayed) of
                          (s3, Inl e) \<Rightarrow> (sv1 \<lparr> sv_store := s3 \<rparr>, Inl e)
                        | (s3, Inr _) \<Rightarrow> (sv1 \<lparr> sv_store := s3 \<rparr>, Inl (V2ActionError Capability_replayed 409))))
                else if j_capabilityDigest existing = n_capabilityDigest jobInput then
                  (case consumeCapability ops s1 reservation of
                     (s2, Inl e) \<Rightarrow> (sv1 \<lparr> sv_store := s2 \<rparr>, Inl e)
                   | (s2, Inr _) \<Rightarrow>
                       (attach_and_run created existing (q_tx request) (sv1 \<lparr> sv_store := s2 \<rparr>), Inr (publicJob existing)))
                else (attach_and_run created existing (q_tx request) sv1, Inr (publicJob existing)))))"

section \<open>Reconciliation and queries\<close>

definition resolve_input_of :: "job \<Rightarrow> string \<Rightarrow> resolve_input" where
  "resolve_input_of j t = \<lparr> i_transactionId = t, i_network = j_network j,
     i_contractAddress = j_contractAddress j, i_circuit = j_circuit j, i_action = j_action j \<rparr>"

text \<open>
  \<open>reconcile\<close>: ask the resolver, confirm or reject by compare-and-set, or retry
  later. The resolver is the argument \<open>resolver\<close>. A store error inside the \<open>try\<close>
  block only schedules a retry.
\<close>

definition reconcile ::
  "'s v2_store \<Rightarrow> (resolve_input \<Rightarrow> (v2_error, receipt option) result) \<Rightarrow> nat \<Rightarrow> string \<Rightarrow> string
     \<Rightarrow> 's service \<Rightarrow> 's service \<times> (v2_error, public_job option) result" where
  "reconcile ops resolver retryMs now i sv =
     (case getJob ops (sv_store sv) i of
        Inl e \<Rightarrow> (sv, Inl e)
      | Inr None \<Rightarrow> (sv, Inr None)
      | Inr (Some job) \<Rightarrow>
     (case truthy_str (j_transactionId job) of
        None \<Rightarrow> (sv, Inr (Some (publicJob job)))
      | Some t \<Rightarrow>
          if j_status job = Confirmed \<or> j_status job = Failed then (sv, Inr (Some (publicJob job)))
          else
            let retry = scheduleReconcile i retryMs;
                latest = (\<lambda>sv'. (sv', rbind (getJob ops (sv_store sv') i) (\<lambda>j. Inr (map_option publicJob j))))
            in case resolver (resolve_input_of job t) of
                Inr None \<Rightarrow>
                  (case getJob ops (sv_store sv) i of
                     Inl e \<Rightarrow> latest (retry (retry sv))
                   | Inr j \<Rightarrow> (retry sv, Inr (Some (publicJob (case j of Some j' \<Rightarrow> j' | None \<Rightarrow> job)))))
              | Inr (Some receipt) \<Rightarrow>
                  (case transition ops now (sv_store sv) i [Submitted, IndexerPending]
                      ((patch_status Confirmed) \<lparr> p_receipt := Some receipt \<rparr>) of
                     (s', Inl e) \<Rightarrow> latest (retry (sv \<lparr> sv_store := s' \<rparr>))
                   | (s', Inr _) \<Rightarrow> latest (sv \<lparr> sv_store := s' \<rparr>))
              | Inl e \<Rightarrow>
                  (case e of
                     V2ActionError code _ \<Rightarrow>
                       if code = Indexer_contract_mismatch \<or> code = Indexer_rejected then
                         (case transition ops now (sv_store sv) i [Submitted, IndexerPending] (error_patch Failed code) of
                            (s', Inl e') \<Rightarrow> (sv \<lparr> sv_store := s' \<rparr>, Inl e')
                          | (s', Inr _) \<Rightarrow> latest (sv \<lparr> sv_store := s' \<rparr>))
                       else latest (retry sv)
                   | _ \<Rightarrow> latest (retry sv))))"

definition get_action ::
  "'s v2_store \<Rightarrow> (resolve_input \<Rightarrow> (v2_error, receipt option) result) \<Rightarrow> nat \<Rightarrow> string \<Rightarrow> string
     \<Rightarrow> 's service \<Rightarrow> 's service \<times> (v2_error, public_job option) result" where
  "get_action ops resolver retryMs now i sv =
     (case getJob ops (sv_store sv) i of
        Inl e \<Rightarrow> (sv, Inl e)
      | Inr None \<Rightarrow> (sv, Inr None)
      | Inr (Some job) \<Rightarrow>
          let (sv', r) = (if reconcilable job then reconcile ops resolver retryMs now i sv else (sv, Inr None))
          in case r of
               Inl e \<Rightarrow> (sv', Inl e)
             | Inr _ \<Rightarrow> (sv', rbind (getJob ops (sv_store sv') i) (\<lambda>j. Inr (map_option publicJob j))))"

definition getReceipt ::
  "'s v2_store \<Rightarrow> (resolve_input \<Rightarrow> (v2_error, receipt option) result) \<Rightarrow> nat \<Rightarrow> string \<Rightarrow> string
     \<Rightarrow> 's service \<Rightarrow> 's service \<times> (v2_error, receipt option) result" where
  "getReceipt ops resolver retryMs now i sv =
     (case getJob ops (sv_store sv) i of
        Inl e \<Rightarrow> (sv, Inl e)
      | Inr None \<Rightarrow> (sv, Inr None)
      | Inr (Some job) \<Rightarrow>
          let (sv', r) = (if j_status job \<noteq> Confirmed \<and> truthy_str (j_transactionId job) \<noteq> None
                then reconcile ops resolver retryMs now i sv else (sv, Inr None))
          in case r of
               Inl e \<Rightarrow> (sv', Inl e)
             | Inr _ \<Rightarrow> (sv', rbind (getJob ops (sv_store sv') i) (\<lambda>j.
                 Inr (case j of Some l \<Rightarrow> if j_status l = Confirmed then j_receipt l else None | None \<Rightarrow> None))))"

section \<open>Restart\<close>

fun start_jobs :: "'s v2_store \<Rightarrow> string \<Rightarrow> job list \<Rightarrow> 's service \<Rightarrow> 's service" where
  "start_jobs ops now [] sv = sv"
| "start_jobs ops now (job # jobs) sv =
     (if reconcilable job then start_jobs ops now jobs (scheduleReconcile (j_id job) 0 sv)
      else (case transition ops now (sv_store sv) (j_id job) [Authorized, Validated, DustReserved, Finalized]
              (error_patch RecoveryRequired Recovery_required) of
          (s', Inl e) \<Rightarrow> sv \<lparr> sv_store := s' \<rparr>
        | (s', Inr _) \<Rightarrow> start_jobs ops now jobs (sv \<lparr> sv_store := s' \<rparr>)))"

text \<open>A new process: its memory is empty, only the store survives.\<close>

definition boot :: "'s \<Rightarrow> (string \<times> string) list \<Rightarrow> 's service" where
  "boot s submitted = \<lparr> sv_store = s, sv_transient = [], sv_running = [], sv_timers = [], sv_submitted = submitted \<rparr>"

definition start :: "'s v2_store \<Rightarrow> string \<Rightarrow> 's service \<Rightarrow> 's service" where
  "start ops now sv = (case listRecoverable ops (sv_store sv) of
     Inl e \<Rightarrow> sv
   | Inr jobs \<Rightarrow> start_jobs ops now jobs sv)"

section \<open>The wallet stage\<close>

definition requireTransactionId :: "string option \<Rightarrow> string option" where
  "requireTransactionId v = (case v of
     None \<Rightarrow> None
   | Some t \<Rightarrow> if blank t \<or> length t > 256 then None else Some t)"

definition set_store :: "'s service \<Rightarrow> 's \<times> 'r \<Rightarrow> 's service" where
  "set_store sv r = sv \<lparr> sv_store := fst r \<rparr>"

definition drop_transient :: "string \<Rightarrow> 's service \<Rightarrow> 's service" where
  "drop_transient i sv = sv \<lparr> sv_transient := AList.delete i (sv_transient sv) \<rparr>"

text \<open>After the submission intent is durable: submit once and record the outcome.\<close>

definition stage_submit ::
  "'s v2_store \<Rightarrow> executor \<Rightarrow> nat \<Rightarrow> string \<Rightarrow> string \<Rightarrow> string \<Rightarrow> string option \<Rightarrow> 's service \<Rightarrow> 's service" where
  "stage_submit ops ex retryMs now i finalized derivedId sv0 =
     (let sv = drop_transient i (sv0 \<lparr> sv_submitted := sv_submitted sv0 @ [(i, finalized)] \<rparr>);
          step = (\<lambda>p. transition ops now (sv_store sv) i [Submitted] p)
      in case requireTransactionId (ex_submit ex finalized) of
           None \<Rightarrow>
             (case derivedId of
                Some d \<Rightarrow>
                  (case step ((patch_status IndexerPending) \<lparr> p_transactionId := Some d \<rparr>) of
                     (s', Inl e) \<Rightarrow> sv \<lparr> sv_store := s' \<rparr>
                   | (s', Inr _) \<Rightarrow> scheduleReconcile i retryMs (sv \<lparr> sv_store := s' \<rparr>))
              | None \<Rightarrow> set_store sv (step (error_patch RecoveryRequired Submission_unknown)))
         | Some transactionId \<Rightarrow>
             if derivedId \<noteq> None \<and> derivedId \<noteq> Some transactionId
             then set_store sv (step (error_patch Failed Submission_id_mismatch))
             else (case step ((patch_status IndexerPending) \<lparr> p_transactionId := Some transactionId \<rparr>) of
                 (s', Inl e) \<Rightarrow> sv \<lparr> sv_store := s' \<rparr>
               | (s', Inr _) \<Rightarrow> scheduleReconcile i 0 (sv \<lparr> sv_store := s' \<rparr>)))"

text \<open>From the DUST lease to the submission intent.\<close>

definition stage_finalize ::
  "'s v2_store \<Rightarrow> executor \<Rightarrow> nat \<Rightarrow> string \<Rightarrow> string \<Rightarrow> string \<Rightarrow> 's service \<Rightarrow> 's service" where
  "stage_finalize ops ex retryMs now i unbound sv =
     (case ex_balanceAndFinalize ex unbound of
        None \<Rightarrow>
          (let sv1 = drop_transient i sv
           in set_store sv1 (transition ops now (sv_store sv1) i [DustReserved] (error_patch Failed Transaction_rejected)))
      | Some finalized \<Rightarrow>
          let derivedId = truthy_str (ex_transactionId ex finalized) in
          (case transition ops now (sv_store sv) i [DustReserved]
              ((patch_status Finalized) \<lparr> p_transactionId := derivedId \<rparr>) of
             (s1, Inl e) \<Rightarrow> sv \<lparr> sv_store := s1 \<rparr>
           | (s1, Inr _) \<Rightarrow>
               (case transition ops now s1 i [Finalized] (patch_status Submitted) of
                  (s2, Inr (Some _)) \<Rightarrow> stage_submit ops ex retryMs now i finalized derivedId (sv \<lparr> sv_store := s2 \<rparr>)
                | (s2, _) \<Rightarrow> sv \<lparr> sv_store := s2 \<rparr>)))"

definition runWalletStage ::
  "'s v2_store \<Rightarrow> executor \<Rightarrow> nat \<Rightarrow> string \<Rightarrow> string \<Rightarrow> string \<Rightarrow> 's service \<Rightarrow> 's service" where
  "runWalletStage ops ex retryMs now uuid i sv =
     (case (getJob ops (sv_store sv) i, map_of (sv_transient sv) i) of
        (Inr (Some job), Some unbound) \<Rightarrow>
          if j_status job \<noteq> Authorized then sv
          else (case transition ops now (sv_store sv) i [Authorized] (patch_status Validated) of
              (s1, Inr (Some _)) \<Rightarrow>
                (case reserveDust ops now s1 i (i @ '':'' @ uuid) of
                   (s2, Inr (Some _)) \<Rightarrow> stage_finalize ops ex retryMs now i unbound (sv \<lparr> sv_store := s2 \<rparr>)
                 | (s2, Inr None) \<Rightarrow> scheduleRun i retryMs (sv \<lparr> sv_store := s2 \<rparr>)
                 | (s2, Inl e) \<Rightarrow> sv \<lparr> sv_store := s2 \<rparr>)
            | (s1, _) \<Rightarrow> sv \<lparr> sv_store := s1 \<rparr>)
      | _ \<Rightarrow> sv)"

text \<open>The wallet queue runs one stage at a time and then forgets the job.\<close>

definition wallet_turn ::
  "'s v2_store \<Rightarrow> executor \<Rightarrow> nat \<Rightarrow> string \<Rightarrow> string \<Rightarrow> 's service \<Rightarrow> 's service" where
  "wallet_turn ops ex retryMs now uuid sv = (case sv_running sv of
     [] \<Rightarrow> sv
   | i # rest \<Rightarrow> (runWalletStage ops ex retryMs now uuid i sv) \<lparr> sv_running := rest \<rparr>)"

text \<open>A rerun timer fires: the stage is queued unless it already is.\<close>

definition run_timer :: "string \<Rightarrow> 's service \<Rightarrow> 's service" where
  "run_timer i sv = (if i \<notin> set (sv_running sv) then run_job i sv else sv)"

section \<open>Handlers as sequences of store calls\<close>

lemma journal_run_trans:
  assumes "journal_run ops lookup s s'" "journal_run ops lookup s' s''"
  shows "journal_run ops lookup s s''"
  using assms(2,1) by (induction s' s'' rule: journal_run.induct) (auto intro: run_step)

lemma journal_run_call: "wf_call (lookup s) c \<Longrightarrow> journal_run ops lookup s (run_call ops now s c)"
  by (rule run_step [OF run_refl])

lemma create_run: "wf_new n \<Longrightarrow> createOrGet ops s n = (s', r) \<Longrightarrow> journal_run ops lookup s s'"
  using journal_run_call [of lookup s "CreateCall n" ops] by (simp add: run_call_def)

lemma consume_run: "wf_reservation k \<Longrightarrow> consumeCapability ops s k = (s', r) \<Longrightarrow> journal_run ops lookup s s'"
  using journal_run_call [of lookup s "ConsumeCall k" ops] by (simp add: run_call_def)

lemma reserve_run:
  "rid \<noteq> [] \<Longrightarrow> (\<And>k j. lookup s k = Some j \<Longrightarrow> j_dustReservationId j \<noteq> Some rid) \<Longrightarrow>
     reserveDust ops now s i rid = (s', r) \<Longrightarrow> journal_run ops lookup s s'"
  using journal_run_call [of lookup s "ReserveCall i rid" ops now] by (simp add: run_call_def)

lemma move_run:
  assumes "call_move c = Some (i, ex, p)" "wf_call (lookup s) c" "transition ops now s i ex p = (s', r)"
  shows "journal_run ops lookup s s'"
proof -
  have "run_call ops now s c = s'"
    using assms(1,3) by (cases c) (auto simp: run_call_def)
  then show ?thesis using journal_run_call [of lookup s c ops now] assms(2) by simp
qed

lemmas move_runs =
  move_run [OF call_move.simps(1), simplified wf_call.simps True_implies_equals]
  move_run [OF call_move.simps(2), simplified wf_call.simps True_implies_equals]
  move_run [OF call_move.simps(3), simplified wf_call.simps True_implies_equals]
  move_run [OF call_move.simps(4), simplified wf_call.simps True_implies_equals]
  move_run [OF call_move.simps(6), simplified wf_call.simps True_implies_equals]
  move_run [OF call_move.simps(8), simplified wf_call.simps True_implies_equals]
  move_run [OF call_move.simps(9), simplified wf_call.simps True_implies_equals]
  move_run [OF call_move.simps(12), simplified wf_call.simps True_implies_equals]

lemma finalize_run:
  "transition ops now s i [DustReserved] ((patch_status Finalized) \<lparr> p_transactionId := truthy_str d \<rparr>) = (s', r) \<Longrightarrow>
     journal_run ops lookup s s'"
  using move_run [where c = "FinalizeCall i d" and ops = ops and now = now and s = s and lookup = lookup] by simp

lemma pending_run:
  "t \<noteq> [] \<Longrightarrow> transition ops now s i [Submitted] ((patch_status IndexerPending) \<lparr> p_transactionId := Some t \<rparr>) = (s', r) \<Longrightarrow>
     journal_run ops lookup s s'"
  using move_run [where c = "SubmittedCall i t" and ops = ops and now = now and s = s and lookup = lookup] by simp

lemma confirm_run:
  "wf_receipt rc \<Longrightarrow> transition ops now s i [Submitted, IndexerPending]
       ((patch_status Confirmed) \<lparr> p_receipt := Some rc \<rparr>) = (s', r) \<Longrightarrow> journal_run ops lookup s s'"
  using move_run [where c = "ConfirmCall i rc" and ops = ops and now = now and s = s and lookup = lookup] by simp

subsection \<open>Parsing\<close>

lemma field_eq_Inr: "field v = Inr s \<longleftrightarrow> v = Some (JStr s) \<and> ok_id s"
  by (auto simp: field_def ok_id_def split: option.splits if_splits)

lemma action_field_eq_Inr: "action_field v circuit = Inr a \<Longrightarrow> actionForCircuit circuit = Some a"
  by (auto simp: action_field_def split: option.splits if_splits)

text \<open>What a request that passed parsing satisfies.\<close>

lemma tx_field_Inr:
  assumes "tx_field v = Inr tx"
  shows "list_all lower_hex (toLowerCase tx)" "toLowerCase tx \<noteq> []" "even (length (toLowerCase tx))"
    "length (toLowerCase tx) \<le> MAX_TRANSACTION_HEX_LENGTH"
proof -
  have "v = Some (JStr tx)" "tx \<noteq> []" "length tx \<le> MAX_TRANSACTION_HEX_LENGTH" "list_all any_hex tx"
    "length tx mod 2 = 0"
    using assms unfolding tx_field_def by (auto split: option.splits if_splits)
  then show "list_all lower_hex (toLowerCase tx)" "toLowerCase tx \<noteq> []" "even (length (toLowerCase tx))"
    "length (toLowerCase tx) \<le> MAX_TRANSACTION_HEX_LENGTH"
    by (auto simp: toLowerCase_any_hex) (simp add: toLowerCase_def)
qed

lemma parse_request_steps:
  assumes "parseV2ActionRequest opts v h = Inr q"
  obtains tx where "isRecord v" "scan_pending [v]" "ok_id (q_actionId q)" "ok_id (q_idempotencyKey q)"
    "ok_id (q_network q)" "ok_id (q_contractAddress q)" "ok_id (q_circuit q)"
    "tx_field (nullish (fld v ''tx'') (fld v ''transaction'')) = Inr tx" "q_tx q = toLowerCase tx"
    "action_field (fld v ''action'') (q_circuit q) = Inr (q_action q)"
    "q_network q \<in> set (so_allowedNetworks opts)" "q_contractAddress q \<in> set (so_allowedContracts opts)"
    "q_circuit q \<in> set (so_allowedCircuits opts)"
proof -
  note [simp] = field_eq_Inr
  show ?thesis
    using assms that unfolding parseV2ActionRequest_def assertNoForbiddenKeys_def rbind_eq_Inr check_eq_Inr
    by (elim exE conjE) (simp add: field_eq_Inr, elim conjE, hypsubst, simp)
qed

lemma parse_request_Inr:
  assumes "parseV2ActionRequest opts v h = Inr q"
  shows "ok_id (q_actionId q)" "ok_id (q_idempotencyKey q)" "ok_id (q_network q)"
    "ok_id (q_contractAddress q)" "ok_id (q_circuit q)"
    "q_network q \<in> set (so_allowedNetworks opts)" "q_contractAddress q \<in> set (so_allowedContracts opts)"
    "q_circuit q \<in> set (so_allowedCircuits opts)" "actionForCircuit (q_circuit q) = Some (q_action q)"
    "list_all lower_hex (q_tx q)" "q_tx q \<noteq> []" "even (length (q_tx q))"
    "length (q_tx q) \<le> MAX_TRANSACTION_HEX_LENGTH" "isRecord v" "scan_pending [v]"
proof -
  obtain tx where steps: "isRecord v" "scan_pending [v]" "ok_id (q_actionId q)" "ok_id (q_idempotencyKey q)"
    "ok_id (q_network q)" "ok_id (q_contractAddress q)" "ok_id (q_circuit q)"
    "tx_field (nullish (fld v ''tx'') (fld v ''transaction'')) = Inr tx" "q_tx q = toLowerCase tx"
    "action_field (fld v ''action'') (q_circuit q) = Inr (q_action q)"
    "q_network q \<in> set (so_allowedNetworks opts)" "q_contractAddress q \<in> set (so_allowedContracts opts)"
    "q_circuit q \<in> set (so_allowedCircuits opts)"
    by (rule parse_request_steps [OF assms])
  show "ok_id (q_actionId q)" "ok_id (q_idempotencyKey q)" "ok_id (q_network q)"
    "ok_id (q_contractAddress q)" "ok_id (q_circuit q)"
    "q_network q \<in> set (so_allowedNetworks opts)" "q_contractAddress q \<in> set (so_allowedContracts opts)"
    "q_circuit q \<in> set (so_allowedCircuits opts)" "isRecord v" "scan_pending [v]"
    by (fact steps)+
  show "actionForCircuit (q_circuit q) = Some (q_action q)" by (rule action_field_eq_Inr [OF steps(10)])
  show "list_all lower_hex (q_tx q)" "q_tx q \<noteq> []" "even (length (q_tx q))"
    "length (q_tx q) \<le> MAX_TRANSACTION_HEX_LENGTH"
    unfolding steps(9) by (fact tx_field_Inr [OF steps(8)])+
qed

lemma verify_expires_safe:
  assumes "verifyV2Capability sha hmac token secret expd now = Inr (d, e)"
  shows "\<bar>e\<bar> \<le> max_safe" "now < e" "d = digestCapability sha token"
  using assms
  by (auto simp: verifyV2Capability_def elim!: verify_payload_Inr split: if_splits list.splits)

lemma authorize_wf:
  assumes "authorize sha hmac opts now ns body h = Inr (q, n, k)" "\<And>x. is_hex64 (sha x)"
  shows "wf_new n" "wf_reservation k" "parseV2ActionRequest opts body h = Inr q"
    "n_id n = q_actionId q" "n_idempotencyKey n = q_idempotencyKey q" "k_digest k = n_capabilityDigest n"
proof -
  obtain d e expd where p: "parseV2ActionRequest opts body h = Inr q"
    and v: "verifyV2Capability sha hmac (case h_capability h of Some t \<Rightarrow> t | None \<Rightarrow> []) (so_capabilitySecret opts) expd ns = Inr (d, e)"
    and n: "n_id n = q_actionId q" "n_idempotencyKey n = q_idempotencyKey q" "n_capabilityDigest n = d"
      "is_hex64 (n_requestHash n)" "is_hex64 (n_txDigest n)" "n_network n = q_network q"
      "n_contractAddress n = q_contractAddress q" "n_circuit n = q_circuit q"
    and k: "k_digest k = d" "is_hex64 (k_requestHash k)" "k_expiresAt k = e"
    using assms unfolding authorize_def v2RequestHash_def digestTransaction_def
    by (auto simp: Let_def)
  note d = verify_expires_safe [OF v]
  have "is_hex64 d" using d(3) assms(2) by (simp add: digestCapability_def)
  then show "wf_new n" "wf_reservation k"
    using n k d(1) parse_request_Inr [OF p] by (simp_all add: wf_new_def wf_reservation_def)
  show "parseV2ActionRequest opts body h = Inr q" "n_id n = q_actionId q"
    "n_idempotencyKey n = q_idempotencyKey q" "k_digest k = n_capabilityDigest n"
    using p n k by simp_all
qed

text \<open>The key scan, as a recursion over the value.\<close>

fun clean :: "json \<Rightarrow> bool" where
  "clean (JArr vs) = list_all clean vs"
| "clean (JObj ps) = list_all (\<lambda>(k, v). \<not> forbidden_key k \<and> clean v) ps"
| "clean _ = True"

lemma clean_scalar: "\<not> is_object v \<Longrightarrow> clean v"
  by (cases v) auto

lemma push_children_None: "push_children ps pending = None \<longleftrightarrow> \<not> list_all (\<lambda>(k, v). \<not> forbidden_key k) ps"
  by (induction ps pending rule: push_children.induct) auto

lemma push_children_Some:
  "push_children ps pending = Some q \<Longrightarrow>
     list_all clean q = (list_all clean pending \<and> list_all (\<lambda>(k, v). \<not> forbidden_key k \<and> clean v) ps)"
  by (induction ps pending rule: push_children.induct) (auto simp: clean_scalar split: if_splits)

lemma scan_pending_clean: "scan_pending q = list_all clean q"
proof (induction q rule: scan_pending.induct)
  case 1
  show ?case by (simp add: scan_pending.simps)
next
  case (2 c pending)
  show ?case
  proof (cases c)
    case (JArr vs)
    then show ?thesis using 2(5) [OF JArr] by (auto simp: scan_pending.simps)
  next
    case (JObj ps)
    show ?thesis
    proof (cases "push_children ps pending")
      case None
      then have "\<not> list_all (\<lambda>(k, v). \<not> forbidden_key k) ps" by (simp add: push_children_None)
      then have "\<not> list_all (\<lambda>(k, v). \<not> forbidden_key k \<and> clean v) ps" by (auto simp: list_all_iff)
      then show ?thesis using None JObj by (simp add: scan_pending.simps)
    next
      case (Some q)
      then show ?thesis
        using 2(6) [OF JObj Some] push_children_Some [OF Some] JObj by (auto simp: scan_pending.simps)
    qed
  qed (use 2 in \<open>simp_all add: scan_pending.simps\<close>)
qed

text \<open>
  The worklist scan of a request body agrees with a recursive reading of the
  value: it passes exactly when no key, at any depth of objects and arrays, is one
  of the forbidden names (compared in lower case), and it always ends.
\<close>

theorem key_scan_is_recursive:
  "assertNoForbiddenKeys v = (if clean v then Inr () else Inl (V2ActionError Invalid_request 400))"
  by (simp add: assertNoForbiddenKeys_def scan_pending_clean check_def)

text \<open>
  A request that parses carries no forbidden key at any depth, names an
  allow-listed network, contract and circuit, has exactly the action of its circuit,
  and its transaction is non-empty lower-case hex of whole bytes within the size
  limit.
\<close>

theorem parsed_request_is_checked:
  assumes "parseV2ActionRequest opts v h = Inr q"
  shows "clean v \<and> q_network q \<in> set (so_allowedNetworks opts) \<and> q_contractAddress q \<in> set (so_allowedContracts opts)
    \<and> q_circuit q \<in> set (so_allowedCircuits opts) \<and> actionForCircuit (q_circuit q) = Some (q_action q)
    \<and> list_all lower_hex (q_tx q) \<and> q_tx q \<noteq> [] \<and> even (length (q_tx q)) \<and> length (q_tx q) \<le> MAX_TRANSACTION_HEX_LENGTH
    \<and> ok_id (q_actionId q) \<and> ok_id (q_idempotencyKey q)"
  using parse_request_Inr [OF assms] by (simp add: scan_pending_clean)

subsection \<open>Handlers\<close>

lemma attach_and_run_store [simp]:
  "sv_store (attach_and_run c j tx sv) = sv_store sv" "sv_submitted (attach_and_run c j tx sv) = sv_submitted sv"
  by (simp_all add: attach_and_run_def run_job_def scheduleReconcile_def Let_def)

lemma schedule_store [simp]:
  "sv_store (scheduleReconcile i d sv) = sv_store sv" "sv_submitted (scheduleReconcile i d sv) = sv_submitted sv"
  "sv_store (scheduleRun i d sv) = sv_store sv" "sv_submitted (scheduleRun i d sv) = sv_submitted sv"
  "sv_store (run_job i sv) = sv_store sv" "sv_submitted (run_job i sv) = sv_submitted sv"
  "sv_store (drop_transient i sv) = sv_store sv" "sv_submitted (drop_transient i sv) = sv_submitted sv"
  by (simp_all add: scheduleReconcile_def scheduleRun_def run_job_def drop_transient_def)

lemma accept_run:
  assumes "accept ops sha hmac opts now ns body h sv = (sv', r)" "\<And>x. is_hex64 (sha x)"
  shows "journal_run ops lookup (sv_store sv) (sv_store sv') \<and> sv_submitted sv' = sv_submitted sv"
proof (cases "authorize sha hmac opts now ns body h")
  case (Inl e)
  then show ?thesis using assms(1) by (auto simp: accept_def intro: run_refl)
next
  case (Inr a)
  obtain q n k where a: "a = (q, n, k)" by (cases a)
  note wf = authorize_wf [OF Inr [unfolded a] assms(2)]
  obtain s1 c where c: "createOrGet ops (sv_store sv) n = (s1, c)" by (cases "createOrGet ops (sv_store sv) n")
  obtain s2 b where b: "consumeCapability ops s1 k = (s2, b)" by (cases "consumeCapability ops s1 k")
  note r1 = create_run [OF wf(1) c, of lookup]
  note r2 = journal_run_trans [OF r1 consume_run [OF wf(2) b]]
  have r3: "journal_run ops lookup (sv_store sv) s3"
    if "transition ops now s2 i [Authorized] (error_patch Failed Capability_replayed) = (s3, m)" for i s3 m
    by (rule journal_run_trans [OF r2 move_runs(1) [OF that]])
  show ?thesis
    using assms(1) Inr a c b r1 r2 r3 unfolding accept_def
    by (auto simp: Let_def split: sum.splits v2_error.splits prod.splits option.splits if_splits bool.splits)
qed

lemma reconcile_run:
  assumes "reconcile ops resolver retry now i sv = (sv', r)"
    and "\<And>inp rc. resolver inp = Inr (Some rc) \<Longrightarrow> wf_receipt rc"
  shows "journal_run ops lookup (sv_store sv) (sv_store sv') \<and> sv_submitted sv' = sv_submitted sv"
proof -
  let ?quiet = "journal_run ops lookup (sv_store sv) (sv_store sv') \<and> sv_submitted sv' = sv_submitted sv"
  note refl = run_refl [of ops lookup "sv_store sv"]
  consider (err) e where "getJob ops (sv_store sv) i = Inl e"
    | (none) "getJob ops (sv_store sv) i = Inr None"
    | (idle) job where "getJob ops (sv_store sv) i = Inr (Some job)"
        "truthy_str (j_transactionId job) = None \<or> j_status job = Confirmed \<or> j_status job = Failed"
    | (ask) job t where "getJob ops (sv_store sv) i = Inr (Some job)" "truthy_str (j_transactionId job) = Some t"
        "\<not> (j_status job = Confirmed \<or> j_status job = Failed)"
    by (cases "getJob ops (sv_store sv) i" rule: sum.exhaust) (metis not_Some_eq)+
  then show ?thesis
  proof cases
    case ask
    note reconcile = assms(1) [unfolded reconcile_def ask Let_def]
    show ?thesis
    proof (cases "resolver (resolve_input_of job t)")
      case (Inl e)
      obtain s2 m where m: "transition ops now (sv_store sv) i [Submitted, IndexerPending]
          (error_patch Failed (case e of V2ActionError c _ \<Rightarrow> c)) = (s2, m)" by (cases rule: prod.exhaust)
      note run = move_runs(8) [where lookup = lookup, OF m]
      show ?thesis
      proof (cases e)
        case (V2ActionError c hs)
        then show ?thesis using reconcile Inl refl run m ask(3)
          by (cases m) (auto simp: ask split: if_splits)
      qed (use reconcile Inl refl ask(3) in \<open>auto simp: ask\<close>)
    next
      case (Inr found)
      show ?thesis
      proof (cases found)
        case None
        then show ?thesis using reconcile Inr refl ask(3) by (auto simp: ask split: option.splits)
      next
        case (Some rc)
        obtain s2 m where m: "transition ops now (sv_store sv) i [Submitted, IndexerPending]
          ((patch_status Confirmed) \<lparr> p_receipt := Some rc \<rparr>) = (s2, m)" by (cases rule: prod.exhaust)
        have "journal_run ops lookup (sv_store sv) s2"
          by (rule confirm_run [OF assms(2) m]) (use Inr Some in simp)
        then show ?thesis using reconcile Inr Some m ask(3) by (cases m) (auto simp: ask)
      qed
    qed
  qed (use assms(1) refl in \<open>auto simp: reconcile_def split: option.splits\<close>)
qed

lemma get_action_run:
  assumes "get_action ops resolver retry now i sv = (sv', r)"
    and "\<And>inp rc. resolver inp = Inr (Some rc) \<Longrightarrow> wf_receipt rc"
  shows "journal_run ops lookup (sv_store sv) (sv_store sv') \<and> sv_submitted sv' = sv_submitted sv"
proof -
  obtain sv1 r1 where r1: "reconcile ops resolver retry now i sv = (sv1, r1)" by (cases "reconcile ops resolver retry now i sv")
  show ?thesis
    using assms(1) reconcile_run [where lookup = lookup, OF r1 assms(2)] r1 unfolding get_action_def
    by (auto simp: Let_def split: sum.splits option.splits if_splits intro: run_refl)
qed

lemma getReceipt_run:
  assumes "getReceipt ops resolver retry now i sv = (sv', r)"
    and "\<And>inp rc. resolver inp = Inr (Some rc) \<Longrightarrow> wf_receipt rc"
  shows "journal_run ops lookup (sv_store sv) (sv_store sv') \<and> sv_submitted sv' = sv_submitted sv"
proof -
  obtain sv1 r1 where r1: "reconcile ops resolver retry now i sv = (sv1, r1)" by (cases "reconcile ops resolver retry now i sv")
  show ?thesis
    using assms(1) reconcile_run [where lookup = lookup, OF r1 assms(2)] r1 unfolding getReceipt_def
    by (auto simp: Let_def split: sum.splits option.splits if_splits intro: run_refl)
qed

lemma start_jobs_run:
  "journal_run ops lookup (sv_store sv) (sv_store (start_jobs ops now jobs sv))
    \<and> sv_submitted (start_jobs ops now jobs sv) = sv_submitted sv"
proof (induction jobs arbitrary: sv)
  case (Cons job jobs)
  obtain s' r where r: "transition ops now (sv_store sv) (j_id job) [Authorized, Validated, DustReserved, Finalized]
      (error_patch RecoveryRequired Recovery_required) = (s', r)" by (cases rule: prod.exhaust)
  note m = move_runs(2) [where lookup = lookup, OF r]
  show ?case
    using Cons [of "scheduleReconcile (j_id job) 0 sv"] Cons [of "sv \<lparr> sv_store := s' \<rparr>"] r m
      journal_run_trans [OF m]
    by (cases r) auto
qed (simp add: run_refl)

lemma start_run:
  "journal_run ops lookup (sv_store sv) (sv_store (start ops now sv)) \<and> sv_submitted (start ops now sv) = sv_submitted sv"
  using start_jobs_run [of ops lookup sv now] by (auto simp: start_def run_refl split: sum.splits)

lemma stage_submit_run:
  assumes "derivedId \<noteq> Some []"
  shows "journal_run ops lookup (sv_store sv) (sv_store (stage_submit ops ex retry now i f derivedId sv))"
    and "sv_submitted (stage_submit ops ex retry now i f derivedId sv) = sv_submitted sv @ [(i, f)]"
proof -
  have id: "requireTransactionId v = Some t \<Longrightarrow> t \<noteq> []" for v t
    by (auto simp: requireTransactionId_def split: option.splits if_splits)
  have run: "journal_run ops lookup (sv_store sv) (fst (transition ops now (sv_store sv) i [Submitted] p))"
    if "p = error_patch RecoveryRequired Submission_unknown \<or> p = error_patch Failed Submission_id_mismatch
      \<or> (\<exists>t. t \<noteq> [] \<and> p = (patch_status IndexerPending) \<lparr> p_transactionId := Some t \<rparr>)" for p
    using that by (auto intro: move_runs(6,7) [OF surjective_pairing] pending_run [OF _ surjective_pairing])
  show "journal_run ops lookup (sv_store sv) (sv_store (stage_submit ops ex retry now i f derivedId sv))"
    "sv_submitted (stage_submit ops ex retry now i f derivedId sv) = sv_submitted sv @ [(i, f)]"
    using assms id run unfolding stage_submit_def
    by (auto simp: Let_def set_store_def split: option.splits prod.splits sum.splits)
      (metis fst_conv id option.distinct(1) option.inject)+
qed

text \<open>A job's transaction is handed over between two states: it was not before, it is after.\<close>

definition submits :: "('s \<Rightarrow> string \<Rightarrow> job option) \<Rightarrow> string \<Rightarrow> 's \<Rightarrow> 's \<Rightarrow> bool" where
  "submits lookup i s s' = ((\<forall>j. lookup s i = Some j \<longrightarrow> Submitted \<notin> set (j_transitions j))
     \<and> (\<exists>j. lookup s' i = Some j \<and> Submitted \<in> set (j_transitions j)))"

lemma sorted_last_not_above:
  "sorted_wrt (<) ts \<Longrightarrow> ts \<noteq> [] \<Longrightarrow> last ts < s \<Longrightarrow> (s :: V2ActionJobStatus) \<notin> set ts"
proof (induction ts)
  case (Cons a ts)
  show ?case
  proof (cases "ts = []")
    case False
    then have "a < last ts" "last ts < s" "s \<notin> set ts" using Cons by auto
    then show ?thesis using less_trans by fastforce
  qed (use Cons in auto)
qed simp

text \<open>The whole of a process's life, handler by handler, restarts included.\<close>

inductive service_run ::
  "'s v2_store \<Rightarrow> ('s \<Rightarrow> string \<Rightarrow> job option) \<Rightarrow> (string \<Rightarrow> string) \<Rightarrow> (string \<Rightarrow> string \<Rightarrow> string)
     \<Rightarrow> service_options \<Rightarrow> 's service \<Rightarrow> 's service \<Rightarrow> bool"
  for ops lookup sha256 hmac opts where
  sr_refl: "service_run ops lookup sha256 hmac opts sv sv"
| sr_accept: "service_run ops lookup sha256 hmac opts sv sv1 \<Longrightarrow>
    accept ops sha256 hmac opts now ns body h sv1 = (sv2, r) \<Longrightarrow> service_run ops lookup sha256 hmac opts sv sv2"
| sr_reconcile: "service_run ops lookup sha256 hmac opts sv sv1 \<Longrightarrow>
    (\<And>inp rc. resolver inp = Inr (Some rc) \<Longrightarrow> wf_receipt rc) \<Longrightarrow>
    reconcile ops resolver retry now i sv1 = (sv2, p) \<Longrightarrow> service_run ops lookup sha256 hmac opts sv sv2"
| sr_get: "service_run ops lookup sha256 hmac opts sv sv1 \<Longrightarrow>
    (\<And>inp rc. resolver inp = Inr (Some rc) \<Longrightarrow> wf_receipt rc) \<Longrightarrow>
    get_action ops resolver retry now i sv1 = (sv2, p) \<Longrightarrow> service_run ops lookup sha256 hmac opts sv sv2"
| sr_receipt: "service_run ops lookup sha256 hmac opts sv sv1 \<Longrightarrow>
    (\<And>inp rc. resolver inp = Inr (Some rc) \<Longrightarrow> wf_receipt rc) \<Longrightarrow>
    getReceipt ops resolver retry now i sv1 = (sv2, q) \<Longrightarrow> service_run ops lookup sha256 hmac opts sv sv2"
| sr_wallet: "service_run ops lookup sha256 hmac opts sv sv1 \<Longrightarrow>
    (\<And>i k j. lookup (sv_store sv1) k = Some j \<Longrightarrow> j_dustReservationId j \<noteq> Some (i @ '':'' @ uuid)) \<Longrightarrow>
    service_run ops lookup sha256 hmac opts sv (wallet_turn ops ex retry now uuid sv1)"
| sr_timer: "service_run ops lookup sha256 hmac opts sv sv1 \<Longrightarrow>
    service_run ops lookup sha256 hmac opts sv (run_timer i sv1)"
| sr_restart: "service_run ops lookup sha256 hmac opts sv sv1 \<Longrightarrow>
    service_run ops lookup sha256 hmac opts sv (start ops now (boot (sv_store sv1) (sv_submitted sv1)))"

definition service_ok :: "('s \<Rightarrow> bool) \<Rightarrow> ('s \<Rightarrow> string \<Rightarrow> job option) \<Rightarrow> 's service \<Rightarrow> bool" where
  "service_ok ok lookup sv = (ok (sv_store sv) \<and> journal_ok (lookup (sv_store sv))
     \<and> distinct (map fst (sv_submitted sv))
     \<and> (\<forall>i \<in> fst ` set (sv_submitted sv). \<exists>j. lookup (sv_store sv) i = Some j \<and> Submitted \<in> set (j_transitions j)))"

context action_store
begin

lemma transitions_mono:
  assumes "journal_run ops lookup s s'" "inv s" "lookup s i = Some j" "x \<in> set (j_transitions j)"
  shows "\<exists>j'. lookup s' i = Some j' \<and> x \<in> set (j_transitions j')"
  using journal_keeps [OF assms(1-3)] assms(4) by auto

lemma transition_Some:
  assumes "inv s" "wf_patch p" "transition ops now s i ex p = (s', Inr (Some j'))"
  obtains j where "lookup s i = Some j" "j_status j \<in> set ex" "patched (the (p_status p)) p j j'"
    "lookup s' i = Some j'" "inv s'"
  using transition_law [OF assms] that by (auto split: option.splits if_splits)

text \<open>
  The wallet stage makes journal calls only, and hands at most one transaction to
  the node: only when this very stage moved the job from \<open>finalized\<close> to
  \<open>submitted\<close>.
\<close>

lemma stage_finalize_run:
  assumes "inv (sv_store sv)" "journal_ok (lookup (sv_store sv))"
  shows "journal_run ops lookup (sv_store sv) (sv_store (stage_finalize ops ex retry now i u sv))
    \<and> (sv_submitted (stage_finalize ops ex retry now i u sv) = sv_submitted sv
       \<or> (\<exists>f. sv_submitted (stage_finalize ops ex retry now i u sv) = sv_submitted sv @ [(i, f)]
            \<and> submits lookup i (sv_store sv) (sv_store (stage_finalize ops ex retry now i u sv))))"
proof (cases "ex_balanceAndFinalize ex u")
  case None
  then show ?thesis
    using move_runs(4) [OF surjective_pairing, where lookup = lookup]
    by (simp add: stage_finalize_def Let_def set_store_def)
next
  case (Some f)
  let ?s = "sv_store sv" and ?d = "truthy_str (ex_transactionId ex f)"
  obtain s1 r1 where r1: "transition ops now ?s i [DustReserved] ((patch_status Finalized) \<lparr> p_transactionId := ?d \<rparr>) = (s1, r1)"
    by (cases rule: prod.exhaust)
  note run1 = finalize_run [where lookup = lookup, OF r1]
  obtain s2 r2 where r2: "transition ops now s1 i [Finalized] (patch_status Submitted) = (s2, r2)"
    by (cases rule: prod.exhaust)
  note run2 = journal_run_trans [OF run1 move_runs(5) [where lookup = lookup, OF r2]]
  have s1: "inv s1 \<and> journal_ok (lookup s1)" by (rule journal_run_ok [OF run1 assms])
  show ?thesis
  proof (cases "\<exists>a j2. r1 = Inr a \<and> r2 = Inr (Some j2)")
    case False
    then have "sv_store (stage_finalize ops ex retry now i u sv) \<in> {s1, s2}"
      "sv_submitted (stage_finalize ops ex retry now i u sv) = sv_submitted sv"
      using Some r1 r2 by (auto simp: stage_finalize_def split: sum.splits option.splits)
    then show ?thesis using run1 run2 by auto
  next
    case True
    then obtain a j2 where ok: "r1 = Inr a" "r2 = Inr (Some j2)" by auto
    let ?sv = "stage_submit ops ex retry now i f ?d (sv \<lparr> sv_store := s2 \<rparr>)"
    have stage: "stage_finalize ops ex retry now i u sv = ?sv"
      using Some r1 r2 ok by (simp add: stage_finalize_def Let_def)
    have sub: "journal_run ops lookup s2 (sv_store ?sv)" "sv_submitted ?sv = sv_submitted sv @ [(i, f)]"
      using stage_submit_run(1) [where derivedId = ?d and lookup = lookup and sv = "sv \<lparr> sv_store := s2 \<rparr>"]
        stage_submit_run(2) [where derivedId = ?d and sv = "sv \<lparr> sv_store := s2 \<rparr>"]
      by simp_all
    have "wf_patch (patch_status Submitted)" by (simp add: wf_patch_def)
    from transition_Some [OF conjunct1 [OF s1] this r2 [unfolded ok]]
    obtain j where j: "lookup s1 i = Some j" "j_status j = Finalized" "patched Submitted (patch_status Submitted) j j2"
      "lookup s2 i = Some j2" "inv s2" by auto
    have "job_ok j" using s1 j(1) by (simp add: journal_ok_def)
    then have no: "Submitted \<notin> set (j_transitions j)"
      using j(2) by (intro sorted_last_not_above) (auto simp: job_ok_def status_less_code)
    have "Submitted \<notin> set (j_transitions j0)" if "lookup ?s i = Some j0" for j0
      using transitions_mono [OF run1 assms(1) that] j(1) no by auto
    moreover have "Submitted \<in> set (j_transitions j2)" using j(2,3) by (simp add: patched_def)
    then have "\<exists>j'. lookup (sv_store ?sv) i = Some j' \<and> Submitted \<in> set (j_transitions j')"
      by (rule transitions_mono [OF sub(1) j(5,4)])
    ultimately show ?thesis
      using stage sub run2 journal_run_trans [OF run2 sub(1)] by (auto simp: submits_def)
  qed
qed

lemma submits_weaken:
  assumes "submits lookup i s' s''" "journal_run ops lookup s s'" "inv s"
  shows "submits lookup i s s''"
  using assms transitions_mono [OF assms(2,3)] unfolding submits_def by blast

lemma runWalletStage_run:
  assumes "inv (sv_store sv)" "journal_ok (lookup (sv_store sv))"
    and "\<And>k j. lookup (sv_store sv) k = Some j \<Longrightarrow> j_dustReservationId j \<noteq> Some (i @ '':'' @ uuid)"
  shows "journal_run ops lookup (sv_store sv) (sv_store (runWalletStage ops ex retry now uuid i sv))
    \<and> (sv_submitted (runWalletStage ops ex retry now uuid i sv) = sv_submitted sv
       \<or> (\<exists>f. sv_submitted (runWalletStage ops ex retry now uuid i sv) = sv_submitted sv @ [(i, f)]
            \<and> submits lookup i (sv_store sv) (sv_store (runWalletStage ops ex retry now uuid i sv))))"
proof -
  let ?s = "sv_store sv" and ?rid = "i @ '':'' @ uuid"
  obtain s1 r1 where r1: "transition ops now ?s i [Authorized] (patch_status Validated) = (s1, r1)"
    by (cases rule: prod.exhaust)
  note run1 = move_runs(3) [where lookup = lookup, OF r1]
  have s1: "inv s1 \<and> journal_ok (lookup s1)" by (rule journal_run_ok [OF run1 assms(1,2)])
  have wf: "wf_patch (patch_status Validated)" by (simp add: wf_patch_def)
  have fresh: "j_dustReservationId j \<noteq> Some ?rid" if lk: "lookup s1 k = Some j" for k j
  proof -
    have "\<exists>k' j'. lookup ?s k' = Some j' \<and> j_dustReservationId j = j_dustReservationId j'"
      using transition_law [OF assms(1) wf r1] lk
      by (auto simp: patched_def split: option.splits if_splits) metis+
    then show ?thesis using assms(3) by metis
  qed
  obtain s2 r2 where r2: "reserveDust ops now s1 i ?rid = (s2, r2)" by (cases rule: prod.exhaust)
  have run2: "journal_run ops lookup ?s s2"
    by (rule journal_run_trans [OF run1 reserve_run [OF _ fresh r2]]) simp_all
  have s2: "inv s2" "journal_ok (lookup s2)" using journal_run_ok [OF run2 assms(1,2)] by simp_all
  let ?w = "runWalletStage ops ex retry now uuid i sv"
  show ?thesis
  proof (cases "\<exists>j u j1 j2. getJob ops ?s i = Inr (Some j) \<and> map_of (sv_transient sv) i = Some u
      \<and> j_status j = Authorized \<and> r1 = Inr (Some j1) \<and> r2 = Inr (Some j2)")
    case False
    then have "sv_store ?w \<in> {?s, s1, s2} \<and> sv_submitted ?w = sv_submitted sv"
      using r1 r2 by (auto simp: runWalletStage_def split: sum.splits option.splits)
    then show ?thesis using run1 run2 run_refl by auto
  next
    case True
    then obtain u where w: "?w = stage_finalize ops ex retry now i u (sv \<lparr> sv_store := s2 \<rparr>)"
      using r1 r2 by (auto simp: runWalletStage_def)
    show ?thesis
      using stage_finalize_run [of "sv \<lparr> sv_store := s2 \<rparr>" ex retry now i u] s2 run2 w
        journal_run_trans [OF run2] submits_weaken [OF _ run2 assms(1)] by auto
  qed
qed

lemma service_ok_quiet:
  assumes "service_ok inv lookup sv" "journal_run ops lookup (sv_store sv) (sv_store sv')"
    and "sv_submitted sv' = sv_submitted sv"
  shows "service_ok inv lookup sv'"
  using assms transitions_mono [OF assms(2)] journal_run_ok [OF assms(2)]
  unfolding service_ok_def by metis

lemma wallet_turn_ok:
  assumes "service_ok inv lookup sv"
    and "\<And>i k j. lookup (sv_store sv) k = Some j \<Longrightarrow> j_dustReservationId j \<noteq> Some (i @ '':'' @ uuid)"
  shows "service_ok inv lookup (wallet_turn ops ex retry now uuid sv)"
proof (cases "sv_running sv")
  case Nil
  then show ?thesis using assms(1) by (simp add: wallet_turn_def)
next
  case (Cons i rest)
  let ?w = "runWalletStage ops ex retry now uuid i sv"
  have turn: "wallet_turn ops ex retry now uuid sv = ?w \<lparr> sv_running := rest \<rparr>"
    using Cons by (simp add: wallet_turn_def)
  have ok: "inv (sv_store sv)" "journal_ok (lookup (sv_store sv))" using assms(1) by (simp_all add: service_ok_def)
  have run: "journal_run ops lookup (sv_store sv) (sv_store ?w) \<and> (sv_submitted ?w = sv_submitted sv
      \<or> (\<exists>f. sv_submitted ?w = sv_submitted sv @ [(i, f)] \<and> submits lookup i (sv_store sv) (sv_store ?w)))"
    by (rule runWalletStage_run [OF ok]) (rule assms(2))
  show ?thesis
  proof (cases "sv_submitted ?w = sv_submitted sv")
    case True
    have "service_ok inv lookup ?w"
      by (rule service_ok_quiet [OF assms(1)]) (use run True in auto)
    then show ?thesis using turn by (simp add: service_ok_def)
  next
    case False
    then obtain f where f: "sv_submitted ?w = sv_submitted sv @ [(i, f)]" "submits lookup i (sv_store sv) (sv_store ?w)"
      and r: "journal_run ops lookup (sv_store sv) (sv_store ?w)" using run by blast
    have "service_ok inv lookup (?w \<lparr> sv_submitted := sv_submitted sv \<rparr>)"
      by (rule service_ok_quiet [OF assms(1)]) (use r in simp_all)
    moreover have "i \<notin> fst ` set (sv_submitted sv)"
      using assms(1) f(2) unfolding service_ok_def submits_def by blast
    ultimately show ?thesis using f turn by (auto simp: service_ok_def submits_def)
  qed
qed

lemma service_run_ok:
  assumes "service_run ops lookup sha256 hmac opts sv sv'" "\<And>x. is_hex64 (sha256 x)" "service_ok inv lookup sv"
  shows "service_ok inv lookup sv'"
  using assms(1,3)
proof (induction sv sv' rule: service_run.induct)
  case (sr_accept sv sv1 now ns body h sv2 r)
  then show ?case using service_ok_quiet [of sv1 sv2] accept_run [OF sr_accept.hyps(2) assms(2)] by blast
next
  case (sr_reconcile sv sv1 resolver retry now i sv2 p)
  have "journal_run ops lookup (sv_store sv1) (sv_store sv2) \<and> sv_submitted sv2 = sv_submitted sv1"
    by (rule reconcile_run [OF sr_reconcile.hyps(3)]) (rule sr_reconcile.hyps(2))
  then show ?case using service_ok_quiet [of sv1 sv2] sr_reconcile by blast
next
  case (sr_get sv sv1 resolver retry now i sv2 p)
  have "journal_run ops lookup (sv_store sv1) (sv_store sv2) \<and> sv_submitted sv2 = sv_submitted sv1"
    by (rule get_action_run [OF sr_get.hyps(3)]) (rule sr_get.hyps(2))
  then show ?case using service_ok_quiet [of sv1 sv2] sr_get by blast
next
  case (sr_receipt sv sv1 resolver retry now i sv2 q)
  have "journal_run ops lookup (sv_store sv1) (sv_store sv2) \<and> sv_submitted sv2 = sv_submitted sv1"
    by (rule getReceipt_run [OF sr_receipt.hyps(3)]) (rule sr_receipt.hyps(2))
  then show ?case using service_ok_quiet [of sv1 sv2] sr_receipt by blast
next
  case (sr_wallet sv sv1 uuid ex retry now)
  then show ?case using wallet_turn_ok by blast
next
  case (sr_timer sv sv1 i)
  then show ?case by (simp add: run_timer_def service_ok_def)
next
  case (sr_restart sv sv1 now)
  let ?b = "boot (sv_store sv1) (sv_submitted sv1)"
  have "service_ok inv lookup ?b" using sr_restart by (simp add: boot_def service_ok_def)
  then show ?case using service_ok_quiet [of ?b "start ops now ?b"] start_run [of ops lookup ?b now] by blast
qed simp

end

section \<open>Behaviour of the handlers\<close>

lemma reconcile_idle:
  assumes "getJob ops (sv_store sv) i = Inr (Some j)"
    and "truthy_str (j_transactionId j) = None \<or> j_status j = Confirmed \<or> j_status j = Failed"
  shows "reconcile ops resolver retry now i sv = (sv, Inr (Some (publicJob j)))"
  using assms by (cases "truthy_str (j_transactionId j)") (auto simp: reconcile_def)

lemma reconcile_wait:
  assumes "getJob ops (sv_store sv) i = Inr (Some j)" "truthy_str (j_transactionId j) = Some t"
    and "j_status j \<noteq> Confirmed" "j_status j \<noteq> Failed" "resolver (resolve_input_of j t) = Inr None"
  shows "sv_store (fst (reconcile ops resolver retry now i sv)) = sv_store sv"
  unfolding reconcile_def using assms by (simp add: assms(2) Let_def del: truthy_str_eq_Some)

lemma reconcile_found:
  assumes "getJob ops (sv_store sv) i = Inr (Some j)" "truthy_str (j_transactionId j) = Some t"
    and "j_status j \<noteq> Confirmed" "j_status j \<noteq> Failed" "resolver (resolve_input_of j t) = Inr (Some rc)"
  shows "sv_store (fst (reconcile ops resolver retry now i sv)) = fst (transition ops now (sv_store sv) i
    [Submitted, IndexerPending] ((patch_status Confirmed) \<lparr> p_receipt := Some rc \<rparr>))"
  unfolding reconcile_def using assms
  by (simp add: assms(2) Let_def del: truthy_str_eq_Some split: prod.splits sum.splits)

lemma reconcile_error:
  assumes "getJob ops (sv_store sv) i = Inr (Some j)" "truthy_str (j_transactionId j) = Some t"
    and "j_status j \<noteq> Confirmed" "j_status j \<noteq> Failed" "resolver (resolve_input_of j t) = Inl e"
  shows "sv_store (fst (reconcile ops resolver retry now i sv)) = sv_store sv \<or>
    (\<exists>c. sv_store (fst (reconcile ops resolver retry now i sv)) = fst (transition ops now (sv_store sv) i
      [Submitted, IndexerPending] (error_patch Failed c)))"
proof (cases e)
  case (V2ActionError c hs)
  obtain s' m where "transition ops now (sv_store sv) i [Submitted, IndexerPending] (error_patch Failed c) = (s', m)"
    by (cases rule: prod.exhaust)
  then have "sv_store (fst (reconcile ops resolver retry now i sv)) \<in> {sv_store sv, s'}"
    unfolding reconcile_def using assms V2ActionError
    by (cases m) (auto simp: assms(2) Let_def simp del: truthy_str_eq_Some)
  then show ?thesis using \<open>transition ops now _ _ _ _ = _\<close> by (metis empty_iff fst_conv insert_iff)
qed (use assms in \<open>simp_all add: reconcile_def Let_def del: truthy_str_eq_Some\<close>)

lemma same_identity_refl [simp]: "same_identity j j"
  by (simp add: same_identity_def)

context action_store
begin

text \<open>A receipt that reconciliation writes is the resolver's answer for that very job.\<close>

lemma reconcile_confirms:
  assumes "inv (sv_store sv)" "key_ok i" "lookup (sv_store sv) i = Some j" "j_status j \<noteq> Confirmed"
    and "\<And>inp rc. resolver inp = Inr (Some rc) \<Longrightarrow> wf_receipt rc"
    and "reconcile ops resolver retry now i sv = (sv', r)"
    and "lookup (sv_store sv') i = Some j'" "j_status j' = Confirmed"
  shows "\<exists>t rc. j_transactionId j = Some t \<and> resolver (resolve_input_of j t) = Inr (Some rc) \<and> j_receipt j' = Some rc"
proof -
  have get: "getJob ops (sv_store sv) i = Inr (Some j)" using get_law [OF assms(1,2)] assms(3) by simp
  have sv': "sv' = fst (reconcile ops resolver retry now i sv)" using assms(6) by simp
  have changed: "sv_store sv' \<noteq> sv_store sv" using assms(3,4,7,8) by auto
  have "\<not> (truthy_str (j_transactionId j) = None \<or> j_status j = Confirmed \<or> j_status j = Failed)"
    using reconcile_idle [OF get] sv' changed by (metis fst_conv)
  then obtain t where t: "truthy_str (j_transactionId j) = Some t" "j_status j \<noteq> Failed"
    by (metis option.exhaust)
  show ?thesis
  proof (cases "resolver (resolve_input_of j t)")
    case (Inl e)
    from reconcile_error [where resolver = resolver, OF get t(1) assms(4) t(2) Inl] obtain c where
      c: "sv_store sv' = fst (transition ops now (sv_store sv) i [Submitted, IndexerPending] (error_patch Failed c))"
      using changed sv' by metis
    have "wf_patch (error_patch Failed c)" by (simp add: wf_patch_def)
    moreover obtain s2 m where m: "transition ops now (sv_store sv) i [Submitted, IndexerPending] (error_patch Failed c) = (s2, m)"
      by (cases rule: prod.exhaust)
    ultimately have False
      using transition_law [OF assms(1) _ m] c assms(3,4,7,8) by (auto simp: patched_def split: if_splits)
    then show ?thesis ..
  next
    case (Inr found)
    then obtain rc where rc: "resolver (resolve_input_of j t) = Inr (Some rc)"
      using reconcile_wait [where resolver = resolver, OF get t(1) assms(4) t(2)] changed sv' by (cases found) metis+
    have "wf_patch ((patch_status Confirmed) \<lparr> p_receipt := Some rc \<rparr>)"
      using assms(5) [OF rc] by (simp add: wf_patch_def)
    moreover obtain s2 m where m: "transition ops now (sv_store sv) i [Submitted, IndexerPending]
        ((patch_status Confirmed) \<lparr> p_receipt := Some rc \<rparr>) = (s2, m)" by (cases rule: prod.exhaust)
    moreover have "sv_store sv' = s2"
      using reconcile_found [where resolver = resolver, OF get t(1) assms(4) t(2) rc] sv' m by simp
    ultimately have "j_receipt j' = Some rc"
      using transition_law [OF assms(1) _ m] assms(3,4,7,8) by (auto simp: patched_def split: if_splits)
    then show ?thesis using t rc by auto
  qed
qed

text \<open>Once a job is \<open>validated\<close>, a rerun of its wallet stage does nothing.\<close>

lemma rerun_of_validated:
  assumes "inv (sv_store sv)" "key_ok i" "lookup (sv_store sv) i = Some j" "j_status j \<noteq> Authorized"
  shows "runWalletStage ops ex retry now uuid i sv = sv"
  using get_law [OF assms(1,2)] assms(3,4) by (simp add: runWalletStage_def split: option.splits)

text \<open>
  When another job holds the lease, the stage leaves its job \<open>validated\<close> and only
  sets a rerun timer.
\<close>

lemma stage_without_lease:
  assumes "inv (sv_store sv)" "key_ok i" "lookup (sv_store sv) i = Some j" "j_status j = Authorized"
    and "map_of (sv_transient sv) i = Some u" "leased (lookup (sv_store sv))"
    and "\<And>k j. lookup (sv_store sv) k = Some j \<Longrightarrow> j_dustReservationId j \<noteq> Some (i @ '':'' @ uuid)"
  shows "\<exists>sv' j'. runWalletStage ops ex retry now uuid i sv = sv' \<and> inv (sv_store sv')
    \<and> lookup (sv_store sv') i = Some j' \<and> j_status j' = Validated
    \<and> sv_timers sv' = sv_timers sv @ [RunTimer i retry] \<and> sv_submitted sv' = sv_submitted sv"
proof -
  let ?s = "sv_store sv" and ?rid = "i @ '':'' @ uuid"
  have get: "getJob ops ?s i = Inr (Some j)" using get_law [OF assms(1,2)] assms(3) by simp
  obtain s1 r1 where r1: "transition ops now ?s i [Authorized] (patch_status Validated) = (s1, r1)"
    by (cases rule: prod.exhaust)
  have "wf_patch (patch_status Validated)" by (simp add: wf_patch_def)
  from transition_law [OF assms(1) this r1] obtain j1 where j1: "inv s1" "r1 = Inr (Some j1)"
    "patched Validated (patch_status Validated) j j1" "lookup s1 = (lookup ?s)(i \<mapsto> j1)"
    using assms(3,4) by auto
  have "leased (lookup s1)"
  proof -
    obtain k h where k: "lookup ?s k = Some h" "lease_holder (j_status h)" using assms(6) by (auto simp: leased_def)
    then have "k \<noteq> i" using assms(3,4) by (auto simp: lease_holder_def)
    then show ?thesis using k j1(4) by (auto simp: leased_def)
  qed
  moreover have fresh: "j_dustReservationId h \<noteq> Some ?rid" if h: "lookup s1 k = Some h" for k h
  proof (cases "k = i")
    case True
    then have "j_dustReservationId h = j_dustReservationId j" using h j1(3,4) by (simp add: patched_def)
    then show ?thesis using assms(7) [OF assms(3)] by simp
  next
    case False
    then show ?thesis using assms(7) [of k h] h j1(4) by simp
  qed
  moreover obtain s2 r2 where r2: "reserveDust ops now s1 i ?rid = (s2, r2)" by (cases rule: prod.exhaust)
  ultimately have "r2 = Inr None \<and> inv s2 \<and> lookup s2 = lookup s1"
    using reserve_law [OF j1(1) _ fresh r2] by auto
  then show ?thesis
    using get assms(4,5) r1 r2 j1 by (simp add: runWalletStage_def scheduleRun_def patched_def)
qed

text \<open>The rerun that the timer starts finds the job past \<open>authorized\<close>, whatever happened meanwhile.\<close>

lemma stage_never_resumes:
  assumes "inv (sv_store sv)" "key_ok i" "lookup (sv_store sv) i = Some j" "j_status j = Validated"
    and "journal_run ops lookup (sv_store sv) (sv_store later)"
  shows "runWalletStage ops ex retry now uuid i later = later"
proof -
  obtain j' where j': "lookup (sv_store later) i = Some j'" "j_status j \<le> j_status j'"
    using journal_status [OF assms(5,1,3)] by blast
  then have "j_status j' \<noteq> Authorized" using assms(4) by (auto simp: less_eq_V2ActionJobStatus_def)
  moreover have "inv (sv_store later)" using journal_run_refines [OF assms(5,1)] by simp
  ultimately show ?thesis using rerun_of_validated [OF _ assms(2) j'(1)] by simp
qed

text \<open>Restart neither reconciles nor surfaces a submitted job without a transaction id.\<close>

lemma start_jobs_skips_submitted:
  assumes "inv (sv_store sv)" "lookup (sv_store sv) i = Some j" "j_status j = Submitted" "j_transactionId j = None"
    and "\<And>h. h \<in> set jobs \<Longrightarrow> j_id h = i \<Longrightarrow> h = j"
  shows "lookup (sv_store (start_jobs ops now jobs sv)) i = Some j
    \<and> (\<forall>d. ReconcileTimer i d \<in> set (sv_timers (start_jobs ops now jobs sv)) \<longrightarrow> ReconcileTimer i d \<in> set (sv_timers sv))"
  using assms
proof (induction jobs arbitrary: sv)
  case (Cons h jobs)
  show ?case
  proof (cases "reconcilable h")
    case True
    moreover have "\<not> reconcilable j" using Cons.prems(4) by (simp add: reconcilable_def)
    ultimately have "j_id h \<noteq> i" using Cons.prems(5) [of h] by force
    then show ?thesis
      using Cons.IH [of "scheduleReconcile (j_id h) 0 sv"] Cons.prems True by (auto simp: scheduleReconcile_def)
  next
    case False
    obtain s' r where r: "transition ops now (sv_store sv) (j_id h) [Authorized, Validated, DustReserved, Finalized]
      (error_patch RecoveryRequired Recovery_required) = (s', r)" by (cases rule: prod.exhaust)
    have "wf_patch (error_patch RecoveryRequired Recovery_required)" by (simp add: wf_patch_def)
    from transition_law [OF Cons.prems(1) this r] have "inv s'" "lookup s' i = Some j"
      using Cons.prems(2,3) by (auto split: option.splits if_splits)
    then show ?thesis
      using Cons.IH [of "sv \<lparr> sv_store := s' \<rparr>"] Cons.prems False r by (cases r) auto
  qed
qed simp

lemma start_skips_submitted:
  assumes "inv (sv_store sv)" "lookup (sv_store sv) i = Some j" "j_status j = Submitted" "j_transactionId j = None"
  shows "lookup (sv_store (start ops now sv)) i = Some j
    \<and> (\<forall>d. ReconcileTimer i d \<in> set (sv_timers (start ops now sv)) \<longrightarrow> ReconcileTimer i d \<in> set (sv_timers sv))"
proof -
  obtain js where js: "listRecoverable ops (sv_store sv) = Inr js"
    "set js = {j. \<exists>i. lookup (sv_store sv) i = Some j \<and> j_status j \<in> set recoverableStatuses}"
    using list_law [OF assms(1)] by auto
  have "h = j" if "h \<in> set js" "j_id h = i" for h
    using that js(2) lookup_id [OF assms(1)] assms(2) by auto
  then have "lookup (sv_store (start_jobs ops now js sv)) i = Some j
    \<and> (\<forall>d. ReconcileTimer i d \<in> set (sv_timers (start_jobs ops now js sv)) \<longrightarrow> ReconcileTimer i d \<in> set (sv_timers sv))"
    by (rule start_jobs_skips_submitted [OF assms])
  then show ?thesis using js(1) by (simp add: start_def)
qed

text \<open>A retry of an accepted request answers with the journalled job and writes no job.\<close>

lemma accept_retry:
  assumes "inv (sv_store sv)" "\<And>x. is_hex64 (sha x)" "authorize sha hmac opts now ns body h = Inr (q, n, k)"
    and "lookup (sv_store sv) (n_id n) = Some j" "j_idempotencyKey j = n_idempotencyKey n"
    and "j_requestHash j = n_requestHash n" "j_capabilityDigest j = n_capabilityDigest n"
  shows "\<exists>sv'. accept ops sha hmac opts now ns body h sv = (sv', Inr (publicJob j))
    \<and> lookup (sv_store sv') = lookup (sv_store sv)"
proof -
  note wf = authorize_wf [OF assms(3,2)]
  obtain s1 where s1: "createOrGet ops (sv_store sv) n = (s1, Inr (j, False))"
    using create_existing [OF assms(1) wf(1) assms(4-6)] by auto
  have inv1: "inv s1" "lookup s1 = lookup (sv_store sv)" using create_law [OF assms(1) wf(1) s1] by auto
  obtain e where e: "getByIdempotencyKey ops s1 (q_idempotencyKey q) = Inr e"
    "case e of Some j \<Rightarrow> lookup s1 (j_id j) = Some j \<and> j_idempotencyKey j = q_idempotencyKey q
       | None \<Rightarrow> \<forall>i j. lookup s1 i = Some j \<longrightarrow> j_idempotencyKey j \<noteq> q_idempotencyKey q"
    using by_key_law [OF inv1(1)] by blast
  have ej: "e = Some j"
  proof (cases e)
    case None
    then show ?thesis using e(2) assms(4,5) wf(5) inv1(2) by auto
  next
    case (Some j2)
    then have "lookup (sv_store sv) (j_id j2) = Some j2" "j_idempotencyKey j2 = j_idempotencyKey j"
      using e(2) inv1(2) wf(5) assms(5) by auto
    then have "j_id j2 = n_id n" using unique_law [OF assms(1) _ assms(4)] by blast
    then show ?thesis using \<open>lookup (sv_store sv) (j_id j2) = Some j2\<close> assms(4) Some by simp
  qed
  obtain s2 b where b: "consumeCapability ops s1 k = (s2, b)" by (cases rule: prod.exhaust)
  note c = consume_law [OF inv1(1) wf(2) b]
  show ?thesis
    using s1 e(1) ej b c inv1(2) assms(3,6,7) unfolding accept_def by (auto simp: Let_def)
qed

lemma move_ok:
  assumes "inv s" "lookup s i = Some j" "j_status j \<in> set ex" "wf_patch p"
  obtains s' j' where "transition ops now s i ex p = (s', Inr (Some j'))" "inv s'"
    "lookup s' = (lookup s)(i \<mapsto> j')" "patched (the (p_status p)) p j j'"
proof -
  obtain s' r where r: "transition ops now s i ex p = (s', r)" by (cases rule: prod.exhaust)
  show ?thesis using transition_law [OF assms(1,4) r] assms(2,3) r that by auto
qed

text \<open>An undisturbed wallet stage takes its job to \<open>indexer_pending\<close> with the node's transaction id.\<close>

lemma wallet_stage_success:
  assumes "inv (sv_store sv)" "key_ok i" "lookup (sv_store sv) i = Some j" "j_status j = Authorized"
    and "map_of (sv_transient sv) i = Some u" "\<not> leased (lookup (sv_store sv))"
    and "\<And>k h. lookup (sv_store sv) k = Some h \<Longrightarrow> j_dustReservationId h \<noteq> Some (i @ '':'' @ uuid)"
    and "ex_balanceAndFinalize ex u = Some f" "requireTransactionId (ex_submit ex f) = Some t"
    and "truthy_str (ex_transactionId ex f) = None \<or> truthy_str (ex_transactionId ex f) = Some t"
  shows "\<exists>sv' j'. runWalletStage ops ex retry now uuid i sv = sv'
    \<and> lookup (sv_store sv') = (lookup (sv_store sv))(i \<mapsto> j')
    \<and> j_status j' = IndexerPending \<and> j_transactionId j' = Some t
    \<and> j_transitions j' = j_transitions j @ [Validated, DustReserved, Finalized, Submitted, IndexerPending]
    \<and> sv_submitted sv' = sv_submitted sv @ [(i, f)] \<and> sv_timers sv' = sv_timers sv @ [ReconcileTimer i 0]"
proof -
  let ?s = "sv_store sv" and ?rid = "i @ '':'' @ uuid" and ?d = "truthy_str (ex_transactionId ex f)"
  let ?fin = "(patch_status Finalized) \<lparr> p_transactionId := ?d \<rparr>"
  let ?pend = "(patch_status IndexerPending) \<lparr> p_transactionId := Some t \<rparr>"
  have get: "getJob ops ?s i = Inr (Some j)" using get_law [OF assms(1,2)] assms(3) by simp
  have t: "t \<noteq> []" using assms(9) by (auto simp: requireTransactionId_def split: option.splits if_splits)
  have wf: "wf_patch (patch_status Validated)" "wf_patch ?fin" "wf_patch (patch_status Submitted)" "wf_patch ?pend"
    using t by (auto simp: wf_patch_def)
  obtain s1 j1 where m1: "transition ops now ?s i [Authorized] (patch_status Validated) = (s1, Inr (Some j1))" "inv s1"
    "lookup s1 = (lookup ?s)(i \<mapsto> j1)" "patched Validated (patch_status Validated) j j1"
    using move_ok [OF assms(1,3) _ wf(1), of "[Authorized]" now] assms(4) by auto
  have free: "\<not> leased (lookup s1)"
    using assms(6) m1(3,4) by (auto simp: leased_def lease_holder_def patched_def split: if_splits)
  have fresh: "j_dustReservationId h \<noteq> Some ?rid" if h: "lookup s1 k = Some h" for k h
  proof (cases "k = i")
    case True
    then show ?thesis using h m1(3,4) assms(7) [OF assms(3)] by (simp add: patched_def)
  next
    case False
    then show ?thesis using h m1(3) assms(7) [of k h] by simp
  qed
  obtain s2 r2 where r2: "reserveDust ops now s1 i ?rid = (s2, r2)" by (cases rule: prod.exhaust)
  have "lookup s1 i = Some j1" "j_status j1 = Validated" using m1(3,4) by (auto simp: patched_def)
  moreover have "\<forall>k h. lookup s1 k = Some h \<longrightarrow> j_dustReservationId h \<noteq> Some ?rid" using fresh by blast
  ultimately obtain j2 where m2: "r2 = Inr (Some j2)" "inv s2" "lookup s2 = (lookup s1)(i \<mapsto> j2)" "reserved ?rid j1 j2"
    using reserve_law [OF m1(2) _ _ r2] free by auto
  obtain s3 j3 where m3: "transition ops now s2 i [DustReserved] ?fin = (s3, Inr (Some j3))" "inv s3"
    "lookup s3 = (lookup s2)(i \<mapsto> j3)" "patched Finalized ?fin j2 j3"
    using move_ok [OF m2(2) _ _ wf(2), of i j2 "[DustReserved]" now] m2(3,4) by (auto simp: reserved_def)
  obtain s4 j4 where m4: "transition ops now s3 i [Finalized] (patch_status Submitted) = (s4, Inr (Some j4))" "inv s4"
    "lookup s4 = (lookup s3)(i \<mapsto> j4)" "patched Submitted (patch_status Submitted) j3 j4"
    using move_ok [OF m3(2) _ _ wf(3), of i j3 "[Finalized]" now] m3(3,4) by (auto simp: patched_def)
  obtain s5 j5 where m5: "transition ops now s4 i [Submitted] ?pend = (s5, Inr (Some j5))" "inv s5"
    "lookup s5 = (lookup s4)(i \<mapsto> j5)" "patched IndexerPending ?pend j4 j5"
    using move_ok [OF m4(2) _ _ wf(4), of i j4 "[Submitted]" now] m4(3,4) by (auto simp: patched_def)
  let ?sv = "runWalletStage ops ex retry now uuid i sv"
  have run: "sv_store ?sv = s5" "sv_submitted ?sv = sv_submitted sv @ [(i, f)]"
    "sv_timers ?sv = sv_timers sv @ [ReconcileTimer i 0]"
    using get assms(4,5,8-10) m1(1) r2 m2(1) m3(1) m4(1) m5(1)
    by (auto simp: runWalletStage_def stage_finalize_def stage_submit_def scheduleReconcile_def drop_transient_def Let_def)
  have "lookup s5 = (lookup ?s)(i \<mapsto> j5)" using m1(3) m2(3) m3(3) m4(3) m5(3) by simp
  moreover have "j_transitions j5 = j_transitions j @ [Validated, DustReserved, Finalized, Submitted, IndexerPending]"
    "j_status j5 = IndexerPending" "j_transactionId j5 = Some t"
    using m1(4) m2(4) m3(4) m4(4) m5(4) assms(4) by (auto simp: patched_def reserved_def)
  ultimately show ?thesis using run by auto
qed

end

end
