(* ===== verification/V2_Store.thy ===== *)
theory V2_Store
  imports V2_Service
begin

text \<open>
  The in-memory adapter of \<open>relayer/src/v2-store.ts\<close> and the pieces it shares with
  the file adapter, with its interpretation of the journal interface. Every
  operation is serialised by the promise tail, so it is a function from state to
  state.
\<close>

section \<open>Shared pieces of the adapters\<close>

definition requireId :: "string \<Rightarrow> string \<Rightarrow> (v2_error, string) result" where
  "requireId v label = (if blank v \<or> length v > 256
     then Inl (OtherError (label @ '' must be a non-empty value of at most 256 characters'')) else Inr v)"

definition requireDigest :: "string \<Rightarrow> string \<Rightarrow> (v2_error, string) result" where
  "requireDigest v label = (if is_hex64 v then Inr v
     else Inl (OtherError (label @ '' must be a SHA-256 digest'')))"

text \<open>The journal row that \<open>createOrGet\<close> builds.\<close>

definition build_job :: "new_job \<Rightarrow> job" where
  "build_job n = \<lparr> j_id = n_id n, j_idempotencyKey = n_idempotencyKey n,
     j_capabilityDigest = n_capabilityDigest n, j_requestHash = n_requestHash n,
     j_txDigest = n_txDigest n, j_network = n_network n, j_contractAddress = n_contractAddress n,
     j_circuit = n_circuit n, j_action = n_action n, j_status = Authorized,
     j_transitions = [Authorized], j_dustReservationId = None, j_transactionId = None,
     j_receipt = None, j_errorCode = None, j_createdAt = n_now n, j_updatedAt = n_now n \<rparr>"

definition new_job_row :: "new_job \<Rightarrow> (v2_error, job) result" where
  "new_job_row n =
     rbind (requireId (n_id n) ''id'') (\<lambda>_.
     rbind (requireId (n_idempotencyKey n) ''idempotencyKey'') (\<lambda>_.
     rbind (requireDigest (n_capabilityDigest n) ''capabilityDigest'') (\<lambda>_.
     rbind (requireDigest (n_requestHash n) ''requestHash'') (\<lambda>_.
     rbind (requireDigest (n_txDigest n) ''txDigest'') (\<lambda>_.
     rbind (requireId (n_network n) ''network'') (\<lambda>_.
     rbind (requireId (n_contractAddress n) ''contractAddress'') (\<lambda>_.
     rbind (requireId (n_circuit n) ''circuit'') (\<lambda>_.
     Inr (build_job n)))))))))"

text \<open>The spread of a patch over a job, with the receipt checked at the boundary.\<close>

definition patch_job :: "string \<Rightarrow> job \<Rightarrow> patch \<Rightarrow> (v2_error, job) result" where
  "patch_job now j p =
     (let next = j \<lparr> j_status := (case p_status p of Some s \<Rightarrow> s | None \<Rightarrow> j_status j),
          j_dustReservationId := or_else (p_dustReservationId p) (j_dustReservationId j),
          j_transactionId := or_else (p_transactionId p) (j_transactionId j),
          j_receipt := or_else (p_receipt p) (j_receipt j),
          j_errorCode := or_else (p_errorCode p) (j_errorCode j),
          j_transitions := (case p_status p of
              Some s \<Rightarrow> if s \<noteq> j_status j then j_transitions j @ [s] else j_transitions j
            | None \<Rightarrow> j_transitions j),
          j_updatedAt := now \<rparr>
      in case j_receipt next of
           None \<Rightarrow> Inr next
         | Some r \<Rightarrow>
             (case sanitizeCanonicalReceipt (receipt_json r) of
                Inl e \<Rightarrow> Inl (OtherError ''receipt'')
              | Inr r' \<Rightarrow> Inr (next \<lparr> j_receipt := Some r' \<rparr>)))"

definition reserve_job :: "string \<Rightarrow> string \<Rightarrow> job \<Rightarrow> job" where
  "reserve_job now reservationId j = j \<lparr> j_status := DustReserved,
     j_transitions := j_transitions j @ [DustReserved],
     j_dustReservationId := Some reservationId, j_updatedAt := now \<rparr>"

section \<open>The in-memory adapter\<close>

record mem_state =
  m_jobs :: "job jsmap"
  m_capabilities :: "capability_reservation jsmap"

definition mem_createOrGet :: "mem_state \<Rightarrow> new_job \<Rightarrow> mem_state \<times> (v2_error, job \<times> bool) result" where
  "mem_createOrGet st n =
     (case or_else (map_of (m_jobs st) (n_id n))
         (find (\<lambda>j. j_idempotencyKey j = n_idempotencyKey n \<or> j_requestHash j = n_requestHash n)
            (map_values (m_jobs st))) of
        Some existing \<Rightarrow>
          if j_requestHash existing \<noteq> n_requestHash n then (st, Inl V2StoreConflictError)
          else (st, Inr (existing, False))
      | None \<Rightarrow>
          (case new_job_row n of
             Inl e \<Rightarrow> (st, Inl e)
           | Inr j \<Rightarrow> (st \<lparr> m_jobs := map_set (j_id j) j (m_jobs st) \<rparr>, Inr (j, True))))"

definition mem_get :: "mem_state \<Rightarrow> string \<Rightarrow> (v2_error, job option) result" where
  "mem_get st i = Inr (map_of (m_jobs st) i)"

definition mem_getByIdempotencyKey :: "mem_state \<Rightarrow> string \<Rightarrow> (v2_error, job option) result" where
  "mem_getByIdempotencyKey st key = Inr (find (\<lambda>j. j_idempotencyKey j = key) (map_values (m_jobs st)))"

definition mem_consumeCapability ::
  "mem_state \<Rightarrow> capability_reservation \<Rightarrow> mem_state \<times> (v2_error, bool) result" where
  "mem_consumeCapability st c =
     (case map_of (m_capabilities st) (k_digest c) of
        Some _ \<Rightarrow> (st, Inr False)
      | None \<Rightarrow> (st \<lparr> m_capabilities := map_set (k_digest c) c (m_capabilities st) \<rparr>, Inr True))"

definition mem_transition ::
  "string \<Rightarrow> mem_state \<Rightarrow> string \<Rightarrow> V2ActionJobStatus list \<Rightarrow> patch \<Rightarrow> mem_state \<times> (v2_error, job option) result" where
  "mem_transition now st i expected p =
     (case map_of (m_jobs st) i of
        None \<Rightarrow> (st, Inr None)
      | Some j \<Rightarrow>
          if j_status j \<notin> set expected then (st, Inr None)
          else (case patch_job now j p of
              Inl e \<Rightarrow> (st, Inl e)
            | Inr j' \<Rightarrow> (st \<lparr> m_jobs := map_set i j' (m_jobs st) \<rparr>, Inr (Some j'))))"

definition mem_reserveDust ::
  "string \<Rightarrow> mem_state \<Rightarrow> string \<Rightarrow> string \<Rightarrow> mem_state \<times> (v2_error, job option) result" where
  "mem_reserveDust now st i reservationId =
     (let active = list_ex (\<lambda>c. j_id c \<noteq> i \<and> (j_status c = DustReserved \<or> j_status c = Finalized
          \<or> j_status c = Submitted \<or> j_status c = IndexerPending)) (map_values (m_jobs st))
      in case map_of (m_jobs st) i of
           None \<Rightarrow> (st, Inr None)
         | Some j \<Rightarrow>
             if j_status j \<noteq> Validated \<or> active then (st, Inr None)
             else (let j' = reserve_job now reservationId j
                   in (st \<lparr> m_jobs := map_set i j' (m_jobs st) \<rparr>, Inr (Some j'))))"

definition mem_listRecoverable :: "mem_state \<Rightarrow> (v2_error, job list) result" where
  "mem_listRecoverable st =
     Inr (filter (\<lambda>j. j_status j \<in> set recoverableStatuses) (map_values (m_jobs st)))"

definition mem_store :: "mem_state v2_store" where
  "mem_store = \<lparr> createOrGet = mem_createOrGet, getJob = mem_get,
     getByIdempotencyKey = mem_getByIdempotencyKey, consumeCapability = mem_consumeCapability,
     transition = mem_transition, reserveDust = mem_reserveDust, listRecoverable = mem_listRecoverable \<rparr>"

definition mem_empty :: mem_state where
  "mem_empty = \<lparr> m_jobs = [], m_capabilities = [] \<rparr>"

section \<open>Lemmas shared by the adapters\<close>

text \<open>What both adapters of this file keep of the journal they hold.\<close>

definition unique_jobs :: "(string \<Rightarrow> job option) \<Rightarrow> bool" where
  "unique_jobs lk = (\<forall>i j i' j'. lk i = Some j \<longrightarrow> lk i' = Some j' \<longrightarrow>
     j_idempotencyKey j = j_idempotencyKey j' \<or> j_requestHash j = j_requestHash j' \<longrightarrow> i = i')"

definition table_ok :: "(string \<Rightarrow> job option) \<Rightarrow> bool" where
  "table_ok lk = ((\<forall>i j. lk i = Some j \<longrightarrow> j_id j = i \<and> (\<forall>r. j_receipt j = Some r \<longrightarrow> wf_receipt r))
     \<and> unique_jobs lk)"

lemma table_ok_empty [simp]: "table_ok Map.empty"
  by (simp add: table_ok_def unique_jobs_def)

lemma unique_jobs_insert:
  assumes "unique_jobs lk"
    and "\<And>i j'. lk i = Some j' \<Longrightarrow> i \<noteq> k \<Longrightarrow>
      j_idempotencyKey j' \<noteq> j_idempotencyKey j \<and> j_requestHash j' \<noteq> j_requestHash j"
  shows "unique_jobs (lk(k \<mapsto> j))"
  unfolding unique_jobs_def
proof (intro allI impI)
  fix i j1 i' j2
  assume "(lk(k \<mapsto> j)) i = Some j1" "(lk(k \<mapsto> j)) i' = Some j2"
    "j_idempotencyKey j1 = j_idempotencyKey j2 \<or> j_requestHash j1 = j_requestHash j2"
  then show "i = i'"
    using assms(2) [of i] assms(2) [of i'] assms(1) [unfolded unique_jobs_def, rule_format, of i j1 i' j2]
    by (cases "i = k"; cases "i' = k") auto
qed

lemma table_ok_insert:
  assumes "table_ok lk" "j_receipt j = None"
    and "\<And>i j'. lk i = Some j' \<Longrightarrow> j_idempotencyKey j' \<noteq> j_idempotencyKey j \<and> j_requestHash j' \<noteq> j_requestHash j"
  shows "table_ok (lk(j_id j \<mapsto> j))"
  using assms unique_jobs_insert [of lk "j_id j" j] by (simp add: table_ok_def)

lemma table_ok_update:
  assumes "table_ok lk" "lk i = Some j" "same_identity j j'" "\<And>r. j_receipt j' = Some r \<Longrightarrow> wf_receipt r"
  shows "table_ok (lk(i \<mapsto> j'))"
proof -
  have "j_idempotencyKey j1 \<noteq> j_idempotencyKey j' \<and> j_requestHash j1 \<noteq> j_requestHash j'"
    if "lk k = Some j1" "k \<noteq> i" for k j1
    using assms(1) [unfolded table_ok_def unique_jobs_def] assms(2,3) that
    unfolding same_identity_def by metis
  then have "unique_jobs (lk(i \<mapsto> j'))"
    using assms(1) by (intro unique_jobs_insert) (auto simp: table_ok_def)
  then show ?thesis using assms by (simp add: table_ok_def same_identity_def)
qed

lemma build_job_created: "created_from n (build_job n)"
  by (simp add: build_job_def created_from_def)

lemma build_job_simps [simp]:
  "j_id (build_job n) = n_id n" "j_receipt (build_job n) = None"
  "j_idempotencyKey (build_job n) = n_idempotencyKey n" "j_requestHash (build_job n) = n_requestHash n"
  by (simp_all add: build_job_def)

lemma new_job_row_wf [simp]: "wf_new n \<Longrightarrow> new_job_row n = Inr (build_job n)"
  by (auto simp: new_job_row_def wf_new_def ok_id_def requireId_def requireDigest_def)

lemma new_job_row_Inr: "new_job_row n = Inr j \<Longrightarrow> j = build_job n \<and> wf_new n"
  by (auto simp: new_job_row_def wf_new_def ok_id_def requireId_def requireDigest_def split: if_splits)

lemma patch_job_wf:
  assumes "wf_patch p" "\<And>r. j_receipt j = Some r \<Longrightarrow> wf_receipt r"
  obtains j' where "patch_job now j p = Inr j'" "patched (the (p_status p)) p j j'"
    "\<And>r. j_receipt j' = Some r \<Longrightarrow> wf_receipt r"
proof -
  obtain s where s: "p_status p = Some s" "p_dustReservationId p = None"
    and wf: "\<And>r. p_receipt p = Some r \<Longrightarrow> wf_receipt r"
    using assms(1) by (auto simp: wf_patch_def)
  let ?r = "or_else (p_receipt p) (j_receipt j)"
  have r: "wf_receipt r" if "?r = Some r" for r
    using that wf assms(2) by (cases "p_receipt p") auto
  let ?j = "j \<lparr> j_status := s, j_transactionId := or_else (p_transactionId p) (j_transactionId j),
    j_receipt := ?r, j_errorCode := or_else (p_errorCode p) (j_errorCode j),
    j_transitions := (if s \<noteq> j_status j then j_transitions j @ [s] else j_transitions j),
    j_updatedAt := now \<rparr>"
  have "patch_job now j p = Inr ?j"
    using r s by (cases ?r) (simp_all add: patch_job_def sanitize_receipt_json)
  moreover have "patched (the (p_status p)) p j ?j"
    using s by (simp add: patched_def same_identity_def)
  moreover have "wf_receipt r" if "j_receipt ?j = Some r" for r using r that by simp
  ultimately show ?thesis by (rule that)
qed

lemma reserve_job_reserved: "reserved rid j (reserve_job now rid j)"
  by (simp add: reserved_def reserve_job_def same_identity_def)

lemma reserve_job_simps [simp]: "j_receipt (reserve_job now rid j) = j_receipt j"
  by (simp add: reserve_job_def)

text \<open>The lookups of an adapter over a list of own values whose keys are the job ids.\<close>

lemma existing_job:
  assumes "keys_ok j_id m"
    and "or_else (map_of m (n_id n)) (find (\<lambda>j. j_idempotencyKey j = n_idempotencyKey n
           \<or> j_requestHash j = n_requestHash n) (map_values m)) = Some e"
  shows "map_of m (j_id e) = Some e"
proof (cases "map_of m (n_id n)")
  case None
  then have "e \<in> set (map_values m)" using assms(2) find_Some_iff by force
  then show ?thesis using keys_ok_map_of [OF assms(1)] by simp
next
  case (Some j)
  then show ?thesis using assms keys_ok_key by fastforce
qed

lemma no_existing_job:
  assumes "keys_ok j_id m"
  shows "or_else (map_of m (n_id n)) (find (\<lambda>j. j_idempotencyKey j = n_idempotencyKey n
           \<or> j_requestHash j = n_requestHash n) (map_values m)) = None
    \<longleftrightarrow> map_of m (n_id n) = None \<and> (\<forall>i j. map_of m i = Some j \<longrightarrow>
           j_idempotencyKey j \<noteq> n_idempotencyKey n \<and> j_requestHash j \<noteq> n_requestHash n)"
  by (cases "map_of m (n_id n)") (simp_all only: or_else.simps find_None_ball keys_ok_ball [OF assms], auto)

lemma active_iff_leased:
  assumes "keys_ok j_id m" "map_of m i = Some j" "j_status j = Validated"
  shows "list_ex (\<lambda>c. j_id c \<noteq> i \<and> (j_status c = DustReserved \<or> j_status c = Finalized
      \<or> j_status c = Submitted \<or> j_status c = IndexerPending)) (map_values m) \<longleftrightarrow> leased (map_of m)"
proof -
  have "j_id c \<noteq> i \<and> (j_status c = DustReserved \<or> j_status c = Finalized \<or> j_status c = Submitted
      \<or> j_status c = IndexerPending) \<longleftrightarrow> lease_holder (j_status c)" if "map_of m k = Some c" for k c
    using that assms(2,3) keys_ok_key [OF assms(1) that] by (auto simp: lease_holder_def)
  then show ?thesis
    unfolding list_ex_iff keys_ok_bex [OF assms(1)] leased_def by blast
qed

section \<open>The in-memory adapter is a journal\<close>

definition mem_inv :: "mem_state \<Rightarrow> bool" where
  "mem_inv st = (keys_ok j_id (m_jobs st) \<and> table_ok (map_of (m_jobs st)))"

definition mem_lookup :: "mem_state \<Rightarrow> string \<Rightarrow> job option" where
  "mem_lookup st = map_of (m_jobs st)"

definition mem_spent :: "mem_state \<Rightarrow> string set" where
  "mem_spent st = dom (map_of (m_capabilities st))"

lemma mem_create_law:
  assumes "mem_inv st" "wf_new n" "mem_createOrGet st n = (st', r)"
  shows "mem_inv st' \<and> mem_spent st' = mem_spent st \<and>
      (case r of Inl e \<Rightarrow> mem_lookup st' = mem_lookup st
       | Inr (j, c) \<Rightarrow> if c
           then mem_lookup st (n_id n) = None \<and> created_from n j \<and> mem_lookup st' = (mem_lookup st)(n_id n \<mapsto> j)
           else mem_lookup st' = mem_lookup st \<and> mem_lookup st (j_id j) = Some j \<and> j_requestHash j = n_requestHash n)"
proof -
  let ?ex = "or_else (map_of (m_jobs st) (n_id n)) (find (\<lambda>j. j_idempotencyKey j = n_idempotencyKey n
           \<or> j_requestHash j = n_requestHash n) (map_values (m_jobs st)))"
  have ok: "keys_ok j_id (m_jobs st)" "table_ok (map_of (m_jobs st))"
    using assms(1) by (simp_all add: mem_inv_def)
  show ?thesis
  proof (cases ?ex)
    case None
    note free = no_existing_job [OF ok(1), of n, unfolded None, simplified]
    have "table_ok ((map_of (m_jobs st))(j_id (build_job n) \<mapsto> build_job n))"
      using free by (intro table_ok_insert ok(2)) auto
    then show ?thesis
      using assms(2,3) None free keys_ok_map_set [OF ok(1), of "build_job n"]
      by (auto simp: mem_createOrGet_def mem_inv_def mem_lookup_def mem_spent_def build_job_created)
  next
    case (Some e)
    then show ?thesis
      using assms existing_job [OF ok(1) Some]
      by (auto simp: mem_createOrGet_def mem_lookup_def mem_spent_def split: if_splits)
  qed
qed

lemma mem_transition_law:
  assumes "mem_inv st" "wf_patch p" "mem_transition now st i ex p = (st', r)"
  shows "mem_inv st' \<and> mem_spent st' = mem_spent st \<and>
      (case mem_lookup st i of
         Some j \<Rightarrow> if j_status j \<in> set ex
           then \<exists>j'. r = Inr (Some j') \<and> patched (the (p_status p)) p j j'
             \<and> mem_lookup st' = (mem_lookup st)(i \<mapsto> j')
           else r = Inr None \<and> mem_lookup st' = mem_lookup st
       | None \<Rightarrow> r = Inr None \<and> mem_lookup st' = mem_lookup st)"
proof (cases "\<exists>j. map_of (m_jobs st) i = Some j \<and> j_status j \<in> set ex")
  case True
  then obtain j where j: "map_of (m_jobs st) i = Some j" "j_status j \<in> set ex" by auto
  have ok: "keys_ok j_id (m_jobs st)" "table_ok (map_of (m_jobs st))"
    using assms(1) by (simp_all add: mem_inv_def)
  then have "\<And>r. j_receipt j = Some r \<Longrightarrow> wf_receipt r" using j(1) by (simp add: table_ok_def)
  then obtain j' where j': "patch_job now j p = Inr j'" "patched (the (p_status p)) p j j'"
    "\<And>r. j_receipt j' = Some r \<Longrightarrow> wf_receipt r"
    using patch_job_wf [OF assms(2)] by metis
  have id: "same_identity j j'" "j_id j' = i"
    using j'(2) keys_ok_key [OF ok(1) j(1)] by (auto simp: patched_def same_identity_def)
  have "table_ok ((map_of (m_jobs st))(i \<mapsto> j'))" by (rule table_ok_update [OF ok(2) j(1) id(1) j'(3)])
  then show ?thesis
    using assms(3) j j' keys_ok_map_set [OF ok(1) id(2)]
    by (auto simp: mem_transition_def mem_inv_def mem_lookup_def mem_spent_def)
next
  case False
  then show ?thesis
    using assms by (auto simp: mem_transition_def mem_lookup_def mem_spent_def split: option.splits)
qed

lemma mem_reserve_law:
  assumes "mem_inv st" "mem_reserveDust now st i rid = (st', r)"
  shows "mem_inv st' \<and> mem_spent st' = mem_spent st \<and>
      (if \<exists>j. mem_lookup st i = Some j \<and> j_status j = Validated \<and> \<not> leased (mem_lookup st)
       then \<exists>j'. r = Inr (Some j') \<and> reserved rid (the (mem_lookup st i)) j'
         \<and> mem_lookup st' = (mem_lookup st)(i \<mapsto> j')
       else r = Inr None \<and> mem_lookup st' = mem_lookup st)"
proof (cases "\<exists>j. map_of (m_jobs st) i = Some j \<and> j_status j = Validated")
  case True
  then obtain j where j: "map_of (m_jobs st) i = Some j" "j_status j = Validated" by auto
  let ?j = "reserve_job now rid j"
  have ok: "keys_ok j_id (m_jobs st)" "table_ok (map_of (m_jobs st))"
    using assms(1) by (simp_all add: mem_inv_def)
  have id: "same_identity j ?j" "j_id ?j = i"
    using keys_ok_key [OF ok(1) j(1)] by (auto simp: reserve_job_def same_identity_def)
  have "table_ok ((map_of (m_jobs st))(i \<mapsto> ?j))"
    using ok(2) j(1) by (intro table_ok_update [OF ok(2) j(1) id(1)]) (auto simp: table_ok_def)
  then show ?thesis
    using assms(2) j keys_ok_map_set [OF ok(1) id(2)] assms(1)
    by (auto simp: mem_reserveDust_def active_iff_leased [OF ok(1) j] mem_inv_def mem_lookup_def
        mem_spent_def reserve_job_reserved Let_def split: if_splits)
next
  case False
  then show ?thesis
    using assms by (auto simp: mem_reserveDust_def mem_lookup_def mem_spent_def Let_def split: option.splits if_splits)
qed

lemma mem_by_key_law:
  assumes "mem_inv st"
  shows "\<exists>r. mem_getByIdempotencyKey st k = Inr r \<and>
      (case r of Some j \<Rightarrow> mem_lookup st (j_id j) = Some j \<and> j_idempotencyKey j = k
       | None \<Rightarrow> \<forall>i j. mem_lookup st i = Some j \<longrightarrow> j_idempotencyKey j \<noteq> k)"
proof -
  have ok: "keys_ok j_id (m_jobs st)" using assms by (simp add: mem_inv_def)
  show ?thesis
  proof (cases "find (\<lambda>j. j_idempotencyKey j = k) (map_values (m_jobs st))")
    case None
    then have "\<forall>i j. map_of (m_jobs st) i = Some j \<longrightarrow> j_idempotencyKey j \<noteq> k"
      unfolding find_None_ball keys_ok_ball [OF ok] .
    then show ?thesis using None by (simp add: mem_getByIdempotencyKey_def mem_lookup_def)
  next
    case (Some j)
    then have "j \<in> set (map_values (m_jobs st))" "j_idempotencyKey j = k"
      using find_Some_iff [OF Some] by auto
    then show ?thesis
      using Some keys_ok_map_of [OF ok] by (simp add: mem_getByIdempotencyKey_def mem_lookup_def)
  qed
qed

lemma mem_list_law:
  assumes "mem_inv st"
  shows "\<exists>js. mem_listRecoverable st = Inr js \<and>
      set js = {j. \<exists>i. mem_lookup st i = Some j \<and> j_status j \<in> set recoverableStatuses}"
proof -
  have ok: "keys_ok j_id (m_jobs st)" using assms by (simp add: mem_inv_def)
  have "set (filter (\<lambda>j. j_status j \<in> set recoverableStatuses) (map_values (m_jobs st)))
      = {j. \<exists>i. mem_lookup st i = Some j \<and> j_status j \<in> set recoverableStatuses}"
    using keys_ok_map_of [OF ok] keys_ok_key [OF ok] unfolding set_filter mem_lookup_def by metis
  then show ?thesis unfolding mem_listRecoverable_def by blast
qed

interpretation mem: action_store mem_store mem_inv mem_lookup mem_spent "\<lambda>_. True" mem_empty
proof (unfold_locales, goal_cases)
  case 1
  show ?case by (simp add: mem_inv_def mem_empty_def)
next
  case 2
  show ?case by (simp add: mem_lookup_def mem_empty_def)
next
  case 3
  show ?case by (simp add: mem_spent_def mem_empty_def)
next
  case (4 s i j)
  then show ?case by (auto simp: mem_inv_def mem_lookup_def intro: keys_ok_key)
next
  case (5 s i j i' j')
  then show ?case unfolding mem_inv_def mem_lookup_def table_ok_def unique_jobs_def by blast
next
  case (6 s i)
  show ?case by (simp add: mem_store_def mem_get_def mem_lookup_def)
next
  case (7 s k)
  then show ?case using mem_by_key_law by (simp add: mem_store_def)
next
  case (8 s)
  then show ?case using mem_list_law by (simp add: mem_store_def)
next
  case (9 s n s' r)
  then show ?case using mem_create_law [of s n s' r] by (simp add: mem_store_def)
next
  case (10 s n)
  then have "or_else (map_of (m_jobs s) (n_id n)) (find (\<lambda>j. j_idempotencyKey j = n_idempotencyKey n
       \<or> j_requestHash j = n_requestHash n) (map_values (m_jobs s))) = None"
    by (subst no_existing_job) (auto simp: mem_inv_def mem_lookup_def)
  then show ?case using 10(2) by (simp add: mem_store_def mem_createOrGet_def)
next
  case (11 s c s' b)
  then show ?case
    by (auto simp: mem_store_def mem_consumeCapability_def mem_inv_def mem_lookup_def mem_spent_def
        split: option.splits)
next
  case (12 s p now i ex s' m)
  then show ?case using mem_transition_law [of s p now i ex s' m] by (simp add: mem_store_def)
next
  case (13 s rid now i s' m)
  then show ?case using mem_reserve_law [of s now i rid s' m] by (simp add: mem_store_def)
next
  case (14 s n j)
  then show ?case by (simp add: mem_store_def mem_createOrGet_def mem_lookup_def)
qed

end
