(* ===== verification/V2_File_Store.thy ===== *)
theory V2_File_Store
  imports V2_Store
begin

text \<open>
  The atomic JSON file adapter of \<open>relayer/src/v2-store.ts\<close>. A state is the
  content of the state file; every update reads and parses it, runs on plain
  objects, and replaces it, or leaves it when the operation throws. Reads of a
  plain object used as a dictionary see the members of \<open>Object.prototype\<close>. A
  file edited by hand to hold a key \<open>__proto__\<close> is outside the model, and so is
  the lock file: an update holds the lock from its read to its rename.
\<close>

section \<open>State file\<close>

record file_state =
  f_jobs :: "job jsmap"
  f_capabilities :: "capability_reservation jsmap"

datatype file_content = Missing | Unparsable | Content json

definition emptyState :: file_state where
  "emptyState = \<lparr> f_jobs = [], f_capabilities = [] \<rparr>"

definition job_json :: "job \<Rightarrow> json" where
  "job_json j = JObj (
     [(''id'', JStr (j_id j)), (''idempotencyKey'', JStr (j_idempotencyKey j)),
      (''capabilityDigest'', JStr (j_capabilityDigest j)), (''requestHash'', JStr (j_requestHash j)),
      (''txDigest'', JStr (j_txDigest j)), (''network'', JStr (j_network j)),
      (''contractAddress'', JStr (j_contractAddress j)), (''circuit'', JStr (j_circuit j)),
      (''action'', JStr (action_str (j_action j))), (''status'', JStr (status_str (j_status j))),
      (''transitions'', JArr (map (\<lambda>s. JStr (status_str s)) (j_transitions j))),
      (''createdAt'', JStr (j_createdAt j)), (''updatedAt'', JStr (j_updatedAt j))]
     @ opt_prop ''dustReservationId'' JStr (j_dustReservationId j)
     @ opt_prop ''transactionId'' JStr (j_transactionId j)
     @ opt_prop ''receipt'' receipt_json (j_receipt j)
     @ opt_prop ''errorCode'' JStr (j_errorCode j))"

definition capability_json :: "capability_reservation \<Rightarrow> json" where
  "capability_json c = JObj
     [(''digest'', JStr (k_digest c)), (''actionId'', JStr (k_actionId c)),
      (''idempotencyKey'', JStr (k_idempotencyKey c)), (''requestHash'', JStr (k_requestHash c)),
      (''network'', JStr (k_network c)), (''contractAddress'', JStr (k_contractAddress c)),
      (''circuit'', JStr (k_circuit c)), (''action'', JStr (action_str (k_action c))),
      (''expiresAt'', JNum (JInt (k_expiresAt c)))]"

definition state_json :: "file_state \<Rightarrow> json" where
  "state_json st = JObj
     [(''version'', JNum (JInt 1)),
      (''jobs'', JObj (map (\<lambda>(k, j). (k, job_json j)) (f_jobs st))),
      (''capabilities'', JObj (map (\<lambda>(k, c). (k, capability_json c)) (f_capabilities st)))]"

definition isDigest :: "json option \<Rightarrow> bool" where
  "isDigest v = (case as_str v of Some s \<Rightarrow> is_hex64 s | None \<Rightarrow> False)"

definition opt_str_ok :: "json option \<Rightarrow> bool" where
  "opt_str_ok v = (v = None \<or> is_str v)"

fun statuses_of :: "json list \<Rightarrow> V2ActionJobStatus list option" where
  "statuses_of [] = Some []"
| "statuses_of (v # vs) = (case (isStatus (Some v), statuses_of vs) of
     (Some s, Some ss) \<Rightarrow> Some (s # ss) | _ \<Rightarrow> None)"

text \<open>The persisted transitions: absent means the current status only.\<close>

fun parse_transitions :: "V2ActionJobStatus \<Rightarrow> json option \<Rightarrow> V2ActionJobStatus list option" where
  "parse_transitions s None = Some [s]"
| "parse_transitions s (Some (JArr vs)) = statuses_of vs"
| "parse_transitions s _ = None"

definition parseJob :: "json \<Rightarrow> (v2_error, job) result" where
  "parseJob v =
     (let invalid = OtherError ''V2 action state contains an invalid job'' in
      if \<not> isRecord v then Inl invalid
      else (case isStatus (fld v ''status'') of
          None \<Rightarrow> Inl invalid
        | Some status \<Rightarrow>
      if \<not> is_str (fld v ''id'') \<or> \<not> is_str (fld v ''idempotencyKey'')
        \<or> \<not> isDigest (fld v ''requestHash'') \<or> \<not> isDigest (fld v ''capabilityDigest'')
        \<or> \<not> isDigest (fld v ''txDigest'') \<or> \<not> is_str (fld v ''network'')
        \<or> \<not> is_str (fld v ''contractAddress'') \<or> \<not> is_str (fld v ''circuit'')
        \<or> isAction (fld v ''action'') = None
        \<or> parse_transitions status (fld v ''transitions'') = None
        \<or> \<not> is_str (fld v ''createdAt'') \<or> \<not> is_str (fld v ''updatedAt'')
        \<or> \<not> opt_str_ok (fld v ''transactionId'') \<or> \<not> opt_str_ok (fld v ''dustReservationId'')
        \<or> \<not> opt_str_ok (fld v ''errorCode'')
      then Inl invalid
      else
        rbind (if truthy (fld v ''receipt'')
               then map_err (\<lambda>_. OtherError ''receipt'')
                 (rbind (sanitizeCanonicalReceipt (the (fld v ''receipt''))) (\<lambda>r. Inr (Some r)))
               else Inr None) (\<lambda>receipt.
        Inr \<lparr> j_id = the (as_str (fld v ''id'')), j_idempotencyKey = the (as_str (fld v ''idempotencyKey'')),
              j_capabilityDigest = the (as_str (fld v ''capabilityDigest'')),
              j_requestHash = the (as_str (fld v ''requestHash'')),
              j_txDigest = the (as_str (fld v ''txDigest'')),
              j_network = the (as_str (fld v ''network'')),
              j_contractAddress = the (as_str (fld v ''contractAddress'')),
              j_circuit = the (as_str (fld v ''circuit'')),
              j_action = the (isAction (fld v ''action'')), j_status = status,
              j_transitions = the (parse_transitions status (fld v ''transitions'')),
              j_dustReservationId = truthy_str (as_str (fld v ''dustReservationId'')),
              j_transactionId = truthy_str (as_str (fld v ''transactionId'')),
              j_receipt = receipt,
              j_errorCode = truthy_str (as_str (fld v ''errorCode'')),
              j_createdAt = the (as_str (fld v ''createdAt'')),
              j_updatedAt = the (as_str (fld v ''updatedAt'')) \<rparr>)))"

definition parseCapability :: "json \<Rightarrow> (v2_error, capability_reservation) result" where
  "parseCapability v =
     (if \<not> isRecord v \<or> \<not> isDigest (fld v ''digest'') \<or> \<not> is_str (fld v ''actionId'')
        \<or> \<not> is_str (fld v ''idempotencyKey'') \<or> \<not> isDigest (fld v ''requestHash'')
        \<or> \<not> is_str (fld v ''network'') \<or> \<not> is_str (fld v ''contractAddress'')
        \<or> \<not> is_str (fld v ''circuit'') \<or> isAction (fld v ''action'') = None
        \<or> safe_int (fld v ''expiresAt'') = None
      then Inl (OtherError ''V2 action capability state is corrupt'')
      else Inr \<lparr> k_digest = the (as_str (fld v ''digest'')), k_actionId = the (as_str (fld v ''actionId'')),
                 k_idempotencyKey = the (as_str (fld v ''idempotencyKey'')),
                 k_requestHash = the (as_str (fld v ''requestHash'')),
                 k_network = the (as_str (fld v ''network'')),
                 k_contractAddress = the (as_str (fld v ''contractAddress'')),
                 k_circuit = the (as_str (fld v ''circuit'')),
                 k_action = the (isAction (fld v ''action'')),
                 k_expiresAt = the (safe_int (fld v ''expiresAt'')) \<rparr>)"

text \<open>A dictionary whose values carry their key, rebuilt entry by entry.\<close>

definition parse_table ::
  "(json \<Rightarrow> (v2_error, 'a) result) \<Rightarrow> ('a \<Rightarrow> string) \<Rightarrow> string \<Rightarrow> json \<Rightarrow> (v2_error, 'a jsmap) result" where
  "parse_table parse key msg v =
     rbind (mapM (\<lambda>(k, x). rbind (parse x) (\<lambda>a. if key a \<noteq> k then Inl (OtherError msg) else Inr (k, a))) (entries v))
       (\<lambda>ps. Inr (fold (\<lambda>(k, a). obj_set k a) ps []))"

definition parseState :: "json \<Rightarrow> (v2_error, file_state) result" where
  "parseState v =
     (if \<not> isRecord v \<or> fld v ''version'' \<noteq> Some (JNum (JInt 1))
        \<or> \<not> (case fld v ''jobs'' of Some x \<Rightarrow> isRecord x | None \<Rightarrow> False)
      then Inl (OtherError ''V2 action state is corrupt or unsupported'')
      else
        rbind (parse_table parseJob j_id ''V2 action state has a mismatched job key'' (the (fld v ''jobs''))) (\<lambda>jobs.
        rbind (case fld v ''capabilities'' of
                 None \<Rightarrow> Inr []
               | Some cs \<Rightarrow> if \<not> isRecord cs then Inl (OtherError ''V2 action capability state is corrupt'')
                   else parse_table parseCapability k_digest ''V2 capability state has a mismatched key'' cs)
          (\<lambda>capabilities. Inr \<lparr> f_jobs = jobs, f_capabilities = capabilities \<rparr>)))"

definition fs_read :: "file_content \<Rightarrow> (v2_error, file_state) result" where
  "fs_read file = (case file of
     Missing \<Rightarrow> Inr emptyState
   | Unparsable \<Rightarrow> Inl (OtherError ''SyntaxError'')
   | Content v \<Rightarrow> parseState v)"

text \<open>\<open>withLock\<close>: read, run, write; nothing is written when the operation throws.\<close>

definition fs_update ::
  "file_content \<Rightarrow> (file_state \<Rightarrow> file_state \<times> (v2_error, 'r) result) \<Rightarrow> file_content \<times> (v2_error, 'r) result" where
  "fs_update file operation = (case fs_read file of
     Inl e \<Rightarrow> (file, Inl e)
   | Inr st \<Rightarrow>
       (case operation st of
          (_, Inl e) \<Rightarrow> (file, Inl e)
        | (st', Inr r) \<Rightarrow> (Content (state_json st'), Inr r)))"

section \<open>Operations\<close>

definition file_createOrGet :: "file_content \<Rightarrow> new_job \<Rightarrow> file_content \<times> (v2_error, job \<times> bool) result" where
  "file_createOrGet file n = fs_update file (\<lambda>st.
     let by_value = find (\<lambda>j. j_idempotencyKey j = n_idempotencyKey n \<or> j_requestHash j = n_requestHash n)
           (map_values (f_jobs st));
         found = (\<lambda>existing. if j_requestHash existing \<noteq> n_requestHash n then (st, Inl V2StoreConflictError)
           else (st, Inr (existing, False)))
     in case obj_get (f_jobs st) (n_id n) of
          Own existing \<Rightarrow> found existing
        | Inherited \<Rightarrow> (st, Inl V2StoreConflictError)
        | Undefined \<Rightarrow>
            (case by_value of
               Some existing \<Rightarrow> found existing
             | None \<Rightarrow>
                 (case new_job_row n of
                    Inl e \<Rightarrow> (st, Inl e)
                  | Inr j \<Rightarrow> (st \<lparr> f_jobs := obj_set (j_id j) j (f_jobs st) \<rparr>, Inr (j, True)))))"

text \<open>Cloning an inherited member throws: it has no \<open>transitions\<close> to spread.\<close>

definition file_get :: "file_content \<Rightarrow> string \<Rightarrow> (v2_error, job option) result" where
  "file_get file i = rbind (fs_read file) (\<lambda>st. case obj_get (f_jobs st) i of
     Own j \<Rightarrow> Inr (Some j)
   | Inherited \<Rightarrow> Inl (OtherError ''TypeError'')
   | Undefined \<Rightarrow> Inr None)"

definition file_getByIdempotencyKey :: "file_content \<Rightarrow> string \<Rightarrow> (v2_error, job option) result" where
  "file_getByIdempotencyKey file key = rbind (fs_read file) (\<lambda>st.
     Inr (find (\<lambda>j. j_idempotencyKey j = key) (map_values (f_jobs st))))"

definition file_consumeCapability ::
  "file_content \<Rightarrow> capability_reservation \<Rightarrow> file_content \<times> (v2_error, bool) result" where
  "file_consumeCapability file c = fs_update file (\<lambda>st.
     case obj_get (f_capabilities st) (k_digest c) of
       Undefined \<Rightarrow> (st \<lparr> f_capabilities := obj_set (k_digest c) c (f_capabilities st) \<rparr>, Inr True)
     | _ \<Rightarrow> (st, Inr False))"

definition file_transition ::
  "string \<Rightarrow> file_content \<Rightarrow> string \<Rightarrow> V2ActionJobStatus list \<Rightarrow> patch \<Rightarrow> file_content \<times> (v2_error, job option) result" where
  "file_transition now file i expected p = fs_update file (\<lambda>st.
     case obj_get (f_jobs st) i of
       Own j \<Rightarrow>
         if j_status j \<notin> set expected then (st, Inr None)
         else (case patch_job now j p of
             Inl e \<Rightarrow> (st, Inl e)
           | Inr j' \<Rightarrow> (st \<lparr> f_jobs := obj_set i j' (f_jobs st) \<rparr>, Inr (Some j')))
     | _ \<Rightarrow> (st, Inr None))"

definition file_reserveDust ::
  "string \<Rightarrow> file_content \<Rightarrow> string \<Rightarrow> string \<Rightarrow> file_content \<times> (v2_error, job option) result" where
  "file_reserveDust now file i reservationId = fs_update file (\<lambda>st.
     let active = list_ex (\<lambda>c. j_id c \<noteq> i \<and> (j_status c = DustReserved \<or> j_status c = Finalized
          \<or> j_status c = Submitted \<or> j_status c = IndexerPending)) (map_values (f_jobs st))
     in case obj_get (f_jobs st) i of
          Own j \<Rightarrow>
            if j_status j \<noteq> Validated \<or> active then (st, Inr None)
            else (let j' = reserve_job now reservationId j
                  in (st \<lparr> f_jobs := obj_set i j' (f_jobs st) \<rparr>, Inr (Some j')))
        | _ \<Rightarrow> (st, Inr None))"

definition file_listRecoverable :: "file_content \<Rightarrow> (v2_error, job list) result" where
  "file_listRecoverable file = rbind (fs_read file) (\<lambda>st.
     Inr (filter (\<lambda>j. j_status j \<in> set recoverableStatuses) (map_values (f_jobs st))))"

definition file_store :: "file_content v2_store" where
  "file_store = \<lparr> createOrGet = file_createOrGet, getJob = file_get,
     getByIdempotencyKey = file_getByIdempotencyKey, consumeCapability = file_consumeCapability,
     transition = file_transition, reserveDust = file_reserveDust, listRecoverable = file_listRecoverable \<rparr>"

section \<open>Round trip of the state file\<close>

definition storable_job :: "job \<Rightarrow> bool" where
  "storable_job j = (is_hex64 (j_requestHash j) \<and> is_hex64 (j_capabilityDigest j) \<and> is_hex64 (j_txDigest j)
     \<and> j_dustReservationId j \<noteq> Some [] \<and> j_transactionId j \<noteq> Some [] \<and> j_errorCode j \<noteq> Some []
     \<and> (\<forall>r. j_receipt j = Some r \<longrightarrow> wf_receipt r))"

definition storable :: "file_state \<Rightarrow> bool" where
  "storable st = (keys_ok j_id (f_jobs st) \<and> obj_ordered (f_jobs st)
     \<and> (\<forall>j \<in> set (map_values (f_jobs st)). storable_job j)
     \<and> keys_ok k_digest (f_capabilities st) \<and> obj_ordered (f_capabilities st)
     \<and> (\<forall>c \<in> set (map_values (f_capabilities st)). wf_reservation c))"

lemma statuses_of_map [simp]: "statuses_of (map (\<lambda>s. JStr (status_str s)) ss) = Some ss"
  by (induction ss) auto

lemma isDigest_JStr [simp]: "isDigest (Some (JStr s)) = is_hex64 s"
  by (simp add: isDigest_def)

lemma opt_str_ok_map [simp]: "opt_str_ok (map_option JStr v)"
  by (cases v) (auto simp: opt_str_ok_def)

lemma as_str_map [simp]: "as_str (map_option JStr v) = v"
  by (cases v) auto

lemma truthy_receipt_json [simp]: "truthy (Some (receipt_json r))"
  by (simp add: receipt_json_def)

lemma truthy_map_receipt [simp]: "truthy (map_option receipt_json v) \<longleftrightarrow> v \<noteq> None"
  by (cases v) simp_all

lemma job_json_fld:
  "isRecord (job_json j)"
  "fld (job_json j) ''id'' = Some (JStr (j_id j))"
  "fld (job_json j) ''idempotencyKey'' = Some (JStr (j_idempotencyKey j))"
  "fld (job_json j) ''capabilityDigest'' = Some (JStr (j_capabilityDigest j))"
  "fld (job_json j) ''requestHash'' = Some (JStr (j_requestHash j))"
  "fld (job_json j) ''txDigest'' = Some (JStr (j_txDigest j))"
  "fld (job_json j) ''network'' = Some (JStr (j_network j))"
  "fld (job_json j) ''contractAddress'' = Some (JStr (j_contractAddress j))"
  "fld (job_json j) ''circuit'' = Some (JStr (j_circuit j))"
  "fld (job_json j) ''action'' = Some (JStr (action_str (j_action j)))"
  "fld (job_json j) ''status'' = Some (JStr (status_str (j_status j)))"
  "fld (job_json j) ''transitions'' = Some (JArr (map (\<lambda>s. JStr (status_str s)) (j_transitions j)))"
  "fld (job_json j) ''createdAt'' = Some (JStr (j_createdAt j))"
  "fld (job_json j) ''updatedAt'' = Some (JStr (j_updatedAt j))"
  "fld (job_json j) ''dustReservationId'' = map_option JStr (j_dustReservationId j)"
  "fld (job_json j) ''transactionId'' = map_option JStr (j_transactionId j)"
  "fld (job_json j) ''receipt'' = map_option receipt_json (j_receipt j)"
  "fld (job_json j) ''errorCode'' = map_option JStr (j_errorCode j)"
  by (simp_all add: job_json_def map_add_def split: option.splits)

lemma truthy_str_nonempty: "v \<noteq> Some [] \<Longrightarrow> truthy_str v = v"
  by (cases v) auto

lemma parse_job_json: "storable_job j \<Longrightarrow> parseJob (job_json j) = Inr j"
  by (cases "j_receipt j")
     (simp_all add: parseJob_def job_json_fld storable_job_def Let_def truthy_str_nonempty
        sanitize_receipt_json)

lemma parse_capability_json: "wf_reservation c \<Longrightarrow> parseCapability (capability_json c) = Inr c"
  by (simp add: parseCapability_def capability_json_def wf_reservation_def)

lemma parse_table_json:
  assumes "keys_ok key m" "obj_ordered m" "\<And>a. a \<in> set (map_values m) \<Longrightarrow> parse (pr a) = Inr a"
  shows "parse_table parse key msg (JObj (map (\<lambda>(k, a). (k, pr a)) m)) = Inr m"
proof -
  have "mapM (\<lambda>(k, x). rbind (parse x) (\<lambda>a. if key a \<noteq> k then Inl (OtherError msg) else Inr (k, a)))
      (map (\<lambda>(k, a). (k, pr a)) m) = Inr (map (\<lambda>x. x) m)"
    by (rule mapM_Inr_map) (use assms(1,3) in \<open>force simp: keys_ok_def\<close>)
  then show ?thesis
    using obj_ordered_rebuild [of "[]" m] assms(1,2) by (simp add: parse_table_def keys_ok_def)
qed

lemma parse_state_json:
  assumes "storable st" shows "parseState (state_json st) = Inr st"
proof -
  have "parse_table parseJob j_id msg (JObj (map (\<lambda>(k, j). (k, job_json j)) (f_jobs st))) = Inr (f_jobs st)" for msg
    using assms by (intro parse_table_json) (auto simp: storable_def parse_job_json)
  moreover have "parse_table parseCapability k_digest msg
      (JObj (map (\<lambda>(k, c). (k, capability_json c)) (f_capabilities st))) = Inr (f_capabilities st)" for msg
    using assms by (intro parse_table_json) (auto simp: storable_def parse_capability_json)
  ultimately show ?thesis by (simp add: parseState_def state_json_def)
qed

lemma fs_read_written [simp]: "storable st \<Longrightarrow> fs_read (Content (state_json st)) = Inr st"
  by (simp add: fs_read_def parse_state_json)

section \<open>The file adapter is a journal\<close>

definition file_inv :: "file_content \<Rightarrow> bool" where
  "file_inv file = (case fs_read file of
     Inl e \<Rightarrow> False
   | Inr st \<Rightarrow> storable st \<and> table_ok (map_of (f_jobs st)))"

definition file_lookup :: "file_content \<Rightarrow> string \<Rightarrow> job option" where
  "file_lookup file = (case fs_read file of Inl e \<Rightarrow> Map.empty | Inr st \<Rightarrow> map_of (f_jobs st))"

definition file_spent :: "file_content \<Rightarrow> string set" where
  "file_spent file = (case fs_read file of Inl e \<Rightarrow> {} | Inr st \<Rightarrow> dom (map_of (f_capabilities st)))"

definition file_key_ok :: "string \<Rightarrow> bool" where
  "file_key_ok i = (i \<notin> set proto_names)"

lemma file_invE:
  assumes "file_inv file"
  obtains st where "fs_read file = Inr st" "storable st" "table_ok (map_of (f_jobs st))"
    "file_lookup file = map_of (f_jobs st)" "file_spent file = dom (map_of (f_capabilities st))"
    "keys_ok j_id (f_jobs st)"
  using assms that by (auto simp: file_inv_def file_lookup_def file_spent_def storable_def split: sum.splits)

lemma written_inv:
  assumes "storable st" "table_ok (map_of (f_jobs st))"
  shows "file_inv (Content (state_json st))" "file_lookup (Content (state_json st)) = map_of (f_jobs st)"
    "file_spent (Content (state_json st)) = dom (map_of (f_capabilities st))"
  using assms by (simp_all add: file_inv_def file_lookup_def file_spent_def)

lemma storable_set_job:
  assumes "storable st" "storable_job j" "j_id j = i"
  shows "storable (st \<lparr> f_jobs := obj_set i j (f_jobs st) \<rparr>)"
proof -
  have ok: "keys_ok j_id (f_jobs st)" using assms(1) by (simp add: storable_def)
  have ok': "keys_ok j_id (obj_set i j (f_jobs st))" by (rule keys_ok_obj_set [OF ok assms(3)])
  have "\<forall>x \<in> set (map_values (obj_set i j (f_jobs st))). storable_job x"
    using assms(1,2) unfolding storable_def keys_ok_ball [OF ok] keys_ok_ball [OF ok'] by simp
  then show ?thesis using assms(1) ok' by (simp add: storable_def obj_ordered_set)
qed

lemma storable_set_capability:
  assumes "storable st" "wf_reservation c"
  shows "storable (st \<lparr> f_capabilities := obj_set (k_digest c) c (f_capabilities st) \<rparr>)"
proof -
  have ok: "keys_ok k_digest (f_capabilities st)" using assms(1) by (simp add: storable_def)
  have ok': "keys_ok k_digest (obj_set (k_digest c) c (f_capabilities st))"
    by (rule keys_ok_obj_set [OF ok refl])
  have "\<forall>x \<in> set (map_values (obj_set (k_digest c) c (f_capabilities st))). wf_reservation x"
    using assms unfolding storable_def keys_ok_ball [OF ok] keys_ok_ball [OF ok'] by simp
  then show ?thesis using assms(1) ok' by (simp add: storable_def obj_ordered_set)
qed

lemma storable_job_of: "storable st \<Longrightarrow> map_of (f_jobs st) i = Some j \<Longrightarrow> storable_job j"
proof -
  assume "storable st" and j: "map_of (f_jobs st) i = Some j"
  then have "\<forall>x \<in> set (map_values (f_jobs st)). storable_job x" "j \<in> set (map_values (f_jobs st))"
    using map_of_SomeD [OF j] by (force simp: storable_def)+
  then show ?thesis by blast
qed

lemma storable_build: "wf_new n \<Longrightarrow> storable_job (build_job n)"
  by (simp add: storable_job_def build_job_def wf_new_def)

lemma storable_patched:
  assumes "storable_job j" "patched s p j j'" "wf_patch p" "\<And>r. j_receipt j' = Some r \<Longrightarrow> wf_receipt r"
  shows "storable_job j'"
  using assms unfolding storable_job_def patched_def same_identity_def wf_patch_def
  by (cases "p_transactionId p"; cases "p_errorCode p") auto

lemma storable_reserve: "storable_job j \<Longrightarrow> rid \<noteq> [] \<Longrightarrow> storable_job (reserve_job now rid j)"
  by (simp add: storable_job_def reserve_job_def)

lemma obj_get_cases:
  "obj_get m k = (case map_of m k of Some v \<Rightarrow> Own v
     | None \<Rightarrow> if file_key_ok k then Undefined else Inherited)"
  by (simp add: obj_get_def file_key_ok_def)

lemma file_create_law:
  assumes "file_inv file" "wf_new n" "file_createOrGet file n = (file', r)"
  shows "file_inv file' \<and> file_spent file' = file_spent file \<and>
      (case r of Inl e \<Rightarrow> file_lookup file' = file_lookup file
       | Inr (j, c) \<Rightarrow> if c
           then file_lookup file (n_id n) = None \<and> created_from n j \<and> file_lookup file' = (file_lookup file)(n_id n \<mapsto> j)
           else file_lookup file' = file_lookup file \<and> file_lookup file (j_id j) = Some j
             \<and> j_requestHash j = n_requestHash n)"
proof -
  obtain st where st: "fs_read file = Inr st" "storable st" "table_ok (map_of (f_jobs st))"
    "file_lookup file = map_of (f_jobs st)" "file_spent file = dom (map_of (f_capabilities st))"
    "keys_ok j_id (f_jobs st)" by (rule file_invE [OF assms(1)])
  let ?ex = "or_else (map_of (f_jobs st) (n_id n)) (find (\<lambda>j. j_idempotencyKey j = n_idempotencyKey n
           \<or> j_requestHash j = n_requestHash n) (map_values (f_jobs st)))"
  show ?thesis
  proof (cases "map_of (f_jobs st) (n_id n) = None \<and> \<not> file_key_ok (n_id n)")
    case True
    then show ?thesis
      using assms(1,3) st by (auto simp: file_createOrGet_def fs_update_def obj_get_cases Let_def)
  next
    case key: False
    show ?thesis
    proof (cases ?ex)
      case None
      note free = no_existing_job [OF st(6), of n, unfolded None, simplified]
      have "table_ok ((map_of (f_jobs st))(j_id (build_job n) \<mapsto> build_job n))"
        using free by (intro table_ok_insert st(3)) auto
      moreover have "storable (st \<lparr> f_jobs := obj_set (n_id n) (build_job n) (f_jobs st) \<rparr>)"
        using st(2) assms(2) by (intro storable_set_job) (auto simp: storable_build)
      ultimately show ?thesis
        using assms(2,3) key None free st
        by (auto simp: file_createOrGet_def fs_update_def obj_get_cases Let_def written_inv build_job_created)
    next
      case (Some e)
      then show ?thesis
        using assms(1,3) key st existing_job [OF st(6) Some]
        by (auto simp: file_createOrGet_def fs_update_def obj_get_cases Let_def written_inv
            split: option.splits if_splits)
    qed
  qed
qed

lemma file_transition_law:
  assumes "file_inv file" "wf_patch p" "file_transition now file i ex p = (file', r)"
  shows "file_inv file' \<and> file_spent file' = file_spent file \<and>
      (case file_lookup file i of
         Some j \<Rightarrow> if j_status j \<in> set ex
           then \<exists>j'. r = Inr (Some j') \<and> patched (the (p_status p)) p j j'
             \<and> file_lookup file' = (file_lookup file)(i \<mapsto> j')
           else r = Inr None \<and> file_lookup file' = file_lookup file
       | None \<Rightarrow> r = Inr None \<and> file_lookup file' = file_lookup file)"
proof -
  obtain st where st: "fs_read file = Inr st" "storable st" "table_ok (map_of (f_jobs st))"
    "file_lookup file = map_of (f_jobs st)" "file_spent file = dom (map_of (f_capabilities st))"
    "keys_ok j_id (f_jobs st)" by (rule file_invE [OF assms(1)])
  show ?thesis
  proof (cases "\<exists>j. map_of (f_jobs st) i = Some j \<and> j_status j \<in> set ex")
    case True
    then obtain j where j: "map_of (f_jobs st) i = Some j" "j_status j \<in> set ex" by auto
    note sj = storable_job_of [OF st(2) j(1)]
    then have "\<And>r. j_receipt j = Some r \<Longrightarrow> wf_receipt r" by (simp add: storable_job_def)
    then obtain j' where j': "patch_job now j p = Inr j'" "patched (the (p_status p)) p j j'"
      "\<And>r. j_receipt j' = Some r \<Longrightarrow> wf_receipt r"
      using patch_job_wf [OF assms(2)] by metis
    have id: "same_identity j j'" "j_id j' = i"
      using j'(2) keys_ok_key [OF st(6) j(1)] by (auto simp: patched_def same_identity_def)
    have "storable (st \<lparr> f_jobs := obj_set i j' (f_jobs st) \<rparr>)"
      by (rule storable_set_job [OF st(2) storable_patched [OF sj j'(2) assms(2) j'(3)] id(2)])
    moreover have "table_ok ((map_of (f_jobs st))(i \<mapsto> j'))"
      by (rule table_ok_update [OF st(3) j(1) id(1) j'(3)])
    ultimately show ?thesis
      using assms(3) j j' st by (auto simp: file_transition_def fs_update_def obj_get_cases written_inv)
  next
    case False
    then show ?thesis
      using assms(3) st
      by (auto simp: file_transition_def fs_update_def obj_get_cases written_inv split: option.splits if_splits)
  qed
qed

lemma file_reserve_law:
  assumes "file_inv file" "rid \<noteq> []" "file_reserveDust now file i rid = (file', r)"
  shows "file_inv file' \<and> file_spent file' = file_spent file \<and>
      (if \<exists>j. file_lookup file i = Some j \<and> j_status j = Validated \<and> \<not> leased (file_lookup file)
       then \<exists>j'. r = Inr (Some j') \<and> reserved rid (the (file_lookup file i)) j'
         \<and> file_lookup file' = (file_lookup file)(i \<mapsto> j')
       else r = Inr None \<and> file_lookup file' = file_lookup file)"
proof -
  obtain st where st: "fs_read file = Inr st" "storable st" "table_ok (map_of (f_jobs st))"
    "file_lookup file = map_of (f_jobs st)" "file_spent file = dom (map_of (f_capabilities st))"
    "keys_ok j_id (f_jobs st)" by (rule file_invE [OF assms(1)])
  show ?thesis
  proof (cases "\<exists>j. map_of (f_jobs st) i = Some j \<and> j_status j = Validated")
    case True
    then obtain j where j: "map_of (f_jobs st) i = Some j" "j_status j = Validated" by auto
    let ?j = "reserve_job now rid j"
    have id: "same_identity j ?j" "j_id ?j = i"
      using keys_ok_key [OF st(6) j(1)] by (auto simp: reserve_job_def same_identity_def)
    note sj = storable_job_of [OF st(2) j(1)]
    have "storable (st \<lparr> f_jobs := obj_set i ?j (f_jobs st) \<rparr>)"
      by (rule storable_set_job [OF st(2) storable_reserve [OF sj assms(2)] id(2)])
    moreover have "table_ok ((map_of (f_jobs st))(i \<mapsto> ?j))"
      using sj by (intro table_ok_update [OF st(3) j(1) id(1)]) (simp add: storable_job_def)
    ultimately show ?thesis
      using assms(3) j st
      by (auto simp: file_reserveDust_def fs_update_def obj_get_cases active_iff_leased [OF st(6) j]
          written_inv reserve_job_reserved Let_def split: if_splits)
  next
    case False
    then show ?thesis
      using assms(3) st
      by (auto simp: file_reserveDust_def fs_update_def obj_get_cases written_inv Let_def
          split: option.splits if_splits)
  qed
qed

lemma hex64_key_ok: "is_hex64 k \<Longrightarrow> file_key_ok k"
  by (auto simp: is_hex64_def file_key_ok_def proto_names_def)

lemma file_consume_law:
  assumes "file_inv file" "wf_reservation c" "file_consumeCapability file c = (file', b)"
  shows "file_inv file' \<and> file_lookup file' = file_lookup file \<and> b = Inr (k_digest c \<notin> file_spent file)
    \<and> file_spent file' = insert (k_digest c) (file_spent file)"
proof -
  obtain st where st: "fs_read file = Inr st" "storable st" "table_ok (map_of (f_jobs st))"
    "file_lookup file = map_of (f_jobs st)" "file_spent file = dom (map_of (f_capabilities st))"
    by (rule file_invE [OF assms(1)])
  have "file_key_ok (k_digest c)" using assms(2) by (simp add: wf_reservation_def hex64_key_ok)
  moreover have "table_ok (map_of (f_jobs (st \<lparr> f_capabilities := x \<rparr>)))" for x using st(3) by simp
  ultimately show ?thesis
    using assms(3) st storable_set_capability [OF st(2) assms(2)]
    by (auto simp: file_consumeCapability_def fs_update_def obj_get_cases written_inv split: option.splits)
qed

lemma file_by_key_law:
  assumes "file_inv file"
  shows "\<exists>r. file_getByIdempotencyKey file k = Inr r \<and>
      (case r of Some j \<Rightarrow> file_lookup file (j_id j) = Some j \<and> j_idempotencyKey j = k
       | None \<Rightarrow> \<forall>i j. file_lookup file i = Some j \<longrightarrow> j_idempotencyKey j \<noteq> k)"
proof -
  obtain st where st: "fs_read file = Inr st" "table_ok (map_of (f_jobs st))"
    "file_lookup file = map_of (f_jobs st)" "keys_ok j_id (f_jobs st)" by (rule file_invE [OF assms])
  then show ?thesis
    using mem_by_key_law [of "\<lparr> m_jobs = f_jobs st, m_capabilities = [] \<rparr>" k]
    by (simp add: file_getByIdempotencyKey_def mem_getByIdempotencyKey_def mem_inv_def mem_lookup_def
        split: option.splits)
qed

lemma file_list_law:
  assumes "file_inv file"
  shows "\<exists>js. file_listRecoverable file = Inr js \<and>
      set js = {j. \<exists>i. file_lookup file i = Some j \<and> j_status j \<in> set recoverableStatuses}"
proof -
  obtain st where st: "fs_read file = Inr st" "table_ok (map_of (f_jobs st))"
    "file_lookup file = map_of (f_jobs st)" "keys_ok j_id (f_jobs st)" by (rule file_invE [OF assms])
  then show ?thesis
    using mem_list_law [of "\<lparr> m_jobs = f_jobs st, m_capabilities = [] \<rparr>"]
    by (simp add: file_listRecoverable_def mem_listRecoverable_def mem_inv_def mem_lookup_def)
qed

interpretation fstore: action_store file_store file_inv file_lookup file_spent file_key_ok Missing
proof (unfold_locales, goal_cases)
  case 1
  show ?case by (simp add: file_inv_def fs_read_def emptyState_def storable_def obj_ordered_def)
next
  case 2
  show ?case by (simp add: file_lookup_def fs_read_def emptyState_def)
next
  case 3
  show ?case by (simp add: file_spent_def fs_read_def emptyState_def)
next
  case (4 s i j)
  then show ?case by (auto elim!: file_invE intro: keys_ok_key)
next
  case (5 s i j i' j')
  obtain st where "fs_read s = Inr st" "table_ok (map_of (f_jobs st))" "file_lookup s = map_of (f_jobs st)"
    by (rule file_invE [OF 5(1)])
  then show ?case using 5 unfolding table_ok_def unique_jobs_def by metis
next
  case (6 s i)
  then show ?case
    by (auto simp: file_store_def file_get_def obj_get_cases elim!: file_invE split: option.splits)
next
  case (7 s k)
  then show ?case using file_by_key_law by (simp add: file_store_def)
next
  case (8 s)
  then show ?case using file_list_law by (simp add: file_store_def)
next
  case (9 s n s' r)
  then show ?case using file_create_law [of s n s' r] by (simp add: file_store_def)
next
  case (10 s n)
  obtain st where st: "fs_read s = Inr st" "file_lookup s = map_of (f_jobs st)" "keys_ok j_id (f_jobs st)"
    by (rule file_invE [OF 10(1)])
  then have "or_else (map_of (f_jobs st) (n_id n)) (find (\<lambda>j. j_idempotencyKey j = n_idempotencyKey n
       \<or> j_requestHash j = n_requestHash n) (map_values (f_jobs st))) = None"
    using 10 by (subst no_existing_job) auto
  then show ?case using 10 st
    by (auto simp: file_store_def file_createOrGet_def fs_update_def obj_get_cases Let_def)
next
  case (11 s c s' b)
  then show ?case using file_consume_law [of s c s' b] by (simp add: file_store_def)
next
  case (12 s p now i ex s' m)
  then show ?case using file_transition_law [of s p now i ex s' m] by (simp add: file_store_def)
next
  case (13 s rid now i s' m)
  then show ?case using file_reserve_law [of s rid now i s' m] by (simp add: file_store_def)
next
  case (14 s n j)
  obtain st where "fs_read s = Inr st" "storable st" "table_ok (map_of (f_jobs st))"
    "file_lookup s = map_of (f_jobs st)" by (rule file_invE [OF 14(1)])
  then show ?case using 14 by (auto simp: file_store_def file_createOrGet_def fs_update_def obj_get_cases Let_def)
qed

section \<open>Properties\<close>

lemma named_keys_ordered: "\<forall>k \<in> set (map fst m). \<not> is_index_key k \<Longrightarrow> obj_ordered m"
  by (induction m) (simp_all add: obj_ordered_def key_before_def)

lemma fst_opt_prop: "fst ` set (opt_prop k f x) = (if x = None then {} else {k})" "distinct (map fst (opt_prop k f x))"
  by (cases x; simp)+

lemma opt_prop_wf: "(\<And>v. wf_json (f v)) \<Longrightarrow> list_all (\<lambda>(k, v). wf_json v) (opt_prop k f x)"
  by (cases x) simp_all

lemma job_keys:
  "distinct (map fst (entries (job_json j)))" "\<forall>k \<in> set (map fst (entries (job_json j))). \<not> is_index_key k"
  by (simp add: job_json_def fst_opt_prop)
     (simp add: job_json_def fst_opt_prop is_index_key_def is_digit_def)

lemma job_json_wf: "wf_json (job_json j)"
  using job_keys [of j] named_keys_ordered [OF job_keys(2) [of j]]
  by (simp add: job_json_def opt_prop_wf receipt_json_wf list_all_iff [of wf_json] del: opt_prop.simps)

lemma capability_json_wf: "wf_json (capability_json c)"
  by (simp add: capability_json_def obj_ordered_def key_before_def is_index_key_def is_digit_def)

lemma table_json_wf:
  "keys_ok key m \<Longrightarrow> obj_ordered m \<Longrightarrow> (\<And>a. wf_json (pr a)) \<Longrightarrow> wf_json (JObj (map (\<lambda>(k, a). (k, pr a)) m))"
  by (auto simp: keys_ok_def obj_ordered_def list_all_iff comp_def case_prod_unfold)

lemma state_json_wf: "storable st \<Longrightarrow> wf_json (state_json st)"
  using table_json_wf [of j_id "f_jobs st" job_json] table_json_wf [of k_digest "f_capabilities st" capability_json]
    job_json_wf capability_json_wf
  by (simp add: state_json_def storable_def) (simp add: obj_ordered_def key_before_def is_index_key_def is_digit_def)

text \<open>
  A state the relay can hold survives the state file: the text that
  \<open>JSON.stringify\<close> writes parses back to the value written, and the guarded read
  rebuilds every job and every consumed capability from it, in order.
\<close>

theorem state_file_roundtrip:
  assumes "storable st"
  shows "json_parse (stringify (state_json st)) = Some (state_json st) \<and> fs_read (Content (state_json st)) = Inr st"
  using assms by (simp add: parse_stringify state_json_wf)

definition sample_state :: file_state where
  "sample_state = \<lparr> f_jobs = [], f_capabilities = [(replicate 64 (CHR ''a''),
     \<lparr> k_digest = replicate 64 (CHR ''a''), k_actionId = ''a1'', k_idempotencyKey = ''k1'',
       k_requestHash = replicate 64 (CHR ''b''), k_network = ''preview'', k_contractAddress = ''c1'',
       k_circuit = ''castVote'', k_action = Vote, k_expiresAt = 7 \<rparr>)] \<rparr>"

lemma sample_state_storable: "storable sample_state"
proof -
  have "is_hex64 (replicate 64 (CHR ''a''))" "is_hex64 (replicate 64 (CHR ''b''))" by code_simp+
  then show ?thesis
    by (simp add: storable_def sample_state_def keys_ok_def obj_ordered_def wf_reservation_def max_safe_def)
qed

theorem state_file_roundtrip_witness:
  "fs_read (Content (state_json sample_state)) = Inr sample_state"
  using state_file_roundtrip [OF sample_state_storable] by simp

text \<open>
  On the file adapter an action whose id is the name of a member of
  \<open>Object.prototype\<close> can never be journalled: creating it conflicts although no job
  has that id, and reading it throws, while the in-memory adapter creates it.
\<close>

theorem file_store_inherited_ids:
  assumes "file_inv f" "n_id n \<in> set proto_names" "file_lookup f (n_id n) = None"
  shows "file_createOrGet f n = (f, Inl V2StoreConflictError) \<and> file_get f (n_id n) = Inl (OtherError ''TypeError'')
    \<and> (wf_new n \<longrightarrow> (\<exists>m j. mem_createOrGet mem_empty n = (m, Inr (j, True))))"
proof -
  obtain st where st: "fs_read f = Inr st" "file_lookup f = map_of (f_jobs st)" by (rule file_invE [OF assms(1)])
  then have "obj_get (f_jobs st) (n_id n) = Inherited" using assms(2,3) by (simp add: obj_get_def)
  moreover have "\<exists>m j. mem_createOrGet mem_empty n = (m, Inr (j, True))" if "wf_new n"
    using mem.create_fresh [OF mem.empty_law(1) that] by (simp add: mem.empty_law mem_store_def)
  ultimately show ?thesis using st by (simp add: file_createOrGet_def file_get_def fs_update_def Let_def)
qed

definition sample_new :: new_job where
  "sample_new = \<lparr> n_id = ''constructor'', n_actionId = ''constructor'', n_idempotencyKey = ''k1'',
     n_capabilityDigest = replicate 64 (CHR ''a''), n_requestHash = replicate 64 (CHR ''a''),
     n_txDigest = replicate 64 (CHR ''a''), n_network = ''preview'', n_contractAddress = ''c1'',
     n_circuit = ''castVote'', n_action = Vote, n_now = ''now'' \<rparr>"

theorem file_store_inherited_ids_witness:
  "file_createOrGet Missing sample_new = (Missing, Inl V2StoreConflictError)"
  using file_store_inherited_ids [of Missing sample_new] fstore.empty_law
  by (simp add: sample_new_def proto_names_def)

end
