(* ===== verification/V2_Postgres.thy ===== *)
theory V2_Postgres
  imports V2_Store
begin

text \<open>
  The PostgreSQL adapter (\<open>relayer/src/v2-postgres.ts\<close>): the two tables of its
  schema with their unique constraints, and each method as the statements of its
  transaction. A table of jobs is keyed by its primary key; where SQL leaves the
  order of rows open, the model takes the order of the table. The conversion of a
  timestamp text to \<open>timestamptz\<close> (milliseconds) is the argument \<open>tz\<close>.
\<close>

section \<open>Schema\<close>

record pg_row =
  w_id :: string
  w_idempotency_key :: string
  w_request_hash :: string
  w_capability_digest :: string
  w_tx_digest :: string
  w_network :: string
  w_contract_address :: string
  w_circuit :: string
  w_action :: CivicActionKind
  w_status :: V2ActionJobStatus
  w_transitions :: json
  w_dust_reservation_id :: "string option"
  w_transaction_id :: "string option"
  w_receipt :: "json option"
  w_error_code :: "string option"
  w_created_at :: int
  w_updated_at :: int

record pg_state =
  pg_jobs :: "pg_row jsmap"
  pg_capabilities :: "capability_reservation jsmap"

text \<open>A value of a \<open>char(64)\<close> column: longer values are refused, shorter ones blank-padded.\<close>

definition char64 :: "string \<Rightarrow> (v2_error, string) result" where
  "char64 v = (if length v > 64 then Inl (OtherError ''value too long for type character(64)'')
     else Inr (v @ replicate (64 - length v) (CHR '' '')))"

definition status_json :: "V2ActionJobStatus \<Rightarrow> json" where
  "status_json s = JStr (status_str s)"

text \<open>\<open>transitions || jsonb_build_array(status)\<close>\<close>

fun append_transition :: "json \<Rightarrow> V2ActionJobStatus \<Rightarrow> json" where
  "append_transition (JArr vs) s = JArr (vs @ [status_json s])"
| "append_transition v s = JArr [v, status_json s]"

section \<open>Rows to jobs\<close>

definition pg_parseTransitions :: "json \<Rightarrow> V2ActionJobStatus \<Rightarrow> V2ActionJobStatus list" where
  "pg_parseTransitions v fallback = (case v of
     JArr vs \<Rightarrow> (let ts = List.map_filter (\<lambda>x. isStatus (Some x)) vs in if ts \<noteq> [] then ts else [fallback])
   | _ \<Rightarrow> [fallback])"

definition rowToJob :: "pg_row \<Rightarrow> (v2_error, job) result" where
  "rowToJob w =
     rbind (if truthy (w_receipt w)
            then map_err (\<lambda>_. OtherError ''receipt'')
              (rbind (sanitizeCanonicalReceipt (the (w_receipt w))) (\<lambda>r. Inr (Some r)))
            else Inr None) (\<lambda>receipt.
     Inr \<lparr> j_id = w_id w, j_idempotencyKey = w_idempotency_key w,
           j_capabilityDigest = w_capability_digest w, j_requestHash = w_request_hash w,
           j_txDigest = w_tx_digest w, j_network = w_network w,
           j_contractAddress = w_contract_address w, j_circuit = w_circuit w,
           j_action = w_action w, j_status = w_status w,
           j_transitions = pg_parseTransitions (w_transitions w) (w_status w),
           j_dustReservationId = truthy_str (w_dust_reservation_id w),
           j_transactionId = truthy_str (w_transaction_id w),
           j_receipt = receipt, j_errorCode = truthy_str (w_error_code w),
           j_createdAt = toISOString (w_created_at w), j_updatedAt = toISOString (w_updated_at w) \<rparr>)"

text \<open>Run a transaction's body; an error rolls it back.\<close>

definition pg_transaction ::
  "pg_state \<Rightarrow> (v2_error, pg_state \<times> 'r) result \<Rightarrow> pg_state \<times> (v2_error, 'r) result" where
  "pg_transaction st body = (case body of Inl e \<Rightarrow> (st, Inl e) | Inr (st', r) \<Rightarrow> (st', Inr r))"

section \<open>Operations\<close>

definition pg_insert_row :: "(string \<Rightarrow> int) \<Rightarrow> new_job \<Rightarrow> (v2_error, pg_row) result" where
  "pg_insert_row tz n =
     rbind (char64 (n_requestHash n)) (\<lambda>request_hash.
     rbind (char64 (n_capabilityDigest n)) (\<lambda>capability_digest.
     rbind (char64 (n_txDigest n)) (\<lambda>tx_digest.
     Inr \<lparr> w_id = n_id n, w_idempotency_key = n_idempotencyKey n, w_request_hash = request_hash,
           w_capability_digest = capability_digest, w_tx_digest = tx_digest, w_network = n_network n,
           w_contract_address = n_contractAddress n, w_circuit = n_circuit n, w_action = n_action n,
           w_status = Authorized, w_transitions = JArr [status_json Authorized],
           w_dust_reservation_id = None, w_transaction_id = None, w_receipt = None, w_error_code = None,
           w_created_at = tz (n_now n), w_updated_at = tz (n_now n) \<rparr>)))"

text \<open>The unique constraints an inserted row may violate, which are also the \<open>WHERE\<close> of the lookup.\<close>

definition row_clash :: "pg_row \<Rightarrow> pg_row \<Rightarrow> bool" where
  "row_clash w w' = (w_id w' = w_id w \<or> w_idempotency_key w' = w_idempotency_key w
     \<or> w_request_hash w' = w_request_hash w \<or> w_capability_digest w' = w_capability_digest w)"

definition pg_createOrGet ::
  "(string \<Rightarrow> int) \<Rightarrow> pg_state \<Rightarrow> new_job \<Rightarrow> pg_state \<times> (v2_error, job \<times> bool) result" where
  "pg_createOrGet tz st n = pg_transaction st
     (rbind (pg_insert_row tz n) (\<lambda>w.
      let rows = filter (row_clash w) (map_values (pg_jobs st))
      in if rows = []
         then rbind (rowToJob w) (\<lambda>job.
                Inr (st \<lparr> pg_jobs := map_set (w_id w) w (pg_jobs st) \<rparr>, (job, True)))
         else case filter (\<lambda>v. w_idempotency_key v = w_idempotency_key w) rows
                   @ filter (\<lambda>v. w_idempotency_key v \<noteq> w_idempotency_key w) rows of
             [] \<Rightarrow> Inl V2StoreConflictError
           | existing # _ \<Rightarrow>
               rbind (rowToJob existing) (\<lambda>job.
               if j_requestHash job \<noteq> n_requestHash n then Inl V2StoreConflictError
               else Inr (st, (job, False)))))"

definition pg_get :: "pg_state \<Rightarrow> string \<Rightarrow> (v2_error, job option) result" where
  "pg_get st i = (case map_of (pg_jobs st) i of
     None \<Rightarrow> Inr None
   | Some w \<Rightarrow> rbind (rowToJob w) (\<lambda>j. Inr (Some j)))"

definition pg_getByIdempotencyKey :: "pg_state \<Rightarrow> string \<Rightarrow> (v2_error, job option) result" where
  "pg_getByIdempotencyKey st key = (case find (\<lambda>w. w_idempotency_key w = key) (map_values (pg_jobs st)) of
     None \<Rightarrow> Inr None
   | Some w \<Rightarrow> rbind (rowToJob w) (\<lambda>j. Inr (Some j)))"

definition pg_consumeCapability ::
  "pg_state \<Rightarrow> capability_reservation \<Rightarrow> pg_state \<times> (v2_error, bool) result" where
  "pg_consumeCapability st c = pg_transaction st
     (rbind (char64 (k_digest c)) (\<lambda>digest.
      rbind (char64 (k_requestHash c)) (\<lambda>_.
      case map_of (pg_capabilities st) digest of
        Some _ \<Rightarrow> Inr (st, False)
      | None \<Rightarrow> Inr (st \<lparr> pg_capabilities := map_set digest c (pg_capabilities st) \<rparr>, True))))"

text \<open>Another row already holds the reservation id: the \<open>UNIQUE\<close> constraint fails.\<close>

definition dust_id_taken :: "pg_state \<Rightarrow> string \<Rightarrow> string \<Rightarrow> bool" where
  "dust_id_taken st i rid =
     list_ex (\<lambda>w. w_id w \<noteq> i \<and> w_dust_reservation_id w = Some rid) (map_values (pg_jobs st))"

definition pg_transition ::
  "(string \<Rightarrow> int) \<Rightarrow> string \<Rightarrow> pg_state \<Rightarrow> string \<Rightarrow> V2ActionJobStatus list \<Rightarrow> patch
     \<Rightarrow> pg_state \<times> (v2_error, job option) result" where
  "pg_transition tz now st i expected p = pg_transaction st
     (rbind (case p_receipt p of
               None \<Rightarrow> Inr None
             | Some r \<Rightarrow> map_err (\<lambda>_. OtherError ''receipt'')
                 (rbind (sanitizeCanonicalReceipt (receipt_json r)) (\<lambda>r'. Inr (Some (receipt_json r')))))
        (\<lambda>receipt.
      case map_of (pg_jobs st) i of
        None \<Rightarrow> Inr (st, None)
      | Some w \<Rightarrow>
          if w_status w \<notin> set expected then Inr (st, None)
          else if (case p_dustReservationId p of Some rid \<Rightarrow> dust_id_taken st i rid | None \<Rightarrow> False)
          then Inl (OtherError ''duplicate key'')
          else
            let w' = w \<lparr> w_updated_at := tz now,
                w_status := (case p_status p of Some s \<Rightarrow> s | None \<Rightarrow> w_status w),
                w_transitions := (case p_status p of Some s \<Rightarrow> append_transition (w_transitions w) s
                  | None \<Rightarrow> w_transitions w),
                w_dust_reservation_id := or_else (p_dustReservationId p) (w_dust_reservation_id w),
                w_transaction_id := or_else (p_transactionId p) (w_transaction_id w),
                w_receipt := or_else receipt (w_receipt w),
                w_error_code := or_else (p_errorCode p) (w_error_code w) \<rparr>
            in rbind (rowToJob w') (\<lambda>job.
               Inr (st \<lparr> pg_jobs := map_set i w' (pg_jobs st) \<rparr>, Some job))))"

definition pg_reserveDust ::
  "(string \<Rightarrow> int) \<Rightarrow> string \<Rightarrow> pg_state \<Rightarrow> string \<Rightarrow> string \<Rightarrow> pg_state \<times> (v2_error, job option) result" where
  "pg_reserveDust tz now st i reservationId = pg_transaction st
     (case map_of (pg_jobs st) i of
        None \<Rightarrow> Inr (st, None)
      | Some w \<Rightarrow>
          if w_status w \<noteq> Validated
            \<or> list_ex (\<lambda>v. w_status v \<in> {DustReserved, Finalized, Submitted, IndexerPending}) (map_values (pg_jobs st))
          then Inr (st, None)
          else if dust_id_taken st i reservationId then Inl (OtherError ''duplicate key'')
          else
            let w' = w \<lparr> w_status := DustReserved,
                w_transitions := append_transition (w_transitions w) DustReserved,
                w_dust_reservation_id := Some reservationId, w_updated_at := tz now \<rparr>
            in rbind (rowToJob w') (\<lambda>job.
               Inr (st \<lparr> pg_jobs := map_set i w' (pg_jobs st) \<rparr>, Some job)))"

definition pg_listRecoverable :: "pg_state \<Rightarrow> (v2_error, job list) result" where
  "pg_listRecoverable st = mapM rowToJob
     (sort_key w_created_at (filter (\<lambda>w. w_status w \<in> set recoverableStatuses) (map_values (pg_jobs st))))"

definition pg_store :: "(string \<Rightarrow> int) \<Rightarrow> pg_state v2_store" where
  "pg_store tz = \<lparr> createOrGet = pg_createOrGet tz, getJob = pg_get,
     getByIdempotencyKey = pg_getByIdempotencyKey, consumeCapability = pg_consumeCapability,
     transition = pg_transition tz, reserveDust = pg_reserveDust tz, listRecoverable = pg_listRecoverable \<rparr>"

definition pg_empty :: pg_state where
  "pg_empty = \<lparr> pg_jobs = [], pg_capabilities = [] \<rparr>"

section \<open>Rows that stand for jobs\<close>

definition row_ok :: "pg_row \<Rightarrow> bool" where
  "row_ok w = ((\<exists>ts. ts \<noteq> [] \<and> w_transitions w = JArr (map status_json ts))
     \<and> (\<forall>v. w_receipt w = Some v \<longrightarrow> (\<exists>r. wf_receipt r \<and> v = receipt_json r))
     \<and> w_dust_reservation_id w \<noteq> Some [] \<and> w_transaction_id w \<noteq> Some [] \<and> w_error_code w \<noteq> Some [])"

text \<open>The row a job is the reading of.\<close>

definition reads :: "pg_row \<Rightarrow> job \<Rightarrow> bool" where
  "reads w j = (j_id j = w_id w \<and> j_idempotencyKey j = w_idempotency_key w
     \<and> j_capabilityDigest j = w_capability_digest w \<and> j_requestHash j = w_request_hash w
     \<and> j_txDigest j = w_tx_digest w \<and> j_network j = w_network w
     \<and> j_contractAddress j = w_contract_address w \<and> j_circuit j = w_circuit w \<and> j_action j = w_action w
     \<and> j_status j = w_status w \<and> w_transitions w = JArr (map status_json (j_transitions j))
     \<and> j_dustReservationId j = w_dust_reservation_id w \<and> j_transactionId j = w_transaction_id w
     \<and> j_errorCode j = w_error_code w \<and> w_receipt w = map_option receipt_json (j_receipt j)
     \<and> (\<forall>r. j_receipt j = Some r \<longrightarrow> wf_receipt r))"

lemma map_filter_statuses [simp]:
  "List.map_filter (\<lambda>x. isStatus (Some x)) (map status_json ts) = ts"
  by (induction ts) (simp_all add: List.map_filter_simps status_json_def)

lemma map_status_json_inject [simp]: "map status_json xs = map status_json ys \<longleftrightarrow> xs = ys"
  by (rule inj_map_eq_map) (simp add: inj_def status_json_def)

lemma truthy_str_id: "v \<noteq> Some [] \<Longrightarrow> truthy_str v = v"
  by (cases v) auto

lemma rowToJob_ok:
  assumes "row_ok w" obtains j where "rowToJob w = Inr j" "reads w j"
proof -
  obtain ts where ts: "ts \<noteq> []" "w_transitions w = JArr (map status_json ts)"
    using assms by (auto simp: row_ok_def)
  have t: "pg_parseTransitions (JArr (map status_json ts)) (w_status w) = ts"
    using ts by (simp add: pg_parseTransitions_def)
  have o: "truthy_str (w_dust_reservation_id w) = w_dust_reservation_id w"
    "truthy_str (w_transaction_id w) = w_transaction_id w" "truthy_str (w_error_code w) = w_error_code w"
    using assms by (simp_all add: row_ok_def truthy_str_id)
  show ?thesis
  proof (cases "w_receipt w")
    case None
    then show ?thesis by (intro that) (auto simp: rowToJob_def reads_def t o ts)
  next
    case (Some v)
    then obtain r where r: "wf_receipt r" "v = receipt_json r" using assms by (auto simp: row_ok_def)
    have "truthy (Some (receipt_json r))" by (simp add: receipt_json_def)
    then show ?thesis using Some r
      by (intro that) (auto simp: rowToJob_def reads_def t o ts sanitize_receipt_json)
  qed
qed

section \<open>The database adapter is a journal\<close>

definition pg_lookup :: "pg_state \<Rightarrow> string \<Rightarrow> job option" where
  "pg_lookup st i = (case map_of (pg_jobs st) i of
     None \<Rightarrow> None
   | Some w \<Rightarrow> (case rowToJob w of Inl e \<Rightarrow> None | Inr j \<Rightarrow> Some j))"

definition pg_spent :: "pg_state \<Rightarrow> string set" where
  "pg_spent st = dom (map_of (pg_capabilities st))"

definition pg_inv :: "pg_state \<Rightarrow> bool" where
  "pg_inv st = (keys_ok w_id (pg_jobs st) \<and> (\<forall>w \<in> set (map_values (pg_jobs st)). row_ok w)
     \<and> table_ok (pg_lookup st))"

lemma pg_inv_row:
  assumes "pg_inv st" "map_of (pg_jobs st) i = Some w"
  obtains j where "row_ok w" "rowToJob w = Inr j" "reads w j" "pg_lookup st i = Some j" "w_id w = i"
proof -
  have "row_ok w" using assms map_of_SomeD [OF assms(2)] by (force simp: pg_inv_def)
  moreover obtain j where "rowToJob w = Inr j" "reads w j" by (rule rowToJob_ok [OF calculation])
  moreover have "w_id w = i" using assms keys_ok_key unfolding pg_inv_def by metis
  ultimately show ?thesis using assms(2) by (intro that [of j]) (simp_all add: pg_lookup_def)
qed

lemma pg_lookup_row:
  assumes "pg_inv st" "pg_lookup st i = Some j"
  obtains w where "map_of (pg_jobs st) i = Some w" "row_ok w" "rowToJob w = Inr j" "reads w j" "w_id w = i"
proof (cases "map_of (pg_jobs st) i")
  case None
  then show ?thesis using assms(2) by (simp add: pg_lookup_def)
next
  case (Some w)
  then show ?thesis using pg_inv_row [OF assms(1) Some] assms(2) that by auto
qed

lemma pg_value_row:
  assumes "pg_inv st" "w \<in> set (map_values (pg_jobs st))"
  obtains j where "rowToJob w = Inr j" "reads w j" "pg_lookup st (w_id w) = Some j" "row_ok w"
proof -
  have "map_of (pg_jobs st) (w_id w) = Some w"
    using assms keys_ok_map_of unfolding pg_inv_def by metis
  then show ?thesis using pg_inv_row [OF assms(1)] that by metis
qed

lemma pg_lookup_set:
  "rowToJob w = Inr j \<Longrightarrow> pg_lookup (st \<lparr> pg_jobs := map_set i w (pg_jobs st) \<rparr>) = (pg_lookup st)(i \<mapsto> j)"
  by (auto simp: pg_lookup_def fun_eq_iff)

lemma pg_inv_set:
  assumes "pg_inv st" "row_ok w" "w_id w = i" "rowToJob w = Inr j" "table_ok ((pg_lookup st)(i \<mapsto> j))"
  shows "pg_inv (st \<lparr> pg_jobs := map_set i w (pg_jobs st) \<rparr>)"
proof -
  have ok: "keys_ok w_id (pg_jobs st)" using assms(1) by (simp add: pg_inv_def)
  have ok': "keys_ok w_id (map_set i w (pg_jobs st))" by (rule keys_ok_map_set [OF ok assms(3)])
  have "\<forall>x \<in> set (map_values (map_set i w (pg_jobs st))). row_ok x"
    using assms(1,2) unfolding pg_inv_def keys_ok_ball [OF ok] keys_ok_ball [OF ok'] by simp
  then show ?thesis using ok' assms(5) by (simp add: pg_inv_def pg_lookup_set [OF assms(4)])
qed

lemma char64_hex [simp]: "is_hex64 v \<Longrightarrow> char64 v = Inr v"
  by (simp add: char64_def is_hex64_def)

lemma pg_insert_row_wf:
  assumes "wf_new n"
  obtains w j where "pg_insert_row tz n = Inr w" "row_ok w" "rowToJob w = Inr j" "created_from n j"
    "w_id w = n_id n" "w_idempotency_key w = n_idempotencyKey n" "w_request_hash w = n_requestHash n"
    "w_capability_digest w = n_capabilityDigest n"
proof -
  obtain w where w: "pg_insert_row tz n = Inr w" using assms by (auto simp: pg_insert_row_def wf_new_def)
  have ts: "w_transitions w = JArr (map status_json [Authorized])"
    using w assms by (auto simp: pg_insert_row_def wf_new_def)
  then have ok: "row_ok w"
    using w assms unfolding row_ok_def by (intro conjI exI [of _ "[Authorized]"]) (auto simp: pg_insert_row_def)
  obtain j where j: "rowToJob w = Inr j" "reads w j" by (rule rowToJob_ok [OF ok])
  have "j_transitions j = [Authorized]"
    using j(2) ts unfolding reads_def by (metis json.inject(4) map_status_json_inject)
  then have "created_from n j"
    using w j(2) assms by (auto simp: created_from_def reads_def pg_insert_row_def wf_new_def)
  then show ?thesis using w ok j assms
    by (intro that [of w j]) (auto simp: pg_insert_row_def wf_new_def)
qed

lemma filter_partition_hd:
  assumes "xs \<noteq> []"
  obtains y ys where "filter P xs @ filter (\<lambda>v. \<not> P v) xs = y # ys" "y \<in> set xs"
proof (cases "filter P xs @ filter (\<lambda>v. \<not> P v) xs")
  case Nil
  then have "\<forall>x \<in> set xs. \<not> P x \<and> P x" by (auto simp: filter_empty_conv)
  then show ?thesis using assms by (cases xs) auto
next
  case (Cons y ys)
  then have "y \<in> set (filter P xs @ filter (\<lambda>v. \<not> P v) xs)" by simp
  then have "y \<in> set xs" by auto
  then show ?thesis by (rule that [OF Cons])
qed

lemma pg_create_law:
  assumes "pg_inv st" "wf_new n" "pg_createOrGet tz st n = (st', r)"
  shows "pg_inv st' \<and> pg_spent st' = pg_spent st \<and>
      (case r of Inl e \<Rightarrow> pg_lookup st' = pg_lookup st
       | Inr (j, c) \<Rightarrow> if c
           then pg_lookup st (n_id n) = None \<and> created_from n j \<and> pg_lookup st' = (pg_lookup st)(n_id n \<mapsto> j)
           else pg_lookup st' = pg_lookup st \<and> pg_lookup st (j_id j) = Some j \<and> j_requestHash j = n_requestHash n)"
proof -
  obtain w j where w: "pg_insert_row tz n = Inr w" "row_ok w" "rowToJob w = Inr j" "created_from n j"
    "w_id w = n_id n" "w_idempotency_key w = n_idempotencyKey n" "w_request_hash w = n_requestHash n"
    "w_capability_digest w = n_capabilityDigest n" by (rule pg_insert_row_wf [OF assms(2)])
  let ?rows = "filter (row_clash w) (map_values (pg_jobs st))"
  show ?thesis
  proof (cases "?rows = []")
    case True
    have free: "j_id j' \<noteq> n_id n \<and> j_idempotencyKey j' \<noteq> n_idempotencyKey n \<and> j_requestHash j' \<noteq> n_requestHash n"
      if lk: "pg_lookup st i = Some j'" for i j'
    proof -
      obtain w' where w': "map_of (pg_jobs st) i = Some w'" "reads w' j'"
        by (rule pg_lookup_row [OF assms(1) lk])
      then have "w' \<in> set (map_values (pg_jobs st))" using map_of_SomeD by force
      then have "\<not> row_clash w w'" using True unfolding filter_empty_conv by blast
      then show ?thesis using w'(2) w(5-8) by (auto simp: row_clash_def reads_def)
    qed
    have "table_ok ((pg_lookup st)(j_id j \<mapsto> j))"
      using free w(4) assms(1) by (intro table_ok_insert) (auto simp: pg_inv_def created_from_def)
    moreover have "j_id j = n_id n" using w(4) by (simp add: created_from_def)
    moreover have "pg_lookup st (n_id n) = None"
      using free assms(1) by (cases "pg_lookup st (n_id n)") (auto simp: pg_inv_def table_ok_def)
    ultimately show ?thesis
      using assms w True pg_inv_set [OF assms(1) w(2,5,3)] pg_lookup_set [OF w(3)]
      by (auto simp: pg_createOrGet_def pg_transaction_def pg_spent_def Let_def)
  next
    case False
    obtain e es where e: "filter (\<lambda>v. w_idempotency_key v = w_idempotency_key w) ?rows
        @ filter (\<lambda>v. w_idempotency_key v \<noteq> w_idempotency_key w) ?rows = e # es" "e \<in> set ?rows"
      by (rule filter_partition_hd [OF False])
    then have "e \<in> set (map_values (pg_jobs st))" by simp
    then obtain j' where j': "rowToJob e = Inr j'" "reads e j'" "pg_lookup st (w_id e) = Some j'"
      by (rule pg_value_row [OF assms(1)])
    have "j_id j' = w_id e" using j'(2) by (simp add: reads_def)
    then show ?thesis
      using assms w(1) False e(1) j'(1,3)
      by (auto simp: pg_createOrGet_def pg_transaction_def Let_def split: if_splits)
  qed
qed

text \<open>An updated row reads as the patched job.\<close>

lemma row_update_ok:
  assumes "row_ok w" "w_transitions w' = append_transition (w_transitions w) s"
    and "w_receipt w' = or_else (map_option receipt_json rc) (w_receipt w)" "\<And>r. rc = Some r \<Longrightarrow> wf_receipt r"
    and "w_dust_reservation_id w' \<noteq> Some []" "w_transaction_id w' \<noteq> Some []" "w_error_code w' \<noteq> Some []"
  shows "row_ok w'"
proof -
  obtain ts where ts: "ts \<noteq> []" "w_transitions w = JArr (map status_json ts)"
    using assms(1) by (auto simp: row_ok_def)
  then have "w_transitions w' = JArr (map status_json (ts @ [s]))" using assms(2) by simp
  then have "\<exists>ts. ts \<noteq> [] \<and> w_transitions w' = JArr (map status_json ts)" by blast
  moreover have "\<forall>v. w_receipt w' = Some v \<longrightarrow> (\<exists>r. wf_receipt r \<and> v = receipt_json r)"
    using assms(1,3,4) by (cases rc) (auto simp: row_ok_def)
  ultimately show ?thesis using assms(5-) by (simp add: row_ok_def)
qed

lemma reads_transitions:
  assumes "reads w j" "reads w' j'" "w_transitions w' = append_transition (w_transitions w) s"
  shows "j_transitions j' = j_transitions j @ [s]"
proof -
  have "JArr (map status_json (j_transitions j')) = JArr (map status_json (j_transitions j @ [s]))"
    using assms by (simp add: reads_def)
  then show ?thesis by (simp only: json.inject map_status_json_inject)
qed

lemma reads_receipt:
  assumes "reads w j" "reads w' j'" "w_receipt w' = or_else (map_option receipt_json rc) (w_receipt w)"
  shows "j_receipt j' = or_else rc (j_receipt j)"
  using assms
  by (cases rc; cases "j_receipt j"; cases "j_receipt j'") (auto simp: reads_def)

lemma pg_transition_law:
  assumes "pg_inv st" "wf_patch p" "pg_transition tz now st i ex p = (st', r)"
  shows "pg_inv st' \<and> pg_spent st' = pg_spent st \<and>
      (case pg_lookup st i of
         Some j \<Rightarrow> if j_status j \<in> set ex
           then \<exists>j'. r = Inr (Some j') \<and> patched (the (p_status p)) p j j'
             \<and> pg_lookup st' = (pg_lookup st)(i \<mapsto> j')
           else r = Inr None \<and> pg_lookup st' = pg_lookup st
       | None \<Rightarrow> r = Inr None \<and> pg_lookup st' = pg_lookup st)"
proof -
  obtain s where p: "p_status p = Some s" "p_dustReservationId p = None" "p_transactionId p \<noteq> Some []"
    "p_errorCode p \<noteq> Some []" "\<And>r. p_receipt p = Some r \<Longrightarrow> wf_receipt r"
    using assms(2) by (auto simp: wf_patch_def)
  have rc: "(case p_receipt p of None \<Rightarrow> Inr None
             | Some r \<Rightarrow> map_err (\<lambda>_. OtherError ''receipt'')
                 (rbind (sanitizeCanonicalReceipt (receipt_json r)) (\<lambda>r'. Inr (Some (receipt_json r')))))
      = Inr (map_option receipt_json (p_receipt p))"
    using p(5) by (cases "p_receipt p") (simp_all add: sanitize_receipt_json)
  show ?thesis
  proof (cases "map_of (pg_jobs st) i")
    case None
    then have "pg_lookup st i = None" by (simp add: pg_lookup_def)
    then show ?thesis using assms(1,3) rc None by (simp add: pg_transition_def pg_transaction_def)
  next
    case (Some w)
    obtain j where j: "row_ok w" "rowToJob w = Inr j" "reads w j" "pg_lookup st i = Some j" "w_id w = i"
      by (rule pg_inv_row [OF assms(1) Some])
    have st: "w_status w = j_status j" using j(3) by (simp add: reads_def)
    show ?thesis
    proof (cases "j_status j \<in> set ex")
      case False
      then show ?thesis using assms(1,3) rc Some st j(4) by (simp add: pg_transition_def pg_transaction_def)
    next
      case True
      let ?w = "w \<lparr> w_updated_at := tz now, w_status := s,
        w_transitions := append_transition (w_transitions w) s,
        w_dust_reservation_id := w_dust_reservation_id w,
        w_transaction_id := or_else (p_transactionId p) (w_transaction_id w),
        w_receipt := or_else (map_option receipt_json (p_receipt p)) (w_receipt w),
        w_error_code := or_else (p_errorCode p) (w_error_code w) \<rparr>"
      have ok: "row_ok ?w"
        using j(1) p by (intro row_update_ok [OF j(1), where s = s and rc = "p_receipt p"])
          (auto simp: row_ok_def elim: or_else.elims)
      obtain j' where j': "rowToJob ?w = Inr j'" "reads ?w j'" by (rule rowToJob_ok [OF ok])
      have "j_transitions j' = j_transitions j @ [s]" by (rule reads_transitions [OF j(3) j'(2)]) simp
      moreover have "j_receipt j' = or_else (p_receipt p) (j_receipt j)"
        by (rule reads_receipt [OF j(3) j'(2)]) simp
      ultimately have pt: "patched s p j j'"
        using j(3) j'(2) by (simp add: patched_def same_identity_def reads_def)
      have "table_ok ((pg_lookup st)(i \<mapsto> j'))"
        using assms(1) j(4) pt j'(2)
        by (intro table_ok_update [of _ i j]) (auto simp: pg_inv_def patched_def reads_def)
      then have "pg_inv (st \<lparr> pg_jobs := map_set i ?w (pg_jobs st) \<rparr>)"
        using j(5) by (intro pg_inv_set [OF assms(1) ok _ j'(1)]) simp
      moreover have "pg_transition tz now st i ex p
          = (st \<lparr> pg_jobs := map_set i ?w (pg_jobs st) \<rparr>, Inr (Some j'))"
        unfolding pg_transition_def rc using Some st True p(1,2) j'(1)
        by (simp add: pg_transaction_def Let_def)
      ultimately show ?thesis
        using assms(3) j(4) True pt p(1) pg_lookup_set [OF j'(1)] by (auto simp: pg_spent_def)
    qed
  qed
qed

lemma pg_active_iff_leased:
  assumes "pg_inv st"
  shows "list_ex (\<lambda>v. w_status v \<in> {DustReserved, Finalized, Submitted, IndexerPending}) (map_values (pg_jobs st))
    \<longleftrightarrow> leased (pg_lookup st)"
proof -
  have "keys_ok w_id (pg_jobs st)" using assms by (simp add: pg_inv_def)
  moreover have "w_status v \<in> {DustReserved, Finalized, Submitted, IndexerPending} \<longleftrightarrow> lease_holder (j_status j)"
    if "reads v j" for v j using that by (auto simp: reads_def lease_holder_def)
  ultimately show ?thesis
    unfolding list_ex_iff leased_def keys_ok_bex [OF \<open>keys_ok w_id (pg_jobs st)\<close>]
    by (meson assms pg_inv_row pg_lookup_row)
qed

lemma dust_id_fresh:
  assumes "pg_inv st" "\<And>k j. pg_lookup st k = Some j \<Longrightarrow> j_dustReservationId j \<noteq> Some rid"
  shows "\<not> dust_id_taken st i rid"
proof -
  have "w_dust_reservation_id w \<noteq> Some rid" if w: "w \<in> set (map_values (pg_jobs st))" for w
  proof -
    obtain j where "reads w j" "pg_lookup st (w_id w) = Some j" by (rule pg_value_row [OF assms(1) w])
    then show ?thesis using assms(2) by (auto simp: reads_def)
  qed
  then show ?thesis unfolding dust_id_taken_def list_ex_iff by blast
qed

lemma pg_reserve_law:
  assumes "pg_inv st" "rid \<noteq> []" "\<And>k j. pg_lookup st k = Some j \<Longrightarrow> j_dustReservationId j \<noteq> Some rid"
    and "pg_reserveDust tz now st i rid = (st', r)"
  shows "pg_inv st' \<and> pg_spent st' = pg_spent st \<and>
      (if \<exists>j. pg_lookup st i = Some j \<and> j_status j = Validated \<and> \<not> leased (pg_lookup st)
       then \<exists>j'. r = Inr (Some j') \<and> reserved rid (the (pg_lookup st i)) j'
         \<and> pg_lookup st' = (pg_lookup st)(i \<mapsto> j')
       else r = Inr None \<and> pg_lookup st' = pg_lookup st)"
proof (cases "map_of (pg_jobs st) i")
  case None
  then have "pg_lookup st i = None" by (simp add: pg_lookup_def)
  then show ?thesis using assms(1,4) None by (simp add: pg_reserveDust_def pg_transaction_def)
next
  case (Some w)
  obtain j where j: "row_ok w" "rowToJob w = Inr j" "reads w j" "pg_lookup st i = Some j" "w_id w = i"
    by (rule pg_inv_row [OF assms(1) Some])
  have st: "w_status w = j_status j" using j(3) by (simp add: reads_def)
  show ?thesis
  proof (cases "j_status j = Validated \<and> \<not> leased (pg_lookup st)")
    case False
    then have "(st', r) = (st, Inr None)"
      using assms(4) Some st pg_active_iff_leased [OF assms(1)]
      by (auto simp: pg_reserveDust_def pg_transaction_def)
    then show ?thesis using False assms(1) j(4) by auto
  next
    case True
    let ?w = "w \<lparr> w_status := DustReserved,
      w_transitions := append_transition (w_transitions w) DustReserved,
      w_dust_reservation_id := Some rid, w_updated_at := tz now \<rparr>"
    have ok: "row_ok ?w"
      using j(1) assms(2) by (intro row_update_ok [OF j(1), where s = DustReserved and rc = None])
        (auto simp: row_ok_def)
    obtain j' where j': "rowToJob ?w = Inr j'" "reads ?w j'" by (rule rowToJob_ok [OF ok])
    have "j_transitions j' = j_transitions j @ [DustReserved]" by (rule reads_transitions [OF j(3) j'(2)]) simp
    moreover have "j_receipt j' = or_else None (j_receipt j)"
      by (rule reads_receipt [OF j(3) j'(2)]) simp
    ultimately have rv: "reserved rid j j'"
      using j(3) j'(2) by (simp add: reserved_def same_identity_def reads_def)
    have "table_ok ((pg_lookup st)(i \<mapsto> j'))"
      using assms(1) j(4) rv j'(2)
      by (intro table_ok_update [of _ i j]) (auto simp: pg_inv_def reserved_def reads_def)
    then have "pg_inv (st \<lparr> pg_jobs := map_set i ?w (pg_jobs st) \<rparr>)"
      using j(5) by (intro pg_inv_set [OF assms(1) ok _ j'(1)]) simp
    moreover have "pg_reserveDust tz now st i rid = (st \<lparr> pg_jobs := map_set i ?w (pg_jobs st) \<rparr>, Inr (Some j'))"
      unfolding pg_reserveDust_def pg_active_iff_leased [OF assms(1)]
      using Some st True j'(1) dust_id_fresh [OF assms(1,3)] by (simp add: pg_transaction_def Let_def)
    ultimately show ?thesis
      using assms(4) j(4) True rv pg_lookup_set [OF j'(1)] by (auto simp: pg_spent_def)
  qed
qed

lemma pg_consume_law:
  assumes "pg_inv st" "wf_reservation c" "pg_consumeCapability st c = (st', b)"
  shows "pg_inv st' \<and> pg_lookup st' = pg_lookup st \<and> b = Inr (k_digest c \<notin> pg_spent st)
    \<and> pg_spent st' = insert (k_digest c) (pg_spent st)"
proof -
  have same: "pg_lookup (st \<lparr> pg_capabilities := x \<rparr>) = pg_lookup st" for x
    by (simp add: pg_lookup_def fun_eq_iff)
  then show ?thesis
    using assms
    by (cases "map_of (pg_capabilities st) (k_digest c)")
       (auto simp: pg_consumeCapability_def pg_transaction_def wf_reservation_def pg_spent_def pg_inv_def)
qed

lemma pg_by_key_law:
  assumes "pg_inv st"
  shows "\<exists>r. pg_getByIdempotencyKey st k = Inr r \<and>
      (case r of Some j \<Rightarrow> pg_lookup st (j_id j) = Some j \<and> j_idempotencyKey j = k
       | None \<Rightarrow> \<forall>i j. pg_lookup st i = Some j \<longrightarrow> j_idempotencyKey j \<noteq> k)"
proof (cases "find (\<lambda>w. w_idempotency_key w = k) (map_values (pg_jobs st))")
  case None
  have "j_idempotencyKey j \<noteq> k" if lk: "pg_lookup st i = Some j" for i j
  proof -
    obtain w where w: "map_of (pg_jobs st) i = Some w" "reads w j" by (rule pg_lookup_row [OF assms lk])
    then have "w \<in> set (map_values (pg_jobs st))" using map_of_SomeD [OF w(1)] by force
    then have "w_idempotency_key w \<noteq> k" using None unfolding find_None_ball by blast
    then show ?thesis using w(2) by (simp add: reads_def)
  qed
  then show ?thesis using None by (simp add: pg_getByIdempotencyKey_def)
next
  case (Some w)
  then have w: "w \<in> set (map_values (pg_jobs st))" "w_idempotency_key w = k" using find_Some_iff [OF Some] by auto
  obtain j where j: "rowToJob w = Inr j" "reads w j" "pg_lookup st (w_id w) = Some j"
    by (rule pg_value_row [OF assms w(1)])
  then show ?thesis using Some w(2) by (simp add: pg_getByIdempotencyKey_def reads_def)
qed

lemma pg_list_law:
  assumes "pg_inv st"
  shows "\<exists>js. pg_listRecoverable st = Inr js \<and>
      set js = {j. \<exists>i. pg_lookup st i = Some j \<and> j_status j \<in> set recoverableStatuses}"
proof -
  let ?rows = "sort_key w_created_at (filter (\<lambda>w. w_status w \<in> set recoverableStatuses) (map_values (pg_jobs st)))"
  let ?job = "\<lambda>w. (case rowToJob w of Inr j \<Rightarrow> j)"
  have row: "rowToJob w = Inr (?job w) \<and> reads w (?job w) \<and> pg_lookup st (w_id w) = Some (?job w)"
    if w: "w \<in> set (map_values (pg_jobs st))" for w
    by (rule pg_value_row [OF assms w]) simp
  have run: "mapM rowToJob (map (\<lambda>w. w) ?rows) = Inr (map ?job ?rows)"
    using row by (intro mapM_Inr_map) auto
  have "j \<in> set (map ?job ?rows) \<longleftrightarrow> (\<exists>i. pg_lookup st i = Some j \<and> j_status j \<in> set recoverableStatuses)" for j
  proof
    assume "j \<in> set (map ?job ?rows)"
    then obtain w where w: "w \<in> set (map_values (pg_jobs st))" "w_status w \<in> set recoverableStatuses" "j = ?job w"
      by auto
    then show "\<exists>i. pg_lookup st i = Some j \<and> j_status j \<in> set recoverableStatuses"
      using row [OF w(1)] by (auto simp: reads_def)
  next
    assume "\<exists>i. pg_lookup st i = Some j \<and> j_status j \<in> set recoverableStatuses"
    then obtain i where i: "pg_lookup st i = Some j" "j_status j \<in> set recoverableStatuses" by auto
    obtain w where w: "map_of (pg_jobs st) i = Some w" "rowToJob w = Inr j" "reads w j"
      by (rule pg_lookup_row [OF assms i(1)])
    then have "w \<in> set (map_values (pg_jobs st))" using map_of_SomeD [OF w(1)] by force
    then have "w \<in> set ?rows" using i(2) w(3) by (auto simp: reads_def)
    moreover have "j = ?job w" using w(2) by simp
    ultimately show "j \<in> set (map ?job ?rows)" unfolding set_map by blast
  qed
  then have "set (map ?job ?rows) = {j. \<exists>i. pg_lookup st i = Some j \<and> j_status j \<in> set recoverableStatuses}"
    by blast
  then show ?thesis using run unfolding pg_listRecoverable_def list.map_ident by blast
qed

lemma pg_create_fresh:
  assumes "pg_inv st" "wf_new n" "pg_lookup st (n_id n) = None"
    and "\<And>i j. pg_lookup st i = Some j \<Longrightarrow> j_idempotencyKey j \<noteq> n_idempotencyKey n
         \<and> j_requestHash j \<noteq> n_requestHash n \<and> j_capabilityDigest j \<noteq> n_capabilityDigest n"
  shows "\<exists>st' j. pg_createOrGet tz st n = (st', Inr (j, True))"
proof -
  obtain w j where w: "pg_insert_row tz n = Inr w" "row_ok w" "rowToJob w = Inr j" "created_from n j"
    "w_id w = n_id n" "w_idempotency_key w = n_idempotencyKey n" "w_request_hash w = n_requestHash n"
    "w_capability_digest w = n_capabilityDigest n" by (rule pg_insert_row_wf [OF assms(2)])
  have "\<not> row_clash w v" if v: "v \<in> set (map_values (pg_jobs st))" for v
  proof -
    obtain j' where "reads v j'" "pg_lookup st (w_id v) = Some j'" by (rule pg_value_row [OF assms(1) v])
    then show ?thesis using assms(3) assms(4) [of "w_id v" j'] w(5-8) by (auto simp: row_clash_def reads_def)
  qed
  then have "filter (row_clash w) (map_values (pg_jobs st)) = []" unfolding filter_empty_conv by blast
  then show ?thesis using w(1,3) by (simp add: pg_createOrGet_def pg_transaction_def Let_def)
qed

lemma only_element: "e \<in> set xs \<Longrightarrow> (\<And>v. v \<in> set xs \<Longrightarrow> v = e) \<Longrightarrow> \<exists>vs. xs = e # vs"
  by (metis list.set_intros(1) list.exhaust list.set(1) empty_iff)

lemma pg_create_existing:
  assumes "pg_inv st" "wf_new n" "pg_lookup st (n_id n) = Some j"
    and "j_idempotencyKey j = n_idempotencyKey n" "j_requestHash j = n_requestHash n"
  shows "\<exists>st'. pg_createOrGet tz st n = (st', Inr (j, False))"
proof -
  obtain w where w: "pg_insert_row tz n = Inr w" "w_id w = n_id n" "w_idempotency_key w = n_idempotencyKey n"
    by (rule pg_insert_row_wf [OF assms(2)])
  obtain e where e: "map_of (pg_jobs st) (n_id n) = Some e" "rowToJob e = Inr j" "reads e j"
    by (rule pg_lookup_row [OF assms(1,3)])
  let ?rows = "filter (row_clash w) (map_values (pg_jobs st))"
  let ?same = "filter (\<lambda>v. w_idempotency_key v = w_idempotency_key w) ?rows"
  have "e \<in> set (map_values (pg_jobs st))" using map_of_SomeD [OF e(1)] by force
  moreover have "row_clash w e" "w_idempotency_key e = w_idempotency_key w"
    using e(3) w(2,3) assms(4) by (simp_all add: row_clash_def reads_def)
  ultimately have mem: "e \<in> set ?same" by simp
  have only: "v = e" if v: "v \<in> set ?same" for v
  proof -
    have v': "v \<in> set (map_values (pg_jobs st))" "w_idempotency_key v = n_idempotencyKey n"
      using v w(3) by simp_all
    obtain j' where j': "rowToJob v = Inr j'" "reads v j'" "pg_lookup st (w_id v) = Some j'"
      by (rule pg_value_row [OF assms(1) v'(1)])
    have "j_idempotencyKey j' = j_idempotencyKey j" using j'(2) v'(2) assms(4) by (simp add: reads_def)
    then have "w_id v = n_id n"
      using assms(1,3) j'(3) unfolding pg_inv_def table_ok_def unique_jobs_def by metis
    moreover have "map_of (pg_jobs st) (w_id v) = Some v"
      using v'(1) assms(1) keys_ok_map_of unfolding pg_inv_def by metis
    ultimately show ?thesis using e(1) by simp
  qed
  obtain vs where "?same = e # vs" using only_element [OF mem only] by blast
  moreover have "?rows \<noteq> []" using mem by (metis filter.simps(1) list.set(1) empty_iff)
  ultimately show ?thesis
    using w(1) e(2) assms(5) by (simp add: pg_createOrGet_def pg_transaction_def Let_def)
qed

interpretation pg: action_store "pg_store tz" pg_inv pg_lookup pg_spent "\<lambda>_. True" pg_empty
  for tz :: "string \<Rightarrow> int"
proof (unfold_locales, goal_cases)
  case 1
  have "pg_lookup pg_empty = Map.empty" by (simp add: pg_lookup_def pg_empty_def fun_eq_iff)
  then show ?case unfolding pg_inv_def by (simp add: pg_empty_def)
next
  case 2
  show ?case by (simp add: pg_lookup_def pg_empty_def fun_eq_iff)
next
  case 3
  show ?case by (simp add: pg_spent_def pg_empty_def)
next
  case (4 s i j)
  then show ?case by (auto simp: pg_inv_def table_ok_def)
next
  case (5 s i j i' j')
  then show ?case unfolding pg_inv_def table_ok_def unique_jobs_def by blast
next
  case (6 s i)
  show ?case
  proof (cases "map_of (pg_jobs s) i")
    case None
    then show ?thesis by (simp add: pg_store_def pg_get_def pg_lookup_def)
  next
    case (Some w)
    obtain j where "rowToJob w = Inr j" "pg_lookup s i = Some j" by (rule pg_inv_row [OF 6(1) Some])
    then show ?thesis using Some by (simp add: pg_store_def pg_get_def)
  qed
next
  case (7 s k)
  then show ?case using pg_by_key_law by (simp add: pg_store_def)
next
  case (8 s)
  then show ?case using pg_list_law by (simp add: pg_store_def)
next
  case (9 s n s' r)
  then show ?case using pg_create_law [of s n tz s' r] by (simp add: pg_store_def)
next
  case (10 s n)
  then show ?case using pg_create_fresh [of s n tz] by (simp add: pg_store_def)
next
  case (11 s c s' b)
  then show ?case using pg_consume_law [of s c s' b] by (simp add: pg_store_def)
next
  case (12 s p now i ex s' m)
  then show ?case using pg_transition_law [of s p tz now i ex s' m] by (simp add: pg_store_def)
next
  case (13 s rid now i s' m)
  then show ?case using pg_reserve_law [of s rid tz now i s' m] by (simp add: pg_store_def)
next
  case (14 s n j)
  then show ?case using pg_create_existing [of s n j tz] by (simp add: pg_store_def)
qed

end
