(* ===== verification/Relay_Properties.thy ===== *)
theory Relay_Properties
  imports V2_File_Store V2_Postgres
begin

text \<open>
  Properties of the relay that combine the service with its journal adapters,
  and the concrete relay on which their hypotheses are shown to hold.
\<close>

section \<open>A concrete relay\<close>

definition demo_sha :: "string \<Rightarrow> string" where
  "demo_sha x = replicate 64 (CHR ''a'')"

definition demo_hmac :: "string \<Rightarrow> string \<Rightarrow> string" where
  "demo_hmac secret msg = ''mac''"

definition demo_opts :: service_options where
  "demo_opts = \<lparr> so_allowedNetworks = [''preview''], so_allowedContracts = [''c1''],
     so_allowedCircuits = [''castVote''], so_capabilitySecret = ''s'',
     so_validateTransaction = (\<lambda>_. None), so_confirmationRetryMs = 2000 \<rparr>"

definition demo_claims :: capability_claims where
  "demo_claims = \<lparr> cc_actionId = ''a1'', cc_idempotencyKey = ''k1'', cc_network = ''preview'',
     cc_contractAddress = ''c1'', cc_circuit = ''castVote'', cc_action = Vote,
     cc_requestHash = replicate 64 (CHR ''a'') \<rparr>"

definition demo_body :: json where
  "demo_body = JObj [(''actionId'', JStr ''a1''), (''idempotencyKey'', JStr ''k1''), (''network'', JStr ''preview''),
     (''contractAddress'', JStr ''c1''), (''circuit'', JStr ''castVote''), (''tx'', JStr ''00FF'')]"

definition demo_headers :: request_headers where
  "demo_headers = \<lparr> h_idempotencyKey = None, h_requestHash = None,
     h_capability = Some (signV2Capability demo_hmac demo_claims 100 ''s'') \<rparr>"

definition demo_executor :: executor where
  "demo_executor = \<lparr> ex_balanceAndFinalize = (\<lambda>u. Some (u @ ''f'')), ex_submit = (\<lambda>_. Some ''t1''),
     ex_transactionId = (\<lambda>_. Some ''t1'') \<rparr>"

definition demo_request :: action_request where
  "demo_request = \<lparr> q_actionId = ''a1'', q_idempotencyKey = ''k1'', q_requestHash = None, q_network = ''preview'',
     q_contractAddress = ''c1'', q_circuit = ''castVote'', q_action = Vote, q_tx = ''00ff'' \<rparr>"

definition demo_new :: new_job where
  "demo_new = \<lparr> n_id = ''a1'', n_actionId = ''a1'', n_idempotencyKey = ''k1'',
     n_capabilityDigest = replicate 64 (CHR ''a''), n_requestHash = replicate 64 (CHR ''a''),
     n_txDigest = replicate 64 (CHR ''a''), n_network = ''preview'', n_contractAddress = ''c1'',
     n_circuit = ''castVote'', n_action = Vote, n_now = ''now'' \<rparr>"

definition demo_reservation :: capability_reservation where
  "demo_reservation = \<lparr> k_digest = replicate 64 (CHR ''a''), k_actionId = ''a1'', k_idempotencyKey = ''k1'',
     k_requestHash = replicate 64 (CHR ''a''), k_network = ''preview'', k_contractAddress = ''c1'',
     k_circuit = ''castVote'', k_action = Vote, k_expiresAt = 100 \<rparr>"

lemma demo_sha_hex: "is_hex64 (demo_sha x)"
  unfolding demo_sha_def by code_simp

lemma demo_scan: "scan_pending [demo_body]"
  unfolding scan_pending_clean by code_simp

lemma demo_parse: "parseV2ActionRequest demo_opts demo_body demo_headers = Inr demo_request"
proof -
  have "assertNoForbiddenKeys demo_body = Inr ()" using demo_scan by (simp add: assertNoForbiddenKeys_def)
  moreover have "toLowerCase ''00FF'' = ''00ff''" by code_simp
  ultimately show ?thesis
    unfolding parseV2ActionRequest_def
    by (simp add: demo_opts_def demo_body_def demo_headers_def demo_request_def field_def optionalDigest_def
        header_mismatch_def tx_field_def action_field_def actionForCircuit_def blank_iff is_ws_def any_hex_def
        MAX_TRANSACTION_HEX_LENGTH_def)
qed

theorem parsed_request_is_checked_witness:
  "clean demo_body \<and> even (length (q_tx demo_request))"
  using parsed_request_is_checked [OF demo_parse] by simp

lemma length_base64Url: "length (base64Url s) \<le> 2 * length s"
proof -
  have "length (b64_enc bs) \<le> 2 * length bs" for bs
    by (induction bs rule: b64_enc.induct) auto
  from this [of "map of_char s"] show ?thesis by (simp add: base64Url_def)
qed

lemma length_utf8: "length (utf8 s) \<le> 2 * length s"
  by (induction s) (auto simp: utf8_def utf8_char_def Let_def)

lemma demo_token_length: "length (signV2Capability demo_hmac demo_claims 100 ''s'') \<le> 4096"
proof -
  let ?t = "stringify (claims_json demo_claims 100)"
  have "length ?t \<le> 400" by code_simp
  then have "length (base64Url (utf8 ?t)) \<le> 1600"
    using length_base64Url [of "utf8 ?t"] length_utf8 [of ?t] by linarith
  moreover have "length (base64Url (signature demo_hmac p ''s'')) \<le> 6" for p
    using length_base64Url [of "signature demo_hmac p ''s''"] by (simp add: signature_def demo_hmac_def)
  from this [of "base64Url (utf8 ?t)"] calculation show ?thesis
    unfolding signV2Capability_def Let_def length_append by simp
qed

lemma demo_authorize_as:
  assumes "parseV2ActionRequest demo_opts body h = Inr demo_request"
    and "h_capability h = Some (signV2Capability demo_hmac demo_claims 100 ''s'')"
  shows "authorize demo_sha demo_hmac demo_opts ''now'' 5 body h = Inr (demo_request, demo_new, demo_reservation)"
proof -
  have "verifyV2Capability demo_sha demo_hmac (signV2Capability demo_hmac demo_claims 100 ''s'') ''s'' demo_claims 5
      = Inr (replicate 64 (CHR ''a''), 100)"
    using demo_token_length
    by (subst verify_signed) (simp_all add: signature_def demo_hmac_def verify_payload_claims max_safe_def
        digestCapability_def demo_sha_def)
  then show ?thesis
    unfolding authorize_def assms
    by (simp add: demo_request_def demo_new_def demo_reservation_def demo_opts_def
        v2RequestHash_def digestTransaction_def demo_sha_def demo_claims_def Let_def)
qed

lemma demo_authorize:
  "authorize demo_sha demo_hmac demo_opts ''now'' 5 demo_body demo_headers = Inr (demo_request, demo_new, demo_reservation)"
  by (rule demo_authorize_as [OF demo_parse]) (simp add: demo_headers_def)

text \<open>The demo relay after it accepted the request.\<close>

definition demo_row :: pg_row where
  "demo_row = \<lparr> w_id = ''a1'', w_idempotency_key = ''k1'', w_request_hash = replicate 64 (CHR ''a''),
     w_capability_digest = replicate 64 (CHR ''a''), w_tx_digest = replicate 64 (CHR ''a''),
     w_network = ''preview'', w_contract_address = ''c1'', w_circuit = ''castVote'', w_action = Vote,
     w_status = Authorized, w_transitions = JArr [JStr ''authorized''], w_dust_reservation_id = None,
     w_transaction_id = None, w_receipt = None, w_error_code = None, w_created_at = 0, w_updated_at = 0 \<rparr>"

definition demo_accepted :: "pg_state service" where
  "demo_accepted = \<lparr> sv_store = \<lparr> pg_jobs = [(''a1'', demo_row)],
       pg_capabilities = [(replicate 64 (CHR ''a''), demo_reservation)] \<rparr>,
     sv_transient = [(''a1'', ''00ff'')], sv_running = [''a1''], sv_timers = [], sv_submitted = [] \<rparr>"

definition demo_job :: job where
  "demo_job = \<lparr> j_id = ''a1'', j_idempotencyKey = ''k1'', j_capabilityDigest = replicate 64 (CHR ''a''),
     j_requestHash = replicate 64 (CHR ''a''), j_txDigest = replicate 64 (CHR ''a''), j_network = ''preview'',
     j_contractAddress = ''c1'', j_circuit = ''castVote'', j_action = Vote, j_status = Authorized,
     j_transitions = [Authorized], j_dustReservationId = None, j_transactionId = None, j_receipt = None,
     j_errorCode = None, j_createdAt = ''1970-01-01T00:00:00.000Z'', j_updatedAt = ''1970-01-01T00:00:00.000Z'' \<rparr>"

lemma demo_accept_as:
  assumes "authorize demo_sha demo_hmac demo_opts ''now'' 5 body h = Inr (demo_request, demo_new, demo_reservation)"
  shows "accept (pg_store (\<lambda>_. 0)) demo_sha demo_hmac demo_opts ''now'' 5 body h (boot pg_empty [])
     = (demo_accepted, Inr (publicJob demo_job))"
  unfolding accept_def assms by code_simp

lemma demo_accept:
  "fst (accept (pg_store (\<lambda>_. 0)) demo_sha demo_hmac demo_opts ''now'' 5 demo_body demo_headers (boot pg_empty []))
     = demo_accepted"
  using demo_accept_as [OF demo_authorize] by simp

lemma demo_wallet:
  "sv_submitted (wallet_turn (pg_store (\<lambda>_. 0)) demo_executor 2000 ''later'' ''u1'' demo_accepted) = [(''a1'', ''00fff'')]"
  by code_simp

abbreviation demo_done :: "pg_state service" where
  "demo_done \<equiv> wallet_turn (pg_store (\<lambda>_. 0)) demo_executor 2000 ''later'' ''u1'' demo_accepted"

lemma demo_run:
  "service_run (pg_store (\<lambda>_. 0)) pg_lookup demo_sha demo_hmac demo_opts (boot pg_empty []) demo_done"
proof (rule sr_wallet)
  obtain sv2 r where a: "accept (pg_store (\<lambda>_. 0)) demo_sha demo_hmac demo_opts ''now'' 5 demo_body demo_headers
      (boot pg_empty []) = (sv2, r)" by (cases rule: prod.exhaust)
  then have "sv2 = demo_accepted" using demo_accept by (metis fst_conv)
  then show "service_run (pg_store (\<lambda>_. 0)) pg_lookup demo_sha demo_hmac demo_opts (boot pg_empty []) demo_accepted"
    using sr_accept [OF sr_refl a] by simp
  show "j_dustReservationId j \<noteq> Some (i @ '':'' @ ''u1'')" if "pg_lookup (sv_store demo_accepted) k = Some j" for i k j
    using that by (auto simp: pg_lookup_def demo_accepted_def rowToJob_def demo_row_def split: if_splits)
qed

lemma service_ok_boot: "service_ok pg_inv pg_lookup (boot pg_empty [])"
  using pg.empty_law by (simp add: service_ok_def boot_def journal_ok_def)

section \<open>Properties\<close>



text \<open>
  C8: Over the same life, the journal stays well-formed: every job's history starts
  at \<open>authorized\<close>, only moves forward and ends at its status, a receipt is present
  exactly on confirmed jobs, an error code exactly on failed or recovery-required
  ones, and at most one job holds the DUST lease.
\<close>

theorem relay_journal_well_formed:
  assumes "service_run (pg_store tz) pg_lookup sha256 hmac opts (boot pg_empty []) sv"
    and "\<And>x. is_hex64 (sha256 x)"
  shows "journal_ok (pg_lookup (sv_store sv))"
  using pg.service_run_ok [OF assms service_ok_boot] by (simp add: service_ok_def)

theorem relay_journal_well_formed_witness:
  "journal_ok (pg_lookup (sv_store demo_done)) \<and> map fst (sv_submitted demo_done) = [''a1'']"
  using relay_journal_well_formed [OF demo_run demo_sha_hex] demo_wallet by simp

definition one_lease :: "(string \<Rightarrow> job option) \<Rightarrow> bool" where
  "one_lease lk = (\<forall>i j i' j'. lk i = Some j \<longrightarrow> lk i' = Some j' \<longrightarrow> lease_holder (j_status j)
     \<longrightarrow> lease_holder (j_status j') \<longrightarrow> i = i')"

lemma journal_ok_one_lease: "journal_ok lk \<Longrightarrow> one_lease lk"
  unfolding journal_ok_def one_lease_def by blast

text \<open>
  C9: Whatever the interleaving of the store calls of any number of handlers and
  processes, on PostgreSQL, on the state file and in memory, at most one job holds
  the relayer's DUST lease.
\<close>

theorem dust_lease_exclusive:
  "(journal_run (pg_store tz) pg_lookup pg_empty s \<longrightarrow> one_lease (pg_lookup s))
   \<and> (journal_run file_store file_lookup Missing f \<longrightarrow> one_lease (file_lookup f))
   \<and> (journal_run mem_store mem_lookup mem_empty m \<longrightarrow> one_lease (mem_lookup m))"
  using pg.journal_reachable fstore.journal_reachable mem.journal_reachable journal_ok_one_lease by blast

lemma demo_wf_new: "wf_new demo_new"
  by code_simp

lemma demo_journal_run: "journal_run mem_store mem_lookup mem_empty (run_call mem_store ''now'' mem_empty (CreateCall demo_new))"
  by (rule journal_run_call) (simp add: demo_wf_new)

theorem dust_lease_exclusive_witness:
  "one_lease (mem_lookup (run_call mem_store ''now'' mem_empty (CreateCall demo_new)))"
  using dust_lease_exclusive demo_journal_run by blast

text \<open>
  Under any interleaving of store calls on PostgreSQL a job is never removed, its
  identity (keys, digests, network, contract, circuit, action) never changes, its
  history only grows, and once it is confirmed, failed or recovery-required it is
  never written again.
\<close>

theorem journal_is_append_only:
  assumes "journal_run (pg_store tz) pg_lookup s s'" "pg_inv s" "pg_lookup s i = Some j"
  shows "\<exists>j'. pg_lookup s' i = Some j' \<and> same_identity j j' \<and> (\<exists>ts. j_transitions j' = j_transitions j @ ts)
    \<and> (terminal (j_status j) \<longrightarrow> j' = j)"
  using pg.journal_keeps [OF assms] .

lemma demo_row_reads: "rowToJob demo_row = Inr demo_job"
  by code_simp

lemma demo_lookup: "pg_lookup (sv_store demo_accepted) = [''a1'' \<mapsto> demo_job]"
  using demo_row_reads by (auto simp: pg_lookup_def demo_accepted_def fun_eq_iff)

lemma demo_inv: "pg_inv (sv_store demo_accepted)"
proof -
  have "w_transitions demo_row = JArr (map status_json [Authorized])" by code_simp
  then have "row_ok demo_row" unfolding row_ok_def by (intro conjI exI [of _ "[Authorized]"]) (simp_all add: demo_row_def)
  moreover have "table_ok (pg_lookup (sv_store demo_accepted))"
    unfolding demo_lookup by (auto simp: table_ok_def unique_jobs_def demo_job_def split: if_splits)
  ultimately show ?thesis by (simp add: pg_inv_def demo_accepted_def keys_ok_def demo_row_def)
qed

theorem journal_is_append_only_witness:
  "\<exists>j'. pg_lookup (run_call (pg_store (\<lambda>_. 0)) ''now'' (sv_store demo_accepted) (ValidateCall ''a1'')) ''a1'' = Some j'
     \<and> same_identity demo_job j'"
proof -
  have run: "journal_run (pg_store (\<lambda>_. 0)) pg_lookup (sv_store demo_accepted)
      (run_call (pg_store (\<lambda>_. 0)) ''now'' (sv_store demo_accepted) (ValidateCall ''a1''))"
    by (rule journal_run_call) simp
  have lk: "pg_lookup (sv_store demo_accepted) ''a1'' = Some demo_job" by (simp add: demo_lookup)
  from journal_is_append_only [OF run demo_inv lk] show ?thesis by blast
qed

text \<open>
  A wallet stage that is not disturbed (its job is authorised, nobody holds the
  lease, the wallet balances and the node answers with an id that agrees with the
  derived one) moves its job through every status to \<open>indexer_pending\<close> with that
  transaction id, submits exactly the finalised bytes, and schedules a
  reconciliation.
\<close>

theorem wallet_stage_completes:
  assumes "pg_inv (sv_store sv)" "pg_lookup (sv_store sv) i = Some j" "j_status j = Authorized"
    and "map_of (sv_transient sv) i = Some u" "\<not> leased (pg_lookup (sv_store sv))"
    and "\<And>k h. pg_lookup (sv_store sv) k = Some h \<Longrightarrow> j_dustReservationId h \<noteq> Some (i @ '':'' @ uuid)"
    and "ex_balanceAndFinalize ex u = Some f" "requireTransactionId (ex_submit ex f) = Some t"
    and "truthy_str (ex_transactionId ex f) = None \<or> truthy_str (ex_transactionId ex f) = Some t"
  shows "\<exists>sv' j'. runWalletStage (pg_store tz) ex retry now uuid i sv = sv'
    \<and> pg_lookup (sv_store sv') = (pg_lookup (sv_store sv))(i \<mapsto> j')
    \<and> j_status j' = IndexerPending \<and> j_transactionId j' = Some t
    \<and> j_transitions j' = j_transitions j @ [Validated, DustReserved, Finalized, Submitted, IndexerPending]
    \<and> sv_submitted sv' = sv_submitted sv @ [(i, f)] \<and> sv_timers sv' = sv_timers sv @ [ReconcileTimer i 0]"
  using pg.wallet_stage_success [OF assms(1) _ assms(2-)] by simp

theorem wallet_stage_completes_witness:
  "\<exists>j'. pg_lookup (sv_store (runWalletStage (pg_store (\<lambda>_. 0)) demo_executor 2000 ''later'' ''u1'' ''a1'' demo_accepted)) ''a1''
     = Some j' \<and> j_status j' = IndexerPending \<and> j_transactionId j' = Some ''t1''"
proof -
  have "\<exists>sv' j'. runWalletStage (pg_store (\<lambda>_. 0)) demo_executor 2000 ''later'' ''u1'' ''a1'' demo_accepted = sv'
    \<and> pg_lookup (sv_store sv') = (pg_lookup (sv_store demo_accepted))(''a1'' \<mapsto> j')
    \<and> j_status j' = IndexerPending \<and> j_transactionId j' = Some ''t1''
    \<and> j_transitions j' = j_transitions demo_job @ [Validated, DustReserved, Finalized, Submitted, IndexerPending]
    \<and> sv_submitted sv' = sv_submitted demo_accepted @ [(''a1'', ''00fff'')]
    \<and> sv_timers sv' = sv_timers demo_accepted @ [ReconcileTimer ''a1'' 0]"
  proof (rule wallet_stage_completes [OF demo_inv])
    show "pg_lookup (sv_store demo_accepted) ''a1'' = Some demo_job" by (simp add: demo_lookup)
    show "map_of (sv_transient demo_accepted) ''a1'' = Some ''00ff''" by (simp add: demo_accepted_def)
    show "\<not> leased (pg_lookup (sv_store demo_accepted))"
      by (simp add: demo_lookup leased_def demo_job_def lease_holder_def)
    show "j_dustReservationId h \<noteq> Some (''a1'' @ '':'' @ ''u1'')" if "pg_lookup (sv_store demo_accepted) k = Some h" for k h
      using that by (auto simp: demo_lookup demo_job_def split: if_splits)
  qed (simp_all add: demo_job_def demo_executor_def requireTransactionId_def blank_iff is_ws_def)
  then show ?thesis by auto
qed

text \<open>
  A retry of an accepted request with its capability answers with the journalled
  job and changes no job, whatever the job's status.
\<close>

theorem accept_is_idempotent:
  assumes "pg_inv (sv_store sv)" "\<And>x. is_hex64 (sha256 x)"
    and "authorize sha256 hmac opts now nowSeconds body headers = Inr (q, n, k)"
    and "pg_lookup (sv_store sv) (n_id n) = Some j" "j_idempotencyKey j = n_idempotencyKey n"
    and "j_requestHash j = n_requestHash n" "j_capabilityDigest j = n_capabilityDigest n"
  shows "\<exists>sv'. accept (pg_store tz) sha256 hmac opts now nowSeconds body headers sv = (sv', Inr (publicJob j))
    \<and> pg_lookup (sv_store sv') = pg_lookup (sv_store sv)"
  using pg.accept_retry [OF assms] .

theorem accept_is_idempotent_witness:
  "\<exists>sv'. accept (pg_store (\<lambda>_. 0)) demo_sha demo_hmac demo_opts ''now'' 5 demo_body demo_headers demo_accepted
      = (sv', Inr (publicJob demo_job))
    \<and> pg_lookup (sv_store sv') = pg_lookup (sv_store demo_accepted)"
  by (rule accept_is_idempotent [OF demo_inv demo_sha_hex demo_authorize])
     (simp_all add: demo_lookup demo_new_def demo_job_def)

text \<open>A second job of the demo relay, which holds the lease, and stores with one or both jobs.\<close>

definition demo_held :: "V2ActionJobStatus \<Rightarrow> string option \<Rightarrow> pg_row" where
  "demo_held s t = demo_row \<lparr> w_id := ''a2'', w_idempotency_key := ''k2'', w_request_hash := replicate 64 (CHR ''b''),
     w_status := s, w_transitions := JArr (map status_json [Authorized, s]), w_dust_reservation_id := Some ''r2'',
     w_transaction_id := t \<rparr>"

definition demo_held_job :: "V2ActionJobStatus \<Rightarrow> string option \<Rightarrow> job" where
  "demo_held_job s t = demo_job \<lparr> j_id := ''a2'', j_idempotencyKey := ''k2'', j_requestHash := replicate 64 (CHR ''b''),
     j_status := s, j_transitions := [Authorized, s], j_dustReservationId := Some ''r2'', j_transactionId := t \<rparr>"

definition demo_one :: "V2ActionJobStatus \<Rightarrow> string option \<Rightarrow> pg_state service" where
  "demo_one s t = boot \<lparr> pg_jobs = [(''a2'', demo_held s t)], pg_capabilities = [] \<rparr> []"

definition demo_two :: "V2ActionJobStatus \<Rightarrow> string option \<Rightarrow> pg_state service" where
  "demo_two s t = (boot \<lparr> pg_jobs = [(''a1'', demo_row), (''a2'', demo_held s t)], pg_capabilities = [] \<rparr> [])
     \<lparr> sv_transient := [(''a1'', ''00ff'')] \<rparr>"

lemma parseTransitions_json: "ts \<noteq> [] \<Longrightarrow> pg_parseTransitions (JArr (map status_json ts)) s = ts"
  by (simp add: pg_parseTransitions_def)

lemma demo_held_reads: "t \<noteq> Some [] \<Longrightarrow> rowToJob (demo_held s t) = Inr (demo_held_job s t)"
proof -
  have "pg_parseTransitions (JArr (map status_json [Authorized, s])) s = [Authorized, s]"
    by (rule parseTransitions_json) simp
  moreover have "toISOString 0 = ''1970-01-01T00:00:00.000Z''" by code_simp
  moreover assume "t \<noteq> Some []"
  ultimately show ?thesis
    by (simp add: rowToJob_def demo_held_def demo_held_job_def demo_row_def demo_job_def truthy_str_nonempty)
qed

lemma demo_one_lookup: "t \<noteq> Some [] \<Longrightarrow> pg_lookup (sv_store (demo_one s t)) = [''a2'' \<mapsto> demo_held_job s t]"
  by (auto simp: demo_one_def boot_def pg_lookup_def demo_held_reads fun_eq_iff)

lemma demo_two_lookup:
  "t \<noteq> Some [] \<Longrightarrow> pg_lookup (sv_store (demo_two s t)) = [''a1'' \<mapsto> demo_job, ''a2'' \<mapsto> demo_held_job s t]"
  using demo_row_reads by (auto simp: demo_two_def boot_def pg_lookup_def demo_held_reads fun_eq_iff)

lemma demo_rows_ok: "row_ok demo_row" "t \<noteq> Some [] \<Longrightarrow> row_ok (demo_held s t)"
proof -
  have "w_transitions demo_row = JArr (map status_json [Authorized])" by code_simp
  then show "row_ok demo_row" unfolding row_ok_def
    by (intro conjI exI [of _ "[Authorized]"]) (simp_all add: demo_row_def)
  show "row_ok (demo_held s t)" if "t \<noteq> Some []"
    unfolding row_ok_def using that
    by (intro conjI exI [of _ "[Authorized, s]"]) (simp_all add: demo_held_def demo_row_def)
qed

lemma demo_jobs_differ:
  "j_id demo_job = ''a1''" "j_id (demo_held_job s t) = ''a2''" "j_receipt demo_job = None"
  "j_receipt (demo_held_job s t) = None" "j_idempotencyKey demo_job \<noteq> j_idempotencyKey (demo_held_job s t)"
  "j_requestHash demo_job \<noteq> j_requestHash (demo_held_job s t)"
  "j_idempotencyKey (demo_held_job s t) \<noteq> j_idempotencyKey demo_job"
  "j_requestHash (demo_held_job s t) \<noteq> j_requestHash demo_job"
  by (simp_all add: demo_job_def demo_held_job_def)

lemma demo_one_inv: "t \<noteq> Some [] \<Longrightarrow> pg_inv (sv_store (demo_one s t))"
  using demo_one_lookup [of t s] demo_rows_ok(2) [of t s]
  by (auto simp: demo_jobs_differ pg_inv_def demo_one_def boot_def keys_ok_def table_ok_def unique_jobs_def demo_held_def split: if_splits)

lemma demo_two_inv: "t \<noteq> Some [] \<Longrightarrow> pg_inv (sv_store (demo_two s t))"
  using demo_two_lookup [of t s] demo_rows_ok(2) [of t s] demo_rows_ok(1)
  by (auto simp: demo_jobs_differ pg_inv_def demo_two_def boot_def keys_ok_def table_ok_def unique_jobs_def demo_held_def demo_row_def
      split: if_splits)

text \<open>
  C10: When a reconciliation confirms a job on PostgreSQL, the indexer answered about
  the very transaction the journal holds for it: the answer was successful, carried
  that transaction id, touched the job's contract, and the receipt stored names the
  job's transaction, contract, circuit, action and network.
\<close>

theorem confirmation_is_bound:
  assumes "pg_inv (sv_store sv)" "pg_lookup (sv_store sv) i = Some j" "j_status j \<noteq> Confirmed"
    and "reconcile (pg_store tz) (resolve date_parse explorer answer) retry now i sv = (sv', r)"
    and "pg_lookup (sv_store sv') i = Some j'" "j_status j' = Confirmed"
  shows "\<exists>rc t payload tx. j_receipt j' = Some rc \<and> j_transactionId j = Some t \<and> answer = Response True payload
    \<and> transactionFrom payload = Inr (Some tx) \<and> t \<in> set (t_identifiers tx) \<and> t_status tx = ''SUCCESS''
    \<and> j_contractAddress j \<in> set (t_contractActions tx) \<and> r_transactionId rc = t
    \<and> r_contractAddress rc = j_contractAddress j \<and> r_circuit rc = j_circuit j \<and> r_action rc = j_action j
    \<and> network_str (r_network rc) = j_network j"
proof -
  let ?resolver = "resolve date_parse explorer answer"
  have wf: "wf_receipt rc" if "?resolver inp = Inr (Some rc)" for inp rc
    using that by (rule resolve_Some) (rule receipt_of_transaction_Some)
  have "\<exists>t rc. j_transactionId j = Some t \<and> ?resolver (resolve_input_of j t) = Inr (Some rc) \<and> j_receipt j' = Some rc"
    by (rule pg.reconcile_confirms [where resolver = ?resolver, OF assms(1) _ assms(2,3) _ assms(4-6)]) (simp_all add: wf)
  then obtain t rc where t: "j_transactionId j = Some t" "?resolver (resolve_input_of j t) = Inr (Some rc)"
    "j_receipt j' = Some rc" by blast
  obtain payload tx where p: "answer = Response True payload" "transactionFrom payload = Inr (Some tx)"
    and b: "receipt_of_transaction date_parse explorer (resolve_input_of j t) tx = Inr (Some rc)"
    by (rule resolve_Some [OF t(2)])
  then show ?thesis
    using t receipt_of_transaction_Some [OF b]
    by (intro exI [of _ rc] exI [of _ t] exI [of _ payload] exI [of _ tx]) (simp add: resolve_input_of_def)
qed

lemma demo_confirmed:
  "map_option j_status (pg_lookup (sv_store (fst (reconcile (pg_store (\<lambda>_. 0))
      (resolve (\<lambda>_. None) None (Response True (sample_payload ''SUCCESS''))) 2000 ''now'' ''a2''
      (demo_one IndexerPending (Some ''t1''))))) ''a2'') = Some Confirmed"
  by code_simp

theorem confirmation_is_bound_witness:
  "\<exists>tx. transactionFrom (sample_payload ''SUCCESS'') = Inr (Some tx) \<and> ''t1'' \<in> set (t_identifiers tx)"
proof -
  obtain sv' r where c: "reconcile (pg_store (\<lambda>_. 0)) (resolve (\<lambda>_. None) None (Response True (sample_payload ''SUCCESS'')))
      2000 ''now'' ''a2'' (demo_one IndexerPending (Some ''t1'')) = (sv', r)"
    by (cases rule: prod.exhaust)
  obtain j' where j': "pg_lookup (sv_store sv') ''a2'' = Some j'" "j_status j' = Confirmed"
    using demo_confirmed unfolding c by auto
  have "pg_lookup (sv_store (demo_one IndexerPending (Some ''t1''))) ''a2'' = Some (demo_held_job IndexerPending (Some ''t1''))"
    "j_status (demo_held_job IndexerPending (Some ''t1'')) \<noteq> Confirmed" "pg_inv (sv_store (demo_one IndexerPending (Some ''t1'')))"
    by (simp_all add: demo_one_lookup demo_one_inv demo_held_job_def)
  from confirmation_is_bound [OF this(3,1,2) c j'] show ?thesis by (auto simp: demo_held_job_def)
qed

text \<open>
  A job that becomes \<open>validated\<close> while another job holds the DUST lease is
  stranded: its stage stops and sets a rerun timer, but on every later state of the
  journal the rerun does nothing, because it only takes up \<open>authorized\<close> jobs.
\<close>

theorem lease_waiter_is_stranded:
  assumes "pg_inv (sv_store sv)" "pg_lookup (sv_store sv) i = Some j" "j_status j = Authorized"
    and "map_of (sv_transient sv) i = Some u" "leased (pg_lookup (sv_store sv))"
    and "\<And>k h. pg_lookup (sv_store sv) k = Some h \<Longrightarrow> j_dustReservationId h \<noteq> Some (i @ '':'' @ uuid)"
    and "runWalletStage (pg_store tz) ex retry now uuid i sv = sv'"
  shows "sv_timers sv' = sv_timers sv @ [RunTimer i retry] \<and> sv_submitted sv' = sv_submitted sv
    \<and> (\<exists>j'. pg_lookup (sv_store sv') i = Some j' \<and> j_status j' = Validated)
    \<and> (\<forall>later ex' retry' now' uuid'. journal_run (pg_store tz) pg_lookup (sv_store sv') (sv_store later)
         \<longrightarrow> runWalletStage (pg_store tz) ex' retry' now' uuid' i later = later)"
proof -
  have "\<exists>sv' j'. runWalletStage (pg_store tz) ex retry now uuid i sv = sv' \<and> pg_inv (sv_store sv')
    \<and> pg_lookup (sv_store sv') i = Some j' \<and> j_status j' = Validated
    \<and> sv_timers sv' = sv_timers sv @ [RunTimer i retry] \<and> sv_submitted sv' = sv_submitted sv"
    by (rule pg.stage_without_lease [OF assms(1) _ assms(2-5)]) (simp, rule assms(6))
  then obtain j' where j': "pg_inv (sv_store sv')" "pg_lookup (sv_store sv') i = Some j'" "j_status j' = Validated"
    "sv_timers sv' = sv_timers sv @ [RunTimer i retry]" "sv_submitted sv' = sv_submitted sv"
    using assms(7) by auto
  then show ?thesis using pg.stage_never_resumes [OF j'(1) _ j'(2,3)] by simp
qed

theorem lease_waiter_is_stranded_witness:
  "\<exists>j'. pg_lookup (sv_store (runWalletStage (pg_store (\<lambda>_. 0)) demo_executor 2000 ''now'' ''u1'' ''a1''
      (demo_two IndexerPending (Some ''t1'')))) ''a1'' = Some j' \<and> j_status j' = Validated"
proof -
  let ?sv = "demo_two IndexerPending (Some ''t1'')"
  have lk: "pg_lookup (sv_store ?sv) = [''a1'' \<mapsto> demo_job, ''a2'' \<mapsto> demo_held_job IndexerPending (Some ''t1'')]"
    by (simp add: demo_two_lookup)
  have "leased (pg_lookup (sv_store ?sv))"
    unfolding lk leased_def
    by (intro exI [of _ "''a2''"] exI [of _ "demo_held_job IndexerPending (Some ''t1'')"])
       (simp add: lease_holder_def demo_held_job_def)
  moreover have "map_of (sv_transient ?sv) ''a1'' = Some ''00ff''" by (simp add: demo_two_def boot_def)
  moreover have "pg_lookup (sv_store ?sv) ''a1'' = Some demo_job" unfolding lk by simp
  moreover have "j_status demo_job = Authorized" by (simp add: demo_job_def)
  moreover have "j_dustReservationId h \<noteq> Some (''a1'' @ '':'' @ ''u1'')" if "pg_lookup (sv_store ?sv) k = Some h" for k h
    using that unfolding lk by (auto simp: demo_job_def demo_held_job_def split: if_splits)
  ultimately show ?thesis
    using lease_waiter_is_stranded [of ?sv "''a1''" demo_job "''00ff''" "''u1''" "\<lambda>_. 0" demo_executor 2000 "''now''"]
    by (simp add: demo_two_inv)
qed

text \<open>
  A job journalled as \<open>submitted\<close> whose transaction id was not recorded is
  skipped by the start-up recovery: it stays as it is, no reconciliation is
  scheduled for it, and no other job can obtain the DUST lease it keeps.
\<close>

theorem submitted_without_id_is_skipped:
  assumes "pg_inv (sv_store sv)" "pg_lookup (sv_store sv) i = Some j"
    and "j_status j = Submitted" "j_transactionId j = None"
  shows "pg_lookup (sv_store (start (pg_store tz) now sv)) i = Some j
    \<and> (\<forall>d. ReconcileTimer i d \<in> set (sv_timers (start (pg_store tz) now sv)) \<longrightarrow> ReconcileTimer i d \<in> set (sv_timers sv))
    \<and> leased (pg_lookup (sv_store (start (pg_store tz) now sv)))"
  using pg.start_skips_submitted [OF assms] assms(3) by (auto simp: leased_def lease_holder_def)

theorem submitted_without_id_is_skipped_witness:
  "leased (pg_lookup (sv_store (start (pg_store (\<lambda>_. 0)) ''now'' (demo_one Submitted None))))"
  using submitted_without_id_is_skipped [of "demo_one Submitted None" "''a2''" "demo_held_job Submitted None"]
  by (simp add: demo_one_inv demo_one_lookup demo_held_job_def demo_job_def)

end
