(* ===== verification/V2_Http.thy ===== *)
theory V2_Http
  imports V2_Service
begin

text \<open>
  The walletless HTTP surface of the relay (\<open>relayer/src/v2-http.ts\<close>). A request
  is its method, the path name of its URL, the headers the handler reads (a header
  that is absent or repeated reads as \<open>undefined\<close>; Node's parser has removed line
  terminators) and its body as the chunks of bytes that arrive. An answer is the
  status and the JSON object sent; \<^const>\<open>None\<close> means that the path is not handled
  here. A body is in the model when its text has code units below 256.
\<close>

section \<open>Requests\<close>

record http_request =
  hr_method :: string
  hr_pathname :: string
  hr_authorization :: "string option"
  hr_idempotency :: "string option"
  hr_request_hash :: "string option"
  hr_capability :: "string option"
  hr_chunks :: "string list"

record http_response =
  ha_status :: int
  ha_body :: json

datatype http_error = RequestBodyError | BodySyntaxError | BodyTypeError | ServiceError v2_error

definition MAX_BODY_BYTES :: nat where
  "MAX_BODY_BYTES = 2 * 1024 * 1024"

text \<open>The loop of \<open>readJson\<close> over the chunks.\<close>

fun read_chunks :: "nat \<Rightarrow> string list \<Rightarrow> string list \<Rightarrow> (http_error, string list) result" where
  "read_chunks seen chunks [] = Inr chunks"
| "read_chunks seen chunks (c # cs) =
     (let seen' = seen + length c in
      if seen' > MAX_BODY_BYTES then Inl RequestBodyError else read_chunks seen' (chunks @ [c]) cs)"

definition http_readJson :: "http_request \<Rightarrow> (http_error, json) result" where
  "http_readJson req =
     rbind (read_chunks 0 [] (hr_chunks req)) (\<lambda>chunks.
       if chunks = [] then Inr (JObj [])
       else (case Option.bind (utf8_decode (concat chunks)) json_parse of
           None \<Rightarrow> Inl BodySyntaxError
         | Some v \<Rightarrow> Inr v))"

text \<open>
  \<open>/^Bearer\s+(.+)$/iu\<close>: the group is what follows the white space, or its last
  character when nothing else follows.
\<close>

definition bearer_token :: "string \<Rightarrow> string option" where
  "bearer_token v =
     (if toLowerCase (take 6 v) \<noteq> ''bearer'' then None
      else let rest = drop 6 v; blanks = takeWhile is_ws rest; token = dropWhile is_ws rest
           in if blanks = [] then None
              else if token \<noteq> [] then Some token
              else if length blanks \<ge> 2 then Some [last blanks] else None)"

definition authorizeOptionalServiceToken :: "http_request \<Rightarrow> string \<Rightarrow> bool" where
  "authorizeOptionalServiceToken req expectedToken =
     (if expectedToken = [] then True
      else (case truthy_str (hr_authorization req) of
          None \<Rightarrow> True
        | Some value \<Rightarrow>
            (case bearer_token value of
               None \<Rightarrow> False
             | Some token \<Rightarrow>
                 let provided = utf8 token; expected = utf8 expectedToken
                 in length provided = length expected \<and> provided = expected)))"

text \<open>\<open>decodeURIComponent\<close>: percent escapes are bytes of UTF-8; a malformed escape throws.\<close>

fun percent_bytes :: "string \<Rightarrow> string option" where
  "percent_bytes [] = Some []"
| "percent_bytes (c # cs) =
     (if c = CHR ''%'' then
        (case cs of
           h # l # ds \<Rightarrow>
             if any_hex h \<and> any_hex l
             then map_option ((#) (char_of (16 * hex_val h + hex_val l))) (percent_bytes ds)
             else None
         | _ \<Rightarrow> None)
      else map_option ((@) (utf8_char c)) (percent_bytes cs))"

definition decodeURIComponent :: "string \<Rightarrow> string option" where
  "decodeURIComponent s = Option.bind (percent_bytes s) utf8_decode"

definition http_decode :: "string \<Rightarrow> (http_error, string) result" where
  "http_decode s = (case decodeURIComponent s of
     Some t \<Rightarrow> Inr t
   | None \<Rightarrow> Inl (ServiceError (V2ActionError Invalid_request 400)))"

text \<open>\<open>/^\/v2\/actions\/([^/]+)$/u\<close> and its twin for receipts.\<close>

definition path_match :: "string \<Rightarrow> string \<Rightarrow> string option" where
  "path_match prefix path =
     (let rest = drop (length prefix) path in
      if take (length prefix) path = prefix \<and> rest \<noteq> [] \<and> CHR ''/'' \<notin> set rest then Some rest else None)"

section \<open>The handler\<close>

definition send_error :: "int \<Rightarrow> string \<Rightarrow> http_response" where
  "send_error status code = \<lparr> ha_status = status, ha_body = JObj [(''error'', JStr code)] \<rparr>"

text \<open>
  The \<open>catch\<close> clause. A \<open>SyntaxError\<close> is also what a state file that is not JSON
  raises.
\<close>

definition http_failure :: "http_error \<Rightarrow> http_response" where
  "http_failure e = (case e of
     ServiceError (V2ActionError code status) \<Rightarrow> send_error status (code_str code)
   | BodySyntaxError \<Rightarrow> send_error 400 ''invalid_request''
   | RequestBodyError \<Rightarrow> send_error 400 ''invalid_request''
   | ServiceError (OtherError m) \<Rightarrow>
       if m = ''SyntaxError'' then send_error 400 ''invalid_request'' else send_error 500 ''internal_error''
   | _ \<Rightarrow> send_error 500 ''internal_error'')"

text \<open>\<open>POST /v2/actions\<close>. Reading a property of \<open>null\<close> throws.\<close>

definition post_action ::
  "'s v2_store \<Rightarrow> (string \<Rightarrow> string) \<Rightarrow> (string \<Rightarrow> string \<Rightarrow> string) \<Rightarrow> service_options \<Rightarrow> string \<Rightarrow> int
     \<Rightarrow> http_request \<Rightarrow> 's service \<Rightarrow> 's service \<times> http_response" where
  "post_action ops sha256 hmac opts now nowSeconds req sv =
     (case http_readJson req of
        Inl e \<Rightarrow> (sv, http_failure e)
      | Inr body \<Rightarrow>
          if body = JNull then (sv, http_failure BodyTypeError)
          else if fld body ''circuit'' \<noteq> Some (JStr ''castVote'')
            \<or> (fld body ''action'' \<noteq> None \<and> fld body ''action'' \<noteq> Some (JStr ''vote''))
          then (sv, send_error 403 ''not_allowlisted'')
          else (case accept ops sha256 hmac opts now nowSeconds body
                \<lparr> h_idempotencyKey = hr_idempotency req, h_requestHash = hr_request_hash req,
                  h_capability = hr_capability req \<rparr> sv of
              (sv', Inl e) \<Rightarrow> (sv', http_failure (ServiceError e))
            | (sv', Inr job) \<Rightarrow>
                (sv', \<lparr> ha_status = (if b_status job = PubConfirmed then 200 else 202), ha_body = public_job_json job \<rparr>)))"

definition get_action_route ::
  "'s v2_store \<Rightarrow> (resolve_input \<Rightarrow> (v2_error, receipt option) result) \<Rightarrow> nat \<Rightarrow> string \<Rightarrow> string
     \<Rightarrow> 's service \<Rightarrow> 's service \<times> http_response" where
  "get_action_route ops resolver retryMs now segment sv =
     (case http_decode segment of
        Inl e \<Rightarrow> (sv, http_failure e)
      | Inr actionId \<Rightarrow>
          (case get_action ops resolver retryMs now actionId sv of
             (sv', Inl e) \<Rightarrow> (sv', http_failure (ServiceError e))
           | (sv', Inr None) \<Rightarrow> (sv', send_error 404 ''not_found'')
           | (sv', Inr (Some job)) \<Rightarrow> (sv', \<lparr> ha_status = 200, ha_body = public_job_json job \<rparr>)))"

definition get_receipt_route ::
  "'s v2_store \<Rightarrow> (resolve_input \<Rightarrow> (v2_error, receipt option) result) \<Rightarrow> nat \<Rightarrow> string \<Rightarrow> string
     \<Rightarrow> 's service \<Rightarrow> 's service \<times> http_response" where
  "get_receipt_route ops resolver retryMs now segment sv =
     (case http_decode segment of
        Inl e \<Rightarrow> (sv, http_failure e)
      | Inr actionId \<Rightarrow>
          (case get_action ops resolver retryMs now actionId sv of
             (sv1, Inl e) \<Rightarrow> (sv1, http_failure (ServiceError e))
           | (sv1, Inr None) \<Rightarrow> (sv1, send_error 404 ''not_found'')
           | (sv1, Inr (Some job)) \<Rightarrow>
               (case getReceipt ops resolver retryMs now actionId sv1 of
                  (sv2, Inl e) \<Rightarrow> (sv2, http_failure (ServiceError e))
                | (sv2, Inr (Some receipt)) \<Rightarrow> (sv2, \<lparr> ha_status = 200, ha_body = receipt_json receipt \<rparr>)
                | (sv2, Inr None) \<Rightarrow>
                    if b_status job = PubFailed \<or> b_status job = PubRecoveryRequired
                    then (sv2, \<lparr> ha_status = 409, ha_body = JObj [(''error'', JStr ''receipt_unavailable''),
                        (''status'', JStr (public_status_str (b_status job)))] \<rparr>)
                    else (sv2, \<lparr> ha_status = 202, ha_body = JObj ([(''actionId'', JStr actionId), (''status'', JStr ''pending'')]
                        @ opt_prop ''transactionId'' JStr (truthy_str (b_transactionId job))) \<rparr>))))"

text \<open>
  \<open>enabled\<close> says whether the service was started; the capability secret and the
  optional service token come from the configuration.
\<close>

definition handleV2Route ::
  "'s v2_store \<Rightarrow> (string \<Rightarrow> string) \<Rightarrow> (string \<Rightarrow> string \<Rightarrow> string)
     \<Rightarrow> (resolve_input \<Rightarrow> (v2_error, receipt option) result) \<Rightarrow> service_options \<Rightarrow> bool \<Rightarrow> string
     \<Rightarrow> string \<Rightarrow> int \<Rightarrow> http_request \<Rightarrow> 's service \<Rightarrow> 's service \<times> http_response option" where
  "handleV2Route ops sha256 hmac resolver opts enabled serviceAuthToken now nowSeconds req sv =
     (let path = hr_pathname req in
      if take 4 path \<noteq> ''/v2/'' then (sv, None)
      else if so_capabilitySecret opts = [] \<or> \<not> enabled then (sv, Some (send_error 503 ''v2_disabled''))
      else if \<not> authorizeOptionalServiceToken req serviceAuthToken then (sv, Some (send_error 401 ''unauthorized''))
      else apsnd Some
        (if hr_method req = ''POST'' \<and> path = ''/v2/actions''
         then post_action ops sha256 hmac opts now nowSeconds req sv
         else if hr_method req = ''GET'' \<and> path_match ''/v2/actions/'' path \<noteq> None
         then get_action_route ops resolver (so_confirmationRetryMs opts) now (the (path_match ''/v2/actions/'' path)) sv
         else if hr_method req = ''GET'' \<and> path_match ''/v2/receipts/'' path \<noteq> None
         then get_receipt_route ops resolver (so_confirmationRetryMs opts) now (the (path_match ''/v2/receipts/'' path)) sv
         else (sv, send_error 404 ''not_found'')))"

section \<open>Lemmas\<close>

lemma read_chunks_ok:
  "seen + length (concat cs) \<le> MAX_BODY_BYTES \<Longrightarrow> read_chunks seen chunks cs = Inr (chunks @ cs)"
  by (induction seen chunks cs rule: read_chunks.induct) (auto simp: Let_def)

lemma read_chunks_large:
  "seen \<le> MAX_BODY_BYTES \<Longrightarrow> MAX_BODY_BYTES < seen + length (concat cs) \<Longrightarrow> read_chunks seen chunks cs = Inl RequestBodyError"
  by (induction seen chunks cs rule: read_chunks.induct) (auto simp: Let_def)

lemma hex_pair:
  assumes "n < 256"
  shows "any_hex (upper_hex_digit (n div 16))" "any_hex (upper_hex_digit (n mod 16))"
    "16 * hex_val (upper_hex_digit (n div 16)) + hex_val (upper_hex_digit (n mod 16)) = n"
proof -
  have d: "any_hex (upper_hex_digit m) \<and> hex_val (upper_hex_digit m) = m" if "m < 16" for m
    using that by (auto simp: upper_hex_digit_def any_hex_def hex_val_def Let_def)
  have "n div 16 < 16" "n mod 16 < 16" using assms by auto
  from this [THEN d] show "any_hex (upper_hex_digit (n div 16))" "any_hex (upper_hex_digit (n mod 16))"
    "16 * hex_val (upper_hex_digit (n div 16)) + hex_val (upper_hex_digit (n mod 16)) = n"
    by auto
qed

lemma percent_bytes_percent: "percent_bytes (percent b @ s) = map_option ((#) b) (percent_bytes s)"
proof -
  have "(of_char b :: nat) < 256" by simp
  from hex_pair [OF this] show ?thesis by (simp add: percent_def Let_def)
qed

lemma percent_bytes_percents: "percent_bytes (concat (map percent bs) @ s) = map_option ((@) bs) (percent_bytes s)"
  by (induction bs) (auto simp: percent_bytes_percent option.map_comp comp_def option.map_ident)

lemma percent_bytes_unreserved: "uri_unreserved c \<Longrightarrow> percent_bytes (c # s) = map_option ((@) (utf8_char c)) (percent_bytes s)"
  by (auto simp: uri_unreserved_def Let_def)

lemma percent_bytes_encode: "percent_bytes (encodeURIComponent s) = Some (utf8 s)"
proof (induction s)
  case (Cons c s)
  then have ih: "percent_bytes (concat (map (\<lambda>c. if uri_unreserved c then [c] else concat (map percent (utf8_char c))) s)) = Some (utf8 s)"
    by (simp add: encodeURIComponent_def)
  show ?case
    by (cases "uri_unreserved c")
       (simp_all add: encodeURIComponent_def percent_bytes_unreserved percent_bytes_percents ih utf8_def del: percent_bytes.simps)
qed (simp add: encodeURIComponent_def utf8_def)

lemma decode_encode_uri: "decodeURIComponent (encodeURIComponent s) = Some s"
  by (simp add: decodeURIComponent_def percent_bytes_encode utf8_decode_utf8)

lemma upper_hex_digit_not_slash: "n < 16 \<Longrightarrow> upper_hex_digit n \<noteq> CHR ''/''"
proof -
  have "\<forall>n \<in> set [0..<16]. upper_hex_digit n \<noteq> CHR ''/''" by code_simp
  then show "n < 16 \<Longrightarrow> upper_hex_digit n \<noteq> CHR ''/''" by simp
qed

lemma encode_no_slash: "CHR ''/'' \<notin> set (encodeURIComponent s)"
proof -
  have p: "CHR ''/'' \<notin> set (percent b)" for b
  proof -
    have "(of_char b :: nat) < 16 * 16" by simp
    then have "(of_char b :: nat) div 16 < 16" "(of_char b :: nat) mod 16 < 16"
      by (simp_all only: less_mult_imp_div_less mod_less_divisor zero_less_numeral)
    from this [THEN upper_hex_digit_not_slash] show ?thesis by (auto simp: percent_def Let_def)
  qed
  have u: "\<not> uri_unreserved (CHR ''/'')" by code_simp
  show ?thesis using p u by (auto simp: encodeURIComponent_def split: if_splits)
qed

lemma encode_Nil_iff [simp]: "encodeURIComponent s = [] \<longleftrightarrow> s = []"
  by (cases s) (auto simp: encodeURIComponent_def utf8_char_def percent_def Let_def)

lemma path_match_encoded: "i \<noteq> [] \<Longrightarrow> path_match prefix (prefix @ encodeURIComponent i) = Some (encodeURIComponent i)"
  by (simp add: path_match_def Let_def encode_no_slash)

lemma http_readJson_eq:
  "http_readJson req =
     (if length (concat (hr_chunks req)) > MAX_BODY_BYTES then Inl RequestBodyError
      else if hr_chunks req = [] then Inr (JObj [])
      else case Option.bind (utf8_decode (concat (hr_chunks req))) json_parse of
          None \<Rightarrow> Inl BodySyntaxError | Some v \<Rightarrow> Inr v)"
  using read_chunks_ok [of 0 "hr_chunks req" "[]"] read_chunks_large [of 0 "hr_chunks req" "[]"]
  by (cases "length (concat (hr_chunks req)) > MAX_BODY_BYTES") (simp_all add: http_readJson_def not_less)

text \<open>Of the bodies the receipt route sends only a receipt passes the client's guard.\<close>

lemma receipt_shape:
  "sanitizeCanonicalReceipt (receipt_json rc) = Inr rc' \<longleftrightarrow> wf_receipt rc \<and> rc' = rc"
  "sanitizeCanonicalReceipt (ha_body (send_error st code)) = Inr rc' \<longleftrightarrow> False"
  "sanitizeCanonicalReceipt (ha_body (http_failure e)) = Inr rc' \<longleftrightarrow> False"
  "sanitizeCanonicalReceipt (JObj [(''error'', JStr c), (''status'', JStr s)]) = Inr rc' \<longleftrightarrow> False"
  "sanitizeCanonicalReceipt (JObj ((''actionId'', x) # (''status'', JStr ''pending'') # ps)) = Inr rc' \<longleftrightarrow> False"
proof -
  show err: "sanitizeCanonicalReceipt (ha_body (send_error st code)) = Inr rc' \<longleftrightarrow> False" for st code
    by (simp add: sanitizeCanonicalReceipt_def send_error_def)
  show "sanitizeCanonicalReceipt (ha_body (http_failure e)) = Inr rc' \<longleftrightarrow> False"
    by (simp add: http_failure_def err split: http_error.splits v2_error.splits)
  show "sanitizeCanonicalReceipt (receipt_json rc) = Inr rc' \<longleftrightarrow> wf_receipt rc \<and> rc' = rc"
    by (auto simp: sanitize_receipt_json)
qed (simp_all add: sanitizeCanonicalReceipt_def)

text \<open>A request on the handler is a sequence of service operations.\<close>

lemma handler_run:
  assumes "service_run ops lookup sha256 hmac opts sv0 sv" "\<And>inp rc. resolver inp = Inr (Some rc) \<Longrightarrow> wf_receipt rc"
    and "handleV2Route ops sha256 hmac resolver opts enabled token now ns req sv = (sv', r)"
  shows "service_run ops lookup sha256 hmac opts sv0 sv'"
proof -
  let ?run = "service_run ops lookup sha256 hmac opts sv0"
  have post: "?run (fst (post_action ops sha256 hmac opts now ns req sv))"
    using assms(1) sr_accept [OF assms(1)]
    by (auto simp: post_action_def split: sum.splits prod.splits)
  have get: "?run sv1" if "get_action ops resolver retry now i sv = (sv1, q)" for retry i sv1 q
    using sr_get [OF assms(1) _ that] assms(2) by blast
  have receipt: "?run sv2" if "?run sv1" "getReceipt ops resolver retry now i sv1 = (sv2, q)" for retry i sv1 sv2 q
    using sr_receipt [OF that(1) _ that(2)] assms(2) by blast
  have "?run (fst (get_action_route ops resolver retry now seg sv))" for retry seg
    using assms(1) get by (auto simp: get_action_route_def split: sum.splits prod.splits option.splits)
  moreover have "?run (fst (get_receipt_route ops resolver retry now seg sv))" for retry seg
    using assms(1) get receipt
    by (auto simp: get_receipt_route_def split: sum.splits prod.splits option.splits) blast+
  ultimately have "?run (fst (handleV2Route ops sha256 hmac resolver opts enabled token now ns req sv))"
    using assms(1) post by (simp add: handleV2Route_def Let_def)
  then show ?thesis using assms(3) by simp
qed

context action_store
begin

lemma getReceipt_found:
  assumes "inv (sv_store sv)" "key_ok i" "\<And>inp rc. resolver inp = Inr (Some rc) \<Longrightarrow> wf_receipt rc"
    and "getReceipt ops resolver retry now i sv = (sv', Inr (Some rc))"
  shows "\<exists>j. lookup (sv_store sv') i = Some j \<and> j_status j = Confirmed \<and> j_receipt j = Some rc"
proof -
  have "journal_run ops lookup (sv_store sv) (sv_store sv')"
    using getReceipt_run [where lookup = lookup, OF assms(4)] assms(3) by blast
  then have "inv (sv_store sv')" using journal_run_refines assms(1) by blast
  then show ?thesis
    using assms(4) get_law [OF _ assms(2)]
    by (auto simp: getReceipt_def Let_def split: sum.splits option.splits prod.splits if_splits)
qed

lemma get_action_inv:
  assumes "inv (sv_store sv)" "\<And>inp rc. resolver inp = Inr (Some rc) \<Longrightarrow> wf_receipt rc"
    and "get_action ops resolver retry now i sv = (sv', r)"
  shows "inv (sv_store sv')"
proof -
  have "journal_run ops lookup (sv_store sv) (sv_store sv')"
    using get_action_run [where lookup = lookup, OF assms(3)] assms(2) by blast
  then show ?thesis using journal_run_refines assms(1) by blast
qed

text \<open>The receipt route answers 200 only with the receipt of a confirmed job.\<close>

lemma receipt_route_sound:
  assumes "inv (sv_store sv)" "key_ok i" "\<And>inp rc. resolver inp = Inr (Some rc) \<Longrightarrow> wf_receipt rc"
    and "get_receipt_route ops resolver retry now (encodeURIComponent i) sv = (sv', a)"
    and "sanitizeCanonicalReceipt (ha_body a) = Inr rc"
  shows "\<exists>j. lookup (sv_store sv') i = Some j \<and> j_status j = Confirmed \<and> j_receipt j = Some rc"
proof -
  obtain sv1 r1 where g: "get_action ops resolver retry now i sv = (sv1, r1)" by (cases rule: prod.exhaust)
  obtain sv2 r2 where r: "getReceipt ops resolver retry now i sv1 = (sv2, r2)" by (cases rule: prod.exhaust)
  have "inv (sv_store sv1)" by (rule get_action_inv [OF assms(1) _ g]) (rule assms(3))
  then have found: "\<exists>j. lookup (sv_store sv2) i = Some j \<and> j_status j = Confirmed \<and> j_receipt j = Some rc'"
    if "r2 = Inr (Some rc')" for rc'
    using getReceipt_found [where resolver = resolver, OF _ assms(2) _ r [unfolded that]] assms(3) by blast
  have "get_receipt_route ops resolver retry now (encodeURIComponent i) sv = (sv', a)" by (fact assms(4))
  then show ?thesis
    using assms(5) found g r unfolding get_receipt_route_def http_decode_def decode_encode_uri
    by (auto simp: receipt_shape split: sum.splits option.splits if_splits)
qed

end

end
