(* ===== verification/Relayer_Config.thy ===== *)
theory Relayer_Config
  imports V2_Service
begin

text \<open>
  The relay's configuration and its derived choices: \<open>relayer/src/config.ts\<close>,
  \<open>v2-runtime.ts\<close> (which journal adapter to use), \<open>readiness.ts\<close> and
  \<open>funding-status.ts\<close>. The environment is a partial map from names to values.
\<close>

section \<open>Environment variables\<close>

type_synonym environment = "string \<Rightarrow> string option"

datatype config_error = MissingVariable string | SeedShape | CircuitsNotAllowed | NotBoolean string

definition env_required :: "environment \<Rightarrow> string \<Rightarrow> (config_error, string) result" where
  "env_required env name = (case truthy_str (map_option trim (env name)) of
     None \<Rightarrow> Inl (MissingVariable name)
   | Some value \<Rightarrow> Inr value)"

definition env_optional :: "environment \<Rightarrow> string \<Rightarrow> string \<Rightarrow> string" where
  "env_optional env name fallback = (case truthy_str (map_option trim (env name)) of
     None \<Rightarrow> fallback
   | Some value \<Rightarrow> value)"

definition split_trimmed :: "string \<Rightarrow> string list" where
  "split_trimmed s = filter (\<lambda>v. v \<noteq> []) (map trim (split_on (CHR '','') s))"

definition env_list :: "environment \<Rightarrow> string \<Rightarrow> string \<Rightarrow> string list" where
  "env_list env name fallback = split_trimmed (env_optional env name fallback)"

definition env_boolean :: "environment \<Rightarrow> string \<Rightarrow> bool \<Rightarrow> (config_error, bool) result" where
  "env_boolean env name fallback =
     (case truthy_str (map_option (\<lambda>v. toLowerCase (trim v)) (env name)) of
        None \<Rightarrow> Inr fallback
      | Some value \<Rightarrow>
          if value = ''true'' then Inr True
          else if value = ''false'' then Inr False
          else Inl (NotBoolean name))"

text \<open>\<open>Number.parseInt(s, 10)\<close>; \<^const>\<open>None\<close> is \<open>NaN\<close>.\<close>

definition parseInt10 :: "string \<Rightarrow> int option" where
  "parseInt10 s =
     (let t = dropWhile is_ws s;
          (sign, u) = (case t of c # cs \<Rightarrow> if c = CHR ''-'' then (-1, cs) else if c = CHR ''+'' then (1, cs) else (1, t) | [] \<Rightarrow> (1, t));
          ds = takeWhile is_digit u
      in if ds = [] then None else Some (sign * int (read_nat ds)))"

section \<open>The configuration\<close>

record relayer_config =
  rc_seedHex :: string
  rc_networkId :: string
  rc_indexerHttpUrl :: string
  rc_indexerWsUrl :: string
  rc_relayUrl :: string
  rc_provingServerUrl :: string
  rc_host :: string
  rc_port :: "int option"
  rc_allowedOrigins :: "string list"
  rc_v2AuthToken :: string
  rc_v2CapabilitySecret :: string
  rc_v2AllowedNetworks :: "string list"
  rc_v2AllowedContracts :: "string list"
  rc_v2AllowedCircuits :: "string list"
  rc_v2DatabaseUrl :: string
  rc_v2JobStorePath :: string
  rc_v2ExplorerBaseUrl :: string
  rc_legacyApiEnabled :: bool

definition strip_0x :: "string \<Rightarrow> string" where
  "strip_0x s = (if take 2 s = ''0x'' then drop 2 s else s)"

definition loadConfig :: "environment \<Rightarrow> (config_error, relayer_config) result" where
  "loadConfig env =
     rbind (env_required env ''RELAYER_SEED'') (\<lambda>seed.
     let seedHex = strip_0x (toLowerCase seed) in
     rbind (check (is_hex64 seedHex) SeedShape) (\<lambda>_.
     let circuits = env_list env ''RELAYER_V2_ALLOWED_CIRCUITS'' ''castVote'' in
     rbind (check (length circuits = 1 \<and> hd circuits = ''castVote'') CircuitsNotAllowed) (\<lambda>_.
     rbind (env_boolean env ''RELAYER_LEGACY_API_ENABLED'' False) (\<lambda>legacy.
     Inr \<lparr> rc_seedHex = seedHex,
           rc_networkId = env_optional env ''RELAYER_NETWORK_ID'' ''preview'',
           rc_indexerHttpUrl = env_optional env ''RELAYER_INDEXER_HTTP_URL''
             ''https://indexer.preview.midnight.network/api/v4/graphql'',
           rc_indexerWsUrl = env_optional env ''RELAYER_INDEXER_WS_URL''
             ''wss://indexer.preview.midnight.network/api/v4/graphql/ws'',
           rc_relayUrl = env_optional env ''RELAYER_NODE_URL'' ''wss://rpc.preview.midnight.network'',
           rc_provingServerUrl = env_optional env ''RELAYER_PROOF_SERVER_URL'' ''http://localhost:6300'',
           rc_host = env_optional env ''RELAYER_HOST'' ''127.0.0.1'',
           rc_port = parseInt10 (env_optional env ''RELAYER_PORT'' ''8790''),
           rc_allowedOrigins = split_trimmed (env_optional env ''RELAYER_ALLOWED_ORIGINS'' ''http://localhost:4173''),
           rc_v2AuthToken = env_optional env ''RELAYER_V2_AUTH_TOKEN'' [],
           rc_v2CapabilitySecret = env_optional env ''RELAYER_V2_CAPABILITY_SECRET'' [],
           rc_v2AllowedNetworks = env_list env ''RELAYER_V2_ALLOWED_NETWORKS'' ''preview'',
           rc_v2AllowedContracts = env_list env ''RELAYER_V2_ALLOWED_CONTRACTS'' [],
           rc_v2AllowedCircuits = circuits,
           rc_v2DatabaseUrl = env_optional env ''RELAYER_V2_DATABASE_URL'' [],
           rc_v2JobStorePath = env_optional env ''RELAYER_V2_JOB_STORE_PATH'' ''.state/v2-actions.json'',
           rc_v2ExplorerBaseUrl = env_optional env ''RELAYER_EXPLORER_BASE_URL'' [],
           rc_legacyApiEnabled = legacy \<rparr>))))"

section \<open>Choice of the journal\<close>

datatype configured_store = PostgresStore string | FileStore string

definition isLoopback :: "string \<Rightarrow> bool" where
  "isLoopback host = (host = ''127.0.0.1'' \<or> host = ''::1'' \<or> host = ''localhost'')"

text \<open>The error is the refusal to expose the relay without a database.\<close>

definition createConfiguredV2Store :: "relayer_config \<Rightarrow> (unit, configured_store) result" where
  "createConfiguredV2Store config =
     (if rc_v2DatabaseUrl config \<noteq> [] then Inr (PostgresStore (rc_v2DatabaseUrl config))
      else if \<not> isLoopback (rc_host config) \<and> rc_v2CapabilitySecret config \<noteq> [] then Inl ()
      else Inr (FileStore (rc_v2JobStorePath config)))"

section \<open>Readiness and funding\<close>

record readiness_state =
  rs_isSynced :: bool
  rs_dustBalance :: int

datatype readiness_reason = Wallet_starting | Wallet_syncing | Dust_unfunded | V2_disabled

record relayer_readiness =
  rr_ready :: bool
  rr_synced :: bool
  rr_dustFunded :: bool
  rr_v2Enabled :: bool
  rr_reasons :: "readiness_reason list"

definition evaluateRelayerReadiness :: "readiness_state option \<Rightarrow> bool \<Rightarrow> relayer_readiness" where
  "evaluateRelayerReadiness state v2Enabled =
     (let synced = (case state of Some s \<Rightarrow> rs_isSynced s | None \<Rightarrow> False);
          dustFunded = ((case state of Some s \<Rightarrow> rs_dustBalance s | None \<Rightarrow> 0) > 0);
          reasons = (if state = None then [Wallet_starting] else if \<not> synced then [Wallet_syncing] else [])
            @ (if \<not> dustFunded then [Dust_unfunded] else [])
            @ (if \<not> v2Enabled then [V2_disabled] else [])
      in \<lparr> rr_ready = (length reasons = 0), rr_synced = synced, rr_dustFunded = dustFunded,
           rr_v2Enabled = v2Enabled, rr_reasons = reasons \<rparr>)"

text \<open>A NIGHT coin is whether it is registered for DUST generation.\<close>

record funding_state =
  fs_isSynced :: bool
  fs_nightCoins :: "bool list"
  fs_dustCoins :: nat
  fs_dustBalance :: int

record funding_status =
  ft_synced :: bool
  ft_nightCoins :: nat
  ft_registeredNightCoins :: nat
  ft_unregisteredNightCoins :: nat
  ft_dustCoins :: nat
  ft_dustBalance :: string
  ft_readyToRegister :: bool
  ft_readyToSubmit :: bool

definition summarizeRelayerFunding :: "funding_state \<Rightarrow> funding_status" where
  "summarizeRelayerFunding state =
     (let registered = length (filter (\<lambda>coin. coin) (fs_nightCoins state));
          unregistered = length (fs_nightCoins state) - registered
      in \<lparr> ft_synced = fs_isSynced state, ft_nightCoins = length (fs_nightCoins state),
           ft_registeredNightCoins = registered, ft_unregisteredNightCoins = unregistered,
           ft_dustCoins = fs_dustCoins state, ft_dustBalance = show_int (fs_dustBalance state),
           ft_readyToRegister = (fs_isSynced state \<and> unregistered > 0),
           ft_readyToSubmit = (fs_isSynced state \<and> fs_dustBalance state > 0) \<rparr>)"

record indexed_progress =
  ip_appliedIndex :: int
  ip_highestRelevantWalletIndex :: int
  ip_highestIndex :: int
  ip_highestRelevantIndex :: int
  ip_isConnected :: bool

record transaction_progress =
  tp_appliedId :: int
  tp_highestTransactionId :: int
  tp_isConnected :: bool

definition indexed_json :: "indexed_progress \<Rightarrow> json" where
  "indexed_json v = JObj
     [(''appliedIndex'', JStr (show_int (ip_appliedIndex v))),
      (''highestRelevantWalletIndex'', JStr (show_int (ip_highestRelevantWalletIndex v))),
      (''highestIndex'', JStr (show_int (ip_highestIndex v))),
      (''highestRelevantIndex'', JStr (show_int (ip_highestRelevantIndex v))),
      (''isConnected'', JBool (ip_isConnected v))]"

definition summarizeRelayerSync :: "indexed_progress \<Rightarrow> transaction_progress \<Rightarrow> indexed_progress \<Rightarrow> json" where
  "summarizeRelayerSync shielded unshielded dust = JObj
     [(''shielded'', indexed_json shielded),
      (''unshielded'', JObj [(''appliedId'', JStr (show_int (tp_appliedId unshielded))),
         (''highestTransactionId'', JStr (show_int (tp_highestTransactionId unshielded))),
         (''isConnected'', JBool (tp_isConnected unshielded))]),
      (''dust'', indexed_json dust)]"

section \<open>Properties\<close>

lemma length_1_hd: "length xs = 1 \<and> hd xs = a \<longleftrightarrow> xs = [a]"
  by (cases xs) auto

text \<open>
  A configuration that loads has a seed of 64 lower-case hex digits and allows
  the circuit \<open>castVote\<close> only, so a service configured from it parses no request
  but votes; the compatibility routes are on only when the variable says so.
\<close>

theorem configured_relay_only_votes:
  assumes "loadConfig env = Inr c" "so_allowedCircuits opts = rc_v2AllowedCircuits c"
  shows "is_hex64 (rc_seedHex c) \<and> rc_v2AllowedCircuits c = [''castVote'']
    \<and> (rc_legacyApiEnabled c \<longrightarrow> (\<exists>v. env ''RELAYER_LEGACY_API_ENABLED'' = Some v \<and> toLowerCase (trim v) = ''true''))
    \<and> (\<forall>v h q. parseV2ActionRequest opts v h = Inr q \<longrightarrow> q_circuit q = ''castVote'' \<and> q_action q = Vote)"
proof -
  have c: "is_hex64 (rc_seedHex c)" "rc_v2AllowedCircuits c = [''castVote'']"
    using assms(1) unfolding loadConfig_def length_1_hd by (auto simp: Let_def)
  moreover have "\<exists>v. env ''RELAYER_LEGACY_API_ENABLED'' = Some v \<and> toLowerCase (trim v) = ''true''" if "rc_legacyApiEnabled c"
    using assms(1) that unfolding loadConfig_def by (auto simp: Let_def env_boolean_def split: option.splits if_splits)
  moreover have "q_circuit q = ''castVote'' \<and> q_action q = Vote" if "parseV2ActionRequest opts v h = Inr q" for v h q
    using parse_request_Inr(8,9) [OF that] assms(2) c(2) by (simp add: actionForCircuit_def)
  ultimately show ?thesis by blast
qed

definition sample_env :: environment where
  "sample_env = [''RELAYER_SEED'' \<mapsto> ''0x'' @ replicate 64 (CHR ''A'')]"

definition sample_options :: service_options where
  "sample_options = \<lparr> so_allowedNetworks = [''preview''], so_allowedContracts = [], so_allowedCircuits = [''castVote''],
     so_capabilitySecret = [], so_validateTransaction = (\<lambda>_. None), so_confirmationRetryMs = 0 \<rparr>"

lemma sample_env_loads: "map_option rc_v2AllowedCircuits (case loadConfig sample_env of Inr c \<Rightarrow> Some c | Inl e \<Rightarrow> None) = Some [''castVote'']"
  by code_simp

theorem configured_relay_only_votes_witness:
  "\<exists>c. loadConfig sample_env = Inr c \<and> is_hex64 (rc_seedHex c)"
proof -
  obtain c where c: "loadConfig sample_env = Inr c" "rc_v2AllowedCircuits c = [''castVote'']"
    using sample_env_loads by (auto split: sum.splits)
  then show ?thesis using configured_relay_only_votes [OF c(1), of sample_options] by (simp add: sample_options_def)
qed

text \<open>
  The relay fails closed: one that holds a capability secret and listens beyond
  loopback either refuses to start or journals in PostgreSQL, never in a file.
\<close>

theorem exposed_relay_has_database:
  assumes "createConfiguredV2Store c = Inr s" "\<not> isLoopback (rc_host c)" "rc_v2CapabilitySecret c \<noteq> []"
  shows "s = PostgresStore (rc_v2DatabaseUrl c) \<and> rc_v2DatabaseUrl c \<noteq> []"
  using assms by (simp add: createConfiguredV2Store_def split: if_splits)

definition sample_config :: relayer_config where
  "sample_config = \<lparr> rc_seedHex = replicate 64 (CHR ''a''), rc_networkId = ''preview'', rc_indexerHttpUrl = [],
     rc_indexerWsUrl = [], rc_relayUrl = [], rc_provingServerUrl = [], rc_host = ''0.0.0.0'', rc_port = Some 8790,
     rc_allowedOrigins = [], rc_v2AuthToken = [], rc_v2CapabilitySecret = ''s'', rc_v2AllowedNetworks = [''preview''],
     rc_v2AllowedContracts = [''c1''], rc_v2AllowedCircuits = [''castVote''], rc_v2DatabaseUrl = ''postgres://db'',
     rc_v2JobStorePath = ''f'', rc_v2ExplorerBaseUrl = [], rc_legacyApiEnabled = False \<rparr>"

theorem exposed_relay_has_database_witness:
  "createConfiguredV2Store sample_config = Inr (PostgresStore ''postgres://db'')
     \<and> createConfiguredV2Store (sample_config \<lparr> rc_v2DatabaseUrl := [] \<rparr>) = Inl ()"
  using exposed_relay_has_database [of sample_config "PostgresStore ''postgres://db''"]
  by (simp add: createConfiguredV2Store_def sample_config_def isLoopback_def)

text \<open>
  The readiness probe agrees with the funding summary: the relay reports ready
  exactly when the wallet has produced a state that the summary calls ready to
  submit and the v2 routes are on, and its list of reasons is empty exactly then.
\<close>

theorem readiness_matches_funding:
  "rr_ready (evaluateRelayerReadiness (Some \<lparr> rs_isSynced = fs_isSynced st, rs_dustBalance = fs_dustBalance st \<rparr>) v2)
     = (ft_readyToSubmit (summarizeRelayerFunding st) \<and> v2)
   \<and> \<not> rr_ready (evaluateRelayerReadiness None v2)
   \<and> (rr_reasons (evaluateRelayerReadiness s v2) = [] \<longleftrightarrow> rr_ready (evaluateRelayerReadiness s v2))
   \<and> ft_registeredNightCoins (summarizeRelayerFunding st) + ft_unregisteredNightCoins (summarizeRelayerFunding st)
       = ft_nightCoins (summarizeRelayerFunding st)"
  by (auto simp: evaluateRelayerReadiness_def summarizeRelayerFunding_def Let_def)

end
