(* ===== verification/Relay_Server.thy ===== *)
theory Relay_Server
  imports V2_Http Relayer_Config
begin

text \<open>
  The request dispatcher of the relay process (\<open>relayer/src/server.ts\<close>): origins,
  the v2 routes, the status routes and the compatibility routes. The newest wallet
  state, the transaction codec and the wallet are arguments; a wallet call that
  throws carries its message.
\<close>

section \<open>Requests and wallet state\<close>

record server_request =
  sr_http :: http_request
  sr_origin :: "string option"
  sr_dustAt :: "string option"

record wallet_view =
  wv_isSynced :: bool
  wv_dustBalance :: "int \<Rightarrow> int"
  wv_progress :: json
  wv_unshieldedAddress :: string
  wv_shieldedAddress :: string
  wv_dustAddress :: string
  wv_balances :: "(string \<times> int) list"
  wv_coinPublicKey :: string
  wv_encryptionPublicKey :: string

record legacy_wallet =
  lw_balance :: "string \<Rightarrow> (string, string) result"
  lw_submit :: "string \<Rightarrow> (string, string) result"

datatype server_failure = BodyTooLarge | BodyNotJson | BodyNull | NotHexTransaction string | WalletFailed string

text \<open>An answer: a JSON body, the empty 204, or the 500 that reports an error's message.\<close>

datatype server_answer = Answer http_response | NoContent | Failure server_failure

section \<open>Pieces\<close>

definition applyCors :: "relayer_config \<Rightarrow> server_request \<Rightarrow> bool" where
  "applyCors config req = (case truthy_str (sr_origin req) of
     None \<Rightarrow> True
   | Some origin \<Rightarrow> origin \<in> set (rc_allowedOrigins config))"

definition server_readJson :: "http_request \<Rightarrow> (server_failure, json) result" where
  "server_readJson req = map_err (\<lambda>e. if e = RequestBodyError then BodyTooLarge else BodyNotJson) (http_readJson req)"

definition hexField :: "json \<Rightarrow> string \<Rightarrow> (server_failure, string) result" where
  "hexField body name =
     (if body = JNull then Inl BodyNull
      else (case as_str (fld body name) of
          None \<Rightarrow> Inl (NotHexTransaction name)
        | Some value \<Rightarrow>
            if value = [] \<or> \<not> list_all any_hex value \<or> length value mod 2 \<noteq> 0 then Inl (NotHexTransaction name)
            else Inr (toLowerCase value)))"

text \<open>The time DUST is evaluated at: within the last fifteen minutes.\<close>

definition dust_time :: "(string \<Rightarrow> int option) \<Rightarrow> int \<Rightarrow> string option \<Rightarrow> int option" where
  "dust_time date_parse now dustAt =
     (case (case dustAt of None \<Rightarrow> Some now | Some v \<Rightarrow> date_parse v) of
        None \<Rightarrow> None
      | Some t \<Rightarrow> if t > now \<or> now - t > 15 * 60 * 1000 then None else Some t)"

definition health_body :: "relayer_config \<Rightarrow> wallet_view \<Rightarrow> int \<Rightarrow> json" where
  "health_body config state dustAt = JObj
     [(''synced'', JBool (wv_isSynced state)), (''networkId'', JStr (rc_networkId config)),
      (''v2ActionStore'', JStr (if rc_v2DatabaseUrl config \<noteq> [] then ''postgresql'' else ''local-file'')),
      (''legacyApiEnabled'', JBool (rc_legacyApiEnabled config)), (''progress'', wv_progress state),
      (''unshieldedAddress'', JStr (wv_unshieldedAddress state)), (''shieldedAddress'', JStr (wv_shieldedAddress state)),
      (''dustAddress'', JStr (wv_dustAddress state)),
      (''unshieldedBalances'', JObj (map (\<lambda>(k, v). (k, JStr (show_int v))) (wv_balances state))),
      (''dustBalance'', JStr (show_int (wv_dustBalance state dustAt))), (''dustEvaluationTime'', JStr (toISOString dustAt))]"

fun reason_str :: "readiness_reason \<Rightarrow> string" where
  "reason_str Wallet_starting = ''wallet_starting''"
| "reason_str Wallet_syncing = ''wallet_syncing''"
| "reason_str Dust_unfunded = ''dust_unfunded''"
| "reason_str V2_disabled = ''v2_disabled''"

definition ready_answer :: "relayer_config \<Rightarrow> wallet_view option \<Rightarrow> bool \<Rightarrow> int \<Rightarrow> http_response" where
  "ready_answer config state v2 dustAt =
     (let readiness = evaluateRelayerReadiness
            (map_option (\<lambda>s. \<lparr> rs_isSynced = wv_isSynced s, rs_dustBalance = wv_dustBalance s dustAt \<rparr>) state) v2
      in \<lparr> ha_status = (if rr_ready readiness then 200 else 503),
           ha_body = JObj
             [(''ready'', JBool (rr_ready readiness)), (''synced'', JBool (rr_synced readiness)),
              (''dustFunded'', JBool (rr_dustFunded readiness)), (''v2Enabled'', JBool (rr_v2Enabled readiness)),
              (''reasons'', JArr (map (\<lambda>r. JStr (reason_str r)) (rr_reasons readiness))),
              (''networkId'', JStr (rc_networkId config)),
              (''dustBalance'', JStr (case state of Some s \<Rightarrow> show_int (wv_dustBalance s dustAt) | None \<Rightarrow> ''0'')),
              (''dustEvaluationTime'', JStr (toISOString dustAt))] \<rparr>)"

definition legacy_answer :: "(string \<Rightarrow> (string, string) result) \<Rightarrow> string \<Rightarrow> http_request \<Rightarrow> server_answer" where
  "legacy_answer call key req =
     (case rbind (server_readJson req) (\<lambda>body. rbind (hexField body ''tx'') (\<lambda>hex. map_err WalletFailed (call hex))) of
        Inl e \<Rightarrow> Failure e
      | Inr out \<Rightarrow> Answer \<lparr> ha_status = 200, ha_body = JObj [(key, JStr out)] \<rparr>)"

section \<open>The dispatcher\<close>

definition status_routes ::
  "(string \<Rightarrow> int option) \<Rightarrow> relayer_config \<Rightarrow> wallet_view option \<Rightarrow> legacy_wallet \<Rightarrow> bool \<Rightarrow> int \<Rightarrow> server_request \<Rightarrow> server_answer" where
  "status_routes date_parse config latest wallet v2 now req =
     (let http = sr_http req; method = hr_method http; path = hr_pathname http in
      if method = ''GET'' \<and> path = ''/health'' then
        (case latest of
           None \<Rightarrow> Answer \<lparr> ha_status = 503, ha_body = JObj [(''synced'', JBool False),
               (''detail'', JStr ''wallet has not produced a state yet'')] \<rparr>
         | Some state \<Rightarrow>
             (case dust_time date_parse now (sr_dustAt req) of
                None \<Rightarrow> Answer (send_error 400 ''invalid_dust_evaluation_time'')
              | Some t \<Rightarrow> Answer \<lparr> ha_status = 200, ha_body = health_body config state t \<rparr>))
      else if method = ''GET'' \<and> path = ''/ready'' then
        (case dust_time date_parse now (sr_dustAt req) of
           None \<Rightarrow> Answer (send_error 400 ''invalid_dust_evaluation_time'')
         | Some t \<Rightarrow> Answer (ready_answer config latest v2 t))
      else if method = ''GET'' \<and> path = ''/keys'' then
        (case latest of
           None \<Rightarrow> Answer (send_error 503 ''wallet_starting'')
         | Some state \<Rightarrow> Answer \<lparr> ha_status = 200, ha_body = JObj
             [(''coinPublicKey'', JStr (wv_coinPublicKey state)), (''encryptionPublicKey'', JStr (wv_encryptionPublicKey state))] \<rparr>)
      else if rc_legacyApiEnabled config \<and> method = ''POST'' \<and> path = ''/balance'' then legacy_answer (lw_balance wallet) ''tx'' http
      else if rc_legacyApiEnabled config \<and> method = ''POST'' \<and> path = ''/submit'' then legacy_answer (lw_submit wallet) ''txId'' http
      else Answer (send_error 404 ''not_found''))"

definition configured_options :: "relayer_config \<Rightarrow> (string \<Rightarrow> v2_error option) \<Rightarrow> nat \<Rightarrow> service_options" where
  "configured_options config validate retryMs =
     \<lparr> so_allowedNetworks = rc_v2AllowedNetworks config, so_allowedContracts = rc_v2AllowedContracts config,
       so_allowedCircuits = rc_v2AllowedCircuits config, so_capabilitySecret = rc_v2CapabilitySecret config,
       so_validateTransaction = validate, so_confirmationRetryMs = retryMs \<rparr>"

definition serve ::
  "'s v2_store \<Rightarrow> (string \<Rightarrow> string) \<Rightarrow> (string \<Rightarrow> string \<Rightarrow> string)
     \<Rightarrow> (resolve_input \<Rightarrow> (v2_error, receipt option) result) \<Rightarrow> (string \<Rightarrow> int option) \<Rightarrow> relayer_config \<Rightarrow> service_options
     \<Rightarrow> wallet_view option \<Rightarrow> legacy_wallet \<Rightarrow> int \<Rightarrow> server_request \<Rightarrow> 's service \<Rightarrow> 's service \<times> server_answer" where
  "serve ops sha256 hmac resolver date_parse config opts latest wallet now req sv =
     (if \<not> applyCors config req then (sv, Answer (send_error 403 ''origin_not_allowed''))
      else if hr_method (sr_http req) = ''OPTIONS'' then (sv, NoContent)
      else let v2 = (rc_v2CapabilitySecret config \<noteq> []) in
        (case handleV2Route ops sha256 hmac resolver opts v2 (rc_v2AuthToken config) (toISOString now) (now div 1000)
            (sr_http req) sv of
           (sv', Some a) \<Rightarrow> (sv', Answer a)
         | (sv', None) \<Rightarrow> (sv', status_routes date_parse config latest wallet v2 now req)))"

section \<open>Properties\<close>

lemma legacy_answer_status: "legacy_answer call key req \<noteq> Answer (send_error 404 ''not_found'')"
  by (simp add: legacy_answer_def send_error_def split: sum.splits)

lemma handle_other_path: "take 4 (hr_pathname req) \<noteq> ''/v2/'' \<Longrightarrow>
    handleV2Route ops sha256 hmac resolver opts enabled token now ns req sv = (sv, None)"
  by (simp add: handleV2Route_def)

text \<open>
  A request from a browser origin that is not listed never reaches the service
  or the wallet, and as long as the compatibility routes are off no request outside
  \<open>/v2/\<close> makes the wallet balance or submit anything: every answer is independent of
  the wallet's balance and submit calls, and the service is left as it was.
\<close>

theorem server_boundary:
  "(\<not> applyCors config req \<longrightarrow>
      serve ops sha256 hmac resolver date_parse config opts latest wallet now req sv = (sv, Answer (send_error 403 ''origin_not_allowed'')))
   \<and> (\<not> rc_legacyApiEnabled config \<and> take 4 (hr_pathname (sr_http req)) \<noteq> ''/v2/'' \<longrightarrow>
      serve ops sha256 hmac resolver date_parse config opts latest wallet now req sv
        = serve ops sha256 hmac resolver date_parse config opts latest wallet' now req sv
      \<and> fst (serve ops sha256 hmac resolver date_parse config opts latest wallet now req sv) = sv)"
  by (simp add: serve_def handle_other_path status_routes_def Let_def)

text \<open>
  The \<open>/ready\<close> route answers 200 exactly when the wallet has produced a synced
  state with a positive DUST balance at the evaluated time and the capability secret
  is configured; the evaluated time is never in the future and at most fifteen
  minutes old.
\<close>

theorem ready_route_exact:
  assumes "applyCors config req" "hr_method (sr_http req) = ''GET''" "hr_pathname (sr_http req) = ''/ready''"
    and "serve ops sha256 hmac resolver date_parse config opts latest wallet now req sv = (sv', Answer a)"
  shows "ha_status a = 200 \<longleftrightarrow>
    (\<exists>t state. dust_time date_parse now (sr_dustAt req) = Some t \<and> now - 900000 \<le> t \<and> t \<le> now \<and> latest = Some state
       \<and> wv_isSynced state \<and> wv_dustBalance state t > 0 \<and> rc_v2CapabilitySecret config \<noteq> [])"
proof -
  have "take 4 (hr_pathname (sr_http req)) \<noteq> ''/v2/''" using assms(3) by simp
  then have "status_routes date_parse config latest wallet (rc_v2CapabilitySecret config \<noteq> []) now req = Answer a"
    using assms by (simp add: serve_def handle_other_path)
  then show ?thesis
    using assms(2,3)
    by (auto simp: status_routes_def ready_answer_def evaluateRelayerReadiness_def send_error_def dust_time_def Let_def
        split: option.splits if_splits)
qed

definition sample_server_request :: server_request where
  "sample_server_request = \<lparr> sr_http = \<lparr> hr_method = ''GET'', hr_pathname = ''/ready'', hr_authorization = None,
     hr_idempotency = None, hr_request_hash = None, hr_capability = None, hr_chunks = [] \<rparr>, sr_origin = None, sr_dustAt = None \<rparr>"

definition sample_wallet_view :: wallet_view where
  "sample_wallet_view = \<lparr> wv_isSynced = True, wv_dustBalance = (\<lambda>_. 5), wv_progress = JNull, wv_unshieldedAddress = [],
     wv_shieldedAddress = [], wv_dustAddress = [], wv_balances = [], wv_coinPublicKey = [], wv_encryptionPublicKey = [] \<rparr>"

end
