(* ===== verification/Walletless_Client.thy ===== *)
theory Walletless_Client
  imports V2_Types
begin

text \<open>
  The browser's client of the relay (\<open>api/src/receipts/walletless-action-client.ts\<close>).
  An operation is the request it hands to \<open>fetch\<close> and what it makes of the answer;
  \<open>fetch\<close> and the URL parser are parameters. An answer is its status and its
  payload, \<^const>\<open>None\<close> when \<open>response.json()\<close> throws.
\<close>

section \<open>Requests and answers\<close>

record walletless_request =
  wr_actionId :: string
  wr_idempotencyKey :: string
  wr_requestHash :: "string option"
  wr_actionCapability :: string
  wr_network :: string
  wr_contractAddress :: string
  wr_circuit :: string
  wr_action :: CivicActionKind
  wr_tx :: string

text \<open>The status is kept as the value received: the guard tests its string conversion.\<close>

record walletless_job =
  wj_actionId :: string
  wj_status :: json
  wj_requestHash :: string
  wj_network :: string
  wj_contractAddress :: string
  wj_circuit :: string
  wj_transactionId :: "string option"
  wj_receipt :: "receipt option"
  wj_errorCode :: "string option"

record fetch_request =
  fr_method :: string
  fr_url :: string
  fr_headers :: "(string \<times> string) list"
  fr_body :: "string option"

datatype fetch_answer = FetchRejected | Fetched int "json option"

datatype client_error =
    UrlInvalid
  | UrlNotSecure
  | NetworkFailed
  | WalletlessActionHttpError int string
  | InvalidResponse
  | InvalidReceipt receipt_error

record client =
  cl_baseUrl :: string
  cl_authorization :: "string option"

record parsed_url =
  u_protocol :: string
  u_hostname :: string

section \<open>Construction\<close>

definition assertSecureUrl :: "(string \<Rightarrow> parsed_url option) \<Rightarrow> string \<Rightarrow> (client_error, unit) result" where
  "assertSecureUrl parse_url value = (case parse_url value of
     None \<Rightarrow> Inl UrlInvalid
   | Some url \<Rightarrow>
       let local_host = u_hostname url = ''localhost'' \<or> u_hostname url = ''127.0.0.1'' \<or> u_hostname url = ''::1''
       in check (u_protocol url = ''https:'' \<or> (local_host \<and> u_protocol url = ''http:'')) UrlNotSecure)"

definition new_client :: "(string \<Rightarrow> parsed_url option) \<Rightarrow> string \<Rightarrow> string option \<Rightarrow> (client_error, client) result" where
  "new_client parse_url baseUrl authorization =
     rbind (assertSecureUrl parse_url baseUrl) (\<lambda>_.
       Inr \<lparr> cl_baseUrl = strip_slashes baseUrl, cl_authorization = authorization \<rparr>)"

section \<open>Operations\<close>

definition str_prop :: "string \<Rightarrow> string option \<Rightarrow> (string \<times> string) list" where
  "str_prop k v = (case truthy_str v of None \<Rightarrow> [] | Some s \<Rightarrow> [(k, s)])"

definition client_headers :: "client \<Rightarrow> string option \<Rightarrow> string option \<Rightarrow> string option \<Rightarrow> (string \<times> string) list" where
  "client_headers cl idempotencyKey requestHash actionCapability =
     [(''accept'', ''application/json'')]
     @ str_prop ''authorization'' (map_option (\<lambda>a. if take 7 a = ''Bearer '' then a else ''Bearer '' @ a)
         (truthy_str (cl_authorization cl)))
     @ str_prop ''idempotency-key'' idempotencyKey
     @ str_prop ''x-request-hash'' requestHash
     @ str_prop ''x-action-capability'' actionCapability"

definition submit_body :: "walletless_request \<Rightarrow> json" where
  "submit_body r = JObj (
     [(''action'', JStr (action_str (wr_action r))), (''actionId'', JStr (wr_actionId r)),
      (''circuit'', JStr (wr_circuit r)), (''contractAddress'', JStr (wr_contractAddress r)),
      (''idempotencyKey'', JStr (wr_idempotencyKey r))]
     @ opt_prop ''requestHash'' JStr (truthy_str (wr_requestHash r))
     @ [(''network'', JStr (wr_network r)), (''tx'', JStr (wr_tx r))])"

definition submit_request :: "client \<Rightarrow> walletless_request \<Rightarrow> fetch_request" where
  "submit_request cl r = \<lparr> fr_method = ''POST'', fr_url = cl_baseUrl cl @ ''/v2/actions'',
     fr_headers = client_headers cl (Some (wr_idempotencyKey r)) (wr_requestHash r) (Some (wr_actionCapability r)),
     fr_body = Some (stringify (submit_body r)) \<rparr>"

definition action_lookup :: "client \<Rightarrow> string \<Rightarrow> fetch_request" where
  "action_lookup cl actionId = \<lparr> fr_method = ''GET'', fr_url = cl_baseUrl cl @ ''/v2/actions/'' @ encodeURIComponent actionId,
     fr_headers = client_headers cl None None None, fr_body = None \<rparr>"

definition receipt_lookup :: "client \<Rightarrow> string \<Rightarrow> fetch_request" where
  "receipt_lookup cl actionId = \<lparr> fr_method = ''GET'', fr_url = cl_baseUrl cl @ ''/v2/receipts/'' @ encodeURIComponent actionId,
     fr_headers = client_headers cl None None None, fr_body = None \<rparr>"

text \<open>\<open>readResponse\<close>; a payload that does not parse is \<open>null\<close>.\<close>

definition response_ok :: "int \<Rightarrow> bool" where
  "response_ok status = (200 \<le> status \<and> status \<le> 299)"

definition readResponse :: "int \<Rightarrow> json option \<Rightarrow> (client_error, json) result" where
  "readResponse status answer =
     (let payload = (case answer of Some v \<Rightarrow> v | None \<Rightarrow> JNull) in
      if \<not> response_ok status then
        Inl (WalletlessActionHttpError status
          (case as_str (fld payload ''error'') of Some code \<Rightarrow> code | None \<Rightarrow> ''relay_error''))
      else Inr payload)"

text \<open>
  The string conversion of a JSON value. Of an object only that it is none of the
  status names matters, and of a number that it starts with a digit or a sign.
\<close>

fun js_String :: "json \<Rightarrow> string" where
  "js_String JNull = ''null''"
| "js_String (JBool b) = (if b then ''true'' else ''false'')"
| "js_String (JNum n) = stringify_num n"
| "js_String (JStr s) = s"
| "js_String (JArr vs) = join '','' (map (\<lambda>v. if v = JNull then [] else js_String v) vs)"
| "js_String (JObj ps) = ''[object Object]''"

definition job_statuses :: "string list" where
  "job_statuses = [''pending'', ''confirmed'', ''failed'', ''recovery_required'']"

definition client_parseJob :: "json \<Rightarrow> (client_error, walletless_job) result" where
  "client_parseJob v =
     (if \<not> isRecord v then Inl InvalidResponse
      else if \<not> is_str (fld v ''actionId'')
        \<or> js_String (case fld v ''status'' of Some s \<Rightarrow> s | None \<Rightarrow> JStr ''undefined'') \<notin> set job_statuses
        \<or> \<not> is_str (fld v ''requestHash'') \<or> \<not> is_str (fld v ''network'')
        \<or> \<not> is_str (fld v ''contractAddress'') \<or> \<not> is_str (fld v ''circuit'')
        \<or> (fld v ''transactionId'' \<noteq> None \<and> \<not> is_str (fld v ''transactionId''))
        \<or> (fld v ''errorCode'' \<noteq> None \<and> \<not> is_str (fld v ''errorCode''))
      then Inl InvalidResponse
      else
        rbind (case fld v ''receipt'' of
                 None \<Rightarrow> Inr None
               | Some r \<Rightarrow> map_err InvalidReceipt (rbind (sanitizeCanonicalReceipt r) (\<lambda>x. Inr (Some x)))) (\<lambda>receipt.
        Inr \<lparr> wj_actionId = the (as_str (fld v ''actionId'')), wj_status = the (fld v ''status''),
              wj_requestHash = the (as_str (fld v ''requestHash'')), wj_network = the (as_str (fld v ''network'')),
              wj_contractAddress = the (as_str (fld v ''contractAddress'')), wj_circuit = the (as_str (fld v ''circuit'')),
              wj_transactionId = truthy_str (as_str (fld v ''transactionId'')), wj_receipt = receipt,
              wj_errorCode = truthy_str (as_str (fld v ''errorCode'')) \<rparr>))"

definition client_submit :: "(fetch_request \<Rightarrow> fetch_answer) \<Rightarrow> client \<Rightarrow> walletless_request \<Rightarrow> (client_error, walletless_job) result" where
  "client_submit fetch cl r = (case fetch (submit_request cl r) of
     FetchRejected \<Rightarrow> Inl NetworkFailed
   | Fetched status answer \<Rightarrow> rbind (readResponse status answer) client_parseJob)"

definition client_getAction :: "(fetch_request \<Rightarrow> fetch_answer) \<Rightarrow> client \<Rightarrow> string \<Rightarrow> (client_error, walletless_job option) result" where
  "client_getAction fetch cl actionId = (case fetch (action_lookup cl actionId) of
     FetchRejected \<Rightarrow> Inl NetworkFailed
   | Fetched status answer \<Rightarrow>
       if status = 404 then Inr None
       else rbind (readResponse status answer) (\<lambda>v. rbind (client_parseJob v) (\<lambda>j. Inr (Some j))))"

definition client_getReceipt :: "(fetch_request \<Rightarrow> fetch_answer) \<Rightarrow> client \<Rightarrow> string \<Rightarrow> (client_error, receipt option) result" where
  "client_getReceipt fetch cl actionId = (case fetch (receipt_lookup cl actionId) of
     FetchRejected \<Rightarrow> Inl NetworkFailed
   | Fetched status answer \<Rightarrow>
       if status = 404 \<or> status = 202 then Inr None
       else rbind (readResponse status answer) (\<lambda>v. map_err InvalidReceipt (rbind (sanitizeCanonicalReceipt v) (\<lambda>x. Inr (Some x)))))"

section \<open>Lemmas\<close>

lemma public_job_json_fld:
  "isRecord (public_job_json b)"
  "fld (public_job_json b) ''actionId'' = Some (JStr (b_actionId b))"
  "fld (public_job_json b) ''status'' = Some (JStr (public_status_str (b_status b)))"
  "fld (public_job_json b) ''requestHash'' = Some (JStr (b_requestHash b))"
  "fld (public_job_json b) ''network'' = Some (JStr (b_network b))"
  "fld (public_job_json b) ''contractAddress'' = Some (JStr (b_contractAddress b))"
  "fld (public_job_json b) ''circuit'' = Some (JStr (b_circuit b))"
  "fld (public_job_json b) ''transactionId'' = map_option JStr (b_transactionId b)"
  "fld (public_job_json b) ''receipt'' = map_option receipt_json (b_receipt b)"
  "fld (public_job_json b) ''errorCode'' = map_option JStr (b_errorCode b)"
  by (simp_all add: public_job_json_def map_add_def split: option.splits)

lemma public_status_known [simp]: "public_status_str s \<in> set job_statuses"
  by (cases s) (simp_all add: job_statuses_def)

lemma as_str_option [simp]: "as_str (map_option JStr v) = v"
  by (cases v) auto

definition job_view :: "public_job \<Rightarrow> walletless_job" where
  "job_view b = \<lparr> wj_actionId = b_actionId b, wj_status = JStr (public_status_str (b_status b)),
     wj_requestHash = b_requestHash b, wj_network = b_network b, wj_contractAddress = b_contractAddress b,
     wj_circuit = b_circuit b, wj_transactionId = truthy_str (b_transactionId b), wj_receipt = b_receipt b,
     wj_errorCode = truthy_str (b_errorCode b) \<rparr>"

text \<open>The client reads back exactly the public view of a job.\<close>

lemma client_reads_public_job:
  assumes "\<And>r. b_receipt b = Some r \<Longrightarrow> wf_receipt r"
  shows "client_parseJob (public_job_json b) = Inr (job_view b)"
  using assms
  by (cases "b_receipt b"; cases "b_transactionId b"; cases "b_errorCode b")
     (simp_all add: client_parseJob_def public_job_json_fld job_view_def sanitize_receipt_json)

lemma readResponse_ok [simp]: "response_ok status \<Longrightarrow> readResponse status (Some v) = Inr v"
  by (simp add: readResponse_def Let_def)

section \<open>Properties\<close>

text \<open>
  Whatever the relay journalled about a job, as long as a stored receipt passes
  the guard, the client accepts the relay's answer to a submission (200 or 202) and
  to a query, and sees exactly the job's id, status, request hash, network, contract,
  circuit, transaction id, receipt and error code.
\<close>

theorem client_understands_relay:
  assumes "\<And>r. j_receipt j = Some r \<Longrightarrow> wf_receipt r" "status = 200 \<or> status = 202"
    and "\<And>rq. fetch rq = Fetched status (Some (public_job_json (publicJob j)))"
  shows "client_submit fetch cl request = Inr (job_view (publicJob j))
    \<and> client_getAction fetch cl (j_id j) = Inr (Some (job_view (publicJob j)))
    \<and> wj_actionId (job_view (publicJob j)) = j_id j \<and> wj_receipt (job_view (publicJob j)) = j_receipt j"
proof -
  have "client_parseJob (public_job_json (publicJob j)) = Inr (job_view (publicJob j))"
    using assms(1) by (intro client_reads_public_job) (simp add: publicJob_def)
  moreover have "response_ok status" "status \<noteq> 404" using assms(2) by (auto simp: response_ok_def)
  ultimately show ?thesis
    using assms(3) by (simp add: client_submit_def client_getAction_def job_view_def publicJob_def)
qed

end
