(* ===== verification/Http_Properties.thy ===== *)
theory Http_Properties
  imports Relay_Properties Relay_Server Walletless_Client
begin

text \<open>
  Properties of the relay's HTTP surface, and of the browser's client together
  with it. A request of the client reaches the handler as its method, the part of
  its URL after the base URL, its headers and its body in one chunk of UTF-8.
\<close>

section \<open>From the client to the handler\<close>

definition deliver :: "client \<Rightarrow> fetch_request \<Rightarrow> http_request" where
  "deliver cl rq = \<lparr> hr_method = fr_method rq, hr_pathname = drop (length (cl_baseUrl cl)) (fr_url rq),
     hr_authorization = map_of (fr_headers rq) ''authorization'',
     hr_idempotency = map_of (fr_headers rq) ''idempotency-key'',
     hr_request_hash = map_of (fr_headers rq) ''x-request-hash'',
     hr_capability = map_of (fr_headers rq) ''x-action-capability'',
     hr_chunks = (case fr_body rq of None \<Rightarrow> [] | Some b \<Rightarrow> [utf8 b]) \<rparr>"

definition answer_of :: "http_response option \<Rightarrow> fetch_answer" where
  "answer_of a = (case a of None \<Rightarrow> FetchRejected | Some r \<Rightarrow> Fetched (ha_status r) (Some (ha_body r)))"

lemma receipt_path:
  assumes "i \<noteq> []"
  shows "hr_pathname (deliver cl (receipt_lookup cl i)) = ''/v2/receipts/'' @ encodeURIComponent i"
    "hr_method (deliver cl (receipt_lookup cl i)) = ''GET''"
    "path_match ''/v2/receipts/'' (''/v2/receipts/'' @ encodeURIComponent i) = Some (encodeURIComponent i)"
    "path_match ''/v2/actions/'' (''/v2/receipts/'' @ encodeURIComponent i) = None"
  using path_match_encoded [OF assms, of "''/v2/receipts/''"]
  by (simp_all add: deliver_def receipt_lookup_def path_match_def Let_def)

lemma action_path:
  assumes "i \<noteq> []"
  shows "hr_pathname (deliver cl (action_lookup cl i)) = ''/v2/actions/'' @ encodeURIComponent i"
    "hr_method (deliver cl (action_lookup cl i)) = ''GET''"
    "path_match ''/v2/actions/'' (''/v2/actions/'' @ encodeURIComponent i) = Some (encodeURIComponent i)"
  using path_match_encoded [OF assms, of "''/v2/actions/''"]
  by (simp_all add: deliver_def action_lookup_def)

section \<open>Properties\<close>

text \<open>
  The body reader accepts a request exactly when its chunks add up to at most
  two MiB and are JSON in UTF-8, no matter how the body is cut into chunks; an empty
  body is the empty object.
\<close>

theorem body_reader_is_bounded:
  "http_readJson req =
     (if length (concat (hr_chunks req)) > MAX_BODY_BYTES then Inl RequestBodyError
      else if hr_chunks req = [] then Inr (JObj [])
      else case Option.bind (utf8_decode (concat (hr_chunks req))) json_parse of
          None \<Rightarrow> Inl BodySyntaxError | Some v \<Rightarrow> Inr v)"
  by (rule http_readJson_eq)

text \<open>
  Whatever HTTP requests arrive, in any order and mixed with wallet turns,
  timers and restarts, the relay on PostgreSQL submits an action at most once and
  its journal stays well-formed.
\<close>

theorem http_requests_are_safe:
  assumes "service_run (pg_store tz) pg_lookup sha256 hmac opts (boot pg_empty []) sv"
    and "\<And>x. is_hex64 (sha256 x)" "\<And>inp rc. resolver inp = Inr (Some rc) \<Longrightarrow> wf_receipt rc"
    and "handleV2Route (pg_store tz) sha256 hmac resolver opts enabled token now ns req sv = (sv', a)"
  shows "service_run (pg_store tz) pg_lookup sha256 hmac opts (boot pg_empty []) sv'
    \<and> distinct (map fst (sv_submitted sv')) \<and> journal_ok (pg_lookup (sv_store sv'))"
proof -
  have "service_run (pg_store tz) pg_lookup sha256 hmac opts (boot pg_empty []) sv'"
    by (rule handler_run [OF assms(1) _ assms(4)]) (rule assms(3))
  then show ?thesis using pg.service_run_ok [OF _ assms(2) service_ok_boot] by (simp add: service_ok_def)
qed

theorem http_requests_are_safe_witness:
  "distinct (map fst (sv_submitted (fst (handleV2Route (pg_store (\<lambda>_. 0)) demo_sha demo_hmac (\<lambda>_. Inr None) demo_opts
     True [] ''now'' 5 (deliver \<lparr> cl_baseUrl = [], cl_authorization = None \<rparr> (receipt_lookup \<lparr> cl_baseUrl = [], cl_authorization = None \<rparr> ''a1''))
     demo_done))))"
proof -
  let ?req = "deliver \<lparr> cl_baseUrl = [], cl_authorization = None \<rparr> (receipt_lookup \<lparr> cl_baseUrl = [], cl_authorization = None \<rparr> ''a1'')"
  obtain sv' a where r: "handleV2Route (pg_store (\<lambda>_. 0)) demo_sha demo_hmac (\<lambda>_. Inr None) demo_opts True [] ''now'' 5 ?req demo_done = (sv', a)"
    by (cases rule: prod.exhaust)
  show ?thesis unfolding r using http_requests_are_safe [OF demo_run demo_sha_hex _ r] by simp
qed

text \<open>
  A POST on the public surface that changes anything in the relay is one on
  \<open>/v2/actions\<close> whose body names the circuit \<open>castVote\<close> and no other action than
  \<open>vote\<close>: operator circuits never cross this boundary.
\<close>

theorem public_surface_only_votes:
  assumes "handleV2Route ops sha256 hmac resolver opts enabled token now ns req sv = (sv', a)"
    and "hr_method req = ''POST''" "sv' \<noteq> sv"
  shows "hr_pathname req = ''/v2/actions'' \<and> so_capabilitySecret opts \<noteq> [] \<and> enabled
    \<and> (\<exists>body. http_readJson req = Inr body \<and> fld body ''circuit'' = Some (JStr ''castVote'')
         \<and> (fld body ''action'' = None \<or> fld body ''action'' = Some (JStr ''vote''))
         \<and> fst (accept ops sha256 hmac opts now ns body \<lparr> h_idempotencyKey = hr_idempotency req,
               h_requestHash = hr_request_hash req, h_capability = hr_capability req \<rparr> sv) = sv')"
  using assms
  by (auto simp: handleV2Route_def post_action_def Let_def split: if_splits sum.splits prod.splits)

lemma submit_body_wf: "wf_json (submit_body r)"
  by (cases "truthy_str (wr_requestHash r)")
     (auto simp: submit_body_def obj_ordered_def key_before_def is_index_key_def is_digit_def)

lemma submit_body_fld:
  "fld (submit_body r) ''circuit'' = Some (JStr (wr_circuit r))"
  "fld (submit_body r) ''action'' = Some (JStr (action_str (wr_action r)))"
  by (simp_all add: submit_body_def)

lemma submit_delivered:
  assumes "length (utf8 (stringify (submit_body r))) \<le> MAX_BODY_BYTES"
  shows "http_readJson (deliver cl (submit_request cl r)) = Inr (submit_body r)"
  using assms by (simp add: http_readJson_eq deliver_def submit_request_def utf8_decode_utf8 parse_stringify submit_body_wf)

lemma submit_headers:
  assumes "wr_idempotencyKey r \<noteq> []" "wr_actionCapability r \<noteq> []" "wr_requestHash r \<noteq> Some []"
  shows "hr_idempotency (deliver cl (submit_request cl r)) = Some (wr_idempotencyKey r)"
    "hr_request_hash (deliver cl (submit_request cl r)) = wr_requestHash r"
    "hr_capability (deliver cl (submit_request cl r)) = Some (wr_actionCapability r)"
  using assms
  by (cases "wr_requestHash r"; auto simp: deliver_def submit_request_def client_headers_def str_prop_def split: option.splits)+

lemma submission_handled:
  assumes "wr_circuit r = ''castVote''" "wr_action r = Vote" "wr_idempotencyKey r \<noteq> []" "wr_actionCapability r \<noteq> []"
    and "wr_requestHash r \<noteq> Some []" "length (utf8 (stringify (submit_body r))) \<le> MAX_BODY_BYTES"
    and "so_capabilitySecret opts \<noteq> []" "cl_authorization cl = None"
    and "accept ops sha256 hmac opts now ns (submit_body r) \<lparr> h_idempotencyKey = Some (wr_idempotencyKey r),
           h_requestHash = wr_requestHash r, h_capability = Some (wr_actionCapability r) \<rparr> sv = (sv', Inr job)"
  shows "handleV2Route ops sha256 hmac resolver opts True token now ns (deliver cl (submit_request cl r)) sv
    = (sv', Some \<lparr> ha_status = (if b_status job = PubConfirmed then 200 else 202), ha_body = public_job_json job \<rparr>)"
proof -
  let ?req = "deliver cl (submit_request cl r)"
  have "hr_pathname ?req = ''/v2/actions''" "hr_method ?req = ''POST''" "hr_authorization ?req = None"
    using assms(8) by (simp_all add: deliver_def submit_request_def client_headers_def str_prop_def split: option.splits)
  moreover have "authorizeOptionalServiceToken ?req token"
    using calculation(3) by (simp add: authorizeOptionalServiceToken_def)
  moreover have "post_action ops sha256 hmac opts now ns ?req sv
      = (sv', \<lparr> ha_status = (if b_status job = PubConfirmed then 200 else 202), ha_body = public_job_json job \<rparr>)"
    using assms(1,2,9) submit_delivered [OF assms(6)] submit_headers [OF assms(3-5)]
    by (simp add: post_action_def submit_body_fld) (simp add: submit_body_def)
  ultimately show ?thesis using assms(7) by (simp add: handleV2Route_def)
qed

text \<open>
  A vote submitted by the client reaches the service unchanged: the handler runs
  \<open>accept\<close> on exactly the object the client built, with the idempotency key, the
  request hash and the capability of the request, and answers with the job it
  returns.
\<close>

theorem submission_reaches_service:
  assumes "wr_circuit r = ''castVote''" "wr_action r = Vote" "wr_idempotencyKey r \<noteq> []" "wr_actionCapability r \<noteq> []"
    and "wr_requestHash r \<noteq> Some []" "length (utf8 (stringify (submit_body r))) \<le> MAX_BODY_BYTES"
    and "so_capabilitySecret opts \<noteq> []" "cl_authorization cl = None"
    and "accept ops sha256 hmac opts now ns (submit_body r) \<lparr> h_idempotencyKey = Some (wr_idempotencyKey r),
           h_requestHash = wr_requestHash r, h_capability = Some (wr_actionCapability r) \<rparr> sv = (sv', Inr job)"
  shows "handleV2Route ops sha256 hmac resolver opts True token now ns (deliver cl (submit_request cl r)) sv
    = (sv', Some \<lparr> ha_status = (if b_status job = PubConfirmed then 200 else 202), ha_body = public_job_json job \<rparr>)"
  using submission_handled [OF assms] .

definition demo_client :: client where
  "demo_client = \<lparr> cl_baseUrl = ''https://relay.test'', cl_authorization = None \<rparr>"

definition demo_submission :: walletless_request where
  "demo_submission = \<lparr> wr_actionId = ''a1'', wr_idempotencyKey = ''k1'', wr_requestHash = None,
     wr_actionCapability = signV2Capability demo_hmac demo_claims 100 ''s'', wr_network = ''preview'',
     wr_contractAddress = ''c1'', wr_circuit = ''castVote'', wr_action = Vote, wr_tx = ''00FF'' \<rparr>"

abbreviation demo_submission_headers :: request_headers where
  "demo_submission_headers \<equiv> \<lparr> h_idempotencyKey = Some ''k1'', h_requestHash = None,
     h_capability = Some (signV2Capability demo_hmac demo_claims 100 ''s'') \<rparr>"

lemma demo_submission_parse:
  "parseV2ActionRequest demo_opts (submit_body demo_submission) demo_submission_headers = Inr demo_request"
proof -
  have "clean (submit_body demo_submission)" by code_simp
  then have "assertNoForbiddenKeys (submit_body demo_submission) = Inr ()"
    by (simp add: assertNoForbiddenKeys_def scan_pending_clean)
  moreover have "toLowerCase ''00FF'' = ''00ff''" by code_simp
  ultimately show ?thesis
    unfolding parseV2ActionRequest_def
    by (simp add: demo_opts_def submit_body_def demo_submission_def demo_request_def field_def optionalDigest_def
        header_mismatch_def tx_field_def action_field_def actionForCircuit_def blank_iff is_ws_def any_hex_def
        MAX_TRANSACTION_HEX_LENGTH_def action_of_str_def isAction_def)
qed

lemma demo_submission_accept:
  "accept (pg_store (\<lambda>_. 0)) demo_sha demo_hmac demo_opts ''now'' 5 (submit_body demo_submission) demo_submission_headers
     (boot pg_empty []) = (demo_accepted, Inr (publicJob demo_job))"
  by (rule demo_accept_as [OF demo_authorize_as [OF demo_submission_parse]]) simp

lemma demo_submission_length: "length (utf8 (stringify (submit_body demo_submission))) \<le> MAX_BODY_BYTES"
proof -
  have "length (stringify (submit_body demo_submission)) \<le> 400" by code_simp
  then show ?thesis using length_utf8 [of "stringify (submit_body demo_submission)"] by (simp add: MAX_BODY_BYTES_def)
qed

lemma demo_token_nonempty: "signV2Capability demo_hmac demo_claims 100 ''s'' \<noteq> []"
  by (simp add: signV2Capability_def Let_def)

theorem submission_reaches_service_witness:
  "handleV2Route (pg_store (\<lambda>_. 0)) demo_sha demo_hmac (\<lambda>_. Inr None) demo_opts True [] ''now'' 5
     (deliver demo_client (submit_request demo_client demo_submission)) (boot pg_empty [])
   = (demo_accepted, Some \<lparr> ha_status = 202, ha_body = public_job_json (publicJob demo_job) \<rparr>)"
proof -
  from demo_submission_accept show ?thesis
    using submission_reaches_service [of demo_submission demo_opts demo_client "pg_store (\<lambda>_. 0)" demo_sha demo_hmac
        "''now''" 5 "boot pg_empty []" demo_accepted "publicJob demo_job"] demo_submission_length demo_token_nonempty
    by (simp add: demo_submission_def demo_opts_def demo_client_def publicJob_def demo_job_def)
qed

lemma demo_submitted:
  "handleV2Route (pg_store (\<lambda>_. 0)) demo_sha demo_hmac (\<lambda>_. Inr None) demo_opts True [] ''now'' 5
     (deliver demo_client (submit_request demo_client demo_submission)) (boot pg_empty [])
   = (demo_accepted, Some \<lparr> ha_status = 202, ha_body = public_job_json (publicJob demo_job) \<rparr>)"
  using submission_handled [of demo_submission demo_opts demo_client "pg_store (\<lambda>_. 0)" demo_sha demo_hmac
      "''now''" 5 "boot pg_empty []" demo_accepted "publicJob demo_job"] demo_submission_accept
    demo_submission_length demo_token_nonempty
  by (simp add: demo_submission_def demo_opts_def demo_client_def publicJob_def demo_job_def)

theorem public_surface_only_votes_witness:
  "hr_pathname (deliver demo_client (submit_request demo_client demo_submission)) = ''/v2/actions''"
proof -
  have "demo_accepted \<noteq> boot pg_empty []" by (simp add: demo_accepted_def boot_def)
  moreover have "hr_method (deliver demo_client (submit_request demo_client demo_submission)) = ''POST''"
    by (simp add: deliver_def submit_request_def)
  ultimately show ?thesis using public_surface_only_votes [OF demo_submitted] by simp
qed

theorem client_understands_relay_witness:
  "client_getAction (\<lambda>_. Fetched 200 (Some (public_job_json (publicJob (demo_job \<lparr> j_receipt := Some sample_receipt \<rparr>))))) demo_client ''a1''
     = Inr (Some (job_view (publicJob (demo_job \<lparr> j_receipt := Some sample_receipt \<rparr>))))"
proof -
  let ?j = "demo_job \<lparr> j_receipt := Some sample_receipt \<rparr>"
  have "wf_receipt sample_receipt" by code_simp
  moreover have "j_id ?j = ''a1''" by (simp add: demo_job_def)
  ultimately show ?thesis
    using client_understands_relay [of ?j 200 "\<lambda>_. Fetched 200 (Some (public_job_json (publicJob ?j)))" demo_client demo_submission]
    by simp
qed


abbreviation demo_resolver :: "resolve_input \<Rightarrow> (v2_error, receipt option) result" where
  "demo_resolver \<equiv> resolve (\<lambda>_. None) None (Response True (sample_payload ''SUCCESS''))"

lemma demo_receipt_fetched:
  "client_getReceipt (\<lambda>_. answer_of (snd (handleV2Route (pg_store (\<lambda>_. 0)) demo_sha demo_hmac demo_resolver demo_opts True []
     ''now'' 5 (deliver demo_client (receipt_lookup demo_client ''a2'')) (demo_one IndexerPending (Some ''t1''))))) demo_client ''a2''
   = Inr (Some sample_receipt)"
  by code_simp


section \<open>Witnesses of the dispatcher's properties\<close>

abbreviation demo_legacy :: legacy_wallet where
  "demo_legacy \<equiv> \<lparr> lw_balance = Inr, lw_submit = Inr \<rparr>"

theorem server_boundary_witness:
  "serve (pg_store (\<lambda>_. 0)) demo_sha demo_hmac (\<lambda>_. Inr None) (\<lambda>_. None) sample_config demo_opts (Some sample_wallet_view) demo_legacy 0
     (sample_server_request \<lparr> sr_origin := Some ''https://evil.test'' \<rparr>) demo_accepted
   = (demo_accepted, Answer (send_error 403 ''origin_not_allowed''))"
proof -
  have "\<not> applyCors sample_config (sample_server_request \<lparr> sr_origin := Some ''https://evil.test'' \<rparr>)" by code_simp
  then show ?thesis using server_boundary by blast
qed

theorem ready_route_exact_witness:
  "ha_status (ready_answer sample_config (Some sample_wallet_view) True 0) = 200"
proof -
  have "serve (pg_store (\<lambda>_. 0)) demo_sha demo_hmac (\<lambda>_. Inr None) (\<lambda>_. None) sample_config demo_opts (Some sample_wallet_view)
      demo_legacy 0 sample_server_request demo_accepted
    = (demo_accepted, Answer (ready_answer sample_config (Some sample_wallet_view) True 0))"
    by (simp add: serve_def applyCors_def handleV2Route_def status_routes_def dust_time_def sample_server_request_def sample_config_def)
  from ready_route_exact [OF _ _ _ this] show ?thesis
    by (simp add: sample_server_request_def applyCors_def dust_time_def sample_wallet_view_def sample_config_def)
qed

end
