(* ===== verification/Lock_File.thy ===== *)
theory Lock_File
  imports Prelude
begin

text \<open>
  The lock file of the atomic JSON engine (\<open>acquireLock\<close>, \<open>recoverDeadLock\<close> and
  \<open>release\<close> of \<open>cico-service/src/durable-stores.ts\<close>). Processes are numbers. Each
  file system call is one step, and steps of different processes interleave: the
  exclusive creation of the file, the inspection that finds it old and its owner
  dead, the removal that follows it, and the removal on release. A process may
  crash while it holds the lock.
\<close>

section \<open>State and steps\<close>

datatype lock_pc = Outside | Waiting | Recovering | Inside | Crashed

text \<open>The file names its owner; \<open>lf_old\<close> says that its age has passed \<open>staleLockMs\<close>.\<close>

record lock_state =
  lf_file :: "nat option"
  lf_old :: bool
  lf_pc :: "nat \<Rightarrow> lock_pc"

datatype lock_action = Arrive nat | Create nat | Age | Inspect nat | Unlink nat | Release nat | Crash nat

definition lock_initial :: lock_state where
  "lock_initial = \<lparr> lf_file = None, lf_old = False, lf_pc = (\<lambda>_. Outside) \<rparr>"

definition set_pc :: "nat \<Rightarrow> lock_pc \<Rightarrow> lock_state \<Rightarrow> lock_state" where
  "set_pc p c s = s \<lparr> lf_pc := (lf_pc s)(p := c) \<rparr>"

fun lock_step :: "lock_action \<Rightarrow> lock_state \<Rightarrow> lock_state option" where
  "lock_step (Arrive p) s = (if lf_pc s p = Outside then Some (set_pc p Waiting s) else None)"
| "lock_step (Create p) s =
     (if lf_pc s p = Waiting \<and> lf_file s = None
      then Some (set_pc p Inside (s \<lparr> lf_file := Some p, lf_old := False \<rparr>)) else None)"
| "lock_step Age s = (if lf_file s \<noteq> None then Some (s \<lparr> lf_old := True \<rparr>) else None)"
| "lock_step (Inspect p) s =
     (case lf_file s of
        Some owner \<Rightarrow>
          if lf_pc s p = Waiting \<and> lf_old s \<and> lf_pc s owner = Crashed then Some (set_pc p Recovering s) else None
      | None \<Rightarrow> None)"
| "lock_step (Unlink p) s = (if lf_pc s p = Recovering then Some (set_pc p Waiting (s \<lparr> lf_file := None \<rparr>)) else None)"
| "lock_step (Release p) s = (if lf_pc s p = Inside then Some (set_pc p Outside (s \<lparr> lf_file := None \<rparr>)) else None)"
| "lock_step (Crash p) s = (if lf_pc s p = Inside then Some (set_pc p Crashed s) else None)"

fun lock_run :: "lock_action list \<Rightarrow> lock_state \<Rightarrow> lock_state option" where
  "lock_run [] s = Some s"
| "lock_run (a # as) s = Option.bind (lock_step a s) (lock_run as)"

fun_cases lock_stepE: "lock_step a s = Some s'"

section \<open>Mutual exclusion\<close>

definition excludes :: "lock_state \<Rightarrow> bool" where
  "excludes s = (\<forall>p q. lf_pc s p = Inside \<longrightarrow> lf_pc s q = Inside \<longrightarrow> p = q)"

text \<open>
  As long as no process is removing a stale lock, the file names the process
  inside, and nobody else is.
\<close>

definition lock_inv :: "lock_state \<Rightarrow> bool" where
  "lock_inv s = (\<forall>p. (lf_pc s p = Inside \<longrightarrow> lf_file s = Some p) \<and> lf_pc s p \<noteq> Recovering \<and> lf_pc s p \<noteq> Crashed)"

lemma lock_inv_excludes: "lock_inv s \<Longrightarrow> excludes s"
  unfolding lock_inv_def excludes_def by (metis option.inject)

lemma lock_inv_step:
  assumes "lock_inv s" "lock_step a s = Some s'" "\<And>p. a \<noteq> Crash p"
  shows "lock_inv s'"
proof (cases a)
  case (Release p)
  then show ?thesis
    using assms lock_inv_excludes [OF assms(1)] by (auto simp: lock_inv_def set_pc_def excludes_def split: if_splits)
qed (use assms in \<open>auto simp: lock_inv_def set_pc_def split: if_splits option.splits\<close>)

lemma lock_inv_run:
  "lock_inv s \<Longrightarrow> lock_run as s = Some s' \<Longrightarrow> (\<And>p. Crash p \<notin> set as) \<Longrightarrow> lock_inv s'"
proof (induction as arbitrary: s)
  case (Cons a as)
  then show ?case using lock_inv_step by (auto simp: bind_eq_Some_conv) metis
qed simp

text \<open>One holder that crashed and one process that recovers its lock: the lock still excludes.\<close>

definition lone_inv :: "nat \<Rightarrow> lock_state \<Rightarrow> bool" where
  "lone_inv r s = (\<forall>p. (lf_pc s p = Inside \<longrightarrow> lf_file s = Some p) \<and> (lf_pc s p = Recovering \<longrightarrow> p = r)
     \<and> (lf_pc s r = Recovering \<longrightarrow> (\<exists>q. lf_file s = Some q \<and> lf_pc s q = Crashed)))"

lemma lone_inv_excludes: "lone_inv r s \<Longrightarrow> excludes s"
  unfolding lone_inv_def excludes_def by (metis option.inject)

lemma lone_invD:
  assumes "lone_inv r s"
  shows "lf_pc s p = Inside \<Longrightarrow> lf_file s = Some p" "lf_pc s p = Recovering \<Longrightarrow> p = r"
    "lf_pc s r = Recovering \<Longrightarrow> \<exists>q. lf_file s = Some q \<and> lf_pc s q = Crashed"
  using assms unfolding lone_inv_def by blast+

lemma lone_inv_step:
  assumes "lone_inv r s" "lock_step a s = Some s'" "\<And>p. a = Inspect p \<Longrightarrow> p = r"
  shows "lone_inv r s'"
proof (cases a)
  case (Release p)
  then have s': "s' = set_pc p Outside (s \<lparr> lf_file := None \<rparr>)" and p: "lf_pc s p = Inside"
    using assms(2) by (simp_all split: if_splits)
  have f: "lf_file s = Some p" by (rule lone_invD(1) [OF assms(1) p])
  have "lf_pc s r \<noteq> Recovering" using lone_invD(3) [OF assms(1)] f p by auto
  moreover have "q = p" if "lf_pc s q = Inside" for q using lone_invD(1) [OF assms(1) that] f by simp
  ultimately show ?thesis using lone_invD(2) [OF assms(1)] unfolding s' lone_inv_def set_pc_def by auto
next
  case (Inspect p)
  then show ?thesis using assms by (auto simp: lone_inv_def set_pc_def split: if_splits option.splits)
next
  case (Crash p)
  then have "s' = set_pc p Crashed s" "lf_pc s p = Inside" using assms(2) by (simp_all split: if_splits)
  then show ?thesis using assms(1) by (simp add: lone_inv_def set_pc_def) (metis option.inject)
next
  case (Unlink p)
  then have "s' = set_pc p Waiting (s \<lparr> lf_file := None \<rparr>)" "lf_pc s p = Recovering" using assms(2) by (simp_all split: if_splits)
  then show ?thesis using assms(1) by (simp add: lone_inv_def set_pc_def) (metis option.inject lock_pc.distinct)
next
  case (Arrive p)
  then have "s' = set_pc p Waiting s" "lf_pc s p = Outside" using assms(2) by (simp_all split: if_splits)
  then show ?thesis using assms(1) by (simp add: lone_inv_def set_pc_def) (metis lock_pc.distinct)
next
  case (Create p)
  then have s': "s' = set_pc p Inside (s \<lparr> lf_file := Some p, lf_old := False \<rparr>)" and p: "lf_pc s p = Waiting" "lf_file s = None"
    using assms(2) by (simp_all split: if_splits)
  then have "lf_pc s q \<noteq> Inside" "lf_pc s q \<noteq> Recovering" for q using lone_invD [OF assms(1)] by (metis option.distinct(1))+
  then show ?thesis unfolding s' lone_inv_def set_pc_def by auto
next
  case Age
  then have "s' = s \<lparr> lf_old := True \<rparr>" using assms(2) by (simp split: if_splits)
  moreover have "lone_inv r (s \<lparr> lf_old := True \<rparr>) = lone_inv r s" by (simp add: lone_inv_def)
  ultimately show ?thesis using assms(1) by simp
qed

lemma lone_inv_run:
  "lone_inv r s \<Longrightarrow> lock_run as s = Some s' \<Longrightarrow> (\<And>p. Inspect p \<in> set as \<Longrightarrow> p = r) \<Longrightarrow> lone_inv r s'"
proof (induction as arbitrary: s)
  case (Cons a as)
  obtain s1 where s1: "lock_step a s = Some s1" "lock_run as s1 = Some s'" using Cons.prems(2) by (auto simp: bind_eq_Some_conv)
  have "lone_inv r s1" using lone_inv_step [OF Cons.prems(1) s1(1)] Cons.prems(3) by auto
  then show ?case using Cons.IH [OF _ s1(2)] Cons.prems(3) by auto
qed simp

section \<open>Properties\<close>



definition race :: "lock_action list" where
  "race = [Arrive 0, Create 0, Crash 0, Age, Arrive 1, Arrive 2, Inspect 1, Inspect 2, Unlink 1, Create 1, Unlink 2, Create 2]"

text \<open>
  With two processes recovering the same stale lock the exclusion is lost:
  both inspect the crashed owner's file, the first removes it and takes the lock,
  and the second then removes the first one's fresh file and takes the lock too.
\<close>

theorem stale_lock_race:
  "\<exists>s. lock_run race lock_initial = Some s \<and> lf_pc s 1 = Inside \<and> lf_pc s 2 = Inside \<and> \<not> excludes s"
proof -
  obtain s where s: "lock_run race lock_initial = Some s" "lf_pc s 1 = Inside" "lf_pc s 2 = Inside"
    by (simp add: race_def lock_initial_def set_pc_def)
  then have "\<not> excludes s" unfolding excludes_def by (metis one_neq_zero Suc_1 n_not_Suc_n)
  then show ?thesis using s by blast
qed

end
