(* ===== verification/Merkle_Tree.thy ===== *)
theory Merkle_Tree
  imports Prelude
begin

text \<open>
  The fixed-depth Merkle trees of the contracts: the root of an append-only list of
  leaves, the authentication path of a leaf (\<open>findPathForLeaf\<close>) and the root that a
  path leads to (\<open>merkleTreePathRoot\<close> of the Compact standard library). The leaf and
  node hashes, the digest of an empty subtree and the digest a ledger field starts with
  are parameters.
\<close>

section \<open>Definitions\<close>

record 'd merkle_runtime =
  leafDigest :: "string \<Rightarrow> 'd"
  nodeDigest :: "'d \<Rightarrow> 'd \<Rightarrow> 'd"
  emptyDigest :: "nat \<Rightarrow> 'd"
  defaultDigest :: 'd

text \<open>A path entry is the sibling and whether the node on the path is the left child, from the leaf upwards.\<close>

record 'd merkle_path =
  mp_leaf :: string
  mp_path :: "('d \<times> bool) list"

definition merkleTreePathEntryRoot :: "'d merkle_runtime \<Rightarrow> 'd \<Rightarrow> 'd \<times> bool \<Rightarrow> 'd" where
  "merkleTreePathEntryRoot m recursiveDigest entry = (case entry of (sibling, goes_left) \<Rightarrow>
     nodeDigest m (if goes_left then recursiveDigest else sibling) (if goes_left then sibling else recursiveDigest))"

definition merkleTreePathRoot :: "'d merkle_runtime \<Rightarrow> 'd merkle_path \<Rightarrow> 'd" where
  "merkleTreePathRoot m path = foldl (merkleTreePathEntryRoot m) (leafDigest m (mp_leaf path)) (mp_path path)"

fun tree_root :: "'d merkle_runtime \<Rightarrow> nat \<Rightarrow> string list \<Rightarrow> 'd" where
  "tree_root m 0 ls = (case ls of [] \<Rightarrow> emptyDigest m 0 | l # _ \<Rightarrow> leafDigest m l)"
| "tree_root m (Suc h) ls =
     (if ls = [] then emptyDigest m (Suc h)
      else nodeDigest m (tree_root m h (take (2 ^ h) ls)) (tree_root m h (drop (2 ^ h) ls)))"

fun tree_path :: "'d merkle_runtime \<Rightarrow> nat \<Rightarrow> string list \<Rightarrow> nat \<Rightarrow> ('d \<times> bool) list" where
  "tree_path m 0 ls i = []"
| "tree_path m (Suc h) ls i =
     (if i < 2 ^ h then tree_path m h (take (2 ^ h) ls) i @ [(tree_root m h (drop (2 ^ h) ls), True)]
      else tree_path m h (drop (2 ^ h) ls) (i - 2 ^ h) @ [(tree_root m h (take (2 ^ h) ls), False)])"

fun index_of :: "'a \<Rightarrow> 'a list \<Rightarrow> nat option" where
  "index_of x [] = None"
| "index_of x (y # ys) = (if x = y then Some 0 else map_option Suc (index_of x ys))"

definition findPathForLeaf :: "'d merkle_runtime \<Rightarrow> nat \<Rightarrow> string list \<Rightarrow> string \<Rightarrow> 'd merkle_path option" where
  "findPathForLeaf m h ls leaf = map_option (\<lambda>i. \<lparr> mp_leaf = leaf, mp_path = tree_path m h ls i \<rparr>) (index_of leaf ls)"

text \<open>The roots a historic tree has had: the ones of the prefixes of its leaves.\<close>

definition historic_root :: "'d merkle_runtime \<Rightarrow> nat \<Rightarrow> string list \<Rightarrow> 'd \<Rightarrow> bool" where
  "historic_root m h ls r = list_ex (\<lambda>k. tree_root m h (take k ls) = r) [0..<Suc (length ls)]"

text \<open>What a collision-resistant hash guarantees, for the leaf and node hashes and the empty subtrees.\<close>

definition collision_free :: "'d merkle_runtime \<Rightarrow> bool" where
  "collision_free m = (inj (leafDigest m)
     \<and> (\<forall>a b c d. nodeDigest m a b = nodeDigest m c d \<longrightarrow> a = c \<and> b = d)
     \<and> (\<forall>l. leafDigest m l \<noteq> emptyDigest m 0)
     \<and> (\<forall>h a b. nodeDigest m a b = emptyDigest m (Suc h) \<longrightarrow> a = emptyDigest m h \<and> b = emptyDigest m h))"

section \<open>Lemmas\<close>

lemma collision_freeD:
  assumes "collision_free m"
  shows "leafDigest m l = leafDigest m l' \<Longrightarrow> l = l'" "leafDigest m l \<noteq> emptyDigest m 0"
    "nodeDigest m a b = nodeDigest m c d \<Longrightarrow> a = c" "nodeDigest m a b = nodeDigest m c d \<Longrightarrow> b = d"
    "nodeDigest m a b = emptyDigest m (Suc h) \<Longrightarrow> a = emptyDigest m h"
    "nodeDigest m a b = emptyDigest m (Suc h) \<Longrightarrow> b = emptyDigest m h"
  using assms unfolding collision_free_def inj_def by blast+

lemma tree_root_Nil [simp]: "tree_root m h [] = emptyDigest m h"
  by (cases h) simp_all

lemma path_root_snoc:
  "merkleTreePathRoot m \<lparr> mp_leaf = l, mp_path = p @ [e] \<rparr>
     = merkleTreePathEntryRoot m (merkleTreePathRoot m \<lparr> mp_leaf = l, mp_path = p \<rparr>) e"
  by (simp add: merkleTreePathRoot_def)

lemma tree_path_root:
  "length ls \<le> 2 ^ h \<Longrightarrow> i < length ls \<Longrightarrow>
     merkleTreePathRoot m \<lparr> mp_leaf = ls ! i, mp_path = tree_path m h ls i \<rparr> = tree_root m h ls"
proof (induction h arbitrary: ls i)
  case 0
  then show ?case by (cases ls) (auto simp: merkleTreePathRoot_def)
next
  case (Suc h)
  then have ls: "ls \<noteq> []" by auto
  show ?case
  proof (cases "i < 2 ^ h")
    case True
    have "merkleTreePathRoot m \<lparr> mp_leaf = take (2 ^ h) ls ! i, mp_path = tree_path m h (take (2 ^ h) ls) i \<rparr>
        = tree_root m h (take (2 ^ h) ls)"
      using Suc True by (intro Suc.IH) auto
    then show ?thesis using True ls by (simp add: path_root_snoc merkleTreePathEntryRoot_def)
  next
    case False
    have "merkleTreePathRoot m \<lparr> mp_leaf = drop (2 ^ h) ls ! (i - 2 ^ h), mp_path = tree_path m h (drop (2 ^ h) ls) (i - 2 ^ h) \<rparr>
        = tree_root m h (drop (2 ^ h) ls)"
      using Suc False by (intro Suc.IH) auto
    then show ?thesis using False ls Suc.prems by (simp add: path_root_snoc merkleTreePathEntryRoot_def)
  qed
qed

lemma length_tree_path [simp]: "length (tree_path m h ls i) = h"
  by (induction h arbitrary: ls i) simp_all

lemma index_of_Some: "index_of x xs = Some i \<Longrightarrow> i < length xs \<and> xs ! i = x"
  by (induction xs arbitrary: i) (auto split: if_splits)

lemma index_of_None [simp]: "index_of x xs = None \<longleftrightarrow> x \<notin> set xs"
  by (induction xs) auto

lemma findPathForLeaf_complete:
  assumes "leaf \<in> set ls" "length ls \<le> 2 ^ h"
  obtains path where "findPathForLeaf m h ls leaf = Some path" "mp_leaf path = leaf" "length (mp_path path) = h"
    "merkleTreePathRoot m path = tree_root m h ls"
proof -
  obtain i where i: "index_of leaf ls = Some i" using assms(1) by (metis index_of_None option.exhaust)
  then have "i < length ls" "ls ! i = leaf" using index_of_Some by fastforce+
  then have "merkleTreePathRoot m \<lparr> mp_leaf = leaf, mp_path = tree_path m h ls i \<rparr> = tree_root m h ls"
    using tree_path_root [OF assms(2)] by blast
  then show thesis by (intro that [of "\<lparr> mp_leaf = leaf, mp_path = tree_path m h ls i \<rparr>"]) (simp_all add: findPathForLeaf_def i)
qed

lemma path_not_empty:
  assumes "collision_free m"
  shows "merkleTreePathRoot m \<lparr> mp_leaf = l, mp_path = p \<rparr> \<noteq> emptyDigest m (length p)"
proof (induction p rule: rev_induct)
  case Nil
  then show ?case using collision_freeD(2) [OF assms] by (simp add: merkleTreePathRoot_def)
next
  case (snoc e p)
  obtain s g where e: "e = (s, g)" by (cases e)
  show ?case
  proof
    assume "merkleTreePathRoot m \<lparr> mp_leaf = l, mp_path = p @ [e] \<rparr> = emptyDigest m (length (p @ [e]))"
    then have "nodeDigest m (if g then merkleTreePathRoot m \<lparr> mp_leaf = l, mp_path = p \<rparr> else s)
        (if g then s else merkleTreePathRoot m \<lparr> mp_leaf = l, mp_path = p \<rparr>) = emptyDigest m (Suc (length p))"
      by (simp add: e path_root_snoc merkleTreePathEntryRoot_def)
    from collision_freeD(5,6) [OF assms this] snoc show False by (cases g) simp_all
  qed
qed

text \<open>A path of the right length that leads to the root of a tree starts at one of its leaves.\<close>

lemma path_root_leaf:
  assumes "collision_free m"
  shows "length ls \<le> 2 ^ h \<Longrightarrow> length p = h \<Longrightarrow> merkleTreePathRoot m \<lparr> mp_leaf = l, mp_path = p \<rparr> = tree_root m h ls \<Longrightarrow> l \<in> set ls"
proof (induction h arbitrary: ls p)
  case 0
  then show ?case
    using collision_freeD(1,2) [OF assms] by (cases ls) (auto simp: merkleTreePathRoot_def)
next
  case (Suc h)
  obtain q s g where p: "p = q @ [(s, g)]" and q: "length q = h"
    using Suc.prems(2) by (metis length_Suc_conv_rev surj_pair)
  have ls: "ls \<noteq> []" using path_not_empty [OF assms, of l p] Suc.prems(2,3) by auto
  have eq: "nodeDigest m (if g then merkleTreePathRoot m \<lparr> mp_leaf = l, mp_path = q \<rparr> else s)
        (if g then s else merkleTreePathRoot m \<lparr> mp_leaf = l, mp_path = q \<rparr>)
      = nodeDigest m (tree_root m h (take (2 ^ h) ls)) (tree_root m h (drop (2 ^ h) ls))"
    using Suc.prems(3) ls by (simp add: p path_root_snoc merkleTreePathEntryRoot_def)
  show ?case
  proof (cases g)
    case True
    then have "l \<in> set (take (2 ^ h) ls)"
      using collision_freeD(3) [OF assms eq] Suc.prems(1) q by (intro Suc.IH) auto
    then show ?thesis by (rule in_set_takeD)
  next
    case False
    then have "l \<in> set (drop (2 ^ h) ls)"
      using collision_freeD(4) [OF assms eq] Suc.prems(1) q by (intro Suc.IH) auto
    then show ?thesis by (rule in_set_dropD)
  qed
qed

lemma merkle_sound:
  assumes "collision_free m" "length ls \<le> 2 ^ h" "length (mp_path path) = h" "merkleTreePathRoot m path = tree_root m h ls"
  shows "mp_leaf path \<in> set ls"
  using path_root_leaf [OF assms(1-3), of "mp_leaf path"] assms(4) by (cases path) simp

lemma historic_root_iff: "historic_root m h ls r \<longleftrightarrow> (\<exists>k \<le> length ls. tree_root m h (take k ls) = r)"
  unfolding historic_root_def list_ex_iff set_upt by (auto simp: less_Suc_eq_le)

lemma historic_root_now: "historic_root m h ls (tree_root m h ls)"
  unfolding historic_root_iff by (rule exI [of _ "length ls"]) simp

lemma merkle_sound_historic:
  assumes "collision_free m" "length ls \<le> 2 ^ h" "length (mp_path path) = h" "historic_root m h ls (merkleTreePathRoot m path)"
  shows "mp_leaf path \<in> set ls"
proof -
  obtain k where "tree_root m h (take k ls) = merkleTreePathRoot m path" using assms(4) unfolding historic_root_iff by blast
  then have "mp_leaf path \<in> set (take k ls)" using assms by (intro merkle_sound [where h = h and m = m]) auto
  then show ?thesis by (rule in_set_takeD)
qed

text \<open>The root determines the leaves.\<close>

lemma tree_root_inject:
  assumes "collision_free m"
  shows "length ls \<le> 2 ^ h \<Longrightarrow> length ls' \<le> 2 ^ h \<Longrightarrow> tree_root m h ls = tree_root m h ls' \<Longrightarrow> ls = ls'"
proof (induction h arbitrary: ls ls')
  case 0
  consider "ls = []" "ls' = []" | a where "ls = [a]" "ls' = []" | b where "ls = []" "ls' = [b]" | a b where "ls = [a]" "ls' = [b]"
    using 0 by (cases ls; cases ls') auto
  then show ?case
  proof cases
    case (2 a)
    then show ?thesis using 0 collision_freeD(2) [OF assms, of a] by simp
  next
    case (3 b)
    then show ?thesis using 0 collision_freeD(2) [OF assms, of b] by simp
  next
    case (4 a b)
    then show ?thesis using 0 collision_freeD(1) [OF assms, of a b] by simp
  qed simp
next
  case (Suc h)
  have nonempty: "tree_root m (Suc h) xs \<noteq> emptyDigest m (Suc h)" if "xs \<noteq> []" "length xs \<le> 2 ^ Suc h" for xs
  proof
    assume "tree_root m (Suc h) xs = emptyDigest m (Suc h)"
    then have "nodeDigest m (tree_root m h (take (2 ^ h) xs)) (tree_root m h (drop (2 ^ h) xs)) = emptyDigest m (Suc h)"
      using that(1) by simp
    from collision_freeD(5) [OF assms this] have "tree_root m h (take (2 ^ h) xs) = tree_root m h []" by simp
    then have "take (2 ^ h) xs = []" by (intro Suc.IH) simp_all
    then show False using that(1) by simp
  qed
  show ?case
  proof (cases "ls = [] \<or> ls' = []")
    case True
    then show ?thesis using nonempty Suc.prems by (metis tree_root_Nil)
  next
    case False
    then have eq: "nodeDigest m (tree_root m h (take (2 ^ h) ls)) (tree_root m h (drop (2 ^ h) ls))
        = nodeDigest m (tree_root m h (take (2 ^ h) ls')) (tree_root m h (drop (2 ^ h) ls'))"
      using Suc.prems(3) by simp
    have "take (2 ^ h) ls = take (2 ^ h) ls'" using collision_freeD(3) [OF assms eq] by (intro Suc.IH) simp_all
    moreover have "drop (2 ^ h) ls = drop (2 ^ h) ls'"
      using collision_freeD(4) [OF assms eq] Suc.prems(1,2) by (intro Suc.IH) simp_all
    ultimately show ?thesis by (metis append_take_drop_id)
  qed
qed

section \<open>A collision-free instance\<close>

datatype free_digest = FreeEmpty nat | FreeLeaf string | FreeNode free_digest free_digest

definition free_merkle :: "free_digest merkle_runtime" where
  "free_merkle = \<lparr> leafDigest = FreeLeaf, nodeDigest = FreeNode, emptyDigest = FreeEmpty, defaultDigest = FreeEmpty 0 \<rparr>"

lemma free_merkle_collision_free: "collision_free free_merkle"
  by (simp add: collision_free_def free_merkle_def inj_def)

end
