(* ===== verification/Durable_Stores.thy ===== *)
theory Durable_Stores
  imports Receipts
begin

text \<open>
  The credential service's durable JSON stores
  (\<open>cico-service/src/durable-stores.ts\<close>): evidence authorisations, public receipts
  and issued credentials, over one atomic file engine. A store is the content of
  its state file; an update parses it, runs on plain objects and replaces it, or
  leaves it when anything throws. Bytes are characters; SHA-256 is a parameter.
\<close>

section \<open>The atomic engine\<close>

datatype json_file = NoFile | NotJson | JsonFile json

datatype durable_error = InvalidArgument string | CorruptState | DurableStoreConflictError | FileSyntaxError

record store_options =
  st_filePath :: "string option"
  st_path :: "string option"
  st_lockPath :: "string option"
  st_lockTimeoutMs :: "int option"
  st_staleLockMs :: "int option"

record resolved_options =
  ro_filePath :: string
  ro_lockPath :: string
  ro_lockTimeoutMs :: int
  ro_staleLockMs :: int

definition or_default :: "'a option \<Rightarrow> 'a \<Rightarrow> 'a" where
  "or_default v d = (case v of Some x \<Rightarrow> x | None \<Rightarrow> d)"

definition resolveStoreOptions :: "store_options \<Rightarrow> (durable_error, resolved_options) result" where
  "resolveStoreOptions opts =
     (case (case st_filePath opts of Some p \<Rightarrow> Some p | None \<Rightarrow> st_path opts) of
        None \<Rightarrow> Inl (InvalidArgument ''filePath'')
      | Some path \<Rightarrow>
          let timeout = or_default (st_lockTimeoutMs opts) 10000; stale = or_default (st_staleLockMs opts) 30000 in
          rbind (check (path \<noteq> []) (InvalidArgument ''filePath'')) (\<lambda>_.
          rbind (check (0 < timeout \<and> timeout \<le> max_safe) (InvalidArgument ''lockTimeoutMs'')) (\<lambda>_.
          rbind (check (0 < stale \<and> stale \<le> max_safe) (InvalidArgument ''staleLockMs'')) (\<lambda>_.
          Inr \<lparr> ro_filePath = path, ro_lockPath = or_default (st_lockPath opts) (path @ ''.lock''),
                ro_lockTimeoutMs = timeout, ro_staleLockMs = stale \<rparr>))))"

definition atomic_read :: "'t \<Rightarrow> (json \<Rightarrow> (durable_error, 't) result) \<Rightarrow> json_file \<Rightarrow> (durable_error, 't) result" where
  "atomic_read initial parse f = (case f of
     NoFile \<Rightarrow> Inr initial
   | NotJson \<Rightarrow> Inl FileSyntaxError
   | JsonFile v \<Rightarrow> parse v)"

definition atomic_update ::
  "'t \<Rightarrow> (json \<Rightarrow> (durable_error, 't) result) \<Rightarrow> ('t \<Rightarrow> json) \<Rightarrow> json_file
     \<Rightarrow> ('t \<Rightarrow> (durable_error, 't \<times> 'r) result) \<Rightarrow> json_file \<times> (durable_error, 'r) result" where
  "atomic_update initial parse write f mutator =
     (case rbind (atomic_read initial parse f) mutator of
        Inl e \<Rightarrow> (f, Inl e)
      | Inr (t, r) \<Rightarrow> (JsonFile (write t), Inr r))"

section \<open>Digests and hex\<close>

definition digest :: "(string \<Rightarrow> string) \<Rightarrow> string \<Rightarrow> string \<Rightarrow> string" where
  "digest sha256 domain value = sha256 (utf8 (''cico:'' @ domain @ '':v1:'') @ utf8 value)"

definition requireNonEmpty :: "string \<Rightarrow> string \<Rightarrow> (durable_error, unit) result" where
  "requireNonEmpty value label = check (value \<noteq> []) (InvalidArgument label)"

definition requireSha :: "string \<Rightarrow> string \<Rightarrow> (durable_error, unit) result" where
  "requireSha value label = check (is_hex64 value) (InvalidArgument label)"

definition byte_hex :: "char \<Rightarrow> string" where
  "byte_hex c = (let n = of_char c in [hex_digit (n div 16), hex_digit (n mod 16)])"

definition bytesToHex :: "string \<Rightarrow> string" where
  "bytesToHex bs = concat (map byte_hex bs)"

fun bytesFromHex :: "string \<Rightarrow> string" where
  "bytesFromHex (h # l # cs) = char_of (16 * hex_val h + hex_val l) # bytesFromHex cs"
| "bytesFromHex _ = []"

definition bytes32Hex :: "string \<Rightarrow> string \<Rightarrow> (durable_error, string) result" where
  "bytes32Hex value label = (if length value \<noteq> 32 then Inl (InvalidArgument label) else Inr (bytesToHex value))"

definition issuanceFingerprint :: "(string \<Rightarrow> string) \<Rightarrow> string \<Rightarrow> (durable_error, string) result" where
  "issuanceFingerprint sha256 material =
     rbind (requireNonEmpty material ''issuance material'') (\<lambda>_. Inr (digest sha256 ''issuance'' material))"

section \<open>Evidence authorisations\<close>

record evidence_record =
  er_enrollmentKey :: string
  er_materialKey :: "string option"

type_synonym evidence_state = "evidence_record jsmap"

definition evidence_record_json :: "evidence_record \<Rightarrow> json" where
  "evidence_record_json r = JObj ((''enrollmentKey'', JStr (er_enrollmentKey r)) # opt_prop ''materialKey'' JStr (er_materialKey r))"

definition evidence_json :: "evidence_state \<Rightarrow> json" where
  "evidence_json st = JObj [(''version'', JNum (JInt 1)),
     (''authorizations'', JObj (map (\<lambda>(k, r). (k, evidence_record_json r)) st))]"

definition hex64_field :: "json option \<Rightarrow> bool" where
  "hex64_field v = (case as_str v of Some s \<Rightarrow> is_hex64 s | None \<Rightarrow> False)"

text \<open>A dictionary under a versioned object, rebuilt entry by entry.\<close>

definition parse_versioned ::
  "string \<Rightarrow> (string \<times> json \<Rightarrow> (durable_error, 'a) result) \<Rightarrow> json \<Rightarrow> (durable_error, 'a jsmap) result" where
  "parse_versioned name entry v =
     (if \<not> isRecord v \<or> fld v ''version'' \<noteq> Some (JNum (JInt 1))
        \<or> \<not> (case fld v name of Some x \<Rightarrow> isRecord x | None \<Rightarrow> False)
      then Inl CorruptState
      else rbind (mapM (\<lambda>(k, x). rbind (entry (k, x)) (\<lambda>a. Inr (k, a))) (entries (the (fld v name))))
        (\<lambda>ps. Inr (fold (\<lambda>(k, a). obj_set k a) ps [])))"

definition parse_evidence_entry :: "string \<times> json \<Rightarrow> (durable_error, evidence_record) result" where
  "parse_evidence_entry p = (case p of (key, item) \<Rightarrow>
     if \<not> is_hex64 key \<or> \<not> isRecord item \<or> \<not> hex64_field (fld item ''enrollmentKey'')
       \<or> (fld item ''materialKey'' \<noteq> None \<and> \<not> hex64_field (fld item ''materialKey''))
     then Inl CorruptState
     else Inr \<lparr> er_enrollmentKey = the (as_str (fld item ''enrollmentKey'')),
                er_materialKey = truthy_str (as_str (fld item ''materialKey'')) \<rparr>)"

definition parseEvidenceState :: "json \<Rightarrow> (durable_error, evidence_state) result" where
  "parseEvidenceState = parse_versioned ''authorizations'' parse_evidence_entry"

text \<open>\<open>claim\<close>; a key that the dictionary only inherits cannot be a digest.\<close>

definition claim_record ::
  "string \<Rightarrow> string \<Rightarrow> string option \<Rightarrow> evidence_state \<Rightarrow> evidence_state \<times> bool" where
  "claim_record authorizationKey enrollmentKey materialKey st =
     (case map_of st authorizationKey of
        None \<Rightarrow> (obj_set authorizationKey \<lparr> er_enrollmentKey = enrollmentKey, er_materialKey = materialKey \<rparr> st, True)
      | Some existing \<Rightarrow>
          if er_enrollmentKey existing \<noteq> enrollmentKey then (st, False)
          else if er_materialKey existing \<noteq> None \<and> materialKey \<noteq> None \<and> er_materialKey existing \<noteq> materialKey then (st, False)
          else if er_materialKey existing = None \<and> materialKey \<noteq> None
          then (obj_set authorizationKey (existing \<lparr> er_materialKey := materialKey \<rparr>) st, True)
          else (st, True))"

definition evidence_claim ::
  "(string \<Rightarrow> string) \<Rightarrow> string \<Rightarrow> string \<Rightarrow> string option \<Rightarrow> json_file \<Rightarrow> json_file \<times> (durable_error, bool) result" where
  "evidence_claim sha256 evidenceAuthorization enrollmentId issuanceMaterial f =
     (if evidenceAuthorization = [] then (f, Inl (InvalidArgument ''evidenceAuthorization''))
      else if enrollmentId = [] then (f, Inl (InvalidArgument ''enrollmentId''))
      else if issuanceMaterial = Some [] then (f, Inl (InvalidArgument ''issuanceMaterial''))
      else atomic_update [] parseEvidenceState evidence_json f (\<lambda>st.
        Inr (claim_record (digest sha256 ''evidence'' evidenceAuthorization) (digest sha256 ''enrollment'' enrollmentId)
               (map_option (digest sha256 ''material'') issuanceMaterial) st)))"

section \<open>Receipts\<close>

definition durable_canonicalReceipt :: "json \<Rightarrow> (durable_error, receipt) result" where
  "durable_canonicalReceipt v =
     (case sanitizeCanonicalReceipt v of
        Inl e \<Rightarrow> Inl (InvalidArgument ''receipt'')
      | Inr r \<Rightarrow> if r_network r \<noteq> Preview then Inl (InvalidArgument ''receipt'') else Inr r)"

type_synonym receipt_state = "receipt jsmap"

definition receipts_json :: "receipt_state \<Rightarrow> json" where
  "receipts_json st = JObj [(''version'', JNum (JInt 1)), (''receipts'', JObj (map (\<lambda>(k, r). (k, receipt_json r)) st))]"

definition parseReceiptState :: "json \<Rightarrow> (durable_error, receipt_state) result" where
  "parseReceiptState = parse_versioned ''receipts'' (\<lambda>(key, v).
     rbind (durable_canonicalReceipt v) (\<lambda>r. if key \<noteq> r_transactionId r then Inl CorruptState else Inr r))"

definition receipt_put :: "receipt \<Rightarrow> json_file \<Rightarrow> json_file \<times> (durable_error, unit) result" where
  "receipt_put value f = (case durable_canonicalReceipt (receipt_json value) of
     Inl e \<Rightarrow> (f, Inl e)
   | Inr canonical \<Rightarrow> atomic_update [] parseReceiptState receipts_json f (\<lambda>st.
       case obj_get st (r_transactionId canonical) of
         Own existing \<Rightarrow>
           if stringify (receipt_json existing) \<noteq> stringify (receipt_json canonical) then Inl DurableStoreConflictError
           else Inr (st, ())
       | Inherited \<Rightarrow> Inl DurableStoreConflictError
       | Undefined \<Rightarrow> Inr (obj_set (r_transactionId canonical) canonical st, ())))"

text \<open>The copy of an inherited member is an object with no receipt in it.\<close>

datatype receipt_read = NoReceipt | StoredReceipt receipt | NotAReceipt

definition receipt_get :: "string \<Rightarrow> json_file \<Rightarrow> (durable_error, receipt_read) result" where
  "receipt_get transactionId f =
     rbind (requireNonEmpty transactionId ''transactionId'') (\<lambda>_.
     rbind (atomic_read [] parseReceiptState f) (\<lambda>st.
       Inr (case obj_get st transactionId of Own r \<Rightarrow> StoredReceipt r | Inherited \<Rightarrow> NotAReceipt | Undefined \<Rightarrow> NoReceipt)))"

section \<open>Issued credentials\<close>

record issuance_result =
  ir_issuanceId :: string
  ir_credentialBlind :: string
  ir_credentialLeaf :: string
  ir_receipt :: receipt

record persisted_result =
  pr_issuanceId :: string
  pr_credentialBlindHex :: string
  pr_credentialLeafHex :: string
  pr_receipt :: receipt

record persisted_record =
  pc_fingerprintHash :: string
  pc_result :: persisted_result

record issuance_record =
  is_fingerprintHash :: string
  is_result :: issuance_result

type_synonym issuance_state = "persisted_record jsmap"

definition persisted_result_json :: "persisted_result \<Rightarrow> json" where
  "persisted_result_json r = JObj [(''issuanceId'', JStr (pr_issuanceId r)),
     (''credentialBlindHex'', JStr (pr_credentialBlindHex r)), (''credentialLeafHex'', JStr (pr_credentialLeafHex r)),
     (''receipt'', receipt_json (pr_receipt r))]"

definition persisted_record_json :: "persisted_record \<Rightarrow> json" where
  "persisted_record_json r = JObj [(''fingerprintHash'', JStr (pc_fingerprintHash r)), (''result'', persisted_result_json (pc_result r))]"

definition issuances_json :: "issuance_state \<Rightarrow> json" where
  "issuances_json st = JObj [(''version'', JNum (JInt 1)),
     (''issuances'', JObj (map (\<lambda>(k, r). (k, persisted_record_json r)) st))]"

definition parsePersistedIssuanceResult :: "json \<Rightarrow> (durable_error, persisted_result) result" where
  "parsePersistedIssuanceResult v =
     (if \<not> isRecord v then Inl (InvalidArgument ''issuance result'')
      else if \<not> nonempty_str (fld v ''issuanceId'') \<or> \<not> hex64_field (fld v ''credentialBlindHex'')
        \<or> \<not> hex64_field (fld v ''credentialLeafHex'')
      then Inl (InvalidArgument ''issuance result'')
      else rbind (case fld v ''receipt'' of Some r \<Rightarrow> durable_canonicalReceipt r | None \<Rightarrow> Inl (InvalidArgument ''receipt''))
        (\<lambda>receipt. Inr \<lparr> pr_issuanceId = the (as_str (fld v ''issuanceId'')),
             pr_credentialBlindHex = the (as_str (fld v ''credentialBlindHex'')),
             pr_credentialLeafHex = the (as_str (fld v ''credentialLeafHex'')), pr_receipt = receipt \<rparr>))"

definition parse_issuance_entry :: "string \<times> json \<Rightarrow> (durable_error, persisted_record) result" where
  "parse_issuance_entry p = (case p of (key, item) \<Rightarrow>
     if \<not> is_hex64 key \<or> \<not> isRecord item \<or> \<not> hex64_field (fld item ''fingerprintHash'') then Inl CorruptState
     else rbind (case fld item ''result'' of Some r \<Rightarrow> parsePersistedIssuanceResult r | None \<Rightarrow> Inl (InvalidArgument ''issuance result''))
       (\<lambda>result. Inr \<lparr> pc_fingerprintHash = the (as_str (fld item ''fingerprintHash'')), pc_result = result \<rparr>))"

definition parseIssuanceState :: "json \<Rightarrow> (durable_error, issuance_state) result" where
  "parseIssuanceState = parse_versioned ''issuances'' parse_issuance_entry"

definition serializeIssuanceResult :: "issuance_result \<Rightarrow> (durable_error, persisted_result) result" where
  "serializeIssuanceResult v =
     rbind (bytes32Hex (ir_credentialBlind v) ''credentialBlind'') (\<lambda>blind.
     rbind (bytes32Hex (ir_credentialLeaf v) ''credentialLeaf'') (\<lambda>leaf.
     rbind (durable_canonicalReceipt (receipt_json (ir_receipt v))) (\<lambda>receipt.
     Inr \<lparr> pr_issuanceId = ir_issuanceId v, pr_credentialBlindHex = blind, pr_credentialLeafHex = leaf, pr_receipt = receipt \<rparr>)))"

definition decodeIssuanceRecord :: "persisted_record \<Rightarrow> issuance_record" where
  "decodeIssuanceRecord r = \<lparr> is_fingerprintHash = pc_fingerprintHash r,
     is_result = \<lparr> ir_issuanceId = pr_issuanceId (pc_result r),
       ir_credentialBlind = bytesFromHex (pr_credentialBlindHex (pc_result r)),
       ir_credentialLeaf = bytesFromHex (pr_credentialLeafHex (pc_result r)), ir_receipt = pr_receipt (pc_result r) \<rparr> \<rparr>"

definition issuance_get :: "(string \<Rightarrow> string) \<Rightarrow> string \<Rightarrow> json_file \<Rightarrow> (durable_error, issuance_record option) result" where
  "issuance_get sha256 enrollmentId f =
     rbind (requireNonEmpty enrollmentId ''enrollmentId'') (\<lambda>_.
     rbind (atomic_read [] parseIssuanceState f) (\<lambda>st.
       Inr (map_option decodeIssuanceRecord (map_of st (digest sha256 ''enrollment'' enrollmentId)))))"

definition put_record :: "string \<Rightarrow> persisted_record \<Rightarrow> issuance_state \<Rightarrow> (durable_error, issuance_state \<times> unit) result" where
  "put_record key new st = (case map_of st key of
     Some existing \<Rightarrow>
       if pc_fingerprintHash existing \<noteq> pc_fingerprintHash new then Inl DurableStoreConflictError
       else if stringify (persisted_result_json (pc_result existing)) \<noteq> stringify (persisted_result_json (pc_result new))
       then Inl DurableStoreConflictError
       else Inr (st, ())
   | None \<Rightarrow> Inr (obj_set key new st, ()))"

definition issuance_put ::
  "(string \<Rightarrow> string) \<Rightarrow> string \<Rightarrow> string \<Rightarrow> issuance_result \<Rightarrow> json_file \<Rightarrow> json_file \<times> (durable_error, unit) result" where
  "issuance_put sha256 enrollmentId fingerprintHash value f =
     (case rbind (requireNonEmpty enrollmentId ''enrollmentId'') (\<lambda>_.
        rbind (requireSha fingerprintHash ''fingerprintHash'') (\<lambda>_. serializeIssuanceResult value)) of
        Inl e \<Rightarrow> (f, Inl e)
      | Inr canonical \<Rightarrow> atomic_update [] parseIssuanceState issuances_json f
          (put_record (digest sha256 ''enrollment'' enrollmentId)
             \<lparr> pc_fingerprintHash = fingerprintHash, pc_result = canonical \<rparr>))"

definition hasIssuanceId :: "string \<Rightarrow> json_file \<Rightarrow> (durable_error, bool) result" where
  "hasIssuanceId issuanceId f =
     rbind (requireNonEmpty issuanceId ''issuanceId'') (\<lambda>_.
     rbind (atomic_read [] parseIssuanceState f) (\<lambda>st.
       Inr (list_ex (\<lambda>r. pr_issuanceId (pc_result r) = issuanceId) (map_values st))))"

section \<open>Lemmas\<close>


declare hex_val_digit [simp]

lemma lower_hex_digit: "n < 16 \<Longrightarrow> lower_hex (hex_digit n)"
  by (auto simp: lower_hex_def hex_digit_def Let_def)

lemma hex_digit_val: "lower_hex c \<Longrightarrow> hex_digit (hex_val c) = c \<and> hex_val c < 16"
proof -
  assume "lower_hex c"
  then have "(48 \<le> (of_char c :: nat) \<and> (of_char c :: nat) \<le> 57) \<or> (97 \<le> (of_char c :: nat) \<and> (of_char c :: nat) \<le> 102)"
    by (simp add: lower_hex_def Let_def)
  moreover have "char_of (of_char c :: nat) = c" by simp
  ultimately show ?thesis by (auto simp: hex_digit_def hex_val_def Let_def simp del: char_of_char)
qed

lemma of_char_halves: "(of_char c :: nat) div 16 < 16" "(of_char c :: nat) mod 16 < 16"
proof -
  have "(of_char c :: nat) < 16 * 16" by simp
  then show "(of_char c :: nat) div 16 < 16" by (simp only: less_mult_imp_div_less)
qed simp

lemma bytesFromHex_byte: "bytesFromHex (byte_hex c @ s) = c # bytesFromHex s"
  using of_char_halves [of c] by (simp add: byte_hex_def Let_def)

lemma bytesFromHex_bytesToHex [simp]: "bytesFromHex (bytesToHex bs) = bs"
  by (induction bs) (simp_all add: bytesToHex_def bytesFromHex_byte)

lemma length_bytesToHex [simp]: "length (bytesToHex bs) = 2 * length bs"
  by (induction bs) (simp_all add: bytesToHex_def byte_hex_def Let_def)

lemma bytesToHex_lower: "list_all lower_hex (bytesToHex bs)"
  by (induction bs) (simp_all add: bytesToHex_def byte_hex_def Let_def lower_hex_digit of_char_halves)

lemma bytesToHex_bytesFromHex: "list_all lower_hex h \<Longrightarrow> even (length h) \<Longrightarrow> bytesToHex (bytesFromHex h) = h"
proof (induction h rule: bytesFromHex.induct)
  case (1 h l cs)
  then have d: "hex_digit (hex_val h) = h \<and> hex_val h < 16" "hex_digit (hex_val l) = l \<and> hex_val l < 16"
    by (simp_all add: hex_digit_val)
  then have "16 * hex_val h + hex_val l < 256" by simp
  then have "byte_hex (char_of (16 * hex_val h + hex_val l)) = [h, l]" using d by (simp add: byte_hex_def Let_def)
  then show ?case using 1 by (simp add: bytesToHex_def)
qed (simp_all add: bytesToHex_def)

lemma bytes32Hex_eq [simp]: "bytes32Hex v l = Inr h \<longleftrightarrow> length v = 32 \<and> h = bytesToHex v"
  by (auto simp: bytes32Hex_def)

lemma bytesToHex_hex64: "length v = 32 \<Longrightarrow> is_hex64 (bytesToHex v)"
  by (simp add: is_hex64_def bytesToHex_lower)

lemma hex64_inverse: "is_hex64 h \<Longrightarrow> bytesToHex (bytesFromHex h) = h"
  by (simp add: is_hex64_def bytesToHex_bytesFromHex)

lemma hex64_field_JStr [simp]: "hex64_field (Some (JStr s)) = is_hex64 s"
  by (simp add: hex64_field_def)

lemma durable_receipt_json:
  "durable_canonicalReceipt (receipt_json r) = (if wf_receipt r \<and> r_network r = Preview then Inr r else Inl (InvalidArgument ''receipt''))"
  by (simp add: durable_canonicalReceipt_def sanitize_receipt_json)

lemma stringify_inject: "wf_json a \<Longrightarrow> wf_json b \<Longrightarrow> stringify a = stringify b \<longleftrightarrow> a = b"
  by (metis parse_stringify option.inject)

text \<open>A dictionary whose entries parse back to themselves survives the file.\<close>

definition table_wf :: "(string \<Rightarrow> 'a \<Rightarrow> bool) \<Rightarrow> 'a jsmap \<Rightarrow> bool" where
  "table_wf ok m = (distinct (map fst m) \<and> obj_ordered m \<and> (\<forall>(k, a) \<in> set m. ok k a))"

lemma parse_versioned_json:
  assumes "table_wf ok m" "\<And>k a. ok k a \<Longrightarrow> entry (k, pr a) = Inr a" "name \<noteq> ''version''"
  shows "parse_versioned name entry (JObj [(''version'', JNum (JInt 1)), (name, JObj (map (\<lambda>(k, a). (k, pr a)) m))]) = Inr m"
proof -
  have "mapM (\<lambda>(k, x). rbind (entry (k, x)) (\<lambda>a. Inr (k, a))) (map (\<lambda>(k, a). (k, pr a)) m) = Inr (map (\<lambda>x. x) m)"
    by (rule mapM_Inr_map) (use assms(1,2) in \<open>force simp: table_wf_def\<close>)
  then show ?thesis
    using obj_ordered_rebuild [of "[]" m] assms(1,3) by (simp add: parse_versioned_def table_wf_def)
qed

lemma set_obj_set: "(k', v') \<in> set (obj_set k v m) \<Longrightarrow> (k', v') = (k, v) \<or> (k', v') \<in> set m"
  by (auto simp: obj_set_def split: if_splits dest!: set_map_set)

lemma distinct_obj_set: "distinct (map fst m) \<Longrightarrow> distinct (map fst (obj_set k v m))"
  by (simp add: obj_set_def distinct_obj_insert distinct_update)

lemma table_wf_obj_set: "table_wf ok m \<Longrightarrow> ok k v \<Longrightarrow> table_wf ok (obj_set k v m)"
  unfolding table_wf_def using distinct_obj_set obj_ordered_set by (auto dest!: set_obj_set)

lemma table_wf_Nil [simp]: "table_wf ok []"
  by (simp add: table_wf_def obj_ordered_def)

lemma table_wf_ok: "table_wf ok m \<Longrightarrow> map_of m k = Some v \<Longrightarrow> ok k v"
  by (auto simp: table_wf_def dest!: map_of_SomeD)

section \<open>Interfaces\<close>

text \<open>
  An evidence book: what is bound to an authorisation (the enrollment and, once
  known, the issuance material), all by digest, and when a claim is admitted.
\<close>

definition admits :: "evidence_record option \<Rightarrow> string \<Rightarrow> string \<Rightarrow> bool" where
  "admits r e m = (case r of
     None \<Rightarrow> True
   | Some x \<Rightarrow> er_enrollmentKey x = e \<and> (er_materialKey x = None \<or> er_materialKey x = Some m))"

locale evidence_book =
  fixes claim :: "'s \<Rightarrow> string \<Rightarrow> string \<Rightarrow> string \<Rightarrow> 's \<times> (durable_error, bool) result"
    and book_ok :: "'s \<Rightarrow> bool"
    and bound :: "'s \<Rightarrow> string \<Rightarrow> evidence_record option"
    and akey :: "string \<Rightarrow> string"
    and ekey :: "string \<Rightarrow> string"
    and mkey :: "string \<Rightarrow> string"
  assumes claim_law: "book_ok s \<Longrightarrow> a \<noteq> [] \<Longrightarrow> e \<noteq> [] \<Longrightarrow> m \<noteq> [] \<Longrightarrow> claim s a e m = (s', r) \<Longrightarrow>
    book_ok s' \<and> r = Inr (admits (bound s (akey a)) (ekey e) (mkey m))
    \<and> bound s' = (if admits (bound s (akey a)) (ekey e) (mkey m)
        then (bound s)(akey a \<mapsto> \<lparr> er_enrollmentKey = ekey e, er_materialKey = Some (mkey m) \<rparr>) else bound s)"
begin

text \<open>Once claimed, an authorisation admits only the same enrollment and material.\<close>

lemma claim_binds:
  assumes "book_ok s" "a \<noteq> []" "e \<noteq> []" "m \<noteq> []" "claim s a e m = (s', Inr True)"
    and "e' \<noteq> []" "m' \<noteq> []" "claim s' a e' m' = (s'', Inr b)"
  shows "b \<longleftrightarrow> ekey e' = ekey e \<and> mkey m' = mkey m"
  using claim_law [OF assms(1-5)] claim_law [OF _ assms(2,6,7,8)] by (auto simp: admits_def)

end

text \<open>Any sequence of claims, whatever each of them answers.\<close>

definition claims_run :: "('s \<Rightarrow> string \<Rightarrow> string \<Rightarrow> string \<Rightarrow> 's \<times> 'r) \<Rightarrow> 's \<Rightarrow> (string \<times> string \<times> string) list \<Rightarrow> 's" where
  "claims_run claim s cs = foldl (\<lambda>s (a, e, m). fst (claim s a e m)) s cs"

context evidence_book
begin

lemma claims_keep:
  assumes "book_ok s" "\<forall>(a, e, m) \<in> set cs. a \<noteq> [] \<and> e \<noteq> [] \<and> m \<noteq> []"
    and "bound s k = Some x" "er_materialKey x \<noteq> None"
  shows "book_ok (claims_run claim s cs) \<and> bound (claims_run claim s cs) k = Some x"
  using assms
proof (induction cs arbitrary: s)
  case (Cons c cs)
  obtain a e m where c: "c = (a, e, m)" by (cases c)
  obtain s1 r where s1: "claim s a e m = (s1, r)" by (cases rule: prod.exhaust)
  have "a \<noteq> []" "e \<noteq> []" "m \<noteq> []" using Cons.prems(2) by (auto simp: c)
  note law = claim_law [OF Cons.prems(1) this s1]
  moreover have "bound s1 k = Some x"
  proof (cases "k = akey a \<and> admits (bound s k) (ekey e) (mkey m)")
    case True
    then have "x = \<lparr> er_enrollmentKey = ekey e, er_materialKey = Some (mkey m) \<rparr>"
      using Cons.prems(3,4) by (cases x) (auto simp: admits_def)
    then show ?thesis using law True Cons.prems(3) by simp
  qed (use law Cons.prems(3) in auto)
  ultimately show ?case using Cons.IH [of s1] Cons.prems by (simp add: claims_run_def c s1)
qed (simp add: claims_run_def)

lemma claim_single_use:
  assumes "book_ok s" "a \<noteq> []" "e \<noteq> []" "m \<noteq> []" "claim s a e m = (s1, Inr True)"
    and "\<forall>(a, e, m) \<in> set cs. a \<noteq> [] \<and> e \<noteq> [] \<and> m \<noteq> []"
    and "e' \<noteq> []" "m' \<noteq> []" "claim (claims_run claim s1 cs) a e' m' = (s2, r)"
  shows "r = Inr (ekey e' = ekey e \<and> mkey m' = mkey m)"
proof -
  have "book_ok s1" "bound s1 (akey a) = Some \<lparr> er_enrollmentKey = ekey e, er_materialKey = Some (mkey m) \<rparr>"
    using claim_law [OF assms(1-5)] by auto
  from claims_keep [OF this(1) assms(6) this(2)] have
    "book_ok (claims_run claim s1 cs)"
    "bound (claims_run claim s1 cs) (akey a) = Some \<lparr> er_enrollmentKey = ekey e, er_materialKey = Some (mkey m) \<rparr>" by auto
  from claim_law [OF this(1) assms(2,7,8,9)] this(2) show ?thesis by (auto simp: admits_def)
qed

end

text \<open>The book of issued credentials, by enrollment.\<close>

definition wf_result :: "issuance_result \<Rightarrow> bool" where
  "wf_result v = (ir_issuanceId v \<noteq> [] \<and> length (ir_credentialBlind v) = 32 \<and> length (ir_credentialLeaf v) = 32
     \<and> wf_receipt (ir_receipt v) \<and> r_network (ir_receipt v) = Preview)"

locale issuance_book =
  fixes get :: "'s \<Rightarrow> string \<Rightarrow> (durable_error, issuance_record option) result"
    and put :: "'s \<Rightarrow> string \<Rightarrow> string \<Rightarrow> issuance_result \<Rightarrow> 's \<times> (durable_error, unit) result"
    and book_ok :: "'s \<Rightarrow> bool"
    and issued :: "'s \<Rightarrow> string \<Rightarrow> issuance_record option"
    and ekey :: "string \<Rightarrow> string"
  assumes get_law: "book_ok s \<Longrightarrow> e \<noteq> [] \<Longrightarrow> get s e = Inr (issued s (ekey e))"
    and put_law: "book_ok s \<Longrightarrow> e \<noteq> [] \<Longrightarrow> is_hex64 fp \<Longrightarrow> wf_result v \<Longrightarrow> put s e fp v = (s', r) \<Longrightarrow>
      book_ok s' \<and> (case issued s (ekey e) of
        None \<Rightarrow> r = Inr () \<and> issued s' = (issued s)(ekey e \<mapsto> \<lparr> is_fingerprintHash = fp, is_result = v \<rparr>)
      | Some x \<Rightarrow> issued s' = issued s
          \<and> r = (if x = \<lparr> is_fingerprintHash = fp, is_result = v \<rparr> then Inr () else Inl DurableStoreConflictError))"

section \<open>The evidence file\<close>

definition evidence_entry_ok :: "string \<Rightarrow> evidence_record \<Rightarrow> bool" where
  "evidence_entry_ok k r = (is_hex64 k \<and> is_hex64 (er_enrollmentKey r) \<and> (\<forall>m. er_materialKey r = Some m \<longrightarrow> is_hex64 m))"

lemma is_hex64_nonempty: "is_hex64 s \<Longrightarrow> s \<noteq> []"
  by (auto simp: is_hex64_def)

lemma parse_evidence_entry_json: "evidence_entry_ok k r \<Longrightarrow> parse_evidence_entry (k, evidence_record_json r) = Inr r"
  using is_hex64_nonempty
  by (cases "er_materialKey r") (auto simp: parse_evidence_entry_def evidence_record_json_def evidence_entry_ok_def)

lemma parse_evidence_json: "table_wf evidence_entry_ok st \<Longrightarrow> parseEvidenceState (evidence_json st) = Inr st"
  unfolding parseEvidenceState_def evidence_json_def
  by (rule parse_versioned_json [where ok = evidence_entry_ok]) (simp_all add: parse_evidence_entry_json)

definition evidence_file_ok :: "(string \<Rightarrow> string) \<Rightarrow> json_file \<Rightarrow> bool" where
  "evidence_file_ok sha f = ((\<forall>x. is_hex64 (sha x))
     \<and> (\<exists>st. atomic_read [] parseEvidenceState f = Inr st \<and> table_wf evidence_entry_ok st))"

definition evidence_bound :: "json_file \<Rightarrow> string \<Rightarrow> evidence_record option" where
  "evidence_bound f = (case atomic_read [] parseEvidenceState f of Inl e \<Rightarrow> Map.empty | Inr st \<Rightarrow> map_of st)"

definition file_claim :: "(string \<Rightarrow> string) \<Rightarrow> json_file \<Rightarrow> string \<Rightarrow> string \<Rightarrow> string \<Rightarrow> json_file \<times> (durable_error, bool) result" where
  "file_claim sha f a e m = evidence_claim sha a e (Some m) f"

lemma claim_record_law:
  assumes "table_wf evidence_entry_ok st" "is_hex64 a" "is_hex64 e" "is_hex64 m" "claim_record a e (Some m) st = (st', b)"
  shows "table_wf evidence_entry_ok st' \<and> b = admits (map_of st a) e m
    \<and> map_of st' = (if b then (map_of st)(a \<mapsto> \<lparr> er_enrollmentKey = e, er_materialKey = Some m \<rparr>) else map_of st)"
proof (cases "map_of st a")
  case None
  then show ?thesis
    using assms by (auto simp: claim_record_def admits_def evidence_entry_ok_def intro!: table_wf_obj_set)
next
  case (Some x)
  have "evidence_entry_ok a x" by (rule table_wf_ok [OF assms(1) Some])
  moreover have "x = \<lparr> er_enrollmentKey = e, er_materialKey = Some m \<rparr>" if "er_enrollmentKey x = e" "er_materialKey x = Some m"
    using that by (cases x) simp
  moreover have "x \<lparr> er_materialKey := Some m \<rparr> = \<lparr> er_enrollmentKey = e, er_materialKey = Some m \<rparr>" if "er_enrollmentKey x = e"
    using that by (cases x) simp
  ultimately show ?thesis
    using assms Some
    by (auto simp: claim_record_def admits_def evidence_entry_ok_def fun_upd_idem intro!: table_wf_obj_set split: if_splits)
qed

interpretation evidence_file: evidence_book "file_claim sha" "evidence_file_ok sha" evidence_bound
    "digest sha ''evidence''" "digest sha ''enrollment''" "digest sha ''material''" for sha
proof (unfold_locales, goal_cases)
  case (1 s a e m s' r)
  obtain st where hex: "\<And>d v. is_hex64 (digest sha d v)" and st: "atomic_read [] parseEvidenceState s = Inr st"
    "table_wf evidence_entry_ok st"
    using 1(1) by (auto simp: evidence_file_ok_def digest_def)
  obtain st' b where c: "claim_record (digest sha ''evidence'' a) (digest sha ''enrollment'' e) (Some (digest sha ''material'' m)) st = (st', b)"
    by (cases rule: prod.exhaust)
  note law = claim_record_law [OF st(2) hex hex hex c]
  have "s' = JsonFile (evidence_json st')" "r = Inr b"
    using 1 st(1) c by (auto simp: file_claim_def evidence_claim_def atomic_update_def)
  moreover have "atomic_read [] parseEvidenceState (JsonFile (evidence_json st')) = Inr st'"
    using law by (simp add: atomic_read_def parse_evidence_json)
  ultimately show ?case using law st 1(1) by (auto simp: evidence_file_ok_def evidence_bound_def)
qed

section \<open>The issuance file\<close>

definition persisted_ok :: "string \<Rightarrow> persisted_record \<Rightarrow> bool" where
  "persisted_ok k r = (is_hex64 k \<and> is_hex64 (pc_fingerprintHash r) \<and> pr_issuanceId (pc_result r) \<noteq> []
     \<and> is_hex64 (pr_credentialBlindHex (pc_result r)) \<and> is_hex64 (pr_credentialLeafHex (pc_result r))
     \<and> wf_receipt (pr_receipt (pc_result r)) \<and> r_network (pr_receipt (pc_result r)) = Preview)"

lemma parse_issuance_entry_json: "persisted_ok k r \<Longrightarrow> parse_issuance_entry (k, persisted_record_json r) = Inr r"
  by (simp add: parse_issuance_entry_def persisted_record_json_def parsePersistedIssuanceResult_def persisted_result_json_def
      persisted_ok_def durable_receipt_json)

lemma parse_issuances_json: "table_wf persisted_ok st \<Longrightarrow> parseIssuanceState (issuances_json st) = Inr st"
  unfolding parseIssuanceState_def issuances_json_def
  by (rule parse_versioned_json [where ok = persisted_ok]) (simp_all add: parse_issuance_entry_json)

lemma persisted_result_json_wf: "wf_json (persisted_result_json r)"
  by (simp add: persisted_result_json_def receipt_json_wf obj_ordered_def key_before_def is_index_key_def is_digit_def)

lemma persisted_result_json_inject [simp]: "persisted_result_json r = persisted_result_json r' \<longleftrightarrow> r = r'"
  by (auto simp: persisted_result_json_def intro: persisted_result.equality)

lemma stringify_result_inject [simp]:
  "stringify (persisted_result_json r) = stringify (persisted_result_json r') \<longleftrightarrow> r = r'"
  by (simp add: stringify_inject persisted_result_json_wf)

lemma decode_inject:
  assumes "persisted_ok k r" "persisted_ok k' r'"
  shows "decodeIssuanceRecord r = decodeIssuanceRecord r' \<longleftrightarrow> r = r'"
proof
  assume eq: "decodeIssuanceRecord r = decodeIssuanceRecord r'"
  have inj: "h = h'" if "is_hex64 h" "is_hex64 h'" "bytesFromHex h = bytesFromHex h'" for h h'
    using that hex64_inverse by metis
  have "pr_credentialBlindHex (pc_result r) = pr_credentialBlindHex (pc_result r')"
    "pr_credentialLeafHex (pc_result r) = pr_credentialLeafHex (pc_result r')"
    using assms eq by (simp_all add: decodeIssuanceRecord_def persisted_ok_def inj)
  then have "pc_result r = pc_result r'"
    using eq by (intro persisted_result.equality) (simp_all add: decodeIssuanceRecord_def)
  then show "r = r'" using eq by (intro persisted_record.equality) (simp_all add: decodeIssuanceRecord_def)
qed simp

lemma serialize_result:
  assumes "wf_result v"
  obtains p where "serializeIssuanceResult v = Inr p" "pr_issuanceId p \<noteq> []" "is_hex64 (pr_credentialBlindHex p)"
    "is_hex64 (pr_credentialLeafHex p)" "wf_receipt (pr_receipt p)" "r_network (pr_receipt p) = Preview"
    "decodeIssuanceRecord \<lparr> pc_fingerprintHash = fp, pc_result = p \<rparr> = \<lparr> is_fingerprintHash = fp, is_result = v \<rparr>"
  using assms that
  by (auto simp: serializeIssuanceResult_def wf_result_def durable_receipt_json bytesToHex_hex64 bytes32Hex_def
      decodeIssuanceRecord_def)

definition issuance_file_ok :: "(string \<Rightarrow> string) \<Rightarrow> json_file \<Rightarrow> bool" where
  "issuance_file_ok sha f = ((\<forall>x. is_hex64 (sha x))
     \<and> (\<exists>st. atomic_read [] parseIssuanceState f = Inr st \<and> table_wf persisted_ok st))"

definition file_issued :: "json_file \<Rightarrow> string \<Rightarrow> issuance_record option" where
  "file_issued f k = (case atomic_read [] parseIssuanceState f of
     Inl e \<Rightarrow> None | Inr st \<Rightarrow> map_option decodeIssuanceRecord (map_of st k))"

definition file_issuance_get where
  "file_issuance_get sha f e = issuance_get sha e f"

definition file_issuance_put where
  "file_issuance_put sha f e fp v = issuance_put sha e fp v f"

lemma put_record_law:
  assumes "table_wf persisted_ok st" "persisted_ok k new"
  shows "case map_of st k of
      None \<Rightarrow> \<exists>st'. put_record k new st = Inr (st', ()) \<and> table_wf persisted_ok st' \<and> map_of st' = (map_of st)(k \<mapsto> new)
    | Some x \<Rightarrow> put_record k new st = (if x = new then Inr (st, ()) else Inl DurableStoreConflictError)"
proof -
  have "x = new" if "pc_fingerprintHash x = pc_fingerprintHash new" "pc_result x = pc_result new" for x :: persisted_record
    using that by (intro persisted_record.equality) simp_all
  then show ?thesis using assms by (auto simp: put_record_def intro!: table_wf_obj_set split: option.splits)
qed

interpretation issuance_file: issuance_book "file_issuance_get sha" "file_issuance_put sha" "issuance_file_ok sha" file_issued
    "digest sha ''enrollment''" for sha
proof (unfold_locales, goal_cases)
  case (1 s e)
  then show ?case by (auto simp: file_issuance_get_def issuance_get_def issuance_file_ok_def file_issued_def requireNonEmpty_def)
next
  case (2 s e fp v s' r)
  obtain st where hex: "is_hex64 (digest sha ''enrollment'' e)" and st: "atomic_read [] parseIssuanceState s = Inr st"
    "table_wf persisted_ok st" using 2(1) by (auto simp: issuance_file_ok_def digest_def)
  let ?k = "digest sha ''enrollment'' e"
  obtain p where p: "serializeIssuanceResult v = Inr p" "pr_issuanceId p \<noteq> []" "is_hex64 (pr_credentialBlindHex p)"
    "is_hex64 (pr_credentialLeafHex p)" "wf_receipt (pr_receipt p)" "r_network (pr_receipt p) = Preview"
    "decodeIssuanceRecord \<lparr> pc_fingerprintHash = fp, pc_result = p \<rparr> = \<lparr> is_fingerprintHash = fp, is_result = v \<rparr>"
    by (rule serialize_result [OF 2(4)])
  define new where "new = \<lparr> pc_fingerprintHash = fp, pc_result = p \<rparr>"
  have new: "persisted_ok ?k new" using hex 2(3) p by (simp add: persisted_ok_def new_def)
  have u: "(s', r) = atomic_update [] parseIssuanceState issuances_json s (put_record ?k new)"
    using 2 p(1) by (simp add: file_issuance_put_def issuance_put_def requireNonEmpty_def requireSha_def new_def check_def)
  note law = put_record_law [OF st(2) new]
  have read: "atomic_read [] parseIssuanceState (JsonFile (issuances_json st')) = Inr st'" if "table_wf persisted_ok st'" for st'
    using that by (simp add: atomic_read_def parse_issuances_json)
  show ?case
  proof (cases "map_of st ?k")
    case None
    then obtain st' where st': "put_record ?k new st = Inr (st', ())" "table_wf persisted_ok st'" "map_of st' = (map_of st)(?k \<mapsto> new)"
      using law by auto
    then have "s' = JsonFile (issuances_json st')" "r = Inr ()" using u st(1) by (simp_all add: atomic_update_def)
    then show ?thesis
      using None st' st 2(1) read [OF st'(2)] p(7)
      by (auto simp: issuance_file_ok_def file_issued_def new_def fun_eq_iff)
  next
    case (Some x)
    have x: "persisted_ok ?k x" by (rule table_wf_ok [OF st(2) Some])
    have "decodeIssuanceRecord x = \<lparr> is_fingerprintHash = fp, is_result = v \<rparr> \<longleftrightarrow> x = new"
      using decode_inject [OF x new] p(7) by (simp add: new_def)
    then show ?thesis
      using Some st 2(1) read [OF st(2)] u law
      by (auto simp: issuance_file_ok_def file_issued_def atomic_update_def fun_eq_iff split: if_splits)
  qed
qed

section \<open>The receipt file\<close>

definition receipt_entry_ok :: "string \<Rightarrow> receipt \<Rightarrow> bool" where
  "receipt_entry_ok k r = (k = r_transactionId r \<and> wf_receipt r \<and> r_network r = Preview)"

lemma parse_receipts_json: "table_wf receipt_entry_ok st \<Longrightarrow> parseReceiptState (receipts_json st) = Inr st"
  unfolding parseReceiptState_def receipts_json_def
  by (rule parse_versioned_json [where ok = receipt_entry_ok]) (auto simp: receipt_entry_ok_def durable_receipt_json)

definition receipt_file_ok :: "json_file \<Rightarrow> bool" where
  "receipt_file_ok f = (\<exists>st. atomic_read [] parseReceiptState f = Inr st \<and> table_wf receipt_entry_ok st)"

lemma stringify_receipt_inject [simp]: "stringify (receipt_json r) = stringify (receipt_json r') \<longleftrightarrow> r = r'"
  by (simp add: stringify_inject receipt_json_wf)

lemma receipt_put_law:
  assumes "receipt_file_ok f" "wf_receipt r" "r_network r = Preview" "r_transactionId r \<notin> set proto_names"
    and "receipt_put r f = (f', a)" "receipt_get (r_transactionId r) f = Inr old"
  shows "receipt_file_ok f' \<and> (case old of
      NoReceipt \<Rightarrow> a = Inr () \<and> receipt_get (r_transactionId r) f' = Inr (StoredReceipt r)
    | StoredReceipt x \<Rightarrow> a = (if x = r then Inr () else Inl DurableStoreConflictError)
        \<and> receipt_get (r_transactionId r) f' = Inr (StoredReceipt x)
    | NotAReceipt \<Rightarrow> False)"
proof -
  obtain st where st: "atomic_read [] parseReceiptState f = Inr st" "table_wf receipt_entry_ok st"
    using assms(1) by (auto simp: receipt_file_ok_def)
  have read: "atomic_read [] parseReceiptState (JsonFile (receipts_json st')) = Inr st'" if "table_wf receipt_entry_ok st'" for st'
    using that by (simp add: atomic_read_def parse_receipts_json)
  let ?k = "r_transactionId r"
  have k: "?k \<noteq> []" using assms(2) by (simp add: wf_receipt_def)
  show ?thesis
  proof (cases "map_of st ?k")
    case None
    have wf: "table_wf receipt_entry_ok (obj_set ?k r st)"
      using st(2) assms(2,3) by (simp add: table_wf_obj_set receipt_entry_ok_def)
    have "f' = JsonFile (receipts_json (obj_set ?k r st))" "a = Inr ()"
      using assms None st(1) by (simp_all add: receipt_put_def durable_receipt_json atomic_update_def obj_get_def)
    moreover have "old = NoReceipt" using assms(4,6) None st(1) k by (simp add: receipt_get_def obj_get_def)
    ultimately show ?thesis using wf read [OF wf] k by (simp add: receipt_file_ok_def receipt_get_def requireNonEmpty_def obj_get_def check_def)
  next
    case (Some x)
    have "old = StoredReceipt x" using assms(6) Some st(1) k by (simp add: receipt_get_def obj_get_def)
    moreover have "f' = (if x = r then JsonFile (receipts_json st) else f)" "a = (if x = r then Inr () else Inl DurableStoreConflictError)"
      using assms Some st(1) by (simp_all add: receipt_put_def durable_receipt_json atomic_update_def obj_get_def split: if_splits)
    ultimately show ?thesis
      using st read [OF st(2)] Some k assms(6) by (auto simp: receipt_file_ok_def receipt_get_def requireNonEmpty_def obj_get_def check_def)
  qed
qed

section \<open>Properties\<close>

text \<open>
  An evidence authorisation is single-use in the durable book: once a claim on
  it succeeded, and after any further claims on any authorisations, a claim on it
  succeeds exactly for the same enrollment and the same issuance material (by their
  digests).
\<close>

theorem evidence_single_use:
  assumes "evidence_file_ok sha f" "a \<noteq> []" "e \<noteq> []" "m \<noteq> []" "file_claim sha f a e m = (f1, Inr True)"
    and "\<forall>(a, e, m) \<in> set cs. a \<noteq> [] \<and> e \<noteq> [] \<and> m \<noteq> []"
    and "e' \<noteq> []" "m' \<noteq> []" "file_claim sha (claims_run (file_claim sha) f1 cs) a e' m' = (f2, r)"
  shows "r = Inr (digest sha ''enrollment'' e' = digest sha ''enrollment'' e \<and> digest sha ''material'' m' = digest sha ''material'' m)"
  using evidence_file.claim_single_use [OF assms] .

text \<open>
  What is written to the credential journal survives a restart: after a
  successful \<open>put\<close> the file read back yields exactly the fingerprint and the result
  that were stored, and a second \<open>put\<close> for the same enrollment with anything else
  is refused and changes nothing.
\<close>

theorem issuance_survives_restart:
  assumes "issuance_file_ok sha f" "e \<noteq> []" "is_hex64 fp" "wf_result v" "file_issuance_put sha f e fp v = (f', Inr ())"
    and "is_hex64 fp'" "wf_result v'" "file_issuance_put sha f' e fp' v' = (f'', r)"
  shows "file_issuance_get sha f' e = Inr (Some \<lparr> is_fingerprintHash = fp, is_result = v \<rparr>)
    \<and> file_issuance_get sha f'' e = Inr (Some \<lparr> is_fingerprintHash = fp, is_result = v \<rparr>)
    \<and> r = (if fp' = fp \<and> v' = v then Inr () else Inl DurableStoreConflictError)"
proof -
  let ?k = "digest sha ''enrollment'' e"
  have f': "issuance_file_ok sha f'" "file_issued f' ?k = Some \<lparr> is_fingerprintHash = fp, is_result = v \<rparr>"
    using issuance_file.put_law [OF assms(1-5)] by (auto split: option.splits if_splits)
  from issuance_file.put_law [OF f'(1) assms(2,6,7,8)] f'(2) have
    "issuance_file_ok sha f''" "file_issued f'' = file_issued f'" "r = (if fp' = fp \<and> v' = v then Inr () else Inl DurableStoreConflictError)"
    by auto
  then show ?thesis using issuance_file.get_law f' assms(2) by simp
qed

text \<open>
  The receipt index is write-once: a receipt put under a transaction id that is
  not a member name of \<open>Object.prototype\<close> is returned by every later read, putting
  it again is accepted, and any other receipt for that transaction is refused.
\<close>

theorem receipt_index_write_once:
  assumes "receipt_file_ok f" "wf_receipt r" "r_network r = Preview" "r_transactionId r \<notin> set proto_names"
    and "receipt_put r f = (f', Inr ())" "receipt_put r' f' = (f'', a)"
    and "wf_receipt r'" "r_network r' = Preview" "r_transactionId r' = r_transactionId r"
  shows "receipt_get (r_transactionId r) f'' = Inr (StoredReceipt r)
    \<and> a = (if r' = r then Inr () else Inl DurableStoreConflictError)"
proof -
  obtain old where old: "receipt_get (r_transactionId r) f = Inr old"
    using assms(1,2) by (auto simp: receipt_file_ok_def receipt_get_def requireNonEmpty_def wf_receipt_def check_def)
  have f': "receipt_file_ok f'" "receipt_get (r_transactionId r) f' = Inr (StoredReceipt r)"
    using receipt_put_law [OF assms(1-5) old] by (auto split: receipt_read.splits if_splits)
  from receipt_put_law [OF this(1) assms(7,8) _ assms(6)] f'(2) assms(4,9) show ?thesis by auto
qed

subsection \<open>Witnesses\<close>

definition sample_sha :: "string \<Rightarrow> string" where
  "sample_sha x = replicate 63 (CHR ''a'') @ [hex_digit (length x mod 16)]"

lemma sample_sha_hex: "is_hex64 (sample_sha x)"
proof -
  have "list_all lower_hex (replicate 63 (CHR ''a''))" by code_simp
  then show ?thesis by (simp add: is_hex64_def sample_sha_def lower_hex_digit)
qed

lemma sample_files_ok: "evidence_file_ok sample_sha NoFile" "issuance_file_ok sample_sha NoFile" "receipt_file_ok NoFile"
  by (simp_all add: evidence_file_ok_def issuance_file_ok_def receipt_file_ok_def atomic_read_def sample_sha_hex)

theorem evidence_single_use_witness:
  "snd (file_claim sample_sha (fst (file_claim sample_sha NoFile ''a'' ''e'' ''m'')) ''a'' ''ee'' ''m'') = Inr False"
proof -
  obtain f1 r1 where f1: "file_claim sample_sha NoFile ''a'' ''e'' ''m'' = (f1, r1)" by (cases rule: prod.exhaust)
  have "snd (file_claim sample_sha NoFile ''a'' ''e'' ''m'') = Inr True" by code_simp
  then have r1: "r1 = Inr True" unfolding f1 by simp
  obtain f2 r2 where f2: "file_claim sample_sha f1 ''a'' ''ee'' ''m'' = (f2, r2)" by (cases rule: prod.exhaust)
  have "r2 = Inr (digest sample_sha ''enrollment'' ''ee'' = digest sample_sha ''enrollment'' ''e''
      \<and> digest sample_sha ''material'' ''m'' = digest sample_sha ''material'' ''m'')"
    using evidence_single_use [OF sample_files_ok(1) _ _ _ f1 [unfolded r1], of "[]" "''ee''" "''m''" f2 r2] f2
    by (simp add: claims_run_def)
  moreover have "digest sample_sha ''enrollment'' ''ee'' \<noteq> digest sample_sha ''enrollment'' ''e''" by code_simp
  ultimately show ?thesis unfolding f1 using f2 by simp
qed

definition sample_result :: issuance_result where
  "sample_result = \<lparr> ir_issuanceId = ''i'', ir_credentialBlind = replicate 32 (CHR ''b''),
     ir_credentialLeaf = replicate 32 (CHR ''l''), ir_receipt = sample_receipt \<rparr>"

lemma sample_result_wf: "wf_result sample_result"
  by code_simp

theorem issuance_survives_restart_witness:
  "file_issuance_get sample_sha (fst (file_issuance_put sample_sha NoFile ''e'' (sample_sha []) sample_result)) ''e''
     = Inr (Some \<lparr> is_fingerprintHash = sample_sha [], is_result = sample_result \<rparr>)"
proof -
  obtain f1 r1 where f1: "file_issuance_put sample_sha NoFile ''e'' (sample_sha []) sample_result = (f1, r1)"
    by (cases rule: prod.exhaust)
  have "snd (file_issuance_put sample_sha NoFile ''e'' (sample_sha []) sample_result) = Inr ()" by code_simp
  then have r1: "r1 = Inr ()" unfolding f1 by simp
  obtain f2 r2 where f2: "file_issuance_put sample_sha f1 ''e'' (sample_sha []) sample_result = (f2, r2)"
    by (cases rule: prod.exhaust)
  show ?thesis
    using issuance_survives_restart [OF sample_files_ok(2) _ sample_sha_hex sample_result_wf f1 [unfolded r1]
        sample_sha_hex sample_result_wf f2] unfolding f1 by simp
qed

theorem receipt_index_write_once_witness:
  "receipt_get ''t1'' (fst (receipt_put sample_receipt (fst (receipt_put sample_receipt NoFile)))) = Inr (StoredReceipt sample_receipt)"
proof -
  obtain f1 r1 where f1: "receipt_put sample_receipt NoFile = (f1, r1)" by (cases rule: prod.exhaust)
  have "snd (receipt_put sample_receipt NoFile) = Inr ()" by code_simp
  then have r1: "r1 = Inr ()" unfolding f1 by simp
  obtain f2 r2 where f2: "receipt_put sample_receipt f1 = (f2, r2)" by (cases rule: prod.exhaust)
  have "wf_receipt sample_receipt" "r_network sample_receipt = Preview" "r_transactionId sample_receipt = ''t1''"
    "r_transactionId sample_receipt \<notin> set proto_names" by code_simp+
  then show ?thesis
    using receipt_index_write_once [OF sample_files_ok(3) _ _ _ f1 [unfolded r1] f2] unfolding f1 by (simp add: f2)
qed

end
