(* ===== verification/Civic_Crypto.thy ===== *)
theory Civic_Crypto
  imports Durable_Stores
begin

text \<open>
  Credential vocabulary (\<open>api/src/passport-v2/types.ts\<close>) and the derivations that
  mirror the contracts (\<open>api/src/passport-v2/crypto.ts\<close>). Hash, commitment and
  field conversion of the Compact runtime are parameters; bytes are characters.
\<close>

section \<open>Vocabulary\<close>

datatype CredentialProvider = FixtureProvider | RarimoProvider | PassportNativeProvider

datatype CredentialAssurance = SelfAsserted | Document | DocumentNfc | PassportNative

datatype CredentialAgeClass = AgeUnknown | Under18 | Adult

datatype VoteChoice = Yes | No | Abstain

fun provider_str :: "CredentialProvider \<Rightarrow> string" where
  "provider_str FixtureProvider = ''fixture''"
| "provider_str RarimoProvider = ''rarimo''"
| "provider_str PassportNativeProvider = ''passport-native''"

fun assurance_str :: "CredentialAssurance \<Rightarrow> string" where
  "assurance_str SelfAsserted = ''self-asserted''"
| "assurance_str Document = ''document''"
| "assurance_str DocumentNfc = ''document-nfc''"
| "assurance_str PassportNative = ''passport-native''"

fun age_class_str :: "CredentialAgeClass \<Rightarrow> string" where
  "age_class_str AgeUnknown = ''unknown''"
| "age_class_str Under18 = ''under-18''"
| "age_class_str Adult = ''18-plus''"

fun assuranceRank :: "CredentialAssurance \<Rightarrow> nat" where
  "assuranceRank SelfAsserted = 0"
| "assuranceRank Document = 1"
| "assuranceRank DocumentNfc = 2"
| "assuranceRank PassportNative = 3"

definition compareCredentialAssurance :: "CredentialAssurance \<Rightarrow> CredentialAssurance \<Rightarrow> int" where
  "compareCredentialAssurance left right = int (assuranceRank left) - int (assuranceRank right)"

instantiation CredentialAssurance :: linorder
begin

definition less_eq_CredentialAssurance :: "CredentialAssurance \<Rightarrow> CredentialAssurance \<Rightarrow> bool" where
  "less_eq_CredentialAssurance a b = (assuranceRank a \<le> assuranceRank b)"

definition less_CredentialAssurance :: "CredentialAssurance \<Rightarrow> CredentialAssurance \<Rightarrow> bool" where
  "less_CredentialAssurance a b = (assuranceRank a < assuranceRank b)"

instance
proof
  fix a b :: CredentialAssurance
  show "a = b" if "a \<le> b" "b \<le> a"
    using that by (cases a; cases b) (simp_all add: less_eq_CredentialAssurance_def)
qed (auto simp: less_eq_CredentialAssurance_def less_CredentialAssurance_def)

end

definition isCredentialAssurance :: "json option \<Rightarrow> CredentialAssurance option" where
  "isCredentialAssurance v = (case as_str v of
     None \<Rightarrow> None
   | Some s \<Rightarrow> find (\<lambda>a. assurance_str a = s) [SelfAsserted, Document, DocumentNfc, PassportNative])"

definition isIsoNumericCountry :: "json option \<Rightarrow> bool" where
  "isIsoNumericCountry v = (case as_str v of
     None \<Rightarrow> False
   | Some s \<Rightarrow> length s = 3 \<and> list_all is_digit s \<and> s \<noteq> ''000'')"

record credential_claims =
  cl_issuerId :: string
  cl_country :: string
  cl_ageClass :: CredentialAgeClass
  cl_assurance :: CredentialAssurance
  cl_credentialEpoch :: int
  cl_validFrom :: string
  cl_validUntil :: string

record credential_policy =
  po_allowedCountries :: "string list option"
  po_minimumAssurance :: "CredentialAssurance option"
  po_requireAdult :: bool

datatype CivicCredentialErrorCode =
    PASSPORT_SESSION_REQUIRED
  | PASSPORT_SESSION_EXPIRED
  | CAPABILITY_UNAVAILABLE
  | ENROLLMENT_NOT_FOUND
  | ENROLLMENT_EXPIRED
  | CREDENTIAL_NOT_FOUND
  | POLICY_NOT_SATISFIED
  | INVALID_CREDENTIAL_CLAIMS
  | ISSUANCE_FAILED
  | ADAPTER_UNAVAILABLE
  | CONFLICT

section \<open>Derivations\<close>

text \<open>The Compact runtime's primitives. The field conversion is \<open>as Bytes<32>\<close> of the circuits.\<close>

record compact_runtime =
  persistentHash :: "string list \<Rightarrow> string"
  persistentCommit :: "string list \<Rightarrow> string \<Rightarrow> string"
  convertFieldToBytes :: "int \<Rightarrow> string"

datatype crypto_error = NotBytes32 string | TextTooLong | NegativeValue | BadTimestamp | BadAddress | BadEnrollmentId

definition assertBytes32 :: "string \<Rightarrow> string \<Rightarrow> (crypto_error, unit) result" where
  "assertBytes32 value label = check (length value = 32) (NotBytes32 label)"

definition zero_pad :: "string \<Rightarrow> string" where
  "zero_pad bs = bs @ replicate (32 - length bs) (char_of (0 :: nat))"

definition padBytes32 :: "string \<Rightarrow> (crypto_error, string) result" where
  "padBytes32 value = (if length (utf8 value) > 32 then Inl TextTooLong else Inr (zero_pad (utf8 value)))"

text \<open>The constants of the sources are short ASCII texts; \<open>pad(32, ...)\<close> of the circuits.\<close>

definition pad32 :: "string \<Rightarrow> string" where
  "pad32 value = zero_pad (utf8 value)"

definition uintBytes :: "compact_runtime \<Rightarrow> int \<Rightarrow> (crypto_error, string) result" where
  "uintBytes rt value = (if value < 0 then Inl NegativeValue else Inr (convertFieldToBytes rt value))"

fun ageClassCode :: "CredentialAgeClass \<Rightarrow> int" where
  "ageClassCode AgeUnknown = 0"
| "ageClassCode Under18 = 1"
| "ageClassCode Adult = 2"

fun assuranceCode :: "CredentialAssurance \<Rightarrow> int" where
  "assuranceCode SelfAsserted = 0"
| "assuranceCode Document = 1"
| "assuranceCode DocumentNfc = 2"
| "assuranceCode PassportNative = 3"

definition isoTimestampSeconds :: "(string \<Rightarrow> int option) \<Rightarrow> string \<Rightarrow> (crypto_error, int) result" where
  "isoTimestampSeconds date_parse value = (case date_parse value of
     None \<Rightarrow> Inl BadTimestamp
   | Some ms \<Rightarrow>
       if ms mod 1000 \<noteq> 0 then Inl BadTimestamp
       else if \<not> (\<bar>ms div 1000\<bar> \<le> max_safe \<and> 0 \<le> ms div 1000) then Inl BadTimestamp
       else Inr (ms div 1000))"

definition deriveHolderBinding :: "compact_runtime \<Rightarrow> string \<Rightarrow> string \<Rightarrow> (crypto_error, string) result" where
  "deriveHolderBinding rt voterSecret holderBlind =
     rbind (assertBytes32 voterSecret ''voterSecret'') (\<lambda>_.
     rbind (assertBytes32 holderBlind ''holderBlind'') (\<lambda>_.
     rbind (padBytes32 ''cico:holder-bind:v1'') (\<lambda>domain.
     Inr (persistentCommit rt [domain, voterSecret] holderBlind))))"

record raw_leaf =
  rl_holderBinding :: string
  rl_issuerId :: string
  rl_country :: string
  rl_ageClass :: int
  rl_assurance :: int
  rl_credentialEpoch :: int
  rl_validUntil :: int
  rl_credentialBlind :: string

definition deriveRawCredentialLeaf :: "compact_runtime \<Rightarrow> raw_leaf \<Rightarrow> (crypto_error, string) result" where
  "deriveRawCredentialLeaf rt i =
     rbind (assertBytes32 (rl_holderBinding i) ''holderBinding'') (\<lambda>_.
     rbind (assertBytes32 (rl_issuerId i) ''issuerId'') (\<lambda>_.
     rbind (assertBytes32 (rl_country i) ''country'') (\<lambda>_.
     rbind (assertBytes32 (rl_credentialBlind i) ''credentialBlind'') (\<lambda>_.
     rbind (padBytes32 ''cico:credential:v1'') (\<lambda>domain.
     rbind (uintBytes rt (rl_ageClass i)) (\<lambda>age.
     rbind (uintBytes rt (rl_assurance i)) (\<lambda>assurance.
     rbind (uintBytes rt (rl_credentialEpoch i)) (\<lambda>epoch.
     rbind (uintBytes rt (rl_validUntil i)) (\<lambda>validUntil.
     Inr (persistentCommit rt
       [domain, rl_holderBinding i, rl_issuerId i, rl_country i, age, assurance, epoch, validUntil]
       (rl_credentialBlind i)))))))))))"

definition deriveCredentialLeaf ::
  "compact_runtime \<Rightarrow> (string \<Rightarrow> int option) \<Rightarrow> string \<Rightarrow> credential_claims \<Rightarrow> string \<Rightarrow> (crypto_error, string) result" where
  "deriveCredentialLeaf rt date_parse holderBinding claims credentialBlind =
     rbind (padBytes32 (cl_issuerId claims)) (\<lambda>issuerId.
     rbind (padBytes32 (cl_country claims)) (\<lambda>country.
     rbind (isoTimestampSeconds date_parse (cl_validUntil claims)) (\<lambda>validUntil.
     deriveRawCredentialLeaf rt \<lparr> rl_holderBinding = holderBinding, rl_issuerId = issuerId, rl_country = country,
       rl_ageClass = ageClassCode (cl_ageClass claims), rl_assurance = assuranceCode (cl_assurance claims),
       rl_credentialEpoch = cl_credentialEpoch claims, rl_validUntil = validUntil, rl_credentialBlind = credentialBlind \<rparr>)))"

fun choice_code :: "VoteChoice \<Rightarrow> int" where
  "choice_code Yes = 0"
| "choice_code No = 1"
| "choice_code Abstain = 2"

definition deriveBallotCommitment :: "compact_runtime \<Rightarrow> string \<Rightarrow> VoteChoice \<Rightarrow> string \<Rightarrow> (crypto_error, string) result" where
  "deriveBallotCommitment rt eventId choice voteSalt =
     rbind (assertBytes32 eventId ''eventId'') (\<lambda>_.
     rbind (assertBytes32 voteSalt ''voteSalt'') (\<lambda>_.
     rbind (uintBytes rt (choice_code choice)) (\<lambda>code.
     Inr (persistentCommit rt [eventId, code] voteSalt))))"

definition deriveVoteNullifier :: "compact_runtime \<Rightarrow> string \<Rightarrow> string \<Rightarrow> (crypto_error, string) result" where
  "deriveVoteNullifier rt voterSecret eventId =
     rbind (assertBytes32 voterSecret ''voterSecret'') (\<lambda>_.
     rbind (assertBytes32 eventId ''eventId'') (\<lambda>_.
     rbind (padBytes32 ''cico:ref-v2:vote-nullifier:'') (\<lambda>domain.
     Inr (persistentHash rt [domain, voterSecret, eventId]))))"

definition deriveRoleKey :: "compact_runtime \<Rightarrow> string \<Rightarrow> string \<Rightarrow> (crypto_error, string) result" where
  "deriveRoleKey rt domain secret =
     rbind (assertBytes32 secret ''role secret'') (\<lambda>_.
     rbind (padBytes32 domain) (\<lambda>d. Inr (persistentHash rt [d, secret])))"

definition remove_0x :: "string \<Rightarrow> string" where
  "remove_0x s = (if take 2 s = ''0x'' then drop 2 s else s)"

definition deriveRegistryContractBinding :: "compact_runtime \<Rightarrow> string \<Rightarrow> (crypto_error, string) result" where
  "deriveRegistryContractBinding rt address =
     (let normalized = toLowerCase (remove_0x (trim address)) in
      rbind (check (is_hex64 normalized) BadAddress) (\<lambda>_.
      rbind (padBytes32 ''cico:registry:address:v1'') (\<lambda>domain.
      Inr (persistentHash rt [domain, bytesFromHex normalized]))))"

definition deriveRarimoIssuanceEventData :: "compact_runtime \<Rightarrow> string \<Rightarrow> string \<Rightarrow> (crypto_error, string) result" where
  "deriveRarimoIssuanceEventData rt enrollmentId holderBinding =
     rbind (check (length enrollmentId = 32 \<and> list_all any_hex enrollmentId) BadEnrollmentId) (\<lambda>_.
     rbind (assertBytes32 holderBinding ''holderBinding'') (\<lambda>_.
     rbind (padBytes32 ''cico:rarimo:issuance:v1'') (\<lambda>domain.
     Inr (drop 1 (persistentHash rt [domain, zero_pad (bytesFromHex enrollmentId), holderBinding])))))"

section \<open>Lemmas\<close>

lemma padBytes32_pad32: "length (utf8 v) \<le> 32 \<Longrightarrow> padBytes32 v = Inr (pad32 v)"
  by (simp add: padBytes32_def pad32_def)

lemma pad_constants:
  "padBytes32 ''cico:holder-bind:v1'' = Inr (pad32 ''cico:holder-bind:v1'')"
  "padBytes32 ''cico:credential:v1'' = Inr (pad32 ''cico:credential:v1'')"
  "padBytes32 ''cico:ref-v2:vote-nullifier:'' = Inr (pad32 ''cico:ref-v2:vote-nullifier:'')"
  "padBytes32 ''cico:registry:issuer:'' = Inr (pad32 ''cico:registry:issuer:'')"
  "padBytes32 ''cico:ref-v2:root-publisher:'' = Inr (pad32 ''cico:ref-v2:root-publisher:'')"
  "padBytes32 ''cico:referendum-v2:organizer:'' = Inr (pad32 ''cico:referendum-v2:organizer:'')"
  by (simp_all add: padBytes32_def pad32_def utf8_def utf8_char_def)

lemma length_zero_pad: "length bs \<le> 32 \<Longrightarrow> length (zero_pad bs) = 32"
  by (simp add: zero_pad_def)

lemma padBytes32_length: "padBytes32 v = Inr p \<Longrightarrow> length p = 32"
  by (auto simp: padBytes32_def length_zero_pad split: if_splits)

lemma assertBytes32_eq [simp]: "assertBytes32 v l = Inr u \<longleftrightarrow> length v = 32"
  by (simp add: assertBytes32_def)

end
