(* ===== verification/Registry_Contract.thy ===== *)
theory Registry_Contract
  imports Merkle_Tree Civic_Crypto "HOL-Library.Word"
begin

text \<open>
  The credential registry (\<open>contracts/credential-registry-v1/credential-registry-v1.compact\<close>).
  A circuit is a function from the ledger and its witness values to the next ledger or
  to the message of the assertion that failed, in which case the transaction changes
  nothing. Unsigned integers are words of their width.
\<close>

section \<open>Ledger and witnesses\<close>

definition tree_depth :: nat where
  "tree_depth = 16"

record 'd registry_ledger =
  rg_registryId :: string
  rg_issuerId :: string
  rg_credentialEpoch :: "64 word"
  rg_issuerKey :: string
  rg_credentials :: "string list"
  rg_frozenRoot :: 'd
  rg_frozen :: bool
  rg_credentialCount :: "64 word"

record registry_witness =
  rw_issuerSecret :: string
  rw_holderBinding :: string
  rw_credentialBlind :: string
  rw_credentialCountry :: string
  rw_credentialAgeClass :: "8 word"
  rw_credentialAssurance :: "8 word"
  rw_credentialValidUntil :: "64 word"

type_synonym 'd registry_result = "(string, 'd registry_ledger) result"

section \<open>Circuits\<close>

definition field_bytes :: "compact_runtime \<Rightarrow> 'w::len word \<Rightarrow> string" where
  "field_bytes rt w = convertFieldToBytes rt (uint w)"

definition roleKey :: "compact_runtime \<Rightarrow> string \<Rightarrow> string \<Rightarrow> string" where
  "roleKey rt domain secret = persistentHash rt [domain, secret]"

definition registry_credentialLeaf :: "compact_runtime \<Rightarrow> 'd registry_ledger \<Rightarrow> registry_witness \<Rightarrow> string" where
  "registry_credentialLeaf rt r w = persistentCommit rt
     [pad32 ''cico:credential:v1'', rw_holderBinding w, rg_issuerId r, rw_credentialCountry w,
      field_bytes rt (rw_credentialAgeClass w), field_bytes rt (rw_credentialAssurance w),
      field_bytes rt (rg_credentialEpoch r), field_bytes rt (rw_credentialValidUntil w)]
     (rw_credentialBlind w)"

definition requireIssuer :: "compact_runtime \<Rightarrow> 'd registry_ledger \<Rightarrow> string \<Rightarrow> (string, unit) result" where
  "requireIssuer rt r issuerSecret =
     check (roleKey rt (pad32 ''cico:registry:issuer:'') issuerSecret = rg_issuerKey r) ''Registry authorization failed''"

definition new_registry :: "'d merkle_runtime \<Rightarrow> string \<Rightarrow> string \<Rightarrow> 64 word \<Rightarrow> string \<Rightarrow> 'd registry_ledger" where
  "new_registry m registryId issuerId credentialEpoch issuerKey =
     \<lparr> rg_registryId = registryId, rg_issuerId = issuerId, rg_credentialEpoch = credentialEpoch, rg_issuerKey = issuerKey,
       rg_credentials = [], rg_frozenRoot = defaultDigest m, rg_frozen = False, rg_credentialCount = 0 \<rparr>"

definition registry_root :: "'d merkle_runtime \<Rightarrow> 'd registry_ledger \<Rightarrow> 'd" where
  "registry_root m r = tree_root m tree_depth (rg_credentials r)"

definition addCredential :: "compact_runtime \<Rightarrow> registry_witness \<Rightarrow> 'd registry_ledger \<Rightarrow> 'd registry_result" where
  "addCredential rt w r =
     rbind (requireIssuer rt r (rw_issuerSecret w)) (\<lambda>_.
     rbind (check (\<not> rg_frozen r) ''Credential registry is frozen'') (\<lambda>_.
     rbind (check (length (rg_credentials r) < 2 ^ tree_depth) ''Credential registry is full'') (\<lambda>_.
     Inr (r \<lparr> rg_credentials := rg_credentials r @ [registry_credentialLeaf rt r w],
              rg_credentialCount := rg_credentialCount r + 1 \<rparr>))))"

definition attestCurrentRoot :: "'d merkle_runtime \<Rightarrow> 'd \<Rightarrow> 'd registry_ledger \<Rightarrow> 'd registry_result" where
  "attestCurrentRoot m candidateRoot r =
     rbind (check (candidateRoot = registry_root m r) ''Invalid registry root'') (\<lambda>_. Inr r)"

definition freeze :: "compact_runtime \<Rightarrow> 'd merkle_runtime \<Rightarrow> string \<Rightarrow> 'd \<Rightarrow> 'd registry_ledger \<Rightarrow> 'd registry_result" where
  "freeze rt m issuerSecret candidateRoot r =
     rbind (requireIssuer rt r issuerSecret) (\<lambda>_.
     rbind (check (\<not> rg_frozen r) ''Credential registry is already frozen'') (\<lambda>_.
     rbind (check (candidateRoot = registry_root m r) ''Invalid registry root'') (\<lambda>_.
     Inr (r \<lparr> rg_frozenRoot := candidateRoot, rg_frozen := True \<rparr>))))"

datatype 'd registry_call = AddCredential registry_witness | AttestCurrentRoot 'd | Freeze string 'd

fun registry_exec :: "compact_runtime \<Rightarrow> 'd merkle_runtime \<Rightarrow> 'd registry_call \<Rightarrow> 'd registry_ledger \<Rightarrow> 'd registry_result" where
  "registry_exec rt m (AddCredential w) r = addCredential rt w r"
| "registry_exec rt m (AttestCurrentRoot d) r = attestCurrentRoot m d r"
| "registry_exec rt m (Freeze s d) r = freeze rt m s d r"

text \<open>A call that fails leaves the ledger as it was.\<close>

definition registry_apply where
  "registry_apply rt m call r = (case registry_exec rt m call r of Inl _ \<Rightarrow> r | Inr r' \<Rightarrow> r')"

definition registry_run where
  "registry_run rt m calls r = fold (registry_apply rt m) calls r"

section \<open>Invariant\<close>

definition registry_inv :: "'d merkle_runtime \<Rightarrow> 'd registry_ledger \<Rightarrow> bool" where
  "registry_inv m r = (unat (rg_credentialCount r) = length (rg_credentials r) \<and> length (rg_credentials r) \<le> 2 ^ tree_depth
     \<and> (rg_frozen r \<longrightarrow> rg_frozenRoot r = registry_root m r))"

lemmas registry_defs = addCredential_def attestCurrentRoot_def freeze_def requireIssuer_def

lemma registry_inv_new: "registry_inv m (new_registry m a b c d)"
  by (simp add: registry_inv_def new_registry_def)

lemma unat_word_Suc: "unat (c :: 64 word) = n \<Longrightarrow> n \<le> 2 ^ tree_depth \<Longrightarrow> unat (c + 1) = Suc n"
  by (subst unat_word_ariths) (simp add: tree_depth_def)

lemma registry_exec_cases:
  assumes "registry_exec rt m call r = Inr r'"
  shows "r' = r \<or> (\<exists>w. call = AddCredential w \<and> \<not> rg_frozen r \<and> length (rg_credentials r) < 2 ^ tree_depth
      \<and> roleKey rt (pad32 ''cico:registry:issuer:'') (rw_issuerSecret w) = rg_issuerKey r
      \<and> r' = r \<lparr> rg_credentials := rg_credentials r @ [registry_credentialLeaf rt r w], rg_credentialCount := rg_credentialCount r + 1 \<rparr>)
    \<or> (\<exists>s. call = Freeze s (registry_root m r) \<and> \<not> rg_frozen r
      \<and> roleKey rt (pad32 ''cico:registry:issuer:'') s = rg_issuerKey r
      \<and> r' = r \<lparr> rg_frozenRoot := registry_root m r, rg_frozen := True \<rparr>)"
  using assms by (cases call) (auto simp: registry_defs split: if_splits)

lemma registry_inv_exec:
  assumes "registry_inv m r" "registry_exec rt m call r = Inr r'"
  shows "registry_inv m r'"
  using registry_exec_cases [OF assms(2)] assms(1) by (auto simp: registry_inv_def registry_root_def unat_word_Suc)

lemma registry_inv_apply: "registry_inv m r \<Longrightarrow> registry_inv m (registry_apply rt m call r)"
  unfolding registry_apply_def by (auto split: sum.splits intro: registry_inv_exec)

lemma registry_apply_steps:
  "take (length (rg_credentials r)) (rg_credentials (registry_apply rt m call r)) = rg_credentials r
     \<and> length (rg_credentials r) \<le> length (rg_credentials (registry_apply rt m call r))
     \<and> (rg_frozen r \<longrightarrow> registry_apply rt m call r = r)
     \<and> rg_issuerKey (registry_apply rt m call r) = rg_issuerKey r"
proof (cases "registry_exec rt m call r")
  case (Inr r')
  then show ?thesis using registry_exec_cases [OF Inr] by (auto simp: registry_apply_def)
qed (simp add: registry_apply_def)

lemma registry_run_inv: "registry_inv m r \<Longrightarrow> registry_inv m (registry_run rt m calls r)"
  unfolding registry_run_def by (induction calls arbitrary: r) (simp_all add: registry_inv_apply)

lemma registry_run_steps:
  "take (length (rg_credentials r)) (rg_credentials (registry_run rt m calls r)) = rg_credentials r
     \<and> length (rg_credentials r) \<le> length (rg_credentials (registry_run rt m calls r))
     \<and> (rg_frozen r \<longrightarrow> registry_run rt m calls r = r)
     \<and> rg_issuerKey (registry_run rt m calls r) = rg_issuerKey r"
proof (induction calls arbitrary: r)
  case (Cons call calls)
  let ?r = "registry_apply rt m call r"
  have run: "registry_run rt m (call # calls) r = registry_run rt m calls ?r" by (simp add: registry_run_def)
  note step = registry_apply_steps [of r rt m call] and rest = Cons.IH [of ?r]
  have "take (length (rg_credentials r)) (rg_credentials (registry_run rt m calls ?r))
      = take (length (rg_credentials r)) (take (length (rg_credentials ?r)) (rg_credentials (registry_run rt m calls ?r)))"
    using step by (simp add: min_absorb1)
  then show ?case unfolding run using step rest by (metis le_trans)
qed (simp add: registry_run_def)

lemma registry_prefix: "\<exists>more. rg_credentials (registry_run rt m calls r) = rg_credentials r @ more"
  using registry_run_steps [of r rt m calls] by (metis append_take_drop_id)

text \<open>Without the issuer's key nothing is ever written.\<close>

lemma registry_unauthorised:
  assumes "\<And>w. AddCredential w \<in> set calls \<Longrightarrow> roleKey rt (pad32 ''cico:registry:issuer:'') (rw_issuerSecret w) \<noteq> rg_issuerKey r"
    and "\<And>s d. Freeze s d \<in> set calls \<Longrightarrow> roleKey rt (pad32 ''cico:registry:issuer:'') s \<noteq> rg_issuerKey r"
  shows "registry_run rt m calls r = r"
  using assms
proof (induction calls)
  case (Cons call calls)
  have "registry_apply rt m call r = r"
  proof (cases "registry_exec rt m call r")
    case (Inr r')
    then show ?thesis using registry_exec_cases [OF Inr] Cons.prems by (auto simp: registry_apply_def)
  qed (simp add: registry_apply_def)
  moreover have "registry_run rt m calls r = r" using Cons.prems by (intro Cons.IH) auto
  ultimately show ?case by (simp add: registry_run_def)
qed (simp add: registry_run_def)

section \<open>Properties\<close>

text \<open>
  C31: The registry is append-only and its freeze is final. Over any sequence of calls
  its counter is the number of credentials, which never exceeds the tree's capacity;
  earlier credentials keep their places, so a membership path that led to the root of
  an earlier state starts at a credential of every later one; and once frozen, at the
  root it had then, the registry never changes again.
\<close>

theorem registry_append_only:
  assumes "collision_free m" "r = registry_run rt m before (new_registry m registryId issuerId epoch issuerKey)"
    and "length (mp_path path) = tree_depth" "merkleTreePathRoot m path = registry_root m r"
    and later_def: "later = registry_run rt m after r"
  shows "unat (rg_credentialCount later) = length (rg_credentials later) \<and> length (rg_credentials later) \<le> 65536
    \<and> take (length (rg_credentials r)) (rg_credentials later) = rg_credentials r
    \<and> mp_leaf path \<in> set (rg_credentials later)
    \<and> (rg_frozen r \<longrightarrow> later = r \<and> rg_frozenRoot r = registry_root m r)"
proof -
  have r: "registry_inv m r" unfolding assms(2) by (intro registry_run_inv registry_inv_new)
  then have l: "registry_inv m later" unfolding later_def by (rule registry_run_inv)
  note steps = registry_run_steps [of r rt m after, folded later_def]
  have "mp_leaf path \<in> set (rg_credentials r)"
    using merkle_sound [OF assms(1) _ assms(3)] assms(4) r by (simp add: registry_inv_def registry_root_def)
  then have "mp_leaf path \<in> set (take (length (rg_credentials r)) (rg_credentials later))" using steps by simp
  then have "mp_leaf path \<in> set (rg_credentials later)" by (rule in_set_takeD)
  then show ?thesis using r l steps by (auto simp: registry_inv_def tree_depth_def)
qed

definition free_bytes :: "string list \<Rightarrow> string" where
  "free_bytes xs = concat (map (\<lambda>x. replicate (length x) (CHR ''1'') @ ''0'' @ x) xs)"

text \<open>A runtime whose hash and commitment are injective.\<close>

definition free_runtime :: compact_runtime where
  "free_runtime = \<lparr> persistentHash = free_bytes, persistentCommit = (\<lambda>xs b. free_bytes (b # xs)),
     convertFieldToBytes = (\<lambda>n. replicate (nat n) (CHR ''i'')) \<rparr>"

definition sample_registry_witness :: registry_witness where
  "sample_registry_witness = \<lparr> rw_issuerSecret = ''secret'', rw_holderBinding = ''binding'', rw_credentialBlind = ''blind'',
     rw_credentialCountry = pad32 ''032'', rw_credentialAgeClass = 2, rw_credentialAssurance = 2, rw_credentialValidUntil = 500 \<rparr>"

abbreviation sample_registry :: "free_digest registry_ledger" where
  "sample_registry \<equiv> new_registry free_merkle ''r'' ''i'' 1 (roleKey free_runtime (pad32 ''cico:registry:issuer:'') ''secret'')"

lemma sample_registry_add:
  "rg_credentials (registry_run free_runtime free_merkle [AddCredential sample_registry_witness] sample_registry)
     = [registry_credentialLeaf free_runtime sample_registry sample_registry_witness]"
  by (simp add: registry_run_def registry_apply_def addCredential_def requireIssuer_def new_registry_def tree_depth_def
      sample_registry_witness_def check_def)

theorem registry_append_only_witness:
  "\<exists>path :: free_digest merkle_path. mp_leaf path = registry_credentialLeaf free_runtime sample_registry sample_registry_witness
    \<and> mp_leaf path \<in> set (rg_credentials (registry_run free_runtime free_merkle
        [AddCredential sample_registry_witness] (registry_run free_runtime free_merkle [AddCredential sample_registry_witness] sample_registry)))"
proof -
  let ?r = "registry_run free_runtime free_merkle [AddCredential sample_registry_witness] sample_registry"
  obtain path where path: "mp_leaf path = registry_credentialLeaf free_runtime sample_registry sample_registry_witness"
      "length (mp_path path) = tree_depth" "merkleTreePathRoot free_merkle path = tree_root free_merkle tree_depth (rg_credentials ?r)"
    by (rule findPathForLeaf_complete [of "registry_credentialLeaf free_runtime sample_registry sample_registry_witness"
          "rg_credentials ?r" tree_depth free_merkle]) (simp_all add: sample_registry_add)
  have "mp_leaf path \<in> set (rg_credentials (registry_run free_runtime free_merkle [AddCredential sample_registry_witness] ?r))"
    using registry_append_only [OF free_merkle_collision_free refl path(2) path(3) [folded registry_root_def] refl] by blast
  then show ?thesis using path(1) by blast
qed

end
