(* ===== verification/Referendum_Contract.thy ===== *)
theory Referendum_Contract
  imports Registry_Contract
begin

text \<open>
  The referendum (\<open>contracts/referendum-v2/referendum-v2.compact\<close>): a commit-reveal
  vote over the credentials of the registry. As in the registry, a circuit maps the
  ledger, its witness values and the block time to the next ledger or to the message
  of the assertion that failed. A witness function is the prover's own code and every
  call of it is a private input of its own, so \<open>castVote\<close> takes one value per call
  site; \<open>honest_witness\<close> gives the values when all calls read one private state.
\<close>

section \<open>Ledger and witnesses\<close>

datatype Phase = COMMIT | REVEAL | FINALIZED

record 'd referendum_sealed =
  sl_registryId :: string
  sl_issuerId :: string
  sl_credentialEpoch :: "64 word"
  sl_initialCredentialRoot :: 'd
  sl_registryContractBinding :: string
  sl_registryContract :: string
  sl_eventId :: string
  sl_organizerKey :: string
  sl_rootPublisherKey :: string
  sl_opensAtUnix :: "64 word"
  sl_enrollmentClosesAtUnix :: "64 word"
  sl_closesAtUnix :: "64 word"
  sl_revealClosesAtUnix :: "64 word"
  sl_countryPolicy :: string
  sl_countryPolicyEnabled :: bool
  sl_minimumAssurance :: "8 word"
  sl_requireAdult :: bool
  sl_validityReference :: "64 word"

record 'd referendum_ledger =
  rf_sealed :: "'d referendum_sealed"
  rf_acceptedCredentialRoots :: "'d set"
  rf_revokedCredentialRoots :: "'d set"
  rf_enrollmentClosed :: bool
  rf_ballotCommitments :: "string list"
  rf_spentVoteNullifiers :: "string set"
  rf_revealedCommitments :: "string set"
  rf_tally :: "VoteChoice \<rightharpoonup> 32 word"
  rf_phase :: Phase
  rf_closed :: bool
  rf_issuedVotes :: "64 word"

text \<open>The claims a credential leaf commits to, and its blind.\<close>

record credential_opening =
  co_holderBinding :: string
  co_country :: string
  co_ageClass :: "8 word"
  co_assurance :: "8 word"
  co_claimEpoch :: "64 word"
  co_validUntil :: "64 word"
  co_blind :: string

text \<open>
  The witness values of \<open>castVote\<close>, one per call site: \<open>voterSecret\<close> is called for the
  holder binding and again for the nullifier, \<open>holderBinding\<close> for the comparison and
  again in the leaf, and each claim in the leaf and again in its policy check.
\<close>

record 'd vote_witness =
  vw_bindingSecret :: string
  vw_holderBlind :: string
  vw_holderBinding :: string
  vw_leaf :: credential_opening
  vw_path :: "'d merkle_path"
  vw_claimEpoch :: "64 word"
  vw_validUntil :: "64 word"
  vw_country :: string
  vw_ageClass :: "8 word"
  vw_assurance :: "8 word"
  vw_nullifierSecret :: string
  vw_choice :: VoteChoice
  vw_salt :: string

type_synonym 'd referendum_result = "(string, 'd referendum_ledger) result"

section \<open>Circuits\<close>

definition holderBindingFromVoter :: "compact_runtime \<Rightarrow> string \<Rightarrow> string \<Rightarrow> string" where
  "holderBindingFromVoter rt voterSecret holderBlind =
     persistentCommit rt [pad32 ''cico:holder-bind:v1'', voterSecret] holderBlind"

definition credentialLeaf :: "compact_runtime \<Rightarrow> string \<Rightarrow> credential_opening \<Rightarrow> string" where
  "credentialLeaf rt issuerId c = persistentCommit rt
     [pad32 ''cico:credential:v1'', co_holderBinding c, issuerId, co_country c,
      field_bytes rt (co_ageClass c), field_bytes rt (co_assurance c),
      field_bytes rt (co_claimEpoch c), field_bytes rt (co_validUntil c)]
     (co_blind c)"

definition ballotCommitment :: "compact_runtime \<Rightarrow> string \<Rightarrow> VoteChoice \<Rightarrow> string \<Rightarrow> string" where
  "ballotCommitment rt eventId choice salt =
     persistentCommit rt [eventId, convertFieldToBytes rt (choice_code choice)] salt"

definition voteNullifier :: "compact_runtime \<Rightarrow> string \<Rightarrow> string \<Rightarrow> string" where
  "voteNullifier rt voterSecret eventId =
     persistentHash rt [pad32 ''cico:ref-v2:vote-nullifier:'', voterSecret, eventId]"

definition new_referendum :: "'d referendum_sealed \<Rightarrow> 'd referendum_result" where
  "new_referendum sl =
     rbind (check (sl_organizerKey sl \<noteq> sl_rootPublisherKey sl) ''The organizer and root publisher must be different keys'') (\<lambda>_.
     rbind (check (sl_opensAtUnix sl \<le> sl_enrollmentClosesAtUnix sl) ''Enrollment cannot close before voting opens'') (\<lambda>_.
     rbind (check (sl_enrollmentClosesAtUnix sl \<le> sl_closesAtUnix sl) ''Voting cannot close before enrollment closes'') (\<lambda>_.
     rbind (check (sl_opensAtUnix sl < sl_closesAtUnix sl) ''The voting window must be non-empty'') (\<lambda>_.
     rbind (check (sl_closesAtUnix sl < sl_revealClosesAtUnix sl) ''The reveal window must be non-empty'') (\<lambda>_.
     Inr \<lparr> rf_sealed = sl, rf_acceptedCredentialRoots = {sl_initialCredentialRoot sl}, rf_revokedCredentialRoots = {},
           rf_enrollmentClosed = False, rf_ballotCommitments = [], rf_spentVoteNullifiers = {}, rf_revealedCommitments = {},
           rf_tally = [Yes \<mapsto> 0, No \<mapsto> 0, Abstain \<mapsto> 0], rf_phase = COMMIT, rf_closed = False, rf_issuedVotes = 0 \<rparr>)))))"

abbreviation policy_error :: string where
  "policy_error \<equiv> ''Credential policy not satisfied''"

definition castVote ::
  "compact_runtime \<Rightarrow> 'd merkle_runtime \<Rightarrow> 64 word \<Rightarrow> 'd vote_witness \<Rightarrow> 'd referendum_ledger \<Rightarrow> 'd referendum_result" where
  "castVote rt m blockTime w s = (let sl = rf_sealed s in
     rbind (check (rf_phase s = COMMIT) ''Voting is not in the commit phase'') (\<lambda>_.
     rbind (check (\<not> rf_closed s) ''Voting is closed'') (\<lambda>_.
     rbind (check (sl_opensAtUnix sl \<le> blockTime) ''Voting has not opened yet'') (\<lambda>_.
     rbind (check (blockTime < sl_closesAtUnix sl) ''Voting has closed'') (\<lambda>_.
     rbind (check (holderBindingFromVoter rt (vw_bindingSecret w) (vw_holderBlind w) = vw_holderBinding w) policy_error) (\<lambda>_.
     rbind (check (mp_leaf (vw_path w) = credentialLeaf rt (sl_issuerId sl) (vw_leaf w)) policy_error) (\<lambda>_.
     rbind (check (merkleTreePathRoot m (vw_path w) \<in> rf_acceptedCredentialRoots s) policy_error) (\<lambda>_.
     rbind (check (vw_claimEpoch w = sl_credentialEpoch sl) policy_error) (\<lambda>_.
     rbind (check (sl_validityReference sl \<le> vw_validUntil w) policy_error) (\<lambda>_.
     rbind (check (sl_countryPolicyEnabled sl \<longrightarrow> vw_country w = sl_countryPolicy sl) policy_error) (\<lambda>_.
     rbind (check (sl_requireAdult sl \<longrightarrow> vw_ageClass w = 2) policy_error) (\<lambda>_.
     rbind (check (sl_minimumAssurance sl > 0 \<longrightarrow> sl_minimumAssurance sl \<le> vw_assurance w) policy_error) (\<lambda>_.
     let nullifier = voteNullifier rt (vw_nullifierSecret w) (sl_eventId sl) in
     rbind (check (nullifier \<notin> rf_spentVoteNullifiers s) ''This voter has already voted in this referendum'') (\<lambda>_.
     rbind (check (length (rf_ballotCommitments s) < 2 ^ tree_depth) ''Ballot commitment registry is full'') (\<lambda>_.
     Inr (s \<lparr> rf_spentVoteNullifiers := insert nullifier (rf_spentVoteNullifiers s),
              rf_ballotCommitments := rf_ballotCommitments s @ [ballotCommitment rt (sl_eventId sl) (vw_choice w) (vw_salt w)],
              rf_issuedVotes := rf_issuedVotes s + 1 \<rparr>))))))))))))))))"

definition publishCredentialRoot ::
  "compact_runtime \<Rightarrow> 64 word \<Rightarrow> string \<Rightarrow> 'd \<Rightarrow> 'd referendum_ledger \<Rightarrow> 'd referendum_result" where
  "publishCredentialRoot rt blockTime rootPublisherSecret root s = (let sl = rf_sealed s in
     rbind (check (roleKey rt (pad32 ''cico:ref-v2:root-publisher:'') rootPublisherSecret = sl_rootPublisherKey sl)
       ''Root publisher authorization failed'') (\<lambda>_.
     rbind (check (rf_phase s = COMMIT) ''Enrollment is not in the commit phase'') (\<lambda>_.
     rbind (check (\<not> rf_closed s) ''Voting is closed'') (\<lambda>_.
     rbind (check (\<not> rf_enrollmentClosed s) ''Enrollment is closed'') (\<lambda>_.
     rbind (check (blockTime < sl_enrollmentClosesAtUnix sl) ''Enrollment has closed'') (\<lambda>_.
     rbind (check (root \<notin> rf_acceptedCredentialRoots s) ''This credential root is already accepted'') (\<lambda>_.
     rbind (check (root \<notin> rf_revokedCredentialRoots s) ''This credential root has been revoked'') (\<lambda>_.
     Inr (s \<lparr> rf_acceptedCredentialRoots := insert root (rf_acceptedCredentialRoots s) \<rparr>)))))))))"

definition requireOrganizer :: "compact_runtime \<Rightarrow> 'd referendum_ledger \<Rightarrow> string \<Rightarrow> (string, unit) result" where
  "requireOrganizer rt s organizerSecret =
     check (roleKey rt (pad32 ''cico:referendum-v2:organizer:'') organizerSecret = sl_organizerKey (rf_sealed s))
       ''Organizer authorization failed''"

definition revokeCredentialRoot ::
  "compact_runtime \<Rightarrow> 64 word \<Rightarrow> string \<Rightarrow> 'd \<Rightarrow> 'd referendum_ledger \<Rightarrow> 'd referendum_result" where
  "revokeCredentialRoot rt blockTime organizerSecret root s =
     rbind (requireOrganizer rt s organizerSecret) (\<lambda>_.
     rbind (check (blockTime < sl_enrollmentClosesAtUnix (rf_sealed s)) ''Roots cannot be revoked after enrollment closes'') (\<lambda>_.
     rbind (check (root \<in> rf_acceptedCredentialRoots s) ''This credential root is not accepted'') (\<lambda>_.
     let s' = s \<lparr> rf_revokedCredentialRoots := insert root (rf_revokedCredentialRoots s),
                   rf_acceptedCredentialRoots := rf_acceptedCredentialRoots s - {root} \<rparr> in
     rbind (check (rf_acceptedCredentialRoots s' \<noteq> {}) ''The last accepted root cannot be revoked'') (\<lambda>_. Inr s'))))"

definition closeEnrollment :: "compact_runtime \<Rightarrow> string \<Rightarrow> 'd referendum_ledger \<Rightarrow> 'd referendum_result" where
  "closeEnrollment rt organizerSecret s =
     rbind (requireOrganizer rt s organizerSecret) (\<lambda>_.
     rbind (check (\<not> rf_enrollmentClosed s) ''Enrollment is already closed'') (\<lambda>_.
     Inr (s \<lparr> rf_enrollmentClosed := True \<rparr>)))"

definition closeVote :: "64 word \<Rightarrow> 'd referendum_ledger \<Rightarrow> 'd referendum_result" where
  "closeVote blockTime s =
     rbind (check (rf_phase s = COMMIT) ''The referendum is not in the commit phase'') (\<lambda>_.
     rbind (check (\<not> rf_closed s) ''The referendum is already closed'') (\<lambda>_.
     rbind (check (sl_closesAtUnix (rf_sealed s) \<le> blockTime) ''Voting cannot close before its deadline'') (\<lambda>_.
     Inr (s \<lparr> rf_phase := REVEAL, rf_closed := True \<rparr>))))"

text \<open>The map lookup and the narrowing cast of the tally fail on a missing key and on overflow.\<close>

definition revealVote ::
  "compact_runtime \<Rightarrow> 'd merkle_runtime \<Rightarrow> VoteChoice \<Rightarrow> string \<Rightarrow> 'd merkle_path \<Rightarrow> 'd referendum_ledger \<Rightarrow> 'd referendum_result" where
  "revealVote rt m choice salt revealPath s =
     rbind (check (rf_phase s = REVEAL) ''Voting is not in the reveal phase'') (\<lambda>_.
     rbind (check (rf_closed s) ''The referendum is not closed'') (\<lambda>_.
     let commitment = ballotCommitment rt (sl_eventId (rf_sealed s)) choice salt in
     rbind (check (mp_leaf revealPath = commitment) ''The reveal is invalid'') (\<lambda>_.
     rbind (check (historic_root m tree_depth (rf_ballotCommitments s) (merkleTreePathRoot m revealPath)) ''The reveal is invalid'') (\<lambda>_.
     rbind (check (commitment \<notin> rf_revealedCommitments s) ''This ballot has already been revealed'') (\<lambda>_.
     case rf_tally s choice of
       None \<Rightarrow> Inl ''lookup''
     | Some currentTally \<Rightarrow>
         rbind (check (unat currentTally + 1 < 2 ^ 32) ''cast'') (\<lambda>_.
         Inr (s \<lparr> rf_revealedCommitments := insert commitment (rf_revealedCommitments s),
                  rf_tally := (rf_tally s)(choice \<mapsto> currentTally + 1) \<rparr>)))))))"

definition finalizeVote :: "64 word \<Rightarrow> 'd referendum_ledger \<Rightarrow> 'd referendum_result" where
  "finalizeVote blockTime s =
     rbind (check (rf_phase s = REVEAL) ''The referendum is not in the reveal phase'') (\<lambda>_.
     rbind (check (rf_closed s) ''The referendum is not closed'') (\<lambda>_.
     rbind (check (sl_revealClosesAtUnix (rf_sealed s) \<le> blockTime) ''The reveal window is still open'') (\<lambda>_.
     Inr (s \<lparr> rf_phase := FINALIZED \<rparr>))))"

section \<open>Traces\<close>

datatype 'd referendum_call =
    CastVote "'d vote_witness"
  | PublishCredentialRoot string 'd
  | RevokeCredentialRoot string 'd
  | CloseEnrollment string
  | CloseVote
  | RevealVote VoteChoice string "'d merkle_path"
  | FinalizeVote

fun referendum_exec ::
  "compact_runtime \<Rightarrow> 'd merkle_runtime \<Rightarrow> 64 word \<Rightarrow> 'd referendum_call \<Rightarrow> 'd referendum_ledger \<Rightarrow> 'd referendum_result" where
  "referendum_exec rt m t (CastVote w) s = castVote rt m t w s"
| "referendum_exec rt m t (PublishCredentialRoot secret root) s = publishCredentialRoot rt t secret root s"
| "referendum_exec rt m t (RevokeCredentialRoot secret root) s = revokeCredentialRoot rt t secret root s"
| "referendum_exec rt m t (CloseEnrollment secret) s = closeEnrollment rt secret s"
| "referendum_exec rt m t CloseVote s = closeVote t s"
| "referendum_exec rt m t (RevealVote choice salt path) s = revealVote rt m choice salt path s"
| "referendum_exec rt m t FinalizeVote s = finalizeVote t s"

text \<open>The successful calls that lead from one ledger to another, each with its block time; a path has the depth of the tree by its type.\<close>

definition call_ok :: "'d referendum_call \<Rightarrow> bool" where
  "call_ok c = (case c of
     CastVote w \<Rightarrow> length (mp_path (vw_path w)) = tree_depth
   | RevealVote choice salt path \<Rightarrow> length (mp_path path) = tree_depth
   | _ \<Rightarrow> True)"

inductive referendum_trace ::
  "compact_runtime \<Rightarrow> 'd merkle_runtime \<Rightarrow> 'd referendum_ledger \<Rightarrow> (64 word \<times> 'd referendum_call) list \<Rightarrow> 'd referendum_ledger \<Rightarrow> bool"
  for rt m s0 where
  trace_start: "referendum_trace rt m s0 [] s0"
| trace_step: "referendum_trace rt m s0 tr s \<Longrightarrow> call_ok call \<Longrightarrow> referendum_exec rt m t call s = Inr s'
    \<Longrightarrow> referendum_trace rt m s0 (tr @ [(t, call)]) s'"

inductive_cases trace_NilE: "referendum_trace rt m s0 [] s"

definition cast_witness :: "64 word \<times> 'd referendum_call \<Rightarrow> 'd vote_witness list" where
  "cast_witness p = (case snd p of CastVote w \<Rightarrow> [w] | _ \<Rightarrow> [])"

definition casts :: "(64 word \<times> 'd referendum_call) list \<Rightarrow> 'd vote_witness list" where
  "casts tr = concat (map cast_witness tr)"

definition counted :: "'d referendum_ledger \<Rightarrow> VoteChoice \<Rightarrow> nat" where
  "counted s c = (case rf_tally s c of Some n \<Rightarrow> unat n | None \<Rightarrow> 0)"

section \<open>Honest voters\<close>

record 'd voter_private =
  vp_voterSecret :: string
  vp_holderBlind :: string
  vp_leaf :: credential_opening
  vp_path :: "'d merkle_path"
  vp_choice :: VoteChoice
  vp_salt :: string

definition honest_witness :: "'d voter_private \<Rightarrow> 'd vote_witness" where
  "honest_witness p = \<lparr> vw_bindingSecret = vp_voterSecret p, vw_holderBlind = vp_holderBlind p,
     vw_holderBinding = co_holderBinding (vp_leaf p), vw_leaf = vp_leaf p, vw_path = vp_path p,
     vw_claimEpoch = co_claimEpoch (vp_leaf p), vw_validUntil = co_validUntil (vp_leaf p), vw_country = co_country (vp_leaf p),
     vw_ageClass = co_ageClass (vp_leaf p), vw_assurance = co_assurance (vp_leaf p),
     vw_nullifierSecret = vp_voterSecret p, vw_choice = vp_choice p, vw_salt = vp_salt p \<rparr>"

text \<open>What collision resistance of the runtime's hash and commitment guarantees.\<close>

definition binding_runtime :: "compact_runtime \<Rightarrow> bool" where
  "binding_runtime rt = ((\<forall>xs b ys c. persistentCommit rt xs b = persistentCommit rt ys c \<longrightarrow> xs = ys \<and> b = c)
     \<and> inj (persistentHash rt) \<and> inj_on (convertFieldToBytes rt) {0..<2 ^ 64})"

end
