(* ===== verification/Referendum_Properties.thy ===== *)
theory Referendum_Properties
  imports Referendum_Contract
begin

text \<open>
  The referendum contract's invariants and theorems: what a tally means, one vote per
  credential, the schedule, revocation, liveness, and the agreement of the
  application's derivations with the circuits.
\<close>

section \<open>Successful calls\<close>

definition cast_ok :: "compact_runtime \<Rightarrow> 'd merkle_runtime \<Rightarrow> 64 word \<Rightarrow> 'd vote_witness \<Rightarrow> 'd referendum_ledger \<Rightarrow> bool" where
  "cast_ok rt m t w s = (rf_phase s = COMMIT \<and> \<not> rf_closed s \<and> sl_opensAtUnix (rf_sealed s) \<le> t \<and> t < sl_closesAtUnix (rf_sealed s)
     \<and> holderBindingFromVoter rt (vw_bindingSecret w) (vw_holderBlind w) = vw_holderBinding w
     \<and> mp_leaf (vw_path w) = credentialLeaf rt (sl_issuerId (rf_sealed s)) (vw_leaf w)
     \<and> merkleTreePathRoot m (vw_path w) \<in> rf_acceptedCredentialRoots s
     \<and> vw_claimEpoch w = sl_credentialEpoch (rf_sealed s) \<and> sl_validityReference (rf_sealed s) \<le> vw_validUntil w
     \<and> (sl_countryPolicyEnabled (rf_sealed s) \<longrightarrow> vw_country w = sl_countryPolicy (rf_sealed s))
     \<and> (sl_requireAdult (rf_sealed s) \<longrightarrow> vw_ageClass w = 2)
     \<and> sl_minimumAssurance (rf_sealed s) \<le> vw_assurance w
     \<and> voteNullifier rt (vw_nullifierSecret w) (sl_eventId (rf_sealed s)) \<notin> rf_spentVoteNullifiers s
     \<and> length (rf_ballotCommitments s) < 2 ^ tree_depth)"

lemma word_gt_0_le: "((0 :: 'a::len word) < a \<longrightarrow> a \<le> b) \<longleftrightarrow> a \<le> b"
  by (metis linorder_not_less order_trans word_zero_le)

lemma castVote_iff:
  "castVote rt m t w s = Inr s' \<longleftrightarrow> cast_ok rt m t w s
     \<and> s' = s \<lparr> rf_spentVoteNullifiers := insert (voteNullifier rt (vw_nullifierSecret w) (sl_eventId (rf_sealed s))) (rf_spentVoteNullifiers s),
        rf_ballotCommitments := rf_ballotCommitments s @ [ballotCommitment rt (sl_eventId (rf_sealed s)) (vw_choice w) (vw_salt w)],
        rf_issuedVotes := rf_issuedVotes s + 1 \<rparr>"
  unfolding castVote_def cast_ok_def Let_def rbind_eq_Inr check_eq_Inr word_gt_0_le by auto

lemma publish_iff:
  "publishCredentialRoot rt t secret root s = Inr s' \<longleftrightarrow>
     roleKey rt (pad32 ''cico:ref-v2:root-publisher:'') secret = sl_rootPublisherKey (rf_sealed s)
     \<and> rf_phase s = COMMIT \<and> \<not> rf_closed s \<and> \<not> rf_enrollmentClosed s \<and> t < sl_enrollmentClosesAtUnix (rf_sealed s)
     \<and> root \<notin> rf_acceptedCredentialRoots s \<and> root \<notin> rf_revokedCredentialRoots s
     \<and> s' = s \<lparr> rf_acceptedCredentialRoots := insert root (rf_acceptedCredentialRoots s) \<rparr>"
  unfolding publishCredentialRoot_def Let_def rbind_eq_Inr check_eq_Inr by auto

lemma revoke_iff:
  "revokeCredentialRoot rt t secret root s = Inr s' \<longleftrightarrow>
     roleKey rt (pad32 ''cico:referendum-v2:organizer:'') secret = sl_organizerKey (rf_sealed s)
     \<and> t < sl_enrollmentClosesAtUnix (rf_sealed s) \<and> root \<in> rf_acceptedCredentialRoots s
     \<and> rf_acceptedCredentialRoots s - {root} \<noteq> {}
     \<and> s' = s \<lparr> rf_revokedCredentialRoots := insert root (rf_revokedCredentialRoots s),
                rf_acceptedCredentialRoots := rf_acceptedCredentialRoots s - {root} \<rparr>"
  unfolding revokeCredentialRoot_def requireOrganizer_def Let_def rbind_eq_Inr check_eq_Inr by auto

lemma closeEnrollment_iff:
  "closeEnrollment rt secret s = Inr s' \<longleftrightarrow>
     roleKey rt (pad32 ''cico:referendum-v2:organizer:'') secret = sl_organizerKey (rf_sealed s)
     \<and> \<not> rf_enrollmentClosed s \<and> s' = s \<lparr> rf_enrollmentClosed := True \<rparr>"
  unfolding closeEnrollment_def requireOrganizer_def rbind_eq_Inr check_eq_Inr by auto

lemma closeVote_iff:
  "closeVote t s = Inr s' \<longleftrightarrow> rf_phase s = COMMIT \<and> \<not> rf_closed s \<and> sl_closesAtUnix (rf_sealed s) \<le> t
     \<and> s' = s \<lparr> rf_phase := REVEAL, rf_closed := True \<rparr>"
  unfolding closeVote_def rbind_eq_Inr check_eq_Inr by auto

lemma finalizeVote_iff:
  "finalizeVote t s = Inr s' \<longleftrightarrow> rf_phase s = REVEAL \<and> rf_closed s \<and> sl_revealClosesAtUnix (rf_sealed s) \<le> t
     \<and> s' = s \<lparr> rf_phase := FINALIZED \<rparr>"
  unfolding finalizeVote_def rbind_eq_Inr check_eq_Inr by auto

lemma revealVote_iff:
  "revealVote rt m choice salt path s = Inr s' \<longleftrightarrow> rf_phase s = REVEAL \<and> rf_closed s
     \<and> mp_leaf path = ballotCommitment rt (sl_eventId (rf_sealed s)) choice salt
     \<and> historic_root m tree_depth (rf_ballotCommitments s) (merkleTreePathRoot m path)
     \<and> mp_leaf path \<notin> rf_revealedCommitments s
     \<and> (\<exists>n. rf_tally s choice = Some n \<and> unat n + 1 < 2 ^ 32
        \<and> s' = s \<lparr> rf_revealedCommitments := insert (mp_leaf path) (rf_revealedCommitments s),
                   rf_tally := (rf_tally s)(choice \<mapsto> n + 1) \<rparr>)"
  unfolding revealVote_def Let_def rbind_eq_Inr check_eq_Inr by (auto split: option.splits)

lemmas call_iffs = castVote_iff publish_iff revoke_iff closeEnrollment_iff closeVote_iff finalizeVote_iff revealVote_iff

lemma exec_sealed: "referendum_exec rt m t call s = Inr s' \<Longrightarrow> rf_sealed s' = rf_sealed s"
  by (cases call) (auto simp: call_iffs)

section \<open>Invariant\<close>

definition total_counted :: "'d referendum_ledger \<Rightarrow> nat" where
  "total_counted s = counted s Yes + counted s No + counted s Abstain"

definition ledger_inv :: "'d referendum_ledger \<Rightarrow> bool" where
  "ledger_inv s = (finite (rf_spentVoteNullifiers s) \<and> card (rf_spentVoteNullifiers s) = length (rf_ballotCommitments s)
     \<and> unat (rf_issuedVotes s) = length (rf_ballotCommitments s) \<and> length (rf_ballotCommitments s) \<le> 2 ^ tree_depth
     \<and> finite (rf_revealedCommitments s) \<and> total_counted s = card (rf_revealedCommitments s) \<and> dom (rf_tally s) = UNIV
     \<and> (rf_closed s \<longleftrightarrow> rf_phase s \<noteq> COMMIT) \<and> (rf_phase s = COMMIT \<longrightarrow> rf_revealedCommitments s = {})
     \<and> rf_acceptedCredentialRoots s \<noteq> {} \<and> rf_acceptedCredentialRoots s \<inter> rf_revokedCredentialRoots s = {}
     \<and> sl_closesAtUnix (rf_sealed s) < sl_revealClosesAtUnix (rf_sealed s))"

lemma choice_UNIV: "dom f = (UNIV :: VoteChoice set) \<longleftrightarrow> f Yes \<noteq> None \<and> f No \<noteq> None \<and> f Abstain \<noteq> None"
  by (auto simp: dom_def set_eq_iff) (metis VoteChoice.exhaust option.distinct(1))

lemma unat_word32_Suc: "unat (n :: 32 word) + 1 < 2 ^ 32 \<Longrightarrow> unat (n + 1) = unat n + 1"
  by (subst unat_word_ariths) simp

lemma total_counted_update:
  assumes "rf_tally s choice = Some n" "unat n + 1 < 2 ^ 32"
  shows "total_counted (s \<lparr> rf_revealedCommitments := R, rf_tally := (rf_tally s)(choice \<mapsto> n + 1) \<rparr>) = Suc (total_counted s)"
  using assms unat_word32_Suc [OF assms(2)] by (cases choice) (simp_all add: total_counted_def counted_def)

lemma ledger_inv_new:
  assumes "new_referendum sl = Inr s"
  shows "ledger_inv s" "rf_sealed s = sl" "rf_acceptedCredentialRoots s = {sl_initialCredentialRoot sl}"
    "rf_ballotCommitments s = []" "rf_revealedCommitments s = {}" "rf_revokedCredentialRoots s = {}" "rf_phase s = COMMIT"
    "counted s c = 0" "rf_spentVoteNullifiers s = {}"
proof -
  note s = assms [unfolded new_referendum_def rbind_eq_Inr check_eq_Inr]
  show "ledger_inv s" using s by (auto simp: ledger_inv_def total_counted_def counted_def choice_UNIV)
  show "counted s c = 0" using s by (cases c) (auto simp: counted_def)
qed (use assms [unfolded new_referendum_def rbind_eq_Inr check_eq_Inr] in auto)

lemma ledger_inv_cast:
  assumes "ledger_inv s" "castVote rt m t w s = Inr s'"
  shows "ledger_inv s'"
proof -
  have ok: "cast_ok rt m t w s" using assms(2) unfolding castVote_iff by blast
  have s': "s' = s \<lparr> rf_spentVoteNullifiers := insert (voteNullifier rt (vw_nullifierSecret w) (sl_eventId (rf_sealed s))) (rf_spentVoteNullifiers s),
        rf_ballotCommitments := rf_ballotCommitments s @ [ballotCommitment rt (sl_eventId (rf_sealed s)) (vw_choice w) (vw_salt w)],
        rf_issuedVotes := rf_issuedVotes s + 1 \<rparr>"
    using assms(2) unfolding castVote_iff by blast
  have "unat (rf_issuedVotes s + 1) = Suc (length (rf_ballotCommitments s))"
    using assms(1) by (intro unat_word_Suc) (auto simp: ledger_inv_def)
  then show ?thesis
    using assms(1) ok unfolding s' by (auto simp: ledger_inv_def cast_ok_def total_counted_def counted_def)
qed

lemma ledger_inv_reveal:
  assumes "ledger_inv s" "revealVote rt m choice salt path s = Inr s'"
  shows "ledger_inv s'"
proof -
  obtain n where n: "rf_tally s choice = Some n" "unat n + 1 < 2 ^ 32" "mp_leaf path \<notin> rf_revealedCommitments s"
      "rf_phase s = REVEAL" "s' = s \<lparr> rf_revealedCommitments := insert (mp_leaf path) (rf_revealedCommitments s),
                   rf_tally := (rf_tally s)(choice \<mapsto> n + 1) \<rparr>"
    using assms(2) unfolding revealVote_iff by blast
  have "total_counted s' = Suc (total_counted s)" unfolding n(5) by (rule total_counted_update [OF n(1,2)])
  then show ?thesis using assms(1) n(3,4) unfolding n(5) by (auto simp: ledger_inv_def)
qed

lemma ledger_inv_exec:
  assumes "ledger_inv s" "referendum_exec rt m t call s = Inr s'"
  shows "ledger_inv s'"
proof (cases call)
  case (CastVote w)
  then show ?thesis using assms ledger_inv_cast by simp
next
  case (RevealVote c salt p)
  then show ?thesis using assms ledger_inv_reveal by simp
qed (use assms in \<open>auto simp: call_iffs ledger_inv_def total_counted_def counted_def\<close>)

lemma trace_inv: "referendum_trace rt m s0 tr s \<Longrightarrow> ledger_inv s0 \<Longrightarrow> ledger_inv s"
  by (induction rule: referendum_trace.induct) (auto intro: ledger_inv_exec)

lemma trace_sealed: "referendum_trace rt m s0 tr s \<Longrightarrow> rf_sealed s = rf_sealed s0"
  by (induction rule: referendum_trace.induct) (auto simp: exec_sealed)

lemma casts_snoc: "casts (tr @ [(t, call)]) = casts tr @ (case call of CastVote w \<Rightarrow> [w] | _ \<Rightarrow> [])"
  by (simp add: casts_def cast_witness_def)

lemma casts_Nil [simp]: "casts [] = []"
  by (simp add: casts_def)

section \<open>What a trace did\<close>

lemma trace_ballots:
  "referendum_trace rt m s0 tr s \<Longrightarrow>
     rf_ballotCommitments s = rf_ballotCommitments s0
       @ map (\<lambda>w. ballotCommitment rt (sl_eventId (rf_sealed s0)) (vw_choice w) (vw_salt w)) (casts tr)"
proof (induction rule: referendum_trace.induct)
  case (trace_step tr s call t s')
  then show ?case using trace_sealed [OF trace_step(1)] by (cases call) (auto simp: casts_snoc call_iffs)
qed simp

lemma trace_spent:
  "referendum_trace rt m s0 tr s \<Longrightarrow>
     rf_spentVoteNullifiers s = rf_spentVoteNullifiers s0
       \<union> (\<lambda>w. voteNullifier rt (vw_nullifierSecret w) (sl_eventId (rf_sealed s0))) ` set (casts tr)"
proof (induction rule: referendum_trace.induct)
  case (trace_step tr s call t s')
  then show ?case using trace_sealed [OF trace_step(1)] by (cases call) (auto simp: casts_snoc call_iffs)
qed simp

text \<open>Every vote of a trace was accepted in one of its ledgers.\<close>

lemma trace_cast:
  "referendum_trace rt m s0 tr s \<Longrightarrow> w \<in> set (casts tr) \<Longrightarrow>
     \<exists>t tr1 s1. referendum_trace rt m s0 tr1 s1 \<and> set tr1 \<subseteq> set tr \<and> cast_ok rt m t w s1 \<and> length (mp_path (vw_path w)) = tree_depth"
proof (induction rule: referendum_trace.induct)
  case (trace_step tr s call t s')
  show ?case
  proof (cases "w \<in> set (casts tr)")
    case True
    then obtain u tr1 s1 where "referendum_trace rt m s0 tr1 s1" "set tr1 \<subseteq> set tr" "cast_ok rt m u w s1"
        "length (mp_path (vw_path w)) = tree_depth"
      using trace_step.IH by blast
    moreover from this(2) have "set tr1 \<subseteq> set (tr @ [(t, call)])" by auto
    ultimately show ?thesis by blast
  next
    case False
    then have "call = CastVote w" using trace_step.prems by (cases call) (auto simp: casts_snoc)
    then have "cast_ok rt m t w s" "length (mp_path (vw_path w)) = tree_depth"
      using trace_step.hyps(2,3) by (auto simp: castVote_iff call_ok_def)
    moreover have "set tr \<subseteq> set (tr @ [(t, call)])" by auto
    ultimately show ?thesis using trace_step.hyps(1) by blast
  qed
qed simp

lemma trace_accepted:
  "referendum_trace rt m s0 tr s \<Longrightarrow> root \<in> rf_acceptedCredentialRoots s \<Longrightarrow>
     root \<in> rf_acceptedCredentialRoots s0 \<or> (\<exists>t secret. (t, PublishCredentialRoot secret root) \<in> set tr)"
proof (induction rule: referendum_trace.induct)
  case (trace_step tr s call t s')
  then show ?case by (cases call) (auto simp: call_iffs)
qed simp

lemma trace_revealed:
  assumes "collision_free m" "ledger_inv s0" "rf_revealedCommitments s0 \<subseteq> set (rf_ballotCommitments s0)"
  shows "referendum_trace rt m s0 tr s \<Longrightarrow> rf_revealedCommitments s \<subseteq> set (rf_ballotCommitments s)"
proof (induction rule: referendum_trace.induct)
  case trace_start
  show ?case by (rule assms(3))
next
  case (trace_step tr s call t s')
  show ?case
  proof (cases call)
    case (RevealVote choice salt path)
    then have r: "historic_root m tree_depth (rf_ballotCommitments s) (merkleTreePathRoot m path)" "length (mp_path path) = tree_depth"
        "rf_revealedCommitments s' = insert (mp_leaf path) (rf_revealedCommitments s)" "rf_ballotCommitments s' = rf_ballotCommitments s"
      using trace_step.hyps(2,3) by (auto simp: revealVote_iff call_ok_def)
    have "length (rf_ballotCommitments s) \<le> 2 ^ tree_depth"
      using trace_inv [OF trace_step.hyps(1) assms(2)] by (simp add: ledger_inv_def)
    then have "mp_leaf path \<in> set (rf_ballotCommitments s)" using merkle_sound_historic [OF assms(1) _ r(2,1)] by blast
    then show ?thesis using trace_step.IH r by simp
  qed (use trace_step in \<open>auto simp: call_iffs\<close>)
qed

section \<open>What a tally means\<close>

lemma binding_runtimeD:
  assumes "binding_runtime rt"
  shows "persistentCommit rt xs b = persistentCommit rt ys c \<Longrightarrow> xs = ys" "persistentCommit rt xs b = persistentCommit rt ys c \<Longrightarrow> b = c"
    "persistentHash rt xs = persistentHash rt ys \<Longrightarrow> xs = ys"
    "convertFieldToBytes rt a = convertFieldToBytes rt d \<Longrightarrow> 0 \<le> a \<Longrightarrow> a < 2 ^ 64 \<Longrightarrow> 0 \<le> d \<Longrightarrow> d < 2 ^ 64 \<Longrightarrow> a = d"
proof -
  show "xs = ys" "b = c" if "persistentCommit rt xs b = persistentCommit rt ys c" using assms that unfolding binding_runtime_def by blast+
  show "xs = ys" if "persistentHash rt xs = persistentHash rt ys" using assms that unfolding binding_runtime_def inj_def by blast
  show "a = d" if "convertFieldToBytes rt a = convertFieldToBytes rt d" "0 \<le> a" "a < 2 ^ 64" "0 \<le> d" "d < 2 ^ 64"
    using assms that unfolding binding_runtime_def inj_on_def by auto
qed

lemma ballotCommitment_inject:
  assumes "binding_runtime rt" "ballotCommitment rt e c salt = ballotCommitment rt e' c' salt'"
  shows "c = c'" "salt = salt'"
proof -
  have "convertFieldToBytes rt (choice_code c) = convertFieldToBytes rt (choice_code c')"
    using binding_runtimeD(1) [OF assms(1) assms(2) [unfolded ballotCommitment_def]] by simp
  moreover have "0 \<le> choice_code x" "choice_code x < 2 ^ 64" for x by (cases x; simp)+
  ultimately have "choice_code c = choice_code c'" using binding_runtimeD(4) [OF assms(1)] by blast
  then show "c = c'" by (cases c; cases c') simp_all
  show "salt = salt'" by (rule binding_runtimeD(2) [OF assms(1) assms(2) [unfolded ballotCommitment_def]])
qed

definition revealed_for :: "compact_runtime \<Rightarrow> 'd referendum_ledger \<Rightarrow> VoteChoice \<Rightarrow> string set" where
  "revealed_for rt s c = {x \<in> rf_revealedCommitments s. \<exists>salt. x = ballotCommitment rt (sl_eventId (rf_sealed s)) c salt}"

lemma counted_revealed:
  assumes "binding_runtime rt" "ledger_inv s0" "rf_revealedCommitments s0 = {}" "\<And>c. counted s0 c = 0"
  shows "referendum_trace rt m s0 tr s \<Longrightarrow> counted s c = card (revealed_for rt s c)"
proof (induction rule: referendum_trace.induct)
  case trace_start
  then show ?case using assms(3,4) by (simp add: revealed_for_def)
next
  case (trace_step tr s call t s')
  show ?case
  proof (cases call)
    case (RevealVote choice salt path)
    then obtain n where n: "mp_leaf path = ballotCommitment rt (sl_eventId (rf_sealed s)) choice salt" "mp_leaf path \<notin> rf_revealedCommitments s"
        "rf_tally s choice = Some n" "unat n + 1 < 2 ^ 32"
        "s' = s \<lparr> rf_revealedCommitments := insert (mp_leaf path) (rf_revealedCommitments s), rf_tally := (rf_tally s)(choice \<mapsto> n + 1) \<rparr>"
      using trace_step.hyps(3) by (auto simp: revealVote_iff)
    have fin: "finite (revealed_for rt s c)"
      using trace_inv [OF trace_step.hyps(1) assms(2)] by (simp add: revealed_for_def ledger_inv_def)
    have "revealed_for rt s' c = (if c = choice then insert (mp_leaf path) (revealed_for rt s c) else revealed_for rt s c)"
      using ballotCommitment_inject(1) [OF assms(1)] unfolding revealed_for_def n(5) n(1) by auto
    moreover have "mp_leaf path \<notin> revealed_for rt s c" using n(2) by (simp add: revealed_for_def)
    moreover have "counted s' c = (if c = choice then counted s c + 1 else counted s c)"
      using n(3) unat_word32_Suc [OF n(4)] unfolding n(5) by (simp add: counted_def)
    ultimately show ?thesis using trace_step.IH fin by (cases "c = choice") simp_all
  qed (use trace_step in \<open>auto simp: call_iffs counted_def revealed_for_def\<close>)
qed

lemma counted_le_casts:
  assumes "binding_runtime rt" "collision_free m" "new_referendum sl = Inr s0" "referendum_trace rt m s0 tr s"
  shows "counted s c \<le> length (filter (\<lambda>w. vw_choice w = c) (casts tr))"
proof -
  note new = ledger_inv_new [OF assms(3)]
  let ?com = "\<lambda>w. ballotCommitment rt (sl_eventId (rf_sealed s0)) (vw_choice w) (vw_salt w)"
  have sub: "rf_revealedCommitments s \<subseteq> ?com ` set (casts tr)"
    using trace_revealed [OF assms(2) new(1) _ assms(4)] trace_ballots [OF assms(4)] new(4,5) by auto
  have "revealed_for rt s c \<subseteq> ?com ` set (filter (\<lambda>w. vw_choice w = c) (casts tr))"
  proof
    fix x assume "x \<in> revealed_for rt s c"
    then obtain salt where x: "x \<in> rf_revealedCommitments s" "x = ballotCommitment rt (sl_eventId (rf_sealed s)) c salt"
      unfolding revealed_for_def by blast
    then obtain w where w: "w \<in> set (casts tr)" "x = ?com w" using sub by blast
    then have "vw_choice w = c" using ballotCommitment_inject(1) [OF assms(1)] x(2) by metis
    then show "x \<in> ?com ` set (filter (\<lambda>w. vw_choice w = c) (casts tr))" using w by auto
  qed
  then have "card (revealed_for rt s c) \<le> length (filter (\<lambda>w. vw_choice w = c) (casts tr))"
    by (meson List.finite_set card_image_le card_length card_mono finite_imageI order_trans)
  then show ?thesis using counted_revealed [OF assms(1) new(1,5,8) assms(4)] by simp
qed

lemma issued_casts:
  assumes "new_referendum sl = Inr s0" "referendum_trace rt m s0 tr s"
  shows "unat (rf_issuedVotes s) = length (casts tr)" "length (casts tr) \<le> 65536"
  using trace_inv [OF assms(2) ledger_inv_new(1) [OF assms(1)]] trace_ballots [OF assms(2)] ledger_inv_new(4) [OF assms(1)]
  by (simp_all add: ledger_inv_def tree_depth_def)

lemma total_le_issued:
  assumes "collision_free m" "new_referendum sl = Inr s0" "referendum_trace rt m s0 tr s"
  shows "total_counted s \<le> length (rf_ballotCommitments s)"
proof -
  note new = ledger_inv_new [OF assms(2)] and s = trace_inv [OF assms(3) ledger_inv_new(1) [OF assms(2)]]
  have "rf_revealedCommitments s \<subseteq> set (rf_ballotCommitments s)"
    using trace_revealed [OF assms(1) new(1) _ assms(3)] new(5) by simp
  then have "card (rf_revealedCommitments s) \<le> length (rf_ballotCommitments s)"
    by (meson List.finite_set card_length card_mono order_trans)
  then show ?thesis using s by (simp add: ledger_inv_def)
qed

section \<open>One vote per credential\<close>

lemma credentialLeaf_inject:
  assumes "binding_runtime rt" "credentialLeaf rt i c = credentialLeaf rt i' c'"
  shows "co_holderBinding c = co_holderBinding c'" "co_country c = co_country c'" "co_blind c = co_blind c'"
  using binding_runtimeD(1,2) [OF assms(1) assms(2) [unfolded credentialLeaf_def]] by simp_all

lemma holderBinding_inject:
  assumes "binding_runtime rt" "holderBindingFromVoter rt x b = holderBindingFromVoter rt y c"
  shows "x = y"
  using binding_runtimeD(1) [OF assms(1) assms(2) [unfolded holderBindingFromVoter_def]] by simp

lemma honest_witness_simps [simp]:
  "vw_bindingSecret (honest_witness p) = vp_voterSecret p" "vw_holderBlind (honest_witness p) = vp_holderBlind p"
  "vw_holderBinding (honest_witness p) = co_holderBinding (vp_leaf p)" "vw_leaf (honest_witness p) = vp_leaf p"
  "vw_path (honest_witness p) = vp_path p" "vw_claimEpoch (honest_witness p) = co_claimEpoch (vp_leaf p)"
  "vw_validUntil (honest_witness p) = co_validUntil (vp_leaf p)" "vw_country (honest_witness p) = co_country (vp_leaf p)"
  "vw_ageClass (honest_witness p) = co_ageClass (vp_leaf p)" "vw_assurance (honest_witness p) = co_assurance (vp_leaf p)"
  "vw_nullifierSecret (honest_witness p) = vp_voterSecret p" "vw_choice (honest_witness p) = vp_choice p"
  "vw_salt (honest_witness p) = vp_salt p"
  by (simp_all add: honest_witness_def)

definition honest :: "'d vote_witness \<Rightarrow> bool" where
  "honest w = (\<exists>p. w = honest_witness p)"

definition policy_holds :: "'d referendum_sealed \<Rightarrow> credential_opening \<Rightarrow> bool" where
  "policy_holds sl c = (co_claimEpoch c = sl_credentialEpoch sl \<and> sl_validityReference sl \<le> co_validUntil c
     \<and> (sl_countryPolicyEnabled sl \<longrightarrow> co_country c = sl_countryPolicy sl) \<and> (sl_requireAdult sl \<longrightarrow> co_ageClass c = 2)
     \<and> sl_minimumAssurance sl \<le> co_assurance c)"

lemma honest_same_credential:
  assumes "binding_runtime rt" "honest w" "honest w'" "cast_ok rt m t w s" "cast_ok rt m t' w' s'"
    and "mp_leaf (vw_path w) = mp_leaf (vw_path w')"
  shows "vw_nullifierSecret w = vw_nullifierSecret w'"
proof -
  obtain p p' where p: "w = honest_witness p" "w' = honest_witness p'" using assms(2,3) unfolding honest_def by blast
  have ok: "mp_leaf (vp_path p) = credentialLeaf rt (sl_issuerId (rf_sealed s)) (vp_leaf p)"
      "mp_leaf (vp_path p') = credentialLeaf rt (sl_issuerId (rf_sealed s')) (vp_leaf p')"
      "holderBindingFromVoter rt (vp_voterSecret p) (vp_holderBlind p) = co_holderBinding (vp_leaf p)"
      "holderBindingFromVoter rt (vp_voterSecret p') (vp_holderBlind p') = co_holderBinding (vp_leaf p')"
    using assms(4,5) unfolding p cast_ok_def by simp_all
  have "credentialLeaf rt (sl_issuerId (rf_sealed s)) (vp_leaf p) = credentialLeaf rt (sl_issuerId (rf_sealed s')) (vp_leaf p')"
    using ok(1,2) assms(6) unfolding p by simp
  from credentialLeaf_inject(1) [OF assms(1) this] have "vp_voterSecret p = vp_voterSecret p'"
    using holderBinding_inject [OF assms(1)] ok(3,4) by metis
  then show ?thesis by (simp add: p)
qed

lemma casts_distinct:
  assumes "binding_runtime rt"
  shows "referendum_trace rt m s0 tr s \<Longrightarrow> \<forall>w \<in> set (casts tr). honest w \<Longrightarrow> distinct (map (\<lambda>w. mp_leaf (vw_path w)) (casts tr))"
proof (induction rule: referendum_trace.induct)
  case (trace_step tr s call t s')
  have "set (casts tr) \<subseteq> set (casts (tr @ [(t, call)]))" by (simp add: casts_snoc)
  then have IH: "distinct (map (\<lambda>w. mp_leaf (vw_path w)) (casts tr))" using trace_step.IH trace_step.prems by blast
  show ?case
  proof (cases call)
    case (CastVote w)
    have ok: "cast_ok rt m t w s" using trace_step.hyps(3) CastVote by (simp add: castVote_iff)
    have "mp_leaf (vw_path w) \<noteq> mp_leaf (vw_path w')" if w': "w' \<in> set (casts tr)" for w'
    proof
      assume eq: "mp_leaf (vw_path w) = mp_leaf (vw_path w')"
      obtain t' s1 where "cast_ok rt m t' w' s1" using trace_cast [OF trace_step.hyps(1) w'] by blast
      moreover have "honest w" "honest w'" using trace_step.prems w' by (auto simp: casts_snoc CastVote)
      ultimately have "vw_nullifierSecret w = vw_nullifierSecret w'" using honest_same_credential [OF assms _ _ ok _ eq] by blast
      then have "voteNullifier rt (vw_nullifierSecret w) (sl_eventId (rf_sealed s)) \<in> rf_spentVoteNullifiers s"
        using trace_spent [OF trace_step.hyps(1)] trace_sealed [OF trace_step.hyps(1)] w' by auto
      then show False using ok by (simp add: cast_ok_def)
    qed
    then show ?thesis using IH by (auto simp: casts_snoc CastVote)
  qed (use IH in \<open>simp_all add: casts_snoc\<close>)
qed simp

lemma cast_leaf_registered:
  assumes "collision_free m" "new_referendum sl = Inr s0" "referendum_trace rt m s0 tr s" "w \<in> set (casts tr)"
    and "length regs \<le> 2 ^ tree_depth" "historic_root m tree_depth regs (sl_initialCredentialRoot sl)"
    and "\<forall>(t, c) \<in> set tr. \<forall>secret root. c = PublishCredentialRoot secret root \<longrightarrow> historic_root m tree_depth regs root"
  shows "mp_leaf (vw_path w) \<in> set regs"
proof -
  obtain t tr1 s1 where c: "referendum_trace rt m s0 tr1 s1" "set tr1 \<subseteq> set tr" "cast_ok rt m t w s1" "length (mp_path (vw_path w)) = tree_depth"
    using trace_cast [OF assms(3,4)] by blast
  let ?root = "merkleTreePathRoot m (vw_path w)"
  have "?root \<in> rf_acceptedCredentialRoots s1" using c(3) by (simp add: cast_ok_def)
  then have "?root = sl_initialCredentialRoot sl \<or> (\<exists>t secret. (t, PublishCredentialRoot secret ?root) \<in> set tr)"
    using trace_accepted [OF c(1)] ledger_inv_new(3) [OF assms(2)] c(2) by blast
  then have "historic_root m tree_depth regs ?root"
  proof
    assume "\<exists>t secret. (t, PublishCredentialRoot secret ?root) \<in> set tr"
    then show ?thesis using assms(7) by auto
  qed (simp add: assms(6))
  then show ?thesis using merkle_sound_historic [OF assms(1,5) c(4)] by blast
qed

lemma cast_policy:
  assumes "new_referendum sl = Inr s0" "referendum_trace rt m s0 tr s" "w \<in> set (casts tr)" "honest w"
  shows "policy_holds sl (vw_leaf w) \<and> mp_leaf (vw_path w) = credentialLeaf rt (sl_issuerId sl) (vw_leaf w)"
proof -
  obtain t tr1 s1 where c: "referendum_trace rt m s0 tr1 s1" "cast_ok rt m t w s1" using trace_cast [OF assms(2,3)] by blast
  moreover have "rf_sealed s1 = sl" using trace_sealed [OF c(1)] ledger_inv_new(2) [OF assms(1)] by simp
  moreover obtain p where "w = honest_witness p" using assms(4) unfolding honest_def by blast
  ultimately show ?thesis by (simp add: policy_holds_def cast_ok_def)
qed

section \<open>Phases and roots\<close>

lemma finalized_exec:
  assumes "rf_phase s = FINALIZED" "referendum_exec rt m t call s = Inr s'"
  shows "rf_phase s' = FINALIZED \<and> rf_tally s' = rf_tally s \<and> rf_ballotCommitments s' = rf_ballotCommitments s
    \<and> rf_revealedCommitments s' = rf_revealedCommitments s \<and> rf_issuedVotes s' = rf_issuedVotes s"
  using assms by (cases call) (auto simp: call_iffs cast_ok_def)

lemma finalized_trace:
  "referendum_trace rt m s tr s' \<Longrightarrow> rf_phase s = FINALIZED \<Longrightarrow>
     rf_phase s' = FINALIZED \<and> rf_tally s' = rf_tally s \<and> rf_ballotCommitments s' = rf_ballotCommitments s
     \<and> rf_revealedCommitments s' = rf_revealedCommitments s \<and> rf_issuedVotes s' = rf_issuedVotes s"
proof (induction rule: referendum_trace.induct)
  case (trace_step tr s1 call t s')
  then show ?case using finalized_exec [OF _ trace_step.hyps(3)] by metis
qed simp

lemma revoked_trace:
  "referendum_trace rt m s tr s' \<Longrightarrow> ledger_inv s \<Longrightarrow> root \<in> rf_revokedCredentialRoots s \<Longrightarrow>
     root \<in> rf_revokedCredentialRoots s' \<and> root \<notin> rf_acceptedCredentialRoots s'"
proof (induction rule: referendum_trace.induct)
  case trace_start
  then show ?case by (auto simp: ledger_inv_def)
next
  case (trace_step tr s1 call t s')
  then show ?case by (cases call) (auto simp: call_iffs)
qed

lemma finish_trace:
  assumes "ledger_inv s" "sl_revealClosesAtUnix (rf_sealed s) \<le> t"
  shows "\<exists>tr s'. referendum_trace rt m s tr s' \<and> set tr \<subseteq> {(t, CloseVote), (t, FinalizeVote)}
    \<and> rf_phase s' = FINALIZED \<and> rf_tally s' = rf_tally s"
proof -
  have close: "sl_closesAtUnix (rf_sealed s) \<le> t" using assms by (auto simp: ledger_inv_def)
  have fin: "\<exists>tr s'. referendum_trace rt m s0 tr s' \<and> set tr \<subseteq> {(t, FinalizeVote)} \<and> rf_phase s' = FINALIZED \<and> rf_tally s' = rf_tally s"
    if "rf_phase s0 = REVEAL" "rf_closed s0" "rf_sealed s0 = rf_sealed s" "rf_tally s0 = rf_tally s" for s0
    using trace_step [OF trace_start, of FinalizeVote rt m t s0 "s0 \<lparr> rf_phase := FINALIZED \<rparr>"] that assms(2)
    by (intro exI [of _ "[(t, FinalizeVote)]"] exI [of _ "s0 \<lparr> rf_phase := FINALIZED \<rparr>"]) (simp add: call_ok_def finalizeVote_iff)
  show ?thesis
  proof (cases "rf_phase s")
    case COMMIT
    let ?s = "s \<lparr> rf_phase := REVEAL, rf_closed := True \<rparr>" and ?s' = "s \<lparr> rf_phase := FINALIZED, rf_closed := True \<rparr>"
    have "referendum_trace rt m s ([] @ [(t, CloseVote)]) ?s"
      using COMMIT close assms(1) by (intro trace_step [OF trace_start]) (simp_all add: call_ok_def closeVote_iff ledger_inv_def)
    then have "referendum_trace rt m s (([] @ [(t, CloseVote)]) @ [(t, FinalizeVote)]) ?s'"
      by (rule trace_step) (use assms(2) in \<open>simp_all add: call_ok_def finalizeVote_iff\<close>)
    then show ?thesis by (intro exI [of _ "[(t, CloseVote), (t, FinalizeVote)]"] exI [of _ ?s']) simp
  next
    case REVEAL
    then have "rf_closed s" using assms(1) by (simp add: ledger_inv_def)
    then show ?thesis using fin [OF REVEAL] by blast
  next
    case FINALIZED
    then show ?thesis using trace_start [of rt m s] by (intro exI [of _ "[]"] exI [of _ s]) simp
  qed
qed

lemma reveal_succeeds:
  assumes "collision_free m" "new_referendum sl = Inr s0" "referendum_trace rt m s0 tr s" "rf_phase s = REVEAL"
    and "w \<in> set (casts tr)" "ballotCommitment rt (sl_eventId sl) (vw_choice w) (vw_salt w) \<notin> rf_revealedCommitments s"
  shows "\<exists>path s'. findPathForLeaf m tree_depth (rf_ballotCommitments s) (ballotCommitment rt (sl_eventId sl) (vw_choice w) (vw_salt w)) = Some path
    \<and> revealVote rt m (vw_choice w) (vw_salt w) path s = Inr s'
    \<and> counted s' (vw_choice w) = counted s (vw_choice w) + 1 \<and> total_counted s' = total_counted s + 1"
proof -
  let ?com = "ballotCommitment rt (sl_eventId sl) (vw_choice w) (vw_salt w)"
  note new = ledger_inv_new [OF assms(2)] and s = trace_inv [OF assms(3) ledger_inv_new(1) [OF assms(2)]]
  have sealed: "rf_sealed s = sl" using trace_sealed [OF assms(3)] new(2) by simp
  have "?com \<in> set (rf_ballotCommitments s)" using trace_ballots [OF assms(3)] assms(5) new(2) by auto
  then obtain path where path: "findPathForLeaf m tree_depth (rf_ballotCommitments s) ?com = Some path" "mp_leaf path = ?com"
      "merkleTreePathRoot m path = tree_root m tree_depth (rf_ballotCommitments s)"
    by (rule findPathForLeaf_complete [of ?com "rf_ballotCommitments s" tree_depth m]) (use s in \<open>simp add: ledger_inv_def\<close>)
  have "vw_choice w \<in> dom (rf_tally s)" using s by (simp add: ledger_inv_def)
  then obtain n where n: "rf_tally s (vw_choice w) = Some n" by blast
  have "counted s (vw_choice w) \<le> total_counted s" by (cases "vw_choice w") (simp_all add: total_counted_def)
  also have "\<dots> \<le> 2 ^ tree_depth" using total_le_issued [OF assms(1-3)] s by (auto simp: ledger_inv_def)
  finally have "unat n + 1 < 2 ^ 32" using n by (simp add: counted_def tree_depth_def)
  note n = n this
  let ?s = "s \<lparr> rf_revealedCommitments := insert ?com (rf_revealedCommitments s), rf_tally := (rf_tally s)(vw_choice w \<mapsto> n + 1) \<rparr>"
  have "revealVote rt m (vw_choice w) (vw_salt w) path s = Inr ?s"
    using assms(4,6) path n s historic_root_now [of m tree_depth "rf_ballotCommitments s"]
    by (simp add: revealVote_iff sealed ledger_inv_def)
  moreover have "counted ?s (vw_choice w) = counted s (vw_choice w) + 1" using n(1) unat_word32_Suc [OF n(2)] by (simp add: counted_def)
  moreover have "total_counted ?s = total_counted s + 1" using total_counted_update [OF n] by simp
  ultimately show ?thesis using path(1) by blast
qed

text \<open>A credential opening, a path to an accepted root and a fresh nullifier are all that a vote takes.\<close>

lemma forged_cast:
  assumes "rf_phase s = COMMIT" "\<not> rf_closed s" "sl_opensAtUnix (rf_sealed s) \<le> t" "t < sl_closesAtUnix (rf_sealed s)"
    and "length (rf_ballotCommitments s) < 2 ^ tree_depth" "length regs \<le> 2 ^ tree_depth"
    and "credentialLeaf rt (sl_issuerId (rf_sealed s)) cred \<in> set regs" "tree_root m tree_depth regs \<in> rf_acceptedCredentialRoots s"
    and "voteNullifier rt x (sl_eventId (rf_sealed s)) \<notin> rf_spentVoteNullifiers s"
  shows "\<exists>w s'. vw_leaf w = cred \<and> vw_nullifierSecret w = x \<and> vw_choice w = choice
    \<and> length (mp_path (vw_path w)) = tree_depth \<and> castVote rt m t w s = Inr s'"
proof -
  obtain path where path: "mp_leaf path = credentialLeaf rt (sl_issuerId (rf_sealed s)) cred" "length (mp_path path) = tree_depth"
      "merkleTreePathRoot m path = tree_root m tree_depth regs"
    using findPathForLeaf_complete [OF assms(7,6), of m] by metis
  let ?w = "\<lparr> vw_bindingSecret = x, vw_holderBlind = [], vw_holderBinding = holderBindingFromVoter rt x [],
     vw_leaf = cred, vw_path = path, vw_claimEpoch = sl_credentialEpoch (rf_sealed s),
     vw_validUntil = sl_validityReference (rf_sealed s), vw_country = sl_countryPolicy (rf_sealed s),
     vw_ageClass = 2, vw_assurance = sl_minimumAssurance (rf_sealed s),
     vw_nullifierSecret = x, vw_choice = choice, vw_salt = [] \<rparr>"
  have "cast_ok rt m t ?w s" using assms path by (simp add: cast_ok_def)
  then have "\<exists>s'. castVote rt m t ?w s = Inr s'" unfolding castVote_iff by blast
  then obtain s' where "castVote rt m t ?w s = Inr s'" ..
  then show ?thesis using path(2) by (intro exI [of _ ?w] exI [of _ s']) simp
qed

end
