(* ===== verification/Referendum_Theorems.thy ===== *)
theory Referendum_Theorems
  imports Referendum_Properties
begin

text \<open>
  Theorems about the two contracts and the application's derivations, with a sample
  election over an injective hash that shows their hypotheses can be met.
\<close>

section \<open>A sample election\<close>

lemma free_code_inject:
  assumes "replicate (length x) (CHR ''1'') @ CHR ''0'' # x @ r = replicate (length y) (CHR ''1'') @ CHR ''0'' # y @ q"
  shows "x = y \<and> r = q"
proof -
  have ones: "takeWhile ((=) CHR ''1'') (replicate n (CHR ''1'') @ CHR ''0'' # z) = replicate n (CHR ''1'')" for n z
    by (induction n) simp_all
  have "replicate (length x) (CHR ''1'') = replicate (length y) (CHR ''1'')" using arg_cong [OF assms, of "takeWhile ((=) CHR ''1'')"] ones by simp
  then have "length x = length y" by (metis length_replicate)
  then show ?thesis using assms by simp
qed

lemma free_bytes_inject: "free_bytes xs = free_bytes ys \<Longrightarrow> xs = ys"
proof (induction xs arbitrary: ys)
  case Nil
  then show ?case by (cases ys) (simp_all add: free_bytes_def)
next
  case (Cons x xs)
  then obtain y ys' where ys: "ys = y # ys'" by (cases ys) (simp_all add: free_bytes_def)
  have "x = y \<and> free_bytes xs = free_bytes ys'"
    using Cons.prems unfolding ys by (intro free_code_inject) (simp add: free_bytes_def)
  then show ?case using Cons.IH ys by blast
qed

lemma free_runtime_binding: "binding_runtime free_runtime"
  unfolding binding_runtime_def free_runtime_def inj_def inj_on_def by (auto dest: free_bytes_inject)

definition sample_opening :: credential_opening where
  "sample_opening = \<lparr> co_holderBinding = holderBindingFromVoter free_runtime ''vs'' ''hb'', co_country = pad32 ''032'', co_ageClass = 2,
     co_assurance = 2, co_claimEpoch = 1, co_validUntil = 500, co_blind = ''cb'' \<rparr>"

definition sample_leaf :: string where
  "sample_leaf = credentialLeaf free_runtime ''i'' sample_opening"

definition sample_path :: "free_digest merkle_path" where
  "sample_path = \<lparr> mp_leaf = sample_leaf, mp_path = tree_path free_merkle tree_depth [sample_leaf] 0 \<rparr>"

definition sample_voter :: "free_digest voter_private" where
  "sample_voter = \<lparr> vp_voterSecret = ''vs'', vp_holderBlind = ''hb'', vp_leaf = sample_opening, vp_path = sample_path,
     vp_choice = Yes, vp_salt = ''salt'' \<rparr>"

definition sample_sealed :: "free_digest referendum_sealed" where
  "sample_sealed = \<lparr> sl_registryId = ''r'', sl_issuerId = ''i'', sl_credentialEpoch = 1,
     sl_initialCredentialRoot = tree_root free_merkle tree_depth [sample_leaf], sl_registryContractBinding = ''b'',
     sl_registryContract = ''c'', sl_eventId = ''e'', sl_organizerKey = ''ok'', sl_rootPublisherKey = ''pk'',
     sl_opensAtUnix = 10, sl_enrollmentClosesAtUnix = 20, sl_closesAtUnix = 30, sl_revealClosesAtUnix = 40,
     sl_countryPolicy = pad32 ''032'', sl_countryPolicyEnabled = True, sl_minimumAssurance = 1, sl_requireAdult = True,
     sl_validityReference = 100 \<rparr>"

definition sample_open :: "free_digest referendum_ledger" where
  "sample_open = \<lparr> rf_sealed = sample_sealed, rf_acceptedCredentialRoots = {sl_initialCredentialRoot sample_sealed},
     rf_revokedCredentialRoots = {}, rf_enrollmentClosed = False, rf_ballotCommitments = [], rf_spentVoteNullifiers = {},
     rf_revealedCommitments = {}, rf_tally = [Yes \<mapsto> 0, No \<mapsto> 0, Abstain \<mapsto> 0], rf_phase = COMMIT, rf_closed = False,
     rf_issuedVotes = 0 \<rparr>"

lemma sample_new: "new_referendum sample_sealed = Inr sample_open"
  by (simp add: new_referendum_def sample_open_def sample_sealed_def check_def)

lemma sample_path_root: "merkleTreePathRoot free_merkle sample_path = tree_root free_merkle tree_depth [sample_leaf]"
  using tree_path_root [of "[sample_leaf]" tree_depth 0 free_merkle] by (simp add: sample_path_def)

lemma sample_cast_ok: "cast_ok free_runtime free_merkle 15 (honest_witness sample_voter) sample_open"
  by (simp add: cast_ok_def sample_open_def sample_voter_def sample_sealed_def sample_opening_def sample_path_root)
     (simp add: sample_path_def sample_leaf_def sample_opening_def tree_depth_def)

definition sample_voted :: "free_digest referendum_ledger" where
  "sample_voted = sample_open \<lparr> rf_spentVoteNullifiers := {voteNullifier free_runtime ''vs'' ''e''},
     rf_ballotCommitments := [ballotCommitment free_runtime ''e'' Yes ''salt''], rf_issuedVotes := 1 \<rparr>"

lemma sample_cast: "castVote free_runtime free_merkle 15 (honest_witness sample_voter) sample_open = Inr sample_voted"
  using sample_cast_ok by (simp add: castVote_iff sample_voted_def sample_open_def sample_sealed_def sample_voter_def)

abbreviation sample_trace :: "(64 word \<times> free_digest referendum_call) list" where
  "sample_trace \<equiv> [(15, CastVote (honest_witness sample_voter))]"

lemma sample_trace: "referendum_trace free_runtime free_merkle sample_open sample_trace sample_voted"
  using trace_step [OF trace_start, of "CastVote (honest_witness sample_voter)" free_runtime free_merkle 15 sample_open sample_voted]
    sample_cast by (simp add: call_ok_def sample_voter_def sample_path_def)

lemma sample_casts: "casts sample_trace = [honest_witness sample_voter]"
  by (simp add: casts_def cast_witness_def)

definition sample_closed :: "free_digest referendum_ledger" where
  "sample_closed = sample_voted \<lparr> rf_phase := REVEAL, rf_closed := True \<rparr>"

lemma sample_close_trace:
  "referendum_trace free_runtime free_merkle sample_open (sample_trace @ [(30, CloseVote)]) sample_closed"
  by (rule trace_step [OF sample_trace])
     (simp_all add: call_ok_def closeVote_iff sample_closed_def sample_voted_def sample_open_def sample_sealed_def)

section \<open>Properties\<close>

text \<open>
  C3: The tally counts cast votes. After any sequence of calls on a new referendum,
  each choice has at most as many counted votes as accepted votes for that choice,
  every counted vote is a distinct revealed ballot, the counter of issued votes is the
  number of accepted votes and stays within the tree's 65536 leaves (so no counter
  wraps), and once every ballot has been revealed the tally is exact.
\<close>

theorem tally_counts_cast_votes:
  assumes "binding_runtime rt" "collision_free m" "new_referendum sl = Inr s0" "referendum_trace rt m s0 tr s"
  shows "(\<forall>c. counted s c \<le> length (filter (\<lambda>w. vw_choice w = c) (casts tr)))
    \<and> counted s Yes + counted s No + counted s Abstain = card (rf_revealedCommitments s)
    \<and> card (rf_revealedCommitments s) \<le> unat (rf_issuedVotes s)
    \<and> unat (rf_issuedVotes s) = length (casts tr) \<and> length (casts tr) \<le> 65536
    \<and> (card (rf_revealedCommitments s) = length (casts tr) \<longrightarrow> (\<forall>c. counted s c = length (filter (\<lambda>w. vw_choice w = c) (casts tr))))"
proof -
  note inv = trace_inv [OF assms(4) ledger_inv_new(1) [OF assms(3)]] and le = counted_le_casts [OF assms]
    and issued = issued_casts [OF assms(3,4)]
  have sum: "length (filter (\<lambda>w. vw_choice w = Yes) xs) + length (filter (\<lambda>w. vw_choice w = No) xs)
      + length (filter (\<lambda>w. vw_choice w = Abstain) xs) = length xs" for xs :: "'a vote_witness list"
    by (induction xs) (auto, metis VoteChoice.exhaust)
  have eq: "counted s Yes + counted s No + counted s Abstain = card (rf_revealedCommitments s)"
    using inv by (simp add: ledger_inv_def total_counted_def)
  have exact: "counted s c = length (filter (\<lambda>w. vw_choice w = c) (casts tr))" if "card (rf_revealedCommitments s) = length (casts tr)" for c
    using that eq sum [of "casts tr"] le [of Yes] le [of No] le [of Abstain] by (cases c) simp_all
  have "card (rf_revealedCommitments s) \<le> unat (rf_issuedVotes s)"
    using total_le_issued [OF assms(2-4)] inv by (simp add: ledger_inv_def)
  then show ?thesis using le eq issued exact by blast
qed

theorem tally_counts_cast_votes_witness:
  "counted sample_voted Yes \<le> 1 \<and> card (rf_revealedCommitments sample_voted) \<le> unat (rf_issuedVotes sample_voted)"
  using tally_counts_cast_votes [OF free_runtime_binding free_merkle_collision_free sample_new sample_trace] sample_casts
  by (auto simp: sample_voter_def dest: spec [of _ Yes])

text \<open>
  C2: One credential, one vote, for voters who run the published witnesses. If every
  accepted vote comes from a prover whose witness calls all read one private state, and
  every accepted root is a root the registry has had, then the votes come from distinct
  credentials of the registry, each of which satisfies the referendum's policy, and
  there are at most as many votes as the registry has credentials.
\<close>

theorem one_vote_per_credential:
  assumes "binding_runtime rt" "collision_free m" "new_referendum sl = Inr s0" "referendum_trace rt m s0 tr s"
    and "r = registry_run rt m calls (new_registry m registryId issuerId epoch issuerKey)"
    and "\<forall>w \<in> set (casts tr). honest w"
    and "historic_root m tree_depth (rg_credentials r) (sl_initialCredentialRoot sl)"
    and "\<forall>(t, c) \<in> set tr. \<forall>secret root. c = PublishCredentialRoot secret root \<longrightarrow> historic_root m tree_depth (rg_credentials r) root"
  shows "distinct (map (\<lambda>w. mp_leaf (vw_path w)) (casts tr))
    \<and> (\<forall>w \<in> set (casts tr). mp_leaf (vw_path w) \<in> set (rg_credentials r) \<and> policy_holds sl (vw_leaf w)
        \<and> mp_leaf (vw_path w) = credentialLeaf rt (sl_issuerId sl) (vw_leaf w))
    \<and> unat (rf_issuedVotes s) \<le> unat (rg_credentialCount r)"
proof -
  have r: "registry_inv m r" unfolding assms(5) by (intro registry_run_inv registry_inv_new)
  then have len: "length (rg_credentials r) \<le> 2 ^ tree_depth" by (simp add: registry_inv_def)
  have dist: "distinct (map (\<lambda>w. mp_leaf (vw_path w)) (casts tr))" by (rule casts_distinct [OF assms(1,4,6)])
  have reg: "mp_leaf (vw_path w) \<in> set (rg_credentials r)" if "w \<in> set (casts tr)" for w
    by (rule cast_leaf_registered [OF assms(2-4) that len assms(7,8)])
  have "length (casts tr) = card (set (map (\<lambda>w. mp_leaf (vw_path w)) (casts tr)))"
    using distinct_card [OF dist] by simp
  also have "\<dots> \<le> card (set (rg_credentials r))" by (rule card_mono) (use reg in auto)
  also have "\<dots> \<le> length (rg_credentials r)" by (rule card_length)
  finally have "unat (rf_issuedVotes s) \<le> unat (rg_credentialCount r)"
    using issued_casts(1) [OF assms(3,4)] r by (simp add: registry_inv_def)
  then show ?thesis using dist reg cast_policy [OF assms(3,4)] assms(6) by blast
qed

definition sample_enrolment :: registry_witness where
  "sample_enrolment = \<lparr> rw_issuerSecret = ''secret'', rw_holderBinding = co_holderBinding sample_opening, rw_credentialBlind = ''cb'',
     rw_credentialCountry = pad32 ''032'', rw_credentialAgeClass = 2, rw_credentialAssurance = 2, rw_credentialValidUntil = 500 \<rparr>"

abbreviation sample_enrolled :: "free_digest registry_ledger" where
  "sample_enrolled \<equiv> registry_run free_runtime free_merkle [AddCredential sample_enrolment] sample_registry"

lemma sample_enrolled: "rg_credentials sample_enrolled = [sample_leaf]"
  by (simp add: registry_run_def registry_apply_def addCredential_def requireIssuer_def new_registry_def tree_depth_def
      sample_enrolment_def check_def registry_credentialLeaf_def sample_leaf_def credentialLeaf_def)
     (simp add: sample_opening_def)

lemma sample_roots:
  "historic_root free_merkle tree_depth (rg_credentials sample_enrolled) (sl_initialCredentialRoot sample_sealed)"
  unfolding sample_enrolled using historic_root_now by (simp add: sample_sealed_def)

theorem one_vote_per_credential_witness:
  "unat (rf_issuedVotes sample_voted) \<le> unat (rg_credentialCount sample_enrolled)"
  using one_vote_per_credential [OF free_runtime_binding free_merkle_collision_free sample_new sample_trace refl _ sample_roots]
    sample_casts by (auto simp: honest_def)


text \<open>The sample referendum requires adults of one country; the credential used here is of a minor from another.\<close>

definition minor_opening :: credential_opening where
  "minor_opening = sample_opening \<lparr> co_country := pad32 ''724'', co_ageClass := 1, co_holderBinding := ''other'' \<rparr>"

definition minor_open :: "free_digest referendum_ledger" where
  "minor_open = sample_open \<lparr> rf_acceptedCredentialRoots := {tree_root free_merkle tree_depth [credentialLeaf free_runtime ''i'' minor_opening]} \<rparr>"

lemma nullifiers_differ: "x \<noteq> y \<Longrightarrow> voteNullifier free_runtime x e \<noteq> voteNullifier free_runtime y e"
  using binding_runtimeD(3) [OF free_runtime_binding] unfolding voteNullifier_def by blast


text \<open>
  C28: Nobody can stop the count from finishing or reopen it. From every reachable ledger,
  once the published end of the reveal window has passed, at most two calls that need no
  key finalise the referendum and leave the tally as it was; and after that no sequence
  of calls changes the phase, the tally, the ballots or the number of votes.
\<close>

theorem referendum_finishes_for_good:
  assumes "new_referendum sl = Inr s0" "referendum_trace rt m s0 tr s" "sl_revealClosesAtUnix sl \<le> t"
  shows "\<exists>tr1 s1. referendum_trace rt m s tr1 s1 \<and> set tr1 \<subseteq> {(t, CloseVote), (t, FinalizeVote)}
    \<and> rf_phase s1 = FINALIZED \<and> rf_tally s1 = rf_tally s
    \<and> (\<forall>tr2 s2. referendum_trace rt m s1 tr2 s2 \<longrightarrow> rf_phase s2 = FINALIZED \<and> rf_tally s2 = rf_tally s
        \<and> rf_ballotCommitments s2 = rf_ballotCommitments s1 \<and> rf_issuedVotes s2 = rf_issuedVotes s1)"
proof -
  note new = ledger_inv_new [OF assms(1)]
  have "sl_revealClosesAtUnix (rf_sealed s) \<le> t" using trace_sealed [OF assms(2)] new(2) assms(3) by simp
  then obtain tr1 s1 where 1: "referendum_trace rt m s tr1 s1" "set tr1 \<subseteq> {(t, CloseVote), (t, FinalizeVote)}"
      "rf_phase s1 = FINALIZED" "rf_tally s1 = rf_tally s"
    using finish_trace [OF trace_inv [OF assms(2) new(1)]] by blast
  have "rf_phase s2 = FINALIZED \<and> rf_tally s2 = rf_tally s \<and> rf_ballotCommitments s2 = rf_ballotCommitments s1
      \<and> rf_issuedVotes s2 = rf_issuedVotes s1" if "referendum_trace rt m s1 tr2 s2" for tr2 s2
    using finalized_trace [OF that 1(3)] 1(4) by simp
  then show ?thesis using 1 by blast
qed

theorem referendum_finishes_for_good_witness:
  "\<exists>tr1 s1. referendum_trace free_runtime free_merkle sample_voted tr1 s1 \<and> set tr1 \<subseteq> {(40, CloseVote), (40, FinalizeVote)}
    \<and> rf_phase s1 = FINALIZED \<and> rf_tally s1 = rf_tally sample_voted"
  using referendum_finishes_for_good [OF sample_new sample_trace, of 40] by (auto simp: sample_sealed_def)

text \<open>
  C29: Every accepted ballot can be counted. While the reveal phase lasts, the path that
  the ledger finds for the commitment of an accepted vote makes \<open>revealVote\<close> succeed with
  the vote's choice and salt, unless that commitment has been revealed already, and the
  reveal adds one to that choice and to the total.
\<close>

theorem accepted_ballot_can_be_revealed:
  assumes "collision_free m" "new_referendum sl = Inr s0" "referendum_trace rt m s0 tr s" "rf_phase s = REVEAL"
    and "w \<in> set (casts tr)" "ballotCommitment rt (sl_eventId sl) (vw_choice w) (vw_salt w) \<notin> rf_revealedCommitments s"
  shows "\<exists>path s'. findPathForLeaf m tree_depth (rf_ballotCommitments s) (ballotCommitment rt (sl_eventId sl) (vw_choice w) (vw_salt w)) = Some path
    \<and> revealVote rt m (vw_choice w) (vw_salt w) path s = Inr s'
    \<and> counted s' (vw_choice w) = counted s (vw_choice w) + 1 \<and> total_counted s' = total_counted s + 1"
  by (rule reveal_succeeds [OF assms])

theorem accepted_ballot_can_be_revealed_witness:
  "\<exists>path s'. revealVote free_runtime free_merkle Yes ''salt'' path sample_closed = Inr s' \<and> counted s' Yes = 1"
proof -
  have "honest_witness sample_voter \<in> set (casts (sample_trace @ [(30, CloseVote)]))" by (simp add: casts_def cast_witness_def)
  from accepted_ballot_can_be_revealed [OF free_merkle_collision_free sample_new sample_close_trace _ this]
  obtain path s' where r: "revealVote free_runtime free_merkle Yes ''salt'' path sample_closed = Inr s'"
      "counted s' Yes = counted sample_closed Yes + 1"
    by (auto simp: sample_closed_def sample_voted_def sample_open_def sample_voter_def)
  moreover have "counted sample_closed Yes = 0" by (simp add: counted_def sample_closed_def sample_voted_def sample_open_def)
  ultimately show ?thesis by auto
qed

text \<open>
  C30: Revocation is permanent and never empties the electorate. A root the organizer has
  revoked is never accepted again, whatever is called later, and no later vote is
  accepted against it; and at every moment some root is accepted.
\<close>

theorem revocation_is_permanent:
  assumes "new_referendum sl = Inr s0" "referendum_trace rt m s0 tr s" "root \<in> rf_revokedCredentialRoots s"
    and "referendum_trace rt m s tr' s'"
  shows "root \<notin> rf_acceptedCredentialRoots s' \<and> rf_acceptedCredentialRoots s' \<noteq> {}
    \<and> (\<forall>w \<in> set (casts tr'). merkleTreePathRoot m (vw_path w) \<noteq> root)"
proof -
  have s: "ledger_inv s" by (rule trace_inv [OF assms(2) ledger_inv_new(1) [OF assms(1)]])
  have "merkleTreePathRoot m (vw_path w) \<noteq> root" if w: "w \<in> set (casts tr')" for w
  proof -
    obtain t tr1 s1 where c: "referendum_trace rt m s tr1 s1" "cast_ok rt m t w s1" using trace_cast [OF assms(4) w] by blast
    have "root \<notin> rf_acceptedCredentialRoots s1" using revoked_trace [OF c(1) s assms(3)] by blast
    then show ?thesis using c(2) by (auto simp: cast_ok_def)
  qed
  then show ?thesis using revoked_trace [OF assms(4) s assms(3)] trace_inv [OF assms(4) s] by (auto simp: ledger_inv_def)
qed

definition revoked_sealed :: "free_digest referendum_sealed" where
  "revoked_sealed = sample_sealed \<lparr> sl_organizerKey := roleKey free_runtime (pad32 ''cico:referendum-v2:organizer:'') ''o'',
     sl_rootPublisherKey := roleKey free_runtime (pad32 ''cico:ref-v2:root-publisher:'') ''p'' \<rparr>"

definition revoked_open :: "free_digest referendum_ledger" where
  "revoked_open = sample_open \<lparr> rf_sealed := revoked_sealed \<rparr>"

lemma revoked_new: "new_referendum revoked_sealed = Inr revoked_open"
  by (simp add: new_referendum_def revoked_open_def sample_open_def revoked_sealed_def sample_sealed_def check_def
      roleKey_def free_runtime_def free_bytes_def pad32_def zero_pad_def utf8_def utf8_char_def)

lemma sample_root_node: "tree_root free_merkle tree_depth (x # xs) \<noteq> FreeEmpty n"
proof -
  obtain h where h: "tree_depth = Suc h" using not0_implies_Suc [of tree_depth] by (auto simp: tree_depth_def)
  show ?thesis unfolding h by (simp add: free_merkle_def)
qed

lemma revoked_trace_sample:
  "referendum_trace free_runtime free_merkle revoked_open
     (([] @ [(12, PublishCredentialRoot ''p'' (FreeEmpty 99))]) @ [(13, RevokeCredentialRoot ''o'' (FreeEmpty 99))])
     (revoked_open \<lparr> rf_revokedCredentialRoots := {FreeEmpty 99} \<rparr>)"
proof (rule trace_step [OF trace_step [OF trace_start]])
  show "referendum_exec free_runtime free_merkle 12 (PublishCredentialRoot ''p'' (FreeEmpty 99)) revoked_open
      = Inr (revoked_open \<lparr> rf_acceptedCredentialRoots := {FreeEmpty 99, sl_initialCredentialRoot sample_sealed} \<rparr>)"
    by (simp add: publish_iff revoked_open_def revoked_sealed_def sample_open_def sample_sealed_def sample_root_node sample_root_node sample_root_node [symmetric] insert_Diff_if)
  show "referendum_exec free_runtime free_merkle 13 (RevokeCredentialRoot ''o'' (FreeEmpty 99))
      (revoked_open \<lparr> rf_acceptedCredentialRoots := {FreeEmpty 99, sl_initialCredentialRoot sample_sealed} \<rparr>)
      = Inr (revoked_open \<lparr> rf_revokedCredentialRoots := {FreeEmpty 99} \<rparr>)"
    by (simp add: revoke_iff revoked_open_def revoked_sealed_def sample_open_def sample_sealed_def sample_root_node sample_root_node sample_root_node [symmetric] insert_Diff_if)
qed (simp_all add: call_ok_def)

theorem revocation_is_permanent_witness:
  "FreeEmpty 99 \<notin> rf_acceptedCredentialRoots (revoked_open \<lparr> rf_revokedCredentialRoots := {FreeEmpty 99} \<rparr>)"
  using revocation_is_permanent [OF revoked_new revoked_trace_sample _ trace_start, of "FreeEmpty 99"] by simp

end
