(* ===== verification/Midnight_V2.thy ===== *)
theory Midnight_V2
  imports Referendum_Theorems
begin

unbundle bit_operations_syntax

text \<open>
  The application's binding to the two contracts (\<open>api/src/passport-v2/midnight-v2.ts\<close>):
  private states and the witnesses that read them, the public views of the ledgers,
  membership paths, and the checks that tie a referendum deployment to one registry.
  Big integers are ints; the generated contract code rejects a witness value that does
  not fit its Compact type.
\<close>

section \<open>Private states and witnesses\<close>

record registry_private =
  rp_issuerSecret :: string
  rp_holderBinding :: string
  rp_credentialBlind :: string
  rp_credentialCountry :: string
  rp_credentialAgeClass :: int
  rp_credentialAssurance :: int
  rp_credentialClaimEpoch :: int
  rp_credentialValidUntil :: int

datatype ReferendumRole = VoterRole | OrganizerRole

record 'd referendum_private =
  fp_role :: ReferendumRole
  fp_organizerSecret :: "string option"
  fp_rootPublisherSecret :: "string option"
  fp_voterSecret :: "string option"
  fp_holderBinding :: "string option"
  fp_holderBlind :: "string option"
  fp_credentialBlind :: "string option"
  fp_credentialCountry :: "string option"
  fp_credentialAgeClass :: "int option"
  fp_credentialAssurance :: "int option"
  fp_credentialClaimEpoch :: "int option"
  fp_credentialValidUntil :: "int option"
  fp_voterPath :: "'d merkle_path option"
  fp_voterChoice :: "VoteChoice option"
  fp_voteSalt :: "string option"
  fp_revealPath :: "'d merkle_path option"

datatype midnight_error =
    WitnessUnavailable string
  | CompactTypeError string
  | NotInRegistry
  | NotInReferendum
  | RegistryNotFrozen
  | StaleFrozenRoot
  | BadRegistryAddress
  | BindingMismatch string

definition require :: "'a option \<Rightarrow> ('a \<Rightarrow> bool) \<Rightarrow> string \<Rightarrow> (midnight_error, 'a) result" where
  "require v ok key = (case v of None \<Rightarrow> Inl (WitnessUnavailable key)
     | Some x \<Rightarrow> if ok x then Inr x else Inl (WitnessUnavailable key))"

definition requireBytes :: "string option \<Rightarrow> string \<Rightarrow> (midnight_error, string) result" where
  "requireBytes v key = require v (\<lambda>x. length x = 32) key"

definition requireBigInt :: "int option \<Rightarrow> string \<Rightarrow> (midnight_error, int) result" where
  "requireBigInt v key = require v (\<lambda>_. True) key"

definition requirePath :: "'d merkle_path option \<Rightarrow> string \<Rightarrow> (midnight_error, 'd merkle_path) result" where
  "requirePath v key = require v (\<lambda>_. True) key"

definition requireChoice :: "VoteChoice option \<Rightarrow> (midnight_error, VoteChoice) result" where
  "requireChoice v = require v (\<lambda>_. True) ''voterChoice''"

text \<open>The generated code's check of an unsigned integer.\<close>

definition compact_uint :: "string \<Rightarrow> int \<Rightarrow> (midnight_error, 'w::len word) result" where
  "compact_uint key n = (if 0 \<le> n \<and> n < 2 ^ LENGTH('w) then Inr (word_of_int n) else Inl (CompactTypeError key))"

definition compact_bytes :: "string \<Rightarrow> string \<Rightarrow> (midnight_error, string) result" where
  "compact_bytes key b = (if length b = 32 then Inr b else Inl (CompactTypeError key))"

definition compact_path :: "'d merkle_path \<Rightarrow> (midnight_error, 'd merkle_path) result" where
  "compact_path p = (if length (mp_leaf p) = 32 \<and> length (mp_path p) = tree_depth then Inr p else Inl (CompactTypeError ''path''))"

definition registryWitnesses :: "registry_private \<Rightarrow> (midnight_error, registry_witness) result" where
  "registryWitnesses p =
     rbind (compact_bytes ''issuerSecret'' (rp_issuerSecret p)) (\<lambda>issuerSecret.
     rbind (compact_bytes ''holderBinding'' (rp_holderBinding p)) (\<lambda>holderBinding.
     rbind (compact_bytes ''credentialCountry'' (rp_credentialCountry p)) (\<lambda>country.
     rbind (compact_uint ''credentialAgeClass'' (rp_credentialAgeClass p)) (\<lambda>age.
     rbind (compact_uint ''credentialAssurance'' (rp_credentialAssurance p)) (\<lambda>assurance.
     rbind (compact_uint ''credentialValidUntil'' (rp_credentialValidUntil p)) (\<lambda>validUntil.
     rbind (compact_bytes ''credentialBlind'' (rp_credentialBlind p)) (\<lambda>blind.
     Inr \<lparr> rw_issuerSecret = issuerSecret, rw_holderBinding = holderBinding, rw_credentialBlind = blind,
           rw_credentialCountry = country, rw_credentialAgeClass = age, rw_credentialAssurance = assurance,
           rw_credentialValidUntil = validUntil \<rparr>)))))))"

text \<open>The witnesses that \<open>castVote\<close> calls, on one private state; each returns the state unchanged.\<close>

definition referendumWitnesses :: "'d referendum_private \<Rightarrow> (midnight_error, 'd vote_witness) result" where
  "referendumWitnesses p =
     rbind (requireBytes (fp_voterSecret p) ''voterSecret'') (\<lambda>voterSecret.
     rbind (requireBytes (fp_holderBlind p) ''holderBlind'') (\<lambda>holderBlind.
     rbind (requireBytes (fp_holderBinding p) ''holderBinding'') (\<lambda>holderBinding.
     rbind (requireBytes (fp_credentialCountry p) ''credentialCountry'') (\<lambda>country.
     rbind (rbind (requireBigInt (fp_credentialAgeClass p) ''credentialAgeClass'') (compact_uint ''credentialAgeClass'')) (\<lambda>age.
     rbind (rbind (requireBigInt (fp_credentialAssurance p) ''credentialAssurance'') (compact_uint ''credentialAssurance'')) (\<lambda>assurance.
     rbind (rbind (requireBigInt (fp_credentialClaimEpoch p) ''credentialClaimEpoch'') (compact_uint ''credentialClaimEpoch'')) (\<lambda>epoch.
     rbind (rbind (requireBigInt (fp_credentialValidUntil p) ''credentialValidUntil'') (compact_uint ''credentialValidUntil'')) (\<lambda>validUntil.
     rbind (requireBytes (fp_credentialBlind p) ''credentialBlind'') (\<lambda>credentialBlind.
     rbind (rbind (requirePath (fp_voterPath p) ''voterPath'') compact_path) (\<lambda>path.
     rbind (requireChoice (fp_voterChoice p)) (\<lambda>choice.
     rbind (requireBytes (fp_voteSalt p) ''voteSalt'') (\<lambda>salt.
     let leaf = \<lparr> co_holderBinding = holderBinding, co_country = country, co_ageClass = age, co_assurance = assurance,
                   co_claimEpoch = epoch, co_validUntil = validUntil, co_blind = credentialBlind \<rparr> in
     Inr \<lparr> vw_bindingSecret = voterSecret, vw_holderBlind = holderBlind, vw_holderBinding = holderBinding,
           vw_leaf = leaf, vw_path = path, vw_claimEpoch = epoch, vw_validUntil = validUntil, vw_country = country,
           vw_ageClass = age, vw_assurance = assurance, vw_nullifierSecret = voterSecret, vw_choice = choice, vw_salt = salt \<rparr>))))))))))))"

section \<open>Public views\<close>

record 'd registry_view =
  rv_registryId :: string
  rv_issuerId :: string
  rv_credentialEpoch :: "64 word"
  rv_currentRoot :: 'd
  rv_frozenRoot :: 'd
  rv_frozen :: bool
  rv_credentialCount :: "64 word"

definition parseCredentialRegistryV1 :: "'d merkle_runtime \<Rightarrow> 'd registry_ledger \<Rightarrow> 'd registry_view" where
  "parseCredentialRegistryV1 m r = \<lparr> rv_registryId = rg_registryId r, rv_issuerId = rg_issuerId r,
     rv_credentialEpoch = rg_credentialEpoch r, rv_currentRoot = registry_root m r, rv_frozenRoot = rg_frozenRoot r,
     rv_frozen = rg_frozen r, rv_credentialCount = rg_credentialCount r \<rparr>"

definition findCredentialPath :: "'d merkle_runtime \<Rightarrow> 'd registry_ledger \<Rightarrow> string \<Rightarrow> (midnight_error, 'd merkle_path) result" where
  "findCredentialPath m r leaf = (case findPathForLeaf m tree_depth (rg_credentials r) leaf of
     None \<Rightarrow> Inl NotInRegistry | Some p \<Rightarrow> Inr p)"

definition findBallotPath :: "'d merkle_runtime \<Rightarrow> 'd referendum_ledger \<Rightarrow> string \<Rightarrow> (midnight_error, 'd merkle_path) result" where
  "findBallotPath m s commitment = (case findPathForLeaf m tree_depth (rf_ballotCommitments s) commitment of
     None \<Rightarrow> Inl NotInReferendum | Some p \<Rightarrow> Inr p)"

fun phase_str :: "Phase \<Rightarrow> string" where
  "phase_str COMMIT = ''COMMIT''"
| "phase_str REVEAL = ''REVEAL''"
| "phase_str FINALIZED = ''FINALIZED''"

record 'd referendum_view =
  fv_sealed :: "'d referendum_sealed"
  fv_acceptedCredentialRoots :: "'d set"
  fv_revokedCredentialRoots :: "'d set"
  fv_enrollmentClosed :: bool
  fv_phase :: string
  fv_closed :: bool
  fv_issuedVotes :: "64 word"
  fv_tally :: "(VoteChoice \<times> 32 word option) list"

definition parseReferendumV2 :: "'d referendum_ledger \<Rightarrow> 'd referendum_view" where
  "parseReferendumV2 s = \<lparr> fv_sealed = rf_sealed s, fv_acceptedCredentialRoots = rf_acceptedCredentialRoots s,
     fv_revokedCredentialRoots = rf_revokedCredentialRoots s, fv_enrollmentClosed = rf_enrollmentClosed s,
     fv_phase = phase_str (rf_phase s), fv_closed = rf_closed s, fv_issuedVotes = rf_issuedVotes s,
     fv_tally = map (\<lambda>c. (c, rf_tally s c)) [Yes, No, Abstain] \<rparr>"

section \<open>Registry binding of a deployment\<close>

record 'd frozen_reference =
  fr_registryContractAddress :: string
  fr_registryContractBinding :: string
  fr_registryId :: string
  fr_issuerId :: string
  fr_credentialEpoch :: "64 word"
  fr_frozenRoot :: 'd

record 'd registry_binding =
  rb_registryId :: string
  rb_issuerId :: string
  rb_credentialEpoch :: "64 word"
  rb_initialCredentialRoot :: 'd
  rb_registryContractBinding :: string

fun differing_bits :: "8 word \<Rightarrow> string \<Rightarrow> string \<Rightarrow> 8 word" where
  "differing_bits d (x # xs) (y # ys) = differing_bits (d OR (of_char x XOR of_char y)) xs ys"
| "differing_bits d _ _ = d"

definition equalBytes :: "string \<Rightarrow> string \<Rightarrow> bool" where
  "equalBytes left right = (if length left \<noteq> length right then False else differing_bits 0 left right = 0)"

definition address_binding :: "compact_runtime \<Rightarrow> string \<Rightarrow> (midnight_error, string) result" where
  "address_binding rt address = (case deriveRegistryContractBinding rt address of Inl _ \<Rightarrow> Inl BadRegistryAddress | Inr b \<Rightarrow> Inr b)"

definition createFrozenCredentialRegistryReference ::
  "compact_runtime \<Rightarrow> string \<Rightarrow> 'd registry_view \<Rightarrow> (midnight_error, 'd frozen_reference) result" where
  "createFrozenCredentialRegistryReference rt address v =
     rbind (address_binding rt address) (\<lambda>binding.
     rbind (check (rv_frozen v) RegistryNotFrozen) (\<lambda>_.
     rbind (check (rv_frozenRoot v = rv_currentRoot v) StaleFrozenRoot) (\<lambda>_.
     Inr \<lparr> fr_registryContractAddress = address, fr_registryContractBinding = binding, fr_registryId = rv_registryId v,
           fr_issuerId = rv_issuerId v, fr_credentialEpoch = rv_credentialEpoch v, fr_frozenRoot = rv_frozenRoot v \<rparr>)))"

definition assertReferendumRegistryBinding ::
  "compact_runtime \<Rightarrow> 'd frozen_reference \<Rightarrow> 'd registry_binding \<Rightarrow> (midnight_error, unit) result" where
  "assertReferendumRegistryBinding rt ref b =
     rbind (check (equalBytes (fr_registryId ref) (rb_registryId b)) (BindingMismatch ''registry ID'')) (\<lambda>_.
     rbind (check (equalBytes (fr_issuerId ref) (rb_issuerId b)) (BindingMismatch ''issuer ID'')) (\<lambda>_.
     rbind (check (fr_credentialEpoch ref = rb_credentialEpoch b) (BindingMismatch ''credential epoch'')) (\<lambda>_.
     rbind (check (fr_frozenRoot ref = rb_initialCredentialRoot b) (BindingMismatch ''root'')) (\<lambda>_.
     rbind (address_binding rt (fr_registryContractAddress ref)) (\<lambda>expected.
     check (equalBytes expected (rb_registryContractBinding b)) (BindingMismatch ''registry contract binding''))))))"

section \<open>Lemmas\<close>

lemma of_char_word_inject: "(of_char x :: 8 word) = of_char y \<longleftrightarrow> x = y"
proof
  assume "(of_char x :: 8 word) = of_char y"
  then have "unat (of_char x :: 8 word) = unat (of_char y :: 8 word)" by simp
  moreover have "unat (of_char c :: 8 word) = (of_char c :: nat)" for c
  proof -
    have "unat (of_char c :: 8 word) = unat (of_nat (of_char c) :: 8 word)" by (simp only: of_nat_of_char)
    also have "\<dots> = of_char c" using nat_of_char_less_256 [of c] by (simp add: unat_of_nat)
    finally show ?thesis .
  qed
  ultimately show "x = y" by simp
qed simp

lemma or_eq_0: "(a :: 8 word) OR b = 0 \<longleftrightarrow> a = 0 \<and> b = 0"
  by (rule or_eq_0_iff)

lemma xor_eq_0: "(a :: 8 word) XOR b = 0 \<longleftrightarrow> a = b"
  by (auto simp: bit_eq_iff bit_simps)

lemma differing_bits_0: "length xs = length ys \<Longrightarrow> differing_bits d xs ys = 0 \<longleftrightarrow> d = 0 \<and> xs = ys"
  by (induction d xs ys rule: differing_bits.induct) (auto simp: or_eq_0 xor_eq_0 of_char_word_inject)

lemma equalBytes_eq [simp]: "equalBytes l r \<longleftrightarrow> l = r"
  by (auto simp: equalBytes_def differing_bits_0)

lemma require_eq [simp]: "require v ok key = Inr x \<longleftrightarrow> v = Some x \<and> ok x"
  by (auto simp: require_def split: option.splits)

lemma requires [simp]:
  "requireBytes v key = Inr x \<longleftrightarrow> v = Some x \<and> length x = 32" "requireBigInt i key = Inr n \<longleftrightarrow> i = Some n"
  "requirePath p key = Inr q \<longleftrightarrow> p = Some q" "requireChoice c = Inr d \<longleftrightarrow> c = Some d"
  by (simp_all add: requireBytes_def requireBigInt_def requirePath_def requireChoice_def)

lemma compact_eq [simp]:
  "compact_uint key n = Inr (w :: 'w::len word) \<longleftrightarrow> 0 \<le> n \<and> n < 2 ^ LENGTH('w) \<and> w = word_of_int n"
  "compact_bytes key b = Inr c \<longleftrightarrow> length b = 32 \<and> c = b"
  "compact_path p = Inr q \<longleftrightarrow> length (mp_leaf p) = 32 \<and> length (mp_path p) = tree_depth \<and> q = p"
  by (auto simp: compact_uint_def compact_bytes_def compact_path_def)

lemma referendumWitnesses_honest:
  assumes "referendumWitnesses p = Inr w"
  shows "honest w"
proof -
  have "w = honest_witness \<lparr> vp_voterSecret = vw_bindingSecret w, vp_holderBlind = vw_holderBlind w, vp_leaf = vw_leaf w,
      vp_path = vw_path w, vp_choice = vw_choice w, vp_salt = vw_salt w \<rparr>"
    using assms by (auto simp: referendumWitnesses_def honest_witness_def Let_def)
  then show ?thesis unfolding honest_def by blast
qed

definition leaf_opening :: "registry_witness \<Rightarrow> 64 word \<Rightarrow> credential_opening" where
  "leaf_opening w epoch = \<lparr> co_holderBinding = rw_holderBinding w, co_country = rw_credentialCountry w, co_ageClass = rw_credentialAgeClass w,
     co_assurance = rw_credentialAssurance w, co_claimEpoch = epoch, co_validUntil = rw_credentialValidUntil w,
     co_blind = rw_credentialBlind w \<rparr>"

lemma registry_leaf_eq:
  "registry_credentialLeaf rt r w = credentialLeaf rt (rg_issuerId r) (leaf_opening w (rg_credentialEpoch r))"
  by (simp add: registry_credentialLeaf_def credentialLeaf_def leaf_opening_def)

lemma uintBytes_word: "uintBytes rt (uint w) = Inr (field_bytes rt w)"
  by (simp add: uintBytes_def field_bytes_def not_less)

lemma mirror_leaf:
  assumes "length (co_holderBinding c) = 32" "length issuerId = 32" "length (co_country c) = 32" "length (co_blind c) = 32"
  shows "deriveRawCredentialLeaf rt \<lparr> rl_holderBinding = co_holderBinding c, rl_issuerId = issuerId, rl_country = co_country c,
      rl_ageClass = uint (co_ageClass c), rl_assurance = uint (co_assurance c), rl_credentialEpoch = uint (co_claimEpoch c),
      rl_validUntil = uint (co_validUntil c), rl_credentialBlind = co_blind c \<rparr> = Inr (credentialLeaf rt issuerId c)"
  using assms by (simp add: deriveRawCredentialLeaf_def credentialLeaf_def uintBytes_word pad_constants)

lemma mirror_binding:
  "length secret = 32 \<Longrightarrow> length blind = 32 \<Longrightarrow> deriveHolderBinding rt secret blind = Inr (holderBindingFromVoter rt secret blind)"
  by (simp add: deriveHolderBinding_def holderBindingFromVoter_def pad_constants)

lemma mirror_ballot:
  "length eventId = 32 \<Longrightarrow> length salt = 32 \<Longrightarrow> deriveBallotCommitment rt eventId choice salt = Inr (ballotCommitment rt eventId choice salt)"
  by (cases choice) (simp_all add: deriveBallotCommitment_def ballotCommitment_def uintBytes_def)

lemma mirror_nullifier:
  "length secret = 32 \<Longrightarrow> length eventId = 32 \<Longrightarrow> deriveVoteNullifier rt secret eventId = Inr (voteNullifier rt secret eventId)"
  by (simp add: deriveVoteNullifier_def voteNullifier_def pad_constants)

lemma mirror_role:
  "length secret = 32 \<Longrightarrow> d \<in> {''cico:registry:issuer:'', ''cico:ref-v2:root-publisher:'', ''cico:referendum-v2:organizer:''}
     \<Longrightarrow> deriveRoleKey rt d secret = Inr (roleKey rt (pad32 d) secret)"
  by (auto simp: deriveRoleKey_def roleKey_def pad_constants)

section \<open>Properties\<close>

text \<open>
  C26: The application computes what the circuits compute. For values of the circuits'
  types, the TypeScript derivations of the holder binding, the credential leaf, the
  ballot commitment, the vote nullifier and the three role keys return exactly the
  values of the corresponding circuits, and the registry and the referendum hash a
  credential in the same way.
\<close>

theorem derivations_mirror_circuits:
  assumes "length secret = 32" "length blind = 32" "length eventId = 32" "length issuerId = 32"
    and "length (co_holderBinding c) = 32" "length (co_country c) = 32" "length (co_blind c) = 32"
    and "d \<in> {''cico:registry:issuer:'', ''cico:ref-v2:root-publisher:'', ''cico:referendum-v2:organizer:''}"
  shows "deriveHolderBinding rt secret blind = Inr (holderBindingFromVoter rt secret blind)
    \<and> deriveRawCredentialLeaf rt \<lparr> rl_holderBinding = co_holderBinding c, rl_issuerId = issuerId, rl_country = co_country c,
        rl_ageClass = uint (co_ageClass c), rl_assurance = uint (co_assurance c), rl_credentialEpoch = uint (co_claimEpoch c),
        rl_validUntil = uint (co_validUntil c), rl_credentialBlind = co_blind c \<rparr> = Inr (credentialLeaf rt issuerId c)
    \<and> deriveBallotCommitment rt eventId choice blind = Inr (ballotCommitment rt eventId choice blind)
    \<and> deriveVoteNullifier rt secret eventId = Inr (voteNullifier rt secret eventId)
    \<and> deriveRoleKey rt d secret = Inr (roleKey rt (pad32 d) secret)
    \<and> registry_credentialLeaf rt r w = credentialLeaf rt (rg_issuerId r) (leaf_opening w (rg_credentialEpoch r))"
  using mirror_binding [OF assms(1,2)] mirror_leaf [OF assms(5,4,6,7)] mirror_ballot [OF assms(3,2)]
    mirror_nullifier [OF assms(1,3)] mirror_role [OF assms(1,8)] registry_leaf_eq by blast

definition sample_bytes :: string where
  "sample_bytes = replicate 32 (CHR ''a'')"

definition sample_bytes_opening :: credential_opening where
  "sample_bytes_opening = \<lparr> co_holderBinding = sample_bytes, co_country = sample_bytes, co_ageClass = 2, co_assurance = 3,
     co_claimEpoch = 1, co_validUntil = 9, co_blind = sample_bytes \<rparr>"

theorem derivations_mirror_circuits_witness:
  "deriveVoteNullifier free_runtime sample_bytes sample_bytes = Inr (voteNullifier free_runtime sample_bytes sample_bytes)
    \<and> deriveRoleKey free_runtime ''cico:registry:issuer:'' sample_bytes = Inr (roleKey free_runtime (pad32 ''cico:registry:issuer:'') sample_bytes)"
proof -
  have len: "length sample_bytes = 32" by (simp add: sample_bytes_def)
  have c: "length (co_holderBinding sample_bytes_opening) = 32" "length (co_country sample_bytes_opening) = 32"
      "length (co_blind sample_bytes_opening) = 32"
    by (simp_all add: sample_bytes_opening_def len)
  show ?thesis
    using derivations_mirror_circuits [OF len len len len c, where d = "''cico:registry:issuer:''" and choice = Yes
        and r = sample_registry and w = sample_registry_witness and rt = free_runtime] by simp
qed

text \<open>
  An enrolled voter can vote. When the issuer has added a credential for a holder
  binding derived from the voter's secret, the registry's root after any further
  enrolments is accepted by a referendum for that issuer and epoch, voting is open, the
  claims satisfy the policy and the secret has not voted, then the path the application
  finds in the registry and the shipped witnesses make \<open>castVote\<close> succeed, with exactly
  the ballot commitment and nullifier that the application derives.
\<close>

theorem enrolled_voter_can_vote:
  assumes "r = registry_run rt m before (new_registry m registryId issuerId epoch issuerKey)" "addCredential rt w r = Inr r1"
    and "deriveHolderBinding rt secret blind = Inr (rw_holderBinding w)" "later = registry_run rt m after r1"
    and "rf_phase s = COMMIT" "\<not> rf_closed s" "sl_opensAtUnix (rf_sealed s) \<le> t" "t < sl_closesAtUnix (rf_sealed s)"
    and "length (rf_ballotCommitments s) < 2 ^ tree_depth" "registry_root m later \<in> rf_acceptedCredentialRoots s"
    and "sl_issuerId (rf_sealed s) = issuerId" "policy_holds (rf_sealed s) (leaf_opening w epoch)"
    and "deriveVoteNullifier rt secret (sl_eventId (rf_sealed s)) = Inr nullifier" "nullifier \<notin> rf_spentVoteNullifiers s"
    and "deriveBallotCommitment rt (sl_eventId (rf_sealed s)) choice salt = Inr ballot"
  shows "\<exists>path s'. findCredentialPath m later (credentialLeaf rt issuerId (leaf_opening w epoch)) = Inr path
    \<and> castVote rt m t (honest_witness \<lparr> vp_voterSecret = secret, vp_holderBlind = blind, vp_leaf = leaf_opening w epoch,
        vp_path = path, vp_choice = choice, vp_salt = salt \<rparr>) s = Inr s'
    \<and> rf_ballotCommitments s' = rf_ballotCommitments s @ [ballot]
    \<and> rf_spentVoteNullifiers s' = insert nullifier (rf_spentVoteNullifiers s)"
proof -
  have new: "rg_issuerId (registry_run rt m calls r0) = rg_issuerId r0 \<and> rg_credentialEpoch (registry_run rt m calls r0) = rg_credentialEpoch r0"
    for calls r0
  proof (induction calls arbitrary: r0)
    case (Cons call calls)
    have "rg_issuerId (registry_apply rt m call r0) = rg_issuerId r0 \<and> rg_credentialEpoch (registry_apply rt m call r0) = rg_credentialEpoch r0"
      using registry_exec_cases [of rt m call r0] by (auto simp: registry_apply_def split: sum.splits)
    then show ?case using Cons by (simp add: registry_run_def)
  qed (simp add: registry_run_def)
  have r: "rg_issuerId r = issuerId" "rg_credentialEpoch r = epoch" using new unfolding assms(1) by (simp_all add: new_registry_def)
  let ?leaf = "credentialLeaf rt issuerId (leaf_opening w epoch)"
  have "registry_inv m r" unfolding assms(1) by (intro registry_run_inv registry_inv_new)
  then have inv1: "registry_inv m r1" using registry_inv_exec [of m r rt "AddCredential w" r1] assms(2) by simp
  have inv: "registry_inv m later" unfolding assms(4) by (rule registry_run_inv [OF inv1])
  have "rg_credentials r1 = rg_credentials r @ [?leaf]"
    using assms(2) r by (auto simp: addCredential_def registry_leaf_eq)
  then have "?leaf \<in> set (rg_credentials later)"
    using registry_prefix [of rt m after r1] unfolding assms(4) by auto
  moreover have "length (rg_credentials later) \<le> 2 ^ tree_depth" using inv by (simp add: registry_inv_def)
  ultimately obtain path where path: "findPathForLeaf m tree_depth (rg_credentials later) ?leaf = Some path" "mp_leaf path = ?leaf"
      "merkleTreePathRoot m path = registry_root m later"
    unfolding registry_root_def by (rule findPathForLeaf_complete)
  have d: "holderBindingFromVoter rt secret blind = rw_holderBinding w" "nullifier = voteNullifier rt secret (sl_eventId (rf_sealed s))"
      "ballot = ballotCommitment rt (sl_eventId (rf_sealed s)) choice salt"
    using assms(3) mirror_binding [of secret blind rt] assms(13) mirror_nullifier [of secret "sl_eventId (rf_sealed s)" rt]
      assms(15) mirror_ballot [of "sl_eventId (rf_sealed s)" salt rt choice]
    by (auto simp: deriveHolderBinding_def deriveVoteNullifier_def deriveBallotCommitment_def)
  let ?w = "honest_witness \<lparr> vp_voterSecret = secret, vp_holderBlind = blind, vp_leaf = leaf_opening w epoch,
        vp_path = path, vp_choice = choice, vp_salt = salt \<rparr>"
  have "cast_ok rt m t ?w s"
    using assms(5-12,14) d path(2,3) by (simp add: cast_ok_def policy_holds_def leaf_opening_def)
  then obtain s' where "castVote rt m t ?w s = Inr s'" unfolding castVote_iff by blast
  then show ?thesis using path(1) d(2,3) by (intro exI [of _ path] exI [of _ s']) (simp add: findCredentialPath_def castVote_iff)
qed

definition enrolment :: registry_witness where
  "enrolment = sample_enrolment \<lparr> rw_holderBinding := holderBindingFromVoter free_runtime sample_bytes sample_bytes \<rparr>"

definition enrolled :: "free_digest registry_ledger" where
  "enrolled = sample_registry \<lparr> rg_credentials := [credentialLeaf free_runtime ''i'' (leaf_opening enrolment 1)], rg_credentialCount := 1 \<rparr>"

definition enrolled_open :: "free_digest referendum_ledger" where
  "enrolled_open = sample_open \<lparr> rf_sealed := sample_sealed \<lparr> sl_eventId := sample_bytes \<rparr>,
     rf_acceptedCredentialRoots := {registry_root free_merkle enrolled} \<rparr>"

lemma enrolled_add: "addCredential free_runtime enrolment sample_registry = Inr enrolled"
  by (simp add: addCredential_def requireIssuer_def enrolled_def new_registry_def registry_leaf_eq tree_depth_def)
     (simp add: enrolment_def sample_enrolment_def)

lemma enrolled_policy: "policy_holds (rf_sealed enrolled_open) (leaf_opening enrolment 1)"
  by (simp add: policy_holds_def enrolled_open_def sample_sealed_def leaf_opening_def enrolment_def sample_enrolment_def)

theorem enrolled_voter_can_vote_witness:
  "\<exists>path s'. findCredentialPath free_merkle enrolled (credentialLeaf free_runtime ''i'' (leaf_opening enrolment 1)) = Inr path
    \<and> castVote free_runtime free_merkle 15 (honest_witness \<lparr> vp_voterSecret = sample_bytes, vp_holderBlind = sample_bytes,
        vp_leaf = leaf_opening enrolment 1, vp_path = path, vp_choice = No, vp_salt = sample_bytes \<rparr>) enrolled_open = Inr s'"
proof -
  have len: "length sample_bytes = 32" by (simp add: sample_bytes_def)
  have b: "deriveHolderBinding free_runtime sample_bytes sample_bytes = Inr (rw_holderBinding enrolment)"
    using mirror_binding [OF len len] by (simp add: enrolment_def)
  have s: "rf_phase enrolled_open = COMMIT" "\<not> rf_closed enrolled_open" "sl_opensAtUnix (rf_sealed enrolled_open) \<le> 15"
      "15 < sl_closesAtUnix (rf_sealed enrolled_open)" "length (rf_ballotCommitments enrolled_open) < 2 ^ tree_depth"
      "registry_root free_merkle enrolled \<in> rf_acceptedCredentialRoots enrolled_open" "sl_issuerId (rf_sealed enrolled_open) = ''i''"
      "sl_eventId (rf_sealed enrolled_open) = sample_bytes" "x \<notin> rf_spentVoteNullifiers enrolled_open" for x
    by (simp_all add: enrolled_open_def sample_open_def sample_sealed_def)
  have n: "deriveVoteNullifier free_runtime sample_bytes (sl_eventId (rf_sealed enrolled_open)) = Inr (voteNullifier free_runtime sample_bytes sample_bytes)"
    using mirror_nullifier [OF len len] s(8) by simp
  have c: "deriveBallotCommitment free_runtime (sl_eventId (rf_sealed enrolled_open)) No sample_bytes
      = Inr (ballotCommitment free_runtime sample_bytes No sample_bytes)"
    using mirror_ballot [OF len len] s(8) by simp
  have r: "sample_registry = registry_run free_runtime free_merkle [] sample_registry" by (simp add: registry_run_def)
  have e: "enrolled = registry_run free_runtime free_merkle [] enrolled" by (simp add: registry_run_def)
  show ?thesis
    using enrolled_voter_can_vote [OF r enrolled_add b e s(1-7) enrolled_policy n s(9) c] by blast
qed

text \<open>
  A deployment that passes the registry checks is tied to one electorate. When the
  frozen reference is made from a registry's ledger and the referendum's binding passes
  against it, the referendum names that registry's identifier, issuer, epoch and
  address, and its initial root is the root of the registry, which no later call can
  change; so an honest vote against that root comes from a credential of the registry.
\<close>

theorem deployment_is_tied_to_registry:
  assumes "r = registry_run rt m calls (new_registry m registryId issuerId epoch issuerKey)"
    and "createFrozenCredentialRegistryReference rt address (parseCredentialRegistryV1 m r) = Inr ref"
    and "assertReferendumRegistryBinding rt ref b = Inr ()"
    and "collision_free m" "length (mp_path path) = tree_depth" "merkleTreePathRoot m path = rb_initialCredentialRoot b"
  shows "rb_registryId b = rg_registryId r \<and> rb_issuerId b = rg_issuerId r \<and> rb_credentialEpoch b = rg_credentialEpoch r
    \<and> deriveRegistryContractBinding rt address = Inr (rb_registryContractBinding b)
    \<and> rb_initialCredentialRoot b = registry_root m r \<and> registry_run rt m after r = r
    \<and> mp_leaf path \<in> set (rg_credentials r)"
proof -
  have ref: "rg_frozen r" "ref = \<lparr> fr_registryContractAddress = address, fr_registryContractBinding = fr_registryContractBinding ref,
      fr_registryId = rg_registryId r, fr_issuerId = rg_issuerId r, fr_credentialEpoch = rg_credentialEpoch r, fr_frozenRoot = registry_root m r \<rparr>"
    using assms(2) by (auto simp: createFrozenCredentialRegistryReference_def parseCredentialRegistryV1_def)
  have b: "rb_registryId b = rg_registryId r" "rb_issuerId b = rg_issuerId r" "rb_credentialEpoch b = rg_credentialEpoch r"
      "rb_initialCredentialRoot b = registry_root m r" "address_binding rt address = Inr (rb_registryContractBinding b)"
    using assms(3) by (subst (asm) ref(2), auto simp: assertReferendumRegistryBinding_def)+
  have inv: "registry_inv m r" unfolding assms(1) by (intro registry_run_inv registry_inv_new)
  have "mp_leaf path \<in> set (rg_credentials r)"
    using merkle_sound [OF assms(4) _ assms(5)] inv assms(6) b(4) by (simp add: registry_inv_def registry_root_def)
  moreover have "registry_run rt m after r = r" using registry_run_steps [of r rt m after] ref(1) by blast
  moreover have "deriveRegistryContractBinding rt address = Inr (rb_registryContractBinding b)"
    using b(5) by (auto simp: address_binding_def split: sum.splits)
  ultimately show ?thesis using b by blast
qed

definition frozen_sample :: "free_digest registry_ledger" where
  "frozen_sample = registry_run free_runtime free_merkle
     [AddCredential sample_enrolment, Freeze ''secret'' (registry_root free_merkle sample_enrolled)] sample_registry"

definition sample_address :: string where
  "sample_address = replicate 64 (CHR ''0'')"

lemma frozen_sample: "frozen_sample = sample_enrolled \<lparr> rg_frozenRoot := registry_root free_merkle sample_enrolled, rg_frozen := True \<rparr>"
proof -
  have "rg_issuerKey sample_enrolled = roleKey free_runtime (pad32 ''cico:registry:issuer:'') ''secret'' \<and> \<not> rg_frozen sample_enrolled"
    by (simp add: registry_run_def registry_apply_def addCredential_def requireIssuer_def new_registry_def tree_depth_def
        sample_enrolment_def check_def)
  moreover have "frozen_sample = registry_apply free_runtime free_merkle (Freeze ''secret'' (registry_root free_merkle sample_enrolled)) sample_enrolled"
    by (simp add: frozen_sample_def registry_run_def)
  ultimately show ?thesis by (simp add: registry_apply_def freeze_def requireIssuer_def check_def)
qed

lemma sample_address_binding: "\<exists>b. deriveRegistryContractBinding free_runtime sample_address = Inr b"
proof -
  have "is_hex64 (toLowerCase (remove_0x (trim sample_address)))" unfolding sample_address_def by code_simp
  then show ?thesis by (simp add: deriveRegistryContractBinding_def Let_def check_def padBytes32_def utf8_def utf8_char_def)
qed

theorem deployment_is_tied_to_registry_witness:
  "\<exists>b :: free_digest registry_binding. rb_initialCredentialRoot b = registry_root free_merkle frozen_sample
    \<and> sample_leaf \<in> set (rg_credentials frozen_sample)"
proof -
  obtain a where a: "deriveRegistryContractBinding free_runtime sample_address = Inr a" using sample_address_binding by blast
  let ?b = "\<lparr> rb_registryId = rg_registryId frozen_sample, rb_issuerId = rg_issuerId frozen_sample,
    rb_credentialEpoch = rg_credentialEpoch frozen_sample, rb_initialCredentialRoot = registry_root free_merkle frozen_sample,
    rb_registryContractBinding = a \<rparr>"
  let ?ref = "\<lparr> fr_registryContractAddress = sample_address, fr_registryContractBinding = a, fr_registryId = rg_registryId frozen_sample,
      fr_issuerId = rg_issuerId frozen_sample, fr_credentialEpoch = rg_credentialEpoch frozen_sample, fr_frozenRoot = registry_root free_merkle frozen_sample \<rparr>"
  have ref: "createFrozenCredentialRegistryReference free_runtime sample_address (parseCredentialRegistryV1 free_merkle frozen_sample) = Inr ?ref"
    by (simp add: createFrozenCredentialRegistryReference_def parseCredentialRegistryV1_def address_binding_def a check_def)
       (simp add: frozen_sample registry_root_def)
  have ok: "assertReferendumRegistryBinding free_runtime ?ref ?b = Inr ()"
    by (simp add: assertReferendumRegistryBinding_def address_binding_def a)
  have path: "length (mp_path sample_path) = tree_depth" "merkleTreePathRoot free_merkle sample_path = rb_initialCredentialRoot ?b"
    "mp_leaf sample_path = sample_leaf"
    using sample_path_root by (simp_all add: sample_path_def frozen_sample registry_root_def sample_enrolled)
  have "mp_leaf sample_path \<in> set (rg_credentials frozen_sample)"
    using deployment_is_tied_to_registry [OF frozen_sample_def ref ok free_merkle_collision_free path(1,2)] by blast
  then show ?thesis using path(3) by (intro exI [of _ ?b]) simp
qed

end
