(* ===== verification/Root_Publisher.thy ===== *)
theory Root_Publisher
  imports Midnight_V2
begin

text \<open>
  The service that admits later registry roots into open referenda
  (\<open>cico-service/src/credential-root-publisher.ts\<close>). A cycle reads the registry, waits
  for a batch, attests the root on the registry and publishes it to each referendum.
  Cycles run one at a time. What the indexer, the clock and the executors answer during
  a cycle is its environment; \<open>pb_transactions\<close> records the transactions that succeeded.
\<close>

section \<open>State and environment\<close>

record referendum_target =
  tg_contractAddress :: string
  tg_rootPublisherSecret :: string

datatype skip_reason = NoReferendaConfigured | Unchanged | NoNewCredentials | BelowMinimumBatch int | AttestationFailed

datatype referendum_outcome = OutcomePublished string string | OutcomeFailed string string

record 'd publish_succeeded =
  ps_rootField :: 'd
  ps_batchSize :: int
  ps_belowMinimum :: bool
  ps_attestationTransactionId :: string
  ps_referenda :: "referendum_outcome list"

datatype 'd publish_result = Skipped skip_reason | Published "'d publish_succeeded"

datatype 'd publisher_transaction = Attested 'd | PublishedTo string 'd

record 'd publisher =
  pb_referenda :: "referendum_target list"
  pb_minBatchSize :: int
  pb_maxWaitMs :: int
  pb_intervalMs :: int
  pb_registryJoined :: bool
  pb_joinedReferenda :: "string list"
  pb_lastPublishedRootField :: "'d option"
  pb_lastPublishedCredentialCount :: int
  pb_pendingRootField :: "'d option"
  pb_pendingSinceMs :: "int option"
  pb_lastObservedBatchSize :: "int option"
  pb_lastPublishedAtMs :: "int option"
  pb_lastResult :: "'d publish_result option"
  pb_lastError :: "string option"
  pb_transactions :: "'d publisher_transaction list"

text \<open>The clock is read at four places of a cycle, numbered in order.\<close>

record 'd cycle_env =
  ce_registry :: "(string, 'd registry_view) result"
  ce_referendum :: "string \<Rightarrow> (string, 'd referendum_view) result"
  ce_joinRegistry :: "(string, unit) result"
  ce_attest :: "(string, string) result"
  ce_joinReferendum :: "string \<Rightarrow> (string, unit) result"
  ce_publish :: "string \<Rightarrow> (string, string) result"
  ce_now :: "nat \<Rightarrow> int"

datatype publisher_error = PublisherOption string

definition positive_integer :: "int option \<Rightarrow> int \<Rightarrow> string \<Rightarrow> (publisher_error, int) result" where
  "positive_integer v fallback label = (let n = (case v of Some x \<Rightarrow> x | None \<Rightarrow> fallback) in
     if 1 \<le> n \<and> n \<le> max_safe then Inr n else Inl (PublisherOption label))"

definition new_publisher ::
  "string \<Rightarrow> referendum_target list \<Rightarrow> int option \<Rightarrow> int option \<Rightarrow> int option \<Rightarrow> (publisher_error, 'd publisher) result" where
  "new_publisher address referenda minBatchSize maxWaitMs intervalMs =
     rbind (check (trim address \<noteq> []) (PublisherOption ''registryContractAddress'')) (\<lambda>_.
     rbind (positive_integer minBatchSize 16 ''minBatchSize'') (\<lambda>n.
     rbind (positive_integer maxWaitMs 900000 ''maxWaitMs'') (\<lambda>wait.
     rbind (positive_integer intervalMs 60000 ''intervalMs'') (\<lambda>interval.
     rbind (check (list_all (\<lambda>t. length (tg_rootPublisherSecret t) = 32) referenda) (PublisherOption ''rootPublisherSecret'')) (\<lambda>_.
     Inr \<lparr> pb_referenda = referenda, pb_minBatchSize = n, pb_maxWaitMs = wait, pb_intervalMs = interval, pb_registryJoined = False,
           pb_joinedReferenda = [], pb_lastPublishedRootField = None, pb_lastPublishedCredentialCount = 0, pb_pendingRootField = None,
           pb_pendingSinceMs = None, pb_lastObservedBatchSize = None, pb_lastPublishedAtMs = None, pb_lastResult = None,
           pb_lastError = None, pb_transactions = [] \<rparr>)))))"

section \<open>A cycle\<close>

definition attest :: "'d cycle_env \<Rightarrow> 'd \<Rightarrow> 'd publisher \<Rightarrow> 'd publisher \<times> (string, string) result" where
  "attest env root p =
     (case (if pb_registryJoined p then Inr () else ce_joinRegistry env) of
        Inl e \<Rightarrow> (p, Inl e)
      | Inr _ \<Rightarrow>
          let p' = p \<lparr> pb_registryJoined := True \<rparr> in
          (case ce_attest env of
             Inl e \<Rightarrow> (p', Inl e)
           | Inr tx \<Rightarrow> (p' \<lparr> pb_transactions := pb_transactions p' @ [Attested root] \<rparr>, Inr tx)))"

definition publishToReferendum :: "'d cycle_env \<Rightarrow> 'd \<Rightarrow> referendum_target \<Rightarrow> 'd publisher \<Rightarrow> 'd publisher \<times> (string, string) result" where
  "publishToReferendum env root target p = (let a = tg_contractAddress target in
     (case (if a \<in> set (pb_joinedReferenda p) then Inr () else ce_joinReferendum env a) of
        Inl e \<Rightarrow> (p, Inl e)
      | Inr _ \<Rightarrow>
          let p' = p \<lparr> pb_joinedReferenda := List.insert a (pb_joinedReferenda p) \<rparr> in
          (case ce_publish env a of
             Inl e \<Rightarrow> (p', Inl e)
           | Inr tx \<Rightarrow> (p' \<lparr> pb_transactions := pb_transactions p' @ [PublishedTo a root] \<rparr>, Inr tx))))"

fun publishAll ::
  "'d cycle_env \<Rightarrow> 'd \<Rightarrow> referendum_target list \<Rightarrow> 'd publisher \<Rightarrow> 'd publisher \<times> referendum_outcome list" where
  "publishAll env root [] p = (p, [])"
| "publishAll env root (target # targets) p =
     (case publishToReferendum env root target p of (p1, r) \<Rightarrow>
      (case publishAll env root targets p1 of (p2, outcomes) \<Rightarrow>
        (p2, (case r of
           Inr tx \<Rightarrow> OutcomePublished (tg_contractAddress target) tx
         | Inl e \<Rightarrow> OutcomeFailed (tg_contractAddress target) e) # outcomes)))"

fun isEnrollmentDeadlineImminent :: "'d cycle_env \<Rightarrow> int \<Rightarrow> referendum_target list \<Rightarrow> bool" where
  "isEnrollmentDeadlineImminent env maxWaitMs [] = False"
| "isEnrollmentDeadlineImminent env maxWaitMs (target # targets) =
     (let nowSeconds = ce_now env 2 div 1000; thresholdSeconds = (maxWaitMs + 999) div 1000 in
      case ce_referendum env (tg_contractAddress target) of
        Inl e \<Rightarrow> isEnrollmentDeadlineImminent env maxWaitMs targets
      | Inr state \<Rightarrow>
          if fv_enrollmentClosed state then isEnrollmentDeadlineImminent env maxWaitMs targets
          else if uint (sl_enrollmentClosesAtUnix (fv_sealed state)) - nowSeconds \<le> thresholdSeconds then True
          else isEnrollmentDeadlineImminent env maxWaitMs targets)"

text \<open>Attesting and publishing the root that was read, once the batch may go out.\<close>

definition publish_batch ::
  "'d cycle_env \<Rightarrow> 'd registry_view \<Rightarrow> int \<Rightarrow> bool \<Rightarrow> 'd publisher \<Rightarrow> 'd publisher \<times> (string, 'd publish_result) result" where
  "publish_batch env state batchSize belowMinimum p =
     (case attest env (rv_currentRoot state) p of
        (p1, Inl e) \<Rightarrow> (p1, Inr (Skipped AttestationFailed))
      | (p1, Inr tx) \<Rightarrow>
          (case publishAll env (rv_currentRoot state) (pb_referenda p1) p1 of (p2, outcomes) \<Rightarrow>
            (p2 \<lparr> pb_lastPublishedRootField := Some (rv_currentRoot state),
                  pb_lastPublishedCredentialCount := uint (rv_credentialCount state),
                  pb_pendingRootField := None, pb_pendingSinceMs := None, pb_lastObservedBatchSize := Some 0,
                  pb_lastPublishedAtMs := Some (ce_now env 3) \<rparr>,
             Inr (Published \<lparr> ps_rootField = rv_currentRoot state, ps_batchSize = batchSize, ps_belowMinimum = belowMinimum,
                  ps_attestationTransactionId = tx, ps_referenda = outcomes \<rparr>))))"

definition note_pending :: "'d cycle_env \<Rightarrow> 'd \<Rightarrow> 'd publisher \<Rightarrow> 'd publisher" where
  "note_pending env root p = (if pb_pendingRootField p \<noteq> Some root
     then p \<lparr> pb_pendingRootField := Some root, pb_pendingSinceMs := Some (ce_now env 0) \<rparr> else p)"

definition runCycle :: "'d cycle_env \<Rightarrow> 'd publisher \<Rightarrow> 'd publisher \<times> (string, 'd publish_result) result" where
  "runCycle env p =
     (if pb_referenda p = [] then (p, Inr (Skipped NoReferendaConfigured))
      else case ce_registry env of
        Inl e \<Rightarrow> (p, Inl e)
      | Inr state \<Rightarrow>
          let root = rv_currentRoot state in
          if pb_lastPublishedRootField p = Some root then (p \<lparr> pb_lastObservedBatchSize := Some 0 \<rparr>, Inr (Skipped Unchanged))
          else
            let p1 = note_pending env root p;
                batchSize = uint (rv_credentialCount state) - pb_lastPublishedCredentialCount p1;
                p2 = p1 \<lparr> pb_lastObservedBatchSize := Some (if batchSize > 0 then batchSize else 0) \<rparr> in
            if batchSize \<le> 0 then (p2, Inr (Skipped NoNewCredentials))
            else
              let meetsMinimum = (pb_minBatchSize p2 \<le> batchSize);
                  waitedMs = ce_now env 1 - (case pb_pendingSinceMs p2 of Some t \<Rightarrow> t | None \<Rightarrow> ce_now env 1);
                  waitedLongEnough = (pb_maxWaitMs p2 \<le> waitedMs) in
              if \<not> meetsMinimum \<and> \<not> waitedLongEnough \<and> \<not> isEnrollmentDeadlineImminent env (pb_maxWaitMs p2) (pb_referenda p2)
              then (p2, Inr (Skipped (BelowMinimumBatch batchSize)))
              else publish_batch env state batchSize (\<not> meetsMinimum) p2)"

definition publishOnce :: "'d cycle_env \<Rightarrow> 'd publisher \<Rightarrow> 'd publisher \<times> (string, 'd publish_result) result" where
  "publishOnce env p = (case runCycle env p of
     (p', Inr r) \<Rightarrow> (p' \<lparr> pb_lastResult := Some r \<rparr>, Inr r)
   | (p', Inl e) \<Rightarrow> (p' \<lparr> pb_lastError := Some e \<rparr>, Inl e))"

record publisher_status =
  pt_pendingCount :: "int option"
  pt_minBatchSize :: int
  pt_maxWaitMs :: int
  pt_pendingSinceMs :: "int option"
  pt_publishesNoLaterThanMs :: "int option"
  pt_lastPublishedAtMs :: "int option"
  pt_observedAtMs :: int

definition getStatus :: "int \<Rightarrow> 'd publisher \<Rightarrow> publisher_status" where
  "getStatus now p = \<lparr> pt_pendingCount = pb_lastObservedBatchSize p, pt_minBatchSize = pb_minBatchSize p, pt_maxWaitMs = pb_maxWaitMs p,
     pt_pendingSinceMs = pb_pendingSinceMs p, pt_publishesNoLaterThanMs = map_option (\<lambda>t. t + pb_maxWaitMs p) (pb_pendingSinceMs p),
     pt_lastPublishedAtMs = pb_lastPublishedAtMs p, pt_observedAtMs = now \<rparr>"

definition rootPublisherPrivateState :: "string \<Rightarrow> 'd referendum_private" where
  "rootPublisherPrivateState secret = \<lparr> fp_role = OrganizerRole, fp_organizerSecret = None, fp_rootPublisherSecret = Some secret,
     fp_voterSecret = None, fp_holderBinding = None, fp_holderBlind = None, fp_credentialBlind = None, fp_credentialCountry = None,
     fp_credentialAgeClass = None, fp_credentialAssurance = None, fp_credentialClaimEpoch = None, fp_credentialValidUntil = None,
     fp_voterPath = None, fp_voterChoice = None, fp_voteSalt = None, fp_revealPath = None \<rparr>"

definition attestationPrivateState :: registry_private where
  "attestationPrivateState = (let empty = replicate 32 (char_of (0 :: nat)) in
     \<lparr> rp_issuerSecret = empty, rp_holderBinding = empty, rp_credentialBlind = empty, rp_credentialCountry = empty,
       rp_credentialAgeClass = 0, rp_credentialAssurance = 0, rp_credentialClaimEpoch = 0, rp_credentialValidUntil = 0 \<rparr>)"

text \<open>Cycles in a row.\<close>

definition run_cycles :: "'d cycle_env list \<Rightarrow> 'd publisher \<Rightarrow> 'd publisher" where
  "run_cycles envs p = fold (\<lambda>env p. fst (publishOnce env p)) envs p"

section \<open>Lemmas\<close>

lemma attest_transactions:
  assumes "attest env root p = (p', r)"
  shows "pb_transactions p' = pb_transactions p @ (if is_ok r then [Attested root] else [])"
    "pb_referenda p' = pb_referenda p" "pb_lastPublishedRootField p' = pb_lastPublishedRootField p"
  using assms by (cases "ce_attest env"; auto simp: attest_def Let_def split: sum.splits)+

lemma publish_transactions:
  assumes "publishToReferendum env root target p = (p', r)"
  shows "pb_transactions p' = pb_transactions p @ (if is_ok r then [PublishedTo (tg_contractAddress target) root] else [])"
proof (cases "ce_publish env (tg_contractAddress target)")
  case (Inl e)
  show ?thesis using assms by (auto simp: publishToReferendum_def Let_def Inl split: sum.splits)
next
  case (Inr tx)
  show ?thesis using assms by (auto simp: publishToReferendum_def Let_def Inr split: sum.splits)
qed

lemma publishAll_transactions:
  "publishAll env root targets p = (p', outcomes) \<Longrightarrow>
     \<exists>sent. pb_transactions p' = pb_transactions p @ sent \<and> (\<forall>x \<in> set sent. \<exists>a. x = PublishedTo a root)"
proof (induction targets arbitrary: p p' outcomes)
  case (Cons t targets)
  obtain p1 r where 1: "publishToReferendum env root t p = (p1, r)" by (cases rule: prod.exhaust)
  obtain p2 os where 2: "publishAll env root targets p1 = (p2, os)" by (cases rule: prod.exhaust)
  have p': "p' = p2" using Cons.prems 1 2 by simp
  show ?case using Cons.IH [OF 2] publish_transactions [OF 1] unfolding p' by (auto split: if_splits)
qed simp

definition attested_first :: "'d publisher_transaction list \<Rightarrow> bool" where
  "attested_first txs = (\<forall>i < length txs. \<forall>a root. txs ! i = PublishedTo a root \<longrightarrow> Attested root \<in> set (take i txs))"

lemma attested_first_append:
  assumes "attested_first txs" "\<forall>x \<in> set sent. \<exists>a. x = PublishedTo a root"
  shows "attested_first (txs @ Attested root # sent)"
  unfolding attested_first_def
proof (intro allI impI)
  fix i a r assume i: "i < length (txs @ Attested root # sent)" "(txs @ Attested root # sent) ! i = PublishedTo a r"
  show "Attested r \<in> set (take i (txs @ Attested root # sent))"
  proof (cases "i < length txs")
    case True
    then show ?thesis using assms(1) i(2) by (simp add: attested_first_def nth_append)
  next
    case False
    then have "PublishedTo a r \<in> set (Attested root # sent)" using i by (metis nth_append nth_mem add_diff_inverse_nat length_append nat_add_left_cancel_less)
    then have "r = root" using assms(2) by auto
    moreover have "i \<noteq> length txs" using i(2) by (auto simp: nth_append)
    ultimately show ?thesis using False by (auto simp: take_Cons')
  qed
qed

lemma publish_batch_transactions:
  assumes "publish_batch env state b below p = (p', r)"
  shows "pb_transactions p' = pb_transactions p
    \<or> (\<exists>sent. pb_transactions p' = pb_transactions p @ Attested (rv_currentRoot state) # sent
        \<and> (\<forall>x \<in> set sent. \<exists>a. x = PublishedTo a (rv_currentRoot state)))"
proof -
  obtain p1 t where 1: "attest env (rv_currentRoot state) p = (p1, t)" by (cases rule: prod.exhaust)
  obtain p2 os where 2: "publishAll env (rv_currentRoot state) (pb_referenda p1) p1 = (p2, os)" by (cases rule: prod.exhaust)
  show ?thesis
    using assms attest_transactions(1) [OF 1] publishAll_transactions [OF 2]
    by (auto simp: publish_batch_def 1 2 split: sum.splits)
qed

lemma publishOnce_transactions:
  "pb_transactions (fst (publishOnce env p)) = pb_transactions p
    \<or> (\<exists>state sent. ce_registry env = Inr state \<and> pb_transactions (fst (publishOnce env p)) = pb_transactions p @ Attested (rv_currentRoot state) # sent
        \<and> (\<forall>x \<in> set sent. \<exists>a. x = PublishedTo a (rv_currentRoot state)))"
proof -
  obtain p' r where c: "runCycle env p = (p', r)" by (cases rule: prod.exhaust)
  have "pb_transactions p' = pb_transactions p
    \<or> (\<exists>state sent. ce_registry env = Inr state \<and> pb_transactions p' = pb_transactions p @ Attested (rv_currentRoot state) # sent
        \<and> (\<forall>x \<in> set sent. \<exists>a. x = PublishedTo a (rv_currentRoot state)))"
    using c publish_batch_transactions
    by (fastforce simp: runCycle_def Let_def note_pending_def split: if_splits sum.splits)
  moreover have "pb_transactions (fst (publishOnce env p)) = pb_transactions p'"
    by (auto simp: publishOnce_def c split: sum.splits)
  ultimately show ?thesis by simp
qed

lemma run_cycles_snoc: "run_cycles (envs @ [env]) p = fst (publishOnce env (run_cycles envs p))"
  by (simp add: run_cycles_def)

lemma publishAll_failed:
  "publishAll env root targets p = (p', outcomes) \<Longrightarrow> \<forall>x \<in> set outcomes. \<exists>a e. x = OutcomeFailed a e \<Longrightarrow> pb_transactions p' = pb_transactions p"
proof (induction targets arbitrary: p p' outcomes)
  case (Cons t targets)
  obtain p1 r where 1: "publishToReferendum env root t p = (p1, r)" by (cases rule: prod.exhaust)
  obtain p2 os where 2: "publishAll env root targets p1 = (p2, os)" by (cases rule: prod.exhaust)
  have p': "p' = p2" "outcomes = (case r of Inr tx \<Rightarrow> OutcomePublished (tg_contractAddress t) tx | Inl e \<Rightarrow> OutcomeFailed (tg_contractAddress t) e) # os"
    using Cons.prems(1) 1 2 by simp_all
  have "\<not> is_ok r" using Cons.prems(2) unfolding p'(2) by (cases r) auto
  moreover have "\<forall>x \<in> set os. \<exists>a e. x = OutcomeFailed a e" using Cons.prems(2) unfolding p'(2) by simp
  ultimately show ?case using Cons.IH [OF 2] publish_transactions [OF 1] unfolding p'(1) by simp
qed simp

lemma publishAll_keeps: "publishAll env root targets p = (p', outcomes) \<Longrightarrow> pb_referenda p' = pb_referenda p"
proof (induction targets arbitrary: p p' outcomes)
  case (Cons t targets)
  obtain p1 r where 1: "publishToReferendum env root t p = (p1, r)" by (cases rule: prod.exhaust)
  obtain p2 os where 2: "publishAll env root targets p1 = (p2, os)" by (cases rule: prod.exhaust)
  have "pb_referenda p1 = pb_referenda p" using 1 by (auto simp: publishToReferendum_def Let_def split: sum.splits)
  then show ?case using Cons.prems Cons.IH [OF 2] 1 2 by simp
qed simp

lemma published_cycle:
  assumes "runCycle env p = (p', Inr (Published ps))"
  obtains state below q p1 tx p2 where "ce_registry env = Inr state" "pb_referenda q = pb_referenda p" "pb_transactions q = pb_transactions p"
    "attest env (rv_currentRoot state) q = (p1, Inr tx)" "publishAll env (rv_currentRoot state) (pb_referenda p1) p1 = (p2, ps_referenda ps)"
    "ps_rootField ps = rv_currentRoot state" "pb_referenda p \<noteq> []"
    "p' = p2 \<lparr> pb_lastPublishedRootField := Some (rv_currentRoot state), pb_lastPublishedCredentialCount := uint (rv_credentialCount state),
        pb_pendingRootField := None, pb_pendingSinceMs := None, pb_lastObservedBatchSize := Some 0, pb_lastPublishedAtMs := Some (ce_now env 3) \<rparr>"
proof -
  have ne: "pb_referenda p \<noteq> []" using assms by (auto simp: runCycle_def)
  obtain state where st: "ce_registry env = Inr state" using assms ne by (cases "ce_registry env") (auto simp: runCycle_def)
  have keeps: "pb_referenda (note_pending env r p) = pb_referenda p" "pb_transactions (note_pending env r p) = pb_transactions p" for r
    by (simp_all add: note_pending_def)
  obtain b below obs where b: "publish_batch env state b below (note_pending env (rv_currentRoot state) p \<lparr> pb_lastObservedBatchSize := obs \<rparr>)
      = (p', Inr (Published ps))"
    using assms unfolding runCycle_def st by (auto simp: ne Let_def split: if_splits)
  define q where "q = note_pending env (rv_currentRoot state) p \<lparr> pb_lastObservedBatchSize := obs \<rparr>"
  have q: "ce_registry env = Inr state" "pb_referenda q = pb_referenda p" "pb_transactions q = pb_transactions p"
      "pb_referenda p \<noteq> []" "publish_batch env state b below q = (p', Inr (Published ps))"
    using st ne b by (simp_all add: q_def keeps)
  obtain p1 t where 1: "attest env (rv_currentRoot state) q = (p1, t)" by (cases rule: prod.exhaust)
  obtain p2 os where 2: "publishAll env (rv_currentRoot state) (pb_referenda p1) p1 = (p2, os)" by (cases rule: prod.exhaust)
  obtain tx where "t = Inr tx" using q(5) by (auto simp: publish_batch_def 1 split: sum.splits)
  with q 1 2 show thesis by (intro that [of state q p1 tx p2]) (auto simp: publish_batch_def)
qed

lemma passed_deadline_imminent:
  assumes "t \<in> set targets" "ce_referendum env (tg_contractAddress t) = Inr v" "\<not> fv_enrollmentClosed v"
    and "uint (sl_enrollmentClosesAtUnix (fv_sealed v)) \<le> ce_now env 2 div 1000" "1 \<le> maxWaitMs"
  shows "isEnrollmentDeadlineImminent env maxWaitMs targets"
  using assms(1)
proof (induction targets)
  case (Cons x xs)
  have "0 \<le> (maxWaitMs + 999) div 1000" using assms(5) by simp
  then have "uint (sl_enrollmentClosesAtUnix (fv_sealed v)) - ce_now env 2 div 1000 \<le> (maxWaitMs + 999) div 1000" using assms(4) by linarith
  then show ?case using Cons assms(2,3) by (auto simp: Let_def split: sum.splits)
qed simp

section \<open>Properties\<close>

text \<open>
  C6: No root is published without its attestation. Over any sequence of cycles of a new
  publisher, every successful publication of a root is preceded by a successful
  attestation of the same root; and if every registry read shows a state that the
  registry went through on its way to its present one, then every root ever published is
  one of that registry's roots.
\<close>

theorem published_roots_are_attested:
  assumes "new_publisher address referenda minBatch maxWait interval = Inr p0" "p = run_cycles envs p0"
    and "\<forall>env \<in> set envs. \<forall>state. ce_registry env = Inr state \<longrightarrow>
      (\<exists>r calls. state = parseCredentialRegistryV1 m r \<and> now = registry_run rt m calls r)"
  shows "attested_first (pb_transactions p)
    \<and> (\<forall>a root. PublishedTo a root \<in> set (pb_transactions p) \<longrightarrow> historic_root m tree_depth (rg_credentials now) root)"
  using assms(2,3)
proof (induction envs arbitrary: p rule: rev_induct)
  case Nil
  then have "pb_transactions p = []" using assms(1) by (auto simp: run_cycles_def new_publisher_def)
  then show ?case by (simp add: attested_first_def)
next
  case (snoc env envs)
  let ?q = "run_cycles envs p0"
  have p: "p = fst (publishOnce env ?q)" using snoc.prems(1) by (simp add: run_cycles_snoc)
  have q: "attested_first (pb_transactions ?q)"
      "\<forall>a root. PublishedTo a root \<in> set (pb_transactions ?q) \<longrightarrow> historic_root m tree_depth (rg_credentials now) root"
    using snoc.IH [OF refl] snoc.prems(2) by auto
  from publishOnce_transactions [of env ?q] show ?case
  proof
    assume "pb_transactions (fst (publishOnce env ?q)) = pb_transactions ?q"
    then show ?thesis using q p by simp
  next
    assume "\<exists>state sent. ce_registry env = Inr state \<and> pb_transactions (fst (publishOnce env ?q)) = pb_transactions ?q @ Attested (rv_currentRoot state) # sent
        \<and> (\<forall>x \<in> set sent. \<exists>a. x = PublishedTo a (rv_currentRoot state))"
    then obtain state sent where s: "ce_registry env = Inr state"
        "pb_transactions p = pb_transactions ?q @ Attested (rv_currentRoot state) # sent"
        "\<forall>x \<in> set sent. \<exists>a. x = PublishedTo a (rv_currentRoot state)" using p by auto
    obtain r calls where r: "state = parseCredentialRegistryV1 m r" "now = registry_run rt m calls r"
      using snoc.prems(2) s(1) by auto
    obtain later where "rg_credentials now = rg_credentials r @ later" using registry_prefix [of rt m calls r] r(2) by auto
    then have "historic_root m tree_depth (rg_credentials now) (rv_currentRoot state)"
      unfolding historic_root_iff r(1) by (intro exI [of _ "length (rg_credentials r)"]) (simp add: parseCredentialRegistryV1_def registry_root_def)
    then show ?thesis using q s attested_first_append [OF q(1) s(3)] by auto
  qed
qed

text \<open>
  A batch is withheld until it may go out. A cycle that publishes found new
  credentials and either the minimum batch, or the maximal wait passed, or an enrolment
  deadline near; it says that the batch was under-sized exactly when it was; and one
  that finds the minimum batch and an executor that answers does publish.
\<close>

theorem batches_are_withheld:
  assumes "runCycle env p = (p', r)" "ce_registry env = Inr state" "pb_referenda p \<noteq> []"
    and "pb_lastPublishedRootField p \<noteq> Some (rv_currentRoot state)"
    and "batch = uint (rv_credentialCount state) - pb_lastPublishedCredentialCount p"
  shows "(\<forall>ps. r = Inr (Published ps) \<longrightarrow> 0 < batch \<and> ps_batchSize ps = batch \<and> (ps_belowMinimum ps \<longleftrightarrow> batch < pb_minBatchSize p)
      \<and> ps_rootField ps = rv_currentRoot state
      \<and> (pb_minBatchSize p \<le> batch \<or> isEnrollmentDeadlineImminent env (pb_maxWaitMs p) (pb_referenda p)
         \<or> pb_maxWaitMs p \<le> ce_now env 1 - (case pb_pendingSinceMs (note_pending env (rv_currentRoot state) p) of Some t \<Rightarrow> t | None \<Rightarrow> ce_now env 1)))
    \<and> (0 < batch \<and> pb_minBatchSize p \<le> batch \<and> (pb_registryJoined p \<or> is_ok (ce_joinRegistry env)) \<and> is_ok (ce_attest env)
        \<longrightarrow> (\<exists>ps. r = Inr (Published ps)))"
proof -
  have n: "pb_lastPublishedCredentialCount (note_pending env root p) = pb_lastPublishedCredentialCount p"
      "pb_minBatchSize (note_pending env root p) = pb_minBatchSize p" "pb_maxWaitMs (note_pending env root p) = pb_maxWaitMs p"
      "pb_referenda (note_pending env root p) = pb_referenda p" "pb_registryJoined (note_pending env root p) = pb_registryJoined p" for root
    by (simp_all add: note_pending_def)
  have batch: "publish_batch env state b below q = (q', Inr (Published ps)) \<Longrightarrow> ps_batchSize ps = b \<and> ps_belowMinimum ps = below \<and> ps_rootField ps = rv_currentRoot state"
    for b below q q' ps
    by (auto simp: publish_batch_def split: prod.splits sum.splits)
  have goes: "\<exists>ps. snd (publish_batch env state b below q) = Inr (Published ps)"
    if "pb_registryJoined q \<or> is_ok (ce_joinRegistry env)" "is_ok (ce_attest env)" for b below q
    using that by (auto simp: publish_batch_def attest_def Let_def is_ok_iff split: prod.splits sum.splits)
  let ?p1 = "note_pending env (rv_currentRoot state) p"
  let ?p2 = "?p1 \<lparr> pb_lastObservedBatchSize := Some (if batch > 0 then batch else 0) \<rparr>"
  let ?waited = "pb_maxWaitMs p \<le> ce_now env 1 - (case pb_pendingSinceMs ?p1 of Some t \<Rightarrow> t | None \<Rightarrow> ce_now env 1)"
  let ?near = "isEnrollmentDeadlineImminent env (pb_maxWaitMs p) (pb_referenda p)"
  have run: "runCycle env p = (if batch \<le> 0 then (?p2, Inr (Skipped NoNewCredentials))
      else if \<not> pb_minBatchSize p \<le> batch \<and> \<not> ?waited \<and> \<not> ?near then (?p2, Inr (Skipped (BelowMinimumBatch batch)))
      else publish_batch env state batch (\<not> pb_minBatchSize p \<le> batch) ?p2)"
    by (simp add: runCycle_def assms(2-5) Let_def n)
  have "0 < batch \<and> ps_batchSize ps = batch \<and> (ps_belowMinimum ps \<longleftrightarrow> batch < pb_minBatchSize p)
      \<and> ps_rootField ps = rv_currentRoot state \<and> (pb_minBatchSize p \<le> batch \<or> ?near \<or> ?waited)" if "r = Inr (Published ps)" for ps
  proof -
    have c: "\<not> batch \<le> 0" "\<not> (\<not> pb_minBatchSize p \<le> batch \<and> \<not> ?waited \<and> \<not> ?near)"
      using assms(1) that unfolding run by (auto split: if_splits)
    have "runCycle env p = publish_batch env state batch (\<not> pb_minBatchSize p \<le> batch) ?p2"
      by (subst run, subst if_not_P [OF c(1)], rule if_not_P [OF c(2)])
    then have "publish_batch env state batch (\<not> pb_minBatchSize p \<le> batch) ?p2 = (p', Inr (Published ps))"
      using assms(1) that by simp
    from batch [OF this] c show ?thesis by auto
  qed
  moreover have "\<exists>ps. r = Inr (Published ps)"
    if "0 < batch" "pb_minBatchSize p \<le> batch" "pb_registryJoined p \<or> is_ok (ce_joinRegistry env)" "is_ok (ce_attest env)"
  proof -
    have "runCycle env p = publish_batch env state batch (\<not> pb_minBatchSize p \<le> batch) ?p2"
      unfolding run using that(1,2) by simp
    then have "publish_batch env state batch (\<not> pb_minBatchSize p \<le> batch) ?p2 = (p', r)" using assms(1) by simp
    moreover have "pb_registryJoined ?p2 \<or> is_ok (ce_joinRegistry env)" using that(3) by (simp add: n)
    ultimately show ?thesis using goes [OF _ that(4), of ?p2 batch] by (metis snd_conv)
  qed
  ultimately show ?thesis by blast
qed

text \<open>
  A root that no referendum took is forgotten. After a cycle in which the attestation
  succeeded and every publication failed, the publisher reports the root as published
  at that time, and every later cycle that reads the same root does nothing: those
  voters stay locked out until somebody else enrols.
\<close>

theorem failed_publication_is_forgotten:
  assumes "runCycle env p = (p', Inr (Published ps))" "\<forall>x \<in> set (ps_referenda ps). \<exists>a e. x = OutcomeFailed a e"
    and "ce_registry env' = Inr state'" "rv_currentRoot state' = ps_rootField ps"
  shows "(\<forall>a root. PublishedTo a root \<in> set (pb_transactions p') \<longrightarrow> PublishedTo a root \<in> set (pb_transactions p))
    \<and> pt_lastPublishedAtMs (getStatus now p') = Some (ce_now env 3)
    \<and> snd (runCycle env' p') = Inr (Skipped Unchanged) \<and> pb_transactions (fst (runCycle env' p')) = pb_transactions p'"
proof -
  obtain state q p1 tx p2 where c: "ce_registry env = Inr state" "pb_referenda q = pb_referenda p" "pb_transactions q = pb_transactions p"
      "attest env (rv_currentRoot state) q = (p1, Inr tx)" "publishAll env (rv_currentRoot state) (pb_referenda p1) p1 = (p2, ps_referenda ps)"
      "ps_rootField ps = rv_currentRoot state" "pb_referenda p \<noteq> []"
      "p' = p2 \<lparr> pb_lastPublishedRootField := Some (rv_currentRoot state), pb_lastPublishedCredentialCount := uint (rv_credentialCount state),
        pb_pendingRootField := None, pb_pendingSinceMs := None, pb_lastObservedBatchSize := Some 0, pb_lastPublishedAtMs := Some (ce_now env 3) \<rparr>"
    by (rule published_cycle [OF assms(1)])
  have "pb_transactions p' = pb_transactions p @ [Attested (rv_currentRoot state)]"
    using publishAll_failed [OF c(5) assms(2)] attest_transactions(1) [OF c(4)] c(3) by (simp add: c(8))
  moreover have "pb_referenda p' \<noteq> []" using publishAll_keeps [OF c(5)] attest_transactions(2) [OF c(4)] c(2,7) by (simp add: c(8))
  moreover have "pb_lastPublishedRootField p' = Some (rv_currentRoot state')" using assms(4) c(6) by (simp add: c(8))
  ultimately show ?thesis using assms(3) by (simp add: runCycle_def getStatus_def Let_def) (simp add: c(8))
qed

text \<open>
  One passed deadline switches the batching off. When the enrolment deadline of any
  configured referendum has already passed and its organizer has not called
  \<open>closeEnrollment\<close>, every cycle that finds even one new credential publishes it at
  once, whatever the minimum batch and the maximal wait.
\<close>

theorem passed_deadline_disables_batching:
  assumes "ce_registry env = Inr state" "t \<in> set (pb_referenda p)" "pb_lastPublishedRootField p \<noteq> Some (rv_currentRoot state)"
    and "ce_referendum env (tg_contractAddress t) = Inr v" "\<not> fv_enrollmentClosed v"
    and "uint (sl_enrollmentClosesAtUnix (fv_sealed v)) \<le> ce_now env 2 div 1000" "1 \<le> pb_maxWaitMs p"
    and "pb_lastPublishedCredentialCount p < uint (rv_credentialCount state)"
    and "pb_registryJoined p \<or> is_ok (ce_joinRegistry env)" "is_ok (ce_attest env)"
  shows "\<exists>ps. snd (runCycle env p) = Inr (Published ps)
    \<and> ps_batchSize ps = uint (rv_credentialCount state) - pb_lastPublishedCredentialCount p"
proof -
  have near: "isEnrollmentDeadlineImminent env (pb_maxWaitMs p) (pb_referenda p)"
    by (rule passed_deadline_imminent [OF assms(2,4-7)])
  have "pb_referenda p \<noteq> []" using assms(2) by auto
  then show ?thesis
    using near assms(1,3,8-10)
    by (auto simp: runCycle_def Let_def note_pending_def publish_batch_def attest_def is_ok_iff split: prod.splits sum.splits)
qed

text \<open>A credential enrolled while a batch waits restarts the wait: the promised time passes and nothing is published.\<close>

definition waiting_env :: "nat \<Rightarrow> int \<Rightarrow> free_digest cycle_env" where
  "waiting_env n now = \<lparr> ce_registry = Inr \<lparr> rv_registryId = ''r'', rv_issuerId = ''i'', rv_credentialEpoch = 1, rv_currentRoot = FreeEmpty n,
       rv_frozenRoot = FreeEmpty 0, rv_frozen = False, rv_credentialCount = of_nat n \<rparr>,
     ce_referendum = (\<lambda>_. Inl ''unavailable''), ce_joinRegistry = Inr (), ce_attest = Inr ''t'', ce_joinReferendum = (\<lambda>_. Inr ()),
     ce_publish = (\<lambda>_. Inr ''u''), ce_now = (\<lambda>_. now) \<rparr>"

definition sample_publisher :: "int \<Rightarrow> free_digest publisher" where
  "sample_publisher n = \<lparr> pb_referenda = [\<lparr> tg_contractAddress = ''ref'', tg_rootPublisherSecret = sample_bytes \<rparr>], pb_minBatchSize = n,
     pb_maxWaitMs = 900000, pb_intervalMs = 60000, pb_registryJoined = False, pb_joinedReferenda = [], pb_lastPublishedRootField = None,
     pb_lastPublishedCredentialCount = 0, pb_pendingRootField = None, pb_pendingSinceMs = None, pb_lastObservedBatchSize = None,
     pb_lastPublishedAtMs = None, pb_lastResult = None, pb_lastError = None, pb_transactions = [] \<rparr>"

lemma sample_publisher: "1 \<le> n \<Longrightarrow> n \<le> max_safe \<Longrightarrow>
    new_publisher ''reg'' [\<lparr> tg_contractAddress = ''ref'', tg_rootPublisherSecret = sample_bytes \<rparr>] (Some n) None None = Inr (sample_publisher n)"
proof -
  have "trim ''reg'' \<noteq> []" by code_simp
  then show "1 \<le> n \<Longrightarrow> n \<le> max_safe \<Longrightarrow> ?thesis"
    by (simp add: new_publisher_def positive_integer_def Let_def max_safe_def sample_publisher_def sample_bytes_def check_def)
qed

text \<open>
  The promised publication time is not kept. After one enrolment the status names a
  time by which the batch is published even if it is small; a second enrolment before
  then restarts the wait, and a cycle at the promised time publishes nothing.
\<close>

theorem promised_time_moves:
  "let p1 = fst (publishOnce (waiting_env 1 0) (sample_publisher 16)) in
     pt_publishesNoLaterThanMs (getStatus 0 p1) = Some 900000
     \<and> snd (publishOnce (waiting_env 2 900000) p1) = Inr (Skipped (BelowMinimumBatch 2))"
  by (simp add: publishOnce_def runCycle_def waiting_env_def sample_publisher_def note_pending_def getStatus_def Let_def)

definition ledger_env :: "free_digest registry_ledger \<Rightarrow> free_digest cycle_env" where
  "ledger_env r = (waiting_env 1 0) \<lparr> ce_registry := Inr (parseCredentialRegistryV1 free_merkle r) \<rparr>"

lemma sample_enrolled_count: "rg_credentialCount sample_enrolled = 1"
  by (simp add: registry_run_def registry_apply_def addCredential_def requireIssuer_def new_registry_def tree_depth_def
      sample_enrolment_def check_def)

lemma sample_published:
  "pb_transactions (run_cycles [ledger_env sample_enrolled] (sample_publisher 1))
     = [Attested (registry_root free_merkle sample_enrolled), PublishedTo ''ref'' (registry_root free_merkle sample_enrolled)]"
  by (simp add: run_cycles_def publishOnce_def runCycle_def ledger_env_def waiting_env_def sample_publisher_def note_pending_def Let_def
      parseCredentialRegistryV1_def sample_enrolled_count publish_batch_def attest_def publishToReferendum_def)

theorem published_roots_are_attested_witness:
  "historic_root free_merkle tree_depth (rg_credentials sample_enrolled) (registry_root free_merkle sample_enrolled)"
proof -
  have reads: "\<forall>env \<in> set [ledger_env sample_enrolled]. \<forall>state. ce_registry env = Inr state \<longrightarrow>
      (\<exists>r calls. state = parseCredentialRegistryV1 free_merkle r \<and> sample_enrolled = registry_run free_runtime free_merkle calls r)"
    by (auto simp: ledger_env_def registry_run_def intro!: exI [of _ sample_enrolled] exI [of _ "[]"])
  have p: "new_publisher ''reg'' [\<lparr> tg_contractAddress = ''ref'', tg_rootPublisherSecret = sample_bytes \<rparr>] (Some 1) None None
      = Inr (sample_publisher 1)"
    by (rule sample_publisher) (simp_all add: max_safe_def)
  show ?thesis using published_roots_are_attested [OF p refl reads] sample_published by auto
qed

theorem batches_are_withheld_witness:
  "\<exists>ps. snd (runCycle (ledger_env sample_enrolled) (sample_publisher 1)) = Inr (Published ps)"
proof -
  obtain p' r where c: "runCycle (ledger_env sample_enrolled) (sample_publisher 1) = (p', r)" by (cases rule: prod.exhaust)
  have "ce_registry (ledger_env sample_enrolled) = Inr (parseCredentialRegistryV1 free_merkle sample_enrolled)"
      "pb_referenda (sample_publisher 1) \<noteq> []"
      "pb_lastPublishedRootField (sample_publisher 1) \<noteq> Some (rv_currentRoot (parseCredentialRegistryV1 free_merkle sample_enrolled))"
    by (simp_all add: ledger_env_def sample_publisher_def)
  from batches_are_withheld [OF c this refl] have "\<exists>ps. r = Inr (Published ps)"
    by (simp add: parseCredentialRegistryV1_def sample_enrolled_count sample_publisher_def ledger_env_def waiting_env_def)
  then show ?thesis by (simp add: c)
qed

definition refused_env :: "free_digest cycle_env" where
  "refused_env = (waiting_env 1 0) \<lparr> ce_publish := (\<lambda>_. Inl ''refused'') \<rparr>"

theorem failed_publication_is_forgotten_witness:
  "snd (runCycle (waiting_env 1 5) (fst (runCycle refused_env (sample_publisher 1)))) = Inr (Skipped Unchanged)"
proof -
  have "\<exists>p' ps. runCycle refused_env (sample_publisher 1) = (p', Inr (Published ps))
      \<and> (\<forall>x \<in> set (ps_referenda ps). \<exists>a e. x = OutcomeFailed a e) \<and> ps_rootField ps = FreeEmpty 1"
    by (simp add: refused_env_def runCycle_def waiting_env_def sample_publisher_def note_pending_def Let_def
        publish_batch_def attest_def publishToReferendum_def)
  then obtain p' ps where c: "runCycle refused_env (sample_publisher 1) = (p', Inr (Published ps))"
      "\<forall>x \<in> set (ps_referenda ps). \<exists>a e. x = OutcomeFailed a e" "ps_rootField ps = FreeEmpty 1" by blast
  obtain state' where s: "ce_registry (waiting_env 1 5) = Inr state'" "rv_currentRoot state' = ps_rootField ps"
    by (simp add: waiting_env_def c(3))
  show ?thesis using failed_publication_is_forgotten [OF c(1,2) s] by (simp add: c(1))
qed

definition late_env :: "free_digest cycle_env" where
  "late_env = (waiting_env 1 21000) \<lparr> ce_referendum := (\<lambda>_. Inr (parseReferendumV2 sample_open)) \<rparr>"

theorem passed_deadline_disables_batching_witness:
  "\<exists>ps. snd (runCycle late_env (sample_publisher 16)) = Inr (Published ps) \<and> ps_batchSize ps = 1"
proof -
  obtain state where s: "ce_registry late_env = Inr state" "rv_credentialCount state = 1"
    by (simp add: late_env_def waiting_env_def)
  have "\<exists>ps. snd (runCycle late_env (sample_publisher 16)) = Inr (Published ps)
      \<and> ps_batchSize ps = uint (rv_credentialCount state) - pb_lastPublishedCredentialCount (sample_publisher 16)"
    by (rule passed_deadline_disables_batching [OF s(1), of "\<lparr> tg_contractAddress = ''ref'', tg_rootPublisherSecret = sample_bytes \<rparr>" _ "parseReferendumV2 sample_open"])
       (simp_all add: s(2) late_env_def waiting_env_def sample_publisher_def parseReferendumV2_def sample_open_def sample_sealed_def)
  then show ?thesis by (simp add: s(2) sample_publisher_def)
qed

end
