(* ===== verification/Epoch_Coordinator.thy ===== *)
theory Epoch_Coordinator
  imports Midnight_V2
begin

text \<open>
  The coordinator of a credential epoch (\<open>cico-service/src/credential-epoch-coordinator.ts\<close>):
  it admits enrolments while the registry is open and freezes it at its current root.
  Operations run one at a time (the promise queue). The indexer and the executor are
  parameters: \<open>reads k\<close> is the answer to the \<open>k\<close>-th read of an operation, and the freeze
  transaction answers with its receipt.
\<close>

section \<open>Snapshots and configuration\<close>

datatype CredentialEpochPhase = EnrollmentOpen | EpochFrozen

record 'd epoch_snapshot =
  es_state :: "'d registry_view"
  es_registryContractAddress :: string
  es_phase :: CredentialEpochPhase

record epoch_coordinator =
  ec_registryContractAddress :: string
  ec_registryId :: string
  ec_issuerId :: string
  ec_credentialEpoch :: int
  ec_issuerSecret :: string
  ec_reconciliationAttempts :: int
  ec_reconciliationDelayMs :: int

datatype epoch_error =
    BadOption string
  | ReadFailed string
  | AddressMismatch
  | RegistryIdMismatch
  | IssuerIdMismatch
  | EpochMismatch
  | EnrollmentClosedForEpoch
  | EmptyEpoch
  | ExecutorFailed string
  | NotAFreezeReceipt
  | FrozenRootNotCurrent
  | FrozeAnotherRoot
  | RootChanged
  | CountChanged
  | NotReconciled
  | ReferenceRefused midnight_error

datatype FreezeOutcome = NewlyFrozen | AlreadyFrozen

record 'd freeze_result =
  fz_outcome :: FreezeOutcome
  fz_before :: "'d epoch_snapshot"
  fz_after :: "'d epoch_snapshot"
  fz_reference :: "'d frozen_reference"
  fz_receipt :: "receipt option"

definition positive_safe :: "int \<Rightarrow> bool" where
  "positive_safe n = (1 \<le> n \<and> n \<le> max_safe)"

definition new_coordinator ::
  "string \<Rightarrow> string \<Rightarrow> string \<Rightarrow> int \<Rightarrow> string \<Rightarrow> int option \<Rightarrow> int option \<Rightarrow> (epoch_error, epoch_coordinator) result" where
  "new_coordinator address registryId issuerId epoch secret attempts delay =
     rbind (check (trim address \<noteq> []) (BadOption ''registryContractAddress'')) (\<lambda>_.
     rbind (check (length registryId = 32) (BadOption ''registryId'')) (\<lambda>_.
     rbind (check (length issuerId = 32) (BadOption ''issuerId'')) (\<lambda>_.
     rbind (check (0 \<le> epoch) (BadOption ''credentialEpoch'')) (\<lambda>_.
     rbind (check (length secret = 32) (BadOption ''issuerSecret'')) (\<lambda>_.
     let n = (case attempts of Some a \<Rightarrow> a | None \<Rightarrow> 8); d = (case delay of Some x \<Rightarrow> x | None \<Rightarrow> 250) in
     rbind (check (positive_safe n) (BadOption ''reconciliationAttempts'')) (\<lambda>_.
     rbind (check (0 \<le> d \<and> d \<le> max_safe) (BadOption ''reconciliationDelayMs'')) (\<lambda>_.
     Inr \<lparr> ec_registryContractAddress = address, ec_registryId = registryId, ec_issuerId = issuerId, ec_credentialEpoch = epoch,
           ec_issuerSecret = secret, ec_reconciliationAttempts = n, ec_reconciliationDelayMs = d \<rparr>)))))))"

text \<open>\<open>readRegistry\<close> of the indexer reader: the public view of the ledger it is given.\<close>

definition readRegistry :: "'d merkle_runtime \<Rightarrow> string \<Rightarrow> 'd registry_ledger option \<Rightarrow> (epoch_error, 'd epoch_snapshot) result" where
  "readRegistry m address canonical = (case canonical of
     None \<Rightarrow> Inl (ReadFailed ''Canonical credential registry state is unavailable'')
   | Some r \<Rightarrow> Inr \<lparr> es_state = parseCredentialRegistryV1 m r, es_registryContractAddress = address,
        es_phase = (if rg_frozen r then EpochFrozen else EnrollmentOpen) \<rparr>)"

section \<open>Operations\<close>

definition readExpectedRegistry ::
  "epoch_coordinator \<Rightarrow> (epoch_error, 'd epoch_snapshot) result \<Rightarrow> (epoch_error, 'd epoch_snapshot) result" where
  "readExpectedRegistry c answer =
     rbind answer (\<lambda>s.
     rbind (check (es_registryContractAddress s = ec_registryContractAddress c) AddressMismatch) (\<lambda>_.
     rbind (check (equalBytes (rv_registryId (es_state s)) (ec_registryId c)) RegistryIdMismatch) (\<lambda>_.
     rbind (check (equalBytes (rv_issuerId (es_state s)) (ec_issuerId c)) IssuerIdMismatch) (\<lambda>_.
     rbind (check (uint (rv_credentialEpoch (es_state s)) = ec_credentialEpoch c) EpochMismatch) (\<lambda>_. Inr s)))))"

text \<open>The gate in front of an enrolment: the operation runs only when it passes.\<close>

definition runEnrollmentMutation :: "epoch_coordinator \<Rightarrow> (epoch_error, 'd epoch_snapshot) result \<Rightarrow> (epoch_error, unit) result" where
  "runEnrollmentMutation c answer =
     rbind (readExpectedRegistry c answer) (\<lambda>before. check (\<not> rv_frozen (es_state before)) EnrollmentClosedForEpoch)"

definition freezePrivateState :: "string \<Rightarrow> registry_private" where
  "freezePrivateState issuerSecret = (let empty = replicate 32 (char_of (0 :: nat)) in
     \<lparr> rp_issuerSecret = issuerSecret, rp_holderBinding = empty, rp_credentialBlind = empty, rp_credentialCountry = empty,
       rp_credentialAgeClass = 0, rp_credentialAssurance = 0, rp_credentialClaimEpoch = 0, rp_credentialValidUntil = 0 \<rparr>)"

definition assertFreezeReceipt :: "receipt \<Rightarrow> string \<Rightarrow> (epoch_error, unit) result" where
  "assertFreezeReceipt r address = check (r_action r = Credential \<and> r_network r = Preview
     \<and> r_circuit r = ''freeze'' \<and> r_contractAddress r = address) NotAFreezeReceipt"

definition assertFrozenRootIsCurrent :: "'d epoch_snapshot \<Rightarrow> (epoch_error, unit) result" where
  "assertFrozenRootIsCurrent s = check (rv_frozenRoot (es_state s) = rv_currentRoot (es_state s)) FrozenRootNotCurrent"

text \<open>The retry loop, \<open>n\<close> attempts from the \<open>k\<close>-th read.\<close>

fun reconcileFrozen ::
  "epoch_coordinator \<Rightarrow> (nat \<Rightarrow> (epoch_error, 'd epoch_snapshot) result) \<Rightarrow> 'd epoch_snapshot \<Rightarrow> nat \<Rightarrow> nat
     \<Rightarrow> (epoch_error, 'd epoch_snapshot) result" where
  "reconcileFrozen c reads before k 0 = Inl NotReconciled"
| "reconcileFrozen c reads before k (Suc n) =
     rbind (readExpectedRegistry c (reads k)) (\<lambda>after.
       if rv_frozen (es_state after)
       then
         rbind (check (rv_frozenRoot (es_state after) = rv_currentRoot (es_state before)) FrozeAnotherRoot) (\<lambda>_.
         rbind (check (rv_currentRoot (es_state after) = rv_currentRoot (es_state before)) RootChanged) (\<lambda>_.
         rbind (check (rv_credentialCount (es_state after) = rv_credentialCount (es_state before)) CountChanged) (\<lambda>_.
         Inr after)))
       else reconcileFrozen c reads before (Suc k) n)"

definition frozen_reference_of :: "compact_runtime \<Rightarrow> epoch_coordinator \<Rightarrow> 'd epoch_snapshot \<Rightarrow> (epoch_error, 'd frozen_reference) result" where
  "frozen_reference_of rt c s =
     map_err ReferenceRefused (createFrozenCredentialRegistryReference rt (ec_registryContractAddress c) (es_state s))"

text \<open>
  \<open>freezeTx secret root\<close> is the executor's answer to \<open>join\<close> and \<open>freeze\<close>: a receipt or
  the error it threw.
\<close>

definition closeAndFreeze ::
  "compact_runtime \<Rightarrow> epoch_coordinator \<Rightarrow> (nat \<Rightarrow> (epoch_error, 'd epoch_snapshot) result)
     \<Rightarrow> (registry_private \<Rightarrow> 'd \<Rightarrow> (epoch_error, receipt) result) \<Rightarrow> (epoch_error, 'd freeze_result) result" where
  "closeAndFreeze rt c reads freezeTx =
     rbind (readExpectedRegistry c (reads 0)) (\<lambda>before.
       if rv_frozen (es_state before)
       then
         rbind (assertFrozenRootIsCurrent before) (\<lambda>_.
         rbind (frozen_reference_of rt c before) (\<lambda>reference.
         Inr \<lparr> fz_outcome = AlreadyFrozen, fz_before = before, fz_after = before, fz_reference = reference, fz_receipt = None \<rparr>))
       else
         rbind (check (rv_credentialCount (es_state before) \<noteq> 0) EmptyEpoch) (\<lambda>_.
         rbind (freezeTx (freezePrivateState (ec_issuerSecret c)) (rv_currentRoot (es_state before))) (\<lambda>receipt.
         rbind (assertFreezeReceipt receipt (ec_registryContractAddress c)) (\<lambda>_.
         rbind (reconcileFrozen c reads before 1 (nat (ec_reconciliationAttempts c))) (\<lambda>after.
         rbind (frozen_reference_of rt c after) (\<lambda>reference.
         Inr \<lparr> fz_outcome = NewlyFrozen, fz_before = before, fz_after = after, fz_reference = reference, fz_receipt = Some receipt \<rparr>))))))"

section \<open>Lemmas\<close>

definition expected_snapshot :: "epoch_coordinator \<Rightarrow> 'd epoch_snapshot \<Rightarrow> bool" where
  "expected_snapshot c s = (es_registryContractAddress s = ec_registryContractAddress c \<and> rv_registryId (es_state s) = ec_registryId c
     \<and> rv_issuerId (es_state s) = ec_issuerId c \<and> uint (rv_credentialEpoch (es_state s)) = ec_credentialEpoch c)"

lemma readExpected_iff [simp]: "readExpectedRegistry c answer = Inr s \<longleftrightarrow> answer = Inr s \<and> expected_snapshot c s"
  by (auto simp: readExpectedRegistry_def expected_snapshot_def)

definition frozen_at :: "'d epoch_snapshot \<Rightarrow> 'd epoch_snapshot \<Rightarrow> bool" where
  "frozen_at before after = (rv_frozen (es_state after) \<and> rv_frozenRoot (es_state after) = rv_currentRoot (es_state before)
     \<and> rv_currentRoot (es_state after) = rv_currentRoot (es_state before)
     \<and> rv_credentialCount (es_state after) = rv_credentialCount (es_state before))"

lemma reconcileFrozen_sound:
  "reconcileFrozen c reads before k n = Inr after \<Longrightarrow> frozen_at before after \<and> expected_snapshot c after \<and> (\<exists>j \<ge> k. reads j = Inr after)"
proof (induction n arbitrary: k)
  case (Suc n)
  then obtain s where s: "reads k = Inr s" "expected_snapshot c s" by auto
  show ?case
  proof (cases "rv_frozen (es_state s)")
    case True
    then have "after = s" "frozen_at before s" using Suc.prems s by (auto simp: frozen_at_def)
    then show ?thesis using s by blast
  next
    case False
    then have "reconcileFrozen c reads before (Suc k) n = Inr after" using Suc.prems s by simp
    from Suc.IH [OF this] show ?thesis by (meson Suc_leD)
  qed
qed simp

lemma reconcileFrozen_complete:
  assumes "\<And>j. j < d \<Longrightarrow> reads (k + j) = Inr old" "reads (k + d) = Inr new" "d < n"
    and "expected_snapshot c old" "\<not> rv_frozen (es_state old)" "expected_snapshot c new" "frozen_at before new"
  shows "reconcileFrozen c reads before k n = Inr new"
  using assms(1-3)
proof (induction d arbitrary: k n)
  case 0
  then obtain n' where n: "n = Suc n'" by (cases n) auto
  have "readExpectedRegistry c (reads k) = Inr new" using 0(2) assms(6) by simp
  then show ?case using assms(7) by (simp add: n frozen_at_def del: readExpected_iff)
next
  case (Suc d)
  then obtain n' where n: "n = Suc n'" by (cases n) auto
  have "readExpectedRegistry c (reads k) = Inr old" using Suc.prems(1) [of 0] assms(4) by simp
  moreover have "reconcileFrozen c reads before (Suc k) n' = Inr new"
    by (rule Suc.IH) (use Suc.prems n in \<open>auto simp: add_Suc_right [symmetric] simp del: add_Suc_right\<close>)
  ultimately show ?case using assms(5) by (simp add: n del: readExpected_iff)
qed

lemma map_err_Inr [simp]: "map_err f r = Inr x \<longleftrightarrow> r = Inr x"
  by (cases r) (simp_all add: map_err_def)

lemma reference_of:
  assumes "frozen_reference_of rt c s = Inr ref"
  shows "fr_frozenRoot ref = rv_frozenRoot (es_state s)" "rv_frozen (es_state s)" "rv_frozenRoot (es_state s) = rv_currentRoot (es_state s)"
    "fr_registryId ref = rv_registryId (es_state s)" "fr_issuerId ref = rv_issuerId (es_state s)"
    "fr_credentialEpoch ref = rv_credentialEpoch (es_state s)" "fr_registryContractAddress ref = ec_registryContractAddress c"
  using assms by (auto simp: frozen_reference_of_def createFrozenCredentialRegistryReference_def)

text \<open>The freeze transaction of the contract, with the executor's receipt.\<close>

definition contract_freeze ::
  "compact_runtime \<Rightarrow> 'd merkle_runtime \<Rightarrow> 'd registry_ledger \<Rightarrow> receipt \<Rightarrow> registry_private \<Rightarrow> 'd \<Rightarrow> (epoch_error, receipt) result" where
  "contract_freeze rt m r receipt p root = (case registryWitnesses p of
     Inl _ \<Rightarrow> Inl (ExecutorFailed ''witness'')
   | Inr w \<Rightarrow> (case freeze rt m (rw_issuerSecret w) root r of Inl e \<Rightarrow> Inl (ExecutorFailed e) | Inr _ \<Rightarrow> Inr receipt))"

lemma close_and_freeze_succeeds:
  assumes "r = registry_run rt m calls (new_registry m registryId issuerId epoch issuerKey)" "\<not> rg_frozen r" "rg_credentials r \<noteq> []"
    and "new_coordinator address registryId issuerId (uint epoch) secret attempts delay = Inr c"
    and "roleKey rt (pad32 ''cico:registry:issuer:'') secret = rg_issuerKey r"
    and "rg_registryId r = registryId" "rg_issuerId r = issuerId" "rg_credentialEpoch r = epoch"
    and "deriveRegistryContractBinding rt address = Inr binding"
    and "r_action receipt = Credential" "r_network receipt = Preview" "r_circuit receipt = ''freeze''" "r_contractAddress receipt = address"
    and "r' = r \<lparr> rg_frozenRoot := registry_root m r, rg_frozen := True \<rparr>"
    and "\<forall>j \<le> d. reads j = readRegistry m address (Some r)" "reads (Suc d) = readRegistry m address (Some r')"
    and "int d < ec_reconciliationAttempts c"
  shows "freeze rt m secret (registry_root m r) r = Inr r'
    \<and> (\<exists>f. closeAndFreeze rt c reads (contract_freeze rt m r receipt) = Inr f \<and> fz_outcome f = NewlyFrozen
        \<and> fr_frozenRoot (fz_reference f) = registry_root m r')
    \<and> runEnrollmentMutation c (readRegistry m address (Some r')) = Inl EnrollmentClosedForEpoch
    \<and> registry_run rt m after r' = r'"
proof -
  have c: "ec_registryContractAddress c = address" "ec_registryId c = registryId" "ec_issuerId c = issuerId"
      "ec_credentialEpoch c = uint epoch" "ec_issuerSecret c = secret" "length secret = 32" "1 \<le> ec_reconciliationAttempts c"
    using assms(4) by (auto simp: new_coordinator_def Let_def positive_safe_def)
  obtain before where before: "readRegistry m address (Some r) = Inr before" "es_state before = parseCredentialRegistryV1 m r"
      "es_registryContractAddress before = address"
    by (simp add: readRegistry_def)
  obtain after' where after: "readRegistry m address (Some r') = Inr after'" "es_state after' = parseCredentialRegistryV1 m r'"
      "es_registryContractAddress after' = address"
    by (simp add: readRegistry_def)
  have frz: "freeze rt m secret (registry_root m r) r = Inr r'" using assms(2,5,14) by (simp add: freeze_def requireIssuer_def check_def)
  have exp: "expected_snapshot c before" "expected_snapshot c after'"
    using assms(6-8,14) before after c by (simp_all add: expected_snapshot_def parseCredentialRegistryV1_def)
  have at: "frozen_at before after'" using assms(14) before(2) after(2)
    by (simp add: frozen_at_def parseCredentialRegistryV1_def registry_root_def)
  have inv: "registry_inv m r" unfolding assms(1) by (intro registry_run_inv registry_inv_new)
  then have count: "rg_credentialCount r \<noteq> 0" using assms(3) by (auto simp: registry_inv_def)
  have tx: "contract_freeze rt m r receipt (freezePrivateState secret) (registry_root m r) = Inr receipt"
    using c(6) frz by (simp add: contract_freeze_def registryWitnesses_def freezePrivateState_def Let_def compact_uint_def compact_bytes_def)
  have rec: "reconcileFrozen c reads before (Suc 0) (nat (ec_reconciliationAttempts c)) = Inr after'"
    by (rule reconcileFrozen_complete [where d = d and old = before])
       (use assms(2,15,16,17) before(1,2) after(1) exp at in \<open>auto simp: parseCredentialRegistryV1_def\<close>)
  have ref: "frozen_reference_of rt c after' = Inr \<lparr> fr_registryContractAddress = address, fr_registryContractBinding = binding,
      fr_registryId = registryId, fr_issuerId = issuerId, fr_credentialEpoch = epoch, fr_frozenRoot = registry_root m r' \<rparr>"
    using assms(6-9,14) c(1) after(2)
    by (simp add: frozen_reference_of_def createFrozenCredentialRegistryReference_def address_binding_def parseCredentialRegistryV1_def
        check_def registry_root_def map_err_def)
  have "closeAndFreeze rt c reads (contract_freeze rt m r receipt) = Inr \<lparr> fz_outcome = NewlyFrozen, fz_before = before, fz_after = after',
      fz_reference = \<lparr> fr_registryContractAddress = address, fr_registryContractBinding = binding,
        fr_registryId = registryId, fr_issuerId = issuerId, fr_credentialEpoch = epoch, fr_frozenRoot = registry_root m r' \<rparr>,
      fz_receipt = Some receipt \<rparr>"
  proof -
    have "reads 0 = Inr before" using assms(15) before(1) by simp
    moreover have "rv_currentRoot (es_state before) = registry_root m r" "\<not> rv_frozen (es_state before)" "rv_credentialCount (es_state before) \<noteq> 0"
      using before(2) assms(2) count by (simp_all add: parseCredentialRegistryV1_def)
    moreover have "assertFreezeReceipt receipt (ec_registryContractAddress c) = Inr ()"
      using assms(10-13) c(1) by (simp add: assertFreezeReceipt_def)
    ultimately show ?thesis using exp(1) tx rec ref c(5) by (simp add: closeAndFreeze_def)
  qed
  moreover have "runEnrollmentMutation c (readRegistry m address (Some r')) = Inl EnrollmentClosedForEpoch"
    using after exp(2) assms(14) by (simp add: runEnrollmentMutation_def parseCredentialRegistryV1_def)
  moreover have "registry_run rt m after r' = r'" using registry_run_steps [of r' rt m after] assms(14) by simp
  ultimately show ?thesis using frz by simp
qed

section \<open>Properties\<close>

text \<open>
  C7: A freeze that the coordinator reports is canonical. Its reference names the
  configured registry, issuer and epoch and the root the registry had before the
  freeze, which the indexer then shows as both the frozen and the current root with
  the same number of credentials; a registry that was open was not empty and was frozen
  by a confirmed transaction on it, and one that was already frozen is left alone.
\<close>

theorem reported_freeze_is_canonical:
  assumes "closeAndFreeze rt c reads freezeTx = Inr f"
  shows "fr_registryId (fz_reference f) = ec_registryId c \<and> fr_issuerId (fz_reference f) = ec_issuerId c
    \<and> uint (fr_credentialEpoch (fz_reference f)) = ec_credentialEpoch c
    \<and> fr_registryContractAddress (fz_reference f) = ec_registryContractAddress c
    \<and> reads 0 = Inr (fz_before f) \<and> fr_frozenRoot (fz_reference f) = rv_currentRoot (es_state (fz_before f))
    \<and> frozen_at (fz_before f) (fz_after f)
    \<and> (if rv_frozen (es_state (fz_before f)) then fz_outcome f = AlreadyFrozen \<and> fz_after f = fz_before f
       else fz_outcome f = NewlyFrozen \<and> rv_credentialCount (es_state (fz_before f)) \<noteq> 0
         \<and> (\<exists>receipt. fz_receipt f = Some receipt \<and> r_circuit receipt = ''freeze'' \<and> r_contractAddress receipt = ec_registryContractAddress c
             \<and> freezeTx (freezePrivateState (ec_issuerSecret c)) (rv_currentRoot (es_state (fz_before f))) = Inr receipt))"
proof (cases "rv_frozen (es_state (fz_before f))")
  case True
  then have f: "reads 0 = Inr (fz_before f)" "expected_snapshot c (fz_before f)" "fz_outcome f = AlreadyFrozen" "fz_after f = fz_before f"
      "frozen_reference_of rt c (fz_before f) = Inr (fz_reference f)"
    using assms by (auto simp: closeAndFreeze_def split: if_splits)
  then show ?thesis using reference_of [OF f(5)] True by (simp add: expected_snapshot_def frozen_at_def)
next
  case False
  then have f: "reads 0 = Inr (fz_before f)" "fz_outcome f = NewlyFrozen" "rv_credentialCount (es_state (fz_before f)) \<noteq> 0"
      "reconcileFrozen c reads (fz_before f) 1 (nat (ec_reconciliationAttempts c)) = Inr (fz_after f)"
      "frozen_reference_of rt c (fz_after f) = Inr (fz_reference f)"
      "\<exists>receipt. fz_receipt f = Some receipt \<and> r_circuit receipt = ''freeze'' \<and> r_contractAddress receipt = ec_registryContractAddress c
         \<and> freezeTx (freezePrivateState (ec_issuerSecret c)) (rv_currentRoot (es_state (fz_before f))) = Inr receipt"
    using assms by (auto simp: closeAndFreeze_def assertFreezeReceipt_def split: if_splits)
  note r = reconcileFrozen_sound [OF f(4)]
  then show ?thesis using reference_of [OF f(5)] f False by (simp add: expected_snapshot_def frozen_at_def)
qed

text \<open>
  Closing an epoch works and is final. On an open, non-empty registry of the
  configured issuer, \<open>closeAndFreeze\<close> submits a transaction the contract accepts and,
  if the indexer shows its effect within the configured number of attempts, however many
  stale answers come first, reports the frozen registry; after that the gate refuses
  every enrolment and no call of the contract changes the registry.
\<close>

theorem epoch_closes_for_good:
  assumes "r = registry_run rt m calls (new_registry m registryId issuerId epoch issuerKey)" "\<not> rg_frozen r" "rg_credentials r \<noteq> []"
    and "new_coordinator address registryId issuerId (uint epoch) secret attempts delay = Inr c"
    and "roleKey rt (pad32 ''cico:registry:issuer:'') secret = rg_issuerKey r"
    and "rg_registryId r = registryId" "rg_issuerId r = issuerId" "rg_credentialEpoch r = epoch"
    and "deriveRegistryContractBinding rt address = Inr binding"
    and "r_action receipt = Credential" "r_network receipt = Preview" "r_circuit receipt = ''freeze''" "r_contractAddress receipt = address"
    and "r' = r \<lparr> rg_frozenRoot := registry_root m r, rg_frozen := True \<rparr>"
    and "\<forall>j \<le> d. reads j = readRegistry m address (Some r)" "reads (Suc d) = readRegistry m address (Some r')"
    and "int d < ec_reconciliationAttempts c"
  shows "freeze rt m secret (registry_root m r) r = Inr r'
    \<and> (\<exists>f. closeAndFreeze rt c reads (contract_freeze rt m r receipt) = Inr f \<and> fz_outcome f = NewlyFrozen
        \<and> fr_frozenRoot (fz_reference f) = registry_root m r')
    \<and> runEnrollmentMutation c (readRegistry m address (Some r')) = Inl EnrollmentClosedForEpoch
    \<and> registry_run rt m after r' = r'"
  by (rule close_and_freeze_succeeds [OF assms])

section \<open>A sample epoch\<close>

abbreviation epoch_start :: "free_digest registry_ledger" where
  "epoch_start \<equiv> new_registry free_merkle sample_bytes sample_bytes 1 (roleKey free_runtime (pad32 ''cico:registry:issuer:'') sample_bytes)"

definition epoch_enrolment :: registry_witness where
  "epoch_enrolment = sample_enrolment \<lparr> rw_issuerSecret := sample_bytes \<rparr>"

definition epoch_open :: "free_digest registry_ledger" where
  "epoch_open = registry_run free_runtime free_merkle [AddCredential epoch_enrolment] epoch_start"

definition epoch_frozen :: "free_digest registry_ledger" where
  "epoch_frozen = epoch_open \<lparr> rg_frozenRoot := registry_root free_merkle epoch_open, rg_frozen := True \<rparr>"

definition sample_coordinator :: epoch_coordinator where
  "sample_coordinator = \<lparr> ec_registryContractAddress = sample_address, ec_registryId = sample_bytes, ec_issuerId = sample_bytes,
     ec_credentialEpoch = 1, ec_issuerSecret = sample_bytes, ec_reconciliationAttempts = 8, ec_reconciliationDelayMs = 250 \<rparr>"

definition freeze_receipt :: receipt where
  "freeze_receipt = sample_receipt \<lparr> r_action := Credential, r_network := Preview, r_circuit := ''freeze'', r_contractAddress := sample_address \<rparr>"

text \<open>The indexer shows the freeze at the third read.\<close>

definition sample_reads :: "nat \<Rightarrow> (epoch_error, free_digest epoch_snapshot) result" where
  "sample_reads k = readRegistry free_merkle sample_address (Some (if k < 2 then epoch_open else epoch_frozen))"

lemma epoch_open_eq:
  "epoch_open = epoch_start \<lparr> rg_credentials := [registry_credentialLeaf free_runtime epoch_start epoch_enrolment], rg_credentialCount := 1 \<rparr>"
  by (simp add: epoch_open_def registry_run_def registry_apply_def addCredential_def requireIssuer_def new_registry_def tree_depth_def
      epoch_enrolment_def check_def)

lemma sample_coordinator: "new_coordinator sample_address sample_bytes sample_bytes (uint (1 :: 64 word)) sample_bytes None None = Inr sample_coordinator"
proof -
  have "trim sample_address \<noteq> []" unfolding sample_address_def by code_simp
  then show ?thesis
    by (simp add: new_coordinator_def sample_coordinator_def sample_bytes_def check_def positive_safe_def max_safe_def)
qed

lemma sample_epoch_facts:
  "\<not> rg_frozen epoch_open" "rg_credentials epoch_open \<noteq> []"
  "roleKey free_runtime (pad32 ''cico:registry:issuer:'') sample_bytes = rg_issuerKey epoch_open"
  "rg_registryId epoch_open = sample_bytes" "rg_issuerId epoch_open = sample_bytes" "rg_credentialEpoch epoch_open = 1"
  "r_action freeze_receipt = Credential" "r_network freeze_receipt = Preview" "r_circuit freeze_receipt = ''freeze''"
  "r_contractAddress freeze_receipt = sample_address"
  by (simp_all add: epoch_open_eq new_registry_def freeze_receipt_def)

lemma sample_reads:
  "\<forall>j \<le> 1. sample_reads j = readRegistry free_merkle sample_address (Some epoch_open)"
  "sample_reads (Suc 1) = readRegistry free_merkle sample_address (Some epoch_frozen)"
  "int 1 < ec_reconciliationAttempts sample_coordinator"
  by (simp_all add: sample_reads_def sample_coordinator_def)

theorem epoch_closes_for_good_witness:
  "\<exists>f. closeAndFreeze free_runtime sample_coordinator sample_reads (contract_freeze free_runtime free_merkle epoch_open freeze_receipt) = Inr f
    \<and> fr_frozenRoot (fz_reference f) = registry_root free_merkle epoch_frozen"
proof -
  obtain b where b: "deriveRegistryContractBinding free_runtime sample_address = Inr b" using sample_address_binding by blast
  show ?thesis
    using epoch_closes_for_good [OF epoch_open_def sample_epoch_facts(1,2) sample_coordinator sample_epoch_facts(3-6) b
        sample_epoch_facts(7-10) epoch_frozen_def sample_reads] by blast
qed

theorem reported_freeze_is_canonical_witness:
  "\<exists>f. closeAndFreeze free_runtime sample_coordinator sample_reads (contract_freeze free_runtime free_merkle epoch_open freeze_receipt) = Inr f
    \<and> frozen_at (fz_before f) (fz_after f)"
proof -
  obtain b where b: "deriveRegistryContractBinding free_runtime sample_address = Inr b" using sample_address_binding by blast
  obtain f where f: "closeAndFreeze free_runtime sample_coordinator sample_reads (contract_freeze free_runtime free_merkle epoch_open freeze_receipt) = Inr f"
    using close_and_freeze_succeeds [OF epoch_open_def sample_epoch_facts(1,2) sample_coordinator sample_epoch_facts(3-6) b
        sample_epoch_facts(7-10) epoch_frozen_def sample_reads] by blast
  then show ?thesis using reported_freeze_is_canonical [OF f] by blast
qed

end
