(* ===== verification/Issuer_Service.thy ===== *)
theory Issuer_Service
  imports Epoch_Coordinator
begin

text \<open>
  The credential issuer (\<open>cico-service/src/credential-issuer-service.ts\<close>): one run of
  \<open>issueOnce\<close> per queued request, over an evidence book and a journal of issued
  credentials reached through their interfaces, and the in-memory table that lets
  repeated requests share one operation. What the evidence validator, the random
  source, the epoch gate and the executor answer is the environment of a run.
\<close>

section \<open>Requests\<close>

record issuance_request =
  iq_enrollmentId :: string
  iq_provider :: CredentialProvider
  iq_evidenceAuthorization :: string
  iq_holderBinding :: string
  iq_claims :: credential_claims

record issuer_options =
  io_registryContractAddress :: string
  io_issuerSecret :: string
  io_journalled :: bool

datatype issuer_error =
    IssuerConflict
  | InvalidCredentialClaims
  | IssuanceFailed
  | IssuerStoreError durable_error
  | IssuerCryptoError crypto_error
  | IssuerGateError epoch_error
  | IssuerExecutorError string
  | IssuerTypeError string

definition claims_object :: "credential_claims \<Rightarrow> json" where
  "claims_object c = JObj [(''issuerId'', JStr (cl_issuerId c)), (''country'', JStr (cl_country c)),
     (''ageClass'', JStr (age_class_str (cl_ageClass c))), (''assurance'', JStr (assurance_str (cl_assurance c))),
     (''credentialEpoch'', JNum (JInt (cl_credentialEpoch c))), (''validFrom'', JStr (cl_validFrom c)),
     (''validUntil'', JStr (cl_validUntil c))]"

definition requestFingerprint :: "issuance_request \<Rightarrow> string" where
  "requestFingerprint r = stringify (JObj [(''provider'', JStr (provider_str (iq_provider r))),
     (''evidenceAuthorization'', JStr (iq_evidenceAuthorization r)), (''holderBinding'', JStr (bytesToHex (iq_holderBinding r))),
     (''claims'', claims_object (iq_claims r))])"

definition requireBytes32 :: "string \<Rightarrow> string \<Rightarrow> (issuer_error, string) result" where
  "requireBytes32 value label = (if length value = 32 then Inr value else Inl (IssuerTypeError label))"

definition new_issuer :: "string \<Rightarrow> string \<Rightarrow> bool \<Rightarrow> (issuer_error, issuer_options) result" where
  "new_issuer address secret journalled =
     rbind (check (trim address \<noteq> []) (IssuerTypeError ''registryContractAddress'')) (\<lambda>_.
     rbind (requireBytes32 secret ''issuerSecret'') (\<lambda>s.
     Inr \<lparr> io_registryContractAddress = address, io_issuerSecret = s, io_journalled = journalled \<rparr>))"

definition privateStateFor ::
  "(string \<Rightarrow> int option) \<Rightarrow> issuance_request \<Rightarrow> string \<Rightarrow> string \<Rightarrow> (issuer_error, registry_private) result" where
  "privateStateFor date_parse r issuerSecret credentialBlind =
     rbind (requireBytes32 (iq_holderBinding r) ''holderBinding'') (\<lambda>holderBinding.
     rbind (map_err IssuerCryptoError (padBytes32 (cl_country (iq_claims r)))) (\<lambda>country.
     rbind (map_err IssuerCryptoError (isoTimestampSeconds date_parse (cl_validUntil (iq_claims r)))) (\<lambda>validUntil.
     Inr \<lparr> rp_issuerSecret = issuerSecret, rp_holderBinding = holderBinding, rp_credentialBlind = credentialBlind,
           rp_credentialCountry = country, rp_credentialAgeClass = ageClassCode (cl_ageClass (iq_claims r)),
           rp_credentialAssurance = assuranceCode (cl_assurance (iq_claims r)),
           rp_credentialClaimEpoch = cl_credentialEpoch (iq_claims r), rp_credentialValidUntil = validUntil \<rparr>)))"

section \<open>One run\<close>

record ('e, 'j) issuer_state =
  ist_evidence :: 'e
  ist_journal :: 'j
  ist_added :: "(issuance_request \<times> registry_private) list"

text \<open>\<open>ist_added\<close> records the requests for which the executor was asked to add a credential.\<close>

record issuer_env =
  ie_validates :: bool
  ie_randomBytes :: string
  ie_gate :: "(epoch_error, unit) result"
  ie_receipt :: "(string, receipt) result"

record ('e, 'j) issuer_books =
  ib_claim :: "'e \<Rightarrow> string \<Rightarrow> string \<Rightarrow> string \<Rightarrow> 'e \<times> (durable_error, bool) result"
  ib_get :: "'j \<Rightarrow> string \<Rightarrow> (durable_error, issuance_record option) result"
  ib_put :: "'j \<Rightarrow> string \<Rightarrow> string \<Rightarrow> issuance_result \<Rightarrow> 'j \<times> (durable_error, unit) result"

definition canonical_issuance :: "issuer_options \<Rightarrow> receipt \<Rightarrow> bool" where
  "canonical_issuance opts r = (r_action r = Credential \<and> r_circuit r = ''addCredential''
     \<and> r_contractAddress r = io_registryContractAddress opts \<and> r_network r = Preview)"

definition finish_issuance ::
  "compact_runtime \<Rightarrow> (string \<Rightarrow> int option) \<Rightarrow> (string \<Rightarrow> string) \<Rightarrow> ('e, 'j) issuer_books \<Rightarrow> issuer_options \<Rightarrow> issuance_request
     \<Rightarrow> string \<Rightarrow> string \<Rightarrow> (string, receipt) result \<Rightarrow> ('e, 'j) issuer_state
     \<Rightarrow> ('e, 'j) issuer_state \<times> (issuer_error, issuance_result) result" where
  "finish_issuance rt date_parse sha256 books opts r fingerprint blind answer st =
     (case answer of
        Inl e \<Rightarrow> (st, Inl (IssuerExecutorError e))
      | Inr receipt \<Rightarrow>
          if \<not> canonical_issuance opts receipt then (st, Inl IssuanceFailed)
          else case deriveCredentialLeaf rt date_parse (iq_holderBinding r) (iq_claims r) blind of
            Inl e \<Rightarrow> (st, Inl (IssuerCryptoError e))
          | Inr leaf \<Rightarrow>
              let result = \<lparr> ir_issuanceId = ''credential:'' @ r_transactionId receipt, ir_credentialBlind = blind,
                             ir_credentialLeaf = leaf, ir_receipt = receipt \<rparr> in
              if \<not> io_journalled opts then (st, Inr result)
              else case ib_put books (ist_journal st) (iq_enrollmentId r) (digest sha256 ''issuance'' fingerprint) result of
                (journal, Inl e) \<Rightarrow> (st \<lparr> ist_journal := journal \<rparr>, Inl (IssuerStoreError e))
              | (journal, Inr _) \<Rightarrow> (st \<lparr> ist_journal := journal \<rparr>, Inr result))"

text \<open>The mutation under the epoch gate: claim the evidence, then add the credential.\<close>

definition mutate_issuance ::
  "compact_runtime \<Rightarrow> (string \<Rightarrow> int option) \<Rightarrow> (string \<Rightarrow> string) \<Rightarrow> ('e, 'j) issuer_books \<Rightarrow> issuer_options \<Rightarrow> issuer_env
     \<Rightarrow> issuance_request \<Rightarrow> string \<Rightarrow> registry_private \<Rightarrow> ('e, 'j) issuer_state
     \<Rightarrow> ('e, 'j) issuer_state \<times> (issuer_error, issuance_result) result" where
  "mutate_issuance rt date_parse sha256 books opts env r fingerprint secrets st =
     (case ie_gate env of
        Inl e \<Rightarrow> (st, Inl (IssuerGateError e))
      | Inr _ \<Rightarrow>
          (case ib_claim books (ist_evidence st) (iq_evidenceAuthorization r) (iq_enrollmentId r) fingerprint of
             (evidence, Inl e) \<Rightarrow> (st \<lparr> ist_evidence := evidence \<rparr>, Inl (IssuerStoreError e))
           | (evidence, Inr claimed) \<Rightarrow>
               if \<not> claimed then (st \<lparr> ist_evidence := evidence \<rparr>, Inl InvalidCredentialClaims)
               else finish_issuance rt date_parse sha256 books opts r fingerprint (ie_randomBytes env) (ie_receipt env)
                 (st \<lparr> ist_evidence := evidence, ist_added := ist_added st @ [(r, secrets)] \<rparr>)))"

definition issueOnce ::
  "compact_runtime \<Rightarrow> (string \<Rightarrow> int option) \<Rightarrow> (string \<Rightarrow> string) \<Rightarrow> ('e, 'j) issuer_books \<Rightarrow> issuer_options \<Rightarrow> issuer_env
     \<Rightarrow> issuance_request \<Rightarrow> ('e, 'j) issuer_state \<Rightarrow> ('e, 'j) issuer_state \<times> (issuer_error, issuance_result) result" where
  "issueOnce rt date_parse sha256 books opts env r st =
     (let fingerprint = requestFingerprint r in
      case (if io_journalled opts then ib_get books (ist_journal st) (iq_enrollmentId r) else Inr None) of
        Inl e \<Rightarrow> (st, Inl (IssuerStoreError e))
      | Inr (Some persisted) \<Rightarrow>
          (st, if is_fingerprintHash persisted \<noteq> digest sha256 ''issuance'' fingerprint then Inl IssuerConflict
               else Inr (is_result persisted))
      | Inr None \<Rightarrow>
          (case rbind (check (ie_validates env) InvalidCredentialClaims) (\<lambda>_.
             rbind (requireBytes32 (ie_randomBytes env) ''credentialBlind'') (\<lambda>blind.
               privateStateFor date_parse r (io_issuerSecret opts) blind)) of
             Inl e \<Rightarrow> (st, Inl e)
           | Inr secrets \<Rightarrow> mutate_issuance rt date_parse sha256 books opts env r fingerprint secrets st))"

section \<open>The queue and the table of operations\<close>

text \<open>An operation of the table is running or has its result; a failed one is removed.\<close>

record ('e, 'j) issuer =
  is_state :: "('e, 'j) issuer_state"
  is_issuances :: "string \<rightharpoonup> string \<times> issuance_result option"
  is_queue :: "issuance_request list"

datatype issue_answer = AnswerConflict | AnswerPending | AnswerResult issuance_result

definition issueCredential :: "issuance_request \<Rightarrow> ('e, 'j) issuer \<Rightarrow> ('e, 'j) issuer \<times> issue_answer" where
  "issueCredential r v = (let fingerprint = requestFingerprint r in
     case is_issuances v (iq_enrollmentId r) of
       Some (existing, operation) \<Rightarrow>
         if existing \<noteq> fingerprint then (v, AnswerConflict)
         else (v, case operation of Some result \<Rightarrow> AnswerResult result | None \<Rightarrow> AnswerPending)
     | None \<Rightarrow> (v \<lparr> is_issuances := (is_issuances v)(iq_enrollmentId r \<mapsto> (fingerprint, None)),
                      is_queue := is_queue v @ [r] \<rparr>, AnswerPending))"

definition run_queue ::
  "compact_runtime \<Rightarrow> (string \<Rightarrow> int option) \<Rightarrow> (string \<Rightarrow> string) \<Rightarrow> ('e, 'j) issuer_books \<Rightarrow> issuer_options \<Rightarrow> issuer_env
     \<Rightarrow> ('e, 'j) issuer \<Rightarrow> ('e, 'j) issuer" where
  "run_queue rt date_parse sha256 books opts env v = (case is_queue v of
     [] \<Rightarrow> v
   | r # rest \<Rightarrow>
       (case issueOnce rt date_parse sha256 books opts env r (is_state v) of
          (st, Inr result) \<Rightarrow> v \<lparr> is_state := st, is_queue := rest,
             is_issuances := (is_issuances v)(iq_enrollmentId r \<mapsto> (requestFingerprint r, Some result)) \<rparr>
        | (st, Inl e) \<Rightarrow> v \<lparr> is_state := st, is_queue := rest, is_issuances := (is_issuances v)(iq_enrollmentId r := None) \<rparr>))"

definition restart_issuer :: "('e, 'j) issuer \<Rightarrow> ('e, 'j) issuer" where
  "restart_issuer v = v \<lparr> is_issuances := Map.empty, is_queue := [] \<rparr>"

datatype issuer_event = Request issuance_request | RunQueue issuer_env | RestartIssuer

fun issuer_step ::
  "compact_runtime \<Rightarrow> (string \<Rightarrow> int option) \<Rightarrow> (string \<Rightarrow> string) \<Rightarrow> ('e, 'j) issuer_books \<Rightarrow> issuer_options
     \<Rightarrow> issuer_event \<Rightarrow> ('e, 'j) issuer \<Rightarrow> ('e, 'j) issuer" where
  "issuer_step rt date_parse sha256 books opts (Request r) v = fst (issueCredential r v)"
| "issuer_step rt date_parse sha256 books opts (RunQueue env) v = run_queue rt date_parse sha256 books opts env v"
| "issuer_step rt date_parse sha256 books opts RestartIssuer v = restart_issuer v"

definition issuer_run ::
  "compact_runtime \<Rightarrow> (string \<Rightarrow> int option) \<Rightarrow> (string \<Rightarrow> string) \<Rightarrow> ('e, 'j) issuer_books \<Rightarrow> issuer_options
     \<Rightarrow> issuer_event list \<Rightarrow> ('e, 'j) issuer \<Rightarrow> ('e, 'j) issuer" where
  "issuer_run rt date_parse sha256 books opts events v = fold (issuer_step rt date_parse sha256 books opts) events v"

definition new_issuer_process :: "'e \<Rightarrow> 'j \<Rightarrow> ('e, 'j) issuer" where
  "new_issuer_process evidence journal = \<lparr> is_state = \<lparr> ist_evidence = evidence, ist_journal = journal, ist_added = [] \<rparr>,
     is_issuances = Map.empty, is_queue = [] \<rparr>"

section \<open>The issuer as a client of its books\<close>

definition request_ok :: "issuance_request \<Rightarrow> bool" where
  "request_ok r = (iq_enrollmentId r \<noteq> [] \<and> iq_evidenceAuthorization r \<noteq> [])"

text \<open>A receipt of the executor is a canonical receipt.\<close>

definition env_ok :: "issuer_env \<Rightarrow> bool" where
  "env_ok env = (\<forall>rc. ie_receipt env = Inr rc \<longrightarrow> wf_receipt rc)"

definition event_ok :: "issuer_event \<Rightarrow> bool" where
  "event_ok e = (case e of Request r \<Rightarrow> request_ok r | RunQueue env \<Rightarrow> env_ok env | RestartIssuer \<Rightarrow> True)"

lemma requestFingerprint_nonempty [simp]: "requestFingerprint r \<noteq> []"
  by (simp add: requestFingerprint_def)

lemma deriveCredentialLeaf_commit:
  "deriveCredentialLeaf rt dp h c b = Inr leaf \<Longrightarrow> \<exists>xs. leaf = persistentCommit rt xs b"
  by (auto simp: deriveCredentialLeaf_def deriveRawCredentialLeaf_def)

text \<open>Commitments have 32 bytes, digests are hex, and the issuer keeps a journal.\<close>

definition issuing :: "compact_runtime \<Rightarrow> (string \<Rightarrow> string) \<Rightarrow> issuer_options \<Rightarrow> bool" where
  "issuing rt sha256 opts = ((\<forall>xs b. length (persistentCommit rt xs b) = 32) \<and> (\<forall>x. is_hex64 (sha256 x)) \<and> io_journalled opts)"

locale issuer_interface =
  evidence_book claim ev_ok bound akey ekey mkey + issuance_book get put jr_ok issued ikey
  for claim :: "'e \<Rightarrow> string \<Rightarrow> string \<Rightarrow> string \<Rightarrow> 'e \<times> (durable_error, bool) result"
    and ev_ok bound akey ekey mkey
    and get :: "'j \<Rightarrow> string \<Rightarrow> (durable_error, issuance_record option) result"
    and put jr_ok issued ikey
begin

lemma finish_law:
  assumes "issuing rt sha256 opts" "jr_ok (ist_journal st)" "request_ok r" "length blind = 32" "\<And>rc. answer = Inr rc \<Longrightarrow> wf_receipt rc"
    and "issued (ist_journal st) (ikey (iq_enrollmentId r)) = None"
    and "finish_issuance rt date_parse sha256 \<lparr> ib_claim = claim, ib_get = get, ib_put = put \<rparr> opts r (requestFingerprint r) blind answer st = (st', res)"
  shows "ist_evidence st' = ist_evidence st \<and> ist_added st' = ist_added st \<and> jr_ok (ist_journal st')
    \<and> (case res of Inl _ \<Rightarrow> issued (ist_journal st') = issued (ist_journal st)
       | Inr result \<Rightarrow> issued (ist_journal st') = (issued (ist_journal st))(ikey (iq_enrollmentId r) \<mapsto>
           \<lparr> is_fingerprintHash = digest sha256 ''issuance'' (requestFingerprint r), is_result = result \<rparr>))"
proof (cases "\<exists>receipt leaf. answer = Inr receipt \<and> canonical_issuance opts receipt
    \<and> deriveCredentialLeaf rt date_parse (iq_holderBinding r) (iq_claims r) blind = Inr leaf")
  case False
  then show ?thesis using assms(2,7) by (auto simp: finish_issuance_def split: sum.splits if_splits)
next
  case True
  then obtain receipt leaf where a: "answer = Inr receipt" "canonical_issuance opts receipt"
      "deriveCredentialLeaf rt date_parse (iq_holderBinding r) (iq_claims r) blind = Inr leaf" by blast
  let ?v = "\<lparr> ir_issuanceId = ''credential:'' @ r_transactionId receipt, ir_credentialBlind = blind, ir_credentialLeaf = leaf, ir_receipt = receipt \<rparr>"
  have "length leaf = 32" using deriveCredentialLeaf_commit [OF a(3)] assms(1) by (auto simp: issuing_def)
  then have wf: "wf_result ?v" using assms(4,5) a(1,2) by (simp add: wf_result_def canonical_issuance_def)
  obtain j' t where put: "put (ist_journal st) (iq_enrollmentId r) (digest sha256 ''issuance'' (requestFingerprint r)) ?v = (j', t)"
    by (cases rule: prod.exhaust)
  have hex: "is_hex64 (digest sha256 ''issuance'' (requestFingerprint r))" using assms(1) by (simp add: digest_def issuing_def)
  have "iq_enrollmentId r \<noteq> []" using assms(3) by (simp add: request_ok_def)
  note law = put_law [OF assms(2) this hex wf put]
  show ?thesis using assms(1,6,7) law a put by (auto simp: finish_issuance_def Let_def issuing_def)
qed

lemma issueOnce_law:
  assumes "issuing rt sha256 opts" and "ev_ok (ist_evidence st)" "jr_ok (ist_journal st)" "request_ok r" "env_ok env"
    and "issueOnce rt date_parse sha256 \<lparr> ib_claim = claim, ib_get = get, ib_put = put \<rparr> opts env r st = (st', res)"
  shows "ev_ok (ist_evidence st') \<and> jr_ok (ist_journal st')
    \<and> (\<forall>k x. bound (ist_evidence st) k = Some x \<and> er_materialKey x \<noteq> None \<longrightarrow> bound (ist_evidence st') k = Some x)
    \<and> (case issued (ist_journal st) (ikey (iq_enrollmentId r)) of
         Some x \<Rightarrow> st' = st \<and> res = (if is_fingerprintHash x \<noteq> digest sha256 ''issuance'' (requestFingerprint r) then Inl IssuerConflict else Inr (is_result x))
       | None \<Rightarrow> (case res of Inl _ \<Rightarrow> issued (ist_journal st') = issued (ist_journal st)
           | Inr result \<Rightarrow> issued (ist_journal st') = (issued (ist_journal st))(ikey (iq_enrollmentId r) \<mapsto>
               \<lparr> is_fingerprintHash = digest sha256 ''issuance'' (requestFingerprint r), is_result = result \<rparr>)))
    \<and> (ist_added st' = ist_added st \<or> (\<exists>secrets. ist_added st' = ist_added st @ [(r, secrets)]
         \<and> bound (ist_evidence st') (akey (iq_evidenceAuthorization r))
             = Some \<lparr> er_enrollmentKey = ekey (iq_enrollmentId r), er_materialKey = Some (mkey (requestFingerprint r)) \<rparr>))"
proof -
  let ?books = "\<lparr> ib_claim = claim, ib_get = get, ib_put = put \<rparr>"
  have e: "iq_enrollmentId r \<noteq> []" "iq_evidenceAuthorization r \<noteq> []" using assms(4) by (simp_all add: request_ok_def)
  have journalled: "io_journalled opts" using assms(1) by (simp add: issuing_def)
  note get = get_law [OF assms(3) e(1)]
  show ?thesis
  proof (cases "issued (ist_journal st) (ikey (iq_enrollmentId r))")
    case (Some x)
    then show ?thesis using assms(6) get journalled assms(2,3) by (auto simp: issueOnce_def Let_def split: if_splits)
  next
    case None
    show ?thesis
    proof (cases "ie_validates env \<and> length (ie_randomBytes env) = 32 \<and> ie_gate env = Inr ()
        \<and> is_ok (privateStateFor date_parse r (io_issuerSecret opts) (ie_randomBytes env))")
      case False
      then have "st' = st" "\<exists>e. res = Inl e"
        using assms(6) get None journalled
        by (auto simp: issueOnce_def Let_def mutate_issuance_def requireBytes32_def check_def is_ok_iff split: sum.splits if_splits)
      then show ?thesis using assms(2,3) None by auto
    next
      case True
      then obtain secrets where p: "privateStateFor date_parse r (io_issuerSecret opts) (ie_randomBytes env) = Inr secrets"
        by (auto simp: is_ok_iff)
      obtain ev t where c: "claim (ist_evidence st) (iq_evidenceAuthorization r) (iq_enrollmentId r) (requestFingerprint r) = (ev, t)"
        by (cases rule: prod.exhaust)
      note law = claim_law [OF assms(2) e(2,1) requestFingerprint_nonempty c]
      let ?admit = "admits (bound (ist_evidence st) (akey (iq_evidenceAuthorization r))) (ekey (iq_enrollmentId r)) (mkey (requestFingerprint r))"
      have keeps: "\<forall>k x. bound (ist_evidence st) k = Some x \<and> er_materialKey x \<noteq> None \<longrightarrow> bound ev k = Some x"
        using law by (auto simp: admits_def)
      show ?thesis
      proof (cases ?admit)
        case False
        then have "st' = st \<lparr> ist_evidence := ev \<rparr>" "res = Inl InvalidCredentialClaims"
          using assms(6) get None journalled True p c law
          by (simp_all add: issueOnce_def Let_def mutate_issuance_def requireBytes32_def check_def)
        then show ?thesis using law assms(3) keeps None by simp
      next
        case admit: True
        let ?st = "st \<lparr> ist_evidence := ev, ist_added := ist_added st @ [(r, secrets)] \<rparr>"
        have f: "finish_issuance rt date_parse sha256 ?books opts r (requestFingerprint r) (ie_randomBytes env) (ie_receipt env) ?st = (st', res)"
          using assms(6) get None journalled True p c law admit
          by (simp add: issueOnce_def Let_def mutate_issuance_def requireBytes32_def check_def)
        have "jr_ok (ist_journal ?st)" "length (ie_randomBytes env) = 32" "\<And>rc. ie_receipt env = Inr rc \<Longrightarrow> wf_receipt rc"
            "issued (ist_journal ?st) (ikey (iq_enrollmentId r)) = None"
          using assms(3,5) True None by (simp_all add: env_ok_def)
        from finish_law [OF assms(1) this(1) assms(4) this(2,3,4) f] law admit keeps None show ?thesis by (auto split: sum.splits)
      qed
    qed
  qed
qed

text \<open>What holds of an issuer between its events.\<close>

lemma issuer_step_law:
  assumes "issuing rt sha256 opts" "event_ok ev" "ev_ok (ist_evidence (is_state v))" "jr_ok (ist_journal (is_state v))"
    and "\<forall>r \<in> set (is_queue v). request_ok r"
    and "v' = issuer_step rt date_parse sha256 \<lparr> ib_claim = claim, ib_get = get, ib_put = put \<rparr> opts ev v"
  shows "ev_ok (ist_evidence (is_state v')) \<and> jr_ok (ist_journal (is_state v')) \<and> (\<forall>r \<in> set (is_queue v'). request_ok r)
    \<and> (\<forall>k x. issued (ist_journal (is_state v)) k = Some x \<longrightarrow> issued (ist_journal (is_state v')) k = Some x)
    \<and> (\<forall>k x. bound (ist_evidence (is_state v)) k = Some x \<and> er_materialKey x \<noteq> None \<longrightarrow> bound (ist_evidence (is_state v')) k = Some x)
    \<and> (ist_added (is_state v') = ist_added (is_state v) \<or> (\<exists>r secrets. ist_added (is_state v') = ist_added (is_state v) @ [(r, secrets)]
         \<and> bound (ist_evidence (is_state v')) (akey (iq_evidenceAuthorization r))
             = Some \<lparr> er_enrollmentKey = ekey (iq_enrollmentId r), er_materialKey = Some (mkey (requestFingerprint r)) \<rparr>))"
proof (cases ev)
  case (Request r)
  have r: "request_ok r" using assms(2) Request by (simp add: event_ok_def)
  show ?thesis
    using assms(3-6) r unfolding Request by (auto simp: issueCredential_def Let_def split: option.splits prod.splits if_splits)
next
  case (RunQueue env)
  show ?thesis
  proof (cases "is_queue v")
    case Nil
    then show ?thesis using assms RunQueue by (simp add: run_queue_def)
  next
    case (Cons r rest)
    obtain st res where 1: "issueOnce rt date_parse sha256 \<lparr> ib_claim = claim, ib_get = get, ib_put = put \<rparr> opts env r (is_state v) = (st, res)"
      by (cases rule: prod.exhaust)
    have "request_ok r" "env_ok env" using assms(2,5) Cons RunQueue by (simp_all add: event_ok_def)
    note law = issueOnce_law [OF assms(1,3,4) this 1]
    have v': "is_state v' = st" "is_queue v' = rest"
      using assms(6) Cons 1 by (auto simp: RunQueue run_queue_def split: sum.splits)
    have journal: "issued (ist_journal st) k = Some x" if "issued (ist_journal (is_state v)) k = Some x" for k x
      using law that by (auto split: option.splits sum.splits if_splits)
    show ?thesis using law journal assms(5) Cons unfolding v' by auto
  qed
next
  case RestartIssuer
  then show ?thesis using assms by (simp add: restart_issuer_def)
qed

definition added_bound where
  "added_bound v = (\<forall>(r, secrets) \<in> set (ist_added (is_state v)).
     bound (ist_evidence (is_state v)) (akey (iq_evidenceAuthorization r))
       = Some \<lparr> er_enrollmentKey = ekey (iq_enrollmentId r), er_materialKey = Some (mkey (requestFingerprint r)) \<rparr>)"

lemma issuer_run_law:
  assumes "issuing rt sha256 opts"
  shows "\<forall>ev \<in> set events. event_ok ev \<Longrightarrow> ev_ok (ist_evidence (is_state v)) \<Longrightarrow> jr_ok (ist_journal (is_state v))
    \<Longrightarrow> \<forall>r \<in> set (is_queue v). request_ok r
    \<Longrightarrow> v' = issuer_run rt date_parse sha256 \<lparr> ib_claim = claim, ib_get = get, ib_put = put \<rparr> opts events v
    \<Longrightarrow> ev_ok (ist_evidence (is_state v')) \<and> jr_ok (ist_journal (is_state v')) \<and> (added_bound v \<longrightarrow> added_bound v')
      \<and> (\<forall>k x. issued (ist_journal (is_state v)) k = Some x \<longrightarrow> issued (ist_journal (is_state v')) k = Some x)"
proof (induction events arbitrary: v)
  case Nil
  then show ?case by (simp add: issuer_run_def)
next
  case (Cons ev events)
  define v1 where "v1 = issuer_step rt date_parse sha256 \<lparr> ib_claim = claim, ib_get = get, ib_put = put \<rparr> opts ev v"
  have "event_ok ev" using Cons.prems(1) by simp
  note law = issuer_step_law [OF assms this Cons.prems(2-4) v1_def]
  have ab: "added_bound v \<longrightarrow> added_bound v1"
    using law unfolding added_bound_def by fastforce
  have "v' = issuer_run rt date_parse sha256 \<lparr> ib_claim = claim, ib_get = get, ib_put = put \<rparr> opts events v1"
    using Cons.prems(5) by (simp add: issuer_run_def v1_def)
  then have "ev_ok (ist_evidence (is_state v')) \<and> jr_ok (ist_journal (is_state v')) \<and> (added_bound v1 \<longrightarrow> added_bound v')
      \<and> (\<forall>k x. issued (ist_journal (is_state v1)) k = Some x \<longrightarrow> issued (ist_journal (is_state v')) k = Some x)"
    using Cons.IH [of v1] law Cons.prems(1) by simp
  then show ?case using law ab by blast
qed

lemma added_single_enrollment:
  assumes "added_bound v" "(r1, s1) \<in> set (ist_added (is_state v))" "(r2, s2) \<in> set (ist_added (is_state v))"
    and "iq_evidenceAuthorization r1 = iq_evidenceAuthorization r2"
  shows "ekey (iq_enrollmentId r1) = ekey (iq_enrollmentId r2) \<and> mkey (requestFingerprint r1) = mkey (requestFingerprint r2)"
proof -
  have "bound (ist_evidence (is_state v)) (akey (iq_evidenceAuthorization r))
      = Some \<lparr> er_enrollmentKey = ekey (iq_enrollmentId r), er_materialKey = Some (mkey (requestFingerprint r)) \<rparr>"
    if "(r, s) \<in> set (ist_added (is_state v))" for r s
    using assms(1) that unfolding added_bound_def by auto
  from this [OF assms(2)] this [OF assms(3)] assms(4) show ?thesis by simp
qed

end

section \<open>The issuer on its durable files\<close>

interpretation file_issuer: issuer_interface
  "file_claim sha" "evidence_file_ok sha" evidence_bound "digest sha ''evidence''" "digest sha ''enrollment''" "digest sha ''material''"
  "file_issuance_get sha" "file_issuance_put sha" "issuance_file_ok sha" file_issued "digest sha ''enrollment''" for sha
  by (intro issuer_interface.intro evidence_file.evidence_book_axioms issuance_file.issuance_book_axioms)

definition file_books :: "(string \<Rightarrow> string) \<Rightarrow> (json_file, json_file) issuer_books" where
  "file_books sha = \<lparr> ib_claim = file_claim sha, ib_get = file_issuance_get sha, ib_put = file_issuance_put sha \<rparr>"

section \<open>Properties\<close>

text \<open>
  C4: Evidence is spent on one enrolment. Over any sequence of requests, runs and
  restarts of an issuer on its durable files, whatever the validator, the gate and the
  executor answer, two requests with the same evidence authorisation for which the
  registry was asked to add a credential are for the same enrollment and the same
  material (by their digests).
\<close>

theorem evidence_serves_one_enrollment:
  assumes "issuing rt sha opts" "evidence_file_ok sha evidence" "issuance_file_ok sha journal" "\<forall>ev \<in> set events. event_ok ev"
    and "v = issuer_run rt date_parse sha (file_books sha) opts events (new_issuer_process evidence journal)"
    and "(r1, s1) \<in> set (ist_added (is_state v))" "(r2, s2) \<in> set (ist_added (is_state v))"
    and "iq_evidenceAuthorization r1 = iq_evidenceAuthorization r2"
  shows "digest sha ''enrollment'' (iq_enrollmentId r1) = digest sha ''enrollment'' (iq_enrollmentId r2)
    \<and> digest sha ''material'' (requestFingerprint r1) = digest sha ''material'' (requestFingerprint r2)"
proof -
  let ?v = "new_issuer_process evidence journal"
  have start: "evidence_file_ok sha (ist_evidence (is_state ?v))" "issuance_file_ok sha (ist_journal (is_state ?v))"
      "\<forall>r \<in> set (is_queue ?v). request_ok r"
    using assms(2,3) by (simp_all add: new_issuer_process_def)
  have "file_issuer.added_bound sha ?v" by (simp add: new_issuer_process_def file_issuer.added_bound_def)
  then have "file_issuer.added_bound sha v"
    using file_issuer.issuer_run_law [OF assms(1,4) start assms(5) [unfolded file_books_def]] by blast
  from file_issuer.added_single_enrollment [OF this assms(6-8)] show ?thesis .
qed

text \<open>
  C32: An issued credential is issued once. When a run has answered a request with a
  credential, then after any further requests, runs and restarts a request for the same
  enrollment is answered from the journal: the same material gets the same result,
  other material a conflict, and in neither case is the registry or the evidence
  touched.
\<close>

theorem credential_is_issued_once:
  assumes "issuing rt sha opts" "evidence_file_ok sha (ist_evidence st)" "issuance_file_ok sha (ist_journal st)"
    and "request_ok r" "env_ok env" "issueOnce rt date_parse sha (file_books sha) opts env r st = (st1, Inr result)"
    and "is_state v1 = st1" "\<forall>q \<in> set (is_queue v1). request_ok q" "\<forall>ev \<in> set events. event_ok ev"
    and "v2 = issuer_run rt date_parse sha (file_books sha) opts events v1" "iq_enrollmentId r' = iq_enrollmentId r"
  shows "issueOnce rt date_parse sha (file_books sha) opts env' r' (is_state v2)
    = (is_state v2, if digest sha ''issuance'' (requestFingerprint r) \<noteq> digest sha ''issuance'' (requestFingerprint r') then Inl IssuerConflict
                    else Inr result)"
proof -
  let ?k = "digest sha ''enrollment'' (iq_enrollmentId r)"
  note law = file_issuer.issueOnce_law [OF assms(1-5) assms(6) [unfolded file_books_def]]
  obtain x where x: "file_issued (ist_journal st1) ?k = Some x" "is_result x = result"
      "is_fingerprintHash x = digest sha ''issuance'' (requestFingerprint r)"
  proof (cases "file_issued (ist_journal st) ?k")
    case None
    then have "file_issued (ist_journal st1) ?k = Some \<lparr> is_fingerprintHash = digest sha ''issuance'' (requestFingerprint r), is_result = result \<rparr>"
      using law by simp
    then show thesis by (rule that) simp_all
  next
    case (Some x)
    then have "st1 = st" "is_result x = result" "is_fingerprintHash x = digest sha ''issuance'' (requestFingerprint r)"
      using law by (auto split: if_splits)
    then show thesis using Some by (intro that [of x]) simp_all
  qed
  have ok: "evidence_file_ok sha (ist_evidence (is_state v1))" "issuance_file_ok sha (ist_journal (is_state v1))"
    using law assms(7) by simp_all
  note run = file_issuer.issuer_run_law [OF assms(1,9) ok assms(8) assms(10) [unfolded file_books_def]]
  then have "file_issued (ist_journal (is_state v2)) ?k = Some x" using x(1) assms(7) by blast
  moreover have "file_issuance_get sha (ist_journal (is_state v2)) (iq_enrollmentId r) = Inr (file_issued (ist_journal (is_state v2)) ?k)"
    using issuance_file.get_law run assms(4) by (simp add: request_ok_def)
  ultimately show ?thesis
    using x assms(1,11) by (simp add: issueOnce_def file_books_def issuing_def Let_def)
qed

section \<open>A sample issuer\<close>

definition sample_issuer_runtime :: compact_runtime where
  "sample_issuer_runtime = \<lparr> persistentHash = (\<lambda>_. replicate 32 (CHR ''h'')), persistentCommit = (\<lambda>_ _. replicate 32 (CHR ''c'')),
     convertFieldToBytes = (\<lambda>_. replicate 32 (CHR ''f'')) \<rparr>"

definition sample_clock :: "string \<Rightarrow> int option" where
  "sample_clock s = Some 2000"

definition sample_options :: issuer_options where
  "sample_options = \<lparr> io_registryContractAddress = ''reg'', io_issuerSecret = replicate 32 (CHR ''s''), io_journalled = True \<rparr>"

definition sample_request :: issuance_request where
  "sample_request = \<lparr> iq_enrollmentId = ''e1'', iq_provider = RarimoProvider, iq_evidenceAuthorization = ''auth'',
     iq_holderBinding = replicate 32 (CHR ''b''),
     iq_claims = \<lparr> cl_issuerId = ''is'', cl_country = ''AR'', cl_ageClass = Adult, cl_assurance = Document,
       cl_credentialEpoch = 1, cl_validFrom = ''f'', cl_validUntil = ''u'' \<rparr> \<rparr>"

text \<open>A first run whose executor does not answer, and one whose executor confirms.\<close>

definition lost_run :: issuer_env where
  "lost_run = \<lparr> ie_validates = True, ie_randomBytes = replicate 32 (CHR ''r''), ie_gate = Inr (), ie_receipt = Inl ''timeout'' \<rparr>"

definition good_run :: issuer_env where
  "good_run = lost_run \<lparr> ie_receipt := Inr (sample_receipt \<lparr> r_action := Credential, r_circuit := ''addCredential'',
     r_contractAddress := ''reg'', r_network := Preview \<rparr>) \<rparr>"

definition sample_day :: "issuer_event list" where
  "sample_day = [Request sample_request, RunQueue lost_run, RestartIssuer, Request sample_request, RunQueue good_run]"

lemma sample_issuing: "issuing sample_issuer_runtime sample_sha sample_options"
  by (simp add: issuing_def sample_issuer_runtime_def sample_options_def sample_sha_hex)

lemma sample_day_ok: "\<forall>ev \<in> set sample_day. event_ok ev" "request_ok sample_request" "env_ok good_run"
  by (simp_all add: sample_day_def event_ok_def request_ok_def env_ok_def sample_request_def lost_run_def good_run_def)
     (code_simp+)?

abbreviation "sample_issuer \<equiv> issuer_run sample_issuer_runtime sample_clock sample_sha (file_books sample_sha) sample_options sample_day
  (new_issuer_process NoFile NoFile)"

lemma sample_added: "map fst (ist_added (is_state sample_issuer)) = [sample_request, sample_request]"
  by code_simp

theorem evidence_serves_one_enrollment_witness:
  "\<exists>s1 s2. ist_added (is_state sample_issuer) = [(sample_request, s1), (sample_request, s2)]
    \<and> digest sample_sha ''enrollment'' (iq_enrollmentId sample_request) = digest sample_sha ''enrollment'' (iq_enrollmentId sample_request)"
proof -
  obtain s1 s2 where a: "ist_added (is_state sample_issuer) = [(sample_request, s1), (sample_request, s2)]"
    using sample_added by (auto simp: map_eq_Cons_conv)
  have "(sample_request, s1) \<in> set (ist_added (is_state sample_issuer))" "(sample_request, s2) \<in> set (ist_added (is_state sample_issuer))"
    by (simp_all add: a)
  from evidence_serves_one_enrollment [OF sample_issuing sample_files_ok(1,2) sample_day_ok(1) refl this refl] a show ?thesis by blast
qed

lemma sample_issued:
  "is_ok (snd (issueOnce sample_issuer_runtime sample_clock sample_sha (file_books sample_sha) sample_options good_run sample_request
     (is_state (new_issuer_process NoFile NoFile))))"
  by code_simp

theorem credential_is_issued_once_witness:
  "\<exists>result. snd (issueOnce sample_issuer_runtime sample_clock sample_sha (file_books sample_sha) sample_options good_run sample_request
        (is_state (new_issuer_process NoFile NoFile))) = Inr result
    \<and> (\<forall>st1. fst (issueOnce sample_issuer_runtime sample_clock sample_sha (file_books sample_sha) sample_options good_run sample_request
          (is_state (new_issuer_process NoFile NoFile))) = st1
        \<longrightarrow> issueOnce sample_issuer_runtime sample_clock sample_sha (file_books sample_sha) sample_options lost_run sample_request st1
           = (st1, Inr result))"
proof -
  let ?p = "new_issuer_process NoFile NoFile :: (json_file, json_file) issuer"
  obtain st1 res where 1: "issueOnce sample_issuer_runtime sample_clock sample_sha (file_books sample_sha) sample_options good_run
      sample_request (is_state ?p) = (st1, res)"
    by (cases rule: prod.exhaust)
  obtain result where r: "res = Inr result" using sample_issued 1 by (auto simp: is_ok_iff)
  define v1 where "v1 = ?p \<lparr> is_state := st1 \<rparr>"
  have v1: "is_state v1 = st1" "\<forall>q \<in> set (is_queue v1). request_ok q" by (simp_all add: v1_def new_issuer_process_def)
  have start: "evidence_file_ok sample_sha (ist_evidence (is_state ?p))" "issuance_file_ok sample_sha (ist_journal (is_state ?p))"
    using sample_files_ok by (simp_all add: new_issuer_process_def)
  have "issueOnce sample_issuer_runtime sample_clock sample_sha (file_books sample_sha) sample_options lost_run sample_request st1
      = (st1, Inr result)"
    using credential_is_issued_once [OF sample_issuing start sample_day_ok(2,3) 1 [unfolded r] v1, of "[]" v1 sample_request lost_run]
    by (simp add: issuer_run_def v1(1))
  then show ?thesis using 1 r by simp
qed

end
