(* ===== verification/Capability_Issuer.thy ===== *)
theory Capability_Issuer
  imports V2_Capability V2_Hash
begin

text \<open>
  The credential service's issuer of action capabilities
  (\<open>cico-service/src/action-capability-issuer.ts\<close>), and its agreement with the
  relay's verifier. The store of credential handles is a parameter; the HMAC is
  node's, as for the verifier.
\<close>

section \<open>Issuer\<close>

record capability_request =
  ca_actionId :: string
  ca_idempotencyKey :: string
  ca_requestHash :: string
  ca_network :: string
  ca_contractAddress :: string
  ca_circuit :: string
  ca_action :: CivicActionKind
  ca_credentialAuthorization :: string

record capability_issuer =
  ci_secret :: string
  ci_allowedNetworks :: "string list"
  ci_allowedContracts :: "string list"
  ci_allowedCircuits :: "string list"
  ci_ttlSeconds :: int

datatype issuer_error = SecretTooShort | EmptyAllowlist | TtlOutOfRange

definition new_capability_issuer ::
  "string \<Rightarrow> string list \<Rightarrow> string list \<Rightarrow> string list \<Rightarrow> int option \<Rightarrow> (issuer_error, capability_issuer) result" where
  "new_capability_issuer secret networks contracts circuits ttl =
     rbind (check (length secret \<ge> 32) SecretTooShort) (\<lambda>_.
     rbind (check (networks \<noteq> [] \<and> contracts \<noteq> [] \<and> circuits \<noteq> []) EmptyAllowlist) (\<lambda>_.
     let seconds = (case ttl of Some t \<Rightarrow> t | None \<Rightarrow> 120) in
     rbind (check (15 \<le> seconds \<and> seconds \<le> 600) TtlOutOfRange) (\<lambda>_.
     Inr \<lparr> ci_secret = secret, ci_allowedNetworks = networks, ci_allowedContracts = contracts,
           ci_allowedCircuits = circuits, ci_ttlSeconds = seconds \<rparr>)))"

text \<open>The one error every refusal raises, with status 403.\<close>

datatype action_capability_error = ActionCapabilityError

definition capability_request_ok :: "capability_request \<Rightarrow> bool" where
  "capability_request_ok r =
     (list_all (\<lambda>v. v \<noteq> [] \<and> length v \<le> 256)
        [ca_actionId r, ca_idempotencyKey r, ca_network r, ca_contractAddress r, ca_circuit r, ca_credentialAuthorization r]
      \<and> is_hex64 (ca_requestHash r))"

definition issuerActionForCircuit :: "string \<Rightarrow> CivicActionKind option" where
  "issuerActionForCircuit circuit = (if circuit = ''castVote'' then Some Vote else None)"

definition issued_payload :: "capability_request \<Rightarrow> int \<Rightarrow> json" where
  "issued_payload r expiresAt = JObj
     [(''v'', JNum (JInt 1)), (''actionId'', JStr (ca_actionId r)), (''idempotencyKey'', JStr (ca_idempotencyKey r)),
      (''network'', JStr (ca_network r)), (''contractAddress'', JStr (ca_contractAddress r)),
      (''circuit'', JStr (ca_circuit r)), (''action'', JStr (action_str (ca_action r))),
      (''requestHash'', JStr (ca_requestHash r)), (''expiresAt'', JNum (JInt expiresAt))]"

definition issue_capability ::
  "(string \<Rightarrow> string \<Rightarrow> string) \<Rightarrow> (string \<Rightarrow> bool) \<Rightarrow> capability_issuer \<Rightarrow> int \<Rightarrow> capability_request
     \<Rightarrow> (action_capability_error, string) result" where
  "issue_capability hmac handle_exists iss nowSeconds r =
     rbind (check (capability_request_ok r) ActionCapabilityError) (\<lambda>_.
     rbind (check (ca_network r \<in> set (ci_allowedNetworks iss)) ActionCapabilityError) (\<lambda>_.
     rbind (check (ca_contractAddress r \<in> set (ci_allowedContracts iss)) ActionCapabilityError) (\<lambda>_.
     rbind (check (ca_circuit r \<in> set (ci_allowedCircuits iss)) ActionCapabilityError) (\<lambda>_.
     rbind (check (issuerActionForCircuit (ca_circuit r) = Some (ca_action r)) ActionCapabilityError) (\<lambda>_.
     rbind (check (handle_exists (ca_credentialAuthorization r)) ActionCapabilityError) (\<lambda>_.
     let payload = base64Url (utf8 (stringify (issued_payload r (nowSeconds + ci_ttlSeconds iss))));
         mac = hmac (utf8 (ci_secret iss)) (utf8 (''midnight-referendum:v2-capability:1:'' @ payload))
     in Inr (payload @ ''.'' @ base64Url mac)))))))"

section \<open>Agreement with the relay\<close>

definition issued_claims :: "capability_request \<Rightarrow> capability_claims" where
  "issued_claims r = \<lparr> cc_actionId = ca_actionId r, cc_idempotencyKey = ca_idempotencyKey r, cc_network = ca_network r,
     cc_contractAddress = ca_contractAddress r, cc_circuit = ca_circuit r, cc_action = ca_action r,
     cc_requestHash = ca_requestHash r \<rparr>"

lemma issued_payload_claims: "issued_payload r e = claims_json (issued_claims r) e"
  by (simp add: issued_payload_def claims_json_def issued_claims_def)

lemma issue_Inr:
  assumes "issue_capability hmac handle_exists iss now r = Inr token"
  shows "token = signV2Capability hmac (issued_claims r) (now + ci_ttlSeconds iss) (ci_secret iss)"
    "handle_exists (ca_credentialAuthorization r)" "ca_circuit r = ''castVote''" "ca_action r = Vote"
    "ca_network r \<in> set (ci_allowedNetworks iss)" "ca_contractAddress r \<in> set (ci_allowedContracts iss)"
    "capability_request_ok r"
  using assms
  by (auto simp: issue_capability_def issued_payload_claims signV2Capability_def signature_def issuerActionForCircuit_def
      Let_def split: if_splits)

lemma new_issuer_Inr:
  assumes "new_capability_issuer secret networks contracts circuits ttl = Inr iss"
  shows "ci_secret iss \<noteq> []" "15 \<le> ci_ttlSeconds iss" "ci_ttlSeconds iss \<le> 600"
  using assms by (auto simp: new_capability_issuer_def Let_def)

section \<open>Properties\<close>

lemma issued_capability_law:
  assumes "new_capability_issuer secret networks contracts circuits ttl = Inr iss"
    and "issue_capability hmac handle_exists iss issued r = Inr token"
    and "length token \<le> 4096" "\<And>k m. hmac k m \<noteq> []" "0 \<le> issued" "issued \<le> max_safe - 600"
  shows "verifyV2Capability sha256 hmac token (ci_secret iss) (issued_claims r) now
      = (if now < issued + ci_ttlSeconds iss then Inr (digestCapability sha256 token, issued + ci_ttlSeconds iss)
         else Inl ExpiredCapability)
    \<and> 15 \<le> ci_ttlSeconds iss \<and> ci_ttlSeconds iss \<le> 600
    \<and> handle_exists (ca_credentialAuthorization r) \<and> ca_circuit r = ''castVote'' \<and> ca_action r = Vote
    \<and> ca_network r \<in> set (ci_allowedNetworks iss) \<and> ca_contractAddress r \<in> set (ci_allowedContracts iss)"
proof -
  note i = issue_Inr [OF assms(2)] and n = new_issuer_Inr [OF assms(1)]
  let ?e = "issued + ci_ttlSeconds iss"
  have e: "\<bar>?e\<bar> \<le> max_safe" using assms(5,6) n by simp
  have "verifyV2Capability sha256 hmac token (ci_secret iss) (issued_claims r) now
      = rbind (verify_payload (Some (claims_json (issued_claims r) ?e)) (issued_claims r) now)
          (\<lambda>x. Inr (digestCapability sha256 token, x))"
    unfolding i(1) using n(1) assms(3,4) i(1) by (intro verify_signed) (simp_all add: signature_def)
  moreover have "verify_payload (Some (claims_json (issued_claims r) ?e)) (issued_claims r) now
      = (if now < ?e then Inr ?e else Inl ExpiredCapability)"
    using e verify_payload_claims [OF e] by (simp add: verify_payload_def claims_json_def)
  ultimately show ?thesis using i n by simp
qed


definition sample_issuer :: capability_issuer where
  "sample_issuer = \<lparr> ci_secret = replicate 32 (CHR ''s''), ci_allowedNetworks = [''n''], ci_allowedContracts = [''c''],
     ci_allowedCircuits = [''castVote''], ci_ttlSeconds = 120 \<rparr>"

definition sample_capability_request :: capability_request where
  "sample_capability_request = \<lparr> ca_actionId = ''a'', ca_idempotencyKey = ''k'', ca_requestHash = replicate 64 (CHR ''a''),
     ca_network = ''n'', ca_contractAddress = ''c'', ca_circuit = ''castVote'', ca_action = Vote, ca_credentialAuthorization = ''h'' \<rparr>"

abbreviation sample_issued :: string where
  "sample_issued \<equiv> signV2Capability sample_hmac (issued_claims sample_capability_request) 121 (replicate 32 (CHR ''s''))"

lemma sample_issue:
  "issue_capability sample_hmac (\<lambda>h. h = ''h'') sample_issuer 1 sample_capability_request = Inr sample_issued"
proof -
  have "is_hex64 (replicate 64 (CHR ''a''))" by code_simp
  then show ?thesis
    by (simp add: issue_capability_def capability_request_ok_def issued_payload_claims signV2Capability_def signature_def
        issuerActionForCircuit_def sample_capability_request_def sample_issuer_def Let_def)
qed

lemma sample_issued_length: "length sample_issued \<le> 4096"
  by code_simp

lemma sample_issuer_new:
  "new_capability_issuer (replicate 32 (CHR ''s'')) [''n''] [''c''] [''castVote''] None = Inr sample_issuer"
  by (simp add: new_capability_issuer_def sample_issuer_def)


end
