(* ===== verification/Cico_Http.thy ===== *)
theory Cico_Http
  imports Issuer_Service Root_Publisher Capability_Issuer V2_Http
begin

text \<open>
  The credential service's HTTP surface (\<open>cico-service/src/http.ts\<close>). A request is its
  method, the path name of its target (\<^const>\<open>None\<close> when the URL parser refuses it), its
  \<open>Origin\<close> header and its body as chunks of bytes. The gateway, the issuers and the
  enrolment status are ports: operations on the state of the service that may fail.
  The conventions on bodies are those of \<open>V2_Http\<close>.
\<close>

section \<open>Requests, answers and ports\<close>

record cico_request =
  cq_method :: string
  cq_pathname :: "string option"
  cq_origin :: "string option"
  cq_chunks :: "string list"

record cico_answer =
  ca_status :: int
  ca_headers :: "(string \<times> string) list"
  ca_body :: "json option"

datatype cico_error = HttpProblem int string | CapabilityRefused int | OtherFailure

type_synonym ('s, 'a) action = "'s \<Rightarrow> 's \<times> (cico_error, 'a) result"

record 's cico_ports =
  cp_createVerificationRequest :: "json \<Rightarrow> ('s, json) action"
  cp_getVerificationStatus :: "string \<Rightarrow> ('s, string) action"
  cp_getVerifiedEvidence :: "string \<Rightarrow> ('s, json) action"
  cp_deleteVerification :: "string \<Rightarrow> ('s, unit) action"
  cp_issueCredential :: "issuance_request \<Rightarrow> ('s, issuance_result) action"
  cp_issueCapability :: "(capability_request \<Rightarrow> ('s, string) action) option"
  cp_enrollmentStatus :: "('s \<Rightarrow> publisher_status) option"

definition abind :: "('s, 'a) action \<Rightarrow> ('a \<Rightarrow> ('s, 'b) action) \<Rightarrow> ('s, 'b) action" where
  "abind m f s = (case m s of (s', Inl e) \<Rightarrow> (s', Inl e) | (s', Inr a) \<Rightarrow> f a s')"

definition apure :: "(cico_error, 'a) result \<Rightarrow> ('s, 'a) action" where
  "apure r s = (s, r)"

section \<open>Origins\<close>

record origin_url =
  ou_pathname :: string
  ou_search :: string
  ou_hash :: string
  ou_username :: string
  ou_password :: string
  ou_origin :: string

definition normalizeOrigin :: "(string \<Rightarrow> origin_url option) \<Rightarrow> string \<Rightarrow> string option" where
  "normalizeOrigin parse_url value = (case parse_url value of
     None \<Rightarrow> None
   | Some url \<Rightarrow>
       if ou_pathname url \<noteq> ''/'' \<or> ou_search url \<noteq> [] \<or> ou_hash url \<noteq> [] \<or> ou_username url \<noteq> [] \<or> ou_password url \<noteq> []
       then None else Some (ou_origin url))"

record cico_service =
  cs_allowedOrigins :: "string list"
  cs_maxBodyBytes :: int

datatype service_error = NoOrigins | BadOrigin | BadBodyLimit

definition createCicoHttpService ::
  "(string \<Rightarrow> origin_url option) \<Rightarrow> string list \<Rightarrow> int option \<Rightarrow> (service_error, cico_service) result" where
  "createCicoHttpService parse_url origins maxBody =
     rbind (check (origins \<noteq> []) NoOrigins) (\<lambda>_.
     rbind (mapM (\<lambda>v. case normalizeOrigin parse_url v of None \<Rightarrow> Inl BadOrigin | Some o' \<Rightarrow> Inr o') origins) (\<lambda>allowed.
     let limit = (case maxBody of Some n \<Rightarrow> n | None \<Rightarrow> 64 * 1024) in
     rbind (check (0 < limit \<and> limit \<le> max_safe) BadBodyLimit) (\<lambda>_.
     Inr \<lparr> cs_allowedOrigins = allowed, cs_maxBodyBytes = limit \<rparr>)))"

definition requiresTrustedBrowserOrigin :: "string \<Rightarrow> string \<Rightarrow> bool" where
  "requiresTrustedBrowserOrigin method pathname =
     (take 4 pathname = ''/v1/'' \<or> (method \<noteq> ''GET'' \<and> method \<noteq> ''HEAD''))"

definition securityHeaders :: "(string \<times> string) list" where
  "securityHeaders = [(''cache-control'', ''no-store''), (''x-content-type-options'', ''nosniff''), (''referrer-policy'', ''no-referrer'')]"

definition corsHeaders :: "string \<Rightarrow> (string \<times> string) list" where
  "corsHeaders origin = [(''access-control-allow-origin'', origin), (''vary'', ''Origin''), (''access-control-allow-credentials'', ''true'')]"

definition preflightHeaders :: "(string \<times> string) list" where
  "preflightHeaders = [(''access-control-allow-methods'', ''GET, POST, DELETE, OPTIONS''), (''access-control-allow-headers'', ''content-type'')]"

section \<open>Bodies\<close>

fun cico_chunks :: "int \<Rightarrow> int \<Rightarrow> string list \<Rightarrow> string list \<Rightarrow> (cico_error, string list) result" where
  "cico_chunks maximum seen chunks [] = Inr chunks"
| "cico_chunks maximum seen chunks (c # cs) =
     (let seen' = seen + int (length c) in
      if seen' > maximum then Inl (HttpProblem 413 ''Request body is too large'')
      else cico_chunks maximum seen' (chunks @ [c]) cs)"

definition cico_readJson :: "cico_request \<Rightarrow> int \<Rightarrow> (cico_error, json) result" where
  "cico_readJson req maximum =
     rbind (cico_chunks maximum 0 [] (cq_chunks req)) (\<lambda>chunks.
       case Option.bind (utf8_decode (concat chunks)) json_parse of
         None \<Rightarrow> Inl (HttpProblem 400 ''Request body must be valid JSON'')
       | Some v \<Rightarrow> Inr v)"

definition requiredStrings :: "string list" where
  "requiredStrings = [''requestId'', ''eventId'', ''eventData'', ''eventDataDecimal'', ''selector'',
     ''birthDateLowerBound'', ''birthDateUpperBound'', ''identityCounterLowerBound'', ''identityCounterUpperBound'',
     ''expirationDateLowerBound'', ''expirationDateUpperBound'', ''timestampLowerBound'', ''timestampUpperBound'']"

fun require_strings :: "string list \<Rightarrow> json \<Rightarrow> (cico_error, unit) result" where
  "require_strings [] v = Inr ()"
| "require_strings (key # keys) v =
     (if truthy_str (as_str (fld v key)) = None then Inl (HttpProblem 400 (''Invalid verification request '' @ key))
      else require_strings keys v)"

text \<open>\<open>/^0x[0-9a-f]+$/iu\<close>.\<close>

definition hex_literal :: "string \<Rightarrow> bool" where
  "hex_literal s = (toLowerCase (take 2 s) = ''0x'' \<and> drop 2 s \<noteq> [] \<and> list_all any_hex (drop 2 s))"

definition parseVerificationRequest :: "json \<Rightarrow> (cico_error, json) result" where
  "parseVerificationRequest value =
     rbind (check (isRecord value) (HttpProblem 400 ''Invalid verification request'')) (\<lambda>_.
     rbind (require_strings requiredStrings value) (\<lambda>_.
     rbind (check (hex_literal (the (as_str (fld value ''eventData'')))) (HttpProblem 400 ''eventData must be hexadecimal'')) (\<lambda>_.
     rbind (check (fld value ''citizenshipMask'' = None \<or> is_str (fld value ''citizenshipMask''))
       (HttpProblem 400 ''Invalid citizenship mask'')) (\<lambda>_.
     Inr value))))"

definition cico_parseBytes32 :: "json option \<Rightarrow> string \<Rightarrow> (cico_error, string) result" where
  "cico_parseBytes32 value label = (case as_str value of
     Some s \<Rightarrow> if length s = 64 \<and> list_all any_hex s then Inr (bytesFromHex s)
               else Inl (HttpProblem 400 (label @ '' must be 32-byte hexadecimal data''))
   | None \<Rightarrow> Inl (HttpProblem 400 (label @ '' must be 32-byte hexadecimal data'')))"

definition isAgeClass :: "json option \<Rightarrow> CredentialAgeClass option" where
  "isAgeClass v = (case as_str v of
     None \<Rightarrow> None
   | Some s \<Rightarrow> find (\<lambda>a. age_class_str a = s) [AgeUnknown, Under18, Adult])"

text \<open>\<open>isoNumericCountry\<close> throws a \<open>TypeError\<close> and not an \<open>HttpProblem\<close>.\<close>

definition parseClaims :: "json \<Rightarrow> (cico_error, credential_claims) result" where
  "parseClaims value =
     (case (as_str (fld value ''issuerId''), as_str (fld value ''country''), isAgeClass (fld value ''ageClass''),
            isCredentialAssurance (fld value ''assurance''), safe_int (fld value ''credentialEpoch''),
            as_str (fld value ''validFrom''), as_str (fld value ''validUntil'')) of
        (Some issuerId, Some country, Some ageClass, Some assurance, Some epoch, Some validFrom, Some validUntil) \<Rightarrow>
          if \<not> isIsoNumericCountry (Some (JStr country)) then Inl OtherFailure
          else Inr \<lparr> cl_issuerId = issuerId, cl_country = country, cl_ageClass = ageClass, cl_assurance = assurance,
                     cl_credentialEpoch = epoch, cl_validFrom = validFrom, cl_validUntil = validUntil \<rparr>
      | _ \<Rightarrow> Inl (HttpProblem 400 ''Invalid minimal credential claims''))"

definition issuer_provider :: "json option \<Rightarrow> CredentialProvider option" where
  "issuer_provider v = (case as_str v of
     None \<Rightarrow> None
   | Some s \<Rightarrow> find (\<lambda>p. provider_str p = s) [RarimoProvider, PassportNativeProvider])"

definition parseIssuanceRequest :: "json \<Rightarrow> (cico_error, issuance_request) result" where
  "parseIssuanceRequest value =
     (case (as_str (fld value ''enrollmentId''), issuer_provider (fld value ''provider''),
            as_str (fld value ''evidenceAuthorization''), fld value ''claims'') of
        (Some enrollmentId, Some provider, Some evidence, Some claims) \<Rightarrow>
          if \<not> isRecord claims then Inl (HttpProblem 400 ''Invalid credential issuance request'')
          else rbind (parseClaims claims) (\<lambda>c.
               rbind (cico_parseBytes32 (fld value ''holderBindingHex'') ''holderBindingHex'') (\<lambda>binding.
               Inr \<lparr> iq_enrollmentId = enrollmentId, iq_provider = provider, iq_evidenceAuthorization = evidence,
                     iq_holderBinding = binding, iq_claims = c \<rparr>))
      | _ \<Rightarrow> Inl (HttpProblem 400 ''Invalid credential issuance request''))"

definition parseActionCapabilityRequest :: "json \<Rightarrow> (cico_error, capability_request) result" where
  "parseActionCapabilityRequest value =
     (case (as_str (fld value ''actionId''), as_str (fld value ''idempotencyKey''), as_str (fld value ''requestHash''),
            as_str (fld value ''network''), as_str (fld value ''contractAddress''), as_str (fld value ''circuit''),
            isAction (fld value ''action''), as_str (fld value ''credentialAuthorization'')) of
        (Some actionId, Some key, Some hash, Some network, Some address, Some circuit, Some kind, Some handle) \<Rightarrow>
          Inr \<lparr> ca_actionId = actionId, ca_idempotencyKey = key, ca_requestHash = hash, ca_network = network,
                ca_contractAddress = address, ca_circuit = circuit, ca_action = kind, ca_credentialAuthorization = handle \<rparr>
      | _ \<Rightarrow> Inl (HttpProblem 400 ''Invalid action capability request''))"

section \<open>Answers\<close>

definition forbiddenResponseKeys :: "string list" where
  "forbiddenResponseKeys = [''proof'', ''proofdata'', ''proofenvelope'', ''pubsignals'', ''mrz'', ''birthdate'',
     ''passportnumber'', ''nfc'', ''dg1'', ''dg2'', ''choice'', ''votersecret'', ''holderblind'']"

text \<open>\<open>key.toLowerCase().replace(/[^a-z0-9]/gu, '')\<close>.\<close>

definition normalized_key :: "string \<Rightarrow> string" where
  "normalized_key key = filter (\<lambda>c. is_digit c \<or> (97 \<le> (of_char c :: nat) \<and> (of_char c :: nat) \<le> 122)) (toLowerCase key)"

fun free_of_keys :: "string list \<Rightarrow> json \<Rightarrow> bool" where
  "free_of_keys ks (JArr xs) = list_all (free_of_keys ks) xs"
| "free_of_keys ks (JObj ps) = list_all (\<lambda>(k, v). normalized_key k \<notin> set ks \<and> free_of_keys ks v) ps"
| "free_of_keys ks _ = True"

definition assertSafeResponse :: "json \<Rightarrow> (cico_error, unit) result" where
  "assertSafeResponse value = check (free_of_keys forbiddenResponseKeys value)
     (HttpProblem 500 ''Service attempted to expose forbidden passport material'')"

definition sendSafeJson :: "int \<Rightarrow> json \<Rightarrow> (cico_error, int \<times> json option) result" where
  "sendSafeJson status value = rbind (assertSafeResponse value) (\<lambda>_. Inr (status, Some value))"

definition message_body :: "string \<Rightarrow> json" where
  "message_body m = JObj [(''message'', JStr m)]"

definition cico_bytesToHex :: "string \<Rightarrow> (cico_error, string) result" where
  "cico_bytesToHex value =
     (if length value \<noteq> 32 then Inl (HttpProblem 500 ''Issuer returned invalid private material'') else Inr (bytesToHex value))"

definition opt_num :: "int option \<Rightarrow> json" where
  "opt_num v = (case v of None \<Rightarrow> JNull | Some n \<Rightarrow> JNum (JInt n))"

definition enrollment_json :: "publisher_status \<Rightarrow> json" where
  "enrollment_json st = JObj
     [(''pendingCount'', opt_num (pt_pendingCount st)), (''minBatchSize'', JNum (JInt (pt_minBatchSize st))),
      (''maxWaitMs'', JNum (JInt (pt_maxWaitMs st))), (''pendingSinceUnixMs'', opt_num (pt_pendingSinceMs st)),
      (''publishesNoLaterThanUnixMs'', opt_num (pt_publishesNoLaterThanMs st)),
      (''lastPublishedAtUnixMs'', opt_num (pt_lastPublishedAtMs st)), (''observedAtUnixMs'', JNum (JInt (pt_observedAtMs st)))]"

definition issuance_json :: "issuance_result \<Rightarrow> (cico_error, json) result" where
  "issuance_json r =
     rbind (cico_bytesToHex (ir_credentialBlind r)) (\<lambda>blind.
     rbind (cico_bytesToHex (ir_credentialLeaf r)) (\<lambda>leaf.
     Inr (JObj [(''issuanceId'', JStr (ir_issuanceId r)), (''credentialBlindHex'', JStr blind),
                (''credentialLeafHex'', JStr leaf), (''receipt'', receipt_json (ir_receipt r))])))"

section \<open>Routes\<close>

definition decodeId :: "string \<Rightarrow> (cico_error, string) result" where
  "decodeId value = (case decodeURIComponent value of
     Some s \<Rightarrow> Inr s | None \<Rightarrow> Inl (HttpProblem 400 ''Request ID is invalid''))"

definition requests_prefix :: string where
  "requests_prefix = ''/v1/rarimo/verification-requests/''"

text \<open>\<open>/^...\/([^/]+)\/status$/u\<close> and its twin for evidence.\<close>

definition suffix_match :: "string \<Rightarrow> string \<Rightarrow> string \<Rightarrow> string option" where
  "suffix_match prefix suffix path =
     (let rest = drop (length prefix) path; segment = takeWhile (\<lambda>c. c \<noteq> CHR ''/'') rest in
      if take (length prefix) path = prefix \<and> segment \<noteq> [] \<and> dropWhile (\<lambda>c. c \<noteq> CHR ''/'') rest = suffix then Some segment else None)"

definition routeRequest :: "'s cico_ports \<Rightarrow> int \<Rightarrow> cico_request \<Rightarrow> string \<Rightarrow> ('s, int \<times> json option) action" where
  "routeRequest ports maximum req path =
     (let is_method = (\<lambda>m. cq_method req = m); body = cico_readJson req maximum in
      if is_method ''GET'' \<and> path = ''/health''
      then apure (Inr (200, Some (JObj [(''status'', JStr ''ok''), (''service'', JStr ''cico-passport-boundary'')])))
      else if is_method ''POST'' \<and> path = ''/v1/rarimo/verification-requests''
      then abind (apure (rbind body parseVerificationRequest)) (\<lambda>r.
           abind (cp_createVerificationRequest ports r) (\<lambda>link. apure (sendSafeJson 201 link)))
      else if is_method ''GET'' \<and> suffix_match requests_prefix ''/status'' path \<noteq> None
      then abind (apure (decodeId (the (suffix_match requests_prefix ''/status'' path)))) (\<lambda>i.
           abind (cp_getVerificationStatus ports i) (\<lambda>status. apure (sendSafeJson 200 (JObj [(''status'', JStr status)]))))
      else if is_method ''GET'' \<and> suffix_match requests_prefix ''/evidence'' path \<noteq> None
      then abind (apure (decodeId (the (suffix_match requests_prefix ''/evidence'' path)))) (\<lambda>i.
           abind (cp_getVerifiedEvidence ports i) (\<lambda>evidence. apure (sendSafeJson 200 evidence)))
      else if is_method ''DELETE'' \<and> path_match requests_prefix path \<noteq> None
      then abind (apure (decodeId (the (path_match requests_prefix path)))) (\<lambda>i.
           abind (cp_deleteVerification ports i) (\<lambda>_. apure (Inr (204, None))))
      else if is_method ''GET'' \<and> path = ''/v1/enrollment/status''
      then (case cp_enrollmentStatus ports of
              None \<Rightarrow> apure (Inl (HttpProblem 503 ''Enrollment status unavailable''))
            | Some read \<Rightarrow> (\<lambda>s. (s, sendSafeJson 200 (enrollment_json (read s)))))
      else if is_method ''POST'' \<and> path = ''/v1/credentials/issuances''
      then abind (apure (rbind body parseIssuanceRequest)) (\<lambda>r.
           abind (cp_issueCredential ports r) (\<lambda>result. apure (rbind (issuance_json result) (sendSafeJson 201))))
      else if is_method ''POST'' \<and> path = ''/v1/action-capabilities''
      then (case cp_issueCapability ports of
              None \<Rightarrow> apure (Inl (HttpProblem 503 ''Action capability issuer unavailable''))
            | Some issue \<Rightarrow>
                abind (apure (rbind body parseActionCapabilityRequest)) (\<lambda>r.
                abind (issue r) (\<lambda>token. apure (sendSafeJson 201 (JObj [(''actionCapability'', JStr token)])))))
      else apure (Inr (404, Some (message_body ''Route not found''))))"

definition failure_answer :: "(string \<times> string) list \<Rightarrow> cico_error \<Rightarrow> cico_answer" where
  "failure_answer headers e =
     (let unfinished = ''The CICO service could not complete the request'' in
      case e of
        HttpProblem status m \<Rightarrow> \<lparr> ca_status = status, ca_headers = headers, ca_body = Some (message_body m) \<rparr>
      | CapabilityRefused status \<Rightarrow> \<lparr> ca_status = status, ca_headers = headers, ca_body = Some (message_body unfinished) \<rparr>
      | OtherFailure \<Rightarrow> \<lparr> ca_status = 500, ca_headers = headers, ca_body = Some (message_body unfinished) \<rparr>)"

definition refuse_origin :: "string \<Rightarrow> cico_answer" where
  "refuse_origin m = \<lparr> ca_status = 403, ca_headers = securityHeaders, ca_body = Some (message_body m) \<rparr>"

text \<open>After the origin was let through, with the headers set so far.\<close>

definition serve_route ::
  "'s cico_ports \<Rightarrow> cico_service \<Rightarrow> cico_request \<Rightarrow> (string \<times> string) list \<Rightarrow> 's \<Rightarrow> 's \<times> cico_answer" where
  "serve_route ports service req headers s =
     (if cq_method req = ''OPTIONS'' then (s, \<lparr> ca_status = 204, ca_headers = headers @ preflightHeaders, ca_body = None \<rparr>)
      else case cq_pathname req of
        None \<Rightarrow> (s, failure_answer headers OtherFailure)
      | Some path \<Rightarrow>
          (case routeRequest ports (cs_maxBodyBytes service) req path s of
             (s', Inl e) \<Rightarrow> (s', failure_answer headers e)
           | (s', Inr (status, b)) \<Rightarrow> (s', \<lparr> ca_status = status, ca_headers = headers, ca_body = b \<rparr>)))"

definition cico_serve ::
  "(string \<Rightarrow> origin_url option) \<Rightarrow> 's cico_ports \<Rightarrow> cico_service \<Rightarrow> cico_request \<Rightarrow> 's \<Rightarrow> 's \<times> cico_answer" where
  "cico_serve parse_url ports service req s =
     (case truthy_str (cq_origin req) of
        None \<Rightarrow>
          (case cq_pathname req of
             None \<Rightarrow> (s, failure_answer securityHeaders OtherFailure)
           | Some path \<Rightarrow>
               if requiresTrustedBrowserOrigin (cq_method req) path then (s, refuse_origin ''A trusted browser Origin is required'')
               else serve_route ports service req securityHeaders s)
      | Some origin \<Rightarrow>
          (case normalizeOrigin parse_url origin of
             None \<Rightarrow> (s, refuse_origin ''Origin is not allowed'')
           | Some normalized \<Rightarrow>
               if normalized \<notin> set (cs_allowedOrigins service) then (s, refuse_origin ''Origin is not allowed'')
               else serve_route ports service req (securityHeaders @ corsHeaders normalized) s))"

end
