(* ===== verification/Passport_Client.thy ===== *)
theory Passport_Client
  imports Cico_Http Walletless_Client
begin

text \<open>
  The browser's client of the credential service
  (\<open>ui/src/integration/passport-v2-http-ports.ts\<close>). As for the relay's client an
  operation is the request it hands to \<open>fetch\<close> and what it makes of the answer;
  the answer's payload is \<^const>\<open>None\<close> when \<open>response.json()\<close> throws.
\<close>

section \<open>Construction\<close>

datatype passport_error =
    CivicCredentialError CivicCredentialErrorCode string bool
  | PassportFetchFailed
  | PassportBodyNotJson
  | PassportTypeError string

record base_url =
  bu_protocol :: string
  bu_hostname :: string
  bu_username :: string
  bu_password :: string
  bu_search :: string
  bu_hash :: string
  bu_href :: string

definition validateBaseUrl :: "(string \<Rightarrow> base_url option) \<Rightarrow> string \<Rightarrow> (passport_error, string) result" where
  "validateBaseUrl parse_url value = (case parse_url value of
     None \<Rightarrow> Inl (PassportTypeError ''VITE_PASSPORT_V2_API_URL must be an absolute URL'')
   | Some url \<Rightarrow>
       let local_host = (bu_hostname url = ''localhost'' \<or> bu_hostname url = ''127.0.0.1'') in
       rbind (check (bu_protocol url = ''https:'' \<or> (local_host \<and> bu_protocol url = ''http:''))
         (PassportTypeError ''Passport v2 backend requires HTTPS or localhost'')) (\<lambda>_.
       rbind (check (bu_username url = [] \<and> bu_password url = [] \<and> bu_search url = [] \<and> bu_hash url = [])
         (PassportTypeError ''Passport v2 backend URL must not contain credentials, query, or fragment'')) (\<lambda>_.
       Inr (strip_slashes (bu_href url)))))"

section \<open>Requests and answers\<close>

definition passport_request :: "string \<Rightarrow> string \<Rightarrow> string \<Rightarrow> json option \<Rightarrow> fetch_request" where
  "passport_request baseUrl path method body = \<lparr> fr_method = method, fr_url = baseUrl @ path,
     fr_headers = (''accept'', ''application/json'') # (if body \<noteq> None then [(''content-type'', ''application/json'')] else []),
     fr_body = map_option stringify body \<rparr>"

definition forbiddenEvidenceKeys :: "string list" where
  "forbiddenEvidenceKeys = [''proof'', ''proofdata'', ''proofenvelope'', ''pubsignals'', ''mrz'', ''birthdate'',
     ''passportnumber'', ''nfc'', ''dg1'', ''dg2'']"

definition invalidResponse :: "string \<Rightarrow> passport_error" where
  "invalidResponse m = CivicCredentialError ADAPTER_UNAVAILABLE m True"

definition assertNoRawEvidence :: "json \<Rightarrow> (passport_error, unit) result" where
  "assertNoRawEvidence value = check (free_of_keys forbiddenEvidenceKeys value)
     (invalidResponse ''Backend response crossed the raw passport evidence boundary'')"

definition passport_response :: "fetch_answer \<Rightarrow> (passport_error, json) result" where
  "passport_response answer = (case answer of
     FetchRejected \<Rightarrow> Inl PassportFetchFailed
   | Fetched status payload \<Rightarrow>
       if \<not> response_ok status then
         (let problem = (case payload of Some v \<Rightarrow> v | None \<Rightarrow> JNull);
              m = (case as_str (fld problem ''message'') of Some m \<Rightarrow> m
                   | None \<Rightarrow> ''Passport v2 backend returned HTTP '' @ show_int status)
          in Inl (CivicCredentialError (if status \<ge> 500 then ADAPTER_UNAVAILABLE else INVALID_CREDENTIAL_CLAIMS) m (status \<ge> 500)))
       else if status = 204 then Inr JNull
       else (case payload of
           None \<Rightarrow> Inl PassportBodyNotJson
         | Some body \<Rightarrow> rbind (assertNoRawEvidence body) (\<lambda>_. Inr body)))"

section \<open>Readers\<close>

definition passport_parseBytes32 :: "json option \<Rightarrow> string \<Rightarrow> (passport_error, string) result" where
  "passport_parseBytes32 value label = (case as_str value of
     Some s \<Rightarrow> if length s = 64 \<and> list_all any_hex s then Inr (bytesFromHex s)
               else Inl (invalidResponse (label @ '' must be 32-byte hexadecimal data''))
   | None \<Rightarrow> Inl (invalidResponse (label @ '' must be 32-byte hexadecimal data'')))"

definition passport_bytesToHex :: "string \<Rightarrow> (passport_error, string) result" where
  "passport_bytesToHex value =
     (if length value \<noteq> 32 then Inl (PassportTypeError ''holderBinding must be exactly 32 bytes'') else Inr (bytesToHex value))"

text \<open>The protocol and the printed form of a URL; \<^const>\<open>None\<close> when the parser refuses it.\<close>

definition requireHttpsUrl :: "(string \<Rightarrow> base_url option) \<Rightarrow> string \<Rightarrow> string \<Rightarrow> (passport_error, string) result" where
  "requireHttpsUrl parse_url value label = (case parse_url value of
     None \<Rightarrow> Inl (invalidResponse (''Invalid '' @ label @ '' URL''))
   | Some url \<Rightarrow> if bu_protocol url \<noteq> ''https:'' then Inl (invalidResponse (label @ '' URL must use HTTPS'')) else Inr (bu_href url))"

record verification_link =
  vl_requestId :: string
  vl_userIdHash :: string
  vl_proofParamsUrl :: string
  vl_proofRequestUrl :: string

definition parseVerificationLink :: "(string \<Rightarrow> base_url option) \<Rightarrow> json \<Rightarrow> (passport_error, verification_link) result" where
  "parseVerificationLink parse_url value =
     (case (as_str (fld value ''requestId''), as_str (fld value ''userIdHash''),
            as_str (fld value ''proofParamsUrl''), as_str (fld value ''proofRequestUrl'')) of
        (Some requestId, Some userIdHash, Some params, Some request) \<Rightarrow>
          rbind (requireHttpsUrl parse_url params ''proof parameters'') (\<lambda>p.
          rbind (requireHttpsUrl parse_url request ''proof request'') (\<lambda>r.
          Inr \<lparr> vl_requestId = requestId, vl_userIdHash = userIdHash, vl_proofParamsUrl = p, vl_proofRequestUrl = r \<rparr>))
      | _ \<Rightarrow> Inl (invalidResponse ''Invalid Rarimo verification link''))"

definition verification_statuses :: "string list" where
  "verification_statuses = [''not_verified'', ''verified'', ''failed_verification'', ''uniqueness_check_failed'']"

definition parse_status :: "json \<Rightarrow> (passport_error, string) result" where
  "parse_status body = (case as_str (fld body ''status'') of
     Some s \<Rightarrow> if s \<in> set verification_statuses then Inr s else Inl (invalidResponse ''Invalid Rarimo verification status'')
   | None \<Rightarrow> Inl (invalidResponse ''Invalid Rarimo verification status''))"

definition evidence_strings :: "string list" where
  "evidence_strings = [''requestId'', ''userIdHash'', ''evidenceAuthorization'', ''evidenceFingerprint'', ''eventId'',
     ''eventDataDecimal'', ''selector'', ''timestampUpperBound'', ''identityCounterUpperBound'', ''birthDateUpperBound'',
     ''expirationDateLowerBound'', ''citizenshipAlpha3'']"

fun is_bool :: "json option \<Rightarrow> bool" where
  "is_bool (Some (JBool b)) = True"
| "is_bool _ = False"

definition parseVerifiedEvidence :: "json \<Rightarrow> (passport_error, json) result" where
  "parseVerifiedEvidence value =
     rbind (check (isRecord value \<and> list_all (\<lambda>k. is_str (fld value k)) evidence_strings
       \<and> is_bool (fld value ''adultPredicateSatisfied'')) (invalidResponse ''Invalid verified Rarimo evidence'')) (\<lambda>_. Inr value)"

definition parseCanonicalReceipt :: "json option \<Rightarrow> (passport_error, json) result" where
  "parseCanonicalReceipt v = (case v of
     None \<Rightarrow> Inl (invalidResponse ''Invalid canonical issuance receipt'')
   | Some value \<Rightarrow>
       rbind (check (isRecord value
         \<and> fld value ''status'' = Some (JStr ''confirmed'') \<and> fld value ''action'' = Some (JStr ''credential'')
         \<and> fld value ''network'' \<in> {Some (JStr ''preview''), Some (JStr ''devnet'')}
         \<and> is_str (fld value ''transactionId'') \<and> is_str (fld value ''transactionHash'') \<and> is_str (fld value ''contractAddress'')
         \<and> fld value ''circuit'' = Some (JStr ''addCredential'') \<and> safe_int (fld value ''blockHeight'') \<noteq> None
         \<and> is_str (fld value ''blockHash'') \<and> is_str (fld value ''blockTimestamp'')
         \<and> (fld value ''explorerUrl'' = None \<or> is_str (fld value ''explorerUrl'')))
         (invalidResponse ''Invalid canonical issuance receipt'')) (\<lambda>_. Inr value))"

record received_issuance =
  rc_issuanceId :: string
  rc_credentialBlind :: string
  rc_credentialLeaf :: string
  rc_receipt :: json

definition parseIssuanceResult :: "json \<Rightarrow> (passport_error, received_issuance) result" where
  "parseIssuanceResult value = (case truthy_str (as_str (fld value ''issuanceId'')) of
     None \<Rightarrow> Inl (invalidResponse ''Invalid credential issuance result'')
   | Some issuanceId \<Rightarrow>
       rbind (passport_parseBytes32 (fld value ''credentialBlindHex'') ''credentialBlindHex'') (\<lambda>blind.
       rbind (passport_parseBytes32 (fld value ''credentialLeafHex'') ''credentialLeafHex'') (\<lambda>leaf.
       rbind (parseCanonicalReceipt (fld value ''receipt'')) (\<lambda>receipt.
       Inr \<lparr> rc_issuanceId = issuanceId, rc_credentialBlind = blind, rc_credentialLeaf = leaf, rc_receipt = receipt \<rparr>))))"

definition optionalInteger :: "json option \<Rightarrow> string \<Rightarrow> (passport_error, int option) result" where
  "optionalInteger value label = (case nullish value None of
     None \<Rightarrow> Inr None
   | Some v \<Rightarrow> (case safe_int (Some v) of Some n \<Rightarrow> Inr (Some n) | None \<Rightarrow> Inl (invalidResponse (''Invalid '' @ label))))"

definition parseEnrollmentStatus :: "json \<Rightarrow> (passport_error, publisher_status) result" where
  "parseEnrollmentStatus value =
     (case (safe_int (fld value ''minBatchSize''), safe_int (fld value ''maxWaitMs''), safe_int (fld value ''observedAtUnixMs'')) of
        (Some minBatchSize, Some maxWaitMs, Some observed) \<Rightarrow>
          rbind (optionalInteger (fld value ''pendingCount'') ''pendingCount'') (\<lambda>pendingCount.
          rbind (optionalInteger (fld value ''pendingSinceUnixMs'') ''pendingSinceUnixMs'') (\<lambda>since.
          rbind (optionalInteger (fld value ''publishesNoLaterThanUnixMs'') ''publishesNoLaterThanUnixMs'') (\<lambda>latest.
          rbind (optionalInteger (fld value ''lastPublishedAtUnixMs'') ''lastPublishedAtUnixMs'') (\<lambda>published.
          Inr \<lparr> pt_pendingCount = pendingCount, pt_minBatchSize = minBatchSize, pt_maxWaitMs = maxWaitMs,
                pt_pendingSinceMs = since, pt_publishesNoLaterThanMs = latest, pt_lastPublishedAtMs = published,
                pt_observedAtMs = observed \<rparr>))))
      | _ \<Rightarrow> Inl (invalidResponse ''Invalid enrollment status''))"

section \<open>Operations\<close>

definition client_createVerificationRequest ::
  "(string \<Rightarrow> base_url option) \<Rightarrow> (fetch_request \<Rightarrow> fetch_answer) \<Rightarrow> string \<Rightarrow> json \<Rightarrow> (passport_error, verification_link) result" where
  "client_createVerificationRequest parse_url fetch baseUrl request =
     rbind (passport_response (fetch (passport_request baseUrl ''/v1/rarimo/verification-requests'' ''POST'' (Some request))))
       (parseVerificationLink parse_url)"

definition client_getVerificationStatus :: "(fetch_request \<Rightarrow> fetch_answer) \<Rightarrow> string \<Rightarrow> string \<Rightarrow> (passport_error, string) result" where
  "client_getVerificationStatus fetch baseUrl requestId =
     rbind (passport_response (fetch (passport_request baseUrl (requests_prefix @ encodeURIComponent requestId @ ''/status'') ''GET'' None)))
       parse_status"

definition client_getVerifiedEvidence :: "(fetch_request \<Rightarrow> fetch_answer) \<Rightarrow> string \<Rightarrow> string \<Rightarrow> (passport_error, json option) result" where
  "client_getVerifiedEvidence fetch baseUrl requestId =
     rbind (passport_response (fetch (passport_request baseUrl (requests_prefix @ encodeURIComponent requestId @ ''/evidence'') ''GET'' None)))
       (\<lambda>body. if body = JNull then Inr None else rbind (parseVerifiedEvidence body) (\<lambda>e. Inr (Some e)))"

definition client_deleteVerification :: "(fetch_request \<Rightarrow> fetch_answer) \<Rightarrow> string \<Rightarrow> string \<Rightarrow> (passport_error, unit) result" where
  "client_deleteVerification fetch baseUrl requestId =
     rbind (passport_response (fetch (passport_request baseUrl (requests_prefix @ encodeURIComponent requestId) ''DELETE'' None)))
       (\<lambda>_. Inr ())"

definition issuance_body :: "issuance_request \<Rightarrow> string \<Rightarrow> json" where
  "issuance_body r binding = JObj [(''enrollmentId'', JStr (iq_enrollmentId r)), (''provider'', JStr (provider_str (iq_provider r))),
     (''evidenceAuthorization'', JStr (iq_evidenceAuthorization r)), (''holderBindingHex'', JStr binding),
     (''claims'', claims_object (iq_claims r))]"

definition client_issueCredential ::
  "(fetch_request \<Rightarrow> fetch_answer) \<Rightarrow> string \<Rightarrow> issuance_request \<Rightarrow> (passport_error, received_issuance) result" where
  "client_issueCredential fetch baseUrl r =
     rbind (passport_bytesToHex (iq_holderBinding r)) (\<lambda>binding.
     rbind (passport_response (fetch (passport_request baseUrl ''/v1/credentials/issuances'' ''POST'' (Some (issuance_body r binding)))))
       parseIssuanceResult)"

definition client_getEnrollmentStatus :: "(fetch_request \<Rightarrow> fetch_answer) \<Rightarrow> string \<Rightarrow> (passport_error, publisher_status) result" where
  "client_getEnrollmentStatus fetch baseUrl =
     rbind (passport_response (fetch (passport_request baseUrl ''/v1/enrollment/status'' ''GET'' None))) parseEnrollmentStatus"

end
