(* ===== verification/Passport_Http_Properties.thy ===== *)
theory Passport_Http_Properties
  imports Passport_Client
begin

text \<open>
  The browser's client composed with the credential service: what crosses the
  boundary, who may cross it, and that an issued credential arrives as it was issued.
\<close>

section \<open>Responses\<close>

lemma evidence_keys_subset: "set forbiddenEvidenceKeys \<subseteq> set forbiddenResponseKeys"
  by (simp add: forbiddenEvidenceKeys_def forbiddenResponseKeys_def)

lemma free_of_keys_mono: "set ks \<subseteq> set ks' \<Longrightarrow> free_of_keys ks' v \<Longrightarrow> free_of_keys ks v"
  by (induction ks' v rule: free_of_keys.induct) (auto simp: list_all_iff)

lemma response_keys:
  "list_all (\<lambda>k. normalized_key k \<notin> set forbiddenResponseKeys)
     [''message'', ''status'', ''service'', ''actionCapability'', ''issuanceId'', ''credentialBlindHex'', ''credentialLeafHex'',
      ''receipt'', ''action'', ''network'', ''transactionId'', ''transactionHash'', ''contractAddress'', ''circuit'',
      ''blockHeight'', ''blockHash'', ''blockTimestamp'', ''explorerUrl'']"
  by code_simp

lemma message_safe [simp]: "free_of_keys forbiddenResponseKeys (message_body m)"
  using response_keys by (simp add: message_body_def)

lemma receipt_safe: "free_of_keys forbiddenResponseKeys (receipt_json r)"
  using response_keys by (cases "r_explorerUrl r") (simp_all add: receipt_json_def)

definition answer_safe :: "cico_answer \<Rightarrow> bool" where
  "answer_safe a = (case ca_body a of None \<Rightarrow> True | Some b \<Rightarrow> free_of_keys forbiddenResponseKeys b)"

lemma sendSafeJson_safe: "sendSafeJson status v = Inr (st, b) \<Longrightarrow> b = Some v \<and> free_of_keys forbiddenResponseKeys v"
  by (auto simp: sendSafeJson_def assertSafeResponse_def)

text \<open>The actions that end in a safe answer.\<close>

definition safe_action :: "('s, int \<times> json option) action \<Rightarrow> bool" where
  "safe_action m = (\<forall>s s' status b. m s = (s', Inr (status, Some b)) \<longrightarrow> free_of_keys forbiddenResponseKeys b)"

lemma safe_abind [intro]: "(\<And>a. safe_action (f a)) \<Longrightarrow> safe_action (abind m f)"
  by (fastforce simp: safe_action_def abind_def split: prod.splits sum.splits)

lemma safe_send [intro]: "safe_action (apure (sendSafeJson status v))" "safe_action (apure (rbind r (sendSafeJson status)))"
  by (auto simp: safe_action_def apure_def dest: sendSafeJson_safe)

lemma safe_error [intro]: "safe_action (apure (Inl e))" "safe_action (apure (Inr (status, None)))"
  by (simp_all add: safe_action_def apure_def)

lemma safe_fixed [intro]: "free_of_keys forbiddenResponseKeys b \<Longrightarrow> safe_action (apure (Inr (status, Some b)))"
  by (simp add: safe_action_def apure_def)

lemma safe_read [intro]: "safe_action (\<lambda>s. (s, sendSafeJson status (f s)))"
  by (auto simp: safe_action_def dest: sendSafeJson_safe)

lemma routeRequest_safe: "safe_action (routeRequest ports maximum req path)"
proof -
  have health: "free_of_keys forbiddenResponseKeys (JObj [(''status'', JStr ''ok''), (''service'', JStr ''cico-passport-boundary'')])"
    using response_keys by simp
  show ?thesis
    unfolding routeRequest_def Let_def
    by (intro if_split [where P = safe_action, THEN iffD2] conjI impI)
       (auto intro!: health split: option.split)
qed

lemma failure_safe: "answer_safe (failure_answer headers e)"
  by (cases e) (simp_all add: answer_safe_def failure_answer_def Let_def)

lemma serve_route_safe: "answer_safe (snd (serve_route ports service req headers s))"
proof (cases "cq_pathname req")
  case (Some path)
  obtain s' r where r: "routeRequest ports (cs_maxBodyBytes service) req path s = (s', r)" by (cases rule: prod.exhaust)
  show ?thesis
  proof (cases r)
    case (Inr p)
    then show ?thesis
      using Some r routeRequest_safe [of ports "cs_maxBodyBytes service" req path]
      by (cases p) (auto simp: serve_route_def answer_safe_def safe_action_def split: option.splits)
  qed (use Some r failure_safe in \<open>simp add: serve_route_def answer_safe_def\<close>)
qed (use failure_safe in \<open>simp add: serve_route_def answer_safe_def\<close>)

section \<open>The boundary\<close>

text \<open>
  C15: No raw passport material leaves the service: whatever the gateway and the issuers
  return and whatever is asked, no object at any depth of any answer's body has a
  field named like a proof, a machine-readable zone, a birth date, a chip data group, a
  ballot choice or a voter secret, in any spelling by case or punctuation; and the
  browser's client accepts the body of every answer that succeeded with one.
\<close>

theorem answers_carry_no_raw_evidence:
  "snd (cico_serve parse_url ports service req s) = a \<Longrightarrow> ca_body a = Some b \<Longrightarrow>
     free_of_keys forbiddenResponseKeys b \<and> assertNoRawEvidence b = Inr ()"
proof -
  assume a: "snd (cico_serve parse_url ports service req s) = a" and b: "ca_body a = Some b"
  have "answer_safe (snd (cico_serve parse_url ports service req s))"
    by (simp add: cico_serve_def failure_safe serve_route_safe refuse_origin_def split: option.split)
       (simp add: answer_safe_def)
  then have "free_of_keys forbiddenResponseKeys b" using a b by (simp add: answer_safe_def)
  then show ?thesis
    using free_of_keys_mono [OF evidence_keys_subset] by (simp add: assertNoRawEvidence_def)
qed

definition trusted :: "(string \<Rightarrow> origin_url option) \<Rightarrow> cico_service \<Rightarrow> cico_request \<Rightarrow> string option" where
  "trusted parse_url service req = (case Option.bind (truthy_str (cq_origin req)) (normalizeOrigin parse_url) of
     Some origin \<Rightarrow> if origin \<in> set (cs_allowedOrigins service) then Some origin else None
   | None \<Rightarrow> None)"

lemma security_headers [simp]: "map_of securityHeaders ''access-control-allow-origin'' = None"
  by (simp add: securityHeaders_def)

lemma preflight_headers [simp]: "map_of preflightHeaders ''access-control-allow-origin'' = None"
  by (simp add: preflightHeaders_def)

lemma failure_headers [simp]: "ca_headers (failure_answer h e) = h"
  by (cases e) (simp_all add: failure_answer_def Let_def)

lemma serve_route_headers: "map_of (ca_headers (snd (serve_route ports service req h s))) ''access-control-allow-origin''
    = map_of h ''access-control-allow-origin''"
  by (auto simp: serve_route_def map_add_def split: option.split prod.split sum.split)

lemma versioned_prefix: "take (length requests_prefix) path = requests_prefix \<Longrightarrow> take 4 path = ''/v1/''"
proof -
  assume h: "take (length requests_prefix) path = requests_prefix"
  have "take 4 path = take 4 (take (length requests_prefix) path)" by (simp add: requests_prefix_def eval_nat_numeral)
  also have "\<dots> = ''/v1/''" unfolding h by (simp add: requests_prefix_def)
  finally show ?thesis .
qed

lemma unversioned_route:
  assumes "take 4 path \<noteq> ''/v1/''"
  shows "fst (routeRequest ports maximum req path s) = s"
proof -
  have "suffix_match requests_prefix suffix path = None" "path_match requests_prefix path = None" for suffix
    using assms versioned_prefix [of path] unfolding suffix_match_def path_match_def Let_def by auto
  moreover have "path \<notin> {''/v1/rarimo/verification-requests'', ''/v1/enrollment/status'', ''/v1/credentials/issuances'',
      ''/v1/action-capabilities''}" using assms by auto
  ultimately show ?thesis unfolding routeRequest_def Let_def apure_def by simp
qed

text \<open>
  Only a trusted browser origin reaches the service: a request whose \<open>Origin\<close> is
  missing or is not one of the configured origins leaves the service as it was and gets
  no cross-origin grant, and on a versioned path, or with a method other than GET
  and HEAD, it is answered with 403; a trusted request is granted its own origin.
\<close>

theorem only_trusted_origins_reach_service:
  assumes "cico_serve parse_url ports service req s = (s', a)"
  shows "map_of (ca_headers a) ''access-control-allow-origin'' = trusted parse_url service req
    \<and> (trusted parse_url service req = None \<longrightarrow> s' = s
        \<and> (\<forall>path. cq_pathname req = Some path \<and> requiresTrustedBrowserOrigin (cq_method req) path \<longrightarrow> ca_status a = 403))"
proof (cases "truthy_str (cq_origin req)")
  case None
  show ?thesis
  proof (cases "cq_pathname req")
    case pathless: None
    then show ?thesis using assms None by (auto simp: cico_serve_def trusted_def simp del: truthy_str_eq_None)
  next
    case (Some path)
    show ?thesis
    proof (cases "requiresTrustedBrowserOrigin (cq_method req) path")
      case True
      then show ?thesis using assms None Some by (auto simp: cico_serve_def trusted_def refuse_origin_def simp del: truthy_str_eq_None)
    next
      case False
      then have a: "serve_route ports service req securityHeaders s = (s', a)"
        using assms None Some by (simp add: cico_serve_def del: truthy_str_eq_None)
      have "take 4 path \<noteq> ''/v1/''" "cq_method req \<noteq> ''OPTIONS''" using False by (auto simp: requiresTrustedBrowserOrigin_def)
      then have "s' = s"
        using a Some unversioned_route [of path ports "cs_maxBodyBytes service" req s]
        by (auto simp: serve_route_def split: prod.splits sum.splits)
      then show ?thesis
        using serve_route_headers [of ports service req securityHeaders s] a False None Some
        by (simp add: trusted_def del: truthy_str_eq_None)
    qed
  qed
next
  case (Some origin)
  then have o: "truthy_str (cq_origin req) = Some origin" .
  show ?thesis
  proof (cases "trusted parse_url service req")
    case None
    then show ?thesis
      using assms o by (auto simp: cico_serve_def trusted_def refuse_origin_def simp del: truthy_str_eq_Some split: option.splits if_splits)
  next
    case (Some normalized)
    then have n: "normalizeOrigin parse_url origin = Some normalized" "normalized \<in> set (cs_allowedOrigins service)"
      using o by (auto simp: trusted_def simp del: truthy_str_eq_Some split: option.splits if_splits)
    then have "serve_route ports service req (securityHeaders @ corsHeaders normalized) s = (s', a)"
      using assms o by (simp add: cico_serve_def del: truthy_str_eq_Some)
    then show ?thesis
      using serve_route_headers [of ports service req "securityHeaders @ corsHeaders normalized" s] Some
      by (simp add: map_add_def corsHeaders_def)
  qed
qed

section \<open>An issuance from end to end\<close>

text \<open>
  What \<open>fetch\<close> does with a request of the client from a page of the given origin: the
  service's base URL has no path of its own, and the body's JSON text is parsed again.
\<close>

definition deliver_passport :: "string \<Rightarrow> string \<Rightarrow> fetch_request \<Rightarrow> cico_request" where
  "deliver_passport origin baseUrl fr = \<lparr> cq_method = fr_method fr, cq_pathname = Some (drop (length baseUrl) (fr_url fr)),
     cq_origin = Some origin, cq_chunks = (case fr_body fr of None \<Rightarrow> [] | Some b \<Rightarrow> [utf8 b]) \<rparr>"

definition exchange ::
  "(string \<Rightarrow> origin_url option) \<Rightarrow> 's cico_ports \<Rightarrow> cico_service \<Rightarrow> string \<Rightarrow> string \<Rightarrow> 's \<Rightarrow> fetch_request \<Rightarrow> 's \<times> fetch_answer" where
  "exchange parse_url ports service origin baseUrl s fr =
     (case cico_serve parse_url ports service (deliver_passport origin baseUrl fr) s of
        (s', a) \<Rightarrow> (s', Fetched (ca_status a) (Option.bind (ca_body a) (\<lambda>b. json_parse (stringify b)))))"

definition page_fetch ::
  "(string \<Rightarrow> origin_url option) \<Rightarrow> 's cico_ports \<Rightarrow> cico_service \<Rightarrow> string \<Rightarrow> string \<Rightarrow> 's \<Rightarrow> fetch_request \<Rightarrow> fetch_answer" where
  "page_fetch parse_url ports service origin baseUrl s fr = snd (exchange parse_url ports service origin baseUrl s fr)"

text \<open>The requests that the browser can send, and the results of the issuer.\<close>

definition sendable :: "issuance_request \<Rightarrow> bool" where
  "sendable r = (length (iq_holderBinding r) = 32 \<and> iq_provider r \<noteq> FixtureProvider
     \<and> isIsoNumericCountry (Some (JStr (cl_country (iq_claims r)))) \<and> \<bar>cl_credentialEpoch (iq_claims r)\<bar> \<le> max_safe)"

definition issuer_result :: "issuance_result \<Rightarrow> bool" where
  "issuer_result v = (wf_result v \<and> r_action (ir_receipt v) = Credential \<and> r_circuit (ir_receipt v) = ''addCredential'')"

lemma provider_parsed: "p \<noteq> FixtureProvider \<Longrightarrow> issuer_provider (Some (JStr (provider_str p))) = Some p"
  by (cases p) (simp_all add: issuer_provider_def)

lemma age_class_parsed: "isAgeClass (Some (JStr (age_class_str a))) = Some a"
  by (cases a) (simp_all add: isAgeClass_def)

lemma assurance_parsed: "isCredentialAssurance (Some (JStr (assurance_str a))) = Some a"
  by (cases a) (simp_all add: isCredentialAssurance_def)

lemma claims_parsed:
  assumes "isIsoNumericCountry (Some (JStr (cl_country c)))" "\<bar>cl_credentialEpoch c\<bar> \<le> max_safe"
  shows "parseClaims (claims_object c) = Inr c"
  using assms by (simp add: parseClaims_def claims_object_def age_class_parsed assurance_parsed)

lemma lower_any_hex: "list_all lower_hex s \<Longrightarrow> list_all any_hex s"
  by (auto simp: list_all_iff lower_hex_def any_hex_def Let_def)

lemma issuance_parsed: "sendable r \<Longrightarrow> parseIssuanceRequest (issuance_body r (bytesToHex (iq_holderBinding r))) = Inr r"
  by (simp add: parseIssuanceRequest_def issuance_body_def sendable_def provider_parsed claims_parsed cico_parseBytes32_def
      lower_any_hex bytesToHex_lower) (simp add: claims_object_def)

lemma issuance_body_wf: "wf_json (issuance_body r h)"
proof -
  have "wf_json (claims_object c)" for c
    unfolding claims_object_def
    by (simp add: obj_ordered_def key_before_def is_index_key_def is_digit_def)
  then show ?thesis
    unfolding issuance_body_def by (simp add: obj_ordered_def key_before_def is_index_key_def is_digit_def)
qed

lemma issuance_answer:
  assumes "issuer_result v"
  shows "\<exists>b. issuance_json v = Inr b \<and> sendSafeJson 201 b = Inr (201, Some b) \<and> wf_json b
    \<and> parseIssuanceResult b = Inr \<lparr> rc_issuanceId = ir_issuanceId v, rc_credentialBlind = ir_credentialBlind v,
        rc_credentialLeaf = ir_credentialLeaf v, rc_receipt = receipt_json (ir_receipt v) \<rparr>"
proof -
  let ?b = "JObj [(''issuanceId'', JStr (ir_issuanceId v)), (''credentialBlindHex'', JStr (bytesToHex (ir_credentialBlind v))),
      (''credentialLeafHex'', JStr (bytesToHex (ir_credentialLeaf v))), (''receipt'', receipt_json (ir_receipt v))]"
  have v: "ir_issuanceId v \<noteq> []" "length (ir_credentialBlind v) = 32" "length (ir_credentialLeaf v) = 32" "wf_receipt (ir_receipt v)"
      "r_network (ir_receipt v) = Preview" "r_action (ir_receipt v) = Credential" "r_circuit (ir_receipt v) = ''addCredential''"
    using assms by (simp_all add: issuer_result_def wf_result_def)
  have "issuance_json v = Inr ?b" using v by (simp add: issuance_json_def cico_bytesToHex_def)
  moreover have "sendSafeJson 201 ?b = Inr (201, Some ?b)"
    using response_keys receipt_safe by (simp add: sendSafeJson_def assertSafeResponse_def)
  moreover have "wf_json ?b"
    by (simp add: receipt_json_wf obj_ordered_def key_before_def is_index_key_def is_digit_def)
  moreover have "parseCanonicalReceipt (Some (receipt_json (ir_receipt v))) = Inr (receipt_json (ir_receipt v))"
    using v by (cases "r_explorerUrl (ir_receipt v)")
      (simp_all add: parseCanonicalReceipt_def receipt_json_def wf_receipt_def)
  then have "parseIssuanceResult ?b = Inr \<lparr> rc_issuanceId = ir_issuanceId v, rc_credentialBlind = ir_credentialBlind v,
        rc_credentialLeaf = ir_credentialLeaf v, rc_receipt = receipt_json (ir_receipt v) \<rparr>"
    using v by (simp add: parseIssuanceResult_def passport_parseBytes32_def lower_any_hex bytesToHex_lower)
  ultimately show ?thesis by blast
qed

lemma read_one_chunk: "int (length c) \<le> maximum \<Longrightarrow> cico_chunks maximum 0 [] [c] = Inr [c]"
  by (simp add: Let_def)

lemma serve_trusted:
  assumes "origin \<noteq> []" "normalizeOrigin parse_url origin = Some normalized" "normalized \<in> set (cs_allowedOrigins service)"
    and "cq_origin req = Some origin"
  shows "cico_serve parse_url ports service req s = serve_route ports service req (securityHeaders @ corsHeaders normalized) s"
  using assms by (simp add: cico_serve_def)

lemma abind_pure: "abind (apure (Inr x)) f = f x"
  by (simp add: fun_eq_iff abind_def apure_def)

lemma issuance_route:
  "cq_method req = ''POST'' \<Longrightarrow> routeRequest ports maximum req ''/v1/credentials/issuances''
     = abind (apure (rbind (cico_readJson req maximum) parseIssuanceRequest)) (\<lambda>r.
       abind (cp_issueCredential ports r) (\<lambda>result. apure (rbind (issuance_json result) (sendSafeJson 201))))"
  by (simp add: routeRequest_def Let_def del: rbind_eq_Inr rbind_eq_Inl)

lemma issuance_routed:
  assumes "sendable r" "cp_issueCredential ports r s = (s', answer)"
    and "int (length (utf8 (stringify (issuance_body r (bytesToHex (iq_holderBinding r)))))) \<le> maximum"
  shows "routeRequest ports maximum (deliver_passport origin baseUrl
      (passport_request baseUrl ''/v1/credentials/issuances'' ''POST'' (Some (issuance_body r (bytesToHex (iq_holderBinding r))))))
      ''/v1/credentials/issuances'' s
    = (s', rbind answer (\<lambda>v. rbind (issuance_json v) (sendSafeJson 201)))"
proof -
  let ?req = "deliver_passport origin baseUrl
      (passport_request baseUrl ''/v1/credentials/issuances'' ''POST'' (Some (issuance_body r (bytesToHex (iq_holderBinding r)))))"
  have parsed: "rbind (cico_readJson ?req maximum) parseIssuanceRequest = Inr r"
    using assms(1) read_one_chunk [OF assms(3)]
    by (simp add: cico_readJson_def deliver_passport_def passport_request_def utf8_decode_utf8 parse_stringify issuance_body_wf
        issuance_parsed del: cico_chunks.simps)
  have "cq_method ?req = ''POST''" by (simp add: deliver_passport_def passport_request_def)
  note route = issuance_route [OF this, where ports = ports and maximum = maximum, unfolded parsed abind_pure]
  show ?thesis
    unfolding route using assms(2) by (cases answer) (simp_all add: abind_def apure_def)
qed

text \<open>
  C14: An issued credential arrives as it was issued: over the client, the HTTP exchange
  and the parsers on both sides, the issuer is asked for exactly the request that the
  browser made, and the browser receives exactly the result of the issuer. Whatever the
  issuer throws, a definite conflict included, reaches the browser as a retryable
  outage.
\<close>

theorem issued_credential_arrives:
  assumes "origin \<noteq> []" "normalizeOrigin parse_url origin = Some normalized" "normalized \<in> set (cs_allowedOrigins service)"
    and "sendable r" "cp_issueCredential ports r s = (s', answer)"
    and "int (length (utf8 (stringify (issuance_body r (bytesToHex (iq_holderBinding r)))))) \<le> cs_maxBodyBytes service"
    and "\<forall>v. answer = Inr v \<longrightarrow> issuer_result v"
  shows "(\<forall>v. answer = Inr v \<longrightarrow> client_issueCredential (page_fetch parse_url ports service origin baseUrl s) baseUrl r
        = Inr \<lparr> rc_issuanceId = ir_issuanceId v, rc_credentialBlind = ir_credentialBlind v,
                 rc_credentialLeaf = ir_credentialLeaf v, rc_receipt = receipt_json (ir_receipt v) \<rparr>)
    \<and> (answer = Inl OtherFailure \<longrightarrow> client_issueCredential (page_fetch parse_url ports service origin baseUrl s) baseUrl r
        = Inl (CivicCredentialError ADAPTER_UNAVAILABLE ''The CICO service could not complete the request'' True))"
proof -
  let ?body = "issuance_body r (bytesToHex (iq_holderBinding r))"
  let ?fr = "passport_request baseUrl ''/v1/credentials/issuances'' ''POST'' (Some ?body)"
  let ?req = "deliver_passport origin baseUrl ?fr"
  let ?h = "securityHeaders @ corsHeaders normalized"
  have req: "cq_origin ?req = Some origin" "cq_method ?req = ''POST''" "cq_pathname ?req = Some ''/v1/credentials/issuances''"
    by (simp_all add: deliver_passport_def passport_request_def)
  have served: "cico_serve parse_url ports service ?req s = serve_route ports service ?req ?h s"
    by (rule serve_trusted [OF assms(1-3) req(1)])
  note routed = issuance_routed [OF assms(4,5,6), of origin baseUrl]
  have client: "client_issueCredential f baseUrl r = rbind (passport_response (f ?fr)) parseIssuanceResult" for f
    using assms(4) by (simp add: client_issueCredential_def passport_bytesToHex_def sendable_def)
  show ?thesis
  proof (cases answer)
    case (Inr v)
    then obtain b where b: "issuance_json v = Inr b" "sendSafeJson 201 b = Inr (201, Some b)" "wf_json b"
        "parseIssuanceResult b = Inr \<lparr> rc_issuanceId = ir_issuanceId v, rc_credentialBlind = ir_credentialBlind v,
          rc_credentialLeaf = ir_credentialLeaf v, rc_receipt = receipt_json (ir_receipt v) \<rparr>"
      using issuance_answer assms(7) by blast
    have "exchange parse_url ports service origin baseUrl s ?fr = (s', Fetched 201 (Some b))"
      using served routed req b Inr by (simp add: exchange_def serve_route_def parse_stringify)
    moreover have "assertNoRawEvidence b = Inr ()"
      using b(2) sendSafeJson_safe free_of_keys_mono [OF evidence_keys_subset] by (simp add: assertNoRawEvidence_def)
    ultimately show ?thesis using Inr b by (simp add: page_fetch_def client passport_response_def response_ok_def)
  next
    case (Inl e)
    show ?thesis
    proof (cases e)
      case OtherFailure
      have "wf_json (message_body m)" for m by (simp add: message_body_def obj_ordered_def)
      then have "exchange parse_url ports service origin baseUrl s ?fr
          = (s', Fetched 500 (Some (message_body ''The CICO service could not complete the request'')))"
        using served routed req Inl OtherFailure by (simp add: exchange_def serve_route_def parse_stringify failure_answer_def Let_def)
      then show ?thesis using Inl OtherFailure by (simp add: page_fetch_def client passport_response_def response_ok_def message_body_def)
    qed (simp_all add: Inl)
  qed
qed

section \<open>A capability from end to end\<close>

text \<open>
  The capability port as \<open>server.ts\<close> wires it: the handles are those of the issuance
  journal. A journal that cannot be read throws once the other checks have passed.
\<close>

definition journal_capability ::
  "(string \<Rightarrow> string \<Rightarrow> string) \<Rightarrow> capability_issuer \<Rightarrow> int \<Rightarrow> capability_request \<Rightarrow> ((json_file, json_file) issuer, string) action" where
  "journal_capability hmac iss nowSeconds r v =
     (v, case hasIssuanceId (ca_credentialAuthorization r) (ist_journal (is_state v)) of
        Inl _ \<Rightarrow> (case issue_capability hmac (\<lambda>_. True) iss nowSeconds r of
            Inl _ \<Rightarrow> Inl (CapabilityRefused 403) | Inr _ \<Rightarrow> Inl OtherFailure)
      | Inr known \<Rightarrow> map_err (\<lambda>_. CapabilityRefused 403) (issue_capability hmac (\<lambda>_. known) iss nowSeconds r))"

lemma capability_route:
  "cq_method req = ''POST'' \<Longrightarrow> cp_issueCapability ports = Some issue \<Longrightarrow>
   routeRequest ports maximum req ''/v1/action-capabilities''
     = abind (apure (rbind (cico_readJson req maximum) parseActionCapabilityRequest)) (\<lambda>r.
       abind (issue r) (\<lambda>token. apure (sendSafeJson 201 (JObj [(''actionCapability'', JStr token)]))))"
  by (simp add: routeRequest_def Let_def del: rbind_eq_Inr rbind_eq_Inl)

lemma failure_not_created: "ca_status (failure_answer h e) = 201 \<Longrightarrow> (\<exists>m. e = HttpProblem 201 m) \<or> e = CapabilityRefused 201"
  by (cases e) (simp_all add: failure_answer_def Let_def)


section \<open>A sample service\<close>

definition sample_origin_url :: "string \<Rightarrow> origin_url option" where
  "sample_origin_url v = Some \<lparr> ou_pathname = ''/'', ou_search = [], ou_hash = [], ou_username = [], ou_password = [], ou_origin = v \<rparr>"

definition sample_cico :: cico_service where
  "sample_cico = \<lparr> cs_allowedOrigins = [''https://cico.app''], cs_maxBodyBytes = 65536 \<rparr>"

definition sample_credential :: issuance_result where
  "sample_credential = sample_result \<lparr> ir_receipt := sample_receipt \<lparr> r_action := Credential, r_circuit := ''addCredential'' \<rparr> \<rparr>"

definition sample_ports :: "(json_file, json_file) issuer cico_ports" where
  "sample_ports = \<lparr> cp_createVerificationRequest = (\<lambda>r s. (s, Inr r)), cp_getVerificationStatus = (\<lambda>i s. (s, Inr ''verified'')),
     cp_getVerifiedEvidence = (\<lambda>i s. (s, Inr JNull)), cp_deleteVerification = (\<lambda>i s. (s, Inr ())),
     cp_issueCredential = (\<lambda>r s. (s, Inr sample_credential)), cp_issueCapability = Some (journal_capability sample_hmac sample_issuer 1),
     cp_enrollmentStatus = None \<rparr>"

definition sample_issuing_process :: "(json_file, json_file) issuer" where
  "sample_issuing_process = new_issuer_process NoFile (fst (file_issuance_put sample_sha NoFile ''e'' (sample_sha []) sample_result))"

definition sample_browser_request :: issuance_request where
  "sample_browser_request = sample_request \<lparr> iq_claims := (iq_claims sample_request) \<lparr> cl_country := ''032'' \<rparr> \<rparr>"

definition health_request :: cico_request where
  "health_request = \<lparr> cq_method = ''GET'', cq_pathname = Some ''/health'', cq_origin = None, cq_chunks = [] \<rparr>"

definition stray_request :: cico_request where
  "stray_request = \<lparr> cq_method = ''GET'', cq_pathname = Some ''/v1/enrollment/status'', cq_origin = Some ''https://evil'', cq_chunks = [] \<rparr>"

theorem answers_carry_no_raw_evidence_witness:
  "\<exists>b. ca_body (snd (cico_serve sample_origin_url sample_ports sample_cico health_request sample_issuing_process)) = Some b
     \<and> free_of_keys forbiddenResponseKeys b \<and> assertNoRawEvidence b = Inr ()"
proof -
  obtain b where b: "ca_body (snd (cico_serve sample_origin_url sample_ports sample_cico health_request sample_issuing_process)) = Some b"
    by (simp add: cico_serve_def health_request_def requiresTrustedBrowserOrigin_def serve_route_def routeRequest_def apure_def Let_def)
  then show ?thesis using answers_carry_no_raw_evidence [OF refl b] by blast
qed

theorem only_trusted_origins_reach_service_witness:
  "\<exists>a. cico_serve sample_origin_url sample_ports sample_cico stray_request sample_issuing_process = (sample_issuing_process, a)
     \<and> ca_status a = 403 \<and> map_of (ca_headers a) ''access-control-allow-origin'' = None"
proof -
  obtain s' a where a: "cico_serve sample_origin_url sample_ports sample_cico stray_request sample_issuing_process = (s', a)"
    by (cases rule: prod.exhaust)
  have "trusted sample_origin_url sample_cico stray_request = None"
    by (simp add: trusted_def stray_request_def sample_cico_def normalizeOrigin_def sample_origin_url_def)
  moreover have "cq_pathname stray_request = Some ''/v1/enrollment/status''"
      "requiresTrustedBrowserOrigin (cq_method stray_request) ''/v1/enrollment/status''"
    by (simp_all add: stray_request_def requiresTrustedBrowserOrigin_def)
  ultimately show ?thesis using only_trusted_origins_reach_service [OF a] a by auto
qed

lemma sample_sendable: "sendable sample_browser_request"
    "int (length (utf8 (stringify (issuance_body sample_browser_request (bytesToHex (iq_holderBinding sample_browser_request))))))
       \<le> cs_maxBodyBytes sample_cico"
  by code_simp+

lemma sample_credential_ok: "issuer_result sample_credential"
  by code_simp

theorem issued_credential_arrives_witness:
  "\<exists>c. client_issueCredential (page_fetch sample_origin_url sample_ports sample_cico ''https://cico.app'' ''https://api''
       sample_issuing_process) ''https://api'' sample_browser_request = Inr c
     \<and> rc_issuanceId c = ''i'' \<and> rc_credentialLeaf c = replicate 32 (CHR ''l'')"
proof -
  have o': "normalizeOrigin sample_origin_url ''https://cico.app'' = Some ''https://cico.app''"
      "''https://cico.app'' \<in> set (cs_allowedOrigins sample_cico)"
    by (simp_all add: normalizeOrigin_def sample_origin_url_def sample_cico_def)
  have p: "cp_issueCredential sample_ports sample_browser_request sample_issuing_process = (sample_issuing_process, Inr sample_credential)"
    by (simp add: sample_ports_def)
  have "''https://cico.app'' \<noteq> []" by simp
  from issued_credential_arrives [OF this o' sample_sendable(1) p sample_sendable(2)] sample_credential_ok
  show ?thesis by (simp add: sample_credential_def sample_result_def)
qed

definition sample_grant_request :: cico_request where
  "sample_grant_request = \<lparr> cq_method = ''POST'', cq_pathname = Some ''/v1/action-capabilities'', cq_origin = None,
     cq_chunks = [utf8 (stringify (JObj [(''actionId'', JStr ''a''), (''idempotencyKey'', JStr ''k''),
       (''requestHash'', JStr (replicate 64 (CHR ''a''))), (''network'', JStr ''n''), (''contractAddress'', JStr ''c''),
       (''circuit'', JStr ''castVote''), (''action'', JStr ''vote''), (''credentialAuthorization'', JStr ''i'')]))] \<rparr>"

definition sample_holder_request :: capability_request where
  "sample_holder_request = sample_capability_request \<lparr> ca_credentialAuthorization := ''i'' \<rparr>"

lemma sample_grant_parsed: "rbind (cico_readJson sample_grant_request 65536) parseActionCapabilityRequest = Inr sample_holder_request"
proof -
  let ?body = "JObj [(''actionId'', JStr ''a''), (''idempotencyKey'', JStr ''k''),
       (''requestHash'', JStr (replicate 64 (CHR ''a''))), (''network'', JStr ''n''), (''contractAddress'', JStr ''c''),
       (''circuit'', JStr ''castVote''), (''action'', JStr ''vote''), (''credentialAuthorization'', JStr ''i'')]"
  have "wf_json ?body" by (simp add: obj_ordered_def key_before_def is_index_key_def is_digit_def)
  moreover have "int (length (utf8 (stringify ?body))) \<le> 65536" by code_simp
  ultimately have "cico_readJson sample_grant_request 65536 = Inr ?body"
    using read_one_chunk [of "utf8 (stringify ?body)" 65536]
    by (simp add: cico_readJson_def sample_grant_request_def utf8_decode_utf8 parse_stringify del: cico_chunks.simps stringify.simps)
  moreover have "isAction (Some (JStr ''vote'')) = Some Vote" by code_simp
  ultimately show ?thesis
    by (simp add: parseActionCapabilityRequest_def sample_holder_request_def sample_capability_request_def)
qed

lemma sample_holder_issued:
  "hasIssuanceId ''i'' (ist_journal (is_state sample_issuing_process)) = Inr True"
  "issue_capability sample_hmac (\<lambda>_. True) sample_issuer 1 sample_holder_request = Inr sample_issued"
proof -
  show "hasIssuanceId ''i'' (ist_journal (is_state sample_issuing_process)) = Inr True" by code_simp
  have "is_hex64 (replicate 64 (CHR ''a''))" by code_simp
  then show "issue_capability sample_hmac (\<lambda>_. True) sample_issuer 1 sample_holder_request = Inr sample_issued"
    by (simp add: issue_capability_def capability_request_ok_def issued_payload_claims signV2Capability_def signature_def
        issuerActionForCircuit_def sample_capability_request_def sample_holder_request_def sample_issuer_def issued_claims_def Let_def)
qed

lemma sample_grant:
  "routeRequest sample_ports 65536 sample_grant_request ''/v1/action-capabilities'' sample_issuing_process
     = (sample_issuing_process, Inr (201, Some (JObj [(''actionCapability'', JStr sample_issued)])))"
proof -
  have p: "cp_issueCapability sample_ports = Some (journal_capability sample_hmac sample_issuer 1)" "cq_method sample_grant_request = ''POST''"
    by (simp_all add: sample_ports_def sample_grant_request_def)
  have "ca_credentialAuthorization sample_holder_request = ''i''" by (simp add: sample_holder_request_def)
  then have "journal_capability sample_hmac sample_issuer 1 sample_holder_request sample_issuing_process
      = (sample_issuing_process, Inr sample_issued)"
    by (simp add: journal_capability_def sample_holder_issued)
  moreover have "sendSafeJson 201 (JObj [(''actionCapability'', JStr t)]) = Inr (201, Some (JObj [(''actionCapability'', JStr t)]))" for t
    using response_keys by (simp add: sendSafeJson_def assertSafeResponse_def)
  ultimately show ?thesis
    unfolding capability_route [OF p(2,1)] sample_grant_parsed abind_pure by (simp add: abind_def apure_def)
qed


end
