(* ===== verification/Rarimo_Gateway.thy ===== *)
theory Rarimo_Gateway
  imports Cico_Http
begin

text \<open>
  The credential service's gateway to the document verifier
  (\<open>cico-service/src/rarimo-http-gateway.ts\<close>), with its default routes and codecs: which
  evidence it accepts for a request of the browser, and which credential material it
  lets the issuer sign for that evidence. What the verifier answers to a request is an
  argument; the URL parser and the query string of the QR link are parameters. An
  answer's body is in the model when it is UTF-8 of code units below 256.
\<close>

section \<open>Errors and values\<close>

datatype gateway_code =
    INVALID_CONFIGURATION | GATEWAY_TIMEOUT | UPSTREAM_UNAVAILABLE | UPSTREAM_HTTP_ERROR | MALFORMED_RESPONSE | GATEWAY_NOT_FOUND

datatype gateway_error = GatewayError gateway_code "int option" | GatewayThrew

record verification_request =
  vq_requestId :: string
  vq_eventId :: string
  vq_eventData :: string
  vq_eventDataDecimal :: string
  vq_selector :: string
  vq_citizenshipMask :: "string option"
  vq_birthDateLowerBound :: string
  vq_birthDateUpperBound :: string
  vq_identityCounterLowerBound :: string
  vq_identityCounterUpperBound :: string
  vq_expirationDateLowerBound :: string
  vq_expirationDateUpperBound :: string
  vq_timestampLowerBound :: string
  vq_timestampUpperBound :: string

record verified_evidence =
  ve_requestId :: string
  ve_userIdHash :: string
  ve_evidenceAuthorization :: string
  ve_evidenceFingerprint :: string
  ve_eventId :: string
  ve_eventDataDecimal :: string
  ve_selector :: string
  ve_timestampUpperBound :: string
  ve_identityCounterUpperBound :: string
  ve_birthDateUpperBound :: string
  ve_expirationDateLowerBound :: string
  ve_citizenshipAlpha3 :: string
  ve_adultPredicateSatisfied :: bool

record proof_projection =
  pp_userIdHash :: string
  pp_publicSignals :: "string list"

record verification_context =
  vc_request :: verification_request
  vc_userIdHash :: string

record issuance_authorization =
  au_context :: verification_context
  au_evidence :: verified_evidence
  au_verifiedAt :: int

record gateway_url =
  gu_protocol :: string
  gu_hostname :: string
  gu_username :: string
  gu_password :: string
  gu_pathname :: string
  gu_search :: string
  gu_hash :: string
  gu_origin :: string
  gu_href :: string

section \<open>Small readers\<close>

definition hasControlCharacter :: "string \<Rightarrow> bool" where
  "hasControlCharacter s = list_ex (\<lambda>c. (of_char c :: nat) < 32 \<or> (of_char c :: nat) = 127) s"

text \<open>\<open>/^(?:0|[1-9][0-9]*)$/u\<close>.\<close>

definition decimal_text :: "string \<Rightarrow> bool" where
  "decimal_text s = (s \<noteq> [] \<and> list_all is_digit s \<and> (s = ''0'' \<or> hd s \<noteq> CHR ''0''))"

definition decimalInteger :: "string \<Rightarrow> json option" where
  "decimalInteger value =
     (if \<not> decimal_text value then None
      else Some (if int (read_nat value) \<le> max_safe then JNum (JInt (int (read_nat value))) else JStr value))"

definition decimalField :: "string \<Rightarrow> bool" where
  "decimalField value = (decimal_text value \<and> read_nat value < 2 ^ 254)"

definition read_hex :: "string \<Rightarrow> nat" where
  "read_hex s = foldl (\<lambda>n c. 16 * n + hex_val c) 0 s"

fun show_hex :: "nat \<Rightarrow> string" where
  "show_hex n = (if n < 16 then [hex_digit n] else show_hex (n div 16) @ [hex_digit (n mod 16)])"

declare show_hex.simps [simp del]

definition hexToDecimal :: "string \<Rightarrow> string option" where
  "hexToDecimal value = (if hex_literal value then Some (show_nat (read_hex (drop 2 value))) else None)"

definition padStart :: "nat \<Rightarrow> char \<Rightarrow> string \<Rightarrow> string" where
  "padStart n c s = replicate (n - length s) c @ s"

definition mrz_letter :: "char \<Rightarrow> bool" where
  "mrz_letter c = (c = CHR ''<'' \<or> (65 \<le> (of_char c :: nat) \<and> (of_char c :: nat) \<le> 90))"

definition decodeCitizenship :: "string \<Rightarrow> string option" where
  "decodeCitizenship value =
     (let hex = padStart 6 (CHR ''0'') (show_hex (read_nat value)) in
      if length hex \<noteq> 6 then None
      else let decoded = bytesFromHex hex in
        if \<not> (length decoded = 3 \<and> list_all mrz_letter decoded) then None
        else Some (if decoded = ''D<<'' then ''DEU'' else decoded))"

definition readRecord :: "json \<Rightarrow> string list \<Rightarrow> json option" where
  "readRecord v keys =
     (if isRecord v \<and> list_all (\<lambda>k. k \<in> set keys) (map fst (entries v)) \<and> list_all (\<lambda>k. fld v k \<noteq> None) keys
      then Some v else None)"

definition readData :: "json \<Rightarrow> string list \<Rightarrow> json option" where
  "readData v keys =
     (if \<not> isRecord v \<or> \<not> list_all (\<lambda>k. k = ''data'' \<or> k = ''included'') (map fst (entries v)) then None
      else case fld v ''data'' of
        None \<Rightarrow> None
      | Some d \<Rightarrow>
          if fld v ''included'' \<notin> {None, Some JNull, Some (JArr [])} then None else readRecord d keys)"

definition readString :: "json \<Rightarrow> string option" where
  "readString v = (case v of JStr s \<Rightarrow> if s = [] \<or> hasControlCharacter s then None else Some s | _ \<Rightarrow> None)"

fun option_all :: "('a \<Rightarrow> 'b option) \<Rightarrow> 'a list \<Rightarrow> 'b list option" where
  "option_all f [] = Some []"
| "option_all f (x # xs) = (case f x of None \<Rightarrow> None | Some y \<Rightarrow> map_option ((#) y) (option_all f xs))"

definition readStringArray :: "json \<Rightarrow> string list option" where
  "readStringArray v = (case v of JArr xs \<Rightarrow> option_all readString xs | _ \<Rightarrow> None)"

definition readStringMatrix :: "json \<Rightarrow> string list list option" where
  "readStringMatrix v = (case v of JArr xs \<Rightarrow> option_all readStringArray xs | _ \<Rightarrow> None)"

section \<open>Requests to the verifier\<close>

text \<open>
  An exchange: \<^const>\<open>None\<close> when \<open>fetch\<close> rejects (or the headers are refused), or the
  status, the content type and the chunks of the body. \<open>rx_aborted\<close> says that the timeout
  has fired when a rejection is examined.
\<close>

record exchange_answer =
  rx_status :: int
  rx_contentType :: "string option"
  rx_chunks :: "string list option"
  rx_aborted :: bool

datatype verifier_answer = VerifierRejected bool | VerifierAnswered exchange_answer

definition normalizeMediaType :: "string \<Rightarrow> string" where
  "normalizeMediaType value = toLowerCase (trim (takeWhile (\<lambda>c. c \<noteq> CHR '';'') value))"

definition jsonApiMediaType :: string where
  "jsonApiMediaType = ''application/vnd.api+json''"

definition validateContentType :: "string list \<Rightarrow> string option \<Rightarrow> bool" where
  "validateContentType types value = (case truthy_str value of
     None \<Rightarrow> False | Some v \<Rightarrow> normalizeMediaType v \<in> set types)"

fun readBoundedText :: "int \<Rightarrow> int \<Rightarrow> string list \<Rightarrow> (gateway_error, string) result" where
  "readBoundedText maximum seen [] = Inr []"
| "readBoundedText maximum seen (c # cs) =
     (let seen' = seen + int (length c) in
      if seen' > maximum then Inl (GatewayError MALFORMED_RESPONSE None)
      else rbind (readBoundedText maximum seen' cs) (\<lambda>r. Inr (c @ r)))"

record gateway_options =
  go_maxResponseBytes :: int
  go_responseContentTypes :: "string list"
  go_proofParamsAllowedOrigins :: "string list"
  go_ignoreNotFoundOnDelete :: bool

definition verifier_request ::
  "gateway_options \<Rightarrow> int \<Rightarrow> bool \<Rightarrow> bool \<Rightarrow> verifier_answer \<Rightarrow> (gateway_error, int \<times> json) result" where
  "verifier_request opts expected notFoundIsNull allowNotFound answer = (case answer of
     VerifierRejected aborted \<Rightarrow> Inl (GatewayError (if aborted then GATEWAY_TIMEOUT else UPSTREAM_UNAVAILABLE) None)
   | VerifierAnswered a \<Rightarrow>
       if rx_status a = 404 \<and> notFoundIsNull then Inl (GatewayError GATEWAY_NOT_FOUND (Some 404))
       else if rx_status a = 404 \<and> allowNotFound then Inr (404, JNull)
       else if rx_status a \<noteq> expected then Inl (GatewayError UPSTREAM_HTTP_ERROR (Some (rx_status a)))
       else if rx_status a = 204 then Inr (204, JNull)
       else if \<not> validateContentType (go_responseContentTypes opts) (rx_contentType a)
       then Inl (GatewayError MALFORMED_RESPONSE None)
       else (case (case rx_chunks a of None \<Rightarrow> Inl GatewayThrew | Some cs \<Rightarrow> readBoundedText (go_maxResponseBytes opts) 0 cs) of
           Inl e \<Rightarrow> Inl (if rx_aborted a then GatewayError GATEWAY_TIMEOUT None else e)
         | Inr bytes \<Rightarrow>
             (case Option.bind (utf8_decode bytes) json_parse of
                None \<Rightarrow> Inl (GatewayError MALFORMED_RESPONSE (Some (rx_status a)))
              | Some v \<Rightarrow> Inr (rx_status a, v))))"

definition malformedResponse :: "'a option \<Rightarrow> (gateway_error, 'a) result" where
  "malformedResponse x = (case x of Some a \<Rightarrow> Inr a | None \<Rightarrow> Inl (GatewayError MALFORMED_RESPONSE None))"

section \<open>Construction\<close>

definition isLoopbackHost :: "string \<Rightarrow> bool" where
  "isLoopbackHost h = (h \<in> {''localhost'', ''127.0.0.1'', ''[::1]'', ''::1''})"

definition gateway_validateBaseUrl :: "(string \<Rightarrow> gateway_url option) \<Rightarrow> string \<Rightarrow> (gateway_error, string) result" where
  "gateway_validateBaseUrl parse_url value = (case parse_url value of
     None \<Rightarrow> Inl (GatewayError INVALID_CONFIGURATION None)
   | Some url \<Rightarrow>
       if gu_protocol url \<noteq> ''https:'' \<and> \<not> (gu_protocol url = ''http:'' \<and> isLoopbackHost (gu_hostname url))
       then Inl (GatewayError INVALID_CONFIGURATION None)
       else if gu_username url \<noteq> [] \<or> gu_password url \<noteq> [] \<or> gu_search url \<noteq> [] \<or> gu_hash url \<noteq> []
       then Inl (GatewayError INVALID_CONFIGURATION None)
       else Inr (if gu_href url \<noteq> [] \<and> last (gu_href url) = CHR ''/'' then butlast (gu_href url) else gu_href url))"

definition validateProofRequestBaseUrl :: "(string \<Rightarrow> gateway_url option) \<Rightarrow> string \<Rightarrow> (gateway_error, string) result" where
  "validateProofRequestBaseUrl parse_url value = (case parse_url value of
     None \<Rightarrow> Inl (GatewayError INVALID_CONFIGURATION None)
   | Some url \<Rightarrow> if gu_protocol url \<noteq> ''https:'' then Inl (GatewayError INVALID_CONFIGURATION None) else Inr (gu_href url))"

definition validateHttpsOrigin :: "(string \<Rightarrow> gateway_url option) \<Rightarrow> string \<Rightarrow> (gateway_error, string) result" where
  "validateHttpsOrigin parse_url value = (case parse_url value of
     None \<Rightarrow> Inl (GatewayError INVALID_CONFIGURATION None)
   | Some url \<Rightarrow>
       if gu_protocol url \<noteq> ''https:'' \<or> gu_pathname url \<noteq> ''/'' \<or> gu_search url \<noteq> [] \<or> gu_hash url \<noteq> []
       then Inl (GatewayError INVALID_CONFIGURATION None) else Inr (gu_origin url))"

definition positiveSafeInteger :: "int \<Rightarrow> (gateway_error, int) result" where
  "positiveSafeInteger n = (if 0 < n \<and> n \<le> max_safe then Inr n else Inl (GatewayError INVALID_CONFIGURATION None))"

text \<open>The base URL, the options that the operations use, and the base of the QR links.\<close>

definition new_gateway ::
  "(string \<Rightarrow> gateway_url option) \<Rightarrow> string \<Rightarrow> int option \<Rightarrow> int option \<Rightarrow> string list option \<Rightarrow> string option \<Rightarrow> string list option
     \<Rightarrow> bool option \<Rightarrow> (gateway_error, string \<times> gateway_options \<times> string) result" where
  "new_gateway parse_url baseUrl timeoutMs maxResponseBytes contentTypes proofRequestBaseUrl allowedOrigins ignoreNotFound =
     rbind (gateway_validateBaseUrl parse_url baseUrl) (\<lambda>base.
     rbind (positiveSafeInteger (case timeoutMs of Some n \<Rightarrow> n | None \<Rightarrow> 10000)) (\<lambda>_.
     rbind (positiveSafeInteger (case maxResponseBytes of Some n \<Rightarrow> n | None \<Rightarrow> 256 * 1024)) (\<lambda>maximum.
     let types = (case contentTypes of Some ts \<Rightarrow> ts | None \<Rightarrow> [jsonApiMediaType]) in
     rbind (check (types \<noteq> []) (GatewayError INVALID_CONFIGURATION None)) (\<lambda>_.
     rbind (validateProofRequestBaseUrl parse_url
       (case proofRequestBaseUrl of Some u \<Rightarrow> u | None \<Rightarrow> ''https://app.rarime.com/external'')) (\<lambda>proofBase.
     let origins = (case allowedOrigins of Some os \<Rightarrow> os
           | None \<Rightarrow> (case parse_url base of Some url \<Rightarrow> [gu_origin url] | None \<Rightarrow> [])) in
     rbind (check (origins \<noteq> []) (GatewayError INVALID_CONFIGURATION None)) (\<lambda>_.
     rbind (mapM (validateHttpsOrigin parse_url) origins) (\<lambda>exact.
     Inr (base, \<lparr> go_maxResponseBytes = maximum, go_responseContentTypes = map normalizeMediaType types,
                 go_proofParamsAllowedOrigins = exact,
                 go_ignoreNotFoundOnDelete = (case ignoreNotFound of Some b \<Rightarrow> b | None \<Rightarrow> True) \<rparr>, proofBase))))))))"

section \<open>Codecs\<close>

definition validateGatewayRequest :: "verification_request \<Rightarrow> (gateway_error, unit) result" where
  "validateGatewayRequest r =
     rbind (check (list_all (\<lambda>v. v \<noteq> [] \<and> \<not> hasControlCharacter v)
         [vq_requestId r, vq_eventId r, vq_eventDataDecimal r, vq_selector r, vq_birthDateLowerBound r, vq_birthDateUpperBound r,
          vq_identityCounterLowerBound r, vq_identityCounterUpperBound r, vq_expirationDateLowerBound r,
          vq_expirationDateUpperBound r, vq_timestampLowerBound r, vq_timestampUpperBound r])
       (GatewayError INVALID_CONFIGURATION None)) (\<lambda>_.
     rbind (check (hex_literal (vq_eventData r)) (GatewayError INVALID_CONFIGURATION None)) (\<lambda>_.
     check (list_all decimal_text
         [vq_eventDataDecimal r, vq_selector r, vq_eventId r, vq_identityCounterLowerBound r, vq_identityCounterUpperBound r,
          vq_timestampLowerBound r, vq_timestampUpperBound r]) GatewayThrew))"

text \<open>The JSON:API envelope of a request; its decimals were checked above.\<close>

definition encodeVerificationRequest :: "verification_request \<Rightarrow> json option" where
  "encodeVerificationRequest r =
     (case option_all decimalInteger [vq_identityCounterLowerBound r, vq_identityCounterUpperBound r,
         vq_timestampLowerBound r, vq_timestampUpperBound r] of
        Some [counterLow, counterHigh, timeLow, timeHigh] \<Rightarrow>
          Some (JObj [(''data'', JObj [(''id'', JStr (vq_requestId r)), (''type'', JStr ''advanced_verification''),
            (''attributes'', JObj ([(''event_id'', JStr (vq_eventId r)), (''selector'', JStr (vq_selector r))]
              @ opt_prop ''citizenship_mask'' JStr (vq_citizenshipMask r)
              @ [(''identity_counter_lower_bound'', counterLow), (''identity_counter_upper_bound'', counterHigh),
                 (''birth_date_lower_bound'', JStr (vq_birthDateLowerBound r)), (''birth_date_upper_bound'', JStr (vq_birthDateUpperBound r)),
                 (''event_data'', JStr (vq_eventData r)), (''expiration_date_lower_bound'', JStr (vq_expirationDateLowerBound r)),
                 (''expiration_date_upper_bound'', JStr (vq_expirationDateUpperBound r)),
                 (''timestamp_lower_bound'', timeLow), (''timestamp_upper_bound'', timeHigh)]))])])
      | _ \<Rightarrow> None)"

definition split_path :: "string \<Rightarrow> string list" where
  "split_path s = filter (\<lambda>p. p \<noteq> []) (split_on (CHR ''/'') s)"

definition deriveUserIdHash :: "(string \<Rightarrow> gateway_url option) \<Rightarrow> string \<Rightarrow> string option" where
  "deriveUserIdHash parse_url proofParamsUrl = (case parse_url proofParamsUrl of
     None \<Rightarrow> None
   | Some url \<Rightarrow> (let segments = split_path (gu_pathname url) in
       if segments = [] then None else decodeURIComponent (last segments)))"

definition decodeVerificationLink ::
  "(string \<Rightarrow> gateway_url option) \<Rightarrow> json \<Rightarrow> verification_request \<Rightarrow> (string \<times> string) option" where
  "decodeVerificationLink parse_url value r =
     (case readData value [''id'', ''type'', ''attributes''] of
        None \<Rightarrow> None
      | Some data \<Rightarrow>
          if fld data ''id'' \<noteq> Some (JStr (vq_requestId r)) \<or> fld data ''type'' \<noteq> Some (JStr ''verification_link'') then None
          else Option.bind (readRecord (the (fld data ''attributes'')) [''get_proof_params'']) (\<lambda>attributes.
               Option.bind (readString (the (fld attributes ''get_proof_params''))) (\<lambda>proofParamsUrl.
               Option.bind (deriveUserIdHash parse_url proofParamsUrl) (\<lambda>userIdHash. Some (userIdHash, proofParamsUrl)))))"

definition validateUserIdHash :: "string \<Rightarrow> bool" where
  "validateUserIdHash v = (v \<noteq> [] \<and> \<not> hasControlCharacter v \<and> CHR ''/'' \<notin> set v \<and> bslash_c \<notin> set v)"

datatype rarimo_status = NotVerified | Verified | FailedVerification | UniquenessCheckFailed

fun rarimo_status_str :: "rarimo_status \<Rightarrow> string" where
  "rarimo_status_str NotVerified = ''not_verified''"
| "rarimo_status_str Verified = ''verified''"
| "rarimo_status_str FailedVerification = ''failed_verification''"
| "rarimo_status_str UniquenessCheckFailed = ''uniqueness_check_failed''"

definition decodeVerificationStatus :: "json \<Rightarrow> string \<Rightarrow> rarimo_status option" where
  "decodeVerificationStatus value requestId =
     (case readData value [''id'', ''type'', ''attributes''] of
        None \<Rightarrow> None
      | Some data \<Rightarrow>
          if fld data ''id'' \<noteq> Some (JStr requestId) \<or> fld data ''type'' \<noteq> Some (JStr ''user_status'') then None
          else Option.bind (readRecord (the (fld data ''attributes'')) [''status'']) (\<lambda>attributes.
               Option.bind (as_str (fld attributes ''status'')) (\<lambda>s.
               find (\<lambda>st. rarimo_status_str st = s) [NotVerified, Verified, FailedVerification, UniquenessCheckFailed])))"

definition signal_count :: nat where
  "signal_count = 23"

definition decodeProof :: "json \<Rightarrow> proof_projection option" where
  "decodeProof value =
     Option.bind (readData value [''id'', ''type'', ''attributes'']) (\<lambda>data.
     if fld data ''type'' \<noteq> Some (JStr ''get_proof'') then None else
     Option.bind (truthy_str (as_str (fld data ''id''))) (\<lambda>userIdHash.
     Option.bind (readRecord (the (fld data ''attributes'')) [''proof'']) (\<lambda>attributes.
     Option.bind (readRecord (the (fld attributes ''proof'')) [''proof'', ''pub_signals'']) (\<lambda>envelope.
     Option.bind (readRecord (the (fld envelope ''proof'')) [''pi_a'', ''pi_b'', ''pi_c'', ''protocol'']) (\<lambda>proof.
     if fld proof ''protocol'' \<noteq> Some (JStr ''groth16'') then None else
     Option.bind (readStringArray (the (fld envelope ''pub_signals''))) (\<lambda>publicSignals.
     if length publicSignals \<noteq> signal_count then None else
     Option.bind (readStringArray (the (fld proof ''pi_a''))) (\<lambda>piA.
     Option.bind (readStringMatrix (the (fld proof ''pi_b''))) (\<lambda>piB.
     Option.bind (readStringArray (the (fld proof ''pi_c''))) (\<lambda>piC.
     if length piA \<noteq> 3 \<or> length piB \<noteq> 3 \<or> list_ex (\<lambda>row. length row \<noteq> 2) piB \<or> length piC \<noteq> 3 then None
     else if \<not> list_all decimalField publicSignals \<or> \<not> list_all decimalField (piA @ piC @ concat piB) then None
     else Some \<lparr> pp_userIdHash = userIdHash, pp_publicSignals = publicSignals \<rparr>)))))))))"

definition signalAt :: "string list \<Rightarrow> nat \<Rightarrow> string option" where
  "signalAt signals i = (if i < length signals then Some (signals ! i) else None)"

text \<open>The signals that must equal what the request fixed, by index.\<close>

definition expected_signals :: "verification_request \<Rightarrow> (nat \<times> string) list option" where
  "expected_signals r =
     (case (hexToDecimal (vq_birthDateUpperBound r), hexToDecimal (vq_expirationDateLowerBound r)) of
        (Some birth, Some expiry) \<Rightarrow> Some [(9, vq_eventId r), (10, vq_eventDataDecimal r), (12, vq_selector r),
          (15, vq_timestampUpperBound r), (17, vq_identityCounterUpperBound r), (19, birth), (20, expiry)]
      | _ \<Rightarrow> None)"

definition evidence_prefix :: string where
  "evidence_prefix = ''rarimo-evidence-v1:''"

definition evidenceFromProof :: "proof_projection \<Rightarrow> verification_context \<Rightarrow> string \<Rightarrow> verified_evidence option" where
  "evidenceFromProof proof context evidenceFingerprint =
     (let signals = pp_publicSignals proof; r = vc_request context; at = (\<lambda>i. the (signalAt signals i)) in
      Option.bind (expected_signals r) (\<lambda>expected.
      if \<not> list_all (\<lambda>(i, v). signalAt signals i = Some v) expected then None else
      Option.bind (Option.bind (signalAt signals 6) decodeCitizenship) (\<lambda>alpha3.
      Some \<lparr> ve_requestId = vq_requestId r, ve_userIdHash = pp_userIdHash proof,
             ve_evidenceAuthorization = evidence_prefix @ evidenceFingerprint, ve_evidenceFingerprint = evidenceFingerprint,
             ve_eventId = at 9, ve_eventDataDecimal = at 10, ve_selector = at 12, ve_timestampUpperBound = at 15,
             ve_identityCounterUpperBound = at 17, ve_birthDateUpperBound = at 19, ve_expirationDateLowerBound = at 20,
             ve_citizenshipAlpha3 = alpha3, ve_adultPredicateSatisfied = True \<rparr>)))"

definition validateProofProjection :: "proof_projection \<Rightarrow> verification_context \<Rightarrow> bool" where
  "validateProofProjection proof context =
     (pp_userIdHash proof = vc_userIdHash context \<and> length (pp_publicSignals proof) = signal_count)"

section \<open>The gateway\<close>

record gateway =
  gw_contexts :: "string \<rightharpoonup> verification_context"
  gw_authorizations :: "string \<rightharpoonup> issuance_authorization"

definition new_gateway_state :: gateway where
  "new_gateway_state = \<lparr> gw_contexts = Map.empty, gw_authorizations = Map.empty \<rparr>"

definition createVerificationRequest ::
  "(string \<Rightarrow> gateway_url option) \<Rightarrow> (string \<Rightarrow> string) \<Rightarrow> gateway_options \<Rightarrow> verification_request \<Rightarrow> verifier_answer
     \<Rightarrow> gateway \<Rightarrow> gateway \<times> (gateway_error, string \<times> string \<times> string) result" where
  "createVerificationRequest parse_url qr_link opts r answer g =
     (case rbind (validateGatewayRequest r) (\<lambda>_.
        case encodeVerificationRequest r of
          None \<Rightarrow> Inl GatewayThrew
        | Some body \<Rightarrow>
            rbind (verifier_request opts 200 False False answer) (\<lambda>(status, value).
            malformedResponse
              (case decodeVerificationLink parse_url value r of
                 None \<Rightarrow> None
               | Some (userIdHash, proofParamsUrl) \<Rightarrow>
                   if \<not> validateUserIdHash userIdHash then None
                   else case parse_url proofParamsUrl of
                     None \<Rightarrow> None
                   | Some url \<Rightarrow>
                       if gu_protocol url \<noteq> ''https:'' \<or> gu_origin url \<notin> set (go_proofParamsAllowedOrigins opts) then None
                       else Some (userIdHash, proofParamsUrl)))) of
        Inl e \<Rightarrow> (g, Inl e)
      | Inr (userIdHash, proofParamsUrl) \<Rightarrow>
          (g \<lparr> gw_contexts := (gw_contexts g)(vq_requestId r \<mapsto> \<lparr> vc_request = r, vc_userIdHash = userIdHash \<rparr>) \<rparr>,
           Inr (userIdHash, proofParamsUrl, qr_link proofParamsUrl)))"

definition getVerificationStatus ::
  "gateway_options \<Rightarrow> string \<Rightarrow> verifier_answer \<Rightarrow> gateway \<Rightarrow> (gateway_error, rarimo_status) result" where
  "getVerificationStatus opts requestId answer g =
     rbind (verifier_request opts 200 False False answer) (\<lambda>(status, value).
     malformedResponse (decodeVerificationStatus value
       (case gw_contexts g requestId of Some c \<Rightarrow> vq_requestId (vc_request c) | None \<Rightarrow> requestId)))"

definition proof_fingerprint :: "(string \<Rightarrow> string) \<Rightarrow> json \<Rightarrow> string" where
  "proof_fingerprint sha256 value = sha256 (utf8 (stringify value))"

text \<open>
  The end of \<open>getVerifiedEvidence\<close>, on the context that was read at its beginning: the
  answers have arrived by now, and the gateway may have changed in between.
\<close>

definition evidence_finish ::
  "(string \<Rightarrow> string) \<Rightarrow> gateway_options \<Rightarrow> verification_context \<Rightarrow> int \<Rightarrow> verifier_answer \<Rightarrow> gateway
     \<Rightarrow> gateway \<times> (gateway_error, verified_evidence option) result" where
  "evidence_finish sha256 opts context now proofAnswer g =
     (case verifier_request opts 200 True False proofAnswer of
        Inl e \<Rightarrow> (g, if e = GatewayError GATEWAY_NOT_FOUND (Some 404) then Inr None else Inl e)
      | Inr (status, value) \<Rightarrow>
          (case Option.bind (decodeProof value) (\<lambda>proof.
              if \<not> validateProofProjection proof context then None
              else evidenceFromProof proof context (proof_fingerprint sha256 value)) of
             None \<Rightarrow> (g, Inl (GatewayError MALFORMED_RESPONSE None))
           | Some evidence \<Rightarrow>
               (case gw_authorizations g (ve_evidenceAuthorization evidence) of
                  None \<Rightarrow> (g \<lparr> gw_authorizations := (gw_authorizations g)(ve_evidenceAuthorization evidence \<mapsto>
                      \<lparr> au_context = context, au_evidence = evidence, au_verifiedAt = now \<rparr>) \<rparr>, Inr (Some evidence))
                | Some existing \<Rightarrow>
                    if vq_requestId (vc_request (au_context existing)) \<noteq> vq_requestId (vc_request context)
                      \<or> ve_evidenceFingerprint (au_evidence existing) \<noteq> ve_evidenceFingerprint evidence
                    then (g, Inl (GatewayError MALFORMED_RESPONSE None))
                    else (g, Inr (Some evidence)))))"

definition getVerifiedEvidence ::
  "(string \<Rightarrow> string) \<Rightarrow> gateway_options \<Rightarrow> string \<Rightarrow> int \<Rightarrow> verifier_answer \<Rightarrow> verifier_answer \<Rightarrow> gateway
     \<Rightarrow> gateway \<times> (gateway_error, verified_evidence option) result" where
  "getVerifiedEvidence sha256 opts requestId now statusAnswer proofAnswer g =
     (case gw_contexts g requestId of
        None \<Rightarrow> (g, Inl (GatewayError MALFORMED_RESPONSE None))
      | Some context \<Rightarrow>
          (case getVerificationStatus opts requestId statusAnswer g of
             Inl e \<Rightarrow> (g, Inl e)
           | Inr status \<Rightarrow>
               if status \<noteq> Verified then (g, Inr None) else evidence_finish sha256 opts context now proofAnswer g))"

definition forget_request :: "string \<Rightarrow> gateway \<Rightarrow> gateway" where
  "forget_request requestId g = g \<lparr> gw_contexts := (gw_contexts g)(requestId := None),
     gw_authorizations := (\<lambda>a. case gw_authorizations g a of
       Some r \<Rightarrow> if vq_requestId (vc_request (au_context r)) = requestId then None else Some r
     | None \<Rightarrow> None) \<rparr>"

definition deleteVerification ::
  "gateway_options \<Rightarrow> string \<Rightarrow> verifier_answer \<Rightarrow> gateway \<Rightarrow> gateway \<times> (gateway_error, unit) result" where
  "deleteVerification opts requestId answer g =
     (forget_request requestId g,
      rbind (verifier_request opts 204 False (go_ignoreNotFoundOnDelete opts) answer) (\<lambda>_. Inr ()))"

section \<open>What evidence authorizes\<close>

record issuance_policy =
  ip_issuerId :: string
  ip_credentialEpoch :: int
  ip_credentialTtlMs :: int
  ip_fromAlpha3 :: "string \<Rightarrow> string option"
  ip_maximumIssuanceDelayMs :: "int option"
  ip_clockSkewMs :: "int option"

text \<open>\<open>toUpperCase\<close> below 256; the two letters whose capitals lie above are kept.\<close>

definition upper_char :: "char \<Rightarrow> string" where
  "upper_char c = (let n = (of_char c :: nat) in
     if (97 \<le> n \<and> n \<le> 122) \<or> (224 \<le> n \<and> n \<le> 254 \<and> n \<noteq> 247) then [char_of (n - 32)]
     else if n = 223 then ''SS'' else [c])"

definition toUpperCase :: "string \<Rightarrow> string" where
  "toUpperCase s = concat (map upper_char s)"

definition no_birth_date :: string where
  "no_birth_date = ''0x303030303030''"

text \<open>The checks of \<open>validateCredentialIssuance\<close>, each an early return of \<open>false\<close>.\<close>

definition holder_bound :: "compact_runtime \<Rightarrow> issuance_request \<Rightarrow> verification_request \<Rightarrow> verified_evidence \<Rightarrow> bool" where
  "holder_bound rt q r evidence =
     (case deriveRarimoIssuanceEventData rt (iq_enrollmentId q) (iq_holderBinding q) of
        Inl _ \<Rightarrow> False
      | Inr eventData \<Rightarrow> toLowerCase (vq_eventData r) = ''0x'' @ bytesToHex eventData
          \<and> vq_eventDataDecimal r = show_nat (read_hex (bytesToHex eventData))
          \<and> ve_eventDataDecimal evidence = vq_eventDataDecimal r)"

definition country_bound :: "issuance_policy \<Rightarrow> issuance_request \<Rightarrow> verification_request \<Rightarrow> verified_evidence \<Rightarrow> bool" where
  "country_bound policy q r evidence =
     (truthy_str (ip_fromAlpha3 policy (ve_citizenshipAlpha3 evidence)) = Some (cl_country (iq_claims q))
      \<and> (case truthy_str (vq_citizenshipMask r) of None \<Rightarrow> True
         | Some wanted \<Rightarrow> toUpperCase (trim wanted) = toUpperCase (trim (ve_citizenshipAlpha3 evidence))))"

definition claims_bound :: "issuance_policy \<Rightarrow> issuance_request \<Rightarrow> verification_request \<Rightarrow> verified_evidence \<Rightarrow> bool" where
  "claims_bound policy q r evidence =
     (let claims = iq_claims q; adultRequested = (vq_birthDateUpperBound r \<noteq> no_birth_date);
          expectedAgeClass = (if adultRequested then Adult else AgeUnknown)
      in \<not> (adultRequested \<and> \<not> ve_adultPredicateSatisfied evidence)
         \<and> cl_issuerId claims = ip_issuerId policy \<and> cl_ageClass claims = expectedAgeClass
         \<and> cl_assurance claims = DocumentNfc \<and> cl_credentialEpoch claims = ip_credentialEpoch policy)"

definition validity_window :: "(string \<Rightarrow> int option) \<Rightarrow> int \<Rightarrow> issuance_policy \<Rightarrow> credential_claims \<Rightarrow> int \<Rightarrow> bool" where
  "validity_window date_parse now policy claims verifiedAt =
     (case (date_parse (cl_validFrom claims), date_parse (cl_validUntil claims)) of
        (Some validFrom, Some validUntil) \<Rightarrow>
          (let maximumDelay = (case ip_maximumIssuanceDelayMs policy of Some d \<Rightarrow> d | None \<Rightarrow> 10 * 60 * 1000);
               clockSkew = (case ip_clockSkewMs policy of Some d \<Rightarrow> d | None \<Rightarrow> 60000)
           in validFrom mod 1000 = 0 \<and> validUntil mod 1000 = 0
              \<and> validUntil - validFrom = ip_credentialTtlMs policy
              \<and> now - verifiedAt \<le> maximumDelay \<and> verifiedAt - clockSkew \<le> validFrom
              \<and> validFrom \<le> now + clockSkew \<and> now < validUntil)
      | _ \<Rightarrow> False)"

definition validateCredentialIssuance ::
  "compact_runtime \<Rightarrow> (string \<Rightarrow> int option) \<Rightarrow> int \<Rightarrow> issuance_policy \<Rightarrow> issuance_request \<Rightarrow> gateway \<Rightarrow> bool" where
  "validateCredentialIssuance rt date_parse now policy q g =
     (case gw_authorizations g (iq_evidenceAuthorization q) of
        None \<Rightarrow> False
      | Some a \<Rightarrow> iq_provider q = RarimoProvider
          \<and> holder_bound rt q (vc_request (au_context a)) (au_evidence a)
          \<and> country_bound policy q (vc_request (au_context a)) (au_evidence a)
          \<and> claims_bound policy q (vc_request (au_context a)) (au_evidence a)
          \<and> validity_window date_parse now policy (iq_claims q) (au_verifiedAt a))"

section \<open>Lists of readings\<close>

lemma option_all_map: "list_all (\<lambda>x. f (g x) = Some x) xs \<Longrightarrow> option_all f (map g xs) = Some xs"
  by (induction xs) simp_all

end
