(* ===== verification/Rarimo_Adapter.thy ===== *)
theory Rarimo_Adapter
  imports Rarimo_Gateway Passport_Client
begin

text \<open>
  The browser's credential adapter
  (\<open>api/src/passport-v2/rarimo-credential-adapter.ts\<close>): enrolment, polling, the issued
  credential and its vault. Enrolment records are objects that polls keep hold of after
  the table has forgotten them, so the adapter has a store of records and the table maps
  an enrolment to an address of it. A poll is the sequence of its steps between two
  awaited answers; other operations may run in between. Within one step are: the
  deletion of the verifier's record (nothing but its flag waits for it), the first load
  of the vault, and the clearing inside a new enrolment. A write to the vault takes
  effect with its answer. Options that JavaScript would take as fractions are outside
  the model; the verifier, the issuer, the vault, the clock and the random bytes are
  arguments.
\<close>

section \<open>Values\<close>

datatype EnrollmentStatus = EnrollPending | EnrollIssued | EnrollFailed | EnrollExpired | EnrollRevoked

datatype PassportSessionStatus = SessionConnected | SessionExpired | SessionDisconnected

record credential_summary =
  su_provider :: CredentialProvider
  su_status :: EnrollmentStatus
  su_claims :: credential_claims

record private_material =
  pm_voterSecret :: string
  pm_holderBlind :: string
  pm_holderBinding :: string
  pm_credentialBlind :: string
  pm_credentialLeaf :: string
  pm_claims :: credential_claims

record stored_credential =
  so_summary :: credential_summary
  so_handle :: string
  so_material :: private_material

record enrollment_record =
  en_enrollmentId :: string
  en_requestId :: string
  en_userIdHash :: string
  en_holderSecret :: string
  en_holderBlind :: string
  en_holderBinding :: string
  en_createdAt :: string
  en_expiresAt :: string
  en_request :: verification_request
  en_policy :: "credential_policy option"
  en_status :: EnrollmentStatus
  en_updatedAt :: string
  en_summary :: "credential_summary option"
  en_credentialBlind :: "string option"
  en_credentialLeaf :: "string option"
  en_actionAuthorizationHandle :: "string option"
  en_proofFingerprint :: "string option"
  en_cleanupRequested :: bool

datatype adapter_error = CivicError CivicCredentialErrorCode bool | AdapterThrew

record adapter_options =
  ao_issuerId :: string
  ao_credentialEpoch :: int
  ao_fromAlpha3 :: "string \<Rightarrow> string option"
  ao_toAlpha3 :: "string \<Rightarrow> string option"
  ao_uniquenessTimestampUpperBound :: int
  ao_enrollmentTtlMs :: int
  ao_credentialTtlMs :: int
  ao_vault :: bool

definition new_rarimo_adapter ::
  "string \<Rightarrow> int \<Rightarrow> (string \<Rightarrow> string option) \<Rightarrow> (string \<Rightarrow> string option) \<Rightarrow> int \<Rightarrow> int option \<Rightarrow> int option \<Rightarrow> bool
     \<Rightarrow> (adapter_error, adapter_options) result" where
  "new_rarimo_adapter issuerId epoch fromAlpha3 toAlpha3 upperBound enrollmentTtl credentialTtl vault =
     rbind (check (trim issuerId \<noteq> []) AdapterThrew) (\<lambda>_.
     rbind (check (0 \<le> epoch \<and> epoch \<le> max_safe) AdapterThrew) (\<lambda>_.
     rbind (check (0 \<le> upperBound \<and> upperBound \<le> max_safe) AdapterThrew) (\<lambda>_.
     rbind (check (case enrollmentTtl of Some t \<Rightarrow> 0 < t | None \<Rightarrow> True) AdapterThrew) (\<lambda>_.
     rbind (check (case credentialTtl of Some t \<Rightarrow> 0 < t | None \<Rightarrow> True) AdapterThrew) (\<lambda>_.
     Inr \<lparr> ao_issuerId = issuerId, ao_credentialEpoch = epoch, ao_fromAlpha3 = fromAlpha3, ao_toAlpha3 = toAlpha3,
           ao_uniquenessTimestampUpperBound = upperBound,
           ao_enrollmentTtlMs = (case enrollmentTtl of Some t \<Rightarrow> t | None \<Rightarrow> 10 * 60 * 1000),
           ao_credentialTtlMs = (case credentialTtl of Some t \<Rightarrow> t | None \<Rightarrow> 24 * 60 * 60 * 1000), ao_vault = vault \<rparr>)))))"

section \<open>The request to the verifier\<close>

definition assertConnectedPassportSession :: "PassportSessionStatus option \<Rightarrow> (adapter_error, unit) result" where
  "assertConnectedPassportSession session = (case session of
     None \<Rightarrow> Inl (CivicError PASSPORT_SESSION_REQUIRED False)
   | Some SessionExpired \<Rightarrow> Inl (CivicError PASSPORT_SESSION_EXPIRED True)
   | Some SessionConnected \<Rightarrow> Inr ()
   | Some SessionDisconnected \<Rightarrow> Inl (CivicError PASSPORT_SESSION_REQUIRED False))"

definition assertPolicyCanBeRequested :: "credential_policy option \<Rightarrow> (adapter_error, unit) result" where
  "assertPolicyCanBeRequested policy = (case policy of
     None \<Rightarrow> Inr ()
   | Some p \<Rightarrow>
       rbind (check (case po_minimumAssurance p of
           Some minimum \<Rightarrow> \<not> compareCredentialAssurance DocumentNfc minimum < 0 | None \<Rightarrow> True)
         (CivicError POLICY_NOT_SATISFIED False)) (\<lambda>_.
       check (po_allowedCountries p \<noteq> Some []) (CivicError POLICY_NOT_SATISFIED False)))"

definition ageThresholdDate :: "int \<Rightarrow> int \<Rightarrow> int" where
  "ageThresholdDate now age = setUTCFullYear (fst (utc_fields now) - age) now"

definition asciiDateHex :: "int \<Rightarrow> string" where
  "asciiDateHex date = (case utc_fields date of (y, m, d) \<Rightarrow>
     ''0x'' @ bytesToHex (pad 2 (y mod 100) @ pad 2 (int m + 1) @ pad 2 d))"

definition bytesToBigInt :: "string \<Rightarrow> nat" where
  "bytesToBigInt bytes = read_hex (bytesToHex bytes)"

definition bytesToPositiveFieldDecimal :: "string \<Rightarrow> string" where
  "bytesToPositiveFieldDecimal bytes =
     (let masked = (case bytes of [] \<Rightarrow> [] | b # bs \<Rightarrow> char_of ((of_char b :: nat) mod 64) # bs);
          n = bytesToBigInt masked
      in show_nat (if n = 0 then 1 else n))"

text \<open>\<open>BigInt\<close> of the adapter's own bounds, which are hexadecimal literals.\<close>

definition bound_decimal :: "string \<Rightarrow> string" where
  "bound_decimal v = show_nat (read_hex (drop 2 v))"

text \<open>The selector's bits: nullifier, citizenship, timestamp, identity counter, expiry and, for adults, birth date.\<close>

definition query_selector :: "bool \<Rightarrow> nat" where
  "query_selector requireAdult = 2 ^ 0 + 2 ^ 5 + 2 ^ 9 + 2 ^ 11 + 2 ^ 12 + (if requireAdult then 2 ^ 15 else 0)"

definition requires_adult :: "credential_policy option \<Rightarrow> bool" where
  "requires_adult policy = (case policy of Some p \<Rightarrow> po_requireAdult p | None \<Rightarrow> False)"

definition citizenship_mask :: "(string \<Rightarrow> string option) \<Rightarrow> credential_policy option \<Rightarrow> string option" where
  "citizenship_mask toAlpha3 policy = (case Option.bind policy po_allowedCountries of Some [c] \<Rightarrow> toAlpha3 c | _ \<Rightarrow> None)"

definition buildVerificationRequest ::
  "compact_runtime \<Rightarrow> adapter_options \<Rightarrow> int \<Rightarrow> string \<Rightarrow> string \<Rightarrow> string \<Rightarrow> string \<Rightarrow> credential_policy option
     \<Rightarrow> (adapter_error, verification_request) result" where
  "buildVerificationRequest rt opts now eventBytes requestId enrollmentId holderBinding policy =
     rbind (map_err (\<lambda>_. AdapterThrew) (deriveRarimoIssuanceEventData rt enrollmentId holderBinding)) (\<lambda>eventData.
     Inr \<lparr> vq_requestId = requestId, vq_eventId = bytesToPositiveFieldDecimal eventBytes,
           vq_eventData = ''0x'' @ bytesToHex eventData, vq_eventDataDecimal = show_nat (bytesToBigInt eventData),
           vq_selector = show_nat (query_selector (requires_adult policy)),
           vq_citizenshipMask = citizenship_mask (ao_toAlpha3 opts) policy,
           vq_birthDateLowerBound = no_birth_date,
           vq_birthDateUpperBound = (if requires_adult policy then asciiDateHex (ageThresholdDate now 18) else no_birth_date),
           vq_identityCounterLowerBound = ''0'', vq_identityCounterUpperBound = ''1'',
           vq_expirationDateLowerBound = asciiDateHex now, vq_expirationDateUpperBound = no_birth_date,
           vq_timestampLowerBound = ''0'', vq_timestampUpperBound = show_int (ao_uniquenessTimestampUpperBound opts) \<rparr>)"

definition validateVerificationLink ::
  "(string \<Rightarrow> gateway_url option) \<Rightarrow> verification_link \<Rightarrow> string \<Rightarrow> (adapter_error, unit) result" where
  "validateVerificationLink parse_url link expectedRequestId = (case parse_url (vl_proofRequestUrl link) of
     None \<Rightarrow> Inl (CivicError INVALID_CREDENTIAL_CLAIMS False)
   | Some url \<Rightarrow> check (vl_requestId link = expectedRequestId \<and> trim (vl_userIdHash link) \<noteq> [] \<and> gu_protocol url = ''https:'')
       (CivicError INVALID_CREDENTIAL_CLAIMS False))"

section \<open>What the verifier and the issuer answered\<close>

definition validateEvidenceBinding :: "enrollment_record \<Rightarrow> verified_evidence \<Rightarrow> (adapter_error, unit) result" where
  "validateEvidenceBinding e evidence = (let r = en_request e in
     rbind (check (ve_requestId evidence = en_requestId e \<and> ve_userIdHash evidence = en_userIdHash e
         \<and> ve_eventId evidence = vq_eventId r \<and> ve_eventDataDecimal evidence = vq_eventDataDecimal r
         \<and> ve_selector evidence = vq_selector r \<and> ve_timestampUpperBound evidence = vq_timestampUpperBound r
         \<and> ve_identityCounterUpperBound evidence = vq_identityCounterUpperBound r
         \<and> ve_birthDateUpperBound evidence = bound_decimal (vq_birthDateUpperBound r)
         \<and> ve_expirationDateLowerBound evidence = bound_decimal (vq_expirationDateLowerBound r)
         \<and> trim (ve_evidenceAuthorization evidence) \<noteq> [] \<and> is_hex64 (ve_evidenceFingerprint evidence))
       (CivicError INVALID_CREDENTIAL_CLAIMS False)) (\<lambda>_.
     check (\<not> (vq_birthDateUpperBound r \<noteq> no_birth_date \<and> \<not> ve_adultPredicateSatisfied evidence))
       (CivicError INVALID_CREDENTIAL_CLAIMS False)))"

text \<open>The derived country, age class and assurance.\<close>

definition deriveClaims ::
  "verified_evidence \<Rightarrow> (string \<Rightarrow> string option) \<Rightarrow> enrollment_record
     \<Rightarrow> (adapter_error, string \<times> CredentialAgeClass \<times> CredentialAssurance) result" where
  "deriveClaims evidence fromAlpha3 e = (case truthy_str (fromAlpha3 (ve_citizenshipAlpha3 evidence)) of
     None \<Rightarrow> Inl (CivicError INVALID_CREDENTIAL_CLAIMS False)
   | Some country \<Rightarrow>
       rbind (check (case truthy_str (vq_citizenshipMask (en_request e)) of
           None \<Rightarrow> True
         | Some codes \<Rightarrow> (case truthy_str (fromAlpha3 codes) of Some requested \<Rightarrow> requested = country | None \<Rightarrow> True))
         (CivicError INVALID_CREDENTIAL_CLAIMS False)) (\<lambda>_.
       rbind (check (case Option.bind (en_policy e) po_allowedCountries of
           Some countries \<Rightarrow> country \<in> set countries | None \<Rightarrow> True)
         (CivicError INVALID_CREDENTIAL_CLAIMS False)) (\<lambda>_.
       Inr (country, if vq_birthDateUpperBound (en_request e) = no_birth_date then AgeUnknown else Adult, DocumentNfc))))"

definition enrollment_claims ::
  "adapter_options \<Rightarrow> int \<Rightarrow> enrollment_record \<Rightarrow> verified_evidence \<Rightarrow> (adapter_error, int \<times> credential_claims) result" where
  "enrollment_claims opts now e evidence =
     rbind (validateEvidenceBinding e evidence) (\<lambda>_.
     rbind (deriveClaims evidence (ao_fromAlpha3 opts) e) (\<lambda>(country, ageClass, assurance).
     let from = now div 1000 * 1000 in
     Inr (from, \<lparr> cl_issuerId = ao_issuerId opts, cl_country = country, cl_ageClass = ageClass, cl_assurance = assurance,
       cl_credentialEpoch = ao_credentialEpoch opts, cl_validFrom = toISOString from,
       cl_validUntil = toISOString (from + ao_credentialTtlMs opts) \<rparr>)))"

definition adapter_issuance_request :: "enrollment_record \<Rightarrow> verified_evidence \<Rightarrow> credential_claims \<Rightarrow> issuance_request" where
  "adapter_issuance_request e evidence claims =
     \<lparr> iq_enrollmentId = en_enrollmentId e, iq_provider = RarimoProvider,
       iq_evidenceAuthorization = ve_evidenceAuthorization evidence, iq_holderBinding = en_holderBinding e, iq_claims = claims \<rparr>"

definition validateIssuance ::
  "compact_runtime \<Rightarrow> (string \<Rightarrow> int option) \<Rightarrow> issuance_result \<Rightarrow> string \<Rightarrow> credential_claims \<Rightarrow> (adapter_error, unit) result" where
  "validateIssuance rt date_parse issuance holderBinding claims =
     (let refused = CivicError ISSUANCE_FAILED True; receipt = ir_receipt issuance in
      rbind (check (trim (ir_issuanceId issuance) \<noteq> []) refused) (\<lambda>_.
      rbind (check (length (ir_credentialBlind issuance) = 32 \<and> length (ir_credentialLeaf issuance) = 32
          \<and> r_action receipt = Credential \<and> r_circuit receipt = ''addCredential'' \<and> r_network receipt = Preview) refused) (\<lambda>_.
      rbind (map_err (\<lambda>_. AdapterThrew) (deriveCredentialLeaf rt date_parse holderBinding claims (ir_credentialBlind issuance))) (\<lambda>leaf.
      check (leaf = ir_credentialLeaf issuance) refused))))"

section \<open>State\<close>

datatype poll_stage =
    AwaitStatus
  | AwaitEvidence
  | AwaitIssuance verified_evidence int credential_claims
  | AwaitSave stored_credential int

record rarimo_adapter =
  ad_records :: "enrollment_record list"
  ad_enrollments :: "(string \<times> nat) list"
  ad_active :: "string option"
  ad_restored :: "stored_credential option option"
  ad_vault :: "stored_credential option"
  ad_checks :: "(string \<times> nat \<times> poll_stage) list"
  ad_begins :: "enrollment_record list"
  ad_clears :: "nat list list"

text \<open>A fresh adapter, on what the vault holds.\<close>

definition fresh_adapter :: "stored_credential option \<Rightarrow> rarimo_adapter" where
  "fresh_adapter vault = \<lparr> ad_records = [], ad_enrollments = [], ad_active = None, ad_restored = None, ad_vault = vault,
     ad_checks = [], ad_begins = [], ad_clears = [] \<rparr>"

definition record_at :: "nat \<Rightarrow> rarimo_adapter \<Rightarrow> enrollment_record" where
  "record_at r a = ad_records a ! r"

definition set_record :: "nat \<Rightarrow> (enrollment_record \<Rightarrow> enrollment_record) \<Rightarrow> rarimo_adapter \<Rightarrow> rarimo_adapter" where
  "set_record r f a = a \<lparr> ad_records := (ad_records a)[r := f (record_at r a)] \<rparr>"

definition isTerminal :: "EnrollmentStatus \<Rightarrow> bool" where
  "isTerminal s = (s \<in> {EnrollIssued, EnrollFailed, EnrollExpired, EnrollRevoked})"

definition zeros :: "string \<Rightarrow> string" where
  "zeros bs = replicate (length bs) (char_of (0 :: nat))"

definition zeroize_holder :: "enrollment_record \<Rightarrow> enrollment_record" where
  "zeroize_holder e = e \<lparr> en_holderSecret := zeros (en_holderSecret e), en_holderBlind := zeros (en_holderBlind e),
     en_holderBinding := zeros (en_holderBinding e) \<rparr>"

definition zeroize_record :: "enrollment_record \<Rightarrow> enrollment_record" where
  "zeroize_record e = (zeroize_holder e) \<lparr> en_credentialBlind := map_option zeros (en_credentialBlind e),
     en_credentialLeaf := map_option zeros (en_credentialLeaf e) \<rparr>"

text \<open>\<open>Date.parse\<close> of a stored text; a text that is no date compares as false.\<close>

definition reached :: "(string \<Rightarrow> int option) \<Rightarrow> int \<Rightarrow> string \<Rightarrow> bool" where
  "reached date_parse now s = (case date_parse s of Some t \<Rightarrow> t \<le> now | None \<Rightarrow> False)"

definition cleanupProviderRecord :: "nat \<Rightarrow> bool \<Rightarrow> rarimo_adapter \<Rightarrow> rarimo_adapter \<times> bool" where
  "cleanupProviderRecord r deleted a =
     (if en_cleanupRequested (record_at r a) then (a, True)
      else if deleted then (set_record r (\<lambda>e. e \<lparr> en_cleanupRequested := True \<rparr>) a, True) else (a, False))"

definition failRecord :: "int \<Rightarrow> enrollment_record \<Rightarrow> enrollment_record" where
  "failRecord now e = zeroize_holder (e \<lparr> en_status := EnrollFailed, en_updatedAt := toISOString now \<rparr>)"

definition failAndCleanup :: "nat \<Rightarrow> int \<Rightarrow> bool \<Rightarrow> rarimo_adapter \<Rightarrow> rarimo_adapter" where
  "failAndCleanup r now deleted a = fst (cleanupProviderRecord r deleted (set_record r (failRecord now) a))"

definition expireRecord :: "nat \<Rightarrow> int \<Rightarrow> bool \<Rightarrow> rarimo_adapter \<Rightarrow> rarimo_adapter \<times> bool" where
  "expireRecord r now deleted a =
     (case cleanupProviderRecord r deleted
         (set_record r (\<lambda>e. e \<lparr> en_status := EnrollExpired, en_updatedAt := toISOString now \<rparr>) a) of
        (a', cleaned) \<Rightarrow> (set_record r zeroize_holder a', cleaned))"

datatype status_answer =
    StatusSnapshot string EnrollmentStatus string "CivicCredentialErrorCode option"
  | StatusRejected adapter_error
  | StatusWaits

definition toStatusSnapshot :: "enrollment_record \<Rightarrow> CivicCredentialErrorCode option \<Rightarrow> status_answer" where
  "toStatusSnapshot e code = StatusSnapshot (en_enrollmentId e) (en_status e) (en_updatedAt e) code"

section \<open>Clearing and restoring\<close>

definition loadRestoredCredential ::
  "adapter_options \<Rightarrow> bool \<Rightarrow> rarimo_adapter \<Rightarrow> rarimo_adapter \<times> (adapter_error, stored_credential option) result" where
  "loadRestoredCredential opts loads a = (case ad_restored a of
     Some c \<Rightarrow> (a, Inr c)
   | None \<Rightarrow>
       if \<not> ao_vault opts then (a \<lparr> ad_restored := Some None \<rparr>, Inr None)
       else if \<not> loads then (a, Inl AdapterThrew)
       else (a \<lparr> ad_restored := Some (ad_vault a) \<rparr>, Inr (ad_vault a)))"

definition clear_vault :: "adapter_options \<Rightarrow> bool \<Rightarrow> rarimo_adapter \<Rightarrow> rarimo_adapter \<times> bool" where
  "clear_vault opts clears a = (if \<not> ao_vault opts then (a, True) else if clears then (a \<lparr> ad_vault := None \<rparr>, True) else (a, False))"

definition expireRestoredCredential :: "adapter_options \<Rightarrow> bool \<Rightarrow> rarimo_adapter \<Rightarrow> rarimo_adapter \<times> bool" where
  "expireRestoredCredential opts clears a = clear_vault opts clears (a \<lparr> ad_restored := Some None \<rparr>)"

text \<open>The records known when the clearing begins, and its end when their deletions have settled.\<close>

definition clear_start :: "rarimo_adapter \<Rightarrow> nat list" where
  "clear_start a = map snd (ad_enrollments a)"

fun cleanup_all :: "nat list \<Rightarrow> (nat \<Rightarrow> bool) \<Rightarrow> rarimo_adapter \<Rightarrow> rarimo_adapter \<times> bool" where
  "cleanup_all [] deleted a = (a, True)"
| "cleanup_all (r # rs) deleted a =
     (case cleanupProviderRecord r (deleted r) a of (a1, done1) \<Rightarrow>
      case cleanup_all rs deleted a1 of (a2, done2) \<Rightarrow> (a2, done1 \<and> done2))"

definition clear_finish ::
  "adapter_options \<Rightarrow> nat list \<Rightarrow> (nat \<Rightarrow> bool) \<Rightarrow> bool \<Rightarrow> rarimo_adapter \<Rightarrow> rarimo_adapter \<times> (adapter_error, unit) result" where
  "clear_finish opts rs deleted clears a =
     (case cleanup_all rs deleted a of (a1, cleaned) \<Rightarrow>
      case clear_vault opts clears ((fold (\<lambda>r. set_record r zeroize_record) rs a1)
          \<lparr> ad_enrollments := [], ad_active := None, ad_restored := Some None \<rparr>) of (a2, cleared) \<Rightarrow>
      (a2, if \<not> cleared then Inl AdapterThrew
           else if \<not> cleaned then Inl (CivicError ADAPTER_UNAVAILABLE True) else Inr ()))"

section \<open>Enrolment\<close>

record enrollment_entropy =
  ee_enrollmentId :: string
  ee_requestId :: string
  ee_holderSecret :: string
  ee_holderBlind :: string
  ee_eventId :: string

text \<open>Up to the request to the verifier; the record is built with its link's user hash still to come.\<close>

definition new_enrollment ::
  "compact_runtime \<Rightarrow> adapter_options \<Rightarrow> int \<Rightarrow> enrollment_entropy \<Rightarrow> credential_policy option
     \<Rightarrow> (adapter_error, enrollment_record) result" where
  "new_enrollment rt opts created random policy =
     (let enrollmentId = bytesToHex (ee_enrollmentId random); requestId = bytesToHex (ee_requestId random);
          expires = created + ao_enrollmentTtlMs opts in
      rbind (check (\<not> expires \<le> created) (CivicError ENROLLMENT_EXPIRED False)) (\<lambda>_.
      rbind (map_err (\<lambda>_. AdapterThrew) (deriveHolderBinding rt (ee_holderSecret random) (ee_holderBlind random))) (\<lambda>holderBinding.
      rbind (buildVerificationRequest rt opts created (ee_eventId random) requestId enrollmentId holderBinding policy) (\<lambda>r.
      Inr \<lparr> en_enrollmentId = enrollmentId, en_requestId = requestId, en_userIdHash = [], en_holderSecret = ee_holderSecret random,
            en_holderBlind = ee_holderBlind random, en_holderBinding = holderBinding, en_createdAt = toISOString created,
            en_expiresAt = toISOString expires, en_request = r, en_policy = policy, en_status = EnrollPending,
            en_updatedAt = toISOString created, en_summary = None, en_credentialBlind = None, en_credentialLeaf = None,
            en_actionAuthorizationHandle = None, en_proofFingerprint = None, en_cleanupRequested = False \<rparr>))))"

definition clear_for_enrollment ::
  "adapter_options \<Rightarrow> bool \<Rightarrow> (nat \<Rightarrow> bool) \<Rightarrow> bool \<Rightarrow> rarimo_adapter \<Rightarrow> rarimo_adapter \<times> (adapter_error, unit) result" where
  "clear_for_enrollment opts loads deleted clears a =
     (if ad_enrollments a \<noteq> [] then clear_finish opts (clear_start a) deleted clears a
      else case loadRestoredCredential opts loads a of
        (a1, Inl e) \<Rightarrow> (a1, Inl e)
      | (a1, Inr None) \<Rightarrow> (a1, Inr ())
      | (a1, Inr (Some _)) \<Rightarrow> clear_finish opts (clear_start a1) deleted clears a1)"

definition begin_request ::
  "compact_runtime \<Rightarrow> adapter_options \<Rightarrow> PassportSessionStatus option \<Rightarrow> credential_policy option \<Rightarrow> int \<Rightarrow> enrollment_entropy
     \<Rightarrow> bool \<Rightarrow> (nat \<Rightarrow> bool) \<Rightarrow> bool \<Rightarrow> rarimo_adapter \<Rightarrow> rarimo_adapter \<times> (adapter_error, unit) result" where
  "begin_request rt opts session policy now random loads deleted clears a =
     (case rbind (assertConnectedPassportSession session) (\<lambda>_. assertPolicyCanBeRequested policy) of
        Inl e \<Rightarrow> (a, Inl e)
      | Inr _ \<Rightarrow>
          (case clear_for_enrollment opts loads deleted clears a of
             (a1, Inl e) \<Rightarrow> (a1, Inl e)
           | (a1, Inr _) \<Rightarrow>
               (case new_enrollment rt opts now random policy of
                  Inl e \<Rightarrow> (a1, Inl e)
                | Inr e \<Rightarrow> (a1 \<lparr> ad_begins := ad_begins a1 @ [e] \<rparr>, Inr ()))))"

text \<open>The answer that the enrolling page gets.\<close>

record credential_enrollment =
  ce_enrollmentId :: string
  ce_status :: EnrollmentStatus
  ce_holderBinding :: string
  ce_createdAt :: string
  ce_expiresAt :: string
  ce_uri :: string

definition drop_nth :: "nat \<Rightarrow> 'a list \<Rightarrow> 'a list" where
  "drop_nth n xs = take n xs @ drop (Suc n) xs"

definition begin_linked ::
  "(string \<Rightarrow> gateway_url option) \<Rightarrow> nat \<Rightarrow> verification_link option \<Rightarrow> rarimo_adapter
     \<Rightarrow> rarimo_adapter \<times> (adapter_error, credential_enrollment) result" where
  "begin_linked parse_url n answer a =
     (let e = ad_begins a ! n; a1 = a \<lparr> ad_begins := drop_nth n (ad_begins a) \<rparr> in
      case answer of
        None \<Rightarrow> (a1, Inl (CivicError ADAPTER_UNAVAILABLE True))
      | Some link \<Rightarrow>
          (case validateVerificationLink parse_url link (en_requestId e) of
             Inl err \<Rightarrow> (a1, Inl err)
           | Inr _ \<Rightarrow>
               (a1 \<lparr> ad_records := ad_records a @ [e \<lparr> en_userIdHash := vl_userIdHash link \<rparr>],
                    ad_enrollments := AList.update (en_enrollmentId e) (length (ad_records a)) (ad_enrollments a),
                    ad_active := Some (en_enrollmentId e) \<rparr>,
                Inr \<lparr> ce_enrollmentId = en_enrollmentId e, ce_status = EnrollPending, ce_holderBinding = en_holderBinding e,
                      ce_createdAt = en_createdAt e, ce_expiresAt = en_expiresAt e, ce_uri = vl_proofRequestUrl link \<rparr>)))"

section \<open>Polling\<close>

definition end_check :: "string \<Rightarrow> rarimo_adapter \<Rightarrow> rarimo_adapter" where
  "end_check i a = a \<lparr> ad_checks := AList.delete i (ad_checks a) \<rparr>"

definition set_check :: "string \<Rightarrow> nat \<Rightarrow> poll_stage \<Rightarrow> rarimo_adapter \<Rightarrow> rarimo_adapter" where
  "set_check i r stage a = a \<lparr> ad_checks := AList.update i (r, stage) (ad_checks a) \<rparr>"

text \<open>The end of a poll that fails the record.\<close>

definition fail_poll :: "string \<Rightarrow> nat \<Rightarrow> int \<Rightarrow> bool \<Rightarrow> rarimo_adapter \<Rightarrow> rarimo_adapter \<times> status_answer" where
  "fail_poll i r now deleted a = (let a1 = failAndCleanup r now deleted a in
     (end_check i a1, toStatusSnapshot (record_at r a1) (Some INVALID_CREDENTIAL_CLAIMS)))"

text \<open>A second poll of an enrolment joins the running one.\<close>

definition poll_start ::
  "(string \<Rightarrow> int option) \<Rightarrow> string \<Rightarrow> int \<Rightarrow> bool \<Rightarrow> rarimo_adapter \<Rightarrow> rarimo_adapter \<times> status_answer" where
  "poll_start date_parse i now deleted a =
     (if map_of (ad_checks a) i \<noteq> None then (a, StatusWaits)
      else case map_of (ad_enrollments a) i of
        None \<Rightarrow> (a, StatusRejected (CivicError ENROLLMENT_NOT_FOUND False))
      | Some r \<Rightarrow>
          if isTerminal (en_status (record_at r a)) then (a, toStatusSnapshot (record_at r a) None)
          else if reached date_parse now (en_expiresAt (record_at r a))
          then (case expireRecord r now deleted a of (a1, cleaned) \<Rightarrow>
             (a1, if cleaned then toStatusSnapshot (record_at r a1) (Some ENROLLMENT_EXPIRED) else StatusRejected AdapterThrew))
          else (set_check i r AwaitStatus a, StatusWaits))"

definition poll_status ::
  "string \<Rightarrow> rarimo_status option \<Rightarrow> int \<Rightarrow> bool \<Rightarrow> rarimo_adapter \<Rightarrow> rarimo_adapter \<times> status_answer" where
  "poll_status i answer now deleted a = (case map_of (ad_checks a) i of
     Some (r, AwaitStatus) \<Rightarrow>
       (case answer of
          None \<Rightarrow> (end_check i a, StatusRejected (CivicError ADAPTER_UNAVAILABLE True))
        | Some NotVerified \<Rightarrow>
            (let a1 = set_record r (\<lambda>e. e \<lparr> en_updatedAt := toISOString now \<rparr>) a in
             (end_check i a1, toStatusSnapshot (record_at r a1) None))
        | Some Verified \<Rightarrow> (set_check i r AwaitEvidence a, StatusWaits)
        | Some _ \<Rightarrow> fail_poll i r now deleted a)
   | _ \<Rightarrow> (a, StatusWaits))"

text \<open>The third argument: the gateway threw, or answered with no evidence, or with evidence.\<close>

definition poll_evidence ::
  "adapter_options \<Rightarrow> string \<Rightarrow> verified_evidence option option \<Rightarrow> int \<Rightarrow> bool \<Rightarrow> rarimo_adapter
     \<Rightarrow> rarimo_adapter \<times> status_answer" where
  "poll_evidence opts i answer now deleted a = (case map_of (ad_checks a) i of
     Some (r, AwaitEvidence) \<Rightarrow>
       (case answer of
          None \<Rightarrow> (end_check i a, StatusRejected (CivicError ADAPTER_UNAVAILABLE True))
        | Some None \<Rightarrow> fail_poll i r now deleted a
        | Some (Some evidence) \<Rightarrow>
            (case enrollment_claims opts now (record_at r a) evidence of
               Inl _ \<Rightarrow> fail_poll i r now deleted a
             | Inr (from, claims) \<Rightarrow> (set_check i r (AwaitIssuance evidence from claims) a, StatusWaits)))
   | _ \<Rightarrow> (a, StatusWaits))"

definition persistIssuedRecord :: "enrollment_record \<Rightarrow> stored_credential option" where
  "persistIssuedRecord e =
     (case (en_summary e, truthy_str (en_actionAuthorizationHandle e), en_credentialBlind e, en_credentialLeaf e) of
        (Some summary, Some handle, Some blind, Some leaf) \<Rightarrow>
          Some \<lparr> so_summary = summary, so_handle = handle,
                 so_material = \<lparr> pm_voterSecret = en_holderSecret e, pm_holderBlind = en_holderBlind e,
                   pm_holderBinding = en_holderBinding e, pm_credentialBlind = blind, pm_credentialLeaf = leaf,
                   pm_claims = su_claims summary \<rparr> \<rparr>
      | _ \<Rightarrow> None)"

definition issued_record :: "issuance_result \<Rightarrow> verified_evidence \<Rightarrow> credential_claims \<Rightarrow> enrollment_record \<Rightarrow> enrollment_record" where
  "issued_record issuance evidence claims e = e \<lparr>
     en_credentialBlind := Some (ir_credentialBlind issuance), en_credentialLeaf := Some (ir_credentialLeaf issuance),
     en_actionAuthorizationHandle := Some (ir_issuanceId issuance),
     en_summary := Some \<lparr> su_provider = RarimoProvider, su_status = EnrollIssued, su_claims = claims \<rparr>,
     en_proofFingerprint := Some (ve_evidenceFingerprint evidence) \<rparr>"

definition poll_issuance ::
  "compact_runtime \<Rightarrow> (string \<Rightarrow> int option) \<Rightarrow> string \<Rightarrow> issuance_result option \<Rightarrow> int \<Rightarrow> bool \<Rightarrow> rarimo_adapter
     \<Rightarrow> rarimo_adapter \<times> status_answer" where
  "poll_issuance rt date_parse i answer now deleted a = (case map_of (ad_checks a) i of
     Some (r, AwaitIssuance evidence from claims) \<Rightarrow>
       (case answer of
          None \<Rightarrow> (end_check i a, StatusRejected (CivicError ISSUANCE_FAILED True))
        | Some issuance \<Rightarrow>
            (case validateIssuance rt date_parse issuance (en_holderBinding (record_at r a)) claims of
               Inl (CivicError code retryable) \<Rightarrow> (end_check i a, StatusRejected (CivicError code retryable))
             | Inl AdapterThrew \<Rightarrow> fail_poll i r now deleted a
             | Inr _ \<Rightarrow>
                 (let a1 = set_record r (issued_record issuance evidence claims) a in
                  case persistIssuedRecord (record_at r a1) of
                    None \<Rightarrow> (end_check i a1, StatusRejected (CivicError ISSUANCE_FAILED True))
                  | Some stored \<Rightarrow> (set_check i r (AwaitSave stored from) a1, StatusWaits))))
   | _ \<Rightarrow> (a, StatusWaits))"

definition poll_saved ::
  "adapter_options \<Rightarrow> string \<Rightarrow> bool \<Rightarrow> int \<Rightarrow> bool \<Rightarrow> rarimo_adapter \<Rightarrow> rarimo_adapter \<times> status_answer" where
  "poll_saved opts i saves now deleted a = (case map_of (ad_checks a) i of
     Some (r, AwaitSave stored from) \<Rightarrow>
       if ao_vault opts \<and> \<not> saves then fail_poll i r now deleted a
       else
         (let a1 = (if ao_vault opts then a \<lparr> ad_vault := Some stored \<rparr> else a) \<lparr> ad_restored := Some (Some stored) \<rparr>;
              a2 = set_record r (\<lambda>e. e \<lparr> en_status := EnrollIssued, en_updatedAt := toISOString from \<rparr>) a1;
              a3 = fst (cleanupProviderRecord r deleted a2)
          in (end_check i a3, toStatusSnapshot (record_at r a3) None))
   | _ \<Rightarrow> (a, StatusWaits))"

section \<open>The issued credential\<close>

definition active_record :: "rarimo_adapter \<Rightarrow> nat option" where
  "active_record a = Option.bind (ad_active a) (map_of (ad_enrollments a))"

definition expire_active :: "int \<Rightarrow> enrollment_record \<Rightarrow> enrollment_record" where
  "expire_active now e = e \<lparr> en_status := EnrollExpired,
     en_summary := map_option (\<lambda>s. s \<lparr> su_status := EnrollExpired \<rparr>) (en_summary e), en_updatedAt := toISOString now \<rparr>"

text \<open>
  What the three getters do when no enrolment is active: the restored credential if it
  has not expired; an expired one is forgotten.
\<close>

definition restored_unexpired ::
  "(string \<Rightarrow> int option) \<Rightarrow> adapter_options \<Rightarrow> int \<Rightarrow> bool \<Rightarrow> bool \<Rightarrow> rarimo_adapter
     \<Rightarrow> rarimo_adapter \<times> (adapter_error, (bool \<times> stored_credential) option) result" where
  "restored_unexpired date_parse opts now loads clears a =
     (case loadRestoredCredential opts loads a of
        (a1, Inl e) \<Rightarrow> (a1, Inl e)
      | (a1, Inr None) \<Rightarrow> (a1, Inr None)
      | (a1, Inr (Some c)) \<Rightarrow>
          if reached date_parse now (cl_validUntil (su_claims (so_summary c)))
          then (case expireRestoredCredential opts clears a1 of
             (a2, cleared) \<Rightarrow> (a2, if cleared then Inr (Some (False, c)) else Inl AdapterThrew))
          else (a1, Inr (Some (True, c))))"

definition getCredentialSummary ::
  "(string \<Rightarrow> int option) \<Rightarrow> adapter_options \<Rightarrow> int \<Rightarrow> bool \<Rightarrow> bool \<Rightarrow> rarimo_adapter
     \<Rightarrow> rarimo_adapter \<times> (adapter_error, credential_summary option) result" where
  "getCredentialSummary date_parse opts now loads clears a =
     (if truthy_str (ad_active a) = None then
        (case restored_unexpired date_parse opts now loads clears a of
           (a1, Inl e) \<Rightarrow> (a1, Inl e)
         | (a1, Inr None) \<Rightarrow> (a1, Inr None)
         | (a1, Inr (Some (fresh, c))) \<Rightarrow>
             (a1, Inr (Some (if fresh then so_summary c else so_summary c \<lparr> su_status := EnrollExpired \<rparr>))))
      else case active_record a of
        None \<Rightarrow> (a, Inr None)
      | Some r \<Rightarrow>
          (case en_summary (record_at r a) of
             None \<Rightarrow> (a, Inr None)
           | Some s \<Rightarrow>
               let a1 = (if en_status (record_at r a) = EnrollIssued \<and> reached date_parse now (cl_validUntil (su_claims s))
                 then set_record r (expire_active now) a else a)
               in (a1, Inr (en_summary (record_at r a1)))))"

definition getActionAuthorization ::
  "(string \<Rightarrow> int option) \<Rightarrow> adapter_options \<Rightarrow> int \<Rightarrow> bool \<Rightarrow> bool \<Rightarrow> rarimo_adapter
     \<Rightarrow> rarimo_adapter \<times> (adapter_error, string option) result" where
  "getActionAuthorization date_parse opts now loads clears a =
     (if truthy_str (ad_active a) = None then
        (case restored_unexpired date_parse opts now loads clears a of
           (a1, Inl e) \<Rightarrow> (a1, Inl e)
         | (a1, Inr None) \<Rightarrow> (a1, Inr None)
         | (a1, Inr (Some (fresh, c))) \<Rightarrow> (a1, Inr (if fresh then Some (so_handle c) else None)))
      else case active_record a of
        None \<Rightarrow> (a, Inr None)
      | Some r \<Rightarrow>
          (let e = record_at r a in
           case truthy_str (en_actionAuthorizationHandle e) of
             None \<Rightarrow> (a, Inr None)
           | Some handle \<Rightarrow>
               if en_status e \<noteq> EnrollIssued then (a, Inr None)
               else if (case en_summary e of Some s \<Rightarrow> reached date_parse now (cl_validUntil (su_claims s)) | None \<Rightarrow> False)
               then (set_record r (expire_active now) a, Inr None)
               else (a, Inr (Some handle))))"

definition getPrivateCredentialMaterial ::
  "(string \<Rightarrow> int option) \<Rightarrow> adapter_options \<Rightarrow> int \<Rightarrow> bool \<Rightarrow> bool \<Rightarrow> rarimo_adapter
     \<Rightarrow> rarimo_adapter \<times> (adapter_error, private_material option) result" where
  "getPrivateCredentialMaterial date_parse opts now loads clears a =
     (if truthy_str (ad_active a) = None then
        (case restored_unexpired date_parse opts now loads clears a of
           (a1, Inl e) \<Rightarrow> (a1, Inl e)
         | (a1, Inr None) \<Rightarrow> (a1, Inr None)
         | (a1, Inr (Some (fresh, c))) \<Rightarrow> (a1, Inr (if fresh then Some (so_material c) else None)))
      else case active_record a of
        None \<Rightarrow> (a, Inr None)
      | Some r \<Rightarrow>
          (let e = record_at r a in
           case (en_summary e, en_credentialBlind e, en_credentialLeaf e) of
             (Some s, Some blind, Some leaf) \<Rightarrow>
               if en_status e \<noteq> EnrollIssued then (a, Inr None)
               else if reached date_parse now (cl_validUntil (su_claims s)) then (set_record r (expire_active now) a, Inr None)
               else (a, Inr (Some \<lparr> pm_voterSecret = en_holderSecret e, pm_holderBlind = en_holderBlind e,
                   pm_holderBinding = en_holderBinding e, pm_credentialBlind = blind, pm_credentialLeaf = leaf,
                   pm_claims = su_claims s \<rparr>))
           | _ \<Rightarrow> (a, Inr None)))"

end
