(* ===== verification/Rarimo_Evidence.thy ===== *)
theory Rarimo_Evidence
  imports Rarimo_Gateway
begin

text \<open>
  What the verifier gateway guarantees to the issuer, over any interleaving of the
  browser's requests, and what it does not.
\<close>

section \<open>Interleavings\<close>

text \<open>
  A fetch of evidence reads the context and the status, waits for the proof and then
  stores the evidence; other requests may run in between.
\<close>

record gateway_process =
  gp_gateway :: gateway
  gp_fetches :: "verification_context list"

datatype gateway_event =
    CreateRequest verification_request verifier_answer
  | StartFetch string verifier_answer
  | FinishFetch nat int verifier_answer
  | DeleteRequest string verifier_answer

definition start_fetch :: "gateway_options \<Rightarrow> string \<Rightarrow> verifier_answer \<Rightarrow> gateway \<Rightarrow> verification_context option" where
  "start_fetch opts requestId answer g = (case gw_contexts g requestId of
     None \<Rightarrow> None
   | Some context \<Rightarrow> if getVerificationStatus opts requestId answer g = Inr Verified then Some context else None)"

fun gateway_step ::
  "(string \<Rightarrow> gateway_url option) \<Rightarrow> (string \<Rightarrow> string) \<Rightarrow> (string \<Rightarrow> string) \<Rightarrow> gateway_options
     \<Rightarrow> gateway_event \<Rightarrow> gateway_process \<Rightarrow> gateway_process" where
  "gateway_step parse_url qr sha opts (CreateRequest r answer) p =
     p \<lparr> gp_gateway := fst (createVerificationRequest parse_url qr opts r answer (gp_gateway p)) \<rparr>"
| "gateway_step parse_url qr sha opts (StartFetch i answer) p =
     (case start_fetch opts i answer (gp_gateway p) of
        None \<Rightarrow> p | Some context \<Rightarrow> p \<lparr> gp_fetches := gp_fetches p @ [context] \<rparr>)"
| "gateway_step parse_url qr sha opts (FinishFetch n now answer) p =
     (if n < length (gp_fetches p)
      then p \<lparr> gp_gateway := fst (evidence_finish sha opts (gp_fetches p ! n) now answer (gp_gateway p)) \<rparr> else p)"
| "gateway_step parse_url qr sha opts (DeleteRequest i answer) p =
     p \<lparr> gp_gateway := fst (deleteVerification opts i answer (gp_gateway p)) \<rparr>"

definition gateway_run where
  "gateway_run parse_url qr sha opts events p = fold (gateway_step parse_url qr sha opts) events p"

definition new_gateway_process :: gateway_process where
  "new_gateway_process = \<lparr> gp_gateway = new_gateway_state, gp_fetches = [] \<rparr>"

lemma fetch_in_one_go:
  "fst (getVerifiedEvidence sha opts i now statusAnswer proofAnswer (gp_gateway p))
     = gp_gateway (gateway_step parse_url qr sha opts (FinishFetch (length (gp_fetches p)) now proofAnswer)
         (gateway_step parse_url qr sha opts (StartFetch i statusAnswer) p))
   \<or> start_fetch opts i statusAnswer (gp_gateway p) = None"
  by (auto simp: getVerifiedEvidence_def start_fetch_def split: option.splits sum.splits)

section \<open>Bound evidence\<close>

text \<open>The evidence of an accepted proof, for the request of its context.\<close>

definition bound_proof ::
  "(string \<Rightarrow> string) \<Rightarrow> verification_context \<Rightarrow> json \<Rightarrow> proof_projection \<Rightarrow> verified_evidence \<Rightarrow> bool" where
  "bound_proof sha context value proof evidence =
     (decodeProof value = Some proof \<and> validateProofProjection proof context
      \<and> evidenceFromProof proof context (proof_fingerprint sha value) = Some evidence)"

lemma evidenceFromProof_bound:
  assumes "evidenceFromProof proof context f = Some ev"
  shows "ve_evidenceAuthorization ev = evidence_prefix @ f" "ve_evidenceFingerprint ev = f"
    "ve_requestId ev = vq_requestId (vc_request context)"
    "ve_eventDataDecimal ev = vq_eventDataDecimal (vc_request context)"
    "signalAt (pp_publicSignals proof) 10 = Some (vq_eventDataDecimal (vc_request context))"
    "Option.bind (signalAt (pp_publicSignals proof) 6) decodeCitizenship = Some (ve_citizenshipAlpha3 ev)"
    "ve_adultPredicateSatisfied ev" "ve_userIdHash ev = pp_userIdHash proof"
  using assms
  by (auto simp: evidenceFromProof_def expected_signals_def Let_def bind_eq_Some_conv split: option.splits if_splits)

definition accepted_answer :: "gateway_options \<Rightarrow> gateway_event list \<Rightarrow> json \<Rightarrow> bool" where
  "accepted_answer opts events value =
     (\<exists>n now answer status. FinishFetch n now answer \<in> set events \<and> verifier_request opts 200 True False answer = Inr (status, value))"

definition verified_context :: "gateway_options \<Rightarrow> gateway_event list \<Rightarrow> verification_context \<Rightarrow> bool" where
  "verified_context opts events context =
     (\<exists>i answer status value. StartFetch i answer \<in> set events \<and> verifier_request opts 200 False False answer = Inr (status, value)
        \<and> decodeVerificationStatus value (vq_requestId (vc_request context)) = Some Verified)"

definition gateway_inv :: "(string \<Rightarrow> string) \<Rightarrow> gateway_options \<Rightarrow> gateway_event list \<Rightarrow> gateway \<Rightarrow> bool" where
  "gateway_inv sha opts events g = (\<forall>a r. gw_authorizations g a = Some r \<longrightarrow>
     a = ve_evidenceAuthorization (au_evidence r) \<and> verified_context opts events (au_context r) \<and>
     (\<exists>value pj. accepted_answer opts events value \<and> bound_proof sha (au_context r) value pj (au_evidence r)))"

definition fetches_inv :: "gateway_options \<Rightarrow> gateway_event list \<Rightarrow> gateway_process \<Rightarrow> bool" where
  "fetches_inv opts events p = (\<forall>c \<in> set (gp_fetches p). verified_context opts events c)"

lemma verified_context_mono: "verified_context opts events c \<Longrightarrow> set events \<subseteq> set events' \<Longrightarrow> verified_context opts events' c"
  unfolding verified_context_def by blast

lemma accepted_answer_mono: "accepted_answer opts events v \<Longrightarrow> set events \<subseteq> set events' \<Longrightarrow> accepted_answer opts events' v"
  unfolding accepted_answer_def by blast

lemma gateway_inv_mono: "gateway_inv sha opts events g \<Longrightarrow> set events \<subseteq> set events' \<Longrightarrow> gateway_inv sha opts events' g"
  unfolding gateway_inv_def using verified_context_mono accepted_answer_mono by meson

lemma create_authorizations [simp]:
  "gw_authorizations (fst (createVerificationRequest parse_url qr opts r answer g)) = gw_authorizations g"
  by (simp add: createVerificationRequest_def split: sum.split prod.split)

lemma delete_authorizations:
  "gw_authorizations (fst (deleteVerification opts i answer g)) a = Some r \<Longrightarrow> gw_authorizations g a = Some r"
  by (auto simp: deleteVerification_def forget_request_def split: option.splits if_splits)

lemma finish_authorizations:
  assumes "gateway_inv sha opts events g" "verified_context opts events context"
  shows "gateway_inv sha opts (FinishFetch n now answer # events) (fst (evidence_finish sha opts context now answer g))"
proof -
  let ?events = "FinishFetch n now answer # events"
  have old: "gateway_inv sha opts ?events g" by (rule gateway_inv_mono [OF assms(1)]) auto
  have verified: "verified_context opts ?events context" by (rule verified_context_mono [OF assms(2)]) auto
  show ?thesis
  proof (cases "verifier_request opts 200 True False answer")
    case (Inl e)
    then show ?thesis using old by (simp add: evidence_finish_def)
  next
    case (Inr p)
    obtain status v where p: "p = (status, v)" by (cases p)
    show ?thesis
    proof (cases "Option.bind (decodeProof v) (\<lambda>pj. if \<not> validateProofProjection pj context then None
        else evidenceFromProof pj context (proof_fingerprint sha v))")
      case None
      then show ?thesis using old Inr p by (simp add: evidence_finish_def)
    next
      case (Some ev)
      then obtain pj where "bound_proof sha context v pj ev"
        by (auto simp: bound_proof_def bind_eq_Some_conv split: if_splits)
      moreover have "accepted_answer opts ?events v" using Inr p unfolding accepted_answer_def by auto
      ultimately have new: "\<exists>value pj. accepted_answer opts ?events value \<and> bound_proof sha context value pj ev" by blast
      show ?thesis
      proof (cases "gw_authorizations g (ve_evidenceAuthorization ev)")
        case None
        then show ?thesis using old new verified Inr p Some by (auto simp: evidence_finish_def gateway_inv_def)
      next
        case existing: (Some r)
        then show ?thesis using old Inr p Some by (simp add: evidence_finish_def)
      qed
    qed
  qed
qed

lemma start_fetch_verified:
  assumes "start_fetch opts i answer g = Some c" "\<forall>k c. gw_contexts g k = Some c \<longrightarrow> vq_requestId (vc_request c) = k"
  shows "verified_context opts (StartFetch i answer # events) c"
proof -
  have c: "gw_contexts g i = Some c" "getVerificationStatus opts i answer g = Inr Verified"
    using assms(1) by (auto simp: start_fetch_def split: option.splits if_splits)
  then obtain status v where "verifier_request opts 200 False False answer = Inr (status, v)"
      "decodeVerificationStatus v (vq_requestId (vc_request c)) = Some Verified"
    by (auto simp: getVerificationStatus_def malformedResponse_def split: option.splits)
  then show ?thesis unfolding verified_context_def by fastforce
qed

definition process_inv :: "(string \<Rightarrow> string) \<Rightarrow> gateway_options \<Rightarrow> gateway_event list \<Rightarrow> gateway_process \<Rightarrow> bool" where
  "process_inv sha opts events p = (gateway_inv sha opts events (gp_gateway p) \<and> fetches_inv opts events p
     \<and> (\<forall>k c. gw_contexts (gp_gateway p) k = Some c \<longrightarrow> vq_requestId (vc_request c) = k))"

lemma gateway_step_inv:
  assumes "process_inv sha opts events p"
  shows "process_inv sha opts (e # events) (gateway_step parse_url qr sha opts e p)"
proof -
  have i: "gateway_inv sha opts events (gp_gateway p)" "fetches_inv opts events p"
      "\<forall>k c. gw_contexts (gp_gateway p) k = Some c \<longrightarrow> vq_requestId (vc_request c) = k"
    using assms by (simp_all add: process_inv_def)
  have old: "gateway_inv sha opts (e # events) (gp_gateway p)" by (rule gateway_inv_mono [OF i(1)]) auto
  have fetches: "fetches_inv opts (e # events) p"
    using i(2) verified_context_mono [of opts events _ "e # events"] unfolding fetches_inv_def by auto
  show ?thesis
  proof (cases e)
    case (CreateRequest r answer)
    then show ?thesis using old fetches i(3)
      by (auto simp: process_inv_def gateway_inv_def fetches_inv_def createVerificationRequest_def split: sum.split prod.split)
  next
    case (StartFetch k answer)
    show ?thesis
    proof (cases "start_fetch opts k answer (gp_gateway p)")
      case None
      then show ?thesis using StartFetch old fetches i(3) by (simp add: process_inv_def)
    next
      case (Some c)
      then show ?thesis using StartFetch old fetches i(3) start_fetch_verified [OF Some i(3), of events]
        by (simp add: process_inv_def fetches_inv_def)
    qed
  next
    case (FinishFetch n now answer)
    show ?thesis
    proof (cases "n < length (gp_fetches p)")
      case True
      then have "verified_context opts events (gp_fetches p ! n)" using i(2) by (simp add: fetches_inv_def)
      note fin = finish_authorizations [OF i(1) this, of n now answer]
      have "gw_contexts (fst (evidence_finish sha opts c now answer g)) = gw_contexts g" for c g
        by (simp add: evidence_finish_def split: sum.split prod.split option.split)
      then show ?thesis using FinishFetch True fin fetches i(3) by (simp add: process_inv_def fetches_inv_def)
    qed (use FinishFetch old fetches i(3) in \<open>simp add: process_inv_def\<close>)
  next
    case (DeleteRequest k answer)
    then have "gw_authorizations (gp_gateway (gateway_step parse_url qr sha opts e p)) a = Some r
        \<Longrightarrow> gw_authorizations (gp_gateway p) a = Some r" for a r
      using delete_authorizations [of opts k answer "gp_gateway p" a r] by simp
    then have "gateway_inv sha opts (e # events) (gp_gateway (gateway_step parse_url qr sha opts e p))"
      using old unfolding gateway_inv_def by blast
    then show ?thesis using DeleteRequest fetches i(3)
      by (simp add: process_inv_def fetches_inv_def deleteVerification_def forget_request_def)
  qed
qed

lemma gateway_run_inv:
  "process_inv sha opts before p \<Longrightarrow> process_inv sha opts (rev events @ before) (gateway_run parse_url qr sha opts events p)"
proof (induction events arbitrary: before p)
  case (Cons e events)
  from Cons.IH [OF gateway_step_inv [OF Cons.prems]] show ?case by (simp add: gateway_run_def)
qed (simp add: gateway_run_def)

lemma new_gateway_inv [simp]: "process_inv sha opts events new_gateway_process"
  by (simp add: process_inv_def gateway_inv_def fetches_inv_def new_gateway_process_def new_gateway_state_def)

lemma gateway_run_new:
  "gateway_inv sha opts events (gp_gateway (gateway_run parse_url qr sha opts events new_gateway_process))"
proof -
  have "process_inv sha opts (rev events @ []) (gateway_run parse_url qr sha opts events new_gateway_process)"
    by (rule gateway_run_inv [OF new_gateway_inv])
  then have "gateway_inv sha opts (rev events) (gp_gateway (gateway_run parse_url qr sha opts events new_gateway_process))"
    by (simp add: process_inv_def)
  then show ?thesis by (rule gateway_inv_mono) simp
qed

lemma validated_authorization:
  assumes "validateCredentialIssuance rt date_parse now policy q g"
  obtains a eventData where "gw_authorizations g (iq_evidenceAuthorization q) = Some a"
    "deriveRarimoIssuanceEventData rt (iq_enrollmentId q) (iq_holderBinding q) = Inr eventData"
    "toLowerCase (vq_eventData (vc_request (au_context a))) = ''0x'' @ bytesToHex eventData"
    "vq_eventDataDecimal (vc_request (au_context a)) = show_nat (read_hex (bytesToHex eventData))"
    "ip_fromAlpha3 policy (ve_citizenshipAlpha3 (au_evidence a)) = Some (cl_country (iq_claims q))"
    "cl_assurance (iq_claims q) = DocumentNfc" "cl_credentialEpoch (iq_claims q) = ip_credentialEpoch policy"
    "cl_issuerId (iq_claims q) = ip_issuerId policy" "iq_provider q = RarimoProvider"
  using assms
  by (auto simp: validateCredentialIssuance_def holder_bound_def country_bound_def claims_bound_def Let_def
      split: option.splits sum.splits)

lemma length_bytesFromHex: "length (bytesFromHex h) = length h div 2"
  by (induction h rule: bytesFromHex.induct) simp_all

lemma zero_pad_inject: "length a = length b \<Longrightarrow> zero_pad a = zero_pad b \<Longrightarrow> a = b"
  by (simp add: zero_pad_def)

text \<open>Spelling the empty birth-date bound with a leading zero passes every comparison but the one of the texts.\<close>

lemma read_hex_leading_zero [simp]: "read_hex (CHR ''0'' # s) = read_hex s"
  by (simp add: read_hex_def hex_val_def)

lemma hexToDecimal_leading_zero:
  "hex_literal (''0x'' @ s) \<Longrightarrow> hexToDecimal (''0x0'' @ s) = hexToDecimal (''0x'' @ s)"
  by (simp add: hexToDecimal_def hex_literal_def numeral_2_eq_2 any_hex_def)

lemma respelled_bound: "hexToDecimal ''0x0303030303030'' = hexToDecimal no_birth_date"
proof -
  have "hex_literal (''0x'' @ ''303030303030'')" by code_simp
  from hexToDecimal_leading_zero [OF this] show ?thesis by (simp add: no_birth_date_def)
qed

lemma respelled_text: "''0x0303030303030'' \<noteq> no_birth_date"
  by (simp add: no_birth_date_def)

lemma respelled_signals:
  "vq_birthDateUpperBound r = no_birth_date
     \<Longrightarrow> expected_signals (r \<lparr> vq_birthDateUpperBound := ''0x0303030303030'' \<rparr>) = expected_signals r"
  by (simp add: expected_signals_def respelled_bound cong: option.case_cong)

lemma respelled_evidence:
  assumes "vq_birthDateUpperBound r = no_birth_date"
  shows "evidenceFromProof pj \<lparr> vc_request = r \<lparr> vq_birthDateUpperBound := ''0x0303030303030'' \<rparr>, vc_userIdHash = u \<rparr> f
    = evidenceFromProof pj \<lparr> vc_request = r, vc_userIdHash = u \<rparr> f"
  by (simp add: evidenceFromProof_def respelled_signals [OF assms] Let_def cong: if_cong)

lemma respelled_checks:
  "holder_bound rt (q \<lparr> iq_claims := cl \<rparr>) (r \<lparr> vq_birthDateUpperBound := b \<rparr>) ev = holder_bound rt q r ev"
  "cl_country cl = cl_country (iq_claims q)
     \<Longrightarrow> country_bound policy (q \<lparr> iq_claims := cl \<rparr>) (r \<lparr> vq_birthDateUpperBound := b \<rparr>) ev = country_bound policy q r ev"
  "validity_window date_parse now policy (claims \<lparr> cl_ageClass := c \<rparr>) t = validity_window date_parse now policy claims t"
  by (simp_all add: holder_bound_def country_bound_def validity_window_def cong: option.case_cong sum.case_cong)

lemma respelled_claims:
  "claims_bound policy q r ev \<Longrightarrow> ve_adultPredicateSatisfied ev
     \<Longrightarrow> claims_bound policy (q \<lparr> iq_claims := (iq_claims q) \<lparr> cl_ageClass := Adult \<rparr> \<rparr>)
           (r \<lparr> vq_birthDateUpperBound := ''0x0303030303030'' \<rparr>) ev"
  by (simp add: claims_bound_def Let_def respelled_text)

section \<open>Properties\<close>

text \<open>
  C5: A credential needs a bound proof. Whatever requests run in the gateway in
  whatever interleaving, when the issuer adds a credential to the registry on a request that
  the gateway validated, the verifier has returned a proof, after reporting the user as
  verified, whose event-data signal is the digest of the request's enrollment and
  holder binding, whose citizenship signal is the claimed country, and whose digest is
  the evidence authorization that the issuer spends; the claims carry the configured
  issuer and epoch and the assurance of a chip document.
\<close>

theorem credential_needs_bound_proof:
  assumes "p = gateway_run parse_url qr sha opts events new_gateway_process"
    and "ie_validates env = validateCredentialIssuance rt date_parse now policy q (gp_gateway p)"
    and "issueOnce rt date_parse sha books iopts env q st = (st', res)" "ist_added st' \<noteq> ist_added st"
  shows "\<exists>context value pj eventData alpha3. verified_context opts events context \<and> accepted_answer opts events value
    \<and> decodeProof value = Some pj \<and> pp_userIdHash pj = vc_userIdHash context
    \<and> iq_evidenceAuthorization q = evidence_prefix @ proof_fingerprint sha value
    \<and> deriveRarimoIssuanceEventData rt (iq_enrollmentId q) (iq_holderBinding q) = Inr eventData
    \<and> signalAt (pp_publicSignals pj) 10 = Some (show_nat (read_hex (bytesToHex eventData)))
    \<and> Option.bind (signalAt (pp_publicSignals pj) 6) decodeCitizenship = Some alpha3
    \<and> ip_fromAlpha3 policy alpha3 = Some (cl_country (iq_claims q))
    \<and> cl_assurance (iq_claims q) = DocumentNfc \<and> cl_issuerId (iq_claims q) = ip_issuerId policy
    \<and> cl_credentialEpoch (iq_claims q) = ip_credentialEpoch policy"
proof -
  have "ie_validates env"
    using assms(3,4) by (auto simp: issueOnce_def Let_def check_def split: sum.splits option.splits if_splits)
  then have "validateCredentialIssuance rt date_parse now policy q (gp_gateway p)" using assms(2) by simp
  then show ?thesis
  proof (rule validated_authorization)
    fix a e
    assume a: "gw_authorizations (gp_gateway p) (iq_evidenceAuthorization q) = Some a"
      and e: "deriveRarimoIssuanceEventData rt (iq_enrollmentId q) (iq_holderBinding q) = Inr e"
        "vq_eventDataDecimal (vc_request (au_context a)) = show_nat (read_hex (bytesToHex e))"
      and c: "ip_fromAlpha3 policy (ve_citizenshipAlpha3 (au_evidence a)) = Some (cl_country (iq_claims q))"
        "cl_assurance (iq_claims q) = DocumentNfc" "cl_credentialEpoch (iq_claims q) = ip_credentialEpoch policy"
        "cl_issuerId (iq_claims q) = ip_issuerId policy"
    have "gateway_inv sha opts events (gp_gateway p)"
      using gateway_run_new assms(1) by simp
    then obtain v pj where "iq_evidenceAuthorization q = ve_evidenceAuthorization (au_evidence a)"
        "verified_context opts events (au_context a)" "accepted_answer opts events v"
        "bound_proof sha (au_context a) v pj (au_evidence a)"
      using a unfolding gateway_inv_def by blast
    then show ?thesis
      using e c evidenceFromProof_bound [of pj "au_context a" "proof_fingerprint sha v" "au_evidence a"]
      unfolding bound_proof_def validateProofProjection_def by metis
  qed
qed


text \<open>
  The age class is the browser's choice. The issuer certifies \<open>18-plus\<close> exactly when
  the request that the browser composed carries any birth-date bound other than the
  text of the empty one; the bound's value is never compared with a date. So the proof
  for a request without a birth-date bound, the same evidence and the same public
  signals, certifies an adult once the request spells the empty bound with a leading zero.
\<close>

theorem age_class_is_the_browsers:
  assumes "gw_authorizations g (iq_evidenceAuthorization q)
      = Some \<lparr> au_context = \<lparr> vc_request = r, vc_userIdHash = u \<rparr>, au_evidence = ev, au_verifiedAt = t \<rparr>"
    and "validateCredentialIssuance rt date_parse now policy q g"
  shows "cl_ageClass (iq_claims q) = (if vq_birthDateUpperBound r \<noteq> no_birth_date then Adult else AgeUnknown)
    \<and> (evidenceFromProof pj \<lparr> vc_request = r, vc_userIdHash = u \<rparr> f = Some ev \<and> vq_birthDateUpperBound r = no_birth_date \<longrightarrow>
        evidenceFromProof pj \<lparr> vc_request = r \<lparr> vq_birthDateUpperBound := ''0x0303030303030'' \<rparr>, vc_userIdHash = u \<rparr> f = Some ev
        \<and> validateCredentialIssuance rt date_parse now policy (q \<lparr> iq_claims := (iq_claims q) \<lparr> cl_ageClass := Adult \<rparr> \<rparr>)
            (g \<lparr> gw_authorizations := (gw_authorizations g)(iq_evidenceAuthorization q \<mapsto>
               \<lparr> au_context = \<lparr> vc_request = r \<lparr> vq_birthDateUpperBound := ''0x0303030303030'' \<rparr>, vc_userIdHash = u \<rparr>,
                 au_evidence = ev, au_verifiedAt = t \<rparr>) \<rparr>))"
proof -
  have v: "iq_provider q = RarimoProvider" "holder_bound rt q r ev" "country_bound policy q r ev" "claims_bound policy q r ev"
      "validity_window date_parse now policy (iq_claims q) t"
    using assms by (simp_all add: validateCredentialIssuance_def)
  show ?thesis
  proof (intro conjI impI)
    show "cl_ageClass (iq_claims q) = (if vq_birthDateUpperBound r \<noteq> no_birth_date then Adult else AgeUnknown)"
      using v(4) by (simp add: claims_bound_def Let_def)
  next
    assume h: "evidenceFromProof pj \<lparr> vc_request = r, vc_userIdHash = u \<rparr> f = Some ev \<and> vq_birthDateUpperBound r = no_birth_date"
    then show "evidenceFromProof pj \<lparr> vc_request = r \<lparr> vq_birthDateUpperBound := ''0x0303030303030'' \<rparr>, vc_userIdHash = u \<rparr> f = Some ev"
      by (simp add: respelled_evidence)
    from h have "evidenceFromProof pj \<lparr> vc_request = r, vc_userIdHash = u \<rparr> f = Some ev" ..
    then have "ve_adultPredicateSatisfied ev" by (rule evidenceFromProof_bound)
    then show "validateCredentialIssuance rt date_parse now policy (q \<lparr> iq_claims := (iq_claims q) \<lparr> cl_ageClass := Adult \<rparr> \<rparr>)
            (g \<lparr> gw_authorizations := (gw_authorizations g)(iq_evidenceAuthorization q \<mapsto>
               \<lparr> au_context = \<lparr> vc_request = r \<lparr> vq_birthDateUpperBound := ''0x0303030303030'' \<rparr>, vc_userIdHash = u \<rparr>,
                 au_evidence = ev, au_verifiedAt = t \<rparr>) \<rparr>)"
      using v by (simp add: validateCredentialIssuance_def respelled_checks respelled_claims)
  qed
qed

text \<open>
  A deletion can be overtaken. Once a verification is deleted, nothing it had
  authorized can be issued; but an evidence fetch that started before the deletion and
  finishes after it stores its authorization all the same, so that a credential can be
  issued on a verification the user has deleted.
\<close>

theorem deletion_can_be_overtaken:
  assumes "start_fetch opts i statusAnswer (gp_gateway p) = Some context" "vq_requestId (vc_request context) = i"
    and "verifier_request opts 200 True False proofAnswer = Inr (status, value)" "decodeProof value = Some pj"
    and "validateProofProjection pj context" "evidenceFromProof pj context (proof_fingerprint sha value) = Some ev"
    and "gw_authorizations (gp_gateway p) (ve_evidenceAuthorization ev) = None"
    and "before = gateway_run parse_url qr sha opts [StartFetch i statusAnswer, DeleteRequest i deleteAnswer] p"
    and "after = gateway_run parse_url qr sha opts [FinishFetch (length (gp_fetches p)) now proofAnswer] before"
  shows "(\<forall>rt date_parse now' policy q a. gw_authorizations (gp_gateway p) (iq_evidenceAuthorization q) = Some a
        \<and> vq_requestId (vc_request (au_context a)) = i
        \<longrightarrow> \<not> validateCredentialIssuance rt date_parse now' policy q (gp_gateway before))
    \<and> gw_contexts (gp_gateway after) i = None
    \<and> gw_authorizations (gp_gateway after) (ve_evidenceAuthorization ev)
        = Some \<lparr> au_context = context, au_evidence = ev, au_verifiedAt = now \<rparr>"
proof -
  have b: "gp_gateway before = forget_request i (gp_gateway p)" "gp_fetches before = gp_fetches p @ [context]"
    using assms(1,8) by (simp_all add: gateway_run_def deleteVerification_def)
  have fresh: "gw_authorizations (forget_request i (gp_gateway p)) (ve_evidenceAuthorization ev) = None"
    using assms(7) by (simp add: forget_request_def)
  have "gp_gateway after = (forget_request i (gp_gateway p)) \<lparr> gw_authorizations :=
      (gw_authorizations (forget_request i (gp_gateway p)))(ve_evidenceAuthorization ev \<mapsto>
        \<lparr> au_context = context, au_evidence = ev, au_verifiedAt = now \<rparr>) \<rparr>"
    using assms(3-6,9) b fresh by (simp add: gateway_run_def evidence_finish_def)
  moreover have "\<not> validateCredentialIssuance rt date_parse now' policy q (gp_gateway before)"
    if "gw_authorizations (gp_gateway p) (iq_evidenceAuthorization q) = Some a" "vq_requestId (vc_request (au_context a)) = i"
    for rt date_parse now' policy q a
    using that by (simp add: validateCredentialIssuance_def b forget_request_def)
  ultimately show ?thesis by (simp add: forget_request_def)
qed

section \<open>A sample verification\<close>

definition rarimo_runtime :: compact_runtime where
  "rarimo_runtime = sample_issuer_runtime \<lparr> persistentHash := \<lambda>_. replicate 32 (char_of (0 :: nat)) \<rparr>"

definition rarimo_options :: gateway_options where
  "rarimo_options = \<lparr> go_maxResponseBytes = 262144, go_responseContentTypes = [jsonApiMediaType],
     go_proofParamsAllowedOrigins = [''https://verifier''], go_ignoreNotFoundOnDelete = True \<rparr>"

definition rarimo_url :: "string \<Rightarrow> gateway_url option" where
  "rarimo_url s = Some \<lparr> gu_protocol = ''https:'', gu_hostname = ''verifier'', gu_username = [], gu_password = [],
     gu_pathname = ''/p/u'', gu_search = [], gu_hash = [], gu_origin = ''https://verifier'', gu_href = s \<rparr>"

definition rarimo_asked :: verification_request where
  "rarimo_asked = \<lparr> vq_requestId = ''r'', vq_eventId = ''1'', vq_eventData = ''0x'' @ replicate 62 (CHR ''0''),
     vq_eventDataDecimal = ''0'', vq_selector = ''1'', vq_citizenshipMask = None, vq_birthDateLowerBound = ''0x31'',
     vq_birthDateUpperBound = no_birth_date, vq_identityCounterLowerBound = ''0'', vq_identityCounterUpperBound = ''1'',
     vq_expirationDateLowerBound = ''0x31'', vq_expirationDateUpperBound = ''0x31'', vq_timestampLowerBound = ''0'',
     vq_timestampUpperBound = ''7'' \<rparr>"

definition rarimo_context :: verification_context where
  "rarimo_context = \<lparr> vc_request = rarimo_asked, vc_userIdHash = ''u'' \<rparr>"

definition rarimo_signals :: "string list" where
  "rarimo_signals = [''0'', ''0'', ''0'', ''0'', ''0'', ''0'', ''4280903'', ''0'', ''0'', ''1'', ''0'', ''0'', ''1'', ''0'', ''0'',
     ''7'', ''0'', ''1'', ''0'', ''52983525027888'', ''49'', ''0'', ''0'']"

definition rarimo_answer :: "string \<Rightarrow> string \<Rightarrow> (string \<times> json) list \<Rightarrow> json" where
  "rarimo_answer i type attributes = JObj [(''data'', JObj [(''id'', JStr i), (''type'', JStr type), (''attributes'', JObj attributes)])]"

definition rarimo_status_answer :: json where
  "rarimo_status_answer = rarimo_answer ''r'' ''user_status'' [(''status'', JStr ''verified'')]"

definition rarimo_link_answer :: json where
  "rarimo_link_answer = rarimo_answer ''r'' ''verification_link'' [(''get_proof_params'', JStr ''https://verifier/p/u'')]"

definition rarimo_points :: "nat \<Rightarrow> json" where
  "rarimo_points n = JArr (replicate n (JStr ''1''))"

definition rarimo_proof_answer :: json where
  "rarimo_proof_answer = rarimo_answer ''u'' ''get_proof'' [(''proof'', JObj
     [(''proof'', JObj [(''pi_a'', rarimo_points 3), (''pi_b'', JArr (replicate 3 (rarimo_points 2))),
        (''pi_c'', rarimo_points 3), (''protocol'', JStr ''groth16'')]),
      (''pub_signals'', JArr (map JStr rarimo_signals))])]"

definition answered :: "json \<Rightarrow> verifier_answer" where
  "answered v = VerifierAnswered \<lparr> rx_status = 200, rx_contentType = Some ''application/vnd.api+json'',
     rx_chunks = Some [utf8 (stringify v)], rx_aborted = False \<rparr>"

lemma rarimo_answers_wf: "wf_json rarimo_status_answer" "wf_json rarimo_link_answer" "wf_json rarimo_proof_answer"
  by code_simp+

lemma rarimo_answers_short: "int (length (utf8 (stringify rarimo_status_answer))) \<le> 262144"
    "int (length (utf8 (stringify rarimo_link_answer))) \<le> 262144" "int (length (utf8 (stringify rarimo_proof_answer))) \<le> 262144"
  by code_simp+

lemma rarimo_exchange:
  assumes "wf_json v" "int (length (utf8 (stringify v))) \<le> 262144"
  shows "verifier_request rarimo_options 200 missing ignored (answered v) = Inr (200, v)"
proof -
  have "validateContentType [jsonApiMediaType] (Some ''application/vnd.api+json'')" by code_simp
  then show ?thesis using assms
    by (simp add: verifier_request_def answered_def rarimo_options_def utf8_decode_utf8 parse_stringify del: stringify.simps)
qed

lemmas rarimo_exchanges =
  rarimo_exchange [OF rarimo_answers_wf(1) rarimo_answers_short(1)]
  rarimo_exchange [OF rarimo_answers_wf(2) rarimo_answers_short(2)]
  rarimo_exchange [OF rarimo_answers_wf(3) rarimo_answers_short(3)]

lemma rarimo_fields: "list_all decimalField rarimo_signals" "decimalField ''1''"
  by (simp_all add: rarimo_signals_def decimalField_def decimal_text_def is_digit_def read_nat_def digit_val_def)

lemma rarimo_texts: "list_all (\<lambda>s. s \<noteq> [] \<and> \<not> hasControlCharacter s) rarimo_signals" "length rarimo_signals = 23"
    "readString (JStr ''1'') = Some ''1''"
  by code_simp+

lemma option_all_replicate: "f x = Some y \<Longrightarrow> option_all f (replicate n x) = Some (replicate n y)"
  by (induction n) simp_all

lemma rarimo_decoded: "decodeVerificationStatus rarimo_status_answer ''r'' = Some Verified"
    "decodeVerificationLink rarimo_url rarimo_link_answer rarimo_asked = Some (''u'', ''https://verifier/p/u'')"
  by code_simp+

lemma rarimo_decoded_proof: "decodeProof rarimo_proof_answer = Some \<lparr> pp_userIdHash = ''u'', pp_publicSignals = rarimo_signals \<rparr>"
proof -
  have "readStringArray (JArr (map JStr rarimo_signals)) = Some rarimo_signals"
    using rarimo_texts(1) by (simp add: readStringArray_def readString_def option_all_map list_all_iff)
  moreover have "readStringArray (rarimo_points n) = Some (replicate n ''1'')" for n
    by (simp add: readStringArray_def rarimo_points_def option_all_replicate rarimo_texts(3))
  moreover from this have "readStringMatrix (JArr (replicate 3 (rarimo_points 2))) = Some (replicate 3 (replicate 2 ''1''))"
    by (simp add: readStringMatrix_def option_all_replicate)
  ultimately show ?thesis
    using rarimo_fields rarimo_texts(2)
    by (simp add: decodeProof_def rarimo_proof_answer_def rarimo_answer_def readData_def readRecord_def signal_count_def
        list_ex_iff list_all_iff)
qed

definition rarimo_fingerprint :: string where
  "rarimo_fingerprint = proof_fingerprint sample_sha rarimo_proof_answer"

definition rarimo_accepted :: verified_evidence where
  "rarimo_accepted = \<lparr> ve_requestId = ''r'', ve_userIdHash = ''u'', ve_evidenceAuthorization = evidence_prefix @ rarimo_fingerprint,
     ve_evidenceFingerprint = rarimo_fingerprint, ve_eventId = ''1'', ve_eventDataDecimal = ''0'', ve_selector = ''1'',
     ve_timestampUpperBound = ''7'', ve_identityCounterUpperBound = ''1'', ve_birthDateUpperBound = ''52983525027888'',
     ve_expirationDateLowerBound = ''49'', ve_citizenshipAlpha3 = ''ARG'', ve_adultPredicateSatisfied = True \<rparr>"

definition rarimo_authorized :: issuance_authorization where
  "rarimo_authorized = \<lparr> au_context = rarimo_context, au_evidence = rarimo_accepted, au_verifiedAt = 1500 \<rparr>"

definition rarimo_proof :: proof_projection where
  "rarimo_proof = \<lparr> pp_userIdHash = ''u'', pp_publicSignals = rarimo_signals \<rparr>"

lemma rarimo_bounds: "hexToDecimal no_birth_date = Some ''52983525027888''" "hexToDecimal ''0x31'' = Some ''49''"
    "decodeCitizenship ''4280903'' = Some ''ARG''"
proof -
  have "hex_literal no_birth_date" by code_simp
  then show "hexToDecimal no_birth_date = Some ''52983525027888''"
    by (simp add: hexToDecimal_def read_hex_def hex_val_def no_birth_date_def show_nat.simps digit_char_def char_of_def bit_0)
  have "hex_literal ''0x31''" by code_simp
  then show "hexToDecimal ''0x31'' = Some ''49''"
    by (simp add: hexToDecimal_def read_hex_def hex_val_def show_nat.simps digit_char_def char_of_def bit_0)
  have "read_nat ''4280903'' = 4280903" "show_hex 4280903 = ''415247''"
    by (simp_all add: read_nat_def digit_val_def show_hex.simps hex_digit_def char_of_def bit_0)
  moreover have "bytesFromHex ''415247'' = ''ARG''" by code_simp
  moreover have "list_all mrz_letter ''ARG''" by code_simp
  ultimately show "decodeCitizenship ''4280903'' = Some ''ARG''"
    by (simp add: decodeCitizenship_def padStart_def)
qed

lemma rarimo_evidence: "evidenceFromProof rarimo_proof rarimo_context rarimo_fingerprint = Some rarimo_accepted"
    "validateProofProjection rarimo_proof rarimo_context" "ve_evidenceAuthorization rarimo_accepted = evidence_prefix @ rarimo_fingerprint"
  by (simp_all add: evidenceFromProof_def expected_signals_def rarimo_bounds rarimo_context_def rarimo_asked_def rarimo_accepted_def
      rarimo_proof_def signalAt_def rarimo_signals_def validateProofProjection_def signal_count_def Let_def)

definition rarimo_day :: "gateway_event list" where
  "rarimo_day = [CreateRequest rarimo_asked (answered rarimo_link_answer), StartFetch ''r'' (answered rarimo_status_answer),
     FinishFetch 0 1500 (answered rarimo_proof_answer)]"

definition rarimo_created :: gateway where
  "rarimo_created = \<lparr> gw_contexts = [''r'' \<mapsto> rarimo_context], gw_authorizations = Map.empty \<rparr>"

definition rarimo_verified :: gateway where
  "rarimo_verified = rarimo_created \<lparr> gw_authorizations := [evidence_prefix @ rarimo_fingerprint \<mapsto> rarimo_authorized] \<rparr>"

lemma rarimo_create: "fst (createVerificationRequest rarimo_url id rarimo_options rarimo_asked (answered rarimo_link_answer) new_gateway_state)
    = rarimo_created"
proof -
  have "validateGatewayRequest rarimo_asked = Inr ()" "encodeVerificationRequest rarimo_asked \<noteq> None"
      "validateUserIdHash ''u''" "vq_requestId rarimo_asked = ''r''"
    by code_simp+
  then show ?thesis
    by (auto simp: createVerificationRequest_def rarimo_exchanges rarimo_decoded malformedResponse_def rarimo_url_def [of "''https://verifier/p/u''"]
        rarimo_options_def [THEN arg_cong [of _ _ go_proofParamsAllowedOrigins]] new_gateway_state_def rarimo_created_def rarimo_context_def)
qed

lemma rarimo_fetch: "start_fetch rarimo_options ''r'' (answered rarimo_status_answer) rarimo_created = Some rarimo_context"
  by (simp add: start_fetch_def rarimo_created_def getVerificationStatus_def rarimo_exchanges rarimo_decoded malformedResponse_def
      rarimo_context_def rarimo_asked_def)

lemma rarimo_finish:
  "evidence_finish sample_sha rarimo_options rarimo_context 1500 (answered rarimo_proof_answer) rarimo_created
     = (rarimo_verified, Inr (Some rarimo_accepted))"
  by (simp add: evidence_finish_def rarimo_exchanges rarimo_decoded_proof rarimo_proof_def [symmetric] rarimo_evidence
      rarimo_fingerprint_def [symmetric] rarimo_created_def rarimo_verified_def rarimo_authorized_def)

lemma rarimo_run: "gp_gateway (gateway_run rarimo_url id sample_sha rarimo_options rarimo_day new_gateway_process) = rarimo_verified"
  by (simp add: gateway_run_def rarimo_day_def new_gateway_process_def rarimo_create rarimo_fetch rarimo_finish)

definition rarimo_request :: issuance_request where
  "rarimo_request = \<lparr> iq_enrollmentId = replicate 32 (CHR ''0''), iq_provider = RarimoProvider,
     iq_evidenceAuthorization = evidence_prefix @ rarimo_fingerprint, iq_holderBinding = replicate 32 (CHR ''b''),
     iq_claims = \<lparr> cl_issuerId = ''is'', cl_country = ''AR'', cl_ageClass = AgeUnknown, cl_assurance = DocumentNfc,
       cl_credentialEpoch = 1, cl_validFrom = ''f'', cl_validUntil = ''u'' \<rparr> \<rparr>"

definition rarimo_policy :: issuance_policy where
  "rarimo_policy = \<lparr> ip_issuerId = ''is'', ip_credentialEpoch = 1, ip_credentialTtlMs = 60000, ip_fromAlpha3 = (\<lambda>_. Some ''AR''),
     ip_maximumIssuanceDelayMs = None, ip_clockSkewMs = None \<rparr>"

definition rarimo_clock :: "string \<Rightarrow> int option" where
  "rarimo_clock s = Some (if s = ''f'' then 2000 else 62000)"

lemma rarimo_event_data:
  "deriveRarimoIssuanceEventData rarimo_runtime (replicate 32 (CHR ''0'')) (replicate 32 (CHR ''b''))
     = Inr (replicate 31 (char_of (0 :: nat)))"
  by code_simp

lemma rarimo_zeros: "bytesToHex (replicate n (char_of (0 :: nat))) = replicate (2 * n) (CHR ''0'')"
    "read_hex (replicate n (CHR ''0'')) = 0" "toLowerCase (''0x'' @ replicate 62 (CHR ''0'')) = ''0x'' @ replicate 62 (CHR ''0'')"
proof -
  have z: "byte_hex (char_of (0 :: nat)) = ''00''" by code_simp
  show "bytesToHex (replicate n (char_of (0 :: nat))) = replicate (2 * n) (CHR ''0'')"
    by (induction n) (simp_all add: bytesToHex_def z)
  show "read_hex (replicate n (CHR ''0'')) = 0"
    by (induction n) (simp_all add: read_hex_def hex_val_def)
  show "toLowerCase (''0x'' @ replicate 62 (CHR ''0'')) = ''0x'' @ replicate 62 (CHR ''0'')" by code_simp
qed

lemma rarimo_validates: "validateCredentialIssuance rarimo_runtime rarimo_clock 1500 rarimo_policy rarimo_request rarimo_verified"
proof -
  have "holder_bound rarimo_runtime rarimo_request rarimo_asked rarimo_accepted"
    using rarimo_event_data rarimo_zeros
    by (simp add: holder_bound_def rarimo_request_def rarimo_asked_def rarimo_accepted_def show_nat.simps [of 0] digit_char_def char_of_def bit_0)
  moreover have "country_bound rarimo_policy rarimo_request rarimo_asked rarimo_accepted"
    by (simp add: country_bound_def rarimo_policy_def rarimo_request_def rarimo_asked_def)
  moreover have "claims_bound rarimo_policy rarimo_request rarimo_asked rarimo_accepted"
    by (simp add: claims_bound_def rarimo_policy_def rarimo_request_def rarimo_asked_def)
  moreover have "validity_window rarimo_clock 1500 rarimo_policy (iq_claims rarimo_request) 1500"
    by (simp add: validity_window_def rarimo_policy_def rarimo_request_def rarimo_clock_def)
  ultimately show ?thesis
    by (simp add: validateCredentialIssuance_def rarimo_verified_def rarimo_created_def rarimo_authorized_def rarimo_context_def)
       (simp add: rarimo_request_def)
qed

text \<open>The registry accepts the credential, in a run whose validation is the gateway's.\<close>

definition rarimo_issuance where
  "rarimo_issuance = issueOnce rarimo_runtime rarimo_clock sample_sha (file_books sample_sha) sample_options good_run rarimo_request
     (is_state (new_issuer_process NoFile NoFile))"

lemma rarimo_issues: "map fst (ist_added (fst rarimo_issuance)) = [rarimo_request]"
  by code_simp

theorem credential_needs_bound_proof_witness:
  "ist_added (fst rarimo_issuance) \<noteq> []
    \<and> (\<exists>context value pj eventData. verified_context rarimo_options rarimo_day context \<and> decodeProof value = Some pj
      \<and> deriveRarimoIssuanceEventData rarimo_runtime (iq_enrollmentId rarimo_request) (iq_holderBinding rarimo_request) = Inr eventData
      \<and> signalAt (pp_publicSignals pj) 10 = Some (show_nat (read_hex (bytesToHex eventData))))"
proof -
  obtain st' res where i: "issueOnce rarimo_runtime rarimo_clock sample_sha (file_books sample_sha) sample_options good_run rarimo_request
      (is_state (new_issuer_process NoFile NoFile)) = (st', res)"
    by (cases rule: prod.exhaust)
  have e: "ie_validates good_run = validateCredentialIssuance rarimo_runtime rarimo_clock 1500 rarimo_policy rarimo_request
      (gp_gateway (gateway_run rarimo_url id sample_sha rarimo_options rarimo_day new_gateway_process))"
    using rarimo_validates by (simp add: rarimo_run good_run_def lost_run_def)
  have added: "ist_added st' \<noteq> []" "fst rarimo_issuance = st'"
    using rarimo_issues i by (auto simp: rarimo_issuance_def)
  then have "ist_added st' \<noteq> ist_added (is_state (new_issuer_process NoFile NoFile))" by (simp add: new_issuer_process_def)
  from credential_needs_bound_proof [OF refl e i this] show ?thesis using added by blast
qed

text \<open>The runtime of the sample gives every enrollment the same event data, so another enrollment validates too.\<close>

definition rarimo_second_request :: issuance_request where
  "rarimo_second_request = rarimo_request \<lparr> iq_enrollmentId := replicate 32 (CHR ''1'') \<rparr>"

lemma rarimo_second_validates:
  "validateCredentialIssuance rarimo_runtime rarimo_clock 1500 rarimo_policy rarimo_second_request rarimo_verified"
proof -
  have "deriveRarimoIssuanceEventData rarimo_runtime (replicate 32 (CHR ''1'')) (replicate 32 (CHR ''b''))
      = deriveRarimoIssuanceEventData rarimo_runtime (replicate 32 (CHR ''0'')) (replicate 32 (CHR ''b''))"
    by code_simp
  then show ?thesis using rarimo_validates
    by (simp add: validateCredentialIssuance_def rarimo_second_request_def rarimo_request_def holder_bound_def country_bound_def
        claims_bound_def cong: option.case_cong)
qed


theorem age_class_is_the_browsers_witness:
  "cl_ageClass (iq_claims rarimo_request) = AgeUnknown
    \<and> (\<exists>g. validateCredentialIssuance rarimo_runtime rarimo_clock 1500 rarimo_policy
          (rarimo_request \<lparr> iq_claims := (iq_claims rarimo_request) \<lparr> cl_ageClass := Adult \<rparr> \<rparr>) g)"
proof -
  have a: "gw_authorizations rarimo_verified (iq_evidenceAuthorization rarimo_request)
      = Some \<lparr> au_context = \<lparr> vc_request = rarimo_asked, vc_userIdHash = ''u'' \<rparr>, au_evidence = rarimo_accepted, au_verifiedAt = 1500 \<rparr>"
    by (simp add: rarimo_verified_def rarimo_request_def rarimo_authorized_def rarimo_context_def)
  have "vq_birthDateUpperBound rarimo_asked = no_birth_date" by (simp add: rarimo_asked_def)
  then show ?thesis
    using age_class_is_the_browsers [OF a rarimo_validates, of rarimo_proof rarimo_fingerprint]
      rarimo_evidence(1) [unfolded rarimo_context_def] by auto
qed

theorem deletion_can_be_overtaken_witness:
  "\<exists>after :: gateway_process. gw_contexts (gp_gateway after) ''r'' = None
     \<and> validateCredentialIssuance rarimo_runtime rarimo_clock 1500 rarimo_policy rarimo_request (gp_gateway after)"
proof -
  let ?p = "\<lparr> gp_gateway = rarimo_created, gp_fetches = [] \<rparr>"
  let ?before = "gateway_run rarimo_url id sample_sha rarimo_options [StartFetch ''r'' (answered rarimo_status_answer),
      DeleteRequest ''r'' (VerifierRejected False)] ?p"
  let ?after = "gateway_run rarimo_url id sample_sha rarimo_options
      [FinishFetch (length (gp_fetches ?p)) 1500 (answered rarimo_proof_answer)] ?before"
  have "start_fetch rarimo_options ''r'' (answered rarimo_status_answer) (gp_gateway ?p) = Some rarimo_context"
      "vq_requestId (vc_request rarimo_context) = ''r''" "gw_authorizations (gp_gateway ?p) (ve_evidenceAuthorization rarimo_accepted) = None"
    using rarimo_fetch by (simp_all add: rarimo_context_def rarimo_asked_def rarimo_created_def)
  from deletion_can_be_overtaken [OF this(1,2) rarimo_exchanges(3) rarimo_decoded_proof [folded rarimo_proof_def] rarimo_evidence(2)
      rarimo_evidence(1) [unfolded rarimo_fingerprint_def] this(3) refl refl, of rarimo_url id "VerifierRejected False" 1500]
  have "gw_contexts (gp_gateway ?after) ''r'' = None"
      "gw_authorizations (gp_gateway ?after) (evidence_prefix @ rarimo_fingerprint) = Some rarimo_authorized"
    by (simp_all add: rarimo_authorized_def rarimo_evidence(3))
  moreover from this(2) have "validateCredentialIssuance rarimo_runtime rarimo_clock 1500 rarimo_policy rarimo_request (gp_gateway ?after)"
    using rarimo_validates by (simp add: validateCredentialIssuance_def rarimo_verified_def rarimo_request_def)
  ultimately show ?thesis by blast
qed

end
