(* ===== verification/Adapter_Properties.thy ===== *)
theory Adapter_Properties
  imports Rarimo_Adapter Rarimo_Evidence "HOL-Library.Code_Target_Nat"
begin

text \<open>
  The browser's credential over any interleaving of its operations: what material it
  hands out, how an enrolment moves, and what a failed or late write to the vault does;
  and that an honest enrolment passes the verifier gateway and the issuer.
\<close>

section \<open>Interleavings\<close>

datatype adapter_event =
    BeginRequest "PassportSessionStatus option" "credential_policy option" int enrollment_entropy bool "nat \<Rightarrow> bool" bool
  | BeginLinked nat "verification_link option"
  | PollStart string int bool
  | PollStatus string "rarimo_status option" int bool
  | PollEvidence string "verified_evidence option option" int bool
  | PollIssuance string "issuance_result option" int bool
  | PollSaved string bool int bool
  | ClearStart
  | ClearFinish nat "nat \<Rightarrow> bool" bool
  | GetSummary int bool bool
  | GetAuthorization int bool bool
  | GetMaterial int bool bool

fun adapter_step ::
  "compact_runtime \<Rightarrow> (string \<Rightarrow> int option) \<Rightarrow> (string \<Rightarrow> gateway_url option) \<Rightarrow> adapter_options
     \<Rightarrow> adapter_event \<Rightarrow> rarimo_adapter \<Rightarrow> rarimo_adapter" where
  "adapter_step rt dp url opts (BeginRequest s p now random loads deleted clears) a =
     fst (begin_request rt opts s p now random loads deleted clears a)"
| "adapter_step rt dp url opts (BeginLinked n answer) a = (if n < length (ad_begins a) then fst (begin_linked url n answer a) else a)"
| "adapter_step rt dp url opts (PollStart i now deleted) a = fst (poll_start dp i now deleted a)"
| "adapter_step rt dp url opts (PollStatus i answer now deleted) a = fst (poll_status i answer now deleted a)"
| "adapter_step rt dp url opts (PollEvidence i answer now deleted) a = fst (poll_evidence opts i answer now deleted a)"
| "adapter_step rt dp url opts (PollIssuance i answer now deleted) a = fst (poll_issuance rt dp i answer now deleted a)"
| "adapter_step rt dp url opts (PollSaved i saves now deleted) a = fst (poll_saved opts i saves now deleted a)"
| "adapter_step rt dp url opts ClearStart a = a \<lparr> ad_clears := ad_clears a @ [clear_start a] \<rparr>"
| "adapter_step rt dp url opts (ClearFinish n deleted clears) a =
     (if n < length (ad_clears a)
      then fst (clear_finish opts (ad_clears a ! n) deleted clears (a \<lparr> ad_clears := drop_nth n (ad_clears a) \<rparr>)) else a)"
| "adapter_step rt dp url opts (GetSummary now loads clears) a = fst (getCredentialSummary dp opts now loads clears a)"
| "adapter_step rt dp url opts (GetAuthorization now loads clears) a = fst (getActionAuthorization dp opts now loads clears a)"
| "adapter_step rt dp url opts (GetMaterial now loads clears) a = fst (getPrivateCredentialMaterial dp opts now loads clears a)"

definition adapter_run where
  "adapter_run rt dp url opts events a = fold (adapter_step rt dp url opts) events a"

section \<open>The invariant\<close>

text \<open>Material opens its credential: the secret opens the binding, and binding, claims and blind the leaf.\<close>

definition valid_opening :: "compact_runtime \<Rightarrow> (string \<Rightarrow> int option) \<Rightarrow> private_material \<Rightarrow> bool" where
  "valid_opening rt dp m = (deriveHolderBinding rt (pm_voterSecret m) (pm_holderBlind m) = Inr (pm_holderBinding m)
     \<and> deriveCredentialLeaf rt dp (pm_holderBinding m) (pm_claims m) (pm_credentialBlind m) = Inr (pm_credentialLeaf m))"

definition good_stored :: "compact_runtime \<Rightarrow> (string \<Rightarrow> int option) \<Rightarrow> stored_credential \<Rightarrow> bool" where
  "good_stored rt dp c = (valid_opening rt dp (so_material c) \<and> pm_claims (so_material c) = su_claims (so_summary c))"

definition intact :: "compact_runtime \<Rightarrow> enrollment_record \<Rightarrow> bool" where
  "intact rt e = (deriveHolderBinding rt (en_holderSecret e) (en_holderBlind e) = Inr (en_holderBinding e))"

definition wiped :: "enrollment_record \<Rightarrow> bool" where
  "wiped e = (en_holderBinding e = zeros (en_holderBinding e))"

text \<open>Records of the table.\<close>

definition good_record :: "compact_runtime \<Rightarrow> (string \<Rightarrow> int option) \<Rightarrow> enrollment_record \<Rightarrow> bool" where
  "good_record rt dp e =
     ((en_status e \<in> {EnrollPending, EnrollIssued} \<longrightarrow> intact rt e)
      \<and> (en_status e = EnrollIssued \<longrightarrow> (\<exists>c. persistIssuedRecord e = Some c \<and> good_stored rt dp c)))"

definition table_ok where
  "table_ok rt dp recs enrollments = (\<forall>i r. map_of enrollments i = Some r \<longrightarrow>
     r < length recs \<and> en_enrollmentId (recs ! r) = i \<and> good_record rt dp (recs ! r))"

text \<open>Records that a poll holds, also after the table has forgotten them.\<close>

definition polled_record where
  "polled_record rt dp recs enrollments i r stage =
     (r < length recs \<and> en_enrollmentId (recs ! r) = i \<and> en_status (recs ! r) = EnrollPending
      \<and> (intact rt (recs ! r) \<or> wiped (recs ! r))
      \<and> (\<forall>stored from. stage = AwaitSave stored from \<longrightarrow> good_stored rt dp stored
           \<and> (map_of enrollments i = Some r \<longrightarrow> persistIssuedRecord (recs ! r) = Some stored)))"

definition checks_ok where
  "checks_ok rt dp recs enrollments checks =
     (\<forall>i r stage. map_of checks i = Some (r, stage) \<longrightarrow> polled_record rt dp recs enrollments i r stage)"

definition adapter_inv :: "compact_runtime \<Rightarrow> (string \<Rightarrow> int option) \<Rightarrow> rarimo_adapter \<Rightarrow> bool" where
  "adapter_inv rt dp a =
     ((\<forall>c. ad_restored a = Some (Some c) \<longrightarrow> good_stored rt dp c)
      \<and> (\<forall>c. ad_vault a = Some c \<longrightarrow> good_stored rt dp c)
      \<and> table_ok rt dp (ad_records a) (ad_enrollments a)
      \<and> checks_ok rt dp (ad_records a) (ad_enrollments a) (ad_checks a)
      \<and> (\<forall>e \<in> set (ad_begins a). intact rt e \<and> en_status e = EnrollPending))"

lemma adapter_invI:
  assumes "\<And>c. ad_restored a = Some (Some c) \<Longrightarrow> good_stored rt dp c" "\<And>c. ad_vault a = Some c \<Longrightarrow> good_stored rt dp c"
    and "table_ok rt dp (ad_records a) (ad_enrollments a)"
    and "checks_ok rt dp (ad_records a) (ad_enrollments a) (ad_checks a)"
    and "\<And>e. e \<in> set (ad_begins a) \<Longrightarrow> intact rt e \<and> en_status e = EnrollPending"
  shows "adapter_inv rt dp a"
  using assms by (simp add: adapter_inv_def)

lemma adapter_invD:
  assumes "adapter_inv rt dp a"
  shows "ad_restored a = Some (Some c) \<Longrightarrow> good_stored rt dp c" "ad_vault a = Some c \<Longrightarrow> good_stored rt dp c"
    "table_ok rt dp (ad_records a) (ad_enrollments a)"
    "checks_ok rt dp (ad_records a) (ad_enrollments a) (ad_checks a)"
    "e \<in> set (ad_begins a) \<Longrightarrow> intact rt e \<and> en_status e = EnrollPending"
  using assms by (simp_all add: adapter_inv_def)

section \<open>Changes of one record\<close>

text \<open>A change that keeps what the invariant says of records: the identity, the status and the secrets.\<close>

definition harmless :: "(enrollment_record \<Rightarrow> enrollment_record) \<Rightarrow> bool" where
  "harmless f = (\<forall>e. en_enrollmentId (f e) = en_enrollmentId e \<and> en_status (f e) = en_status e
     \<and> en_holderSecret (f e) = en_holderSecret e \<and> en_holderBlind (f e) = en_holderBlind e
     \<and> en_holderBinding (f e) = en_holderBinding e \<and> persistIssuedRecord (f e) = persistIssuedRecord e)"

lemma harmless_keeps:
  assumes "harmless f"
  shows "en_enrollmentId (f e) = en_enrollmentId e" "en_status (f e) = en_status e"
    "intact rt (f e) = intact rt e" "wiped (f e) = wiped e" "good_record rt dp (f e) = good_record rt dp e"
    "persistIssuedRecord (f e) = persistIssuedRecord e"
  using assms by (simp_all add: harmless_def intact_def wiped_def good_record_def)

lemma harmless_flags [simp]:
  "harmless (\<lambda>e. e \<lparr> en_cleanupRequested := b \<rparr>)" "harmless (\<lambda>e. e \<lparr> en_updatedAt := t \<rparr>)"
  by (simp_all add: harmless_def persistIssuedRecord_def split: option.split)

lemma table_ok_set:
  assumes "table_ok rt dp recs enr"
    and "\<And>i. map_of enr i = Some r \<Longrightarrow> en_enrollmentId x = en_enrollmentId (recs ! r) \<and> good_record rt dp x"
  shows "table_ok rt dp (recs[r := x]) enr"
  using assms unfolding table_ok_def by (metis length_list_update nth_list_update_eq nth_list_update_neq)

lemma checks_ok_free:
  assumes "checks_ok rt dp recs enr checks" "\<And>i stage. map_of checks i \<noteq> Some (r, stage)"
  shows "checks_ok rt dp (recs[r := x]) enr checks"
  unfolding checks_ok_def
proof (intro allI impI)
  fix i q stage
  assume "map_of checks i = Some (q, stage)"
  then have "polled_record rt dp recs enr i q stage" "q \<noteq> r" using assms unfolding checks_ok_def by blast+
  then show "polled_record rt dp (recs[r := x]) enr i q stage" by (simp add: polled_record_def)
qed

text \<open>The poll of an enrolment is the only one that holds its record.\<close>

lemma checks_ok_other:
  assumes "checks_ok rt dp recs enr checks" "map_of checks i = Some (r, stage)" "map_of checks j = Some (r, stage')"
  shows "i = j"
  using assms unfolding checks_ok_def polled_record_def by metis

lemma checks_ok_poll:
  assumes "checks_ok rt dp recs enr checks" "map_of checks i = Some (r, stage)"
    and "\<And>s. map_of checks' i = Some s \<Longrightarrow> fst s = r \<and> polled_record rt dp (recs[r := x]) enr i r (snd s)"
    and "\<And>j. j \<noteq> i \<Longrightarrow> map_of checks' j = map_of checks j"
  shows "checks_ok rt dp (recs[r := x]) enr checks'"
  unfolding checks_ok_def
proof (intro allI impI)
  fix j q stage'
  assume c: "map_of checks' j = Some (q, stage')"
  show "polled_record rt dp (recs[r := x]) enr j q stage'"
  proof (cases "j = i")
    case True
    then show ?thesis using c assms(3) [of "(q, stage')"] by simp
  next
    case False
    then have o': "map_of checks j = Some (q, stage')" using c assms(4) by simp
    then have "q \<noteq> r" using False checks_ok_other [OF assms(1,2)] by blast
    then show ?thesis using o' assms(1) unfolding checks_ok_def by (simp add: polled_record_def)
  qed
qed

lemma set_record_select [simp]:
  "ad_enrollments (set_record r f a) = ad_enrollments a" "ad_active (set_record r f a) = ad_active a"
  "ad_restored (set_record r f a) = ad_restored a" "ad_vault (set_record r f a) = ad_vault a"
  "ad_checks (set_record r f a) = ad_checks a" "ad_begins (set_record r f a) = ad_begins a"
  "ad_clears (set_record r f a) = ad_clears a" "ad_records (set_record r f a) = (ad_records a)[r := f (ad_records a ! r)]"
  by (simp_all add: set_record_def record_at_def)

lemma check_select [simp]:
  "ad_checks (end_check i a) = AList.delete i (ad_checks a)" "ad_records (end_check i a) = ad_records a"
  "ad_enrollments (end_check i a) = ad_enrollments a" "ad_restored (end_check i a) = ad_restored a"
  "ad_vault (end_check i a) = ad_vault a" "ad_begins (end_check i a) = ad_begins a"
  "ad_checks (set_check i r s a) = AList.update i (r, s) (ad_checks a)" "ad_records (set_check i r s a) = ad_records a"
  "ad_enrollments (set_check i r s a) = ad_enrollments a" "ad_restored (set_check i r s a) = ad_restored a"
  "ad_vault (set_check i r s a) = ad_vault a" "ad_begins (set_check i r s a) = ad_begins a"
  by (simp_all add: end_check_def set_check_def)

lemma checks_delete: "map_of (AList.delete i checks) = (map_of checks)(i := None)"
  by (rule delete_conv')

lemma checks_update: "map_of (AList.update i v checks) = (map_of checks)(i \<mapsto> v)"
  by (rule update_conv')

lemma set_record_id: "(ad_records a)[r := ad_records a ! r] = ad_records a"
  by simp

text \<open>A harmless change of any record.\<close>

lemma harmless_inv:
  assumes "adapter_inv rt dp a" "harmless f"
  shows "adapter_inv rt dp (set_record r f a)"
proof (cases "r < length (ad_records a)")
  case True
  note h = harmless_keeps [OF assms(2)]
  show ?thesis
  proof (rule adapter_invI)
    show "table_ok rt dp (ad_records (set_record r f a)) (ad_enrollments (set_record r f a))"
      using adapter_invD(3) [OF assms(1)] by (auto intro!: table_ok_set simp: h) (auto simp: table_ok_def)
    have "polled_record rt dp ((ad_records a)[r := f (ad_records a ! r)]) (ad_enrollments a) i q stage"
      if "polled_record rt dp (ad_records a) (ad_enrollments a) i q stage" for i q stage
      using that True by (cases "q = r") (auto simp: polled_record_def h)
    then show "checks_ok rt dp (ad_records (set_record r f a)) (ad_enrollments (set_record r f a)) (ad_checks (set_record r f a))"
      using adapter_invD(4) [OF assms(1)] by (simp add: checks_ok_def)
  qed (use adapter_invD [OF assms(1)] in simp_all)
next
  case False
  then show ?thesis using assms(1) by (simp add: set_record_def list_update_beyond)
qed

lemma cleanup_inv: "adapter_inv rt dp a \<Longrightarrow> adapter_inv rt dp (fst (cleanupProviderRecord r deleted a))"
  by (simp add: cleanupProviderRecord_def harmless_inv)

section \<open>Every step keeps the invariant\<close>

text \<open>
  The answer of an issuer that issues no credential to the binding of zeros, which is
  what a record that was wiped during its poll holds.
\<close>

fun adapter_event_ok :: "compact_runtime \<Rightarrow> (string \<Rightarrow> int option) \<Rightarrow> adapter_event \<Rightarrow> bool" where
  "adapter_event_ok rt dp (PollIssuance i (Some issuance) now deleted) =
     (\<forall>claims. deriveCredentialLeaf rt dp (replicate 32 (char_of (0 :: nat))) claims (ir_credentialBlind issuance)
        \<noteq> Inr (ir_credentialLeaf issuance))"
| "adapter_event_ok rt dp _ = True"

lemma zeroize_fields [simp]:
  "en_enrollmentId (zeroize_holder e) = en_enrollmentId e" "en_status (zeroize_holder e) = en_status e"
  "en_enrollmentId (zeroize_record e) = en_enrollmentId e" "en_status (zeroize_record e) = en_status e"
  "wiped (zeroize_record e)"
  by (simp_all add: zeroize_holder_def zeroize_record_def wiped_def zeros_def)

text \<open>A record that has failed or expired needs nothing.\<close>

lemma dead_record: "en_status e \<in> {EnrollFailed, EnrollExpired} \<Longrightarrow> good_record rt dp e"
  by (auto simp: good_record_def)

lemma dead_inv:
  assumes "adapter_inv rt dp a" "en_enrollmentId x = en_enrollmentId (ad_records a ! r)" "en_status x \<in> {EnrollFailed, EnrollExpired}"
    and "checks_ok rt dp ((ad_records a)[r := x]) (ad_enrollments a) checks"
    and "a' = a \<lparr> ad_records := (ad_records a)[r := x], ad_checks := checks \<rparr>"
  shows "adapter_inv rt dp a'"
proof (rule adapter_invI)
  show "table_ok rt dp (ad_records a') (ad_enrollments a')"
    using adapter_invD(3) [OF assms(1)] assms(2,3,5) by (auto intro: table_ok_set dead_record)
qed (use adapter_invD [OF assms(1)] assms(4,5) in simp_all)

lemma no_stage_left: "map_of (AList.delete i checks) i = Some s \<Longrightarrow> P"
  by (simp add: checks_delete)

lemma fail_poll_inv:
  assumes "adapter_inv rt dp a" "map_of (ad_checks a) i = Some (r, stage)"
  shows "adapter_inv rt dp (fst (fail_poll i r now deleted a))"
proof -
  let ?x = "failRecord now (ad_records a ! r)"
  let ?a = "end_check i (set_record r (failRecord now) a)"
  have x: "en_enrollmentId ?x = en_enrollmentId (ad_records a ! r)" "en_status ?x = EnrollFailed"
    by (simp_all add: failRecord_def)
  have "checks_ok rt dp ((ad_records a)[r := ?x]) (ad_enrollments a) (AList.delete i (ad_checks a))"
    by (rule checks_ok_poll [OF adapter_invD(4) [OF assms(1)] assms(2)]) (auto simp: checks_delete)
  from dead_inv [OF assms(1) x(1) _ this refl] x(2) have "adapter_inv rt dp ?a"
    by (simp add: end_check_def set_record_def record_at_def)
  then have "adapter_inv rt dp (fst (cleanupProviderRecord r deleted ?a))" by (rule cleanup_inv)
  moreover have "fst (fail_poll i r now deleted a) = fst (cleanupProviderRecord r deleted ?a)"
    by (simp add: fail_poll_def failAndCleanup_def cleanupProviderRecord_def end_check_def set_record_def record_at_def Let_def)
  ultimately show ?thesis by simp
qed

text \<open>Ending a poll, and moving it to a stage that promises nothing.\<close>

lemma end_check_inv: "adapter_inv rt dp a \<Longrightarrow> adapter_inv rt dp (end_check i a)"
  by (auto simp: adapter_inv_def checks_ok_def checks_delete split: if_splits)

lemma set_check_inv:
  assumes "adapter_inv rt dp a" "map_of (ad_checks a) i = Some (r, stage)" "\<And>s f. stage' \<noteq> AwaitSave s f"
  shows "adapter_inv rt dp (set_check i r stage' a)"
proof -
  have "polled_record rt dp (ad_records a) (ad_enrollments a) i r stage'"
    using adapter_invD(4) [OF assms(1)] assms(2,3) unfolding checks_ok_def polled_record_def by blast
  then show ?thesis using assms(1) by (auto simp: adapter_inv_def checks_ok_def checks_update)
qed

lemma poll_start_inv:
  assumes "adapter_inv rt dp a"
  shows "adapter_inv rt dp (fst (poll_start dp i now deleted a))"
proof (cases "map_of (ad_checks a) i = None \<and> (\<exists>r. map_of (ad_enrollments a) i = Some r \<and> \<not> isTerminal (en_status (record_at r a)))")
  case True
  then obtain r where r: "map_of (ad_checks a) i = None" "map_of (ad_enrollments a) i = Some r"
      "\<not> isTerminal (en_status (record_at r a))" by blast
  then have ok: "r < length (ad_records a)" "en_enrollmentId (ad_records a ! r) = i" "good_record rt dp (ad_records a ! r)"
      "en_status (ad_records a ! r) = EnrollPending"
    using adapter_invD(3) [OF assms] unfolding table_ok_def
    by (auto simp: isTerminal_def record_at_def) (cases "en_status (ad_records a ! r)"; simp)
  have free: "map_of (ad_checks a) j \<noteq> Some (r, stage)" for j stage
    using adapter_invD(4) [OF assms] r(1) ok(2) unfolding checks_ok_def polled_record_def by fastforce
  show ?thesis
  proof (cases "reached dp now (en_expiresAt (record_at r a))")
    case True
    let ?x = "(ad_records a ! r) \<lparr> en_status := EnrollExpired, en_updatedAt := toISOString now \<rparr>"
    define b where "b = fst (cleanupProviderRecord r deleted
        (set_record r (\<lambda>e. e \<lparr> en_status := EnrollExpired, en_updatedAt := toISOString now \<rparr>) a))"
    have "adapter_inv rt dp (a \<lparr> ad_records := (ad_records a)[r := ?x], ad_checks := ad_checks a \<rparr>)"
      by (rule dead_inv [OF assms _ _ checks_ok_free [OF adapter_invD(4) [OF assms] free] refl]) simp_all
    then have "adapter_inv rt dp b" unfolding b_def by (intro cleanup_inv) (simp add: set_record_def record_at_def)
    have b: "ad_checks b = ad_checks a" "en_status (ad_records b ! r) = EnrollExpired"
      using ok(1) by (simp_all add: b_def cleanupProviderRecord_def)
    have "adapter_inv rt dp (b \<lparr> ad_records := (ad_records b)[r := zeroize_holder (ad_records b ! r)], ad_checks := ad_checks b \<rparr>)"
      by (rule dead_inv [OF \<open>adapter_inv rt dp b\<close> _ _ checks_ok_free [OF adapter_invD(4) [OF \<open>adapter_inv rt dp b\<close>]] refl])
        (simp_all add: b free)
    then have "adapter_inv rt dp (set_record r zeroize_holder b)" by (simp add: set_record_def record_at_def)
    then show ?thesis using r True by (simp add: poll_start_def expireRecord_def b_def case_prod_beta)
  next
    case False
    have "polled_record rt dp (ad_records a) (ad_enrollments a) i r AwaitStatus"
      using ok by (simp add: polled_record_def good_record_def)
    then have "adapter_inv rt dp (set_check i r AwaitStatus a)"
      using assms by (auto simp: adapter_inv_def checks_ok_def checks_update)
    then show ?thesis using r False by (simp add: poll_start_def)
  qed
next
  case False
  then show ?thesis using assms by (auto simp: poll_start_def split: option.split)
qed

lemma poll_status_inv: "adapter_inv rt dp a \<Longrightarrow> adapter_inv rt dp (fst (poll_status i answer now deleted a))"
  by (auto simp: poll_status_def Let_def end_check_inv set_check_inv fail_poll_inv harmless_inv
      split: option.split poll_stage.split rarimo_status.split)

lemma poll_evidence_inv: "adapter_inv rt dp a \<Longrightarrow> adapter_inv rt dp (fst (poll_evidence opts i answer now deleted a))"
  by (auto simp: poll_evidence_def end_check_inv set_check_inv fail_poll_inv split: option.split poll_stage.split sum.split prod.split)

text \<open>An accepted issuance completes the material of the record that asked for it.\<close>

lemma issued_record_fields [simp]:
  "en_enrollmentId (issued_record issuance evidence claims e) = en_enrollmentId e"
  "en_status (issued_record issuance evidence claims e) = en_status e"
  "intact rt (issued_record issuance evidence claims e) = intact rt e"
  "wiped (issued_record issuance evidence claims e) = wiped e"
  by (simp_all add: issued_record_def intact_def wiped_def)

lemma validated_leaf:
  assumes "validateIssuance rt dp issuance binding claims = Inr ()"
  shows "deriveCredentialLeaf rt dp binding claims (ir_credentialBlind issuance) = Inr (ir_credentialLeaf issuance)"
    "trim (ir_issuanceId issuance) \<noteq> []"
  using assms by (auto simp: validateIssuance_def Let_def split: sum.splits if_splits)

lemma leaf_of_32:
  "deriveCredentialLeaf rt dp binding claims blind = Inr leaf \<Longrightarrow> length binding = 32"
  by (auto simp: deriveCredentialLeaf_def deriveRawCredentialLeaf_def assertBytes32_def)

lemma issued_is_good:
  assumes "validateIssuance rt dp issuance (en_holderBinding e) claims = Inr ()" "intact rt e \<or> wiped e"
    and "adapter_event_ok rt dp (PollIssuance i (Some issuance) now deleted)"
  shows "\<exists>c. persistIssuedRecord (issued_record issuance evidence claims e) = Some c \<and> good_stored rt dp c"
proof -
  note leaf = validated_leaf [OF assms(1)]
  have "\<not> wiped e"
  proof
    assume "wiped e"
    then have "en_holderBinding e = replicate 32 (char_of (0 :: nat))"
      using leaf_of_32 [OF leaf(1)] by (metis wiped_def zeros_def)
    then show False using leaf(1) assms(3) by simp
  qed
  then have "intact rt e" using assms(2) by simp
  moreover have "ir_issuanceId issuance \<noteq> []" using leaf(2) by (auto simp: trim_def)
  ultimately show ?thesis using leaf(1)
    by (simp add: persistIssuedRecord_def issued_record_def good_stored_def valid_opening_def intact_def)
qed

lemma poll_issuance_inv:
  assumes "adapter_inv rt dp a" "adapter_event_ok rt dp (PollIssuance i answer now deleted)"
  shows "adapter_inv rt dp (fst (poll_issuance rt dp i answer now deleted a))"
proof (cases "map_of (ad_checks a) i")
  case None
  then show ?thesis using assms(1) by (simp add: poll_issuance_def)
next
  case (Some s)
  obtain r stage where s: "s = (r, stage)" by (cases s)
  note check = Some [unfolded s]
  show ?thesis
  proof (cases "\<exists>evidence from claims issuance. stage = AwaitIssuance evidence from claims \<and> answer = Some issuance
      \<and> validateIssuance rt dp issuance (en_holderBinding (record_at r a)) claims = Inr ()")
    case True
    then obtain evidence from' claims issuance where t: "stage = AwaitIssuance evidence from' claims" "answer = Some issuance"
        "validateIssuance rt dp issuance (en_holderBinding (record_at r a)) claims = Inr ()" by blast
    have polled: "polled_record rt dp (ad_records a) (ad_enrollments a) i r stage"
      using adapter_invD(4) [OF assms(1)] check unfolding checks_ok_def by blast
    let ?x = "issued_record issuance evidence claims (ad_records a ! r)"
    have inr: "r < length (ad_records a)" using polled by (simp add: polled_record_def)
    have "intact rt (record_at r a) \<or> wiped (record_at r a)" using polled by (simp add: polled_record_def record_at_def)
    moreover have "adapter_event_ok rt dp (PollIssuance i (Some issuance) now deleted)" using assms(2) t(2) by simp
    ultimately obtain c where c: "persistIssuedRecord ?x = Some c" "good_stored rt dp c"
      using issued_is_good [OF t(3), of i now deleted evidence] unfolding record_at_def by blast
    define b where "b = set_check i r (AwaitSave c from') (set_record r (issued_record issuance evidence claims) a)"
    have "adapter_inv rt dp b"
    proof (rule adapter_invI)
      have "good_record rt dp ?x" if "map_of (ad_enrollments a) j = Some r" for j
        using that polled adapter_invD(3) [OF assms(1)] unfolding table_ok_def polled_record_def good_record_def by auto
      then show "table_ok rt dp (ad_records b) (ad_enrollments b)"
        unfolding b_def using table_ok_set [OF adapter_invD(3) [OF assms(1)], of r ?x] by simp
      show "checks_ok rt dp (ad_records b) (ad_enrollments b) (ad_checks b)"
        unfolding b_def using polled inr c
        by (auto intro!: checks_ok_poll [OF adapter_invD(4) [OF assms(1)] check] simp: checks_update polled_record_def)
    qed (use adapter_invD [OF assms(1)] in \<open>simp_all add: b_def\<close>)
    moreover have "fst (poll_issuance rt dp i answer now deleted a) = b"
      using check t c inr by (simp add: poll_issuance_def b_def record_at_def Let_def)
    ultimately show ?thesis by simp
  next
    case False
    then show ?thesis using check assms(1)
      by (auto simp: poll_issuance_def end_check_inv fail_poll_inv split: option.split poll_stage.split sum.split adapter_error.split)
  qed
qed

lemma poll_saved_inv:
  assumes "adapter_inv rt dp a"
  shows "adapter_inv rt dp (fst (poll_saved opts i saves now deleted a))"
proof (cases "\<exists>r stored from. map_of (ad_checks a) i = Some (r, AwaitSave stored from) \<and> \<not> (ao_vault opts \<and> \<not> saves)")
  case True
  then obtain r stored from' where t: "map_of (ad_checks a) i = Some (r, AwaitSave stored from')" "\<not> (ao_vault opts \<and> \<not> saves)"
    by blast
  have polled: "polled_record rt dp (ad_records a) (ad_enrollments a) i r (AwaitSave stored from')"
    using adapter_invD(4) [OF assms(1)] t(1) unfolding checks_ok_def by blast
  then have good: "good_stored rt dp stored" and inr: "r < length (ad_records a)" by (simp_all add: polled_record_def)
  let ?f = "\<lambda>e. e \<lparr> en_status := EnrollIssued, en_updatedAt := toISOString from' \<rparr>"
  let ?x = "?f (ad_records a ! r)"
  have persist: "persistIssuedRecord ?x = persistIssuedRecord (ad_records a ! r)"
    by (simp add: persistIssuedRecord_def split: option.split)
  define b where "b = end_check i (set_record r ?f
      ((if ao_vault opts then a \<lparr> ad_vault := Some stored \<rparr> else a) \<lparr> ad_restored := Some (Some stored) \<rparr>))"
  have "adapter_inv rt dp b"
  proof (rule adapter_invI)
    have "en_enrollmentId ?x = i \<and> good_record rt dp ?x" if "map_of (ad_enrollments a) j = Some r" for j
    proof -
      have "j = i" "intact rt (ad_records a ! r)"
        using that adapter_invD(3) [OF assms(1)] polled unfolding table_ok_def good_record_def polled_record_def by auto
      then show ?thesis using that polled good persist by (auto simp: good_record_def intact_def polled_record_def)
    qed
    then show "table_ok rt dp (ad_records b) (ad_enrollments b)"
      unfolding b_def using adapter_invD(3) [OF assms(1)] polled
      by (auto intro!: table_ok_set simp: polled_record_def)
    have "checks_ok rt dp ((ad_records a)[r := ?x]) (ad_enrollments a) (AList.delete i (ad_checks a))"
      by (rule checks_ok_poll [OF adapter_invD(4) [OF assms(1)] t(1)]) (auto simp: checks_delete)
    then show "checks_ok rt dp (ad_records b) (ad_enrollments b) (ad_checks b)" by (simp add: b_def)
  qed (use adapter_invD [OF assms(1)] good in \<open>auto simp: b_def split: if_splits\<close>)
  note cleanup_inv [OF this, of r deleted]
  moreover have "fst (poll_saved opts i saves now deleted a) = fst (cleanupProviderRecord r deleted b)"
    using t by (cases "ao_vault opts"; cases saves)
      (simp_all add: poll_saved_def b_def cleanupProviderRecord_def end_check_def set_record_def record_at_def Let_def)
  ultimately show ?thesis by simp
next
  case False
  then show ?thesis using assms
    by (auto simp: poll_saved_def fail_poll_inv split: option.split poll_stage.split)
qed

lemma load_inv:
  "adapter_inv rt dp a \<Longrightarrow> adapter_inv rt dp (fst (loadRestoredCredential opts loads a))"
  by (auto simp: loadRestoredCredential_def adapter_inv_def split: option.split)

lemma load_good:
  "adapter_inv rt dp a \<Longrightarrow> snd (loadRestoredCredential opts loads a) = Inr (Some c) \<Longrightarrow> good_stored rt dp c"
  by (auto simp: loadRestoredCredential_def adapter_inv_def split: option.splits if_splits)

lemma expire_restored_inv:
  "adapter_inv rt dp a \<Longrightarrow> adapter_inv rt dp (fst (expireRestoredCredential opts clears a))"
  by (auto simp: expireRestoredCredential_def clear_vault_def adapter_inv_def)

lemma restored_inv:
  assumes "adapter_inv rt dp a"
  shows "adapter_inv rt dp (fst (restored_unexpired dp opts now loads clears a))"
  using load_inv [OF assms, of opts loads] expire_restored_inv [of rt dp "fst (loadRestoredCredential opts loads a)" opts clears]
  by (auto simp: restored_unexpired_def split: prod.split sum.split option.split)

lemma restored_good:
  assumes "adapter_inv rt dp a" "snd (restored_unexpired dp opts now loads clears a) = Inr (Some (True, c))"
  shows "good_stored rt dp c" "\<not> reached dp now (cl_validUntil (su_claims (so_summary c)))"
  using assms(2) load_good [OF assms(1), of opts loads]
  by (auto simp: restored_unexpired_def split: prod.splits sum.splits option.splits if_splits)

text \<open>Reading an expired credential marks its record, on which no poll runs.\<close>

lemma expire_active_inv:
  assumes "adapter_inv rt dp a" "map_of (ad_enrollments a) i = Some r" "en_status (ad_records a ! r) = EnrollIssued"
  shows "adapter_inv rt dp (set_record r (expire_active now) a)"
proof -
  have free: "map_of (ad_checks a) j \<noteq> Some (r, stage)" for j stage
    using adapter_invD(4) [OF assms(1)] assms(3) unfolding checks_ok_def polled_record_def by fastforce
  have "adapter_inv rt dp (a \<lparr> ad_records := (ad_records a)[r := expire_active now (ad_records a ! r)], ad_checks := ad_checks a \<rparr>)"
    by (rule dead_inv [OF assms(1) _ _ checks_ok_free [OF adapter_invD(4) [OF assms(1)] free] refl]) (simp_all add: expire_active_def)
  then show ?thesis by (simp add: set_record_def record_at_def)
qed

lemma active_record_Some: "active_record a = Some r \<Longrightarrow> \<exists>i. map_of (ad_enrollments a) i = Some r"
  by (auto simp: active_record_def bind_eq_Some_conv)

lemma getter_inv:
  assumes "adapter_inv rt dp a"
  shows "adapter_inv rt dp (fst (getCredentialSummary dp opts now loads clears a))"
    "adapter_inv rt dp (fst (getActionAuthorization dp opts now loads clears a))"
    "adapter_inv rt dp (fst (getPrivateCredentialMaterial dp opts now loads clears a))"
proof -
  have r: "adapter_inv rt dp (set_record r (expire_active now) a)"
    if "active_record a = Some r" "en_status (record_at r a) = EnrollIssued" for r
    using active_record_Some [OF that(1)] that(2) expire_active_inv [OF assms] by (auto simp: record_at_def)
  note restored = restored_inv [OF assms, of opts now loads clears]
  show "adapter_inv rt dp (fst (getCredentialSummary dp opts now loads clears a))"
    using restored assms r unfolding getCredentialSummary_def
    by (auto simp: Let_def split: prod.split sum.split option.split)
  show "adapter_inv rt dp (fst (getActionAuthorization dp opts now loads clears a))"
    using restored assms r unfolding getActionAuthorization_def
    by (auto simp: Let_def split: prod.split sum.split option.split)
  show "adapter_inv rt dp (fst (getPrivateCredentialMaterial dp opts now loads clears a))"
    using restored assms r unfolding getPrivateCredentialMaterial_def
    by (auto simp: Let_def split: prod.split sum.split option.split)
qed

text \<open>Clearing wipes records the table no longer has.\<close>

lemma cleanup_all_inv: "adapter_inv rt dp a \<Longrightarrow> adapter_inv rt dp (fst (cleanup_all rs deleted a))"
proof (induction rs arbitrary: a)
  case (Cons r rs)
  from Cons.IH [OF cleanup_inv [OF Cons.prems, of r "deleted r"]] show ?case by (simp add: case_prod_beta)
qed simp

definition wipe_all :: "nat list \<Rightarrow> rarimo_adapter \<Rightarrow> rarimo_adapter" where
  "wipe_all rs a = fold (\<lambda>r. set_record r zeroize_record) rs a"

lemma wipe_all_select [simp]:
  "ad_restored (wipe_all rs a) = ad_restored a" "ad_vault (wipe_all rs a) = ad_vault a" "ad_checks (wipe_all rs a) = ad_checks a"
  "ad_begins (wipe_all rs a) = ad_begins a" "ad_enrollments (wipe_all rs a) = ad_enrollments a"
  by (induction rs arbitrary: a) (simp_all add: wipe_all_def)

lemma wipe_all_checks:
  "checks_ok rt dp (ad_records a) [] checks \<Longrightarrow> checks_ok rt dp (ad_records (wipe_all rs a)) [] checks"
proof (induction rs arbitrary: a)
  case (Cons r rs)
  have "checks_ok rt dp ((ad_records a)[r := zeroize_record (ad_records a ! r)]) [] checks"
    unfolding checks_ok_def
  proof (intro allI impI)
    fix i q stage
    assume "map_of checks i = Some (q, stage)"
    then have "polled_record rt dp (ad_records a) [] i q stage" using Cons.prems unfolding checks_ok_def by blast
    then show "polled_record rt dp ((ad_records a)[r := zeroize_record (ad_records a ! r)]) [] i q stage"
      by (cases "q = r") (auto simp: polled_record_def)
  qed
  from Cons.IH [of "set_record r zeroize_record a"] this show ?case by (simp add: wipe_all_def)
qed (simp add: wipe_all_def)

lemma clear_finish_inv:
  assumes "adapter_inv rt dp a"
  shows "adapter_inv rt dp (fst (clear_finish opts rs deleted clears a))"
proof -
  define b where "b = fst (cleanup_all rs deleted a)"
  have b: "adapter_inv rt dp b" unfolding b_def by (rule cleanup_all_inv [OF assms])
  have "checks_ok rt dp (ad_records b) [] (ad_checks b)"
    using adapter_invD(4) [OF b] by (auto simp: checks_ok_def polled_record_def)
  then have "adapter_inv rt dp ((wipe_all rs b) \<lparr> ad_enrollments := [], ad_active := None, ad_restored := Some None \<rparr>)"
    using adapter_invD [OF b] by (intro adapter_invI) (auto simp: table_ok_def wipe_all_checks)
  then have "adapter_inv rt dp (fst (clear_vault opts clears
      ((wipe_all rs b) \<lparr> ad_enrollments := [], ad_active := None, ad_restored := Some None \<rparr>)))"
    by (auto simp: clear_vault_def adapter_inv_def)
  then show ?thesis by (simp add: clear_finish_def b_def wipe_all_def case_prod_beta)
qed

text \<open>Enrolment.\<close>

lemma clear_for_enrollment_inv:
  assumes "adapter_inv rt dp a"
  shows "adapter_inv rt dp (fst (clear_for_enrollment opts loads deleted clears a))"
  using load_inv [OF assms, of opts loads] clear_finish_inv [OF assms]
    clear_finish_inv [of rt dp "fst (loadRestoredCredential opts loads a)"]
  by (auto simp: clear_for_enrollment_def split: prod.split sum.split option.split)

lemma new_enrollment_intact: "new_enrollment rt opts now random policy = Inr e \<Longrightarrow> intact rt e \<and> en_status e = EnrollPending"
  by (auto simp: new_enrollment_def intact_def Let_def map_err_def split: sum.splits)

lemma begin_request_inv:
  assumes "adapter_inv rt dp a"
  shows "adapter_inv rt dp (fst (begin_request rt opts session policy now random loads deleted clears a))"
proof -
  have add: "adapter_inv rt dp (b \<lparr> ad_begins := ad_begins b @ [e] \<rparr>)"
    if "adapter_inv rt dp b" "new_enrollment rt opts now random policy = Inr e" for b e
    using that(1) new_enrollment_intact [OF that(2)] by (auto simp: adapter_inv_def)
  show ?thesis
    using assms clear_for_enrollment_inv [OF assms, of opts loads deleted clears] add
    by (auto simp: begin_request_def split: sum.split prod.split)
qed

lemma set_drop_nth: "x \<in> set (drop_nth n xs) \<Longrightarrow> x \<in> set xs"
  by (auto simp: drop_nth_def dest: in_set_takeD in_set_dropD)

lemma begin_linked_inv:
  assumes "adapter_inv rt dp a" "n < length (ad_begins a)"
  shows "adapter_inv rt dp (fst (begin_linked url n answer a))"
proof -
  define e where "e = ad_begins a ! n"
  have e: "intact rt e" "en_status e = EnrollPending" using adapter_invD(5) [OF assms(1), of e] assms(2) by (simp_all add: e_def)
  have dropped: "adapter_inv rt dp (a \<lparr> ad_begins := drop_nth n (ad_begins a) \<rparr>)"
    using assms(1) by (auto simp: adapter_inv_def dest: set_drop_nth)
  have linked: "adapter_inv rt dp (a \<lparr> ad_begins := drop_nth n (ad_begins a), ad_records := ad_records a @ [e \<lparr> en_userIdHash := u \<rparr>],
      ad_enrollments := AList.update (en_enrollmentId e) (length (ad_records a)) (ad_enrollments a), ad_active := act \<rparr>)" for u act
  proof (rule adapter_invI, simp_all)
    show "table_ok rt dp (ad_records a @ [e \<lparr> en_userIdHash := u \<rparr>])
        (AList.update (en_enrollmentId e) (length (ad_records a)) (ad_enrollments a))"
      using adapter_invD(3) [OF assms(1)] e
      by (auto simp: table_ok_def checks_update nth_append good_record_def intact_def less_Suc_eq split: if_splits)
    show "checks_ok rt dp (ad_records a @ [e \<lparr> en_userIdHash := u \<rparr>])
        (AList.update (en_enrollmentId e) (length (ad_records a)) (ad_enrollments a)) (ad_checks a)"
      using adapter_invD(4) [OF assms(1)]
      by (auto simp: checks_ok_def polled_record_def checks_update nth_append less_Suc_eq)
  qed (use adapter_invD [OF assms(1)] in \<open>auto dest: set_drop_nth\<close>)
  show ?thesis
    using dropped linked by (auto simp: begin_linked_def e_def Let_def split: option.split sum.split)
qed

lemma adapter_step_inv:
  assumes "adapter_inv rt dp a" "adapter_event_ok rt dp event"
  shows "adapter_inv rt dp (adapter_step rt dp url opts event a)"
proof (cases event)
  case (ClearStart)
  then show ?thesis using assms(1) by (simp add: adapter_inv_def)
next
  case (ClearFinish n deleted clears)
  have "adapter_inv rt dp (a \<lparr> ad_clears := drop_nth n (ad_clears a) \<rparr>)" using assms(1) by (simp add: adapter_inv_def)
  then show ?thesis using ClearFinish assms(1) by (simp add: clear_finish_inv)
qed (use assms in \<open>simp_all add: begin_request_inv begin_linked_inv poll_start_inv poll_status_inv poll_evidence_inv
    poll_issuance_inv poll_saved_inv getter_inv\<close>)

lemma adapter_run_inv:
  "adapter_inv rt dp a \<Longrightarrow> \<forall>ev \<in> set events. adapter_event_ok rt dp ev \<Longrightarrow> adapter_inv rt dp (adapter_run rt dp url opts events a)"
  by (induction events arbitrary: a) (simp_all add: adapter_run_def adapter_step_inv)

lemma fresh_adapter_inv: "(\<forall>c. vault = Some c \<longrightarrow> good_stored rt dp c) \<Longrightarrow> adapter_inv rt dp (fresh_adapter vault)"
  by (simp add: adapter_inv_def fresh_adapter_def table_ok_def checks_ok_def)

section \<open>How enrolments move\<close>

definition enrollment_move :: "EnrollmentStatus \<Rightarrow> EnrollmentStatus \<Rightarrow> bool" where
  "enrollment_move s t = (s = t \<or> (s = EnrollPending \<and> t \<noteq> EnrollRevoked) \<or> (s = EnrollIssued \<and> t = EnrollExpired))"

definition advances :: "rarimo_adapter \<Rightarrow> rarimo_adapter \<Rightarrow> bool" where
  "advances a b = (length (ad_records a) \<le> length (ad_records b)
     \<and> (\<forall>r < length (ad_records a). enrollment_move (en_status (ad_records a ! r)) (en_status (ad_records b ! r))))"

lemma enrollment_move_refl [simp]: "enrollment_move s s"
  by (simp add: enrollment_move_def)

lemma enrollment_move_trans: "enrollment_move s t \<Longrightarrow> enrollment_move t u \<Longrightarrow> enrollment_move s u"
  by (auto simp: enrollment_move_def)

lemma advances_trans: "advances a b \<Longrightarrow> advances b c \<Longrightarrow> advances a c"
  unfolding advances_def using enrollment_move_trans by (meson le_trans less_le_trans)

lemma advances_same: "map en_status (ad_records b) = map en_status (ad_records a) \<Longrightarrow> advances a b"
  by (auto simp: advances_def enrollment_move_def list_eq_iff_nth_eq)

lemma advances_refl [simp]: "advances a a"
  by (simp add: advances_same)

lemma advances_set:
  "enrollment_move (en_status (ad_records a ! r)) (en_status (f (ad_records a ! r))) \<Longrightarrow> advances a (set_record r f a)"
  by (cases "r < length (ad_records a)")
    (auto simp: advances_def nth_list_update list_update_beyond)

lemma advances_frame:
  "ad_records a' = ad_records a \<Longrightarrow> ad_records b' = ad_records b \<Longrightarrow> advances a b \<Longrightarrow> advances a' b'"
  by (simp add: advances_def)

lemma advances_cleanup: "advances a (fst (cleanupProviderRecord r deleted a))"
  by (auto simp: cleanupProviderRecord_def enrollment_move_def intro: advances_set)

lemma polled_pending:
  "adapter_inv rt dp a \<Longrightarrow> map_of (ad_checks a) i = Some (r, stage) \<Longrightarrow> en_status (ad_records a ! r) = EnrollPending"
  using adapter_invD(4) unfolding checks_ok_def polled_record_def by blast

lemma advances_fail_poll:
  assumes "en_status (ad_records a ! r) = EnrollPending"
  shows "advances a (fst (fail_poll i r now deleted a))"
proof -
  have "advances a (set_record r (failRecord now) a)"
    by (rule advances_set) (simp add: assms failRecord_def enrollment_move_def)
  from advances_trans [OF this advances_cleanup [of _ r deleted]] show ?thesis
    by (rule advances_frame [rotated 2]) (simp_all add: fail_poll_def failAndCleanup_def Let_def)
qed

lemma advances_checks [simp]: "advances a (end_check i b) = advances a b" "advances a (set_check i r s b) = advances a b"
  by (simp_all add: advances_def)

lemma advances_poll_start: "advances a (fst (poll_start dp i now deleted a))"
proof -
  have "advances a (fst (expireRecord r now deleted a))" if "\<not> isTerminal (en_status (record_at r a))" for r
  proof -
    let ?f = "\<lambda>e. e \<lparr> en_status := EnrollExpired, en_updatedAt := toISOString now \<rparr>"
    have "advances a (set_record r ?f a)"
      by (rule advances_set) (use that in \<open>cases "en_status (ad_records a ! r)"; simp add: isTerminal_def record_at_def enrollment_move_def\<close>)
    from advances_trans [OF this advances_cleanup [of _ r deleted]]
    have "advances a (fst (cleanupProviderRecord r deleted (set_record r ?f a)))" .
    moreover have "advances b (set_record r zeroize_holder b)" for b by (rule advances_set) (simp add: enrollment_move_def)
    ultimately show ?thesis
      unfolding expireRecord_def case_prod_beta fst_conv by (rule advances_trans)
  qed
  then show ?thesis by (auto simp: poll_start_def case_prod_beta split: option.split)
qed

lemma advances_polls:
  assumes "adapter_inv rt dp a"
  shows "advances a (fst (poll_status i sa now deleted a))" "advances a (fst (poll_evidence opts i ea now deleted a))"
    "advances a (fst (poll_issuance rt dp i ia now deleted a))" "advances a (fst (poll_saved opts i saves now deleted a))"
proof -
  note pending = polled_pending [OF assms]
  have same: "advances a (set_record r f a)" if "\<And>e. en_status (f e) = en_status e" for r f
    by (rule advances_set) (simp add: that enrollment_move_def)
  show "advances a (fst (poll_status i sa now deleted a))"
    by (auto simp: poll_status_def Let_def same advances_fail_poll pending split: option.split poll_stage.split rarimo_status.split)
  show "advances a (fst (poll_evidence opts i ea now deleted a))"
    by (auto simp: poll_evidence_def advances_fail_poll pending split: option.split poll_stage.split sum.split)
  show "advances a (fst (poll_issuance rt dp i ia now deleted a))"
    by (auto simp: poll_issuance_def Let_def same advances_fail_poll pending
        split: option.split poll_stage.split sum.split adapter_error.split)
  have "advances a (set_record r (\<lambda>e. e \<lparr> en_status := EnrollIssued, en_updatedAt := t \<rparr>) b)"
    if "map_of (ad_checks a) i = Some (r, stage)" "ad_records b = ad_records a" for r stage t b
    using pending [OF that(1)] advances_set [of b r "\<lambda>e. e \<lparr> en_status := EnrollIssued, en_updatedAt := t \<rparr>"] that(2)
    by (simp add: enrollment_move_def advances_def)
  then show "advances a (fst (poll_saved opts i saves now deleted a))"
    by (auto simp: poll_saved_def Let_def advances_fail_poll pending split: option.split poll_stage.split
        intro!: advances_trans [OF _ advances_cleanup])
qed

lemma advances_load: "ad_records (fst (loadRestoredCredential opts loads a)) = ad_records a"
  by (simp add: loadRestoredCredential_def split: option.split)

lemma advances_restored: "ad_records (fst (restored_unexpired dp opts now loads clears a)) = ad_records a"
  using advances_load [of opts loads a]
  by (auto simp: restored_unexpired_def expireRestoredCredential_def clear_vault_def split: prod.split sum.split option.split)

lemma advances_getters:
  "advances a (fst (getCredentialSummary dp opts now loads clears a))"
  "advances a (fst (getActionAuthorization dp opts now loads clears a))"
  "advances a (fst (getPrivateCredentialMaterial dp opts now loads clears a))"
proof -
  have e: "advances a (set_record r (expire_active now) a)" if "en_status (record_at r a) = EnrollIssued" for r
    by (rule advances_set) (use that in \<open>simp add: expire_active_def record_at_def enrollment_move_def\<close>)
  have r: "advances a (fst (restored_unexpired dp opts now loads clears a))"
    by (rule advances_same) (simp add: advances_restored)
  show "advances a (fst (getCredentialSummary dp opts now loads clears a))"
    using r e by (auto simp: getCredentialSummary_def Let_def split: prod.split sum.split option.split)
  show "advances a (fst (getActionAuthorization dp opts now loads clears a))"
    using r e by (auto simp: getActionAuthorization_def Let_def split: prod.split sum.split option.split)
  show "advances a (fst (getPrivateCredentialMaterial dp opts now loads clears a))"
    using r e by (auto simp: getPrivateCredentialMaterial_def Let_def split: prod.split sum.split option.split)
qed

lemma advances_clear: "advances a (fst (clear_finish opts rs deleted clears a))"
proof -
  have c: "advances b (fst (cleanup_all rs deleted b))" for b
  proof (induction rs arbitrary: b)
    case (Cons r rs)
    show ?case using advances_trans [OF advances_cleanup [of b r "deleted r"] Cons.IH] by (simp add: case_prod_beta)
  qed simp
  have w: "advances b (wipe_all rs b)" for b
  proof (induction rs arbitrary: b)
    case (Cons r rs)
    have "advances b (set_record r zeroize_record b)" by (rule advances_set) (simp add: enrollment_move_def)
    from advances_trans [OF this Cons.IH] show ?case by (simp add: wipe_all_def)
  qed (simp add: wipe_all_def)
  from advances_trans [OF c w] have "advances a (wipe_all rs (fst (cleanup_all rs deleted a)))" .
  then show ?thesis by (simp add: clear_finish_def clear_vault_def wipe_all_def case_prod_beta advances_def)
qed

lemma advances_begin: "advances a (fst (begin_request rt opts session policy now random loads deleted clears a))"
proof -
  have "advances a (fst (clear_for_enrollment opts loads deleted clears a))"
    using advances_clear [of "fst (loadRestoredCredential opts loads a)"] advances_clear [of a]
      advances_same [of "fst (loadRestoredCredential opts loads a)" a]
    by (auto simp: clear_for_enrollment_def advances_load split: prod.split sum.split option.split intro: advances_trans)
  then show ?thesis by (auto simp: begin_request_def advances_def split: sum.split prod.split)
qed

lemma advances_step:
  assumes "adapter_inv rt dp a"
  shows "advances a (adapter_step rt dp url opts event a)"
proof (cases event)
  case (BeginLinked n answer)
  then show ?thesis
    by (auto simp: begin_linked_def Let_def advances_def nth_append enrollment_move_def split: option.split sum.split)
next
  case (ClearFinish n deleted clears)
  then show ?thesis using advances_clear [of "a \<lparr> ad_clears := drop_nth n (ad_clears a) \<rparr>"] by (auto simp: advances_def enrollment_move_def)
qed (use advances_begin advances_poll_start advances_polls [OF assms] advances_getters in \<open>simp_all add: advances_same\<close>)

lemma advances_run:
  "adapter_inv rt dp a \<Longrightarrow> \<forall>ev \<in> set events. adapter_event_ok rt dp ev \<Longrightarrow> advances a (adapter_run rt dp url opts events a)"
proof (induction events arbitrary: a)
  case (Cons ev events)
  have "adapter_inv rt dp (adapter_step rt dp url opts ev a)" using Cons.prems by (simp add: adapter_step_inv)
  from Cons.IH [OF this] Cons.prems(2) show ?case
    using advances_trans [OF advances_step [OF Cons.prems(1)]] by (simp add: adapter_run_def)
qed (simp add: adapter_run_def)

section \<open>Properties\<close>




text \<open>
  A clearing can be overtaken. A user clears the credential while its poll is writing
  it to the vault: when the write ends, the cleared credential is back in the vault and
  in memory, and the adapter hands out its material as if nothing had been cleared.
\<close>

theorem clearing_can_be_overtaken:
  assumes "map_of (ad_checks a) i = Some (r, AwaitSave stored from)" "r < length (ad_records a)"
    and "clear_finish opts (clear_start a) deleted True a = (b, Inr ())"
    and "c = fst (poll_saved opts i True now cleaned b)"
    and "\<not> reached dp later (cl_validUntil (su_claims (so_summary stored)))"
  shows "ad_enrollments b = [] \<and> ad_restored b = Some None \<and> (ao_vault opts \<longrightarrow> ad_vault b = None)
    \<and> snd (getPrivateCredentialMaterial dp opts earlier loads clears b) = Inr None
    \<and> (ao_vault opts \<longrightarrow> ad_vault c = Some stored)
    \<and> snd (getPrivateCredentialMaterial dp opts later loads clears c) = Inr (Some (so_material stored))"
proof -
  have checks: "ad_checks (fst (cleanup_all rs deleted x)) = ad_checks x" for rs x
  proof (induction rs arbitrary: x)
    case (Cons r rs)
    from Cons.IH [of "fst (cleanupProviderRecord r (deleted r) x)"] show ?case
      by (simp add: case_prod_beta cleanupProviderRecord_def)
  qed simp
  define w where "w = wipe_all (clear_start a) (fst (cleanup_all (clear_start a) deleted a))"
  have b: "b = fst (clear_vault opts True (w \<lparr> ad_enrollments := [], ad_active := None, ad_restored := Some None \<rparr>))"
    using assms(3) by (auto simp: clear_finish_def w_def wipe_all_def case_prod_beta split: if_splits)
  have "ad_checks b = ad_checks a" using b checks by (simp add: clear_vault_def w_def)
  then have c: "ad_active c = ad_active b" "ad_restored c = Some (Some stored)" "ao_vault opts \<longrightarrow> ad_vault c = Some stored"
    using assms(1,4) by (auto simp: poll_saved_def cleanupProviderRecord_def end_check_def set_record_def Let_def)
  have "ad_enrollments b = []" "ad_restored b = Some None" "ao_vault opts \<longrightarrow> ad_vault b = None" "ad_active b = None"
    using b by (simp_all add: clear_vault_def)
  then show ?thesis using c assms(5)
    by (simp add: getPrivateCredentialMaterial_def restored_unexpired_def loadRestoredCredential_def)
qed

section \<open>A sample enrolment\<close>

definition echo_runtime :: compact_runtime where
  "echo_runtime = rarimo_runtime \<lparr> persistentCommit := \<lambda>xs blind. xs ! 1 \<rparr>"

definition browser_options :: adapter_options where
  "browser_options = \<lparr> ao_issuerId = ''is'', ao_credentialEpoch = 1, ao_fromAlpha3 = (\<lambda>_. Some ''032''), ao_toAlpha3 = (\<lambda>_. Some ''ARG''),
     ao_uniquenessTimestampUpperBound = 7, ao_enrollmentTtlMs = 600000, ao_credentialTtlMs = 60000, ao_vault = True \<rparr>"

definition browser_clock :: "string \<Rightarrow> int option" where
  "browser_clock s = (if s = toISOString 1000 then Some 1000 else if s = toISOString 61000 then Some 61000
     else if s = toISOString 600000 then Some 600000 else None)"

definition browser_entropy :: enrollment_entropy where
  "browser_entropy = \<lparr> ee_enrollmentId = replicate 16 (CHR ''a''), ee_requestId = replicate 16 (CHR ''b''),
     ee_holderSecret = replicate 32 (CHR ''s''), ee_holderBlind = replicate 32 (CHR ''t''), ee_eventId = replicate 31 (char_of (0 :: nat)) \<rparr>"

definition browser_id :: string where
  "browser_id = bytesToHex (replicate 16 (CHR ''a''))"

definition browser_link :: verification_link where
  "browser_link = \<lparr> vl_requestId = bytesToHex (replicate 16 (CHR ''b'')), vl_userIdHash = ''u'',
     vl_proofParamsUrl = ''https://verifier/p/u'', vl_proofRequestUrl = ''https://verifier/p/u'' \<rparr>"

definition browser_request :: verification_request where
  "browser_request = \<lparr> vq_requestId = bytesToHex (replicate 16 (CHR ''b'')), vq_eventId = ''1'',
     vq_eventData = ''0x'' @ replicate 62 (CHR ''0''), vq_eventDataDecimal = ''0'', vq_selector = ''6689'', vq_citizenshipMask = None,
     vq_birthDateLowerBound = no_birth_date, vq_birthDateUpperBound = no_birth_date, vq_identityCounterLowerBound = ''0'',
     vq_identityCounterUpperBound = ''1'', vq_expirationDateLowerBound = ''0x373030313031'', vq_expirationDateUpperBound = no_birth_date,
     vq_timestampLowerBound = ''0'', vq_timestampUpperBound = ''7'' \<rparr>"

definition browser_draft :: enrollment_record where
  "browser_draft = \<lparr> en_enrollmentId = browser_id, en_requestId = vq_requestId browser_request, en_userIdHash = [],
     en_holderSecret = replicate 32 (CHR ''s''), en_holderBlind = replicate 32 (CHR ''t''), en_holderBinding = replicate 32 (CHR ''s''),
     en_createdAt = toISOString 0, en_expiresAt = toISOString 600000, en_request = browser_request, en_policy = None,
     en_status = EnrollPending, en_updatedAt = toISOString 0, en_summary = None, en_credentialBlind = None, en_credentialLeaf = None,
     en_actionAuthorizationHandle = None, en_proofFingerprint = None, en_cleanupRequested = False \<rparr>"

definition browser_record :: enrollment_record where
  "browser_record = browser_draft \<lparr> en_userIdHash := ''u'' \<rparr>"

definition browser_evidence :: verified_evidence where
  "browser_evidence = \<lparr> ve_requestId = vq_requestId browser_request, ve_userIdHash = ''u'',
       ve_evidenceAuthorization = evidence_prefix @ replicate 64 (CHR ''a''),
       ve_evidenceFingerprint = replicate 64 (CHR ''a''), ve_eventId = ''1'', ve_eventDataDecimal = ''0'',
       ve_selector = ''6689'', ve_timestampUpperBound = ''7'', ve_identityCounterUpperBound = ''1'',
       ve_birthDateUpperBound = bound_decimal no_birth_date,
       ve_expirationDateLowerBound = bound_decimal ''0x373030313031'', ve_citizenshipAlpha3 = ''ARG'',
       ve_adultPredicateSatisfied = True \<rparr>"

definition browser_claims :: credential_claims where
  "browser_claims = \<lparr> cl_issuerId = ''is'', cl_country = ''032'', cl_ageClass = AgeUnknown, cl_assurance = DocumentNfc,
     cl_credentialEpoch = 1, cl_validFrom = toISOString 1000, cl_validUntil = toISOString 61000 \<rparr>"

definition browser_issuance :: issuance_result where
  "browser_issuance = \<lparr> ir_issuanceId = ''i'', ir_credentialBlind = replicate 32 (CHR ''r''), ir_credentialLeaf = replicate 32 (CHR ''s''),
     ir_receipt = sample_receipt \<lparr> r_action := Credential, r_circuit := ''addCredential'', r_network := Preview \<rparr> \<rparr>"

definition browser_stored :: stored_credential where
  "browser_stored = \<lparr> so_summary = \<lparr> su_provider = RarimoProvider, su_status = EnrollIssued, su_claims = browser_claims \<rparr>,
     so_handle = ''i'', so_material = \<lparr> pm_voterSecret = replicate 32 (CHR ''s''), pm_holderBlind = replicate 32 (CHR ''t''),
       pm_holderBinding = replicate 32 (CHR ''s''), pm_credentialBlind = replicate 32 (CHR ''r''),
       pm_credentialLeaf = replicate 32 (CHR ''s''), pm_claims = browser_claims \<rparr> \<rparr>"

definition browser_saving :: "adapter_event list" where
  "browser_saving = [BeginRequest (Some SessionConnected) None 0 browser_entropy True (\<lambda>_. True) True, BeginLinked 0 (Some browser_link),
     PollStart browser_id 1000 True, PollStatus browser_id (Some Verified) 1000 True,
     PollEvidence browser_id (Some (Some browser_evidence)) 1000 True, PollIssuance browser_id (Some browser_issuance) 1000 True]"

text \<open>The adapter while its poll is at a stage, with the record as it is then.\<close>

definition browser_at :: "enrollment_record \<Rightarrow> poll_stage \<Rightarrow> rarimo_adapter" where
  "browser_at e stage = \<lparr> ad_records = [e], ad_enrollments = [(browser_id, 0)], ad_active = Some browser_id, ad_restored = Some None,
     ad_vault = None, ad_checks = [(browser_id, 0, stage)], ad_begins = [], ad_clears = [] \<rparr>"

lemma browser_drafted: "new_enrollment echo_runtime browser_options 0 browser_entropy None = Inr browser_draft"
proof -
  have "deriveHolderBinding echo_runtime (replicate 32 (CHR ''s'')) (replicate 32 (CHR ''t'')) = Inr (replicate 32 (CHR ''s''))"
      "deriveRarimoIssuanceEventData echo_runtime browser_id (replicate 32 (CHR ''s'')) = Inr (replicate 31 (char_of (0 :: nat)))"
      "bytesToPositiveFieldDecimal (replicate 31 (char_of (0 :: nat))) = ''1''" "show_nat (query_selector False) = ''6689''"
      "show_int 7 = ''7''" "asciiDateHex 0 = ''0x373030313031''" "show_nat 0 = ''0''"
    by code_simp+
  then show ?thesis
    by (simp add: new_enrollment_def buildVerificationRequest_def browser_entropy_def browser_options_def browser_draft_def
        browser_request_def browser_id_def requires_adult_def citizenship_mask_def bytesToBigInt_def rarimo_zeros map_err_def Let_def)
qed

lemma browser_ids: "browser_id \<noteq> []" "en_enrollmentId browser_record = browser_id" "en_status browser_record = EnrollPending"
    "en_holderBinding browser_record = replicate 32 (CHR ''s'')" "en_expiresAt browser_record = toISOString 600000"
    "\<not> en_cleanupRequested browser_record"
  by (simp_all add: browser_record_def browser_draft_def browser_id_def bytesToHex_def byte_hex_def)

lemma browser_bounds: "browser_clock (toISOString 61000) = Some 61000" "browser_clock (toISOString 600000) = Some 600000"
    "browser_clock (toISOString 1000) = Some 1000"
  by code_simp+

lemma browser_begun:
  "adapter_step echo_runtime browser_clock rarimo_url browser_options (BeginRequest (Some SessionConnected) None 0 browser_entropy True
      (\<lambda>_. True) True) (fresh_adapter None)
     = (fresh_adapter None) \<lparr> ad_restored := Some None, ad_begins := [browser_draft] \<rparr>"
  by (simp add: begin_request_def assertConnectedPassportSession_def assertPolicyCanBeRequested_def clear_for_enrollment_def
      loadRestoredCredential_def fresh_adapter_def browser_drafted)

lemma browser_linked:
  "adapter_step echo_runtime browser_clock rarimo_url browser_options (PollStart browser_id 1000 True)
     (adapter_step echo_runtime browser_clock rarimo_url browser_options (BeginLinked 0 (Some browser_link))
       ((fresh_adapter None) \<lparr> ad_restored := Some None, ad_begins := [browser_draft] \<rparr>))
   = browser_at browser_record AwaitStatus"
proof -
  have "trim ''u'' \<noteq> []" by code_simp
  then have "validateVerificationLink rarimo_url browser_link (en_requestId browser_draft) = Inr ()"
    by (simp add: validateVerificationLink_def rarimo_url_def browser_link_def browser_draft_def browser_request_def)
  moreover have "en_enrollmentId browser_draft = browser_id" by (simp add: browser_draft_def)
  ultimately show ?thesis
    using browser_ids
    by (simp add: begin_linked_def fresh_adapter_def drop_nth_def poll_start_def browser_at_def record_at_def set_check_def
        browser_record_def browser_link_def isTerminal_def reached_def browser_bounds Let_def)
qed

lemma browser_claimed:
  "enrollment_claims browser_options 1000 browser_record browser_evidence = Inr (1000, browser_claims)"
proof -
  have "trim (evidence_prefix @ replicate 64 (CHR ''a'')) \<noteq> []" "is_hex64 (replicate 64 (CHR ''a''))" by code_simp+
  then have "validateEvidenceBinding browser_record browser_evidence = Inr ()"
    by (simp add: validateEvidenceBinding_def browser_record_def browser_draft_def browser_request_def browser_evidence_def)
  then show ?thesis
    by (simp add: enrollment_claims_def deriveClaims_def browser_options_def browser_evidence_def browser_record_def browser_draft_def
        browser_request_def browser_claims_def)
qed

lemma browser_validated:
  "validateIssuance echo_runtime browser_clock browser_issuance (replicate 32 (CHR ''s'')) browser_claims = Inr ()"
proof -
  have "deriveCredentialLeaf echo_runtime browser_clock (replicate 32 (CHR ''s'')) browser_claims (replicate 32 (CHR ''r''))
      = Inr (replicate 32 (CHR ''s''))" by code_simp
  moreover have "trim ''i'' \<noteq> []" by code_simp
  ultimately show ?thesis by (simp add: validateIssuance_def browser_issuance_def map_err_def Let_def)
qed

lemma browser_waits:
  "adapter_run echo_runtime browser_clock rarimo_url browser_options browser_saving (fresh_adapter None)
     = browser_at (issued_record browser_issuance browser_evidence browser_claims browser_record) (AwaitSave browser_stored 1000)"
proof -
  let ?x = "issued_record browser_issuance browser_evidence browser_claims browser_record"
  have "persistIssuedRecord ?x = Some browser_stored"
    by (simp add: persistIssuedRecord_def issued_record_def browser_issuance_def browser_record_def browser_draft_def browser_stored_def)
  then have issuance: "fst (poll_issuance echo_runtime browser_clock browser_id (Some browser_issuance) 1000 True
      (browser_at browser_record (AwaitIssuance browser_evidence 1000 browser_claims))) = browser_at ?x (AwaitSave browser_stored 1000)"
    using browser_validated browser_ids(4)
    by (simp add: poll_issuance_def browser_at_def record_at_def set_record_def set_check_def Let_def)
  have evidence: "fst (poll_evidence browser_options browser_id (Some (Some browser_evidence)) 1000 True (browser_at browser_record AwaitEvidence))
      = browser_at browser_record (AwaitIssuance browser_evidence 1000 browser_claims)"
    using browser_claimed by (simp add: poll_evidence_def browser_at_def record_at_def set_check_def)
  have status: "fst (poll_status browser_id (Some Verified) 1000 True (browser_at browser_record AwaitStatus))
      = browser_at browser_record AwaitEvidence"
    by (simp add: poll_status_def browser_at_def set_check_def)
  show ?thesis
    unfolding adapter_run_def browser_saving_def fold_simps o_apply browser_begun browser_linked id_apply
    by (simp add: status evidence issuance)
qed

lemma echo_leaf: "deriveCredentialLeaf echo_runtime dp binding claims blind = Inr leaf \<Longrightarrow> leaf = binding"
  by (auto simp: deriveCredentialLeaf_def deriveRawCredentialLeaf_def echo_runtime_def)

lemma browser_events_ok: "\<forall>ev \<in> set (browser_saving @ [PollSaved browser_id True 1000 True]). adapter_event_ok echo_runtime browser_clock ev"
proof -
  have "replicate 32 (CHR ''s'') \<noteq> replicate 32 (char_of (0 :: nat))" by code_simp
  then have "deriveCredentialLeaf echo_runtime browser_clock (replicate 32 (char_of (0 :: nat))) claims blind \<noteq> Inr (replicate 32 (CHR ''s''))"
    for claims blind using echo_leaf by metis
  then show ?thesis by (simp add: browser_saving_def browser_issuance_def)
qed

definition browser_issued :: rarimo_adapter where
  "browser_issued = fst (poll_saved browser_options browser_id True 1000 True
     (browser_at (issued_record browser_issuance browser_evidence browser_claims browser_record) (AwaitSave browser_stored 1000)))"

lemma browser_run:
  "adapter_run echo_runtime browser_clock rarimo_url browser_options (browser_saving @ [PollSaved browser_id True 1000 True])
     (fresh_adapter None) = browser_issued"
  using browser_waits by (simp add: adapter_run_def browser_issued_def)

lemma browser_material:
  "snd (getPrivateCredentialMaterial browser_clock browser_options 2000 True True browser_issued) = Inr (Some (so_material browser_stored))"
proof -
  let ?e = "issued_record browser_issuance browser_evidence browser_claims browser_record"
  have "ad_active browser_issued = Some browser_id" "active_record browser_issued = Some 0"
      "record_at 0 browser_issued = ?e \<lparr> en_status := EnrollIssued, en_updatedAt := toISOString 1000, en_cleanupRequested := True \<rparr>"
    by (simp_all add: browser_issued_def poll_saved_def browser_at_def browser_options_def cleanupProviderRecord_def record_at_def
        set_record_def end_check_def active_record_def issued_record_def browser_ids Let_def)
  moreover have "\<not> reached browser_clock 2000 (cl_validUntil browser_claims)"
    by (simp add: reached_def browser_claims_def browser_bounds)
  ultimately show ?thesis using browser_ids(1)
    by (simp add: getPrivateCredentialMaterial_def issued_record_def browser_stored_def browser_issuance_def browser_record_def
        browser_draft_def Let_def)
qed




theorem clearing_can_be_overtaken_witness:
  "\<exists>b. snd (getPrivateCredentialMaterial browser_clock browser_options 1500 True True b) = Inr None
     \<and> snd (getPrivateCredentialMaterial browser_clock browser_options 2000 True True
         (fst (poll_saved browser_options browser_id True 1600 True b))) = Inr (Some (so_material browser_stored))"
proof -
  let ?e = "issued_record browser_issuance browser_evidence browser_claims browser_record"
  let ?a = "browser_at ?e (AwaitSave browser_stored 1000)"
  have a: "map_of (ad_checks ?a) browser_id = Some (0, AwaitSave browser_stored 1000)" "0 < length (ad_records ?a)"
    by (simp_all add: browser_at_def)
  have "snd (clear_finish browser_options (clear_start ?a) (\<lambda>_. True) True ?a) = Inr ()"
    by (simp add: clear_finish_def clear_start_def browser_at_def cleanupProviderRecord_def clear_vault_def browser_options_def case_prod_beta)
  then obtain b where b: "clear_finish browser_options (clear_start ?a) (\<lambda>_. True) True ?a = (b, Inr ())"
    by (metis prod.collapse)
  have "\<not> reached browser_clock 2000 (cl_validUntil (su_claims (so_summary browser_stored)))"
    by (simp add: reached_def browser_stored_def browser_claims_def browser_bounds)
  from clearing_can_be_overtaken [OF a b refl this, where now = 1600 and cleaned = True and earlier = 1500 and loads = True
      and clears = True] show ?thesis by blast
qed

section \<open>An honest enrolment\<close>

lemma hex_not_control: "any_hex c \<Longrightarrow> \<not> (of_char c :: nat) < 32 \<and> (of_char c :: nat) \<noteq> 127"
  by (auto simp: any_hex_def Let_def)

lemma hex_clean: "list_all any_hex s \<Longrightarrow> \<not> hasControlCharacter s"
  using hex_not_control by (auto simp: hasControlCharacter_def list_all_iff list_ex_iff)

lemma digits_any_hex: "list_all is_digit s \<Longrightarrow> list_all any_hex s"
  by (auto simp: list_all_iff is_digit_def any_hex_def Let_def)

lemma show_nat_clean: "\<not> hasControlCharacter (show_nat n)" "decimal_text (show_nat n)"
  using hex_clean [OF digits_any_hex [OF show_nat_digits]] show_nat_digits show_nat_no_leading_zero
  by (auto simp: decimal_text_def)

lemma bytesToHex_any: "list_all any_hex (bytesToHex bs)"
  using bytesToHex_lower by (auto simp: list_all_iff lower_hex_def any_hex_def Let_def)

definition clean_hex :: "string \<Rightarrow> bool" where
  "clean_hex s = (s \<noteq> [] \<and> \<not> hasControlCharacter s \<and> hex_literal s)"

lemma literal_clean: "bs \<noteq> [] \<Longrightarrow> clean_hex (''0x'' @ bytesToHex bs)"
proof -
  assume "bs \<noteq> []"
  then have "bytesToHex bs \<noteq> []" by (cases bs) (simp_all add: bytesToHex_def byte_hex_def Let_def)
  moreover have "\<not> hasControlCharacter (''0x'' @ bytesToHex bs)"
    using hex_clean [OF bytesToHex_any [of bs]] by (simp add: hasControlCharacter_def)
  moreover have "toLowerCase ''0x'' = ''0x''" by code_simp
  ultimately show ?thesis using bytesToHex_any [of bs] by (simp add: clean_hex_def hex_literal_def numeral_2_eq_2)
qed

lemma pad_nonempty: "pad w n \<noteq> []"
  by (simp add: pad_def Let_def)

lemma asciiDateHex_clean: "clean_hex (asciiDateHex t)"
  using literal_clean pad_nonempty by (simp add: asciiDateHex_def split: prod.split)

lemma no_birth_date_clean: "clean_hex no_birth_date"
proof -
  have "no_birth_date = ''0x'' @ bytesToHex ''000000''" by code_simp
  then show ?thesis using literal_clean [of "''000000''"] by simp
qed

lemma clean_decimal: "clean_hex s \<Longrightarrow> hexToDecimal s = Some (bound_decimal s)"
  by (simp add: clean_hex_def hexToDecimal_def bound_decimal_def)

text \<open>A real date is not the date of zeros.\<close>

lemma pad_two: "0 \<le> n \<Longrightarrow> n < 100 \<Longrightarrow> length (pad 2 n) = 2"
  by (auto simp: pad_def Let_def show_nat.simps [of "nat n"] show_nat.simps [of "nat n div 10"])

lemma pad_zero: "pad w n = replicate k (CHR ''0'') \<Longrightarrow> 0 \<le> n \<Longrightarrow> n = 0"
proof -
  assume p: "pad w n = replicate k (CHR ''0'')" and n: "0 \<le> n"
  have "set (show_nat (nat n)) \<subseteq> {CHR ''0''}"
  proof
    fix c
    assume "c \<in> set (show_nat (nat n))"
    then have "c \<in> set (pad w n)" by (simp add: pad_def Let_def)
    then show "c \<in> {CHR ''0''}" using p by (simp split: if_splits)
  qed
  then have "show_nat (nat n) = ''0''"
    using show_nat_no_leading_zero [of "nat n"] by (cases "show_nat (nat n)") auto
  then have "read_nat (show_nat (nat n)) = read_nat ''0''" by simp
  moreover have "read_nat ''0'' = 0" by code_simp
  ultimately show "n = 0" using n by simp
qed

lemma asciiDateHex_real: "asciiDateHex t \<noteq> no_birth_date"
proof
  assume a: "asciiDateHex t = no_birth_date"
  obtain y m d where f: "utc_fields t = (y, m, d)" by (cases rule: prod_cases3)
  have z: "no_birth_date = ''0x'' @ bytesToHex ''000000''" by code_simp
  have "bytesToHex (pad 2 (y mod 100) @ pad 2 (int m + 1) @ pad 2 d) = bytesToHex ''000000''"
    using a unfolding asciiDateHex_def f z prod.case same_append_eq .
  then have e: "pad 2 (y mod 100) @ pad 2 (int m + 1) @ pad 2 d = ''000000''" by (metis bytesFromHex_bytesToHex)
  have "m < 12" using f make_day_fields(2) by (simp add: utc_fields_def)
  then have "length (pad 2 (y mod 100)) = 2" "length (pad 2 (int m + 1)) = 2" by (simp_all add: pad_two)
  then have "pad 2 (int m + 1) = take 2 (drop 2 (pad 2 (y mod 100) @ pad 2 (int m + 1) @ pad 2 d))" by simp
  then have "pad 2 (int m + 1) = replicate 2 (CHR ''0'')" unfolding e by (simp add: numeral_2_eq_2)
  then show False using pad_zero [of 2 "int m + 1" 2] by simp
qed

definition clean_decimal_text :: "string \<Rightarrow> bool" where
  "clean_decimal_text s = (s \<noteq> [] \<and> \<not> hasControlCharacter s \<and> decimal_text s)"

lemma show_nat_clean_decimal [simp]: "clean_decimal_text (show_nat n)"
  by (simp add: clean_decimal_text_def show_nat_clean)

lemma enrollment_fields:
  assumes "new_enrollment rt opts created random policy = Inr e"
  shows "\<exists>eventData. deriveRarimoIssuanceEventData rt (en_enrollmentId e) (en_holderBinding e) = Inr eventData
    \<and> vq_eventData (en_request e) = ''0x'' @ bytesToHex eventData
    \<and> vq_eventDataDecimal (en_request e) = show_nat (read_hex (bytesToHex eventData))"
    and "en_requestId e = bytesToHex (ee_requestId random)" "en_policy e = policy"
    "vq_requestId (en_request e) = bytesToHex (ee_requestId random)"
    "clean_decimal_text (vq_eventId (en_request e))" "clean_decimal_text (vq_selector (en_request e))"
    "vq_citizenshipMask (en_request e) = citizenship_mask (ao_toAlpha3 opts) policy"
    "vq_birthDateLowerBound (en_request e) = no_birth_date"
    "vq_birthDateUpperBound (en_request e) = (if requires_adult policy then asciiDateHex (ageThresholdDate created 18) else no_birth_date)"
    "vq_identityCounterLowerBound (en_request e) = ''0''" "vq_identityCounterUpperBound (en_request e) = ''1''"
    "vq_expirationDateLowerBound (en_request e) = asciiDateHex created" "vq_expirationDateUpperBound (en_request e) = no_birth_date"
    "vq_timestampLowerBound (en_request e) = ''0''"
    "vq_timestampUpperBound (en_request e) = show_int (ao_uniquenessTimestampUpperBound opts)"
  using assms
  by (auto simp: new_enrollment_def buildVerificationRequest_def bytesToPositiveFieldDecimal_def bytesToBigInt_def map_err_def Let_def
      simp del: append_Cons split: sum.splits)

lemma clean_request:
  assumes "new_enrollment rt opts created random policy = Inr e" "0 \<le> ao_uniquenessTimestampUpperBound opts" "ee_requestId random \<noteq> []"
    and "\<forall>xs. length (persistentHash rt xs) = 32"
  shows "validateGatewayRequest (en_request e) = Inr ()"
    "clean_hex (vq_birthDateUpperBound (en_request e))" "clean_hex (vq_expirationDateLowerBound (en_request e))"
proof -
  note f = enrollment_fields [OF assms(1)]
  obtain eventData where derived: "deriveRarimoIssuanceEventData rt (en_enrollmentId e) (en_holderBinding e) = Inr eventData"
      and data: "vq_eventData (en_request e) = ''0x'' @ bytesToHex eventData"
      "vq_eventDataDecimal (en_request e) = show_nat (read_hex (bytesToHex eventData))" using f(1) by blast
  have d: "clean_decimal_text ''0''" "clean_decimal_text ''1''" by code_simp+
  have upper: "clean_decimal_text (vq_timestampUpperBound (en_request e))" using f(15) assms(2) by (simp add: show_int_def)
  show bounds: "clean_hex (vq_birthDateUpperBound (en_request e))" "clean_hex (vq_expirationDateLowerBound (en_request e))"
    unfolding f(9,12) by (simp_all add: asciiDateHex_clean no_birth_date_clean)
  have rid: "vq_requestId (en_request e) \<noteq> []" "\<not> hasControlCharacter (vq_requestId (en_request e))"
    using assms(3) hex_clean [OF bytesToHex_any] unfolding f(4)
    by (cases "ee_requestId random", simp_all add: bytesToHex_def byte_hex_def Let_def)
  have "length eventData = 31" using derived assms(4) by (auto simp: deriveRarimoIssuanceEventData_def)
  then have "eventData \<noteq> []" by auto
  then have "hex_literal (vq_eventData (en_request e))" using literal_clean unfolding data clean_hex_def by blast
  then show "validateGatewayRequest (en_request e) = Inr ()"
    using rid bounds upper d f(5,6) no_birth_date_clean
    by (simp add: validateGatewayRequest_def clean_hex_def clean_decimal_text_def show_nat_clean f(8,10,11,13,14) data(2))
qed

text \<open>The evidence of a request has its fields, and the bounds of its dates.\<close>

lemma evidence_of_request:
  assumes "evidenceFromProof pj context f = Some ev"
  shows "ve_eventId ev = vq_eventId (vc_request context)" "ve_selector ev = vq_selector (vc_request context)"
    "ve_timestampUpperBound ev = vq_timestampUpperBound (vc_request context)"
    "ve_identityCounterUpperBound ev = vq_identityCounterUpperBound (vc_request context)"
    "hexToDecimal (vq_birthDateUpperBound (vc_request context)) = Some (ve_birthDateUpperBound ev)"
    "hexToDecimal (vq_expirationDateLowerBound (vc_request context)) = Some (ve_expirationDateLowerBound ev)"
    "ve_citizenshipAlpha3 ev \<noteq> []"
proof -
  have e: "ve_eventId ev = vq_eventId (vc_request context) \<and> ve_selector ev = vq_selector (vc_request context)
    \<and> ve_timestampUpperBound ev = vq_timestampUpperBound (vc_request context)
    \<and> ve_identityCounterUpperBound ev = vq_identityCounterUpperBound (vc_request context)
    \<and> hexToDecimal (vq_birthDateUpperBound (vc_request context)) = Some (ve_birthDateUpperBound ev)
    \<and> hexToDecimal (vq_expirationDateLowerBound (vc_request context)) = Some (ve_expirationDateLowerBound ev)"
    using assms
    by (auto simp: evidenceFromProof_def expected_signals_def Let_def bind_eq_Some_conv split: option.splits if_splits)
  then show "ve_eventId ev = vq_eventId (vc_request context)" "ve_selector ev = vq_selector (vc_request context)"
    "ve_timestampUpperBound ev = vq_timestampUpperBound (vc_request context)"
    "ve_identityCounterUpperBound ev = vq_identityCounterUpperBound (vc_request context)"
    "hexToDecimal (vq_birthDateUpperBound (vc_request context)) = Some (ve_birthDateUpperBound ev)"
    "hexToDecimal (vq_expirationDateLowerBound (vc_request context)) = Some (ve_expirationDateLowerBound ev)" by simp_all
  show "ve_citizenshipAlpha3 ev \<noteq> []"
    using evidenceFromProof_bound(6) [OF assms]
    by (auto simp: bind_eq_Some_conv decodeCitizenship_def Let_def split: if_splits)
qed

text \<open>The country catalogues of browser and issuer are one, and its two directions agree.\<close>

definition catalogue :: "(string \<Rightarrow> string option) \<Rightarrow> (string \<Rightarrow> string option) \<Rightarrow> bool" where
  "catalogue fromAlpha3 toAlpha3 = (\<forall>x c. fromAlpha3 x = Some c \<longrightarrow> c \<noteq> [] \<and> toAlpha3 c = Some x)"

lemma honest_claims:
  assumes "new_enrollment rt opts created random policy = Inr draft" "e = draft \<lparr> en_userIdHash := u \<rparr>"
    and "catalogue (ao_fromAlpha3 opts) (ao_toAlpha3 opts)" "0 \<le> ao_uniquenessTimestampUpperBound opts" "ee_requestId random \<noteq> []"
    and "\<forall>xs. length (persistentHash rt xs) = 32"
    and "evidenceFromProof pj \<lparr> vc_request = en_request e, vc_userIdHash = u \<rparr> f = Some ev" "pp_userIdHash pj = u" "is_hex64 f"
    and "ao_fromAlpha3 opts (ve_citizenshipAlpha3 ev) = Some country"
    and "\<forall>cs. Option.bind policy po_allowedCountries = Some cs \<longrightarrow> country \<in> set cs"
  shows "enrollment_claims opts now e ev = Inr (now div 1000 * 1000,
      \<lparr> cl_issuerId = ao_issuerId opts, cl_country = country, cl_ageClass = (if requires_adult policy then Adult else AgeUnknown),
        cl_assurance = DocumentNfc, cl_credentialEpoch = ao_credentialEpoch opts,
        cl_validFrom = toISOString (now div 1000 * 1000),
        cl_validUntil = toISOString (now div 1000 * 1000 + ao_credentialTtlMs opts) \<rparr>)"
    and "\<forall>wanted. vq_citizenshipMask (en_request e) = Some wanted \<longrightarrow> wanted = ve_citizenshipAlpha3 ev"
proof -
  note f = enrollment_fields [OF assms(1)]
  note clean = clean_request [OF assms(1,4,5,6)]
  have e: "en_request e = en_request draft" "en_policy e = policy" "en_requestId e = vq_requestId (en_request draft)" "en_userIdHash e = u"
    using assms(2) f(2,3,4) by simp_all
  note ev = evidence_of_request [OF assms(7), simplified] evidenceFromProof_bound [OF assms(7), simplified]
  have c: "country \<noteq> []" "ao_toAlpha3 opts country = Some (ve_citizenshipAlpha3 ev)"
    using assms(3,10) by (auto simp: catalogue_def)
  have dates: "ve_birthDateUpperBound ev = bound_decimal (vq_birthDateUpperBound (en_request draft))"
      "ve_expirationDateLowerBound ev = bound_decimal (vq_expirationDateLowerBound (en_request draft))"
    using ev(5,6) clean_decimal [OF clean(2)] clean_decimal [OF clean(3)] e(1) by simp_all
  have "trim (evidence_prefix @ f) \<noteq> []" by (simp add: trim_Nil_iff evidence_prefix_def is_ws_def Let_def)
  then have binding: "validateEvidenceBinding e ev = Inr ()"
    using ev dates assms(8,9) e by (simp add: validateEvidenceBinding_def)
  show mask': "\<forall>wanted. vq_citizenshipMask (en_request e) = Some wanted \<longrightarrow> wanted = ve_citizenshipAlpha3 ev"
    unfolding e(1) f(7) citizenship_mask_def using assms(11) c(2) by (auto split: option.splits list.splits)
  have "deriveClaims ev (ao_fromAlpha3 opts) e = Inr (country, if requires_adult policy then Adult else AgeUnknown, DocumentNfc)"
    using mask' assms(10,11) c(1) f(9) asciiDateHex_real unfolding deriveClaims_def e
    by (auto split: option.splits)
  then show "enrollment_claims opts now e ev = Inr (now div 1000 * 1000,
      \<lparr> cl_issuerId = ao_issuerId opts, cl_country = country, cl_ageClass = (if requires_adult policy then Adult else AgeUnknown),
        cl_assurance = DocumentNfc, cl_credentialEpoch = ao_credentialEpoch opts,
        cl_validFrom = toISOString (now div 1000 * 1000),
        cl_validUntil = toISOString (now div 1000 * 1000 + ao_credentialTtlMs opts) \<rparr>)"
    using binding by (simp add: enrollment_claims_def Let_def)
qed


text \<open>The sample enrolment under a catalogue of one country, proved to the verifier with the signals it asks for.\<close>

definition one_country :: "string \<Rightarrow> string option" where
  "one_country x = (if x = ''ARG'' then Some ''032'' else None)"

definition one_alpha3 :: "string \<Rightarrow> string option" where
  "one_alpha3 c = Some ''ARG''"

definition honest_options :: adapter_options where
  "honest_options = browser_options \<lparr> ao_fromAlpha3 := one_country, ao_toAlpha3 := one_alpha3 \<rparr>"

definition honest_proof :: proof_projection where
  "honest_proof = \<lparr> pp_userIdHash = ''u'', pp_publicSignals = [''0'', ''0'', ''0'', ''0'', ''0'', ''0'', ''4280903'', ''0'', ''0'', ''1'', ''0'',
     ''0'', ''6689'', ''0'', ''0'', ''7'', ''0'', ''1'', ''0'', bound_decimal no_birth_date, bound_decimal ''0x373030313031'', ''0'', ''0''] \<rparr>"

definition honest_policy :: issuance_policy where
  "honest_policy = \<lparr> ip_issuerId = ''is'', ip_credentialEpoch = 1, ip_credentialTtlMs = 60000, ip_fromAlpha3 = one_country,
     ip_maximumIssuanceDelayMs = None, ip_clockSkewMs = None \<rparr>"

definition honest_gateway :: gateway where
  "honest_gateway = \<lparr> gw_contexts = Map.empty, gw_authorizations = [evidence_prefix @ replicate 64 (CHR ''a'') \<mapsto>
     \<lparr> au_context = \<lparr> vc_request = en_request browser_record, vc_userIdHash = ''u'' \<rparr>, au_evidence = browser_evidence,
       au_verifiedAt = 1500 \<rparr>] \<rparr>"

lemma honest_setup: "new_rarimo_adapter ''is'' 1 one_country one_alpha3 7 None (Some 60000) True = Inr honest_options"
    "new_enrollment echo_runtime honest_options 0 browser_entropy None = Inr browser_draft" "catalogue one_country one_alpha3"
proof -
  have "trim ''is'' \<noteq> []" by code_simp
  then show "new_rarimo_adapter ''is'' 1 one_country one_alpha3 7 None (Some 60000) True = Inr honest_options"
    by (simp add: new_rarimo_adapter_def check_def honest_options_def browser_options_def max_safe_def)
  have "new_enrollment echo_runtime honest_options 0 browser_entropy None = new_enrollment echo_runtime browser_options 0 browser_entropy None"
    by (simp add: new_enrollment_def buildVerificationRequest_def honest_options_def citizenship_mask_def)
  then show "new_enrollment echo_runtime honest_options 0 browser_entropy None = Inr browser_draft" by (simp add: browser_drafted)
  show "catalogue one_country one_alpha3" by (simp add: catalogue_def one_country_def one_alpha3_def)
qed

lemma honest_evidence:
  "evidenceFromProof honest_proof \<lparr> vc_request = en_request browser_record, vc_userIdHash = ''u'' \<rparr> (replicate 64 (CHR ''a'')) = Some browser_evidence"
proof -
  have c: "clean_hex no_birth_date" "clean_hex ''0x373030313031''" by code_simp+
  have d: "hexToDecimal no_birth_date = Some (bound_decimal no_birth_date)"
    "hexToDecimal ''0x373030313031'' = Some (bound_decimal ''0x373030313031'')"
    using clean_decimal [OF c(1)] clean_decimal [OF c(2)] by simp_all
  show ?thesis
    by (simp add: evidenceFromProof_def expected_signals_def browser_record_def browser_draft_def browser_request_def d
        honest_proof_def rarimo_bounds(3) signalAt_def browser_evidence_def Let_def)
qed


end
