(* ===== verification/Deployment_Manifest.thy ===== *)
theory Deployment_Manifest
  imports Rarimo_Gateway V2_Hash "HOL-Library.Monad_Syntax"
begin

text \<open>
  The public manifest of a deployment
  (\<open>api/src/passport-v2/deployment-manifest.ts\<close>): its validation, the evidence a complete
  manifest must hold, its digest, and the environment of the web application that is made
  from it. A manifest is the JSON value that is read from the file. The functions that
  walk over its entries take that value; the others take its declared fields, which
  \<open>read_manifest\<close> reads. A value that is not of the declared type is outside the model.
  SHA-256, the date parser and the URL parser are arguments.
\<close>

section \<open>The declared fields\<close>

record manifest_step =
  mt_id :: string
  mt_status :: string
  mt_completedAt :: string
  mt_receipt :: "json option"
  mt_details :: "json option"
  mt_attestationTransactionId :: "string option"

record manifest_action =
  ma_actionId :: string
  ma_actionIdDigest :: string
  ma_idempotencyKeyDigest :: string
  ma_requestHash :: string
  ma_txDigest :: string
  ma_capabilityDigest :: string
  ma_transactionId :: string
  ma_status :: string

record manifest_relay =
  ml_submissionTransport :: string
  ml_durableStore :: string
  ml_legacyApiEnabled :: bool
  ml_states :: "string list"
  ml_accepted :: bool
  ml_duplicateResolved :: bool
  ml_concurrentIdempotent :: bool
  ml_restartRecovered :: bool

record manifest_lifecycle =
  my_castTransactionId :: string
  my_closeTransactionId :: string
  my_revealTransactionId :: string
  my_finalizeTransactionId :: string
  my_replayRejected :: bool
  my_finalized :: bool
  my_indexerObservations :: int

record manifest_observation =
  mo_stage :: string
  mo_observedAt :: string
  mo_available :: bool
  mo_source :: "string option"
  mo_transactionId :: "string option"
  mo_registry :: "json option"
  mo_referendum :: "json option"

record manifest_dust =
  md_before :: "string option"
  md_after :: "string option"
  md_spent :: "string option"
  md_beforeObservedAt :: "string option"
  md_afterObservedAt :: "string option"
  md_valuationAt :: "string option"
  md_accounted :: bool

record manifest_registry =
  mg_contractAddress :: "string option"
  mg_registryContractBindingHex :: "string option"
  mg_registryIdHex :: string
  mg_issuerId :: string
  mg_issuerIdHex :: string
  mg_credentialEpoch :: string
  mg_currentRootField :: "string option"
  mg_frozenRootField :: "string option"
  mg_credentialCount :: "string option"
  mg_frozen :: bool
  mg_enrollmentModel :: string

record manifest_referendum =
  mf_referendumId :: string
  mf_contractAddress :: "string option"
  mf_registryContractBindingHex :: "string option"
  mf_registryContractAddress :: "string option"
  mf_eventIdHex :: string
  mf_organizerKeyHex :: string
  mf_rootPublisherKeyHex :: string
  mf_initialRootField :: string
  mf_acceptedRoots :: "string list"
  mf_opensAtUnix :: string
  mf_enrollmentClosesAtUnix :: string
  mf_closesAtUnix :: string
  mf_revealClosesAtUnix :: string
  mf_countryPolicy :: "string option"
  mf_minimumAssurance :: string
  mf_requireAdult :: bool
  mf_validityReference :: string
  mf_title :: string
  mf_question :: string
  mf_description :: "string option"

record manifest =
  mm_kind :: string
  mm_version :: int
  mm_status :: string
  mm_network :: string
  mm_networkId :: string
  mm_generatedAt :: string
  mm_source :: "(string \<times> string) option"
  mm_services :: "json option"
  mm_apiUrl :: string
  mm_credentialTtlMs :: int
  mm_uniquenessTimestampUpperBound :: string
  mm_artifacts :: json
  mm_endpoints :: json
  mm_dust :: manifest_dust
  mm_submissionTransport :: "string option"
  mm_action :: "manifest_action option"
  mm_relay :: "manifest_relay option"
  mm_lifecycle :: "manifest_lifecycle option"
  mm_manifestDigest :: "string option"
  mm_registry :: manifest_registry
  mm_referenda :: "manifest_referendum list"
  mm_steps :: "manifest_step list"
  mm_observations :: "manifest_observation list"

section \<open>Reading them\<close>

definition as_bool :: "json option \<Rightarrow> bool option" where
  "as_bool v = (case v of Some (JBool b) \<Rightarrow> Some b | _ \<Rightarrow> None)"

definition as_array :: "json option \<Rightarrow> json list option" where
  "as_array v = (case v of Some (JArr xs) \<Rightarrow> Some xs | _ \<Rightarrow> None)"

definition as_record :: "json option \<Rightarrow> json option" where
  "as_record v = (case v of Some (JObj ps) \<Rightarrow> Some (JObj ps) | _ \<Rightarrow> None)"

text \<open>A property of the type \<open>string | null\<close>, and an optional one.\<close>

definition as_nullable :: "json option \<Rightarrow> string option option" where
  "as_nullable v = (case v of Some JNull \<Rightarrow> Some None | Some (JStr s) \<Rightarrow> Some (Some s) | _ \<Rightarrow> None)"

definition as_optional :: "(json option \<Rightarrow> 'a option) \<Rightarrow> json option \<Rightarrow> 'a option option" where
  "as_optional read v = (case v of None \<Rightarrow> Some None | Some w \<Rightarrow> map_option Some (read (Some w)))"

definition as_list :: "(json \<Rightarrow> 'a option) \<Rightarrow> json option \<Rightarrow> 'a list option" where
  "as_list read v = Option.bind (as_array v) (option_all read)"

definition as_string :: "json \<Rightarrow> string option" where
  "as_string v = as_str (Some v)"

definition read_step :: "json \<Rightarrow> manifest_step option" where
  "read_step v = do {
     i \<leftarrow> as_str (fld v ''id''); status \<leftarrow> as_str (fld v ''status''); completed \<leftarrow> as_str (fld v ''completedAt'');
     receipt \<leftarrow> as_optional as_record (fld v ''receipt''); details \<leftarrow> as_optional as_record (fld v ''details'');
     attestation \<leftarrow> as_optional as_str (fld v ''attestationTransactionId'');
     Some \<lparr> mt_id = i, mt_status = status, mt_completedAt = completed, mt_receipt = receipt, mt_details = details,
            mt_attestationTransactionId = attestation \<rparr> }"

definition read_action :: "json option \<Rightarrow> manifest_action option" where
  "read_action w = do {
     v \<leftarrow> as_record w; i \<leftarrow> as_str (fld v ''actionId''); d \<leftarrow> as_str (fld v ''actionIdDigest'');
     k \<leftarrow> as_str (fld v ''idempotencyKeyDigest''); h \<leftarrow> as_str (fld v ''requestHash''); x \<leftarrow> as_str (fld v ''txDigest'');
     c \<leftarrow> as_str (fld v ''capabilityDigest''); t \<leftarrow> as_str (fld v ''transactionId''); s \<leftarrow> as_str (fld v ''status'');
     Some \<lparr> ma_actionId = i, ma_actionIdDigest = d, ma_idempotencyKeyDigest = k, ma_requestHash = h, ma_txDigest = x,
            ma_capabilityDigest = c, ma_transactionId = t, ma_status = s \<rparr> }"

definition read_relay :: "json option \<Rightarrow> manifest_relay option" where
  "read_relay w = do {
     v \<leftarrow> as_record w; transport \<leftarrow> as_str (fld v ''submissionTransport''); store \<leftarrow> as_str (fld v ''durableStore'');
     legacy \<leftarrow> as_bool (fld v ''legacyApiEnabled''); states \<leftarrow> as_list as_string (fld v ''states'');
     accepted \<leftarrow> as_bool (fld v ''accepted''); duplicate \<leftarrow> as_bool (fld v ''duplicateResolved'');
     concurrent \<leftarrow> as_bool (fld v ''concurrentIdempotent''); restart \<leftarrow> as_bool (fld v ''restartRecovered'');
     Some \<lparr> ml_submissionTransport = transport, ml_durableStore = store, ml_legacyApiEnabled = legacy, ml_states = states,
            ml_accepted = accepted, ml_duplicateResolved = duplicate, ml_concurrentIdempotent = concurrent,
            ml_restartRecovered = restart \<rparr> }"

definition read_lifecycle :: "json option \<Rightarrow> manifest_lifecycle option" where
  "read_lifecycle w = do {
     v \<leftarrow> as_record w; c \<leftarrow> as_str (fld v ''castTransactionId''); l \<leftarrow> as_str (fld v ''closeTransactionId'');
     r \<leftarrow> as_str (fld v ''revealTransactionId''); f \<leftarrow> as_str (fld v ''finalizeTransactionId'');
     replay \<leftarrow> as_bool (fld v ''replayRejected''); finalized \<leftarrow> as_bool (fld v ''finalized'');
     n \<leftarrow> safe_int (fld v ''indexerObservations'');
     Some \<lparr> my_castTransactionId = c, my_closeTransactionId = l, my_revealTransactionId = r, my_finalizeTransactionId = f,
            my_replayRejected = replay, my_finalized = finalized, my_indexerObservations = n \<rparr> }"

definition read_observation :: "json \<Rightarrow> manifest_observation option" where
  "read_observation v = do {
     stage \<leftarrow> as_str (fld v ''stage''); seen \<leftarrow> as_str (fld v ''observedAt''); indexer \<leftarrow> as_record (fld v ''indexer'');
     available \<leftarrow> as_bool (fld indexer ''available''); source \<leftarrow> as_nullable (fld indexer ''source'');
     t \<leftarrow> as_optional as_str (fld v ''transactionId''); registry \<leftarrow> as_optional as_record (fld v ''registry'');
     referendum \<leftarrow> as_optional as_record (fld v ''referendum'');
     Some \<lparr> mo_stage = stage, mo_observedAt = seen, mo_available = available, mo_source = source, mo_transactionId = t,
            mo_registry = registry, mo_referendum = referendum \<rparr> }"

definition read_dust :: "json option \<Rightarrow> manifest_dust option" where
  "read_dust w = do {
     v \<leftarrow> as_record w; before \<leftarrow> as_nullable (fld v ''before''); after \<leftarrow> as_nullable (fld v ''after'');
     spent \<leftarrow> as_nullable (fld v ''spent''); b \<leftarrow> as_nullable (fld v ''beforeObservedAt'');
     a \<leftarrow> as_nullable (fld v ''afterObservedAt''); valued \<leftarrow> as_nullable (fld v ''valuationAt'');
     accounted \<leftarrow> as_bool (fld v ''accounted'');
     Some \<lparr> md_before = before, md_after = after, md_spent = spent, md_beforeObservedAt = b, md_afterObservedAt = a,
            md_valuationAt = valued, md_accounted = accounted \<rparr> }"

definition read_registry :: "json option \<Rightarrow> manifest_registry option" where
  "read_registry w = do {
     v \<leftarrow> as_record w; address \<leftarrow> as_nullable (fld v ''contractAddress'');
     binding \<leftarrow> as_nullable (fld v ''registryContractBindingHex''); i \<leftarrow> as_str (fld v ''registryIdHex'');
     issuer \<leftarrow> as_str (fld v ''issuerId''); issuerHex \<leftarrow> as_str (fld v ''issuerIdHex'');
     epoch \<leftarrow> as_str (fld v ''credentialEpoch''); current \<leftarrow> as_nullable (fld v ''currentRootField'');
     frozenRoot \<leftarrow> as_nullable (fld v ''frozenRootField''); count \<leftarrow> as_nullable (fld v ''credentialCount'');
     frozen \<leftarrow> as_bool (fld v ''frozen''); model \<leftarrow> as_str (fld v ''enrollmentModel'');
     Some \<lparr> mg_contractAddress = address, mg_registryContractBindingHex = binding, mg_registryIdHex = i, mg_issuerId = issuer,
            mg_issuerIdHex = issuerHex, mg_credentialEpoch = epoch, mg_currentRootField = current, mg_frozenRootField = frozenRoot,
            mg_credentialCount = count, mg_frozen = frozen, mg_enrollmentModel = model \<rparr> }"

definition read_referendum :: "json \<Rightarrow> manifest_referendum option" where
  "read_referendum v = do {
     i \<leftarrow> as_str (fld v ''referendumId''); address \<leftarrow> as_nullable (fld v ''contractAddress'');
     binding \<leftarrow> as_nullable (fld v ''registryContractBindingHex''); registry \<leftarrow> as_nullable (fld v ''registryContractAddress'');
     event \<leftarrow> as_str (fld v ''eventIdHex''); organizer \<leftarrow> as_str (fld v ''organizerKeyHex'');
     publisher \<leftarrow> as_str (fld v ''rootPublisherKeyHex''); initial \<leftarrow> as_str (fld v ''initialRootField'');
     roots \<leftarrow> as_list as_string (fld v ''acceptedRoots''); opens \<leftarrow> as_str (fld v ''opensAtUnix'');
     enrollment \<leftarrow> as_str (fld v ''enrollmentClosesAtUnix''); closes \<leftarrow> as_str (fld v ''closesAtUnix'');
     reveal \<leftarrow> as_str (fld v ''revealClosesAtUnix''); country \<leftarrow> as_nullable (fld v ''countryPolicy'');
     assurance \<leftarrow> as_str (fld v ''minimumAssurance''); adult \<leftarrow> as_bool (fld v ''requireAdult'');
     validity \<leftarrow> as_str (fld v ''validityReference''); title \<leftarrow> as_str (fld v ''title'');
     question \<leftarrow> as_str (fld v ''question''); description \<leftarrow> as_optional as_str (fld v ''description'');
     Some \<lparr> mf_referendumId = i, mf_contractAddress = address, mf_registryContractBindingHex = binding,
            mf_registryContractAddress = registry, mf_eventIdHex = event, mf_organizerKeyHex = organizer,
            mf_rootPublisherKeyHex = publisher, mf_initialRootField = initial, mf_acceptedRoots = roots, mf_opensAtUnix = opens,
            mf_enrollmentClosesAtUnix = enrollment, mf_closesAtUnix = closes, mf_revealClosesAtUnix = reveal,
            mf_countryPolicy = country, mf_minimumAssurance = assurance, mf_requireAdult = adult,
            mf_validityReference = validity, mf_title = title, mf_question = question, mf_description = description \<rparr> }"

definition read_manifest :: "json \<Rightarrow> manifest option" where
  "read_manifest v = do {
     kind \<leftarrow> as_str (fld v ''kind''); version \<leftarrow> safe_int (fld v ''version''); status \<leftarrow> as_str (fld v ''status'');
     network \<leftarrow> as_str (fld v ''network''); networkId \<leftarrow> as_str (fld v ''networkId'');
     generated \<leftarrow> as_str (fld v ''generatedAt'');
     source \<leftarrow> as_optional (\<lambda>w. do { s \<leftarrow> as_record w; c \<leftarrow> as_str (fld s ''commit''); t \<leftarrow> as_str (fld s ''tree''); Some (c, t) })
       (fld v ''source'');
     services \<leftarrow> as_optional as_record (fld v ''services''); runtime \<leftarrow> as_record (fld v ''runtime'');
     apiUrl \<leftarrow> as_str (fld runtime ''apiUrl''); ttl \<leftarrow> safe_int (fld runtime ''credentialTtlMs'');
     bound \<leftarrow> as_str (fld runtime ''uniquenessTimestampUpperBoundUnixSeconds'');
     artifacts \<leftarrow> as_record (fld v ''artifacts''); endpoints \<leftarrow> as_record (fld v ''endpoints''); dust \<leftarrow> read_dust (fld v ''dust'');
     transport \<leftarrow> as_optional as_str (fld v ''submissionTransport''); action \<leftarrow> as_optional read_action (fld v ''action'');
     relay \<leftarrow> as_optional read_relay (fld v ''relay''); lifecycle \<leftarrow> as_optional read_lifecycle (fld v ''lifecycle'');
     digest \<leftarrow> as_optional as_str (fld v ''manifestDigest''); registry \<leftarrow> read_registry (fld v ''registry'');
     referenda \<leftarrow> as_list read_referendum (fld v ''referenda''); transcript \<leftarrow> as_record (fld v ''transcript'');
     steps \<leftarrow> as_list read_step (fld transcript ''steps'');
     observations \<leftarrow> as_list read_observation (fld transcript ''observations'');
     Some \<lparr> mm_kind = kind, mm_version = version, mm_status = status, mm_network = network, mm_networkId = networkId,
            mm_generatedAt = generated, mm_source = source, mm_services = services, mm_apiUrl = apiUrl, mm_credentialTtlMs = ttl,
            mm_uniquenessTimestampUpperBound = bound, mm_artifacts = artifacts, mm_endpoints = endpoints, mm_dust = dust,
            mm_submissionTransport = transport, mm_action = action, mm_relay = relay, mm_lifecycle = lifecycle,
            mm_manifestDigest = digest, mm_registry = registry, mm_referenda = referenda, mm_steps = steps,
            mm_observations = observations \<rparr> }"

section \<open>Formats\<close>

datatype manifest_error = ManifestUntyped | ManifestRefused string

definition hex32_text :: "string \<Rightarrow> bool" where
  "hex32_text s = (let t = (if toLowerCase (take 2 s) = ''0x'' then drop 2 s else s) in length t = 64 \<and> list_all any_hex t)"

definition assertHex32 :: "string \<Rightarrow> string \<Rightarrow> (manifest_error, unit) result" where
  "assertHex32 value label = check (hex32_text value) (ManifestRefused label)"

definition digits_text :: "string \<Rightarrow> bool" where
  "digits_text s = (s \<noteq> [] \<and> list_all is_digit s)"

definition assertDecimal :: "string \<Rightarrow> string \<Rightarrow> (manifest_error, unit) result" where
  "assertDecimal value label = check (digits_text value) (ManifestRefused label)"

definition stripHexPrefix :: "string \<Rightarrow> string" where
  "stripHexPrefix value = toLowerCase (remove_0x value)"

definition hex_digest :: "nat \<Rightarrow> string \<Rightarrow> bool" where
  "hex_digest n s = (length s = n \<and> list_all any_hex s)"

definition assert_if :: "'a option \<Rightarrow> ('a \<Rightarrow> (manifest_error, unit) result) \<Rightarrow> (manifest_error, unit) result" where
  "assert_if v f = (case v of None \<Rightarrow> Inr () | Some x \<Rightarrow> f x)"

fun all_ok :: "('a \<Rightarrow> (manifest_error, unit) result) \<Rightarrow> 'a list \<Rightarrow> (manifest_error, unit) result" where
  "all_ok f [] = Inr ()"
| "all_ok f (x # xs) = rbind (f x) (\<lambda>_. all_ok f xs)"

definition plain_url :: "gateway_url \<Rightarrow> bool" where
  "plain_url url = (gu_username url = [] \<and> gu_password url = [] \<and> gu_search url = [] \<and> gu_hash url = [])"

definition assertPublicUrl :: "(string \<Rightarrow> gateway_url option) \<Rightarrow> string \<Rightarrow> (manifest_error, unit) result" where
  "assertPublicUrl parse_url value = (case parse_url value of
     None \<Rightarrow> Inl (ManifestRefused ''public URL'')
   | Some url \<Rightarrow>
       rbind (check (gu_protocol url \<in> {''http:'', ''https:'', ''ws:'', ''wss:''}) (ManifestRefused ''URL protocol'')) (\<lambda>_.
       check (plain_url url) (ManifestRefused ''URL credentials'')))"

definition assertRuntimeApiUrl :: "(string \<Rightarrow> gateway_url option) \<Rightarrow> string \<Rightarrow> string \<Rightarrow> (manifest_error, unit) result" where
  "assertRuntimeApiUrl parse_url value network = (case parse_url value of
     None \<Rightarrow> Inl (ManifestRefused ''apiUrl'')
   | Some url \<Rightarrow>
       rbind (check (gu_protocol url = ''http:'' \<or> gu_protocol url = ''https:'') (ManifestRefused ''apiUrl protocol'')) (\<lambda>_.
       rbind (check (plain_url url) (ManifestRefused ''apiUrl credentials'')) (\<lambda>_.
       let local = toLowerCase (gu_hostname url) \<in> {''localhost'', ''127.0.0.1'', ''[::1]''} in
       rbind (check (\<not> (network = ''preview'' \<and> gu_protocol url \<noteq> ''https:'')) (ManifestRefused ''apiUrl of Preview'')) (\<lambda>_.
       check (\<not> (network = ''undeployed'' \<and> gu_protocol url = ''http:'' \<and> \<not> local)) (ManifestRefused ''apiUrl of Undeployed'')))))"

definition assertPublicArtifacts :: "json \<Rightarrow> (manifest_error, unit) result" where
  "assertPublicArtifacts artifacts = all_ok (\<lambda>(key, value).
     if key = ''hashes'' then check (isRecord value) (ManifestRefused ''artifact hashes'')
     else check (case value of JStr s \<Rightarrow> trim s \<noteq> [] | _ \<Rightarrow> False) (ManifestRefused ''artifact'')) (entries artifacts)"

text \<open>An endpoint is a string or \<open>null\<close> by its type.\<close>

definition assertPublicEndpoints :: "(string \<Rightarrow> gateway_url option) \<Rightarrow> json \<Rightarrow> (manifest_error, unit) result" where
  "assertPublicEndpoints parse_url endpoints = all_ok (\<lambda>(key, value). case value of
     JNull \<Rightarrow> Inr () | JStr s \<Rightarrow> assertPublicUrl parse_url s | _ \<Rightarrow> Inl ManifestUntyped) (entries endpoints)"

definition assertDust :: "(string \<Rightarrow> int option) \<Rightarrow> manifest_dust \<Rightarrow> (manifest_error, unit) result" where
  "assertDust date_parse d =
     rbind (all_ok (\<lambda>v. assert_if v (\<lambda>x. assertDecimal x ''dust'')) [md_before d, md_after d, md_spent d]) (\<lambda>_.
     rbind (all_ok (\<lambda>v. assert_if v (\<lambda>x. check (date_parse x \<noteq> None) (ManifestRefused ''dust timestamp'')))
         [md_beforeObservedAt d, md_afterObservedAt d, md_valuationAt d]) (\<lambda>_.
     case (md_before d, md_after d, md_spent d) of
       (Some before, Some after, Some spent) \<Rightarrow>
         check (\<not> (read_nat before < read_nat after \<or> int (read_nat before) - int (read_nat after) \<noteq> int (read_nat spent)))
           (ManifestRefused ''dust accounting'')
     | _ \<Rightarrow> Inr ()))"

definition forbiddenManifestKeys :: "string list" where
  "forbiddenManifestKeys = [''secret'', ''seed'', ''seedphrase'', ''witness'', ''proof'', ''credentialblind'', ''credentialleaf'',
     ''votersecret'', ''votesalt'', ''capabilitytoken'', ''holdersecret'', ''holderblind'', ''credentialopening'', ''choice'',
     ''passportprofile'', ''privatestate'', ''rawproof'']"

definition assertNoPrivateManifestFields :: "json \<Rightarrow> (manifest_error, unit) result" where
  "assertNoPrivateManifestFields value =
     check (free_of_keys forbiddenManifestKeys value) (ManifestRefused ''private fixture material'')"

section \<open>Validation\<close>

definition validate_registry :: "compact_runtime \<Rightarrow> manifest_registry \<Rightarrow> (manifest_error, unit) result" where
  "validate_registry rt g =
     rbind (assertHex32 (mg_registryIdHex g) ''registryIdHex'') (\<lambda>_.
     rbind (assertHex32 (mg_issuerIdHex g) ''issuerIdHex'') (\<lambda>_.
     rbind (assert_if (mg_registryContractBindingHex g) (\<lambda>binding.
         rbind (assertHex32 binding ''registryContractBindingHex'') (\<lambda>_.
         assert_if (mg_contractAddress g) (\<lambda>address.
           case deriveRegistryContractBinding rt address of
             Inl _ \<Rightarrow> Inl (ManifestRefused ''registry address'')
           | Inr expected \<Rightarrow> check (stripHexPrefix binding = bytesToHex expected) (ManifestRefused ''registry binding''))))) (\<lambda>_.
     rbind (check (trim (mg_issuerId g) \<noteq> []) (ManifestRefused ''issuerId'')) (\<lambda>_.
     rbind (assertDecimal (mg_credentialEpoch g) ''credentialEpoch'') (\<lambda>_.
     rbind (check (mg_enrollmentModel g = ''open'' \<or> mg_enrollmentModel g = ''frozen'') (ManifestRefused ''enrollmentModel'')) (\<lambda>_.
     if mg_enrollmentModel g = ''open''
     then rbind (check (\<not> mg_frozen g) (ManifestRefused ''open and frozen'')) (\<lambda>_.
          check (mg_frozenRootField g = None) (ManifestRefused ''open with a frozen root''))
     else check (mg_frozen g) (ManifestRefused ''frozen and not frozen'')))))))"

fun distinct_roots :: "string set \<Rightarrow> string list \<Rightarrow> (manifest_error, unit) result" where
  "distinct_roots seen [] = Inr ()"
| "distinct_roots seen (root # roots) =
     rbind (assertDecimal root ''acceptedRoots'') (\<lambda>_.
     rbind (check (root \<notin> seen) (ManifestRefused ''duplicate root'')) (\<lambda>_. distinct_roots (insert root seen) roots))"

definition validate_schedule :: "manifest_referendum \<Rightarrow> (manifest_error, unit) result" where
  "validate_schedule f =
     rbind (assertDecimal (mf_opensAtUnix f) ''opensAtUnix'') (\<lambda>_.
     rbind (assertDecimal (mf_enrollmentClosesAtUnix f) ''enrollmentClosesAtUnix'') (\<lambda>_.
     rbind (assertDecimal (mf_closesAtUnix f) ''closesAtUnix'') (\<lambda>_.
     rbind (assertDecimal (mf_revealClosesAtUnix f) ''revealClosesAtUnix'') (\<lambda>_.
     rbind (check (\<not> (read_nat (mf_enrollmentClosesAtUnix f) < read_nat (mf_opensAtUnix f)
         \<or> read_nat (mf_closesAtUnix f) < read_nat (mf_enrollmentClosesAtUnix f))) (ManifestRefused ''schedule'')) (\<lambda>_.
     rbind (check (read_nat (mf_opensAtUnix f) < read_nat (mf_closesAtUnix f)) (ManifestRefused ''voting window'')) (\<lambda>_.
     check (read_nat (mf_closesAtUnix f) < read_nat (mf_revealClosesAtUnix f)) (ManifestRefused ''reveal window'')))))))"

definition same_hex :: "string \<Rightarrow> string \<Rightarrow> bool" where
  "same_hex a b = (stripHexPrefix a = stripHexPrefix b)"

definition validate_referendum :: "manifest_registry \<Rightarrow> manifest_referendum \<Rightarrow> (manifest_error, unit) result" where
  "validate_referendum g f =
     rbind (assertHex32 (mf_eventIdHex f) ''eventIdHex'') (\<lambda>_.
     rbind (assertHex32 (mf_organizerKeyHex f) ''organizerKeyHex'') (\<lambda>_.
     rbind (assertHex32 (mf_rootPublisherKeyHex f) ''rootPublisherKeyHex'') (\<lambda>_.
     rbind (check (\<not> same_hex (mf_rootPublisherKeyHex f) (mf_organizerKeyHex f)) (ManifestRefused ''equal role keys'')) (\<lambda>_.
     rbind (assertDecimal (mf_initialRootField f) ''initialRootField'') (\<lambda>_.
     rbind (check (mf_acceptedRoots f \<noteq> []) (ManifestRefused ''acceptedRoots'')) (\<lambda>_.
     rbind (distinct_roots {} (mf_acceptedRoots f)) (\<lambda>_.
     rbind (check (mf_initialRootField f \<in> set (mf_acceptedRoots f)) (ManifestRefused ''initial root'')) (\<lambda>_.
     rbind (validate_schedule f) (\<lambda>_.
     rbind (assert_if (mf_registryContractBindingHex f) (\<lambda>binding.
         rbind (assertHex32 binding ''registryContractBindingHex'') (\<lambda>_.
         assert_if (mg_registryContractBindingHex g) (\<lambda>b. check (same_hex binding b) (ManifestRefused ''registry binding''))))) (\<lambda>_.
     rbind (assert_if (mf_registryContractAddress f) (\<lambda>address.
         rbind (assertHex32 address ''registryContractAddress'') (\<lambda>_.
         assert_if (mg_contractAddress g) (\<lambda>a. check (same_hex address a) (ManifestRefused ''registry address''))))) (\<lambda>_.
     rbind (assertDecimal (mf_minimumAssurance f) ''minimumAssurance'') (\<lambda>_.
     rbind (assertDecimal (mf_validityReference f) ''validityReference'') (\<lambda>_.
     check (trim (mf_title f) \<noteq> [] \<and> trim (mf_question f) \<noteq> []) (ManifestRefused ''title and question''))))))))))))))"

fun validate_referenda :: "manifest_registry \<Rightarrow> string set \<Rightarrow> manifest_referendum list \<Rightarrow> (manifest_error, unit) result" where
  "validate_referenda g ids [] = Inr ()"
| "validate_referenda g ids (f # fs) =
     rbind (check (trim (mf_referendumId f) \<noteq> [] \<and> mf_referendumId f \<notin> ids) (ManifestRefused ''referendum ids'')) (\<lambda>_.
     rbind (validate_referendum g f) (\<lambda>_. validate_referenda g (insert (mf_referendumId f) ids) fs))"

text \<open>A snapshot within an observation has fields of the type \<open>string\<close>.\<close>

definition text_at :: "json \<Rightarrow> string \<Rightarrow> (string \<Rightarrow> (manifest_error, unit) result) \<Rightarrow> (manifest_error, unit) result" where
  "text_at v key f = (case as_str (fld v key) of None \<Rightarrow> Inl ManifestUntyped | Some s \<Rightarrow> f s)"

definition validate_observation :: "(string \<Rightarrow> gateway_url option) \<Rightarrow> manifest_observation \<Rightarrow> (manifest_error, unit) result" where
  "validate_observation parse_url ob =
     rbind (check (mo_observedAt ob \<noteq> [] \<and> mo_stage ob \<noteq> []) (ManifestRefused ''observation'')) (\<lambda>_.
     rbind (assert_if (mo_source ob) (assertPublicUrl parse_url)) (\<lambda>_.
     rbind (assert_if (mo_transactionId ob) (\<lambda>t. check (trim t \<noteq> []) (ManifestRefused ''observed transaction''))) (\<lambda>_.
     rbind (assert_if (mo_registry ob) (\<lambda>v.
         rbind (text_at v ''contractAddress'' (\<lambda>s. assertHex32 s ''registry address'')) (\<lambda>_.
         all_ok (\<lambda>key. text_at v key (\<lambda>s. assertDecimal s key)) [''currentRootField'', ''frozenRootField'', ''credentialCount'']))) (\<lambda>_.
     assert_if (mo_referendum ob) (\<lambda>v.
         rbind (text_at v ''contractAddress'' (\<lambda>s. assertHex32 s ''referendum address'')) (\<lambda>_.
         rbind (text_at v ''issuedVotes'' (\<lambda>s. assertDecimal s ''issuedVotes'')) (\<lambda>_.
         case as_record (fld v ''tally'') of
           None \<Rightarrow> Inl ManifestUntyped
         | Some tally \<Rightarrow> all_ok (\<lambda>key. text_at tally key (\<lambda>s. assertDecimal s key)) [''YES'', ''NO'', ''ABSTAIN''])))))))"

section \<open>The evidence of a complete manifest\<close>

definition PASSPORT_V2_MANIFEST_KIND :: string where
  "PASSPORT_V2_MANIFEST_KIND = ''midnight-passport-v2-runtime''"

definition PASSPORT_V2_MANIFEST_VERSION :: int where
  "PASSPORT_V2_MANIFEST_VERSION = 3"

definition present :: "string option \<Rightarrow> bool" where
  "present v = (case v of None \<Rightarrow> False | Some s \<Rightarrow> s \<noteq> [])"

definition assertIdentity :: "manifest \<Rightarrow> (manifest_error, unit) result" where
  "assertIdentity m = check (case mm_source m of None \<Rightarrow> False | Some (c, t) \<Rightarrow> hex_digest 40 c \<and> hex_digest 40 t)
     (ManifestRefused ''source identity'')"

definition assertServices :: "manifest \<Rightarrow> (manifest_error, unit) result" where
  "assertServices m = (case mm_services m of
     None \<Rightarrow> Inl (ManifestRefused ''services'')
   | Some services \<Rightarrow> all_ok (\<lambda>(name, service).
       check (case (as_str (fld service ''version''), as_str (fld service ''hash'')) of
           (Some version, Some hash) \<Rightarrow> trim version \<noteq> [] \<and> hex_digest 64 hash | _ \<Rightarrow> False)
         (ManifestRefused name)) (entries services))"

definition assertArtifactHashes :: "manifest \<Rightarrow> (manifest_error, unit) result" where
  "assertArtifactHashes m = (case fld (mm_artifacts m) ''hashes'' of
     None \<Rightarrow> Inl (ManifestRefused ''artifact hashes'')
   | Some hashes \<Rightarrow>
       rbind (check (entries hashes \<noteq> []) (ManifestRefused ''artifact hashes'')) (\<lambda>_.
       all_ok (\<lambda>(name, hash). case as_string hash of
           None \<Rightarrow> Inl ManifestUntyped | Some h \<Rightarrow> check (hex_digest 64 h) (ManifestRefused name)) (entries hashes)))"

definition actionIdDigest :: "(string \<Rightarrow> string) \<Rightarrow> string \<Rightarrow> string" where
  "actionIdDigest sha256 i = sha256 (utf8 (''midnight-referendum:v2-action-id-digest:1:'' @ i))"

definition assertAction :: "(string \<Rightarrow> string) \<Rightarrow> manifest_action \<Rightarrow> (manifest_error, unit) result" where
  "assertAction sha256 a =
     rbind (check (trim (ma_actionId a) \<noteq> [] \<and> trim (ma_transactionId a) \<noteq> [] \<and> ma_status a = ''confirmed''
         \<and> hex_digest 64 (ma_actionIdDigest a) \<and> hex_digest 64 (ma_idempotencyKeyDigest a) \<and> hex_digest 64 (ma_requestHash a)
         \<and> hex_digest 64 (ma_txDigest a) \<and> hex_digest 64 (ma_capabilityDigest a)) (ManifestRefused ''action evidence'')) (\<lambda>_.
     check (ma_actionIdDigest a = actionIdDigest sha256 (ma_actionId a)) (ManifestRefused ''action id digest''))"

definition requiredRelayStates :: "string list" where
  "requiredRelayStates =
     [''authorized'', ''validated'', ''dust_reserved'', ''finalized'', ''submitted'', ''indexer_pending'', ''confirmed'']"

definition relay_proved :: "manifest_relay \<Rightarrow> bool" where
  "relay_proved r = (ml_submissionTransport r = ''v2-actions'' \<and> ml_durableStore r = ''postgresql''
     \<and> \<not> ml_legacyApiEnabled r \<and> ml_accepted r \<and> ml_duplicateResolved r \<and> ml_concurrentIdempotent r
     \<and> ml_restartRecovered r \<and> ml_states r = requiredRelayStates)"

definition assertRegistrySnapshot :: "manifest_registry \<Rightarrow> (manifest_error, unit) result" where
  "assertRegistrySnapshot g =
     rbind (check (present (mg_contractAddress g) \<and> present (mg_registryContractBindingHex g)
         \<and> present (mg_currentRootField g) \<and> present (mg_credentialCount g)) (ManifestRefused ''registry snapshot'')) (\<lambda>_.
     rbind (assertDecimal (the (mg_currentRootField g)) ''currentRootField'') (\<lambda>_.
     rbind (assertDecimal (the (mg_credentialCount g)) ''credentialCount'') (\<lambda>_.
     rbind (assertHex32 (the (mg_registryContractBindingHex g)) ''registryContractBindingHex'') (\<lambda>_.
     if mg_enrollmentModel g = ''frozen''
     then rbind (check (mg_frozen g \<and> present (mg_frozenRootField g)) (ManifestRefused ''frozen snapshot'')) (\<lambda>_.
          assertDecimal (the (mg_frozenRootField g)) ''frozenRootField'')
     else check (\<not> (mg_frozen g \<or> present (mg_frozenRootField g))) (ManifestRefused ''open and frozen'')))))"

text \<open>The steps of the transcript, and the two that admit a later root.\<close>

definition step_done :: "manifest_step \<Rightarrow> bool" where
  "step_done s = (mt_status s = ''confirmed'' \<or> mt_status s = ''reconciled'')"

definition step_receipt_text :: "manifest_step \<Rightarrow> string \<Rightarrow> string option" where
  "step_receipt_text s key = Option.bind (mt_receipt s) (\<lambda>r. as_str (fld r key))"

definition step_on :: "string \<Rightarrow> string \<Rightarrow> string \<Rightarrow> manifest_step \<Rightarrow> bool" where
  "step_on i address root s = (mt_id s = i \<and> step_done s
     \<and> (case step_receipt_text s ''contractAddress'' of None \<Rightarrow> False | Some a \<Rightarrow> same_hex a address)
     \<and> Option.bind (mt_details s) (\<lambda>d. fld d ''rootField'') = Some (JStr root))"

definition assertRootProvenance :: "manifest_step list \<Rightarrow> string \<Rightarrow> string \<Rightarrow> string \<Rightarrow> (manifest_error, unit) result" where
  "assertRootProvenance steps contractAddress registryContractAddress root =
     (case List.find (step_on ''referendum.publish-root'' contractAddress root) steps of
        None \<Rightarrow> Inl (ManifestRefused ''publish-root step'')
      | Some p \<Rightarrow>
          rbind (check (present (step_receipt_text p ''transactionId'')) (ManifestRefused ''publish-root step'')) (\<lambda>_.
          rbind (check (case mt_attestationTransactionId p of None \<Rightarrow> False | Some t \<Rightarrow> trim t \<noteq> [])
            (ManifestRefused ''attestation'')) (\<lambda>_.
          rbind (check (mt_attestationTransactionId p \<noteq> step_receipt_text p ''transactionId'')
            (ManifestRefused ''separate attestation'')) (\<lambda>_.
          check (List.find (\<lambda>s. step_on ''registry.attest'' registryContractAddress root s
              \<and> step_receipt_text s ''transactionId'' = mt_attestationTransactionId p) steps \<noteq> None)
            (ManifestRefused ''attest step'')))))"

definition assertReferendumEvidence :: "manifest_step list \<Rightarrow> manifest_referendum \<Rightarrow> (manifest_error, unit) result" where
  "assertReferendumEvidence steps f =
     rbind (check (present (mf_contractAddress f)) (ManifestRefused ''referendum address'')) (\<lambda>_.
     rbind (check (present (mf_registryContractBindingHex f)) (ManifestRefused ''registry binding'')) (\<lambda>_.
     rbind (assertHex32 (the (mf_registryContractBindingHex f)) ''registryContractBindingHex'') (\<lambda>_.
     rbind (check (present (mf_registryContractAddress f)) (ManifestRefused ''registry address'')) (\<lambda>_.
     rbind (assertHex32 (the (mf_registryContractAddress f)) ''registryContractAddress'') (\<lambda>_.
     all_ok (assertRootProvenance steps (the (mf_contractAddress f)) (the (mf_registryContractAddress f)))
       (filter (\<lambda>root. root \<noteq> mf_initialRootField f) (mf_acceptedRoots f)))))))"

definition requiredStepIds :: "string \<Rightarrow> string list" where
  "requiredStepIds model = [''registry.deploy'', ''registry.issue'']
     @ (if model = ''frozen'' then [''registry.freeze''] else [])
     @ [''referendum.deploy'', ''lifecycle.cast'', ''lifecycle.replay-rejected'', ''lifecycle.close'',
        ''lifecycle.reveal'', ''lifecycle.finalize'']"

definition repeatableStepIds :: "string list" where
  "repeatableStepIds = [''referendum.publish-root'', ''registry.attest'', ''referendum.revoke-root'']"

definition assertTranscriptSteps :: "string \<Rightarrow> manifest_step list \<Rightarrow> (manifest_error, unit) result" where
  "assertTranscriptSteps model steps =
     rbind (check (\<not> (length steps < length (requiredStepIds model)) \<and> set (requiredStepIds model) \<subseteq> set (map mt_id steps))
       (ManifestRefused ''transcript steps'')) (\<lambda>_.
     rbind (check (\<not> (model = ''open'' \<and> ''registry.freeze'' \<in> set (map mt_id steps))) (ManifestRefused ''freeze step'')) (\<lambda>_.
     check (distinct (filter (\<lambda>i. i \<notin> set repeatableStepIds) (map mt_id steps))) (ManifestRefused ''duplicate steps'')))"

text \<open>The receipts of the lifecycle, in the order of \<open>requiredReceipts\<close>.\<close>

definition lifecycle_circuits :: "(string \<times> string) list" where
  "lifecycle_circuits = [(''lifecycle.cast'', ''castVote''), (''lifecycle.close'', ''closeVote''),
     (''lifecycle.reveal'', ''revealVote''), (''lifecycle.finalize'', ''finalizeVote'')]"

definition lifecycle_receipt ::
    "string \<Rightarrow> string \<Rightarrow> manifest_step list \<Rightarrow> string \<times> string \<Rightarrow> (manifest_error, string \<times> receipt) result" where
  "lifecycle_receipt network address steps = (\<lambda>(i, circuit).
     case List.find (\<lambda>s. mt_id s = i) steps of
       None \<Rightarrow> Inl (ManifestRefused i)
     | Some s \<Rightarrow>
         rbind (check (step_done s) (ManifestRefused i)) (\<lambda>_.
         rbind (check (present (step_receipt_text s ''transactionId'')) (ManifestRefused i)) (\<lambda>_.
         case sanitizeCanonicalReceipt (the (mt_receipt s)) of
           Inl _ \<Rightarrow> Inl (ManifestRefused ''canonical receipt'')
         | Inr rc \<Rightarrow>
             rbind (check (r_action rc = Vote \<and> network_str (r_network rc) = network \<and> r_circuit rc = circuit
                 \<and> trim (r_transactionId rc) \<noteq> [] \<and> same_hex (r_contractAddress rc) address) (ManifestRefused circuit)) (\<lambda>_.
             Inr (i, rc)))))"

fun observed_ids :: "string set \<Rightarrow> manifest_observation list \<Rightarrow> (manifest_error, unit) result" where
  "observed_ids seen [] = Inr ()"
| "observed_ids seen (ob # obs) = (case (mo_available ob, mo_transactionId ob) of
     (True, Some t) \<Rightarrow>
       rbind (check (trim t \<noteq> []) (ManifestRefused ''empty observation'')) (\<lambda>_.
       rbind (check (t \<notin> seen) (ManifestRefused ''duplicate observation'')) (\<lambda>_. observed_ids (insert t seen) obs))
   | _ \<Rightarrow> observed_ids seen obs)"

definition endpoint_text :: "manifest \<Rightarrow> string \<Rightarrow> string option option" where
  "endpoint_text m key = as_nullable (fld (mm_endpoints m) key)"

definition observed_receipt :: "manifest \<Rightarrow> string \<times> receipt \<Rightarrow> (manifest_error, unit) result" where
  "observed_receipt m = (\<lambda>(i, rc).
     case filter (\<lambda>ob. mo_stage ob = i \<and> mo_available ob) (mm_observations m) of
       [ob] \<Rightarrow> check (mo_transactionId ob = Some (r_transactionId rc) \<and> endpoint_text m ''indexerHttp'' = Some (mo_source ob))
                 (ManifestRefused ''unbound observation'')
     | _ \<Rightarrow> Inl (ManifestRefused ''observation''))"

definition transaction_of :: "(string \<times> receipt) list \<Rightarrow> string \<Rightarrow> string option" where
  "transaction_of receipts i = map_option r_transactionId (map_of receipts i)"

definition lifecycle_proved :: "manifest_lifecycle \<Rightarrow> (string \<times> receipt) list \<Rightarrow> bool" where
  "lifecycle_proved y receipts = (my_replayRejected y \<and> my_finalized y
     \<and> my_indexerObservations y = int (length lifecycle_circuits)
     \<and> Some (my_castTransactionId y) = transaction_of receipts ''lifecycle.cast''
     \<and> Some (my_closeTransactionId y) = transaction_of receipts ''lifecycle.close''
     \<and> Some (my_revealTransactionId y) = transaction_of receipts ''lifecycle.reveal''
     \<and> Some (my_finalizeTransactionId y) = transaction_of receipts ''lifecycle.finalize'')"

definition assertLifecycle :: "manifest \<Rightarrow> manifest_action \<Rightarrow> (manifest_error, unit) result" where
  "assertLifecycle m a = (case mm_referenda m of
     [] \<Rightarrow> Inl (ManifestRefused ''lifecycle referendum'')
   | f # fs \<Rightarrow>
       rbind (check (present (mf_contractAddress f)) (ManifestRefused ''lifecycle referendum'')) (\<lambda>_.
       let address = the (mf_contractAddress f) in
       rbind (assertHex32 address ''lifecycle referendum address'') (\<lambda>_.
       rbind (mapM (lifecycle_receipt (mm_network m) address (mm_steps m)) lifecycle_circuits) (\<lambda>receipts.
       rbind (check (distinct (map (r_transactionId \<circ> snd) receipts)) (ManifestRefused ''duplicate lifecycle'')) (\<lambda>_.
       rbind (check (transaction_of receipts ''lifecycle.cast'' = Some (ma_transactionId a))
         (ManifestRefused ''action transaction'')) (\<lambda>_.
       rbind (check (map_option mt_status (List.find (\<lambda>s. mt_id s = ''lifecycle.replay-rejected'') (mm_steps m)) = Some ''rejected'')
         (ManifestRefused ''replay'')) (\<lambda>_.
       rbind (check (\<not> (length (mm_observations m) < 5)) (ManifestRefused ''observations'')) (\<lambda>_.
       rbind (observed_ids {} (mm_observations m)) (\<lambda>_.
       rbind (all_ok (observed_receipt m) receipts) (\<lambda>_.
       check (case mm_lifecycle m of None \<Rightarrow> False | Some y \<Rightarrow> lifecycle_proved y receipts)
         (ManifestRefused ''lifecycle''))))))))))) "

definition manifest_digest :: "(string \<Rightarrow> string) \<Rightarrow> json \<Rightarrow> string" where
  "manifest_digest sha256 v = sha256 (utf8 (stableJson (JObj (filter (\<lambda>(k, _). k \<noteq> ''manifestDigest'') (entries v)))))"

definition dust_accounted :: "manifest_dust \<Rightarrow> bool" where
  "dust_accounted d = (md_before d \<noteq> None \<and> md_after d \<noteq> None \<and> md_spent d \<noteq> None
     \<and> md_beforeObservedAt d \<noteq> None \<and> md_afterObservedAt d \<noteq> None \<and> md_valuationAt d \<noteq> None \<and> md_accounted d)"

definition assert_complete :: "(string \<Rightarrow> string) \<Rightarrow> json \<Rightarrow> manifest \<Rightarrow> (manifest_error, unit) result" where
  "assert_complete sha256 v m =
     rbind (check (mm_status m = ''complete'') (ManifestRefused ''status'')) (\<lambda>_.
     rbind (assertIdentity m) (\<lambda>_.
     rbind (assertServices m) (\<lambda>_.
     rbind (assertArtifactHashes m) (\<lambda>_.
     rbind (check (mm_submissionTransport m = Some ''v2-actions'') (ManifestRefused ''submissionTransport'')) (\<lambda>_.
     case mm_action m of
       None \<Rightarrow> Inl (ManifestRefused ''action evidence'')
     | Some a \<Rightarrow>
         rbind (assertAction sha256 a) (\<lambda>_.
         rbind (check (case mm_relay m of None \<Rightarrow> False | Some r \<Rightarrow> relay_proved r) (ManifestRefused ''relay'')) (\<lambda>_.
         rbind (assertRegistrySnapshot (mm_registry m)) (\<lambda>_.
         rbind (all_ok (assertReferendumEvidence (mm_steps m)) (mm_referenda m)) (\<lambda>_.
         rbind (assertTranscriptSteps (mg_enrollmentModel (mm_registry m)) (mm_steps m)) (\<lambda>_.
         rbind (assertLifecycle m a) (\<lambda>_.
         rbind (check (case mm_manifestDigest m of None \<Rightarrow> False | Some d \<Rightarrow> hex_digest 64 d) (ManifestRefused ''manifestDigest'')) (\<lambda>_.
         rbind (check (mm_manifestDigest m = Some (manifest_digest sha256 v)) (ManifestRefused ''digest mismatch'')) (\<lambda>_.
         rbind (check (list_all (\<lambda>key. fld (mm_endpoints m) key \<noteq> Some JNull)
             [''nodeRpc'', ''indexerHttp'', ''indexerWs'', ''proofServer'', ''relay'']) (ManifestRefused ''endpoints'')) (\<lambda>_.
         check (dust_accounted (mm_dust m)) (ManifestRefused ''dust'')))))))))))))))"

definition assertCompletePassportV2DeploymentManifest :: "(string \<Rightarrow> string) \<Rightarrow> json \<Rightarrow> (manifest_error, manifest) result" where
  "assertCompletePassportV2DeploymentManifest sha256 v = (case read_manifest v of
     None \<Rightarrow> Inl ManifestUntyped
   | Some m \<Rightarrow> rbind (assert_complete sha256 v m) (\<lambda>_. Inr m))"

section \<open>Validation and text\<close>

definition validate_manifest ::
    "compact_runtime \<Rightarrow> (string \<Rightarrow> gateway_url option) \<Rightarrow> (string \<Rightarrow> int option) \<Rightarrow> (string \<Rightarrow> string)
       \<Rightarrow> json \<Rightarrow> manifest \<Rightarrow> (manifest_error, unit) result" where
  "validate_manifest rt parse_url date_parse sha256 v m =
     rbind (check (mm_kind m = PASSPORT_V2_MANIFEST_KIND) (ManifestRefused ''kind'')) (\<lambda>_.
     rbind (check (mm_version m = PASSPORT_V2_MANIFEST_VERSION) (ManifestRefused ''version'')) (\<lambda>_.
     rbind (check (mm_network m = mm_networkId m) (ManifestRefused ''network'')) (\<lambda>_.
     rbind (check (trim (mm_generatedAt m) \<noteq> [] \<and> trim (mm_apiUrl m) \<noteq> []) (ManifestRefused ''runtime'')) (\<lambda>_.
     rbind (assertRuntimeApiUrl parse_url (mm_apiUrl m) (mm_network m)) (\<lambda>_.
     rbind (assertPublicArtifacts (mm_artifacts m)) (\<lambda>_.
     rbind (assertPublicEndpoints parse_url (mm_endpoints m)) (\<lambda>_.
     rbind (assertDust date_parse (mm_dust m)) (\<lambda>_.
     rbind (validate_registry rt (mm_registry m)) (\<lambda>_.
     rbind (check (mm_referenda m \<noteq> []) (ManifestRefused ''referenda'')) (\<lambda>_.
     rbind (validate_referenda (mm_registry m) {} (mm_referenda m)) (\<lambda>_.
     rbind (all_ok (validate_observation parse_url) (mm_observations m)) (\<lambda>_.
     if mm_status m = ''complete'' then assert_complete sha256 v m else Inr ()))))))))))))"

definition validatePassportV2DeploymentManifest ::
    "compact_runtime \<Rightarrow> (string \<Rightarrow> gateway_url option) \<Rightarrow> (string \<Rightarrow> int option) \<Rightarrow> (string \<Rightarrow> string)
       \<Rightarrow> json \<Rightarrow> (manifest_error, manifest) result" where
  "validatePassportV2DeploymentManifest rt parse_url date_parse sha256 v =
     rbind (assertNoPrivateManifestFields v) (\<lambda>_. case read_manifest v of
       None \<Rightarrow> Inl ManifestUntyped
     | Some m \<Rightarrow> rbind (validate_manifest rt parse_url date_parse sha256 v m) (\<lambda>_. Inr m))"

text \<open>\<open>JSON.stringify\<close> with an indentation of two spaces.\<close>

definition newline :: "nat \<Rightarrow> string" where
  "newline depth = char_of (10::nat) # replicate (2 * depth) (CHR '' '')"

fun stringify_indented :: "nat \<Rightarrow> json \<Rightarrow> string" where
  "stringify_indented depth (JArr xs) = (if xs = [] then ''[]'' else
     ''['' @ newline (Suc depth) @ join ('','' @ newline (Suc depth)) (map (stringify_indented (Suc depth)) xs)
       @ newline depth @ '']'')"
| "stringify_indented depth (JObj ps) = (if ps = [] then ''{}'' else
     ''{'' @ newline (Suc depth)
       @ join ('','' @ newline (Suc depth)) (map (\<lambda>(k, v). stringify_str k @ '': '' @ stringify_indented (Suc depth) v) ps)
       @ newline depth @ ''}'')"
| "stringify_indented depth v = stringify v"

definition serializePassportV2DeploymentManifest ::
    "compact_runtime \<Rightarrow> (string \<Rightarrow> gateway_url option) \<Rightarrow> (string \<Rightarrow> int option) \<Rightarrow> (string \<Rightarrow> string)
       \<Rightarrow> json \<Rightarrow> (manifest_error, string) result" where
  "serializePassportV2DeploymentManifest rt parse_url date_parse sha256 v =
     rbind (validatePassportV2DeploymentManifest rt parse_url date_parse sha256 v) (\<lambda>_.
     Inr (stringify_indented 0 v @ [char_of (10::nat)]))"

section \<open>The environment of the web application\<close>

definition nullable_json :: "string option \<Rightarrow> json" where
  "nullable_json v = (case v of None \<Rightarrow> JNull | Some s \<Rightarrow> JStr s)"

definition referendum_wire :: "manifest_referendum \<Rightarrow> json" where
  "referendum_wire f = JObj (
     [(''referendumId'', JStr (mf_referendumId f)), (''contractAddress'', nullable_json (mf_contractAddress f)),
      (''registryContractBindingHex'', nullable_json (mf_registryContractBindingHex f)),
      (''registryContractAddress'', nullable_json (mf_registryContractAddress f)),
      (''eventIdHex'', JStr (mf_eventIdHex f)), (''organizerKeyHex'', JStr (mf_organizerKeyHex f)),
      (''rootPublisherKeyHex'', JStr (mf_rootPublisherKeyHex f)), (''initialRootField'', JStr (mf_initialRootField f)),
      (''acceptedRoots'', JArr (map JStr (mf_acceptedRoots f))), (''opensAtUnix'', JStr (mf_opensAtUnix f)),
      (''enrollmentClosesAtUnix'', JStr (mf_enrollmentClosesAtUnix f)), (''closesAtUnix'', JStr (mf_closesAtUnix f)),
      (''revealClosesAtUnix'', JStr (mf_revealClosesAtUnix f)), (''countryPolicy'', nullable_json (mf_countryPolicy f)),
      (''minimumAssurance'', JStr (mf_minimumAssurance f)), (''requireAdult'', JBool (mf_requireAdult f)),
      (''validityReference'', JStr (mf_validityReference f)), (''title'', JStr (mf_title f)),
      (''question'', JStr (mf_question f))]
     @ (if present (mf_description f) then [(''description'', JStr (the (mf_description f)))] else []))"

definition runtime_environment :: "manifest \<Rightarrow> (string \<times> string) list" where
  "runtime_environment m = (let g = mm_registry m in
     [(''VITE_PASSPORT_V2_API_URL'', mm_apiUrl m), (''VITE_MIDNIGHT_NETWORK'', mm_network m),
      (''VITE_CICO_ISSUER_ID'', mg_issuerId g), (''VITE_CICO_CREDENTIAL_EPOCH'', mg_credentialEpoch g),
      (''VITE_CICO_CREDENTIAL_TTL_MS'', show_int (mm_credentialTtlMs m)),
      (''VITE_RARIMO_UNIQUENESS_TIMESTAMP_UPPER_BOUND'', mm_uniquenessTimestampUpperBound m),
      (''VITE_CICO_REGISTRY_ADDRESS'', the (mg_contractAddress g)),
      (''VITE_CICO_REGISTRY_CONTRACT_BINDING_HEX'', the (mg_registryContractBindingHex g)),
      (''VITE_CICO_REGISTRY_ID_HEX'', mg_registryIdHex g), (''VITE_CICO_ISSUER_ID_HEX'', mg_issuerIdHex g),
      (''VITE_CICO_FROZEN_ROOT_FIELD'', case mg_frozenRootField g of None \<Rightarrow> [] | Some r \<Rightarrow> r),
      (''VITE_CICO_ENROLLMENT_MODEL'', mg_enrollmentModel g),
      (''VITE_CICO_REFERENDA_JSON'', stringify (JArr (map referendum_wire (mm_referenda m))))])"

definition passportV2ManifestRuntimeEnvironment :: "(string \<Rightarrow> string) \<Rightarrow> json \<Rightarrow> (manifest_error, (string \<times> string) list) result" where
  "passportV2ManifestRuntimeEnvironment sha256 v =
     rbind (assertCompletePassportV2DeploymentManifest sha256 v) (\<lambda>m. Inr (runtime_environment m))"

end
