(* ===== verification/Midnight_Executor.thy ===== *)
theory Midnight_Executor
  imports Midnight_V2 Receipts
begin

text \<open>
  The executors of the two contracts
  (\<open>api/src/passport-v2/midnight-v2-executors.ts\<close>): the checked constructor arguments, the
  contract an executor has deployed or joined, and the canonical receipt it makes of the
  finalized public data. What the Midnight SDK answers to a deployment, a lookup or a
  call is an argument, \<^const>\<open>None\<close> when it throws; so is its normal form of an address.
\<close>

section \<open>Configuration\<close>

datatype executor_error =
    ArgumentRefused string
  | RegistryRefused midnight_error
  | EqualRoleKeys
  | MainnetRefused
  | TransactionFailed string
  | BadBlockTimestamp
  | NoDeployedAddress
  | NotJoined
  | SdkThrew

record registry_config =
  gc_registryId :: string
  gc_issuerId :: string
  gc_credentialEpoch :: int
  gc_issuerKey :: string
  gc_network :: "MidnightRuntimeNetwork option"
  gc_explorerBaseUrl :: "string option"

record 'd referendum_config =
  xc_registry :: "'d frozen_reference"
  xc_eventId :: string
  xc_organizerKey :: string
  xc_rootPublisherKey :: string
  xc_countryPolicy :: string
  xc_countryPolicyEnabled :: bool
  xc_minimumAssurance :: int
  xc_requireAdult :: bool
  xc_validityReference :: int
  xc_opensAtUnix :: int
  xc_enrollmentClosesAtUnix :: int
  xc_closesAtUnix :: int
  xc_revealClosesAtUnix :: int
  xc_network :: "MidnightRuntimeNetwork option"
  xc_explorerBaseUrl :: "string option"

definition executor_bytes32 :: "string \<Rightarrow> string \<Rightarrow> (executor_error, string) result" where
  "executor_bytes32 v label = (if length v \<noteq> 32 then Inl (ArgumentRefused label) else Inr v)"

definition requireUnsigned :: "int \<Rightarrow> string \<Rightarrow> nat \<Rightarrow> (executor_error, int) result" where
  "requireUnsigned v label bits = (if v < 0 \<or> v > 2 ^ bits - 1 then Inl (ArgumentRefused label) else Inr v)"

definition contractAddressBytesFromHex :: "string \<Rightarrow> string \<Rightarrow> (executor_error, string) result" where
  "contractAddressBytesFromHex address label =
     (let normalized = toLowerCase (remove_0x (trim address)) in
      if \<not> is_hex64 normalized then Inl (ArgumentRefused label) else Inr (bytesFromHex normalized))"

definition requireSupportedNetwork :: "MidnightRuntimeNetwork option \<Rightarrow> (executor_error, MidnightRuntimeNetwork) result" where
  "requireSupportedNetwork network =
     (let selected = (case network of Some n \<Rightarrow> n | None \<Rightarrow> Preview) in
      if selected = Mainnet then Inl MainnetRefused else Inr selected)"

definition credentialRegistryConstructorArgs :: "registry_config \<Rightarrow> (executor_error, string \<times> string \<times> int \<times> string) result" where
  "credentialRegistryConstructorArgs config =
     rbind (executor_bytes32 (gc_registryId config) ''registryId'') (\<lambda>registryId.
     rbind (executor_bytes32 (gc_issuerId config) ''issuerId'') (\<lambda>issuerId.
     rbind (requireUnsigned (gc_credentialEpoch config) ''credentialEpoch'' 64) (\<lambda>epoch.
     rbind (executor_bytes32 (gc_issuerKey config) ''issuerKey'') (\<lambda>issuerKey.
     Inr (registryId, issuerId, epoch, issuerKey)))))"

text \<open>
  The argument tuple of the referendum's constructor, by the names of the ledger fields it
  seals. A digest and an epoch of a reference have their type's range.
\<close>

record 'd referendum_args =
  ra_registryId :: string
  ra_issuerId :: string
  ra_credentialEpoch :: "64 word"
  ra_initialCredentialRoot :: 'd
  ra_registryContractBinding :: string
  ra_registryContract :: string
  ra_eventId :: string
  ra_organizerKey :: string
  ra_rootPublisherKey :: string
  ra_countryPolicy :: string
  ra_countryPolicyEnabled :: bool
  ra_minimumAssurance :: int
  ra_requireAdult :: bool
  ra_validityReference :: int
  ra_opensAtUnix :: int
  ra_enrollmentClosesAtUnix :: int
  ra_closesAtUnix :: int
  ra_revealClosesAtUnix :: int

definition reference_binding :: "'d frozen_reference \<Rightarrow> 'd registry_binding" where
  "reference_binding ref = \<lparr> rb_registryId = fr_registryId ref, rb_issuerId = fr_issuerId ref,
     rb_credentialEpoch = fr_credentialEpoch ref, rb_initialCredentialRoot = fr_frozenRoot ref,
     rb_registryContractBinding = fr_registryContractBinding ref \<rparr>"

definition referendumV2ConstructorArgs ::
  "compact_runtime \<Rightarrow> 'd referendum_config \<Rightarrow> (executor_error, 'd referendum_args) result" where
  "referendumV2ConstructorArgs rt config = (let ref = xc_registry config in
     rbind (check (trim (fr_registryContractAddress ref) \<noteq> []) (ArgumentRefused ''registry.registryContractAddress'')) (\<lambda>_.
     rbind (executor_bytes32 (fr_registryId ref) ''registry.registryId'') (\<lambda>registryId.
     rbind (executor_bytes32 (fr_issuerId ref) ''registry.issuerId'') (\<lambda>issuerId.
     rbind (executor_bytes32 (fr_registryContractBinding ref) ''registry.registryContractBinding'') (\<lambda>binding.
     rbind (map_err RegistryRefused (assertReferendumRegistryBinding rt ref (reference_binding ref))) (\<lambda>_.
     rbind (executor_bytes32 (xc_rootPublisherKey config) ''rootPublisherKey'') (\<lambda>rootPublisherKey.
     rbind (executor_bytes32 (xc_organizerKey config) ''organizerKey'') (\<lambda>organizerKey.
     rbind (check (\<not> equalBytes rootPublisherKey organizerKey) EqualRoleKeys) (\<lambda>_.
     rbind (contractAddressBytesFromHex (fr_registryContractAddress ref) ''registry.registryContractAddress'') (\<lambda>registryContract.
     rbind (executor_bytes32 (xc_eventId config) ''eventId'') (\<lambda>eventId.
     rbind (executor_bytes32 (xc_countryPolicy config) ''countryPolicy'') (\<lambda>countryPolicy.
     rbind (requireUnsigned (xc_minimumAssurance config) ''minimumAssurance'' 8) (\<lambda>minimumAssurance.
     rbind (requireUnsigned (xc_validityReference config) ''validityReference'' 64) (\<lambda>validityReference.
     rbind (requireUnsigned (xc_opensAtUnix config) ''opensAtUnix'' 64) (\<lambda>opens.
     rbind (requireUnsigned (xc_enrollmentClosesAtUnix config) ''enrollmentClosesAtUnix'' 64) (\<lambda>enrollment.
     rbind (requireUnsigned (xc_closesAtUnix config) ''closesAtUnix'' 64) (\<lambda>closes.
     rbind (requireUnsigned (xc_revealClosesAtUnix config) ''revealClosesAtUnix'' 64) (\<lambda>reveal.
     Inr \<lparr> ra_registryId = registryId, ra_issuerId = issuerId, ra_credentialEpoch = fr_credentialEpoch ref,
           ra_initialCredentialRoot = fr_frozenRoot ref, ra_registryContractBinding = binding,
           ra_registryContract = registryContract, ra_eventId = eventId, ra_organizerKey = organizerKey,
           ra_rootPublisherKey = rootPublisherKey, ra_countryPolicy = countryPolicy,
           ra_countryPolicyEnabled = xc_countryPolicyEnabled config, ra_minimumAssurance = minimumAssurance,
           ra_requireAdult = xc_requireAdult config, ra_validityReference = validityReference, ra_opensAtUnix = opens,
           ra_enrollmentClosesAtUnix = enrollment, ra_closesAtUnix = closes, ra_revealClosesAtUnix = reveal \<rparr>))))))))))))))))))"

section \<open>Receipts\<close>

record finalized_tx =
  ft_succeeded :: bool
  ft_txId :: string
  ft_txHash :: string
  ft_blockHeight :: int
  ft_blockHash :: string
  ft_blockTimestamp :: int

definition explorerUrl :: "string option \<Rightarrow> string \<Rightarrow> string option" where
  "explorerUrl baseUrl transactionId = (case baseUrl of
     None \<Rightarrow> None
   | Some b \<Rightarrow> if trim b = [] then None else Some (strip_slashes b @ ''/'' @ encodeURIComponent transactionId))"

definition toIsoTimestamp :: "int \<Rightarrow> (executor_error, string) result" where
  "toIsoTimestamp value = (let milliseconds = (if value < 1000000000000 then value * 1000 else value) in
     if \<bar>milliseconds\<bar> > max_time then Inl BadBlockTimestamp else Inr (toISOString milliseconds))"

definition canonicalReceiptFromFinalizedPublic ::
  "finalized_tx \<Rightarrow> CivicActionKind \<Rightarrow> string \<Rightarrow> MidnightRuntimeNetwork \<Rightarrow> string \<Rightarrow> string option
     \<Rightarrow> (executor_error, receipt) result" where
  "canonicalReceiptFromFinalizedPublic d action circuit network contractAddress explorerBaseUrl =
     rbind (check (ft_succeeded d) (TransactionFailed circuit)) (\<lambda>_.
     rbind (toIsoTimestamp (ft_blockTimestamp d)) (\<lambda>blockTimestamp.
     Inr \<lparr> r_action = action, r_network = network, r_transactionId = ft_txId d, r_transactionHash = ft_txHash d,
           r_contractAddress = contractAddress, r_circuit = circuit, r_blockHeight = ft_blockHeight d,
           r_blockHash = ft_blockHash d, r_blockTimestamp = blockTimestamp,
           r_explorerUrl = truthy_str (explorerUrl explorerBaseUrl (ft_txId d)) \<rparr>))"

section \<open>Executors\<close>

text \<open>One state for both: the address it deployed or joined, and whether it holds a contract.\<close>

record midnight_executor =
  ex_action :: CivicActionKind
  ex_network :: MidnightRuntimeNetwork
  ex_explorerBaseUrl :: "string option"
  ex_joined :: bool
  ex_address :: "string option"

definition createCredentialRegistryV1Executor :: "registry_config \<Rightarrow> (executor_error, midnight_executor) result" where
  "createCredentialRegistryV1Executor config =
     rbind (credentialRegistryConstructorArgs config) (\<lambda>args.
     rbind (requireSupportedNetwork (gc_network config)) (\<lambda>network.
     Inr \<lparr> ex_action = Credential, ex_network = network, ex_explorerBaseUrl = gc_explorerBaseUrl config,
           ex_joined = False, ex_address = None \<rparr>))"

definition createReferendumV2Executor :: "compact_runtime \<Rightarrow> 'd referendum_config \<Rightarrow> (executor_error, midnight_executor) result" where
  "createReferendumV2Executor rt config =
     rbind (referendumV2ConstructorArgs rt config) (\<lambda>args.
     rbind (requireSupportedNetwork (xc_network config)) (\<lambda>network.
     Inr \<lparr> ex_action = Vote, ex_network = network, ex_explorerBaseUrl = xc_explorerBaseUrl config,
           ex_joined = False, ex_address = None \<rparr>))"

definition executor_receipt :: "midnight_executor \<Rightarrow> finalized_tx \<Rightarrow> string \<Rightarrow> (executor_error, receipt) result" where
  "executor_receipt ex d circuit = canonicalReceiptFromFinalizedPublic d (ex_action ex) circuit (ex_network ex)
     (case ex_address ex of Some a \<Rightarrow> a | None \<Rightarrow> ''unavailable'') (ex_explorerBaseUrl ex)"

text \<open>The deployment's public data and the address that it carries, if it carries one.\<close>

definition executor_deploy ::
  "(finalized_tx \<times> string option) option \<Rightarrow> midnight_executor \<Rightarrow> midnight_executor \<times> (executor_error, string \<times> receipt) result" where
  "executor_deploy answer ex = (case answer of
     None \<Rightarrow> (ex, Inl SdkThrew)
   | Some (d, address) \<Rightarrow>
       (case truthy_str address of
          None \<Rightarrow> (ex, Inl NoDeployedAddress)
        | Some a \<Rightarrow>
            let ex1 = ex \<lparr> ex_joined := True, ex_address := Some a \<rparr> in
            (ex1, rbind (executor_receipt ex1 d ''deploy'') (\<lambda>r. Inr (a, r)))))"

definition executor_join ::
  "(string \<Rightarrow> string option) \<Rightarrow> bool \<Rightarrow> string \<Rightarrow> midnight_executor \<Rightarrow> midnight_executor \<times> (executor_error, unit) result" where
  "executor_join asContractAddress found contractAddress ex = (case asContractAddress contractAddress of
     None \<Rightarrow> (ex, Inl SdkThrew)
   | Some normalized \<Rightarrow>
       if \<not> found then (ex, Inl SdkThrew)
       else (ex \<lparr> ex_joined := True, ex_address := Some normalized \<rparr>, Inr ()))"

text \<open>A call of a circuit: \<open>addCredential\<close>, \<open>freeze\<close>, \<open>castVote\<close> and the others differ in its name.\<close>

definition executor_call :: "string \<Rightarrow> finalized_tx option \<Rightarrow> midnight_executor \<Rightarrow> (executor_error, receipt) result" where
  "executor_call circuit answer ex =
     (if \<not> ex_joined ex then Inl NotJoined
      else case answer of None \<Rightarrow> Inl SdkThrew | Some d \<Rightarrow> executor_receipt ex d circuit)"

definition executor_revealVote :: "string \<Rightarrow> finalized_tx option \<Rightarrow> midnight_executor \<Rightarrow> (executor_error, receipt) result" where
  "executor_revealVote salt answer ex =
     (if \<not> ex_joined ex then Inl NotJoined
      else rbind (executor_bytes32 salt ''salt'') (\<lambda>_. executor_call ''revealVote'' answer ex))"

section \<open>Lemmas\<close>

lemma executor_bytes32_eq [simp]: "executor_bytes32 v l = Inr x \<longleftrightarrow> length v = 32 \<and> x = v"
  by (auto simp: executor_bytes32_def)

lemma requireUnsigned_eq [simp]: "requireUnsigned v l n = Inr x \<longleftrightarrow> 0 \<le> v \<and> v < 2 ^ n \<and> x = v"
  by (auto simp: requireUnsigned_def)

lemma executor_receipt_fields:
  assumes "executor_receipt ex d circuit = Inr r"
  shows "ft_succeeded d" "r_action r = ex_action ex" "r_circuit r = circuit" "r_network r = ex_network ex"
    "r_transactionId r = ft_txId d" "r_contractAddress r = (case ex_address ex of Some a \<Rightarrow> a | None \<Rightarrow> ''unavailable'')"
  using assms by (auto simp: executor_receipt_def canonicalReceiptFromFinalizedPublic_def)

end
