(* ===== verification/Walletless_Provider.thy ===== *)
theory Walletless_Provider
  imports Walletless_Client Capability_Issuer Durable_Stores
begin

text \<open>
  The browser's seedless Midnight provider
  (\<open>api/src/passport-v2/midnight-v2-relayer-providers.ts\<close>): the client of the capability
  service, the scope of an action, the one submission through the relay with its record
  of a pending action, and the wait for the canonical receipt. Within one submission the
  answers of the relay, the clock and the random ids are its environment; a wait is a
  list of rounds, and may not have ended when the rounds run out. The proving, wallet,
  private state and indexer providers of the SDK are left out.
\<close>

section \<open>Capability client\<close>

datatype provider_error =
    ProviderOptionsRefused
  | ProviderUrl client_error
  | KeysUnavailable
  | CapabilityUnreachable
  | CapabilityRequestFailed int
  | NoActionScope
  | ActionScopeActive
  | NoSecureRandom
  | RelayFailed client_error
  | ActionLost
  | RelayStopped json
  | ReceiptMismatch
  | StillPending

definition assertLocalOrSecureUrl :: "(string \<Rightarrow> parsed_url option) \<Rightarrow> string \<Rightarrow> (provider_error, unit) result" where
  "assertLocalOrSecureUrl parse_url value = (case parse_url value of
     None \<Rightarrow> Inl (ProviderUrl UrlInvalid)
   | Some url \<Rightarrow>
       let local = u_hostname url \<in> {''localhost'', ''127.0.0.1'', ''::1''}
       in check (\<not> (u_protocol url \<noteq> ''https:'' \<and> \<not> (local \<and> u_protocol url = ''http:''))) (ProviderUrl UrlNotSecure))"

definition new_capability_client :: "(string \<Rightarrow> parsed_url option) \<Rightarrow> string \<Rightarrow> (provider_error, string) result" where
  "new_capability_client parse_url baseUrl =
     rbind (assertLocalOrSecureUrl parse_url baseUrl) (\<lambda>_. Inr (strip_slashes baseUrl))"

definition capability_request_json :: "capability_request \<Rightarrow> json" where
  "capability_request_json r = JObj
     [(''actionId'', JStr (ca_actionId r)), (''idempotencyKey'', JStr (ca_idempotencyKey r)),
      (''requestHash'', JStr (ca_requestHash r)), (''network'', JStr (ca_network r)),
      (''contractAddress'', JStr (ca_contractAddress r)), (''circuit'', JStr (ca_circuit r)),
      (''action'', JStr (action_str (ca_action r))), (''credentialAuthorization'', JStr (ca_credentialAuthorization r))]"

definition capability_call :: "string \<Rightarrow> capability_request \<Rightarrow> fetch_request" where
  "capability_call baseUrl r = \<lparr> fr_method = ''POST'', fr_url = baseUrl @ ''/v1/action-capabilities'',
     fr_headers = [(''accept'', ''application/json''), (''content-type'', ''application/json'')],
     fr_body = Some (stringify (capability_request_json r)) \<rparr>"

definition client_issueCapability ::
  "(fetch_request \<Rightarrow> fetch_answer) \<Rightarrow> string \<Rightarrow> capability_request \<Rightarrow> (provider_error, string) result" where
  "client_issueCapability fetch baseUrl r = (case fetch (capability_call baseUrl r) of
     FetchRejected \<Rightarrow> Inl CapabilityUnreachable
   | Fetched status answer \<Rightarrow>
       let payload = (case answer of Some v \<Rightarrow> v | None \<Rightarrow> JNull) in
       if \<not> response_ok status \<or> \<not> isRecord payload then Inl (CapabilityRequestFailed status)
       else case as_str (fld payload ''actionCapability'') of
           Some token \<Rightarrow> Inr token
         | None \<Rightarrow> Inl (CapabilityRequestFailed status))"

section \<open>State\<close>

record action_scope =
  sc_credentialAuthorization :: string
  sc_contractAddress :: string
  sc_circuit :: string
  sc_action :: CivicActionKind

record pending_action =
  pa_actionId :: string
  pa_idempotencyKey :: string
  pa_requestHash :: string

record action_trace =
  at_actionId :: string
  at_idempotencyKey :: string
  at_actionIdDigest :: string
  at_idempotencyKeyDigest :: string
  at_requestHash :: string
  at_txDigest :: string
  at_capabilityDigest :: string
  at_transactionId :: string

record walletless_provider =
  wp_relay :: client
  wp_networkId :: string
  wp_pollIntervalMs :: int
  wp_submissionTimeoutMs :: int

record walletless_state =
  ws_activeScope :: "action_scope option"
  ws_pending :: "string \<rightharpoonup> pending_action"
  ws_lastActionTrace :: "action_trace option"

definition new_walletless_state :: walletless_state where
  "new_walletless_state = \<lparr> ws_activeScope = None, ws_pending = Map.empty, ws_lastActionTrace = None \<rparr>"

record provider_options =
  po_window :: bool
  po_api :: bool
  po_relayUrl :: string
  po_proofServerUri :: "string option"
  po_networkId :: string
  po_zkConfigBaseUrl :: "string option"
  po_zkConfigProvider :: bool
  po_pollIntervalMs :: "int option"
  po_submissionTimeoutMs :: "int option"

definition boundedDelay :: "int \<Rightarrow> (provider_error, int) result" where
  "boundedDelay value =
     (if \<bar>value\<bar> > max_safe \<or> value < 10 \<or> value > 10 * 60000 then Inl ProviderOptionsRefused else Inr value)"

definition absolute_http :: "string \<Rightarrow> bool" where
  "absolute_http s = (take 7 (toLowerCase s) = ''http://'' \<or> take 8 (toLowerCase s) = ''https://'')"

text \<open>The relay's keys are fetched and not looked at.\<close>

definition createReferendumV2WalletlessProviders ::
  "(string \<Rightarrow> parsed_url option) \<Rightarrow> (string \<Rightarrow> fetch_answer) \<Rightarrow> string \<Rightarrow> provider_options
     \<Rightarrow> (provider_error, walletless_provider) result" where
  "createReferendumV2WalletlessProviders parse_url fetch origin opts =
     rbind (check (\<not> (po_window opts \<and> \<not> po_api opts)) ProviderOptionsRefused) (\<lambda>_.
     rbind (check (\<not> (po_api opts \<and> truthy_str (po_proofServerUri opts) \<noteq> None)) ProviderOptionsRefused) (\<lambda>_.
     rbind (assertLocalOrSecureUrl parse_url (po_relayUrl opts)) (\<lambda>_.
     rbind (if po_api opts then Inr ()
            else case truthy_str (po_proofServerUri opts) of
              None \<Rightarrow> Inl ProviderOptionsRefused | Some uri \<Rightarrow> assertLocalOrSecureUrl parse_url uri) (\<lambda>_.
     rbind (map_err ProviderUrl (new_client parse_url (po_relayUrl opts) None)) (\<lambda>relay.
     rbind (case fetch (strip_slashes (po_relayUrl opts) @ ''/keys'') of
              Fetched status (Some keys) \<Rightarrow> check (response_ok status) KeysUnavailable
            | _ \<Rightarrow> Inl KeysUnavailable) (\<lambda>_.
     rbind (check (\<not> (po_zkConfigProvider opts \<and> po_window opts)) ProviderOptionsRefused) (\<lambda>_.
     rbind (check (po_zkConfigProvider opts \<or> po_window opts
         \<or> absolute_http (case po_zkConfigBaseUrl opts of Some u \<Rightarrow> u
             | None \<Rightarrow> (if po_window opts then origin else []) @ ''/managed/referendum-v2'')) ProviderOptionsRefused) (\<lambda>_.
     rbind (boundedDelay (case po_pollIntervalMs opts of Some t \<Rightarrow> t | None \<Rightarrow> 500)) (\<lambda>poll.
     rbind (boundedDelay (case po_submissionTimeoutMs opts of Some t \<Rightarrow> t | None \<Rightarrow> 120000)) (\<lambda>timeout.
     Inr \<lparr> wp_relay = relay, wp_networkId = po_networkId opts, wp_pollIntervalMs = poll,
           wp_submissionTimeoutMs = timeout \<rparr>))))))))))"

section \<open>The scope of an action\<close>

datatype outcome = Returned string | Threw provider_error | Waiting

definition run_scope ::
  "action_scope \<Rightarrow> (walletless_state \<Rightarrow> walletless_state \<times> outcome) \<Rightarrow> walletless_state \<Rightarrow> walletless_state \<times> outcome" where
  "run_scope scope operation st =
     (if ws_activeScope st \<noteq> None then (st, Threw ActionScopeActive)
      else case operation (st \<lparr> ws_activeScope := Some scope \<rparr>) of
        (st1, Waiting) \<Rightarrow> (st1, Waiting)
      | (st1, result) \<Rightarrow> (st1 \<lparr> ws_activeScope := None \<rparr>, result))"

section \<open>Digests\<close>

definition digestText :: "(string \<Rightarrow> string) \<Rightarrow> string \<Rightarrow> string" where
  "digestText sha256 value = sha256 (utf8 value)"

definition walletlessActionRequestHash ::
  "(string \<Rightarrow> string) \<Rightarrow> string \<Rightarrow> string \<Rightarrow> string \<Rightarrow> CivicActionKind \<Rightarrow> string \<Rightarrow> string" where
  "walletlessActionRequestHash sha256 network contractAddress circuit action tx =
     digestText sha256 (''midnight-referendum:v2-action:1:'' @ stableJson (JObj
       [(''action'', JStr (action_str action)), (''contractAddress'', JStr contractAddress),
        (''circuit'', JStr circuit), (''network'', JStr network), (''tx'', JStr tx), (''version'', JNum (JInt 1))]))"

definition pending_key :: "(string \<Rightarrow> string) \<Rightarrow> action_scope \<Rightarrow> string" where
  "pending_key sha256 scope = digestText sha256 (''midnight-referendum:pending-v2:1:'' @ sc_contractAddress scope @ '':''
     @ sc_circuit scope @ '':'' @ sc_credentialAuthorization scope)"

section \<open>Waiting for the receipt\<close>

record wait_round =
  wt_receipt :: "fetch_request \<Rightarrow> fetch_answer"
  wt_now :: int
  wt_action :: "fetch_request \<Rightarrow> fetch_answer"

definition receipt_matches :: "receipt \<Rightarrow> walletless_job \<Rightarrow> walletless_job \<Rightarrow> bool" where
  "receipt_matches r initial job =
     (network_str (r_network r) = wj_network initial \<and> r_contractAddress r = wj_contractAddress initial
      \<and> r_circuit r = wj_circuit initial
      \<and> (case truthy_str (wj_transactionId job) of Some t \<Rightarrow> r_transactionId r = t | None \<Rightarrow> True))"

fun waitForCanonicalReceipt :: "client \<Rightarrow> int \<Rightarrow> walletless_job \<Rightarrow> walletless_job option \<Rightarrow> wait_round list \<Rightarrow> outcome" where
  "waitForCanonicalReceipt relay deadline initial None rounds = Threw ActionLost"
| "waitForCanonicalReceipt relay deadline initial (Some job) rounds =
     (if wj_status job = JStr ''failed'' \<or> wj_status job = JStr ''recovery_required''
      then Threw (RelayStopped (case wj_errorCode job of Some e \<Rightarrow> JStr e | None \<Rightarrow> wj_status job))
      else case rounds of
        [] \<Rightarrow> Waiting
      | turn # later \<Rightarrow>
          (case client_getReceipt (wt_receipt turn) relay (wj_actionId initial) of
             Inl e \<Rightarrow> Threw (RelayFailed e)
           | Inr (Some r) \<Rightarrow> if receipt_matches r initial job then Returned (r_transactionId r) else Threw ReceiptMismatch
           | Inr None \<Rightarrow>
               if deadline \<le> wt_now turn then Threw StillPending
               else (case client_getAction (wt_action turn) relay (wj_actionId initial) of
                   Inl e \<Rightarrow> Threw (RelayFailed e)
                 | Inr next_job \<Rightarrow> waitForCanonicalReceipt relay deadline initial next_job later)))"

section \<open>Submission\<close>

record submit_env =
  se_recover :: "fetch_request \<Rightarrow> fetch_answer"
  se_recoverStart :: int
  se_recoverRounds :: "wait_round list"
  se_randomIds :: "(string \<times> string) option"
  se_issue :: "capability_request \<Rightarrow> (provider_error, string) result"
  se_submit :: "fetch_request \<Rightarrow> fetch_answer"
  se_start :: int
  se_rounds :: "wait_round list"

definition scope_capability ::
  "(string \<Rightarrow> string) \<Rightarrow> walletless_provider \<Rightarrow> action_scope \<Rightarrow> string \<Rightarrow> string \<Rightarrow> string \<Rightarrow> capability_request" where
  "scope_capability sha256 p scope actionId idempotencyKey tx = \<lparr> ca_actionId = actionId, ca_idempotencyKey = idempotencyKey,
     ca_requestHash = walletlessActionRequestHash sha256 (wp_networkId p) (sc_contractAddress scope) (sc_circuit scope) (sc_action scope) tx,
     ca_network = wp_networkId p, ca_contractAddress = sc_contractAddress scope, ca_circuit = sc_circuit scope,
     ca_action = sc_action scope, ca_credentialAuthorization = sc_credentialAuthorization scope \<rparr>"

definition scope_submission :: "capability_request \<Rightarrow> string \<Rightarrow> string \<Rightarrow> walletless_request" where
  "scope_submission c token tx = \<lparr> wr_actionId = ca_actionId c, wr_idempotencyKey = ca_idempotencyKey c,
     wr_requestHash = Some (ca_requestHash c), wr_actionCapability = token, wr_network = ca_network c,
     wr_contractAddress = ca_contractAddress c, wr_circuit = ca_circuit c, wr_action = ca_action c, wr_tx = tx \<rparr>"

definition trace_of :: "(string \<Rightarrow> string) \<Rightarrow> capability_request \<Rightarrow> string \<Rightarrow> string \<Rightarrow> string \<Rightarrow> action_trace" where
  "trace_of sha256 c token tx transactionId = \<lparr> at_actionId = ca_actionId c, at_idempotencyKey = ca_idempotencyKey c,
     at_actionIdDigest = digestText sha256 (''midnight-referendum:v2-action-id-digest:1:'' @ ca_actionId c),
     at_idempotencyKeyDigest = digestText sha256 (''midnight-referendum:v2-idempotency-digest:1:'' @ ca_idempotencyKey c),
     at_requestHash = ca_requestHash c, at_txDigest = digestText sha256 (''midnight-referendum:v2-tx:1:'' @ tx),
     at_capabilityDigest = digestText sha256 (''midnight-referendum:v2-capability-digest:1:'' @ token),
     at_transactionId = transactionId \<rparr>"

definition forget_pending :: "string \<Rightarrow> walletless_state \<Rightarrow> walletless_state" where
  "forget_pending key st = st \<lparr> ws_pending := (ws_pending st)(key := None) \<rparr>"

definition submit_new ::
  "(string \<Rightarrow> string) \<Rightarrow> walletless_provider \<Rightarrow> submit_env \<Rightarrow> action_scope \<Rightarrow> string \<Rightarrow> walletless_state
     \<Rightarrow> walletless_state \<times> outcome" where
  "submit_new sha256 p env scope tx st = (case se_randomIds env of
     None \<Rightarrow> (st, Threw NoSecureRandom)
   | Some (actionId, idempotencyKey) \<Rightarrow>
       let c = scope_capability sha256 p scope actionId idempotencyKey tx; key = pending_key sha256 scope in
       (case se_issue env c of
          Inl e \<Rightarrow> (st, Threw e)
        | Inr token \<Rightarrow>
            let st1 = st \<lparr> ws_pending := (ws_pending st)(key \<mapsto> \<lparr> pa_actionId = actionId, pa_idempotencyKey = idempotencyKey,
                  pa_requestHash = ca_requestHash c \<rparr>) \<rparr> in
            (case client_submit (se_submit env) (wp_relay p) (scope_submission c token tx) of
               Inl e \<Rightarrow> (st1, Threw (RelayFailed e))
             | Inr job \<Rightarrow>
                 (case waitForCanonicalReceipt (wp_relay p) (se_start env + wp_submissionTimeoutMs p) job (Some job) (se_rounds env) of
                    Returned transactionId \<Rightarrow>
                      (forget_pending key (st1 \<lparr> ws_lastActionTrace := Some (trace_of sha256 c token tx transactionId) \<rparr>),
                       Returned transactionId)
                  | other \<Rightarrow> (st1, other)))))"

text \<open>The transaction is the proven transaction, serialized.\<close>

definition submitTx ::
  "(string \<Rightarrow> string) \<Rightarrow> walletless_provider \<Rightarrow> submit_env \<Rightarrow> string \<Rightarrow> walletless_state \<Rightarrow> walletless_state \<times> outcome" where
  "submitTx sha256 p env provenTx st = (case ws_activeScope st of
     None \<Rightarrow> (st, Threw NoActionScope)
   | Some scope \<Rightarrow>
       let tx = toLowerCase (bytesToHex provenTx); key = pending_key sha256 scope in
       (case ws_pending st key of
          None \<Rightarrow> submit_new sha256 p env scope tx st
        | Some previous \<Rightarrow>
            (case client_getAction (se_recover env) (wp_relay p) (pa_actionId previous) of
               Inl e \<Rightarrow> (st, Threw (RelayFailed e))
             | Inr None \<Rightarrow> submit_new sha256 p env scope tx (forget_pending key st)
             | Inr (Some recovered) \<Rightarrow>
                 if wj_requestHash recovered = pa_requestHash previous
                 then (case waitForCanonicalReceipt (wp_relay p) (se_recoverStart env + wp_submissionTimeoutMs p) recovered
                         (Some recovered) (se_recoverRounds env) of
                     Returned transactionId \<Rightarrow> (forget_pending key st, Returned transactionId)
                   | other \<Rightarrow> (st, other))
                 else submit_new sha256 p env scope tx (forget_pending key st))))"

end
