(* ===== verification/Action_Adapter.thy ===== *)
theory Action_Adapter
  imports Midnight_Executor Rarimo_Adapter Walletless_Provider
begin

text \<open>
  The browser's vote adapter (\<open>api/src/passport-v2/midnight-civic-action-adapter.ts\<close>): the
  catalogue, the votes in flight behind the lock of the private state, and one vote from
  the credential to the receipt, with the canonical state resolver and the executor as
  they are by default. Votes wait for each other in a queue; the one at its head runs to
  its end. What the credential port, the indexer and the SDK answer to one vote is its
  environment, and the call of the circuit is a function on the state of whatever it runs
  on, such as the provider of a sponsored vote. The ledger views of the indexer are the
  ledgers of the contract theories.
\<close>

section \<open>Catalogue\<close>

datatype action_error =
    ActionError CivicCredentialErrorCode bool
  | ActionOptions
  | NoCanonicalState
  | StateRefused midnight_error
  | NotAcceptingVotes
  | EventMismatch
  | MaterialRefused
  | ExecutionFailed executor_error
  | ReceiptRefused

record 'd catalog_entry =
  ct_referendumId :: string
  ct_contractAddress :: string
  ct_config :: "'d referendum_config"

definition new_action_adapter :: "'d catalog_entry list \<Rightarrow> (action_error, (string \<times> 'd catalog_entry) list) result" where
  "new_action_adapter referenda =
     rbind (check (list_all (\<lambda>e. trim (ct_referendumId e) \<noteq> [] \<and> trim (ct_contractAddress e) \<noteq> []) referenda) ActionOptions) (\<lambda>_.
     rbind (check (distinct (map ct_referendumId referenda)) ActionOptions) (\<lambda>_.
     Inr (map (\<lambda>e. (ct_referendumId e, e)) referenda)))"

section \<open>The voter's private state\<close>

definition material_bytes :: "string \<Rightarrow> (action_error, string) result" where
  "material_bytes v = (if length v \<noteq> 32 then Inl MaterialRefused else Inr v)"

definition buildReferendumV2VoterPrivateState ::
  "(string \<Rightarrow> int option) \<Rightarrow> private_material \<Rightarrow> 'd merkle_path \<Rightarrow> VoteChoice \<Rightarrow> string
     \<Rightarrow> (action_error, 'd referendum_private) result" where
  "buildReferendumV2VoterPrivateState date_parse material voterPath choice voteSalt = (let claims = pm_claims material in
     rbind (material_bytes (pm_voterSecret material)) (\<lambda>voterSecret.
     rbind (material_bytes (pm_holderBinding material)) (\<lambda>holderBinding.
     rbind (material_bytes (pm_holderBlind material)) (\<lambda>holderBlind.
     rbind (material_bytes (pm_credentialBlind material)) (\<lambda>credentialBlind.
     rbind (map_err (\<lambda>_. MaterialRefused) (padBytes32 (cl_country claims))) (\<lambda>country.
     rbind (map_err (\<lambda>_. MaterialRefused) (isoTimestampSeconds date_parse (cl_validUntil claims))) (\<lambda>validUntil.
     rbind (material_bytes voteSalt) (\<lambda>salt.
     Inr \<lparr> fp_role = VoterRole, fp_organizerSecret = None, fp_rootPublisherSecret = None, fp_voterSecret = Some voterSecret,
           fp_holderBinding = Some holderBinding, fp_holderBlind = Some holderBlind, fp_credentialBlind = Some credentialBlind,
           fp_credentialCountry = Some country, fp_credentialAgeClass = Some (ageClassCode (cl_ageClass claims)),
           fp_credentialAssurance = Some (assuranceCode (cl_assurance claims)),
           fp_credentialClaimEpoch = Some (cl_credentialEpoch claims), fp_credentialValidUntil = Some validUntil,
           fp_voterPath = Some voterPath, fp_voterChoice = Some choice, fp_voteSalt = Some salt, fp_revealPath = None \<rparr>))))))))"

section \<open>The canonical state\<close>

definition entry_binding :: "'d catalog_entry \<Rightarrow> 'd registry_binding" where
  "entry_binding e = reference_binding (xc_registry (ct_config e))"

definition sealed_binding :: "'d referendum_sealed \<Rightarrow> 'd registry_binding" where
  "sealed_binding sl = \<lparr> rb_registryId = sl_registryId sl, rb_issuerId = sl_issuerId sl,
     rb_credentialEpoch = sl_credentialEpoch sl, rb_initialCredentialRoot = sl_initialCredentialRoot sl,
     rb_registryContractBinding = sl_registryContractBinding sl \<rparr>"

text \<open>The two ledgers are what the indexer answers, \<^const>\<open>None\<close> for no state.\<close>

definition assertCanonicalBinding ::
  "compact_runtime \<Rightarrow> 'd merkle_runtime \<Rightarrow> 'd registry_ledger option \<Rightarrow> 'd referendum_ledger option \<Rightarrow> 'd catalog_entry
     \<Rightarrow> (action_error, unit) result" where
  "assertCanonicalBinding rt m registryState referendumState e = (case registryState of
     None \<Rightarrow> Inl NoCanonicalState
   | Some r \<Rightarrow>
       rbind (map_err StateRefused (createFrozenCredentialRegistryReference rt
           (fr_registryContractAddress (xc_registry (ct_config e))) (parseCredentialRegistryV1 m r))) (\<lambda>reference.
       rbind (map_err StateRefused (assertReferendumRegistryBinding rt reference (entry_binding e))) (\<lambda>_.
       case referendumState of
         None \<Rightarrow> Inl NoCanonicalState
       | Some s \<Rightarrow>
           let v = parseReferendumV2 s in
           rbind (map_err StateRefused (assertReferendumRegistryBinding rt reference (sealed_binding (fv_sealed v)))) (\<lambda>_.
           rbind (check (\<not> (fv_phase v \<noteq> ''COMMIT'' \<or> fv_closed v)) NotAcceptingVotes) (\<lambda>_.
           check (equalBytes (sl_eventId (fv_sealed v)) (xc_eventId (ct_config e))) EventMismatch)))))"

definition resolveCredentialPath ::
  "'d merkle_runtime \<Rightarrow> 'd registry_ledger option \<Rightarrow> string \<Rightarrow> (action_error, 'd merkle_path) result" where
  "resolveCredentialPath m registryState leaf = (case registryState of
     None \<Rightarrow> Inl NoCanonicalState
   | Some r \<Rightarrow> map_err StateRefused (findCredentialPath m r leaf))"

definition assertVoteReceipt :: "receipt \<Rightarrow> string \<Rightarrow> (action_error, unit) result" where
  "assertVoteReceipt r contractAddress = check (\<not> (r_action r \<noteq> Vote \<or> r_circuit r \<noteq> ''castVote''
     \<or> r_contractAddress r \<noteq> contractAddress \<or> r_network r = Mainnet)) ReceiptRefused"

section \<open>One vote\<close>

record cast_request =
  cr_referendumId :: string
  cr_choice :: VoteChoice
  cr_handle :: string

record 'd cast_env =
  cn_authorization :: "(action_error, string option) result"
  cn_material :: "(action_error, private_material option) result"
  cn_registry :: "'d registry_ledger option"
  cn_referendum :: "'d referendum_ledger option"
  cn_registryForPath :: "'d registry_ledger option"
  cn_salt :: "string option"
  cn_asContractAddress :: "string \<Rightarrow> string option"
  cn_found :: bool

text \<open>Up to the private state: the entry, the executor and the state that the vote will join with.\<close>

definition prepare_vote ::
  "compact_runtime \<Rightarrow> 'd merkle_runtime \<Rightarrow> (string \<Rightarrow> int option) \<Rightarrow> 'd cast_env \<Rightarrow> (string \<times> 'd catalog_entry) list
     \<Rightarrow> cast_request \<Rightarrow> (action_error, 'd catalog_entry \<times> midnight_executor \<times> 'd referendum_private) result" where
  "prepare_vote rt m date_parse env referenda request = (case map_of referenda (cr_referendumId request) of
     None \<Rightarrow> Inl (ActionError POLICY_NOT_SATISFIED False)
   | Some e \<Rightarrow>
       rbind (cn_authorization env) (\<lambda>authorization.
       rbind (check (authorization = Some (cr_handle request)) (ActionError CREDENTIAL_NOT_FOUND False)) (\<lambda>_.
       rbind (cn_material env) (\<lambda>found.
       case found of None \<Rightarrow> Inl (ActionError CREDENTIAL_NOT_FOUND False) | Some material \<Rightarrow>
       rbind (assertCanonicalBinding rt m (cn_registry env) (cn_referendum env) e) (\<lambda>_.
       rbind (resolveCredentialPath m (cn_registryForPath env) (pm_credentialLeaf material)) (\<lambda>voterPath.
       case cn_salt env of None \<Rightarrow> Inl (ActionError ADAPTER_UNAVAILABLE False) | Some voteSalt \<Rightarrow>
       rbind (buildReferendumV2VoterPrivateState date_parse material voterPath (cr_choice request) voteSalt) (\<lambda>privateState.
       rbind (map_err ExecutionFailed (createReferendumV2Executor rt (ct_config e))) (\<lambda>executor.
       Inr (e, executor, privateState)))))))))"

text \<open>
  The join stores the private state with the SDK, which keeps one per kind of contract; the call of the
  circuit then runs on it and on the state \<open>w\<close>.
\<close>

definition castVoteOnce ::
  "compact_runtime \<Rightarrow> 'd merkle_runtime \<Rightarrow> (string \<Rightarrow> int option) \<Rightarrow> 'd cast_env
     \<Rightarrow> (string \<Rightarrow> 'd referendum_private \<Rightarrow> 'w \<Rightarrow> 'w \<times> finalized_tx option) \<Rightarrow> (string \<times> 'd catalog_entry) list
     \<Rightarrow> cast_request \<Rightarrow> 'd referendum_private option \<times> 'w
     \<Rightarrow> ('d referendum_private option \<times> 'w) \<times> (action_error, receipt) result" where
  "castVoteOnce rt m date_parse env vote_call referenda request = (\<lambda>(stored, w).
     (case prepare_vote rt m date_parse env referenda request of
        Inl err \<Rightarrow> ((stored, w), Inl err)
      | Inr (e, ex, privateState) \<Rightarrow>
          (case executor_join (cn_asContractAddress env) (cn_found env) (ct_contractAddress e) ex of
             (_, Inl err) \<Rightarrow> ((stored, w), Inl (ExecutionFailed err))
           | (ex1, Inr _) \<Rightarrow>
               (case vote_call (ct_contractAddress e) privateState w of
                  (w1, answer) \<Rightarrow>
                    ((Some privateState, w1),
                     rbind (map_err ExecutionFailed (executor_call ''castVote'' answer ex1)) (\<lambda>r.
                     rbind (assertVoteReceipt r (ct_contractAddress e)) (\<lambda>_. Inr r)))))))"

text \<open>
  The call through the sponsored provider: the scope of the action, the SDK's proof of the
  circuit as the argument \<open>prove\<close>, its submission, and the finalized data of the id that
  the submission returns.
\<close>

definition vote_scope :: "cast_request \<Rightarrow> string \<Rightarrow> action_scope" where
  "vote_scope request contractAddress = \<lparr> sc_credentialAuthorization = cr_handle request,
     sc_contractAddress = contractAddress, sc_circuit = ''castVote'', sc_action = Vote \<rparr>"

definition sponsored_call ::
  "(string \<Rightarrow> string) \<Rightarrow> walletless_provider \<Rightarrow> submit_env \<Rightarrow> ('d referendum_private \<Rightarrow> string option)
     \<Rightarrow> (string \<Rightarrow> finalized_tx option) \<Rightarrow> cast_request \<Rightarrow> string \<Rightarrow> 'd referendum_private \<Rightarrow> walletless_state
     \<Rightarrow> walletless_state \<times> finalized_tx option" where
  "sponsored_call sha256 p env prove finalized request contractAddress privateState st = (case prove privateState of
     None \<Rightarrow> (st, None)
   | Some provenTx \<Rightarrow>
       (case run_scope (vote_scope request contractAddress) (submitTx sha256 p env provenTx) st of
          (st1, Returned transactionId) \<Rightarrow> (st1, finalized transactionId)
        | (st1, _) \<Rightarrow> (st1, None)))"

section \<open>Votes in flight\<close>

record pending_vote =
  pv_choice :: VoteChoice
  pv_handle :: string
  pv_ticket :: nat

record action_adapter =
  aa_pending :: "string \<rightharpoonup> pending_vote"
  aa_queue :: "(nat \<times> cast_request) list"
  aa_next :: nat
  aa_receipts :: "string \<rightharpoonup> receipt"

definition idle_adapter :: action_adapter where
  "idle_adapter = \<lparr> aa_pending = Map.empty, aa_queue = [], aa_next = 0, aa_receipts = Map.empty \<rparr>"

datatype cast_answer = VoteConflict | VoteTicket nat

definition castVote_request :: "cast_request \<Rightarrow> action_adapter \<Rightarrow> action_adapter \<times> cast_answer" where
  "castVote_request request a = (case aa_pending a (cr_referendumId request) of
     Some existing \<Rightarrow>
       if pv_choice existing \<noteq> cr_choice request \<or> pv_handle existing \<noteq> cr_handle request then (a, VoteConflict)
       else (a, VoteTicket (pv_ticket existing))
   | None \<Rightarrow>
       (a \<lparr> aa_pending := (aa_pending a)(cr_referendumId request \<mapsto>
              \<lparr> pv_choice = cr_choice request, pv_handle = cr_handle request, pv_ticket = aa_next a \<rparr>),
            aa_queue := aa_queue a @ [(aa_next a, request)], aa_next := Suc (aa_next a) \<rparr>,
        VoteTicket (aa_next a)))"

text \<open>The vote at the head of the queue ends, with its receipt or an error.\<close>

definition castVote_settle :: "(action_error, receipt) result \<Rightarrow> action_adapter \<Rightarrow> action_adapter" where
  "castVote_settle result a = (case aa_queue a of
     [] \<Rightarrow> a
   | (n, request) # waiting \<Rightarrow>
       (let a1 = (case result of
            Inr r \<Rightarrow> a \<lparr> aa_receipts := (aa_receipts a)(r_transactionId r \<mapsto> r) \<rparr> | Inl _ \<Rightarrow> a) in
        a1 \<lparr> aa_queue := waiting,
             aa_pending := (if map_option pv_ticket (aa_pending a (cr_referendumId request)) = Some n
               then (aa_pending a)(cr_referendumId request := None) else aa_pending a) \<rparr>))"

definition recordPublicCohort :: "action_error" where
  "recordPublicCohort = ActionError CAPABILITY_UNAVAILABLE False"

definition action_getCanonicalReceipt ::
  "(string \<Rightarrow> receipt option) option \<Rightarrow> string \<Rightarrow> action_adapter \<Rightarrow> action_adapter \<times> (action_error, receipt option) result" where
  "action_getCanonicalReceipt receiptResolver transactionId a =
     (case Option.bind receiptResolver (\<lambda>resolver. resolver transactionId) of
        Some r \<Rightarrow>
          if r_transactionId r \<noteq> transactionId then (a, Inl ReceiptRefused)
          else (a \<lparr> aa_receipts := (aa_receipts a)(transactionId \<mapsto> r) \<rparr>, Inr (Some r))
      | None \<Rightarrow> (a, Inr (aa_receipts a transactionId)))"

end
