(* ===== verification/Runtime_Config.thy ===== *)
theory Runtime_Config
  imports Midnight_Executor
begin

text \<open>
  The configuration of the web application
  (\<open>ui/src/integration/passport-v2-runtime-config.ts\<close>): the environment it is read from is a map
  from names to texts, and a configured referendum is an entry of the vote adapter's
  catalogue with its texts. A registry root is a number of the environment; the argument
  \<open>root_of\<close> is the contract's digest for it. The date parser is an argument.
\<close>

section \<open>Values\<close>

datatype config_error =
    ConfigRefused string
  | ConfigCrypto crypto_error

text \<open>\<open>BigInt\<close> of a text: an integer with an optional sign, or digits after a radix prefix.\<close>

definition radix_digit :: "nat \<Rightarrow> char \<Rightarrow> bool" where
  "radix_digit radix c = (any_hex c \<and> hex_val c < radix)"

definition read_radix :: "nat \<Rightarrow> string \<Rightarrow> nat" where
  "read_radix radix s = foldl (\<lambda>n c. radix * n + hex_val c) 0 s"

definition js_BigInt :: "string \<Rightarrow> int option" where
  "js_BigInt text = (let s = trim text; prefix = toLowerCase (take 2 s); digits = drop 2 s;
       radix = (if prefix = ''0x'' then 16 else if prefix = ''0o'' then 8 else if prefix = ''0b'' then 2 else 0) in
     if s = [] then Some 0
     else if radix \<noteq> 0 then (if digits \<noteq> [] \<and> list_all (radix_digit radix) digits then Some (int (read_radix radix digits)) else None)
     else if hd s = CHR ''-'' then (if tl s \<noteq> [] \<and> list_all is_digit (tl s) then Some (- int (read_nat (tl s))) else None)
     else if hd s = CHR ''+'' then (if tl s \<noteq> [] \<and> list_all is_digit (tl s) then Some (int (read_nat (tl s))) else None)
     else if list_all is_digit s then Some (int (read_nat s)) else None)"

definition unsignedBigInt :: "json option \<Rightarrow> nat \<Rightarrow> (config_error, int) result" where
  "unsignedBigInt value bits = (case (case value of
        Some (JStr s) \<Rightarrow> if trim s = [] then None else js_BigInt s
      | Some (JNum (JInt n)) \<Rightarrow> Some n
      | _ \<Rightarrow> None) of
     None \<Rightarrow> Inl (ConfigRefused ''integer'')
   | Some parsed \<Rightarrow> if parsed < 0 \<or> parsed > 2 ^ bits - 1 then Inl (ConfigRefused ''range'') else Inr parsed)"

definition unsignedNumber :: "json option \<Rightarrow> nat \<Rightarrow> (config_error, int) result" where
  "unsignedNumber value bits = rbind (unsignedBigInt value bits) (\<lambda>parsed.
     if \<bar>parsed\<bar> \<le> max_safe then Inr parsed else Inl (ConfigRefused ''safe integer''))"

definition config_bytes32 :: "json option \<Rightarrow> string \<Rightarrow> (config_error, string) result" where
  "config_bytes32 value label = (case as_str value of
     None \<Rightarrow> Inl (ConfigRefused label)
   | Some s \<Rightarrow>
       (let t = (if toLowerCase (take 2 s) = ''0x'' then drop 2 s else s) in
        if length t = 64 \<and> list_all any_hex t then Inr (bytesFromHex t) else Inl (ConfigRefused label)))"

definition optionalText :: "json option \<Rightarrow> string option" where
  "optionalText value = (case as_str value of None \<Rightarrow> None | Some s \<Rightarrow> if trim s \<noteq> [] then Some (trim s) else None)"

definition config_nonEmptyString :: "json option \<Rightarrow> string \<Rightarrow> (config_error, string) result" where
  "config_nonEmptyString value label = (case optionalText value of None \<Rightarrow> Inl (ConfigRefused label) | Some s \<Rightarrow> Inr s)"

definition required :: "(string \<rightharpoonup> string) \<Rightarrow> string \<Rightarrow> (config_error, string) result" where
  "required env key = (case env key of
     None \<Rightarrow> Inl (ConfigRefused key)
   | Some value \<Rightarrow> if trim value = [] then Inl (ConfigRefused key) else Inr (trim value))"

section \<open>One referendum\<close>

record 'd runtime_referendum =
  rr_referendumId :: string
  rr_contractAddress :: string
  rr_title :: string
  rr_question :: string
  rr_description :: "string option"
  rr_opened :: "string option"
  rr_deadline :: "string option"
  rr_opensAt :: "string option"
  rr_closesAt :: "string option"
  rr_eligible :: "string option"
  rr_participation :: "string option"
  rr_config :: "'d referendum_config"

definition assertLifecycleDates ::
  "(string \<Rightarrow> int option) \<Rightarrow> string option \<Rightarrow> string option \<Rightarrow> (config_error, unit) result" where
  "assertLifecycleDates date_parse opensAt closesAt = (case (opensAt, closesAt) of
     (None, None) \<Rightarrow> Inr ()
   | (Some opening, Some closing) \<Rightarrow>
       check (case (date_parse opening, date_parse closing) of
           (Some openTime, Some closeTime) \<Rightarrow> \<not> closeTime \<le> openTime | _ \<Rightarrow> False) (ConfigRefused ''lifecycle dates'')
   | _ \<Rightarrow> Inl (ConfigRefused ''opensAt and closesAt''))"

definition country_policy :: "json option \<Rightarrow> (config_error, string) result" where
  "country_policy value = (if value = Some JNull then Inr (replicate 32 (char_of (0::nat)))
     else rbind (config_nonEmptyString value ''country policy'') (\<lambda>s. map_err ConfigCrypto (padBytes32 s)))"

definition parseReferendum ::
  "(string \<Rightarrow> int option) \<Rightarrow> 'd frozen_reference \<Rightarrow> MidnightRuntimeNetwork \<Rightarrow> json
     \<Rightarrow> (config_error, 'd runtime_referendum) result" where
  "parseReferendum date_parse registry network v =
     rbind (check (isRecord v) (ConfigRefused ''referendum'')) (\<lambda>_.
     rbind (config_nonEmptyString (fld v ''referendumId'') ''referendum ID'') (\<lambda>referendumId.
     rbind (config_nonEmptyString (fld v ''contractAddress'') ''referendum address'') (\<lambda>contractAddress.
     rbind (country_policy (fld v ''countryPolicy'')) (\<lambda>countryPolicy.
     rbind (unsignedBigInt (fld v ''minimumAssurance'') 8) (\<lambda>minimumAssurance.
     case fld v ''requireAdult'' of Some (JBool requireAdult) \<Rightarrow>
       rbind (assertLifecycleDates date_parse (optionalText (fld v ''opensAt'')) (optionalText (fld v ''closesAt''))) (\<lambda>_.
       rbind (config_nonEmptyString (fld v ''title'') ''title'') (\<lambda>title.
       rbind (config_nonEmptyString (fld v ''question'') ''question'') (\<lambda>question.
       rbind (config_bytes32 (fld v ''eventIdHex'') ''event ID'') (\<lambda>eventId.
       rbind (config_bytes32 (fld v ''organizerKeyHex'') ''organizer key'') (\<lambda>organizerKey.
       rbind (config_bytes32 (fld v ''rootPublisherKeyHex'') ''root publisher key'') (\<lambda>rootPublisherKey.
       rbind (unsignedBigInt (fld v ''opensAtUnix'') 64) (\<lambda>opens.
       rbind (unsignedBigInt (fld v ''enrollmentClosesAtUnix'') 64) (\<lambda>enrollment.
       rbind (unsignedBigInt (fld v ''closesAtUnix'') 64) (\<lambda>closes.
       rbind (unsignedBigInt (fld v ''revealClosesAtUnix'') 64) (\<lambda>reveal.
       rbind (unsignedBigInt (fld v ''validityReference'') 64) (\<lambda>validityReference.
       Inr \<lparr> rr_referendumId = referendumId, rr_contractAddress = contractAddress, rr_title = title, rr_question = question,
             rr_description = optionalText (fld v ''description''), rr_opened = optionalText (fld v ''opened''),
             rr_deadline = optionalText (fld v ''deadline''), rr_opensAt = optionalText (fld v ''opensAt''),
             rr_closesAt = optionalText (fld v ''closesAt''), rr_eligible = optionalText (fld v ''eligible''),
             rr_participation = optionalText (fld v ''participation''),
             rr_config = \<lparr> xc_registry = registry, xc_eventId = eventId, xc_organizerKey = organizerKey,
               xc_rootPublisherKey = rootPublisherKey, xc_countryPolicy = countryPolicy,
               xc_countryPolicyEnabled = (fld v ''countryPolicy'' \<noteq> Some JNull), xc_minimumAssurance = minimumAssurance,
               xc_requireAdult = requireAdult, xc_validityReference = validityReference, xc_opensAtUnix = opens,
               xc_enrollmentClosesAtUnix = enrollment, xc_closesAtUnix = closes, xc_revealClosesAtUnix = reveal,
               xc_network = Some network,
               xc_explorerBaseUrl = (if network = Preview then Some ''https://explorer.preview.midnight.network/tx'' else None) \<rparr> \<rparr>)))))))))))
     | _ \<Rightarrow> Inl (ConfigRefused ''requireAdult''))))))"

section \<open>The configuration\<close>

record 'd runtime_config =
  rc_network :: MidnightRuntimeNetwork
  rc_apiUrl :: string
  rc_issuerId :: string
  rc_credentialEpoch :: int
  rc_credentialTtlMs :: int
  rc_uniquenessTimestampUpperBound :: int
  rc_registry :: "'d frozen_reference"
  rc_referenda :: "'d runtime_referendum list"

definition runtime_network :: "(string \<rightharpoonup> string) \<Rightarrow> (config_error, MidnightRuntimeNetwork) result" where
  "runtime_network env =
     (let t = (case env ''VITE_MIDNIGHT_NETWORK'' of None \<Rightarrow> [] | Some v \<Rightarrow> trim v); network = (if t = [] then ''preview'' else t) in
      if network = ''preview'' then Inr Preview else if network = ''undeployed'' then Inr Undeployed
      else Inl (ConfigRefused ''network''))"

definition runtime_registry :: "compact_runtime \<Rightarrow> (nat \<Rightarrow> 'd) \<Rightarrow> (string \<rightharpoonup> string) \<Rightarrow> int \<Rightarrow> (config_error, 'd frozen_reference) result" where
  "runtime_registry rt root_of env credentialEpoch =
     rbind (required env ''VITE_CICO_REGISTRY_ADDRESS'') (\<lambda>address.
     rbind (map_err ConfigCrypto (deriveRegistryContractBinding rt address)) (\<lambda>binding.
     rbind (required env ''VITE_CICO_REGISTRY_ID_HEX'') (\<lambda>idHex.
     rbind (config_bytes32 (Some (JStr idHex)) ''registry ID'') (\<lambda>registryId.
     rbind (required env ''VITE_CICO_ISSUER_ID_HEX'') (\<lambda>issuerHex.
     rbind (config_bytes32 (Some (JStr issuerHex)) ''issuer ID'') (\<lambda>issuerId.
     rbind (required env ''VITE_CICO_FROZEN_ROOT_FIELD'') (\<lambda>root.
     rbind (unsignedBigInt (Some (JStr root)) 256) (\<lambda>field.
     Inr \<lparr> fr_registryContractAddress = address, fr_registryContractBinding = binding, fr_registryId = registryId,
           fr_issuerId = issuerId, fr_credentialEpoch = of_int credentialEpoch, fr_frozenRoot = root_of (nat field) \<rparr>))))))))"

definition runtime_referenda ::
  "(string \<Rightarrow> int option) \<Rightarrow> (string \<rightharpoonup> string) \<Rightarrow> 'd frozen_reference \<Rightarrow> MidnightRuntimeNetwork
     \<Rightarrow> (config_error, 'd runtime_referendum list) result" where
  "runtime_referenda date_parse env registry network =
     (case required env ''VITE_CICO_REFERENDA_JSON'' of
        Inl _ \<Rightarrow> Inl (ConfigRefused ''JSON'')
      | Inr text \<Rightarrow>
          (case json_parse text of
             None \<Rightarrow> Inl (ConfigRefused ''JSON'')
           | Some wire \<Rightarrow>
               (case wire of
                  JArr (v # vs) \<Rightarrow>
                    rbind (mapM (parseReferendum date_parse registry network) (v # vs)) (\<lambda>referenda.
                    rbind (check (distinct (map rr_referendumId referenda)) (ConfigRefused ''referendum IDs'')) (\<lambda>_. Inr referenda))
                | _ \<Rightarrow> Inl (ConfigRefused ''referenda''))))"

definition parsePassportV2RuntimeConfig ::
  "compact_runtime \<Rightarrow> (nat \<Rightarrow> 'd) \<Rightarrow> (string \<Rightarrow> int option) \<Rightarrow> (string \<rightharpoonup> string)
     \<Rightarrow> (config_error, 'd runtime_config option) result" where
  "parsePassportV2RuntimeConfig rt root_of date_parse env =
     (let apiUrl = (case env ''VITE_PASSPORT_V2_API_URL'' of None \<Rightarrow> [] | Some v \<Rightarrow> trim v) in
      if apiUrl = [] then Inr None
      else
        rbind (runtime_network env) (\<lambda>network.
        rbind (required env ''VITE_CICO_ISSUER_ID'') (\<lambda>issuerId.
        rbind (required env ''VITE_CICO_CREDENTIAL_EPOCH'') (\<lambda>epochText.
        rbind (unsignedNumber (Some (JStr epochText)) 64) (\<lambda>credentialEpoch.
        rbind (required env ''VITE_CICO_CREDENTIAL_TTL_MS'') (\<lambda>ttlText.
        rbind (unsignedNumber (Some (JStr ttlText)) 53) (\<lambda>credentialTtlMs.
        rbind (check (\<not> (credentialTtlMs < 1000 \<or> credentialTtlMs > 30 * 24 * 60 * 60 * 1000)) (ConfigRefused ''TTL'')) (\<lambda>_.
        rbind (required env ''VITE_RARIMO_UNIQUENESS_TIMESTAMP_UPPER_BOUND'') (\<lambda>boundText.
        rbind (unsignedNumber (Some (JStr boundText)) 64) (\<lambda>upperBound.
        rbind (runtime_registry rt root_of env credentialEpoch) (\<lambda>registry.
        rbind (map_err ConfigCrypto (padBytes32 issuerId)) (\<lambda>padded.
        rbind (check (equalBytes (fr_issuerId registry) padded) (ConfigRefused ''issuer ID'')) (\<lambda>_.
        rbind (runtime_referenda date_parse env registry network) (\<lambda>referenda.
        Inr (Some \<lparr> rc_network = network, rc_apiUrl = apiUrl, rc_issuerId = issuerId, rc_credentialEpoch = credentialEpoch,
          rc_credentialTtlMs = credentialTtlMs, rc_uniquenessTimestampUpperBound = upperBound, rc_registry = registry,
          rc_referenda = referenda \<rparr>)))))))))))))))"

end
