(* ===== verification/Passport_Catalog.thy ===== *)
theory Passport_Catalog
  imports Runtime_Config Rarimo_Adapter
begin

text \<open>
  The public catalogue of the web application
  (\<open>ui/src/integration/passport-v2-catalog.ts\<close>): what is shown of a configured referendum, and
  whether a voter's credential can be used in it. The texts of the interface are the
  constructors of an enumeration.
\<close>

datatype catalog_scope = GlobalScope | CountryScope

record 'd catalog_item =
  ci_referendumId :: string
  ci_title :: string
  ci_question :: string
  ci_description :: "string option"
  ci_opened :: "string option"
  ci_deadline :: "string option"
  ci_opensAt :: "string option"
  ci_closesAt :: "string option"
  ci_eligible :: "string option"
  ci_participation :: "string option"
  ci_scope :: catalog_scope
  ci_source :: "'d runtime_referendum option"

definition toPassportV2Catalog :: "'d runtime_referendum list \<Rightarrow> 'd catalog_item list" where
  "toPassportV2Catalog referenda = map (\<lambda>e.
     \<lparr> ci_referendumId = rr_referendumId e, ci_title = rr_title e, ci_question = rr_question e,
       ci_description = truthy_str (rr_description e), ci_opened = truthy_str (rr_opened e),
       ci_deadline = truthy_str (rr_deadline e), ci_opensAt = truthy_str (rr_opensAt e),
       ci_closesAt = truthy_str (rr_closesAt e), ci_eligible = truthy_str (rr_eligible e),
       ci_participation = truthy_str (rr_participation e),
       ci_scope = (if xc_countryPolicyEnabled (rr_config e) then CountryScope else GlobalScope), ci_source = Some e \<rparr>) referenda"

text \<open>
  The decoder drops a leading byte order mark. Every byte of a longer sequence, and what an
  invalid one is replaced with, is no digit, so the bytes stand for their own characters here.
\<close>

definition byte_order_mark :: string where
  "byte_order_mark = map char_of [0xEF, 0xBB, 0xBF :: nat]"

definition decoded_country :: "string \<Rightarrow> string" where
  "decoded_country bytes = (let t = (if take 3 bytes = byte_order_mark then drop 3 bytes else bytes) in
     rev (dropWhile (\<lambda>c. c = char_of (0::nat)) (rev t)))"

definition countryPolicyCode :: "'d catalog_item \<Rightarrow> string option" where
  "countryPolicyCode item = (case (ci_scope item, ci_source item) of
     (CountryScope, Some e) \<Rightarrow>
       (let bytes = xc_countryPolicy (rr_config e); decoded = decoded_country bytes in
        if length bytes \<noteq> 32 then None
        else if length decoded = 3 \<and> list_all is_digit decoded then Some decoded else None)
   | _ \<Rightarrow> None)"

datatype eligibility_reason =
    NoCredential
  | EarlierCohort
  | LaterCohort
  | ValidityTooShort
  | AssuranceTooLow
  | AgeNotProved
  | CountryUnknown
  | OtherCountry

definition assuranceLevel :: "CredentialAssurance \<Rightarrow> int" where
  "assuranceLevel a = (case a of SelfAsserted \<Rightarrow> 0 | Document \<Rightarrow> 1 | DocumentNfc \<Rightarrow> 2 | PassportNative \<Rightarrow> 3)"

text \<open>The reason why the credential cannot be used; \<^const>\<open>None\<close> when it can. \<open>Math.floor\<close> of a quotient is \<open>div\<close>.\<close>

definition policy_refusal :: "(string \<Rightarrow> int option) \<Rightarrow> 'd referendum_config \<Rightarrow> credential_claims \<Rightarrow> eligibility_reason option" where
  "policy_refusal date_parse policy c = (let required_epoch = uint (fr_credentialEpoch (xc_registry policy)) in
     if cl_credentialEpoch c \<noteq> required_epoch
     then Some (if cl_credentialEpoch c > required_epoch then EarlierCohort else LaterCohort)
     else if (case date_parse (cl_validUntil c) of
         None \<Rightarrow> True
       | Some ms \<Rightarrow> \<not> \<bar>ms div 1000\<bar> \<le> max_safe \<or> ms div 1000 < xc_validityReference policy)
     then Some ValidityTooShort
     else if assuranceLevel (cl_assurance c) < xc_minimumAssurance policy then Some AssuranceTooLow
     else if xc_requireAdult policy \<and> cl_ageClass c \<noteq> Adult then Some AgeNotProved
     else None)"

definition catalogEligibility ::
  "(string \<Rightarrow> int option) \<Rightarrow> 'd catalog_item \<Rightarrow> credential_summary option \<Rightarrow> eligibility_reason option" where
  "catalogEligibility date_parse item credential = (case credential of
     None \<Rightarrow> Some NoCredential
   | Some summary \<Rightarrow>
       (case Option.bind (ci_source item) (\<lambda>e. policy_refusal date_parse (rr_config e) (su_claims summary)) of
          Some reason \<Rightarrow> Some reason
        | None \<Rightarrow>
            if ci_scope item = GlobalScope then None
            else (case countryPolicyCode item of
                None \<Rightarrow> Some CountryUnknown
              | Some country \<Rightarrow> if country \<noteq> cl_country (su_claims summary) then Some OtherCountry else None)))"

end
