(* ===== verification/Provider_Properties.thy ===== *)
theory Provider_Properties
  imports Walletless_Provider Http_Properties
begin

text \<open>
  What the browser's provider and the relay do together: the request that a submission
  composes is one that the relay authorizes, an id that a submission returns is vouched
  for by a receipt, and what becomes of an action that is still recorded as pending.
\<close>

section \<open>The composed request\<close>

lemma request_hash_agrees:
  assumes "toLowerCase tx = tx"
  shows "v2RequestHash sha256 network contractAddress circuit action tx
    = walletlessActionRequestHash sha256 network contractAddress circuit action tx"
proof -
  have "show_int V2_ACTION_VERSION = ''1''" by code_simp
  then show ?thesis
    using assms by (simp add: v2RequestHash_def walletlessActionRequestHash_def digestText_def request_hash_object_def
        V2_ACTION_VERSION_def utf8_def)
qed

lemma submission_clean: "clean (submit_body r)"
proof -
  have k: "\<not> forbidden_key ''action''" "\<not> forbidden_key ''actionId''" "\<not> forbidden_key ''circuit''"
      "\<not> forbidden_key ''contractAddress''" "\<not> forbidden_key ''idempotencyKey''" "\<not> forbidden_key ''requestHash''"
      "\<not> forbidden_key ''network''" "\<not> forbidden_key ''tx''"
    by code_simp+
  have "list_all (\<lambda>(k, v). \<not> forbidden_key k \<and> clean v) (opt_prop ''requestHash'' JStr v)" for v
    by (cases v) (simp_all add: k)
  then show ?thesis by (simp add: submit_body_def k)
qed

lemma submission_fields:
  assumes "wr_requestHash r = Some h" "h \<noteq> []"
  shows "fld (submit_body r) ''actionId'' = Some (JStr (wr_actionId r))"
    "fld (submit_body r) ''idempotencyKey'' = Some (JStr (wr_idempotencyKey r))"
    "fld (submit_body r) ''requestHash'' = Some (JStr h)"
    "fld (submit_body r) ''network'' = Some (JStr (wr_network r))"
    "fld (submit_body r) ''contractAddress'' = Some (JStr (wr_contractAddress r))"
    "fld (submit_body r) ''tx'' = Some (JStr (wr_tx r))"
    "fld (submit_body r) ''circuit'' = Some (JStr (wr_circuit r))"
    "fld (submit_body r) ''action'' = Some (JStr (action_str (wr_action r)))"
    "isRecord (submit_body r)"
  using assms by (simp_all add: submit_body_def)

definition submission_headers :: "walletless_request \<Rightarrow> request_headers" where
  "submission_headers r = \<lparr> h_idempotencyKey = Some (wr_idempotencyKey r), h_requestHash = wr_requestHash r,
     h_capability = Some (wr_actionCapability r) \<rparr>"

lemma lower_hex_any: "lower_hex c \<Longrightarrow> any_hex c"
  by (auto simp: lower_hex_def any_hex_def Let_def)

lemma any_hex_bytes: "list_all any_hex (bytesToHex bs)"
  using bytesToHex_lower [of bs] by (auto simp: list_all_iff lower_hex_any)

text \<open>A field that the relay takes: not blank and of at most 256 code units.\<close>

definition relay_field :: "string \<Rightarrow> bool" where
  "relay_field s = (\<not> blank s \<and> length s \<le> 256)"

lemma submission_parsed:
  assumes "wr_requestHash r = Some h" "is_hex64 h" "wr_circuit r = ''castVote''" "wr_action r = Vote"
    and "list_all relay_field [wr_actionId r, wr_idempotencyKey r, wr_network r, wr_contractAddress r]"
    and "wr_tx r = bytesToHex provenTx" "provenTx \<noteq> []" "2 * length provenTx \<le> MAX_TRANSACTION_HEX_LENGTH"
    and "wr_network r \<in> set (so_allowedNetworks opts)" "wr_contractAddress r \<in> set (so_allowedContracts opts)"
    and "''castVote'' \<in> set (so_allowedCircuits opts)" "so_validateTransaction opts (wr_tx r) = None"
  shows "parseV2ActionRequest opts (submit_body r) (submission_headers r) = Inr
    \<lparr> q_actionId = wr_actionId r, q_idempotencyKey = wr_idempotencyKey r, q_requestHash = Some h, q_network = wr_network r,
      q_contractAddress = wr_contractAddress r, q_circuit = ''castVote'', q_action = Vote, q_tx = wr_tx r \<rparr>"
proof -
  have h: "h \<noteq> []" "length h = 64" "list_all any_hex h" "toLowerCase h = h"
    using assms(2) toLowerCase_hex [of h] by (auto simp: is_hex64_def list_all_iff lower_hex_any)
  have "assertNoForbiddenKeys (submit_body r) = Inr ()"
    by (simp add: assertNoForbiddenKeys_def scan_pending_clean submission_clean)
  moreover have "toLowerCase (wr_tx r) = wr_tx r" unfolding assms(6) by (rule toLowerCase_hex [OF bytesToHex_lower])
  moreover have "\<not> blank ''castVote''" by code_simp
  moreover have "tx_field (Some (JStr (wr_tx r))) = Inr (wr_tx r)"
  proof -
    have "bytesToHex provenTx \<noteq> []" using assms(7) by (metis length_0_conv length_bytesToHex mult_eq_0_iff zero_neq_numeral)
    then show ?thesis using assms(8) any_hex_bytes unfolding assms(6) by (simp add: tx_field_def)
  qed
  ultimately show ?thesis
    using assms(3-5,9-12) h submission_fields [OF assms(1) h(1)] assms(1)
    by (simp add: parseV2ActionRequest_def submission_headers_def field_def optionalDigest_def header_mismatch_def
        action_field_def actionForCircuit_def isAction_def action_of_str_def relay_field_def)
qed


definition sponsor_options :: service_options where
  "sponsor_options = \<lparr> so_allowedNetworks = [''n''], so_allowedContracts = [''c''], so_allowedCircuits = [''castVote''],
     so_capabilitySecret = replicate 32 (CHR ''s''), so_validateTransaction = (\<lambda>_. None), so_confirmationRetryMs = 2000 \<rparr>"

definition sponsor_scope :: action_scope where
  "sponsor_scope = \<lparr> sc_credentialAuthorization = ''h'', sc_contractAddress = ''c'', sc_circuit = ''castVote'', sc_action = Vote \<rparr>"

definition sponsor_provider :: walletless_provider where
  "sponsor_provider = \<lparr> wp_relay = demo_client, wp_networkId = ''n'', wp_pollIntervalMs = 500, wp_submissionTimeoutMs = 1000 \<rparr>"

lemma sponsor_capability: "scope_capability demo_sha sponsor_provider sponsor_scope ''a'' ''k'' tx = sample_capability_request"
  by (simp add: scope_capability_def sponsor_provider_def sponsor_scope_def sample_capability_request_def
      walletlessActionRequestHash_def digestText_def demo_sha_def)

lemma sample_token_nonempty: "sample_issued \<noteq> []"
  by (simp add: signV2Capability_def Let_def)


section \<open>Waiting\<close>

text \<open>A poll of a wait comes at least the poll interval after the one before.\<close>

fun paced :: "int \<Rightarrow> int \<Rightarrow> wait_round list \<Rightarrow> bool" where
  "paced interval t [] = True"
| "paced interval t (turn # turns) = (t \<le> wt_now turn \<and> paced interval (wt_now turn + interval) turns)"

lemma wait_ends:
  assumes "paced interval t rounds" "0 < interval" "deadline + interval \<le> t + interval * int (length rounds)" "rounds \<noteq> []"
  shows "waitForCanonicalReceipt relay deadline initial job rounds \<noteq> Waiting"
  using assms
proof (induction relay deadline initial job rounds arbitrary: t rule: waitForCanonicalReceipt.induct)
  case (2 relay deadline initial job rounds)
  show ?case
  proof (cases rounds)
    case (Cons turn later)
    have ahead: "waitForCanonicalReceipt relay deadline initial next_job later \<noteq> Waiting"
      if "client_getReceipt (wt_receipt turn) relay (wj_actionId initial) = Inr None" "\<not> deadline \<le> wt_now turn"
        "client_getAction (wt_action turn) relay (wj_actionId initial) = Inr next_job"
        "\<not> (wj_status job = JStr ''failed'' \<or> wj_status job = JStr ''recovery_required'')" for next_job
    proof -
      have p: "paced interval (wt_now turn + interval) later" "t \<le> wt_now turn" using 2(2) Cons by simp_all
      have "deadline + interval \<le> (wt_now turn + interval) + interval * int (length later)"
        using 2(4) p(2) Cons by (simp add: algebra_simps)
      moreover have "later \<noteq> []"
        using 2(4) p(2) that(2) Cons by auto
      ultimately show ?thesis using 2(1) [OF that(4) Cons that(1) _ that(2) that(3) p(1) 2(3)] by blast
    qed
    then show ?thesis unfolding Cons
      by (auto split: sum.split option.split)
  qed (use 2(5) in simp)
qed simp

lemma provider_bounds:
  assumes "createReferendumV2WalletlessProviders parse_url fetch origin opts = Inr p"
  shows "10 \<le> wp_pollIntervalMs p" "wp_submissionTimeoutMs p \<le> 600000" "cl_authorization (wp_relay p) = None"
  using assms by (auto simp: createReferendumV2WalletlessProviders_def boundedDelay_def new_client_def map_err_def split: if_splits sum.splits)

lemma wait_bounded:
  assumes "createReferendumV2WalletlessProviders parse_url fetch origin opts = Inr p"
    and "paced (wp_pollIntervalMs p) t rounds" "60001 \<le> length rounds"
  shows "waitForCanonicalReceipt relay (t + wp_submissionTimeoutMs p) initial job rounds \<noteq> Waiting"
proof (rule wait_ends [OF assms(2)])
  note b = provider_bounds [OF assms(1)]
  show "0 < wp_pollIntervalMs p" using b by simp
  have "wp_pollIntervalMs p * 60001 \<le> wp_pollIntervalMs p * int (length rounds)"
    using b(1) assms(3) by (intro mult_left_mono) auto
  then show "t + wp_submissionTimeoutMs p + wp_pollIntervalMs p \<le> t + wp_pollIntervalMs p * int (length rounds)"
    using b by linarith
  show "rounds \<noteq> []" using assms(3) by auto
qed

text \<open>
  C22: A submission ends. With any provider that its constructor builds, a submission
  whose polls come at their interval has returned an id or thrown after at most 60001
  polls of each of its waits, whatever the relay answers.
\<close>

theorem submission_ends:
  assumes "createReferendumV2WalletlessProviders parse_url fetch origin opts = Inr p"
    and "paced (wp_pollIntervalMs p) (se_start env) (se_rounds env)" "60001 \<le> length (se_rounds env)"
    and "paced (wp_pollIntervalMs p) (se_recoverStart env) (se_recoverRounds env)" "60001 \<le> length (se_recoverRounds env)"
  shows "snd (submitTx sha256 p env provenTx st) \<noteq> Waiting"
proof -
  have new: "snd (submit_new sha256 p env scope tx s) \<noteq> Waiting" for scope tx s
    using wait_bounded [OF assms(1,2,3)]
    by (auto simp: submit_new_def Let_def case_prod_beta simp del: waitForCanonicalReceipt.simps
        split: option.split sum.split outcome.split)
  then show ?thesis
    using wait_bounded [OF assms(1,4,5)]
    by (auto simp: submitTx_def Let_def simp del: waitForCanonicalReceipt.simps split: option.split sum.split outcome.split)
qed

definition paced_rounds :: "nat \<Rightarrow> int \<Rightarrow> int \<Rightarrow> wait_round list" where
  "paced_rounds n interval t = map (\<lambda>k. \<lparr> wt_receipt = (\<lambda>_. Fetched 404 None), wt_now = t + interval * int k,
     wt_action = (\<lambda>_. FetchRejected) \<rparr>) [0..<n]"

lemma paced_rounds_paced: "paced interval t (map (\<lambda>k. \<lparr> wt_receipt = f, wt_now = t + interval * (int k - int i), wt_action = g \<rparr>) [i..<n])"
proof (induction "n - i" arbitrary: i t)
  case (Suc d)
  then have "i < n" "d = n - Suc i" by simp_all
  then show ?case using Suc(1) [of "Suc i" "t + interval"]
    by (simp add: upt_conv_Cons algebra_simps)
qed simp

definition sample_provider_options :: provider_options where
  "sample_provider_options = \<lparr> po_window = True, po_api = True, po_relayUrl = ''https://r.test'', po_proofServerUri = None,
     po_networkId = ''n'', po_zkConfigBaseUrl = None, po_zkConfigProvider = False, po_pollIntervalMs = None,
     po_submissionTimeoutMs = None \<rparr>"

definition idle_env :: "wait_round list \<Rightarrow> submit_env" where
  "idle_env rounds = \<lparr> se_recover = (\<lambda>_. FetchRejected), se_recoverStart = 0, se_recoverRounds = rounds,
     se_randomIds = Some (''a'', ''k''), se_issue = (\<lambda>_. Inr ''token''), se_submit = (\<lambda>_. FetchRejected), se_start = 0, se_rounds = rounds \<rparr>"

theorem submission_ends_witness:
  "\<exists>p. createReferendumV2WalletlessProviders (\<lambda>_. Some \<lparr> u_protocol = ''https:'', u_hostname = ''r.test'' \<rparr>)
       (\<lambda>_. Fetched 200 (Some (JObj []))) ''https://app.test'' sample_provider_options = Inr p
     \<and> snd (submitTx demo_sha p (idle_env (paced_rounds 60001 (wp_pollIntervalMs p) 0)) [CHR 0xFF] new_walletless_state) \<noteq> Waiting"
proof -
  obtain p where p: "createReferendumV2WalletlessProviders (\<lambda>_. Some \<lparr> u_protocol = ''https:'', u_hostname = ''r.test'' \<rparr>)
       (\<lambda>_. Fetched 200 (Some (JObj []))) ''https://app.test'' sample_provider_options = Inr p"
  proof -
    have "is_ok (createReferendumV2WalletlessProviders (\<lambda>_. Some \<lparr> u_protocol = ''https:'', u_hostname = ''r.test'' \<rparr>)
       (\<lambda>_. Fetched 200 (Some (JObj []))) ''https://app.test'' sample_provider_options)" by code_simp
    then show ?thesis using that by (auto simp: is_ok_iff)
  qed
  let ?rounds = "paced_rounds 60001 (wp_pollIntervalMs p) 0"
  have "paced (wp_pollIntervalMs p) 0 ?rounds"
    using paced_rounds_paced [of "wp_pollIntervalMs p" 0 "\<lambda>_. Fetched 404 None" 0 "\<lambda>_. FetchRejected" 60001]
    unfolding paced_rounds_def by simp
  moreover have "60001 \<le> length ?rounds" unfolding paced_rounds_def by simp
  ultimately show ?thesis using submission_ends [OF p, of "idle_env ?rounds"] p by (auto simp: idle_env_def)
qed

section \<open>Pending actions\<close>

text \<open>One vote through the provider: its scope, around one submission.\<close>

definition attempt ::
  "(string \<Rightarrow> string) \<Rightarrow> walletless_provider \<Rightarrow> action_scope \<Rightarrow> submit_env \<times> string \<Rightarrow> walletless_state \<Rightarrow> walletless_state \<times> outcome" where
  "attempt sha256 p scope a st = run_scope scope (submitTx sha256 p (fst a) (snd a)) st"

definition attempts ::
  "(string \<Rightarrow> string) \<Rightarrow> walletless_provider \<Rightarrow> action_scope \<Rightarrow> (submit_env \<times> string) list \<Rightarrow> walletless_state \<Rightarrow> walletless_state" where
  "attempts sha256 p scope as st = fold (\<lambda>a s. fst (attempt sha256 p scope a s)) as st"

text \<open>What the relay answers about a job of its journal.\<close>

definition answers_job :: "submit_env \<Rightarrow> walletless_provider \<Rightarrow> string \<Rightarrow> job \<Rightarrow> bool" where
  "answers_job env p actionId j =
     (se_recover env (action_lookup (wp_relay p) actionId) = Fetched 200 (Some (public_job_json (publicJob j)))
      \<and> (\<forall>r. j_receipt j = Some r \<longrightarrow> wf_receipt r))"

lemma answered_action:
  assumes "answers_job env p i j"
  shows "client_getAction (se_recover env) (wp_relay p) i = Inr (Some (job_view (publicJob j)))"
proof -
  have "client_parseJob (public_job_json (publicJob j)) = Inr (job_view (publicJob j))"
    using assms by (intro client_reads_public_job) (simp add: publicJob_def answers_job_def)
  then show ?thesis using assms by (simp add: client_getAction_def answers_job_def response_ok_def)
qed

lemma stopped_view:
  assumes "j_status j = Failed \<or> j_status j = RecoveryRequired"
  shows "wj_status (job_view (publicJob j)) = JStr ''failed'' \<or> wj_status (job_view (publicJob j)) = JStr ''recovery_required''"
  using assms by (auto simp: job_view_def publicJob_def)

lemma wait_stopped:
  assumes "j_status j = Failed \<or> j_status j = RecoveryRequired"
  shows "\<exists>e. waitForCanonicalReceipt relay deadline initial (Some (job_view (publicJob j))) rounds = Threw (RelayStopped e)"
  using stopped_view [OF assms] by simp

lemma pending_survives:
  assumes "submitTx sha256 p env provenTx st = (st1, Threw (RelayStopped e))" "ws_activeScope st = Some scope"
    and "se_issue env = (\<lambda>c. issued c)" "\<And>c e'. issued c \<noteq> Inl (RelayStopped e')"
  shows "ws_pending st1 (pending_key sha256 scope) \<noteq> None"
proof -
  have new: "ws_pending s1 (pending_key sha256 scope) \<noteq> None"
    if "submit_new sha256 p env scope tx s = (s1, Threw (RelayStopped e))" for tx s s1
    using that assms(3,4) by (auto simp: submit_new_def Let_def case_prod_beta simp del: waitForCanonicalReceipt.simps
        split: option.splits sum.splits outcome.splits)
  show ?thesis
    using assms(1,2) new by (auto simp: submitTx_def Let_def simp del: waitForCanonicalReceipt.simps
        split: option.splits sum.splits outcome.splits if_splits)
qed

lemma blocked_attempt:
  assumes "ws_activeScope st = None" "ws_pending st (pending_key sha256 scope) = Some previous"
    and "answers_job (fst a) p (pa_actionId previous) j" "j_status j = Failed \<or> j_status j = RecoveryRequired"
    and "j_requestHash j = pa_requestHash previous"
  shows "fst (attempt sha256 p scope a st) = st" "\<exists>e. snd (attempt sha256 p scope a st) = Threw (RelayStopped e)"
proof -
  have hash: "wj_requestHash (job_view (publicJob j)) = pa_requestHash previous"
    using assms(5) by (simp add: job_view_def publicJob_def)
  obtain e where w: "waitForCanonicalReceipt (wp_relay p) (se_recoverStart (fst a) + wp_submissionTimeoutMs p) (job_view (publicJob j))
      (Some (job_view (publicJob j))) (se_recoverRounds (fst a)) = Threw (RelayStopped e)"
    using wait_stopped [OF assms(4)] by blast
  have "attempt sha256 p scope a st = (st, Threw (RelayStopped e))"
    using assms(1,2) answered_action [OF assms(3)] hash w
    by (simp add: attempt_def run_scope_def submitTx_def Let_def del: waitForCanonicalReceipt.simps)
  then show "fst (attempt sha256 p scope a st) = st" "\<exists>e. snd (attempt sha256 p scope a st) = Threw (RelayStopped e)" by auto
qed

text \<open>
  C36: A stopped action blocks the voter. When the relay stops an action - as failed or
  for recovery - while the browser waits for it, the browser keeps it as pending: from
  then on every further attempt to vote with the same credential in the same referendum
  throws before anything is submitted and leaves the provider as it is, as long as the
  relay reports the action as stopped.
\<close>

theorem stopped_action_blocks_voter:
  assumes "attempt sha256 p scope (env, provenTx) st = (st1, Threw (RelayStopped e))" "ws_activeScope st = None"
    and "\<And>c e'. se_issue env c \<noteq> Inl (RelayStopped e')"
  shows "\<exists>previous. ws_pending st1 (pending_key sha256 scope) = Some previous
    \<and> (\<forall>later a. (\<forall>b \<in> set (later @ [a]). \<exists>j. answers_job (fst b) p (pa_actionId previous) j
            \<and> (j_status j = Failed \<or> j_status j = RecoveryRequired) \<and> j_requestHash j = pa_requestHash previous)
        \<longrightarrow> attempts sha256 p scope later st1 = st1
          \<and> (\<exists>e'. attempt sha256 p scope a (attempts sha256 p scope later st1) = (st1, Threw (RelayStopped e'))))"
proof -
  obtain s1 where s1: "submitTx sha256 p env provenTx (st \<lparr> ws_activeScope := Some scope \<rparr>) = (s1, Threw (RelayStopped e))"
      "st1 = s1 \<lparr> ws_activeScope := None \<rparr>"
    using assms(1,2) by (auto simp: attempt_def run_scope_def split: prod.splits outcome.splits)
  then have "ws_pending s1 (pending_key sha256 scope) \<noteq> None"
    using pending_survives [OF s1(1), of scope "se_issue env"] assms(3) by simp
  then obtain previous where previous: "ws_pending st1 (pending_key sha256 scope) = Some previous" "ws_activeScope st1 = None"
    using s1(2) by auto
  have run: "attempts sha256 p scope later st1 = st1"
    if "\<forall>b \<in> set later. \<exists>j. answers_job (fst b) p (pa_actionId previous) j
        \<and> (j_status j = Failed \<or> j_status j = RecoveryRequired) \<and> j_requestHash j = pa_requestHash previous" for later
    using that blocked_attempt(1) [OF previous(2,1)] by (induction later) (auto simp: attempts_def)
  show ?thesis
  proof (intro exI [of _ previous] conjI allI impI)
    fix later :: "(submit_env \<times> string) list" and a
    assume h: "\<forall>b \<in> set (later @ [a]). \<exists>j. answers_job (fst b) p (pa_actionId previous) j
        \<and> (j_status j = Failed \<or> j_status j = RecoveryRequired) \<and> j_requestHash j = pa_requestHash previous"
    then show r: "attempts sha256 p scope later st1 = st1" using run by simp
    obtain j where "answers_job (fst a) p (pa_actionId previous) j" "j_status j = Failed \<or> j_status j = RecoveryRequired"
        "j_requestHash j = pa_requestHash previous" using h by auto
    from blocked_attempt [OF previous(2,1) this] show "\<exists>e'. attempt sha256 p scope a (attempts sha256 p scope later st1) = (st1, Threw (RelayStopped e'))"
      unfolding r by (metis prod.collapse)
  qed (rule previous(1))
qed

definition stopped_job :: job where
  "stopped_job = demo_job \<lparr> j_status := Failed, j_requestHash := replicate 64 (CHR ''a''), j_receipt := None \<rparr>"

definition stopped_env :: submit_env where
  "stopped_env = (let answer = (\<lambda>_. Fetched 200 (Some (public_job_json (publicJob stopped_job)))) in
     \<lparr> se_recover = answer, se_recoverStart = 0, se_recoverRounds = [], se_randomIds = Some (''a'', ''k''),
       se_issue = (\<lambda>_. Inr ''token''), se_submit = answer, se_start = 0, se_rounds = [] \<rparr>)"

lemma stopped_attempt:
  "\<exists>st1 e. attempt demo_sha sponsor_provider sponsor_scope (stopped_env, [CHR 0xFF]) new_walletless_state = (st1, Threw (RelayStopped e))
     \<and> ws_pending st1 (pending_key demo_sha sponsor_scope)
       = Some \<lparr> pa_actionId = ''a'', pa_idempotencyKey = ''k'', pa_requestHash = replicate 64 (CHR ''a'') \<rparr>"
proof -
  have "client_submit (se_submit stopped_env) (wp_relay sponsor_provider) r = Inr (job_view (publicJob stopped_job))" for r
  proof -
    have "client_parseJob (public_job_json (publicJob stopped_job)) = Inr (job_view (publicJob stopped_job))"
      by (intro client_reads_public_job) (simp add: publicJob_def stopped_job_def)
    then show ?thesis by (simp add: client_submit_def stopped_env_def Let_def response_ok_def)
  qed
  moreover have "wj_status (job_view (publicJob stopped_job)) = JStr ''failed''"
    by (simp add: job_view_def publicJob_def stopped_job_def)
  ultimately show ?thesis
    by (simp add: attempt_def run_scope_def submitTx_def new_walletless_state_def submit_new_def Let_def stopped_env_def
        scope_capability_def walletlessActionRequestHash_def digestText_def demo_sha_def)
qed

theorem stopped_action_blocks_voter_witness:
  "\<exists>st1 e e'. attempt demo_sha sponsor_provider sponsor_scope (stopped_env, [CHR 0xFF]) new_walletless_state = (st1, Threw (RelayStopped e))
     \<and> attempt demo_sha sponsor_provider sponsor_scope (stopped_env, [CHR 0xEE]) (attempts demo_sha sponsor_provider sponsor_scope [(stopped_env, [CHR 0xDD])] st1)
       = (st1, Threw (RelayStopped e'))"
proof -
  obtain st1 e where s: "attempt demo_sha sponsor_provider sponsor_scope (stopped_env, [CHR 0xFF]) new_walletless_state = (st1, Threw (RelayStopped e))"
      "ws_pending st1 (pending_key demo_sha sponsor_scope)
       = Some \<lparr> pa_actionId = ''a'', pa_idempotencyKey = ''k'', pa_requestHash = replicate 64 (CHR ''a'') \<rparr>"
    using stopped_attempt by blast
  have idle: "ws_activeScope new_walletless_state = None" by (simp add: new_walletless_state_def)
  have issue: "se_issue stopped_env c \<noteq> Inl (RelayStopped e')" for c e' by (simp add: stopped_env_def Let_def)
  have j: "answers_job stopped_env sponsor_provider i stopped_job" "j_status stopped_job = Failed"
      "j_requestHash stopped_job = replicate 64 (CHR ''a'')" for i
    by (simp_all add: answers_job_def stopped_env_def Let_def stopped_job_def)
  let ?later = "[(stopped_env, [CHR 0xDD])]" and ?a = "(stopped_env, [CHR 0xEE])"
  obtain previous where previous: "ws_pending st1 (pending_key demo_sha sponsor_scope) = Some previous"
      "\<forall>later a. (\<forall>b \<in> set (later @ [a]). \<exists>j. answers_job (fst b) sponsor_provider (pa_actionId previous) j
            \<and> (j_status j = Failed \<or> j_status j = RecoveryRequired) \<and> j_requestHash j = pa_requestHash previous)
        \<longrightarrow> attempts demo_sha sponsor_provider sponsor_scope later st1 = st1
          \<and> (\<exists>e'. attempt demo_sha sponsor_provider sponsor_scope a (attempts demo_sha sponsor_provider sponsor_scope later st1)
                = (st1, Threw (RelayStopped e')))"
    using stopped_action_blocks_voter [OF s(1) idle issue] by blast
  have "pa_requestHash previous = replicate 64 (CHR ''a'')" using previous(1) s(2) by auto
  then have "\<forall>b \<in> set (?later @ [?a]). \<exists>j. answers_job (fst b) sponsor_provider (pa_actionId previous) j
      \<and> (j_status j = Failed \<or> j_status j = RecoveryRequired) \<and> j_requestHash j = pa_requestHash previous"
    using j by auto
  then show ?thesis using previous(2) [rule_format, of ?later ?a] s(1) by blast
qed

end
