(* ===== verification/Action_Properties.thy ===== *)
theory Action_Properties
  imports Action_Adapter Passport_Catalog Provider_Properties
begin

text \<open>
  What the pieces of a vote do together: the configuration, the catalogue's eligibility,
  the adapter's private state, the provider and the circuits of the referendum.
\<close>

section \<open>From a configuration to the sealed ledger\<close>

text \<open>The ledger fields that the constructor seals, from its checked arguments.\<close>

definition sealed_by :: "'d referendum_args \<Rightarrow> 'd referendum_sealed" where
  "sealed_by a = \<lparr> sl_registryId = ra_registryId a, sl_issuerId = ra_issuerId a, sl_credentialEpoch = ra_credentialEpoch a,
     sl_initialCredentialRoot = ra_initialCredentialRoot a, sl_registryContractBinding = ra_registryContractBinding a,
     sl_registryContract = ra_registryContract a, sl_eventId = ra_eventId a, sl_organizerKey = ra_organizerKey a,
     sl_rootPublisherKey = ra_rootPublisherKey a, sl_opensAtUnix = word_of_int (ra_opensAtUnix a),
     sl_enrollmentClosesAtUnix = word_of_int (ra_enrollmentClosesAtUnix a), sl_closesAtUnix = word_of_int (ra_closesAtUnix a),
     sl_revealClosesAtUnix = word_of_int (ra_revealClosesAtUnix a), sl_countryPolicy = ra_countryPolicy a,
     sl_countryPolicyEnabled = ra_countryPolicyEnabled a, sl_minimumAssurance = word_of_int (ra_minimumAssurance a),
     sl_requireAdult = ra_requireAdult a, sl_validityReference = word_of_int (ra_validityReference a) \<rparr>"

lemma uint_of_range: "0 \<le> n \<Longrightarrow> n < 2 ^ LENGTH('w) \<Longrightarrow> uint (word_of_int n :: 'w::len word) = n"
  by (simp add: uint_word_of_int)

lemma word_of_int_le: "0 \<le> a \<Longrightarrow> a < 2 ^ LENGTH('w) \<Longrightarrow> 0 \<le> b \<Longrightarrow> b < 2 ^ LENGTH('w)
    \<Longrightarrow> (word_of_int a :: 'w::len word) \<le> word_of_int b \<longleftrightarrow> a \<le> b"
  by (simp add: word_le_def uint_of_range)

lemma word_of_int_less: "0 \<le> a \<Longrightarrow> a < 2 ^ LENGTH('w) \<Longrightarrow> 0 \<le> b \<Longrightarrow> b < 2 ^ LENGTH('w)
    \<Longrightarrow> (word_of_int a :: 'w::len word) < word_of_int b \<longleftrightarrow> a < b"
  by (simp add: word_less_def uint_of_range)

lemma constructor_args:
  assumes "referendumV2ConstructorArgs rt config = Inr a"
  shows "ra_issuerId a = fr_issuerId (xc_registry config)" "length (fr_issuerId (xc_registry config)) = 32"
    "ra_credentialEpoch a = fr_credentialEpoch (xc_registry config)" "ra_initialCredentialRoot a = fr_frozenRoot (xc_registry config)"
    "ra_eventId a = xc_eventId config" "length (xc_eventId config) = 32"
    "ra_countryPolicy a = xc_countryPolicy config" "ra_countryPolicyEnabled a = xc_countryPolicyEnabled config"
    "ra_minimumAssurance a = xc_minimumAssurance config" "ra_requireAdult a = xc_requireAdult config"
    "ra_validityReference a = xc_validityReference config" "ra_rootPublisherKey a = xc_rootPublisherKey config"
    "ra_organizerKey a = xc_organizerKey config" "xc_rootPublisherKey config \<noteq> xc_organizerKey config"
    "ra_opensAtUnix a = xc_opensAtUnix config" "ra_enrollmentClosesAtUnix a = xc_enrollmentClosesAtUnix config"
    "ra_closesAtUnix a = xc_closesAtUnix config" "ra_revealClosesAtUnix a = xc_revealClosesAtUnix config"
  using assms by (auto simp: referendumV2ConstructorArgs_def Let_def)

lemma constructor_ranges:
  assumes "referendumV2ConstructorArgs rt config = Inr a"
  shows "0 \<le> ra_minimumAssurance a" "ra_minimumAssurance a < 2 ^ 8" "0 \<le> ra_validityReference a" "ra_validityReference a < 2 ^ 64"
    "0 \<le> ra_opensAtUnix a" "ra_opensAtUnix a < 2 ^ 64" "0 \<le> ra_enrollmentClosesAtUnix a" "ra_enrollmentClosesAtUnix a < 2 ^ 64"
    "0 \<le> ra_closesAtUnix a" "ra_closesAtUnix a < 2 ^ 64" "0 \<le> ra_revealClosesAtUnix a" "ra_revealClosesAtUnix a < 2 ^ 64"
  using assms by (auto simp: referendumV2ConstructorArgs_def Let_def)

definition schedule_ok :: "'d referendum_config \<Rightarrow> bool" where
  "schedule_ok c = (xc_opensAtUnix c \<le> xc_enrollmentClosesAtUnix c \<and> xc_enrollmentClosesAtUnix c \<le> xc_closesAtUnix c
     \<and> xc_opensAtUnix c < xc_closesAtUnix c \<and> xc_closesAtUnix c < xc_revealClosesAtUnix c)"

lemma constructor_accepts:
  assumes "referendumV2ConstructorArgs rt config = Inr a"
  shows "(\<exists>s. new_referendum (sealed_by a) = Inr s) \<longleftrightarrow> schedule_ok config"
proof -
  note args = constructor_args [OF assms] and ranges = constructor_ranges [OF assms]
  have w: "sl_opensAtUnix (sealed_by a) \<le> sl_enrollmentClosesAtUnix (sealed_by a) \<longleftrightarrow> xc_opensAtUnix config \<le> xc_enrollmentClosesAtUnix config"
      "sl_enrollmentClosesAtUnix (sealed_by a) \<le> sl_closesAtUnix (sealed_by a) \<longleftrightarrow> xc_enrollmentClosesAtUnix config \<le> xc_closesAtUnix config"
      "sl_opensAtUnix (sealed_by a) < sl_closesAtUnix (sealed_by a) \<longleftrightarrow> xc_opensAtUnix config < xc_closesAtUnix config"
      "sl_closesAtUnix (sealed_by a) < sl_revealClosesAtUnix (sealed_by a) \<longleftrightarrow> xc_closesAtUnix config < xc_revealClosesAtUnix config"
    using ranges args by (simp_all add: sealed_by_def word_of_int_le word_of_int_less)
  have k: "sl_organizerKey (sealed_by a) \<noteq> sl_rootPublisherKey (sealed_by a)" using args(12-14) by (simp add: sealed_by_def)
  show ?thesis
    by (simp only: new_referendum_def rbind_eq_Inr check_eq_Inr w schedule_ok_def) (use k in auto)
qed

section \<open>The witnesses of an adapter's vote\<close>

definition opening_of :: "private_material \<Rightarrow> string \<Rightarrow> int \<Rightarrow> credential_opening" where
  "opening_of material country validUntil = \<lparr> co_holderBinding = pm_holderBinding material, co_country = country,
     co_ageClass = word_of_int (ageClassCode (cl_ageClass (pm_claims material))),
     co_assurance = word_of_int (assuranceCode (cl_assurance (pm_claims material))),
     co_claimEpoch = word_of_int (cl_credentialEpoch (pm_claims material)), co_validUntil = word_of_int validUntil,
     co_blind = pm_credentialBlind material \<rparr>"

lemma codes_range: "0 \<le> ageClassCode x" "ageClassCode x < 2 ^ 8" "0 \<le> assuranceCode y" "assuranceCode y < 2 ^ 8"
  by (cases x; cases y; simp)+

lemma seconds_range:
  assumes "isoTimestampSeconds date_parse s = Inr n"
  shows "0 \<le> n" "n < 2 ^ 64" "\<exists>ms. date_parse s = Some ms \<and> n = ms div 1000"
  using assms by (auto simp: isoTimestampSeconds_def max_safe_def split: option.splits if_splits)

lemma voter_state_witness:
  assumes "buildReferendumV2VoterPrivateState date_parse material path choice salt = Inr ps"
    and "length (mp_leaf path) = 32" "length (mp_path path) = tree_depth"
    and "0 \<le> cl_credentialEpoch (pm_claims material)" "cl_credentialEpoch (pm_claims material) < 2 ^ 64"
  obtains country validUntil where "padBytes32 (cl_country (pm_claims material)) = Inr country"
    "isoTimestampSeconds date_parse (cl_validUntil (pm_claims material)) = Inr validUntil"
    "referendumWitnesses ps = Inr (honest_witness \<lparr> vp_voterSecret = pm_voterSecret material, vp_holderBlind = pm_holderBlind material,
       vp_leaf = opening_of material country validUntil, vp_path = path, vp_choice = choice, vp_salt = salt \<rparr>)"
proof -
  have bytes: "material_bytes v = Inr x \<longleftrightarrow> length v = 32 \<and> x = v" for v x by (auto simp: material_bytes_def)
  obtain country validUntil where c: "padBytes32 (cl_country (pm_claims material)) = Inr country"
      "isoTimestampSeconds date_parse (cl_validUntil (pm_claims material)) = Inr validUntil"
      "length (pm_voterSecret material) = 32" "length (pm_holderBinding material) = 32" "length (pm_holderBlind material) = 32"
      "length (pm_credentialBlind material) = 32" "length salt = 32"
      "ps = \<lparr> fp_role = VoterRole, fp_organizerSecret = None, fp_rootPublisherSecret = None, fp_voterSecret = Some (pm_voterSecret material),
           fp_holderBinding = Some (pm_holderBinding material), fp_holderBlind = Some (pm_holderBlind material),
           fp_credentialBlind = Some (pm_credentialBlind material), fp_credentialCountry = Some country,
           fp_credentialAgeClass = Some (ageClassCode (cl_ageClass (pm_claims material))),
           fp_credentialAssurance = Some (assuranceCode (cl_assurance (pm_claims material))),
           fp_credentialClaimEpoch = Some (cl_credentialEpoch (pm_claims material)), fp_credentialValidUntil = Some validUntil,
           fp_voterPath = Some path, fp_voterChoice = Some choice, fp_voteSalt = Some salt, fp_revealPath = None \<rparr>"
    using assms(1) by (auto simp: buildReferendumV2VoterPrivateState_def Let_def bytes)
  show ?thesis
  proof (rule that [OF c(1,2)])
    show "referendumWitnesses ps = Inr (honest_witness \<lparr> vp_voterSecret = pm_voterSecret material, vp_holderBlind = pm_holderBlind material,
       vp_leaf = opening_of material country validUntil, vp_path = path, vp_choice = choice, vp_salt = salt \<rparr>)"
      unfolding referendumWitnesses_def
      using c(3-8) assms(2-5) codes_range seconds_range(1,2) [OF c(2)] padBytes32_length [OF c(1)]
      by (simp add: honest_witness_def opening_of_def Let_def)
  qed
qed

lemma material_leaf:
  assumes "deriveCredentialLeaf rt date_parse (pm_holderBinding material) (pm_claims material) (pm_credentialBlind material) = Inr leaf"
    and "padBytes32 (cl_issuerId (pm_claims material)) = Inr issuerId" "padBytes32 (cl_country (pm_claims material)) = Inr country"
    and "isoTimestampSeconds date_parse (cl_validUntil (pm_claims material)) = Inr validUntil"
    and "length (pm_holderBinding material) = 32" "length (pm_credentialBlind material) = 32"
    and "0 \<le> cl_credentialEpoch (pm_claims material)" "cl_credentialEpoch (pm_claims material) < 2 ^ 64"
  shows "leaf = credentialLeaf rt issuerId (opening_of material country validUntil)"
proof -
  let ?c = "opening_of material country validUntil"
  have f: "co_holderBinding ?c = pm_holderBinding material" "co_country ?c = country" "co_blind ?c = pm_credentialBlind material"
      "uint (co_ageClass ?c) = ageClassCode (cl_ageClass (pm_claims material))"
      "uint (co_assurance ?c) = assuranceCode (cl_assurance (pm_claims material))"
      "uint (co_claimEpoch ?c) = cl_credentialEpoch (pm_claims material)" "uint (co_validUntil ?c) = validUntil"
    using assms(7,8) codes_range seconds_range(1,2) [OF assms(4)] by (simp_all add: opening_of_def uint_of_range)
  have "Inr leaf = (Inr (credentialLeaf rt issuerId ?c) :: (crypto_error, string) result)"
    using mirror_leaf [of ?c issuerId rt] assms(1-6) padBytes32_length [OF assms(2)] padBytes32_length [OF assms(3)]
    unfolding f by (simp add: deriveCredentialLeaf_def)
  then show ?thesis by simp
qed

section \<open>Eligibility\<close>

lemma utf8_digits: "list_all is_digit s \<Longrightarrow> utf8 s = s"
  by (induction s) (auto simp: utf8_def utf8_char_def is_digit_def Let_def)

lemma utf8_no_mark:
  assumes "padBytes32 s = Inr b"
  shows "take 3 b \<noteq> byte_order_mark"
proof -
  have "hd (utf8_char c) \<noteq> char_of (239::nat)" for c
  proof (cases "(of_char c :: nat) < 128")
    case False
    have "(of_char c :: nat) div 64 < 4" using nat_of_char_less_256 [of c] by (simp add: less_mult_imp_div_less)
    then have "192 + (of_char c :: nat) div 64 < 239" by simp
    then show ?thesis using False by (auto simp: utf8_char_def Let_def dest: arg_cong [where f = "of_char :: char \<Rightarrow> nat"])
  qed (auto simp: utf8_char_def Let_def)
  then have "s \<noteq> [] \<Longrightarrow> hd (utf8 s) \<noteq> char_of (239::nat) \<and> utf8 s \<noteq> []"
    by (cases s) (auto simp: utf8_def utf8_char_def Let_def)
  moreover have "b = utf8 s @ replicate (32 - length (utf8 s)) (char_of (0::nat))"
    using assms by (auto simp: padBytes32_def zero_pad_def split: if_splits)
  ultimately have "hd b \<noteq> char_of (239::nat)"
    by (cases "s = []") (auto simp: utf8_def hd_append)
  then show ?thesis by (cases b) (auto simp: byte_order_mark_def)
qed

lemma stripped_split:
  assumes "rev (dropWhile (\<lambda>c. c = z) (rev b)) = d"
  shows "b = d @ replicate (length b - length d) z"
proof -
  have "rev b = takeWhile (\<lambda>c. c = z) (rev b) @ rev d" using assms by (metis rev_rev_ident takeWhile_dropWhile_id)
  moreover have "takeWhile (\<lambda>c. c = z) (rev b) = replicate (length (takeWhile (\<lambda>c. c = z) (rev b))) z"
    by (rule replicate_length_same [symmetric]) (auto dest: set_takeWhileD)
  ultimately obtain n where "rev b = replicate n z @ rev d" by metis
  then have "b = d @ replicate n z" by (metis rev_append rev_replicate rev_rev_ident)
  then show ?thesis by simp
qed

lemma country_code_pads:
  assumes "padBytes32 s = Inr b" "decoded_country b = d" "length d = 3" "list_all is_digit d"
  shows "padBytes32 d = Inr b"
proof -
  have "rev (dropWhile (\<lambda>c. c = char_of (0::nat)) (rev b)) = d"
    using assms(2) utf8_no_mark [OF assms(1)] by (simp add: decoded_country_def)
  then have "b = d @ replicate 29 (char_of (0::nat))"
    using stripped_split [of "char_of (0::nat)" b d] padBytes32_length [OF assms(1)] assms(3) by simp
  then show ?thesis using utf8_digits [OF assms(4)] assms(3) by (simp add: padBytes32_def zero_pad_def)
qed

lemma configured_referendum:
  assumes "parseReferendum date_parse registry network v = Inr e"
  shows "country_policy (fld v ''countryPolicy'') = Inr (xc_countryPolicy (rr_config e))"
    "xc_countryPolicyEnabled (rr_config e) \<longleftrightarrow> fld v ''countryPolicy'' \<noteq> Some JNull"
    "xc_registry (rr_config e) = registry" "xc_network (rr_config e) = Some network"
    "config_nonEmptyString (fld v ''referendumId'') ''referendum ID'' = Inr (rr_referendumId e)"
    "config_nonEmptyString (fld v ''contractAddress'') ''referendum address'' = Inr (rr_contractAddress e)"
    "unsignedBigInt (fld v ''opensAtUnix'') 64 = Inr (xc_opensAtUnix (rr_config e))"
    "unsignedBigInt (fld v ''enrollmentClosesAtUnix'') 64 = Inr (xc_enrollmentClosesAtUnix (rr_config e))"
    "unsignedBigInt (fld v ''closesAtUnix'') 64 = Inr (xc_closesAtUnix (rr_config e))"
    "unsignedBigInt (fld v ''revealClosesAtUnix'') 64 = Inr (xc_revealClosesAtUnix (rr_config e))"
    "unsignedBigInt (fld v ''minimumAssurance'') 8 = Inr (xc_minimumAssurance (rr_config e))"
    "unsignedBigInt (fld v ''validityReference'') 64 = Inr (xc_validityReference (rr_config e))"
    "config_bytes32 (fld v ''eventIdHex'') ''event ID'' = Inr (xc_eventId (rr_config e))"
    "config_bytes32 (fld v ''organizerKeyHex'') ''organizer key'' = Inr (xc_organizerKey (rr_config e))"
    "config_bytes32 (fld v ''rootPublisherKeyHex'') ''root publisher key'' = Inr (xc_rootPublisherKey (rr_config e))"
proof -
  obtain b where b: "fld v ''requireAdult'' = Some (JBool b)"
  proof (cases "fld v ''requireAdult''")
    case (Some w)
    then show ?thesis using that assms by (cases w) (simp_all add: parseReferendum_def)
  qed (use assms in \<open>simp add: parseReferendum_def\<close>)
  note d = assms [unfolded parseReferendum_def b option.case json.case rbind_eq_Inr]
  show "country_policy (fld v ''countryPolicy'') = Inr (xc_countryPolicy (rr_config e))"
    "xc_countryPolicyEnabled (rr_config e) \<longleftrightarrow> fld v ''countryPolicy'' \<noteq> Some JNull"
    "xc_registry (rr_config e) = registry" "xc_network (rr_config e) = Some network"
    "config_nonEmptyString (fld v ''referendumId'') ''referendum ID'' = Inr (rr_referendumId e)"
    "config_nonEmptyString (fld v ''contractAddress'') ''referendum address'' = Inr (rr_contractAddress e)"
    "unsignedBigInt (fld v ''opensAtUnix'') 64 = Inr (xc_opensAtUnix (rr_config e))"
    "unsignedBigInt (fld v ''enrollmentClosesAtUnix'') 64 = Inr (xc_enrollmentClosesAtUnix (rr_config e))"
    "unsignedBigInt (fld v ''closesAtUnix'') 64 = Inr (xc_closesAtUnix (rr_config e))"
    "unsignedBigInt (fld v ''revealClosesAtUnix'') 64 = Inr (xc_revealClosesAtUnix (rr_config e))"
    "unsignedBigInt (fld v ''minimumAssurance'') 8 = Inr (xc_minimumAssurance (rr_config e))"
    "unsignedBigInt (fld v ''validityReference'') 64 = Inr (xc_validityReference (rr_config e))"
    "config_bytes32 (fld v ''eventIdHex'') ''event ID'' = Inr (xc_eventId (rr_config e))"
    "config_bytes32 (fld v ''organizerKeyHex'') ''organizer key'' = Inr (xc_organizerKey (rr_config e))"
    "config_bytes32 (fld v ''rootPublisherKeyHex'') ''root publisher key'' = Inr (xc_rootPublisherKey (rr_config e))"
    using d by auto
qed

lemma configured_country:
  assumes "parseReferendum date_parse registry network v = Inr e" "xc_countryPolicyEnabled (rr_config e)"
  shows "\<exists>s. padBytes32 s = Inr (xc_countryPolicy (rr_config e))"
proof -
  obtain s where "map_err ConfigCrypto (padBytes32 s) = Inr (xc_countryPolicy (rr_config e))"
    using configured_referendum(1,2) [OF assms(1)] assms(2) by (auto simp: country_policy_def)
  then show ?thesis by (cases "padBytes32 s") (auto simp: map_err_def)
qed

lemma assurance_levels: "assuranceLevel x = assuranceCode x"
  by (cases x) (simp_all add: assuranceLevel_def)

lemma eligible_policy:
  assumes "item \<in> set (toPassportV2Catalog [e])" "parseReferendum date_parse registry network v = Inr e"
    and "catalogEligibility date_parse item (Some summary) = None" "su_claims summary = pm_claims material"
    and "referendumV2ConstructorArgs rt (rr_config e) = Inr a"
    and "padBytes32 (cl_country (pm_claims material)) = Inr country"
    and "isoTimestampSeconds date_parse (cl_validUntil (pm_claims material)) = Inr validUntil"
  shows "policy_holds (sealed_by a) (opening_of material country validUntil)"
proof -
  let ?p = "rr_config e" and ?c = "pm_claims material"
  have item: "ci_source item = Some e" "ci_scope item = (if xc_countryPolicyEnabled ?p then CountryScope else GlobalScope)"
    using assms(1) by (simp_all add: toPassportV2Catalog_def)
  note args = constructor_args [OF assms(5)] and ranges = constructor_ranges [OF assms(5)] and seconds = seconds_range [OF assms(7)]
  have r: "policy_refusal date_parse ?p ?c = None" using assms(3,4) item by (auto simp: catalogEligibility_def split: option.splits)
  have epoch: "cl_credentialEpoch ?c = uint (fr_credentialEpoch (xc_registry ?p))"
    using r by (auto simp: policy_refusal_def Let_def split: if_splits)
  have validity: "xc_validityReference ?p \<le> validUntil"
    using r seconds(3) by (auto simp: policy_refusal_def Let_def split: if_splits option.splits)
  have assurance: "xc_minimumAssurance ?p \<le> assuranceCode (cl_assurance ?c)"
    using r by (auto simp: policy_refusal_def Let_def assurance_levels split: if_splits)
  have age: "xc_requireAdult ?p \<Longrightarrow> cl_ageClass ?c = Adult"
    using r by (auto simp: policy_refusal_def Let_def split: if_splits)
  have land: "country = xc_countryPolicy ?p" if on: "xc_countryPolicyEnabled ?p"
  proof -
    obtain d where d: "countryPolicyCode item = Some d" "d = cl_country ?c"
      using assms(3,4) item on r by (auto simp: catalogEligibility_def split: option.splits if_splits)
    then have code: "decoded_country (xc_countryPolicy ?p) = d" "length d = 3" "list_all is_digit d"
      using item on by (auto simp: countryPolicyCode_def Let_def split: if_splits)
    obtain s where "padBytes32 s = Inr (xc_countryPolicy ?p)" using configured_country [OF assms(2) on] by blast
    from country_code_pads [OF this code] show ?thesis using assms(6) d(2) by simp
  qed
  show ?thesis
    unfolding policy_holds_def
    using epoch validity assurance age land args ranges seconds(1,2) codes_range
    by (auto simp: sealed_by_def opening_of_def word_of_int_le)
qed

section \<open>What a prepared vote has passed\<close>

lemma bindings_agree:
  assumes "assertReferendumRegistryBinding rt ref b = Inr ()"
  shows "rb_issuerId b = fr_issuerId ref" "rb_initialCredentialRoot b = fr_frozenRoot ref" "rb_credentialEpoch b = fr_credentialEpoch ref"
  using assms by (auto simp: assertReferendumRegistryBinding_def)

lemma phase_strs [simp]: "phase_str p = ''COMMIT'' \<longleftrightarrow> p = COMMIT"
  by (cases p) simp_all

lemma map_err_eq [simp]: "map_err f r = Inr x \<longleftrightarrow> r = Inr x"
  by (cases r) (simp_all add: map_err_def)

lemma canonical_binding:
  assumes "assertCanonicalBinding rt m registryState referendumState e = Inr ()"
  obtains r s where "registryState = Some r" "referendumState = Some s" "rg_frozen r" "rg_frozenRoot r = registry_root m r"
    "fr_frozenRoot (xc_registry (ct_config e)) = registry_root m r" "sl_initialCredentialRoot (rf_sealed s) = registry_root m r"
    "rf_phase s = COMMIT" "\<not> rf_closed s" "sl_eventId (rf_sealed s) = xc_eventId (ct_config e)"
proof -
  obtain r ref where r: "registryState = Some r"
      "createFrozenCredentialRegistryReference rt (fr_registryContractAddress (xc_registry (ct_config e))) (parseCredentialRegistryV1 m r) = Inr ref"
      "assertReferendumRegistryBinding rt ref (entry_binding e) = Inr ()"
    using assms by (auto simp: assertCanonicalBinding_def split: option.splits)
  obtain s where s: "referendumState = Some s" "assertReferendumRegistryBinding rt ref (sealed_binding (rf_sealed s)) = Inr ()"
      "rf_phase s = COMMIT" "\<not> rf_closed s" "sl_eventId (rf_sealed s) = xc_eventId (ct_config e)"
    using assms r by (auto simp: assertCanonicalBinding_def Let_def parseReferendumV2_def split: option.splits)
  have ref: "rg_frozen r" "rg_frozenRoot r = registry_root m r" "fr_frozenRoot ref = registry_root m r"
    using r(2) by (auto simp: createFrozenCredentialRegistryReference_def parseCredentialRegistryV1_def)
  show ?thesis
    using that [OF r(1) s(1) ref(1,2) _ _ s(3-5)] bindings_agree(2) [OF r(3)] bindings_agree(2) [OF s(2)] ref(3)
    by (simp add: entry_binding_def reference_binding_def sealed_binding_def)
qed

lemma prepared_vote:
  assumes "prepare_vote rt m date_parse env referenda request = Inr (e, ex, ps)"
  obtains material path salt where "map_of referenda (cr_referendumId request) = Some e" "cn_material env = Inr (Some material)"
    "assertCanonicalBinding rt m (cn_registry env) (cn_referendum env) e = Inr ()"
    "resolveCredentialPath m (cn_registryForPath env) (pm_credentialLeaf material) = Inr path" "cn_salt env = Some salt"
    "buildReferendumV2VoterPrivateState date_parse material path (cr_choice request) salt = Inr ps"
    "createReferendumV2Executor rt (ct_config e) = Inr ex" "cn_authorization env = Inr (Some (cr_handle request))"
  using assms by (auto simp: prepare_vote_def split: option.splits)

text \<open>The path that the adapter resolves is the leaf's path in the registry's tree.\<close>

lemma resolved_path:
  assumes "findPathForLeaf m tree_depth (rg_credentials r) leaf = Some path" "registry_inv m r"
  shows "mp_leaf path = leaf" "length (mp_path path) = tree_depth" "merkleTreePathRoot m path = registry_root m r"
proof -
  have "leaf \<in> set (rg_credentials r)"
    using assms(1) by (auto simp: findPathForLeaf_def split: option.splits) (metis index_of_None option.distinct(1))
  then show "mp_leaf path = leaf" "length (mp_path path) = tree_depth" "merkleTreePathRoot m path = registry_root m r"
    using findPathForLeaf_complete [of leaf "rg_credentials r" tree_depth m] assms
    by (auto simp: registry_inv_def registry_root_def)
qed

text \<open>An eligible credential is of the registry's epoch, which is a word.\<close>

lemma eligible_epoch:
  assumes "item \<in> set (toPassportV2Catalog [e])" "catalogEligibility date_parse item (Some summary) = None"
    and "su_claims summary = c"
  shows "0 \<le> cl_credentialEpoch c" "cl_credentialEpoch c < 2 ^ 64"
proof -
  have "policy_refusal date_parse (rr_config e) c = None"
    using assms by (auto simp: toPassportV2Catalog_def catalogEligibility_def split: option.splits)
  then have "cl_credentialEpoch c = uint (fr_credentialEpoch (xc_registry (rr_config e)))"
    by (auto simp: policy_refusal_def Let_def split: if_splits)
  then show "0 \<le> cl_credentialEpoch c" "cl_credentialEpoch c < 2 ^ 64"
    using uint_bounded [of "fr_credentialEpoch (xc_registry (rr_config e))"] by simp_all
qed

text \<open>
  C18: An eligible voter's vote is accepted. When the catalogue of a configured referendum
  shows no reason against a credential, and the adapter has prepared a vote with that
  credential's material - its leaf and holder binding derived as the issuer derives
  them -, then the witnesses made from the prepared private state let \<open>castVote\<close> succeed
  on the referendum deployed from the same configuration, in the voting window, for a
  voter who has not voted, while the ballot tree has room and the initial root is not
  revoked; the ballot it adds is the voter's choice under the salt that was kept.
\<close>

theorem eligible_credential_can_vote:
  assumes "parseReferendum date_parse registry network v = Inr e" "item \<in> set (toPassportV2Catalog [e])"
    and "catalogEligibility date_parse item (Some summary) = None" "su_claims summary = pm_claims material"
    and "prepare_vote rt m date_parse env referenda request = Inr (entry, ex, ps)" "ct_config entry = rr_config e"
    and "cn_material env = Inr (Some material)" "cn_registry env = Some r" "cn_registryForPath env = Some r" "registry_inv m r"
    and "cn_referendum env = Some s" "referendumV2ConstructorArgs rt (rr_config e) = Inr a" "rf_sealed s = sealed_by a"
    and "deriveHolderBinding rt (pm_voterSecret material) (pm_holderBlind material) = Inr (pm_holderBinding material)"
    and "deriveCredentialLeaf rt date_parse (pm_holderBinding material) (pm_claims material) (pm_credentialBlind material)
        = Inr (pm_credentialLeaf material)"
    and "length (pm_credentialLeaf material) = 32" "padBytes32 (cl_issuerId (pm_claims material)) = Inr (fr_issuerId registry)"
    and "sl_initialCredentialRoot (rf_sealed s) \<in> rf_acceptedCredentialRoots s"
    and "sl_opensAtUnix (rf_sealed s) \<le> t" "t < sl_closesAtUnix (rf_sealed s)" "length (rf_ballotCommitments s) < 2 ^ tree_depth"
    and "voteNullifier rt (pm_voterSecret material) (sl_eventId (rf_sealed s)) \<notin> rf_spentVoteNullifiers s"
  shows "\<exists>w s' salt. referendumWitnesses ps = Inr w \<and> castVote rt m t w s = Inr s' \<and> cn_salt env = Some salt
    \<and> rf_ballotCommitments s' = rf_ballotCommitments s @ [ballotCommitment rt (xc_eventId (rr_config e)) (cr_choice request) salt]"
proof -
  let ?c = "pm_claims material"
  obtain found path salt where q: "cn_material env = Inr (Some found)" "assertCanonicalBinding rt m (cn_registry env) (cn_referendum env) entry = Inr ()"
      "resolveCredentialPath m (cn_registryForPath env) (pm_credentialLeaf found) = Inr path" "cn_salt env = Some salt"
      "buildReferendumV2VoterPrivateState date_parse found path (cr_choice request) salt = Inr ps"
    by (rule prepared_vote [OF assms(5)])
  have p: "assertCanonicalBinding rt m (Some r) (Some s) entry = Inr ()"
      "findPathForLeaf m tree_depth (rg_credentials r) (pm_credentialLeaf material) = Some path" "cn_salt env = Some salt"
      "buildReferendumV2VoterPrivateState date_parse material path (cr_choice request) salt = Inr ps"
    using q assms(7-9,11) by (auto simp: resolveCredentialPath_def findCredentialPath_def split: option.splits)
  note args = constructor_args [OF assms(12)] and config = configured_referendum [OF assms(1)]
  have state: "rf_phase s = COMMIT" "\<not> rf_closed s" "sl_initialCredentialRoot (rf_sealed s) = registry_root m r"
    using canonical_binding [OF p(1)] by auto
  note path = resolved_path [OF p(2) assms(10)]
  note epoch = eligible_epoch [OF assms(2-4)]
  have len: "length (mp_leaf path) = 32" using path(1) assms(16) by simp
  obtain country validUntil where c: "padBytes32 (cl_country ?c) = Inr country" "isoTimestampSeconds date_parse (cl_validUntil ?c) = Inr validUntil"
      "referendumWitnesses ps = Inr (honest_witness \<lparr> vp_voterSecret = pm_voterSecret material, vp_holderBlind = pm_holderBlind material,
         vp_leaf = opening_of material country validUntil, vp_path = path, vp_choice = cr_choice request, vp_salt = salt \<rparr>)"
    by (rule voter_state_witness [OF p(4) len path(2) epoch])
  let ?w = "honest_witness \<lparr> vp_voterSecret = pm_voterSecret material, vp_holderBlind = pm_holderBlind material,
         vp_leaf = opening_of material country validUntil, vp_path = path, vp_choice = cr_choice request, vp_salt = salt \<rparr>"
  have sizes: "length (pm_voterSecret material) = 32" "length (pm_holderBlind material) = 32" "length (pm_holderBinding material) = 32"
      "length (pm_credentialBlind material) = 32"
    using p(4) by (auto simp: buildReferendumV2VoterPrivateState_def Let_def material_bytes_def split: if_splits)
  have leaf: "pm_credentialLeaf material = credentialLeaf rt (fr_issuerId registry) (opening_of material country validUntil)"
    by (rule material_leaf [OF assms(15,17) c(1,2) sizes(3,4) epoch])
  have binding: "holderBindingFromVoter rt (pm_voterSecret material) (pm_holderBlind material) = pm_holderBinding material"
    using mirror_binding [OF sizes(1,2), of rt] assms(14) by simp
  have "policy_holds (sealed_by a) (opening_of material country validUntil)"
    by (rule eligible_policy [OF assms(2,1,3,4,12) c(1,2)])
  moreover have "sl_issuerId (rf_sealed s) = fr_issuerId registry" using assms(13) args(1) config(3) by (simp add: sealed_by_def)
  ultimately have "cast_ok rt m t ?w s"
    using assms(13,18-22) state path leaf binding unfolding cast_ok_def
    by (simp add: honest_witness_def policy_holds_def) (simp add: opening_of_def)
  then obtain s' where s': "castVote rt m t ?w s = Inr s'" unfolding castVote_iff by blast
  moreover have "sl_eventId (rf_sealed s) = xc_eventId (rr_config e)" using assms(13) args(5) by (simp add: sealed_by_def)
  ultimately show ?thesis using c(3) p(3) by (auto simp: castVote_iff honest_witness_def)
qed

text \<open>One deployment, one credential and one vote for the properties' witnesses.\<close>

definition fixed_runtime :: compact_runtime where
  "fixed_runtime = \<lparr> persistentHash = (\<lambda>_. replicate 32 (CHR ''h'')), persistentCommit = (\<lambda>_ _. replicate 32 (CHR ''c'')),
     convertFieldToBytes = (\<lambda>_. replicate 32 (CHR ''f'')) \<rparr>"

definition vote_material :: private_material where
  "vote_material = \<lparr> pm_voterSecret = sample_bytes, pm_holderBlind = sample_bytes, pm_holderBinding = replicate 32 (CHR ''c''),
     pm_credentialBlind = sample_bytes, pm_credentialLeaf = replicate 32 (CHR ''c''),
     pm_claims = \<lparr> cl_issuerId = ''i'', cl_country = ''032'', cl_ageClass = Adult, cl_assurance = DocumentNfc,
       cl_credentialEpoch = 1, cl_validFrom = ''f'', cl_validUntil = ''u'' \<rparr> \<rparr>"

definition vote_root :: free_digest where
  "vote_root = tree_root free_merkle tree_depth [replicate 32 (CHR ''c'')]"

definition vote_registry :: "free_digest registry_ledger" where
  "vote_registry = \<lparr> rg_registryId = sample_bytes, rg_issuerId = pad32 ''i'', rg_credentialEpoch = 1, rg_issuerKey = sample_bytes,
     rg_credentials = [replicate 32 (CHR ''c'')], rg_frozenRoot = vote_root, rg_frozen = True, rg_credentialCount = 1 \<rparr>"

definition vote_reference :: "free_digest frozen_reference" where
  "vote_reference = \<lparr> fr_registryContractAddress = sample_address, fr_registryContractBinding = replicate 32 (CHR ''h''),
     fr_registryId = sample_bytes, fr_issuerId = pad32 ''i'', fr_credentialEpoch = 1, fr_frozenRoot = vote_root \<rparr>"

definition vote_wire :: json where
  "vote_wire = JObj [(''referendumId'', JStr ''r1''), (''contractAddress'', JStr ''c1''), (''countryPolicy'', JStr ''032''),
     (''minimumAssurance'', JStr ''2''), (''requireAdult'', JBool True), (''title'', JStr ''t''), (''question'', JStr ''q''),
     (''eventIdHex'', JStr (replicate 64 (CHR ''6''))), (''organizerKeyHex'', JStr (replicate 64 (CHR ''1''))),
     (''rootPublisherKeyHex'', JStr (replicate 64 (CHR ''2''))), (''opensAtUnix'', JStr ''10''),
     (''enrollmentClosesAtUnix'', JStr ''20''), (''closesAtUnix'', JStr ''30''), (''revealClosesAtUnix'', JStr ''40''),
     (''validityReference'', JStr ''5'')]"

definition vote_config :: "free_digest referendum_config" where
  "vote_config = \<lparr> xc_registry = vote_reference, xc_eventId = replicate 32 (CHR ''f''), xc_organizerKey = replicate 32 (CHR 0x11),
     xc_rootPublisherKey = replicate 32 (CHR 0x22), xc_countryPolicy = pad32 ''032'', xc_countryPolicyEnabled = True,
     xc_minimumAssurance = 2, xc_requireAdult = True, xc_validityReference = 5, xc_opensAtUnix = 10,
     xc_enrollmentClosesAtUnix = 20, xc_closesAtUnix = 30, xc_revealClosesAtUnix = 40, xc_network = Some Preview,
     xc_explorerBaseUrl = Some ''https://explorer.preview.midnight.network/tx'' \<rparr>"

definition vote_referendum :: "free_digest runtime_referendum" where
  "vote_referendum = \<lparr> rr_referendumId = ''r1'', rr_contractAddress = ''c1'', rr_title = ''t'', rr_question = ''q'', rr_description = None,
     rr_opened = None, rr_deadline = None, rr_opensAt = None, rr_closesAt = None, rr_eligible = None, rr_participation = None,
     rr_config = vote_config \<rparr>"

lemma vote_numbers:
  "unsignedBigInt (Some (JStr ''2'')) 8 = Inr 2" "unsignedBigInt (Some (JStr ''5'')) 64 = Inr 5" "unsignedBigInt (Some (JStr ''10'')) 64 = Inr 10"
  "unsignedBigInt (Some (JStr ''20'')) 64 = Inr 20" "unsignedBigInt (Some (JStr ''30'')) 64 = Inr 30" "unsignedBigInt (Some (JStr ''40'')) 64 = Inr 40"
  by code_simp+

lemma vote_bytes:
  "config_bytes32 (Some (JStr (replicate 64 (CHR ''6'')))) l = Inr (replicate 32 (CHR ''f''))"
  "config_bytes32 (Some (JStr (replicate 64 (CHR ''1'')))) l = Inr (replicate 32 (CHR 0x11))"
  "config_bytes32 (Some (JStr (replicate 64 (CHR ''2'')))) l = Inr (replicate 32 (CHR 0x22))"
  by code_simp+

lemma vote_texts:
  "config_nonEmptyString (Some (JStr ''r1'')) l = Inr ''r1''" "config_nonEmptyString (Some (JStr ''c1'')) l = Inr ''c1''"
  "config_nonEmptyString (Some (JStr ''t'')) l = Inr ''t''" "config_nonEmptyString (Some (JStr ''q'')) l = Inr ''q''"
  "country_policy (Some (JStr ''032'')) = Inr (pad32 ''032'')"
  by code_simp+

lemma vote_parsed: "parseReferendum date_parse vote_reference Preview vote_wire = Inr vote_referendum"
  by (simp add: parseReferendum_def vote_wire_def vote_numbers vote_bytes vote_texts optionalText_def assertLifecycleDates_def
      vote_referendum_def vote_config_def)

definition vote_date :: "string \<Rightarrow> int option" where
  "vote_date s = Some 9000"

definition vote_args :: "free_digest referendum_args" where
  "vote_args = \<lparr> ra_registryId = sample_bytes, ra_issuerId = pad32 ''i'', ra_credentialEpoch = 1, ra_initialCredentialRoot = vote_root,
     ra_registryContractBinding = replicate 32 (CHR ''h''), ra_registryContract = replicate 32 (char_of (0::nat)),
     ra_eventId = replicate 32 (CHR ''f''), ra_organizerKey = replicate 32 (CHR 0x11), ra_rootPublisherKey = replicate 32 (CHR 0x22),
     ra_countryPolicy = pad32 ''032'', ra_countryPolicyEnabled = True, ra_minimumAssurance = 2, ra_requireAdult = True,
     ra_validityReference = 5, ra_opensAtUnix = 10, ra_enrollmentClosesAtUnix = 20, ra_closesAtUnix = 30, ra_revealClosesAtUnix = 40 \<rparr>"

lemma vote_address:
  "deriveRegistryContractBinding fixed_runtime sample_address = Inr (replicate 32 (CHR ''h''))"
  "contractAddressBytesFromHex sample_address l = Inr (replicate 32 (char_of (0::nat)))" "trim sample_address \<noteq> []"
  "length (pad32 ''i'') = 32" "length (pad32 ''032'') = 32" "length sample_bytes = 32"
  unfolding sample_address_def by code_simp+

lemma vote_constructed: "referendumV2ConstructorArgs fixed_runtime vote_config = Inr vote_args"
  unfolding referendumV2ConstructorArgs_def vote_config_def vote_reference_def
  by (simp add: vote_address assertReferendumRegistryBinding_def reference_binding_def address_binding_def vote_args_def)

definition vote_entry :: "free_digest catalog_entry" where
  "vote_entry = \<lparr> ct_referendumId = ''r1'', ct_contractAddress = ''c1'', ct_config = vote_config \<rparr>"

definition vote_request :: cast_request where
  "vote_request = \<lparr> cr_referendumId = ''r1'', cr_choice = Yes, cr_handle = ''h'' \<rparr>"

definition vote_ledger :: "free_digest referendum_ledger" where
  "vote_ledger = \<lparr> rf_sealed = sealed_by vote_args, rf_acceptedCredentialRoots = {vote_root}, rf_revokedCredentialRoots = {},
     rf_enrollmentClosed = False, rf_ballotCommitments = [], rf_spentVoteNullifiers = {}, rf_revealedCommitments = {},
     rf_tally = [Yes \<mapsto> 0, No \<mapsto> 0, Abstain \<mapsto> 0], rf_phase = COMMIT, rf_closed = False, rf_issuedVotes = 0 \<rparr>"

definition vote_env :: "free_digest registry_ledger \<Rightarrow> string \<Rightarrow> free_digest cast_env" where
  "vote_env r salt = \<lparr> cn_authorization = Inr (Some ''h''), cn_material = Inr (Some vote_material), cn_registry = Some r,
     cn_referendum = Some vote_ledger, cn_registryForPath = Some r, cn_salt = Some salt,
     cn_asContractAddress = Some, cn_found = True \<rparr>"

lemma vote_registry_root: "registry_root free_merkle vote_registry = vote_root"
  by (simp add: registry_root_def vote_registry_def vote_root_def)

lemma vote_registry_inv: "registry_inv free_merkle vote_registry"
  unfolding registry_inv_def vote_registry_root by (simp add: vote_registry_def tree_depth_def)

lemma vote_sealed: "sl_registryId (sealed_by vote_args) = sample_bytes" "sl_issuerId (sealed_by vote_args) = pad32 ''i''"
  "sl_credentialEpoch (sealed_by vote_args) = 1" "sl_initialCredentialRoot (sealed_by vote_args) = vote_root"
  "sl_registryContractBinding (sealed_by vote_args) = replicate 32 (CHR ''h'')" "sl_eventId (sealed_by vote_args) = replicate 32 (CHR ''f'')"
  "sl_opensAtUnix (sealed_by vote_args) = 10" "sl_closesAtUnix (sealed_by vote_args) = 30"
  by (simp_all add: sealed_by_def vote_args_def)

lemma vote_bound: "assertCanonicalBinding fixed_runtime free_merkle (Some vote_registry) (Some vote_ledger) vote_entry = Inr ()"
proof -
  have view: "parseCredentialRegistryV1 free_merkle vote_registry = \<lparr> rv_registryId = sample_bytes, rv_issuerId = pad32 ''i'',
      rv_credentialEpoch = 1, rv_currentRoot = vote_root, rv_frozenRoot = vote_root, rv_frozen = True, rv_credentialCount = 1 \<rparr>"
    unfolding parseCredentialRegistryV1_def vote_registry_root by (simp add: vote_registry_def)
  have ref: "createFrozenCredentialRegistryReference fixed_runtime sample_address (parseCredentialRegistryV1 free_merkle vote_registry)
      = Inr vote_reference"
    unfolding view by (simp add: createFrozenCredentialRegistryReference_def address_binding_def vote_address vote_reference_def)
  have ok: "assertReferendumRegistryBinding fixed_runtime vote_reference b = Inr ()"
    if "b = reference_binding vote_reference" for b
    unfolding that by (simp add: assertReferendumRegistryBinding_def reference_binding_def address_binding_def vote_reference_def vote_address)
  have "entry_binding vote_entry = reference_binding vote_reference" "sealed_binding (sealed_by vote_args) = reference_binding vote_reference"
    by (simp_all add: entry_binding_def vote_entry_def vote_config_def sealed_binding_def vote_sealed reference_binding_def vote_reference_def)
  then have eqs: "assertReferendumRegistryBinding fixed_runtime vote_reference (entry_binding vote_entry) = Inr ()"
      "assertReferendumRegistryBinding fixed_runtime vote_reference (sealed_binding (sealed_by vote_args)) = Inr ()" using ok by simp_all
  have address: "fr_registryContractAddress (xc_registry (ct_config vote_entry)) = sample_address"
    by (simp add: vote_entry_def vote_config_def vote_reference_def)
  show ?thesis
    unfolding assertCanonicalBinding_def option.case address ref
    using eqs by (simp add: vote_ledger_def parseReferendumV2_def vote_sealed vote_entry_def vote_config_def)
qed

lemma vote_path: "\<exists>path. findPathForLeaf free_merkle tree_depth (rg_credentials vote_registry) (replicate 32 (CHR ''c'')) = Some path"
  by (simp add: findPathForLeaf_def vote_registry_def)

lemma vote_prepared:
  assumes "length salt = 32"
  shows "\<exists>ex ps. prepare_vote fixed_runtime free_merkle vote_date (vote_env vote_registry salt) [(''r1'', vote_entry)] request
    = (if cr_referendumId request = ''r1'' \<and> cr_handle request = ''h'' then Inr (vote_entry, ex, ps)
       else Inl (if cr_referendumId request = ''r1'' then ActionError CREDENTIAL_NOT_FOUND False else ActionError POLICY_NOT_SATISFIED False))"
proof -
  obtain path where path: "findPathForLeaf free_merkle tree_depth (rg_credentials vote_registry) (replicate 32 (CHR ''c'')) = Some path"
    using vote_path by blast
  have iso: "isoTimestampSeconds vote_date ''u'' = Inr 9" by code_simp
  have country: "padBytes32 ''032'' = Inr (pad32 ''032'')" by code_simp
  have "\<exists>ex. createReferendumV2Executor fixed_runtime vote_config = Inr ex"
    using vote_constructed by (simp add: createReferendumV2Executor_def requireSupportedNetwork_def vote_config_def)
  moreover have "\<exists>ps. buildReferendumV2VoterPrivateState vote_date vote_material path (cr_choice request) salt = Inr ps"
    using assms by (simp add: buildReferendumV2VoterPrivateState_def vote_material_def material_bytes_def iso country vote_address)
  moreover have "pm_credentialLeaf vote_material = replicate 32 (CHR ''c'')" "ct_config vote_entry = vote_config"
    by (simp_all add: vote_material_def vote_entry_def)
  ultimately show ?thesis
    by (auto simp: prepare_vote_def vote_env_def vote_bound resolveCredentialPath_def findCredentialPath_def path)
qed

definition vote_summary :: credential_summary where
  "vote_summary = \<lparr> su_provider = RarimoProvider, su_status = EnrollIssued, su_claims = pm_claims vote_material \<rparr>"

definition vote_item :: "free_digest catalog_item" where
  "vote_item = hd (toPassportV2Catalog [vote_referendum])"

lemma vote_eligible: "catalogEligibility vote_date vote_item (Some vote_summary) = None"
proof -
  have c: "decoded_country (pad32 ''032'') = ''032''" "list_all is_digit ''032''" by code_simp+
  have item: "ci_scope vote_item = CountryScope" "ci_source vote_item = Some vote_referendum"
    by (simp_all add: vote_item_def toPassportV2Catalog_def vote_referendum_def vote_config_def)
  have "countryPolicyCode vote_item = Some ''032''"
    using item vote_address(5) c by (simp add: countryPolicyCode_def vote_referendum_def vote_config_def)
  moreover have "policy_refusal vote_date vote_config (pm_claims vote_material) = None"
    by (simp add: policy_refusal_def vote_config_def vote_reference_def vote_material_def vote_date_def max_safe_def assuranceLevel_def)
  ultimately show ?thesis
    using item by (simp add: catalogEligibility_def vote_summary_def vote_referendum_def) (simp add: vote_material_def)
qed

theorem eligible_credential_can_vote_witness:
  "\<exists>ex ps w s'. prepare_vote fixed_runtime free_merkle vote_date (vote_env vote_registry sample_bytes) [(''r1'', vote_entry)] vote_request
       = Inr (vote_entry, ex, ps)
     \<and> referendumWitnesses ps = Inr w \<and> castVote fixed_runtime free_merkle 15 w vote_ledger = Inr s'"
proof -
  obtain ex ps where p: "prepare_vote fixed_runtime free_merkle vote_date (vote_env vote_registry sample_bytes) [(''r1'', vote_entry)] vote_request
       = Inr (vote_entry, ex, ps)"
    using vote_prepared [OF vote_address(6), of vote_request] by (auto simp: vote_request_def)
  have item: "vote_item \<in> set (toPassportV2Catalog [vote_referendum])" by (simp add: vote_item_def toPassportV2Catalog_def)
  have env: "cn_material (vote_env vote_registry sample_bytes) = Inr (Some vote_material)"
      "cn_registry (vote_env vote_registry sample_bytes) = Some vote_registry"
      "cn_registryForPath (vote_env vote_registry sample_bytes) = Some vote_registry"
      "cn_referendum (vote_env vote_registry sample_bytes) = Some vote_ledger"
      "su_claims vote_summary = pm_claims vote_material" "ct_config vote_entry = rr_config vote_referendum"
    by (simp_all add: vote_env_def vote_summary_def vote_entry_def vote_referendum_def)
  have args: "referendumV2ConstructorArgs fixed_runtime (rr_config vote_referendum) = Inr vote_args" "rf_sealed vote_ledger = sealed_by vote_args"
    using vote_constructed by (simp_all add: vote_referendum_def vote_ledger_def)
  have derived: "deriveHolderBinding fixed_runtime (pm_voterSecret vote_material) (pm_holderBlind vote_material) = Inr (pm_holderBinding vote_material)"
      "deriveCredentialLeaf fixed_runtime vote_date (pm_holderBinding vote_material) (pm_claims vote_material) (pm_credentialBlind vote_material)
        = Inr (pm_credentialLeaf vote_material)"
      "length (pm_credentialLeaf vote_material) = 32"
      "padBytes32 (cl_issuerId (pm_claims vote_material)) = Inr (fr_issuerId vote_reference)"
  proof -
    show "deriveHolderBinding fixed_runtime (pm_voterSecret vote_material) (pm_holderBlind vote_material) = Inr (pm_holderBinding vote_material)"
      unfolding vote_material_def sample_bytes_def fixed_runtime_def by code_simp
    show "deriveCredentialLeaf fixed_runtime vote_date (pm_holderBinding vote_material) (pm_claims vote_material) (pm_credentialBlind vote_material)
        = Inr (pm_credentialLeaf vote_material)"
      unfolding vote_material_def sample_bytes_def fixed_runtime_def by code_simp
    have "padBytes32 ''i'' = Inr (pad32 ''i'')" by code_simp
    then show "length (pm_credentialLeaf vote_material) = 32"
      "padBytes32 (cl_issuerId (pm_claims vote_material)) = Inr (fr_issuerId vote_reference)"
      by (simp_all add: vote_material_def vote_reference_def)
  qed
  have state: "sl_initialCredentialRoot (rf_sealed vote_ledger) \<in> rf_acceptedCredentialRoots vote_ledger"
      "sl_opensAtUnix (rf_sealed vote_ledger) \<le> 15" "15 < sl_closesAtUnix (rf_sealed vote_ledger)"
      "length (rf_ballotCommitments vote_ledger) < 2 ^ tree_depth" "x \<notin> rf_spentVoteNullifiers vote_ledger" for x
    by (simp_all add: vote_ledger_def vote_sealed)
  show ?thesis
    using eligible_credential_can_vote [OF vote_parsed item vote_eligible env(5) p env(6) env(1-3) vote_registry_inv env(4) args derived state] p
    by blast
qed

section \<open>Open registries\<close>

lemma registry_stays_open:
  assumes "\<And>secret root. Freeze secret root \<notin> set calls" "\<not> rg_frozen r"
  shows "\<not> rg_frozen (registry_run rt m calls r)"
  using assms
proof (induction calls arbitrary: r)
  case (Cons call calls)
  have c: "call \<noteq> Freeze secret root" for secret root using Cons(2) [of secret root] by auto
  have "\<not> rg_frozen (registry_apply rt m call r)"
    using c Cons(3) registry_exec_cases [of rt m call r] by (auto simp: registry_apply_def split: sum.splits)
  then show ?case using Cons(1) [of "registry_apply rt m call r"] Cons(2) by (simp add: registry_run_def)
qed (simp add: registry_run_def)

text \<open>
  C38: A vote against an open registry is refused. As long as the issuer has not frozen the
  registry - whatever credentials it has issued and whatever roots it has attested since
  its deployment -, the browser's adapter refuses every vote with an error, before it
  joins the referendum: nothing is stored, and the circuit is not called.
\<close>

theorem open_registry_refuses_votes:
  assumes "\<And>secret root. Freeze secret root \<notin> set calls"
    and "cn_registry env = Some (registry_run rt m calls (new_registry m registryId issuerId epoch issuerKey))"
  shows "\<exists>err. castVoteOnce rt m date_parse env vote_call referenda request (stored, w) = ((stored, w), Inl err)"
proof -
  have "\<not> rg_frozen (registry_run rt m calls (new_registry m registryId issuerId epoch issuerKey))"
    by (rule registry_stays_open [OF assms(1)]) (simp add: new_registry_def)
  then have "assertCanonicalBinding rt m (cn_registry env) (cn_referendum env) e \<noteq> Inr ()" for e
    using canonical_binding [of rt m "cn_registry env" "cn_referendum env" e] assms(2) by fastforce
  then have "prepare_vote rt m date_parse env referenda request \<noteq> Inr (e, ex, ps)" for e ex ps
    using prepared_vote [of rt m date_parse env referenda request e ex ps] by metis
  then obtain err where "prepare_vote rt m date_parse env referenda request = Inl err"
    by (cases "prepare_vote rt m date_parse env referenda request") auto
  then show ?thesis by (simp add: castVoteOnce_def)
qed

theorem open_registry_refuses_votes_witness:
  "\<exists>err. castVoteOnce fixed_runtime free_merkle vote_date (vote_env (new_registry free_merkle sample_bytes (pad32 ''i'') 1 sample_bytes) sample_bytes)
     (\<lambda>_ _ w. (Suc w, None)) [(''r1'', vote_entry)] vote_request (None, 0) = ((None, 0), Inl err)"
proof -
  have "cn_registry (vote_env (new_registry free_merkle sample_bytes (pad32 ''i'') 1 sample_bytes) sample_bytes)
      = Some (registry_run fixed_runtime free_merkle [] (new_registry free_merkle sample_bytes (pad32 ''i'') 1 sample_bytes))"
    by (simp add: vote_env_def registry_run_def)
  then show ?thesis by (intro open_registry_refuses_votes) auto
qed

section \<open>Recovered actions\<close>

text \<open>
  The provider holds a pending action for the scope, whose job the relay reports with the
  same request hash and, at the first poll, with a receipt that matches it.
\<close>

definition recovers ::
  "(string \<Rightarrow> string) \<Rightarrow> walletless_provider \<Rightarrow> submit_env \<Rightarrow> action_scope \<Rightarrow> walletless_state \<Rightarrow> string \<Rightarrow> bool" where
  "recovers sha256 p env scope st t = (ws_activeScope st = None
     \<and> (\<exists>previous j turn later rc. ws_pending st (pending_key sha256 scope) = Some previous
        \<and> answers_job env p (pa_actionId previous) j \<and> j_requestHash j = pa_requestHash previous
        \<and> j_status j \<noteq> Failed \<and> j_status j \<noteq> RecoveryRequired \<and> se_recoverRounds env = turn # later
        \<and> client_getReceipt (wt_receipt turn) (wp_relay p) (j_id j) = Inr (Some rc)
        \<and> receipt_matches rc (job_view (publicJob j)) (job_view (publicJob j)) \<and> r_transactionId rc = t))"

lemma running_view:
  assumes "j_status j \<noteq> Failed" "j_status j \<noteq> RecoveryRequired"
  shows "wj_status (job_view (publicJob j)) \<noteq> JStr ''failed''" "wj_status (job_view (publicJob j)) \<noteq> JStr ''recovery_required''"
  using assms by (cases "j_status j"; simp add: job_view_def publicJob_def)+

lemma recovered_submission:
  assumes "recovers sha256 p env scope st t"
  shows "run_scope scope (submitTx sha256 p env provenTx) st = (forget_pending (pending_key sha256 scope) st, Returned t)"
proof -
  obtain previous j turn later rc where r: "ws_activeScope st = None" "ws_pending st (pending_key sha256 scope) = Some previous"
      "answers_job env p (pa_actionId previous) j" "j_requestHash j = pa_requestHash previous" "j_status j \<noteq> Failed"
      "j_status j \<noteq> RecoveryRequired" "se_recoverRounds env = turn # later"
      "client_getReceipt (wt_receipt turn) (wp_relay p) (j_id j) = Inr (Some rc)"
      "receipt_matches rc (job_view (publicJob j)) (job_view (publicJob j))" "r_transactionId rc = t"
    using assms unfolding recovers_def by blast
  have v: "wj_requestHash (job_view (publicJob j)) = pa_requestHash previous" "wj_actionId (job_view (publicJob j)) = j_id j"
    using r(4) by (simp_all add: job_view_def publicJob_def)
  have w: "waitForCanonicalReceipt (wp_relay p) deadline (job_view (publicJob j)) (Some (job_view (publicJob j))) (se_recoverRounds env) = Returned t"
    for deadline
    using running_view [OF r(5,6)] r(7-10) v(2) by simp
  show ?thesis
    using r(1,2) answered_action [OF r(3)] v(1) w
    by (simp add: run_scope_def submitTx_def Let_def forget_pending_def del: waitForCanonicalReceipt.simps)
qed

text \<open>
  C37: A retried vote may be answered with the first ballot. When an earlier attempt at the
  referendum left its action pending and the relay has confirmed it since, a further
  vote - whatever its choice, its new salt and its proof - stores its own choice and
  salt as the voter's private state, submits nothing, and ends with a receipt for the
  earlier attempt's transaction.
\<close>

theorem retried_vote_returns_first_ballot:
  assumes "prepare_vote rt m date_parse env referenda request = Inr (e, ex, ps)"
    and "cn_found env" "cn_asContractAddress env (ct_contractAddress e) = Some (ct_contractAddress e)" "prove ps = Some provenTx"
    and "recovers sha256 p senv (vote_scope request (ct_contractAddress e)) st t"
    and "finalized t = Some d" "ft_txId d = t" "ft_succeeded d" "toIsoTimestamp (ft_blockTimestamp d) = Inr time"
  shows "\<exists>r st1. castVoteOnce rt m date_parse env (sponsored_call sha256 p senv prove finalized request) referenda request (stored, st)
      = ((Some ps, st1), Inr r)
    \<and> r_transactionId r = t \<and> fp_voterChoice ps = Some (cr_choice request) \<and> fp_voteSalt ps = cn_salt env
    \<and> ws_lastActionTrace st1 = ws_lastActionTrace st"
proof -
  obtain material path salt where ps: "cn_salt env = Some salt"
      "buildReferendumV2VoterPrivateState date_parse material path (cr_choice request) salt = Inr ps"
      "createReferendumV2Executor rt (ct_config e) = Inr ex"
    by (rule prepared_vote [OF assms(1)])
  have state: "fp_voterChoice ps = Some (cr_choice request)" "fp_voteSalt ps = cn_salt env"
    using ps by (auto simp: buildReferendumV2VoterPrivateState_def Let_def material_bytes_def split: if_splits)
  have ex: "ex_action ex = Vote" "ex_network ex \<noteq> Mainnet"
    using ps(3) by (auto simp: createReferendumV2Executor_def requireSupportedNetwork_def Let_def split: if_splits)
  let ?st1 = "forget_pending (pending_key sha256 (vote_scope request (ct_contractAddress e))) st"
  have call: "sponsored_call sha256 p senv prove finalized request (ct_contractAddress e) ps st = (?st1, Some d)"
    using recovered_submission [OF assms(5), of provenTx] assms(4,6) by (simp add: sponsored_call_def)
  let ?r = "\<lparr> r_action = Vote, r_network = ex_network ex, r_transactionId = t, r_transactionHash = ft_txHash d,
      r_contractAddress = ct_contractAddress e, r_circuit = ''castVote'', r_blockHeight = ft_blockHeight d, r_blockHash = ft_blockHash d,
      r_blockTimestamp = time, r_explorerUrl = truthy_str (explorerUrl (ex_explorerBaseUrl ex) t) \<rparr>"
  have "castVoteOnce rt m date_parse env (sponsored_call sha256 p senv prove finalized request) referenda request (stored, st)
      = ((Some ps, ?st1), Inr ?r)"
    using assms(1-3,7-9) ex call
    by (simp add: castVoteOnce_def executor_join_def executor_call_def executor_receipt_def canonicalReceiptFromFinalizedPublic_def
        assertVoteReceipt_def)
  then show ?thesis using state by (intro exI [of _ ?r] exI [of _ ?st1]) (simp add: forget_pending_def)
qed

definition confirmed_job :: job where
  "confirmed_job = demo_job \<lparr> j_status := Confirmed, j_requestHash := ''hash'', j_network := ''preview'', j_contractAddress := ''c1'',
     j_circuit := ''castVote'', j_transactionId := None, j_receipt := None \<rparr>"

definition recover_env :: submit_env where
  "recover_env = (idle_env [\<lparr> wt_receipt = (\<lambda>_. Fetched 200 (Some (receipt_json sample_receipt))), wt_now = 0, wt_action = (\<lambda>_. FetchRejected) \<rparr>])
     \<lparr> se_recover := (\<lambda>_. Fetched 200 (Some (public_job_json (publicJob confirmed_job)))) \<rparr>"

definition pending_state :: "string \<Rightarrow> walletless_state" where
  "pending_state key = new_walletless_state \<lparr> ws_pending := [key \<mapsto> \<lparr> pa_actionId = ''a1'', pa_idempotencyKey = ''k1'', pa_requestHash = ''hash'' \<rparr>] \<rparr>"

lemma pending_recovers:
  "recovers demo_sha sponsor_provider recover_env scope (pending_state (pending_key demo_sha scope)) ''t1''"
proof -
  have "wf_receipt sample_receipt" by code_simp
  then have "client_getReceipt (\<lambda>_. Fetched 200 (Some (receipt_json sample_receipt))) (wp_relay sponsor_provider) (j_id confirmed_job) = Inr (Some sample_receipt)"
    by (simp add: client_getReceipt_def response_ok_def sanitize_receipt_json map_err_def)
  moreover have "receipt_matches sample_receipt (job_view (publicJob confirmed_job)) (job_view (publicJob confirmed_job))"
    by (simp add: receipt_matches_def job_view_def publicJob_def confirmed_job_def sample_receipt_def)
  moreover have "answers_job recover_env sponsor_provider i confirmed_job" for i
    by (simp add: answers_job_def recover_env_def confirmed_job_def)
  moreover have "j_requestHash confirmed_job = ''hash''" "j_status confirmed_job = Confirmed" "r_transactionId sample_receipt = ''t1''"
    by (simp_all add: confirmed_job_def sample_receipt_def)
  moreover have "ws_activeScope (pending_state (pending_key demo_sha scope)) = None"
      "ws_pending (pending_state (pending_key demo_sha scope)) (pending_key demo_sha scope)
        = Some \<lparr> pa_actionId = ''a1'', pa_idempotencyKey = ''k1'', pa_requestHash = ''hash'' \<rparr>"
      "se_recoverRounds recover_env = [\<lparr> wt_receipt = (\<lambda>_. Fetched 200 (Some (receipt_json sample_receipt))), wt_now = 0,
         wt_action = (\<lambda>_. FetchRejected) \<rparr>]"
    by (simp_all add: pending_state_def new_walletless_state_def recover_env_def idle_env_def)
  ultimately show ?thesis
    unfolding recovers_def
    by (intro conjI exI [of _ confirmed_job] exI [of _ sample_receipt] exI, simp_all) simp_all
qed

definition vote_finalized :: finalized_tx where
  "vote_finalized = \<lparr> ft_succeeded = True, ft_txId = ''t1'', ft_txHash = ''h1'', ft_blockHeight = 7, ft_blockHash = ''b1'', ft_blockTimestamp = 0 \<rparr>"

theorem retried_vote_returns_first_ballot_witness:
  "\<exists>ps r st1. castVoteOnce fixed_runtime free_merkle vote_date (vote_env vote_registry (replicate 32 (CHR ''z'')))
       (sponsored_call demo_sha sponsor_provider recover_env (\<lambda>_. Some ''tx'') (\<lambda>_. Some vote_finalized) vote_request)
       [(''r1'', vote_entry)] vote_request (None, pending_state (pending_key demo_sha (vote_scope vote_request ''c1'')))
     = ((Some ps, st1), Inr r) \<and> r_transactionId r = ''t1'' \<and> fp_voteSalt ps = Some (replicate 32 (CHR ''z''))"
proof -
  obtain ex ps where p: "prepare_vote fixed_runtime free_merkle vote_date (vote_env vote_registry (replicate 32 (CHR ''z''))) [(''r1'', vote_entry)] vote_request
       = Inr (vote_entry, ex, ps)"
    using vote_prepared [of "replicate 32 (CHR ''z'')" vote_request] by (auto simp: vote_request_def)
  have join: "cn_found (vote_env vote_registry (replicate 32 (CHR ''z'')))"
      "cn_asContractAddress (vote_env vote_registry (replicate 32 (CHR ''z''))) (ct_contractAddress vote_entry) = Some (ct_contractAddress vote_entry)"
      "cn_salt (vote_env vote_registry (replicate 32 (CHR ''z''))) = Some (replicate 32 (CHR ''z''))" "ct_contractAddress vote_entry = ''c1''"
    by (simp_all add: vote_env_def vote_entry_def)
  have tx: "ft_txId vote_finalized = ''t1''" "ft_succeeded vote_finalized" "toIsoTimestamp (ft_blockTimestamp vote_finalized) = Inr (toISOString 0)"
    by (simp_all add: vote_finalized_def toIsoTimestamp_def max_time_def)
  show ?thesis
    using retried_vote_returns_first_ballot [where prove = "\<lambda>_. Some ''tx''" and finalized = "\<lambda>_. Some vote_finalized",
        OF p join(1,2) refl pending_recovers refl tx, of None] join(3,4)
    by auto
qed

section \<open>Votes in flight\<close>

datatype adapter_event = VoteRequested cast_request | VoteEnded "(action_error, receipt) result"

definition adapter_step :: "adapter_event \<Rightarrow> action_adapter \<Rightarrow> action_adapter" where
  "adapter_step ev a = (case ev of VoteRequested request \<Rightarrow> fst (castVote_request request a) | VoteEnded result \<Rightarrow> castVote_settle result a)"

definition adapter_run :: "adapter_event list \<Rightarrow> action_adapter" where
  "adapter_run events = fold adapter_step events idle_adapter"

text \<open>A pending vote is the entry of exactly one queued request.\<close>

definition in_flight :: "action_adapter \<Rightarrow> bool" where
  "in_flight a = (distinct (map (cr_referendumId \<circ> snd) (aa_queue a))
     \<and> (\<forall>x \<in> set (aa_queue a). aa_pending a (cr_referendumId (snd x))
          = Some \<lparr> pv_choice = cr_choice (snd x), pv_handle = cr_handle (snd x), pv_ticket = fst x \<rparr>)
     \<and> dom (aa_pending a) = (cr_referendumId \<circ> snd) ` set (aa_queue a))"

lemma in_flight_request: "in_flight a \<Longrightarrow> in_flight (fst (castVote_request request a))"
  by (cases "aa_pending a (cr_referendumId request)") (force simp: in_flight_def castVote_request_def)+

lemma in_flight_settle:
  assumes "in_flight a"
  shows "in_flight (castVote_settle result a)"
proof (cases "aa_queue a")
  case (Cons x waiting)
  let ?i = "cr_referendumId (snd x)"
  have p: "aa_pending a ?i = Some \<lparr> pv_choice = cr_choice (snd x), pv_handle = cr_handle (snd x), pv_ticket = fst x \<rparr>"
    and other: "\<And>y. y \<in> set waiting \<Longrightarrow> cr_referendumId (snd y) \<noteq> ?i"
    and d: "dom (aa_pending a) = insert ?i ((cr_referendumId \<circ> snd) ` set waiting)"
    using assms Cons by (auto simp: in_flight_def rev_image_eqI)
  have "castVote_settle result a = a \<lparr> aa_queue := waiting, aa_pending := (aa_pending a)(?i := None),
      aa_receipts := (case result of Inr r \<Rightarrow> (aa_receipts a)(r_transactionId r \<mapsto> r) | Inl _ \<Rightarrow> aa_receipts a) \<rparr>"
    using p Cons by (cases x) (simp add: castVote_settle_def split: sum.split)
  moreover have "dom ((aa_pending a)(?i := None)) = (cr_referendumId \<circ> snd) ` set waiting"
    using d other by auto
  ultimately show ?thesis using assms Cons other by (auto simp: in_flight_def)
qed (use assms in \<open>simp add: castVote_settle_def\<close>)

lemma in_flight_run: "in_flight (adapter_run events)"
proof (induction events rule: rev_induct)
  case Nil
  then show ?case by (simp add: adapter_run_def in_flight_def idle_adapter_def)
next
  case (snoc ev events)
  then show ?case by (cases ev) (simp_all add: adapter_run_def adapter_step_def in_flight_request in_flight_settle)
qed

text \<open>
  C40: One vote in flight for each referendum. After any sequence of requests and ends of
  votes, no referendum has two votes in the queue; a further request joins the queued
  vote of its referendum when that is the same vote, is queued as a new one when there
  is none, and is refused, changing nothing, when the queued vote differs from it.
\<close>

theorem one_vote_in_flight:
  "distinct (map (cr_referendumId \<circ> snd) (aa_queue (adapter_run events)))
   \<and> (case castVote_request request (adapter_run events) of
        (a, VoteTicket n) \<Rightarrow> (n, request) \<in> set (aa_queue a)
      | (a, VoteConflict) \<Rightarrow> a = adapter_run events
          \<and> (\<exists>x. x \<in> set (aa_queue a) \<and> cr_referendumId (snd x) = cr_referendumId request \<and> snd x \<noteq> request))"
proof -
  let ?a = "adapter_run events"
  have inv: "in_flight ?a" by (rule in_flight_run)
  show ?thesis
  proof (cases "aa_pending ?a (cr_referendumId request)")
    case None
    then show ?thesis using inv by (simp add: castVote_request_def in_flight_def)
  next
    case (Some existing)
    then have "cr_referendumId request \<in> (cr_referendumId \<circ> snd) ` set (aa_queue ?a)"
      using inv by (metis domI in_flight_def)
    then obtain x where x: "x \<in> set (aa_queue ?a)" "cr_referendumId (snd x) = cr_referendumId request" by auto
    then have e: "existing = \<lparr> pv_choice = cr_choice (snd x), pv_handle = cr_handle (snd x), pv_ticket = fst x \<rparr>"
      using inv Some by (auto simp: in_flight_def)
    show ?thesis
    proof (cases "cr_choice (snd x) = cr_choice request \<and> cr_handle (snd x) = cr_handle request")
      case True
      then have "snd x = request" using x(2) by (cases "snd x"; cases request) simp
      then have "(fst x, request) \<in> set (aa_queue ?a)" using x(1) by (metis prod.collapse)
      then show ?thesis using inv Some e True by (simp add: castVote_request_def in_flight_def)
    next
      case False
      then have "snd x \<noteq> request" by auto
      then have "\<exists>y. y \<in> set (aa_queue ?a) \<and> cr_referendumId (snd y) = cr_referendumId request \<and> snd y \<noteq> request" using x by blast
      then show ?thesis using inv Some e False by (simp add: castVote_request_def in_flight_def)
    qed
  qed
qed

end
