(* ===== verification/Manifest_Properties.thy ===== *)
theory Manifest_Properties
  imports Deployment_Manifest Action_Properties
begin

text \<open>
  What a complete manifest proves, and what becomes of it in the web application: its
  environment, the configuration read from it, and the constructor of the referendum.
\<close>

section \<open>Evidence\<close>

lemma all_ok_Inr [simp]: "all_ok f xs = Inr () \<longleftrightarrow> (\<forall>x \<in> set xs. f x = Inr ())"
  by (induction xs) auto

lemma assert_if_Inr [simp]: "assert_if v f = Inr () \<longleftrightarrow> (\<forall>x. v = Some x \<longrightarrow> f x = Inr ())"
  by (cases v) (simp_all add: assert_if_def)

lemma find_member: "List.find P xs = Some x \<Longrightarrow> x \<in> set xs \<and> P x"
  by (metis find_Some_iff nth_mem)

lemma mapM_fst:
  assumes "mapM f xs = Inr ys" "\<And>x y. f x = Inr y \<Longrightarrow> fst y = fst x"
  shows "map fst ys = map fst xs"
  using assms by (induction xs arbitrary: ys) auto

lemma mapM_all2: "mapM f xs = Inr ys \<Longrightarrow> list_all2 (\<lambda>x y. f x = Inr y) xs ys"
  by (induction xs arbitrary: ys) auto

definition lifecycle_evidence :: "manifest \<Rightarrow> (string \<times> receipt) list \<Rightarrow> bool" where
  "lifecycle_evidence m receipts = (map fst receipts = map fst lifecycle_circuits
     \<and> distinct (map (r_transactionId \<circ> snd) receipts)
     \<and> list_all (\<lambda>(i, rc). r_action rc = Vote \<and> map_of lifecycle_circuits i = Some (r_circuit rc)
          \<and> network_str (r_network rc) = mm_network m
          \<and> same_hex (r_contractAddress rc) (the (mf_contractAddress (hd (mm_referenda m))))
          \<and> (\<exists>s \<in> set (mm_steps m). mt_id s = i \<and> step_done s \<and> sanitizeCanonicalReceipt (the (mt_receipt s)) = Inr rc)
          \<and> (\<exists>!ob. ob \<in> set (mm_observations m) \<and> mo_stage ob = i \<and> mo_available ob)) receipts)"

lemma lifecycle_receipt_Inr:
  assumes "lifecycle_receipt network address steps (i, circuit) = Inr y"
  obtains s rc where "y = (i, rc)" "s \<in> set steps" "mt_id s = i" "step_done s" "sanitizeCanonicalReceipt (the (mt_receipt s)) = Inr rc"
    "r_action rc = Vote" "network_str (r_network rc) = network" "r_circuit rc = circuit" "same_hex (r_contractAddress rc) address"
  using assms by (auto simp: lifecycle_receipt_def split: option.splits sum.splits dest: find_member)

lemma lifecycle_receipts:
  assumes "assertLifecycle m a = Inr ()"
  obtains receipts where "lifecycle_evidence m receipts" "transaction_of receipts ''lifecycle.cast'' = Some (ma_transactionId a)"
proof -
  obtain f fs where f: "mm_referenda m = f # fs" using assms by (auto simp: assertLifecycle_def split: list.splits)
  let ?address = "the (mf_contractAddress f)"
  obtain receipts where r: "mapM (lifecycle_receipt (mm_network m) ?address (mm_steps m)) lifecycle_circuits = Inr receipts"
      "distinct (map (r_transactionId \<circ> snd) receipts)" "transaction_of receipts ''lifecycle.cast'' = Some (ma_transactionId a)"
      "all_ok (observed_receipt m) receipts = Inr ()"
    using assms f by (auto simp: assertLifecycle_def Let_def simp del: all_ok_Inr)
  have ids: "map fst receipts = map fst lifecycle_circuits"
    using mapM_fst [OF r(1)] by (metis lifecycle_receipt_Inr fst_conv surj_pair)
  have each: "\<exists>c s. (i, c) \<in> set lifecycle_circuits \<and> s \<in> set (mm_steps m) \<and> mt_id s = i \<and> step_done s
      \<and> sanitizeCanonicalReceipt (the (mt_receipt s)) = Inr rc \<and> r_action rc = Vote \<and> network_str (r_network rc) = mm_network m
      \<and> r_circuit rc = c \<and> same_hex (r_contractAddress rc) ?address" if "(i, rc) \<in> set receipts" for i rc
  proof -
    have "list_all2 (\<lambda>x y. lifecycle_receipt (mm_network m) ?address (mm_steps m) x = Inr y) lifecycle_circuits receipts"
      by (rule mapM_all2 [OF r(1)])
    moreover obtain k where k: "k < length receipts" "receipts ! k = (i, rc)" using \<open>(i, rc) \<in> set receipts\<close> by (auto simp: in_set_conv_nth)
    ultimately have n: "k < length lifecycle_circuits"
        "lifecycle_receipt (mm_network m) ?address (mm_steps m) (lifecycle_circuits ! k) = Inr (i, rc)"
      by (auto simp: list_all2_conv_all_nth)
    obtain i0 c where c: "lifecycle_circuits ! k = (i0, c)" by (cases "lifecycle_circuits ! k")
    have ic: "(i0, c) \<in> set lifecycle_circuits" "lifecycle_receipt (mm_network m) ?address (mm_steps m) (i0, c) = Inr (i, rc)"
      using n c nth_mem [OF n(1)] by simp_all
    show ?thesis by (rule lifecycle_receipt_Inr [OF ic(2)]) (use ic(1) in auto)
  qed
  have seen: "\<exists>!ob. ob \<in> set (mm_observations m) \<and> mo_stage ob = i \<and> mo_available ob" if "(i, rc) \<in> set receipts" for i rc
  proof -
    have "observed_receipt m (i, rc) = Inr ()" using r(4) that by auto
    then obtain ob where "filter (\<lambda>ob. mo_stage ob = i \<and> mo_available ob) (mm_observations m) = [ob]"
      by (auto simp: observed_receipt_def split: list.splits)
    then have "{ob \<in> set (mm_observations m). mo_stage ob = i \<and> mo_available ob} = {ob}"
      by (metis set_filter list.set(1,2))
    then have "(ob' \<in> set (mm_observations m) \<and> mo_stage ob' = i \<and> mo_available ob') \<longleftrightarrow> ob' = ob" for ob' by (auto simp: set_eq_iff)
    then show ?thesis by simp
  qed
  have circuits: "map_of lifecycle_circuits i = Some c" if "(i, c) \<in> set lifecycle_circuits" for i c
    using that by (auto simp: lifecycle_circuits_def)
  have "lifecycle_evidence m receipts"
    unfolding lifecycle_evidence_def list_all_iff
  proof (intro conjI ballI, rule ids, rule r(2))
    fix x
    assume x: "x \<in> set receipts"
    obtain i rc where p: "x = (i, rc)" by (cases x)
    obtain c s where c: "(i, c) \<in> set lifecycle_circuits" "s \<in> set (mm_steps m)" "mt_id s = i" "step_done s"
        "sanitizeCanonicalReceipt (the (mt_receipt s)) = Inr rc" "r_action rc = Vote" "network_str (r_network rc) = mm_network m"
        "r_circuit rc = c" "same_hex (r_contractAddress rc) ?address"
      using each x p by blast
    show "case x of (i, rc) \<Rightarrow> r_action rc = Vote \<and> map_of lifecycle_circuits i = Some (r_circuit rc)
        \<and> network_str (r_network rc) = mm_network m \<and> same_hex (r_contractAddress rc) (the (mf_contractAddress (hd (mm_referenda m))))
        \<and> (\<exists>s \<in> set (mm_steps m). mt_id s = i \<and> step_done s \<and> sanitizeCanonicalReceipt (the (mt_receipt s)) = Inr rc)
        \<and> (\<exists>!ob. ob \<in> set (mm_observations m) \<and> mo_stage ob = i \<and> mo_available ob)"
      unfolding p prod.case f list.sel
      using c(2-7,9) circuits [OF c(1)] c(8) seen [of i rc] x p by (intro conjI bexI [of _ s]) simp_all
  qed
  then show ?thesis using that r(3) by blast
qed

text \<open>A later root is one that a step admitted and another step, in its own transaction, attested on the registry.\<close>

definition root_evidence :: "manifest \<Rightarrow> manifest_referendum \<Rightarrow> string \<Rightarrow> bool" where
  "root_evidence m f root = (\<exists>p \<in> set (mm_steps m). \<exists>q \<in> set (mm_steps m).
     step_on ''referendum.publish-root'' (the (mf_contractAddress f)) root p
     \<and> step_on ''registry.attest'' (the (mf_registryContractAddress f)) root q
     \<and> step_receipt_text q ''transactionId'' = mt_attestationTransactionId p
     \<and> step_receipt_text q ''transactionId'' \<noteq> step_receipt_text p ''transactionId'')"

lemma provenance:
  assumes "assertRootProvenance (mm_steps m) (the (mf_contractAddress f)) (the (mf_registryContractAddress f)) root = Inr ()"
  shows "root_evidence m f root"
proof -
  obtain p where p: "p \<in> set (mm_steps m)" "step_on ''referendum.publish-root'' (the (mf_contractAddress f)) root p"
      "mt_attestationTransactionId p \<noteq> step_receipt_text p ''transactionId''"
      "List.find (\<lambda>s. step_on ''registry.attest'' (the (mf_registryContractAddress f)) root s
         \<and> step_receipt_text s ''transactionId'' = mt_attestationTransactionId p) (mm_steps m) \<noteq> None"
    using assms by (auto simp: assertRootProvenance_def split: option.splits dest: find_member)
  obtain q where "q \<in> set (mm_steps m)" "step_on ''registry.attest'' (the (mf_registryContractAddress f)) root q"
      "step_receipt_text q ''transactionId'' = mt_attestationTransactionId p"
    using p(4) by (auto dest: find_member)
  then show ?thesis using p(1-3) unfolding root_evidence_def by metis
qed

text \<open>
  C19: A complete manifest holds the evidence it stands for. Its four lifecycle receipts are
  confirmed receipts of the four circuits for the first referendum on the manifest's
  network, of steps of the transcript, with four different transactions and one
  available indexer observation each, the relayed action is the one that cast the
  vote, and every root that a referendum accepts beyond its initial one was published
  by one step and attested on the registry by another, in a different transaction.
\<close>

theorem complete_manifest_evidence:
  assumes "assertCompletePassportV2DeploymentManifest sha256 v = Inr m"
  shows "(\<exists>receipts. lifecycle_evidence m receipts
      \<and> transaction_of receipts ''lifecycle.cast'' = map_option ma_transactionId (mm_action m))
    \<and> list_all (\<lambda>f. list_all (root_evidence m f) (filter (\<lambda>r. r \<noteq> mf_initialRootField f) (mf_acceptedRoots f))) (mm_referenda m)"
proof -
  have c: "assert_complete sha256 v m = Inr ()"
    using assms by (auto simp: assertCompletePassportV2DeploymentManifest_def split: option.splits)
  then obtain a where a: "mm_action m = Some a" "assertLifecycle m a = Inr ()"
      "all_ok (assertReferendumEvidence (mm_steps m)) (mm_referenda m) = Inr ()"
    by (auto simp: assert_complete_def simp del: all_ok_Inr split: option.splits)
  obtain receipts where "lifecycle_evidence m receipts" "transaction_of receipts ''lifecycle.cast'' = Some (ma_transactionId a)"
    by (rule lifecycle_receipts [OF a(2)])
  moreover have "root_evidence m f root" if "f \<in> set (mm_referenda m)" "root \<in> set (mf_acceptedRoots f)" "root \<noteq> mf_initialRootField f" for f root
    using a(3) that by (intro provenance) (auto simp: assertReferendumEvidence_def)
  ultimately show ?thesis using a(1) by (auto simp: list_all_iff)
qed

section \<open>From the manifest to the configuration\<close>

lemma trim_ends:
  assumes "s \<noteq> []" "\<not> is_ws (hd s)" "\<not> is_ws (last s)"
  shows "trim s = s"
proof -
  have "dropWhile is_ws s = s" using assms(1,2) by (cases s) simp_all
  moreover have "dropWhile is_ws (rev s) = rev s" using assms(1,3) by (cases s rule: rev_cases) simp_all
  ultimately show ?thesis by (simp add: trim_def)
qed

lemma digit_not_ws: "is_digit c \<Longrightarrow> \<not> is_ws c"
  by (auto simp: is_digit_def is_ws_def Let_def)

lemma trim_digits: "digits_text s \<Longrightarrow> trim s = s"
  by (intro trim_ends) (auto simp: digits_text_def list_all_iff intro!: digit_not_ws)

lemma digits_no_radix:
  assumes "list_all is_digit s"
  shows "toLowerCase (take 2 s) \<noteq> ''0x''" "toLowerCase (take 2 s) \<noteq> ''0o''" "toLowerCase (take 2 s) \<noteq> ''0b''"
proof -
  have low: "lower_char c = c" if "is_digit c" for c using that by (auto simp: is_digit_def lower_char_def Let_def)
  have "list_all is_digit (take 2 s)" using assms by (auto simp: list_all_iff dest: in_set_takeD)
  then have d: "list_all is_digit (toLowerCase (take 2 s))" by (auto simp: list_all_iff toLowerCase_def low)
  have "\<not> list_all is_digit ''0x''" "\<not> list_all is_digit ''0o''" "\<not> list_all is_digit ''0b''" by (simp_all add: is_digit_def)
  then show "toLowerCase (take 2 s) \<noteq> ''0x''" "toLowerCase (take 2 s) \<noteq> ''0o''" "toLowerCase (take 2 s) \<noteq> ''0b''" using d by metis+
qed

lemma js_BigInt_digits:
  assumes "digits_text s"
  shows "js_BigInt s = Some (int (read_nat s))"
proof -
  have s: "s \<noteq> []" "list_all is_digit s" using assms by (simp_all add: digits_text_def)
  then have h: "is_digit (hd s)" by (cases s) simp_all
  then have "hd s \<noteq> CHR ''-''" "hd s \<noteq> CHR ''+''" by (auto simp: is_digit_def)
  then show ?thesis unfolding js_BigInt_def trim_digits [OF assms] using s digits_no_radix [OF s(2)] by (simp add: Let_def)
qed

lemma decimal_field:
  assumes "assertDecimal s l = Inr ()" "unsignedBigInt (Some (JStr s)) bits = Inr n"
  shows "n = int (read_nat s)"
proof -
  have d: "digits_text s" using assms(1) by (simp add: assertDecimal_def)
  then have "trim s \<noteq> []" using trim_digits by (simp add: digits_text_def)
  then show ?thesis using assms(2) js_BigInt_digits [OF d] by (auto simp: unsignedBigInt_def split: if_splits)
qed

lemma wire_fields:
  "fld (referendum_wire f) ''referendumId'' = Some (JStr (mf_referendumId f))"
  "fld (referendum_wire f) ''contractAddress'' = Some (nullable_json (mf_contractAddress f))"
  "fld (referendum_wire f) ''opensAtUnix'' = Some (JStr (mf_opensAtUnix f))"
  "fld (referendum_wire f) ''enrollmentClosesAtUnix'' = Some (JStr (mf_enrollmentClosesAtUnix f))"
  "fld (referendum_wire f) ''closesAtUnix'' = Some (JStr (mf_closesAtUnix f))"
  "fld (referendum_wire f) ''revealClosesAtUnix'' = Some (JStr (mf_revealClosesAtUnix f))"
  by (simp_all add: referendum_wire_def)

lemma wire_wf: "wf_json (referendum_wire f)"
proof -
  have "wf_json (nullable_json v)" for v by (cases v) (simp_all add: nullable_json_def)
  then show ?thesis
    by (simp add: referendum_wire_def obj_ordered_def key_before_def is_index_key_def is_digit_def list_all_iff)
qed

lemma wires_parse: "json_parse (trim (stringify (JArr (map referendum_wire fs)))) = Some (JArr (map referendum_wire fs))"
proof -
  have "hd (stringify (JArr (map referendum_wire fs))) = CHR ''[''" "last (stringify (JArr (map referendum_wire fs))) = CHR '']''" by simp_all
  then have "trim (stringify (JArr (map referendum_wire fs))) = stringify (JArr (map referendum_wire fs))"
    by (intro trim_ends) (simp_all add: is_ws_def)
  moreover have "wf_json (JArr (map referendum_wire fs))" by (simp add: list_all_iff wire_wf)
  ultimately show ?thesis by (simp only: parse_stringify)
qed

definition same_referendum :: "manifest_referendum \<Rightarrow> 'd runtime_referendum \<Rightarrow> bool" where
  "same_referendum f e = (rr_referendumId e = trim (mf_referendumId f)
     \<and> Some (rr_contractAddress e) = map_option trim (mf_contractAddress f)
     \<and> xc_opensAtUnix (rr_config e) = int (read_nat (mf_opensAtUnix f))
     \<and> xc_enrollmentClosesAtUnix (rr_config e) = int (read_nat (mf_enrollmentClosesAtUnix f))
     \<and> xc_closesAtUnix (rr_config e) = int (read_nat (mf_closesAtUnix f))
     \<and> xc_revealClosesAtUnix (rr_config e) = int (read_nat (mf_revealClosesAtUnix f))
     \<and> schedule_ok (rr_config e))"

lemma validated_schedule:
  assumes "validate_referenda g ids fs = Inr ()" "f \<in> set fs"
  shows "validate_schedule f = Inr ()"
  using assms by (induction g ids fs rule: validate_referenda.induct) (auto simp: validate_referendum_def)

lemma parsed_wire:
  assumes "parseReferendum date_parse registry network (referendum_wire f) = Inr e" "validate_schedule f = Inr ()"
  shows "same_referendum f e"
proof -
  note p = configured_referendum [OF assms(1), unfolded wire_fields]
  have d: "assertDecimal (mf_opensAtUnix f) ''opensAtUnix'' = Inr ()" "assertDecimal (mf_enrollmentClosesAtUnix f) ''enrollmentClosesAtUnix'' = Inr ()"
      "assertDecimal (mf_closesAtUnix f) ''closesAtUnix'' = Inr ()" "assertDecimal (mf_revealClosesAtUnix f) ''revealClosesAtUnix'' = Inr ()"
    using assms(2) by (auto simp: validate_schedule_def)
  note n = decimal_field [OF d(1) p(7)] decimal_field [OF d(2) p(8)] decimal_field [OF d(3) p(9)] decimal_field [OF d(4) p(10)]
  have "rr_referendumId e = trim (mf_referendumId f)" using p(5) by (auto simp: config_nonEmptyString_def optionalText_def split: if_splits)
  moreover have "Some (rr_contractAddress e) = map_option trim (mf_contractAddress f)"
    using p(6) by (cases "mf_contractAddress f") (auto simp: config_nonEmptyString_def optionalText_def nullable_json_def split: if_splits)
  moreover have "schedule_ok (rr_config e)"
    using assms(2) unfolding schedule_ok_def n by (auto simp: validate_schedule_def)
  ultimately show ?thesis using n by (simp add: same_referendum_def)
qed

lemma environment_fields:
  "map_of (runtime_environment m) ''VITE_PASSPORT_V2_API_URL'' = Some (mm_apiUrl m)"
  "map_of (runtime_environment m) ''VITE_CICO_REGISTRY_ADDRESS'' = Some (the (mg_contractAddress (mm_registry m)))"
  "map_of (runtime_environment m) ''VITE_CICO_FROZEN_ROOT_FIELD'' = Some (case mg_frozenRootField (mm_registry m) of None \<Rightarrow> [] | Some r \<Rightarrow> r)"
  "map_of (runtime_environment m) ''VITE_CICO_REFERENDA_JSON'' = Some (stringify (JArr (map referendum_wire (mm_referenda m))))"
  by (simp_all add: runtime_environment_def Let_def)

lemma environment_made:
  assumes "passportV2ManifestRuntimeEnvironment sha256 v = Inr env" "read_manifest v = Some m"
  shows "env = runtime_environment m" "assert_complete sha256 v m = Inr ()" "assertRegistrySnapshot (mm_registry m) = Inr ()"
proof -
  show "env = runtime_environment m" and c: "assert_complete sha256 v m = Inr ()"
    using assms by (auto simp: passportV2ManifestRuntimeEnvironment_def assertCompletePassportV2DeploymentManifest_def)
  show "assertRegistrySnapshot (mm_registry m) = Inr ()"
    using c by (auto simp: assert_complete_def simp del: all_ok_Inr split: option.splits)
qed

lemma config_parts:
  assumes "parsePassportV2RuntimeConfig rt root_of date_parse env = Inr (Some c)"
  obtains network credentialEpoch registry referenda where "runtime_network env = Inr network"
    "runtime_registry rt root_of env credentialEpoch = Inr registry" "runtime_referenda date_parse env registry network = Inr referenda"
    "rc_registry c = registry" "rc_referenda c = referenda" "rc_network c = network"
  using assms by (auto simp: parsePassportV2RuntimeConfig_def Let_def split: if_splits)

lemma required_Inr [simp]: "required env key = Inr x \<longleftrightarrow> (\<exists>v. env key = Some v \<and> trim v \<noteq> [] \<and> x = trim v)"
  by (auto simp: required_def split: option.splits)

lemma registry_parts:
  assumes "runtime_registry rt root_of env epoch = Inr registry"
  obtains address root field where "env ''VITE_CICO_REGISTRY_ADDRESS'' = Some address" "fr_registryContractAddress registry = trim address"
    "env ''VITE_CICO_FROZEN_ROOT_FIELD'' = Some root" "trim root \<noteq> []" "unsignedBigInt (Some (JStr (trim root))) 256 = Inr field"
    "fr_frozenRoot registry = root_of (nat field)"
  using assms by (auto simp: runtime_registry_def)


text \<open>
  C20: What the application runs is what was deployed. When a manifest passes the
  validation of its declared fields and its environment is accepted by the web
  application's parser, the configuration has the manifest's registry address and frozen
  root and exactly its referenda, in order, with their ids, contract addresses and
  schedules; and the constructor of the referendum accepts every configured referendum
  whose arguments the executor accepts.
\<close>

theorem deployment_reaches_application:
  assumes "read_manifest v = Some m" "validate_manifest mrt parse_url mdate sha256 v m = Inr ()"
    and "passportV2ManifestRuntimeEnvironment sha256 v = Inr env"
    and "parsePassportV2RuntimeConfig rt root_of date_parse (map_of env) = Inr (Some c)"
  shows "list_all2 same_referendum (mm_referenda m) (rc_referenda c)
    \<and> fr_registryContractAddress (rc_registry c) = trim (the (mg_contractAddress (mm_registry m)))
    \<and> fr_frozenRoot (rc_registry c) = root_of (read_nat (the (mg_frozenRootField (mm_registry m))))
    \<and> list_all (\<lambda>e. referendumV2ConstructorArgs rt (rr_config e) = Inr a \<longrightarrow> (\<exists>s. new_referendum (sealed_by a) = Inr s)) (rc_referenda c)"
proof -
  note made = environment_made [OF assms(3,1)]
  have schedules: "validate_schedule f = Inr ()" if "f \<in> set (mm_referenda m)" for f
    using assms(2) that validated_schedule [of "mm_registry m" "{}" "mm_referenda m" f] by (auto simp: validate_manifest_def simp del: all_ok_Inr)
  obtain network epoch registry referenda where c: "runtime_registry rt root_of (map_of env) epoch = Inr registry"
      "runtime_referenda date_parse (map_of env) registry network = Inr referenda" "rc_registry c = registry" "rc_referenda c = referenda"
    using config_parts [OF assms(4)] by metis
  have "mapM (parseReferendum date_parse registry network) (map referendum_wire (mm_referenda m)) = Inr referenda"
  proof -
    obtain doc where d: "required (map_of env) ''VITE_CICO_REFERENDA_JSON'' = Inr doc"
        "json_parse doc = Some (JArr (map referendum_wire (mm_referenda m)))"
      using c(2) wires_parse [of "mm_referenda m"] unfolding runtime_referenda_def made(1)
      by (cases "required (map_of (runtime_environment m)) ''VITE_CICO_REFERENDA_JSON''") (auto simp: environment_fields simp del: stringify.simps)
    show ?thesis using c(2) unfolding runtime_referenda_def d sum.case option.case json.case
      by (cases "map referendum_wire (mm_referenda m)") auto
  qed
  then have "list_all2 (\<lambda>v e. parseReferendum date_parse registry network v = Inr e) (map referendum_wire (mm_referenda m)) referenda"
    by (rule mapM_all2)
  then have same: "list_all2 same_referendum (mm_referenda m) referenda"
    by (auto simp: list_all2_conv_all_nth intro!: parsed_wire schedules)
  then have "schedule_ok (rr_config e)" if "e \<in> set referenda" for e
    using that by (auto simp: list_all2_conv_all_nth in_set_conv_nth same_referendum_def)
  then have built: "list_all (\<lambda>e. referendumV2ConstructorArgs rt (rr_config e) = Inr a \<longrightarrow> (\<exists>s. new_referendum (sealed_by a) = Inr s)) referenda"
    using constructor_accepts [of rt _ a] by (auto simp: list_all_iff)
  obtain address root field where p: "map_of env ''VITE_CICO_REGISTRY_ADDRESS'' = Some address" "fr_registryContractAddress registry = trim address"
      "map_of env ''VITE_CICO_FROZEN_ROOT_FIELD'' = Some root" "trim root \<noteq> []" "unsignedBigInt (Some (JStr (trim root))) 256 = Inr field"
      "fr_frozenRoot registry = root_of (nat field)"
    by (rule registry_parts [OF c(1)])
  obtain r where r: "mg_frozenRootField (mm_registry m) = Some r" "trim r \<noteq> []" "unsignedBigInt (Some (JStr (trim r))) 256 = Inr field"
    using p(3-5) unfolding made(1) environment_fields by (cases "mg_frozenRootField (mm_registry m)") (auto simp: trim_def)
  have address: "fr_registryContractAddress registry = trim (the (mg_contractAddress (mm_registry m)))"
    using p(1,2) unfolding made(1) environment_fields by simp
  have "present (mg_frozenRootField (mm_registry m))" using r(1,2) by (auto simp: present_def trim_def)
  then have "assertDecimal r ''frozenRootField'' = Inr ()" using made(3) r(1) by (auto simp: assertRegistrySnapshot_def split: if_splits)
  then have "field = int (read_nat r)"
    using decimal_field r(3) trim_digits by (metis assertDecimal_def check_eq_Inr)
  then show ?thesis using same built c(3,4) r(1) p(6) address by simp
qed

section \<open>The text of a manifest\<close>

text \<open>The JSON value of declared fields, which \<^const>\<open>read_manifest\<close> reads back.\<close>

definition step_json :: "manifest_step \<Rightarrow> json" where
  "step_json s = JObj ([(''id'', JStr (mt_id s)), (''status'', JStr (mt_status s)), (''completedAt'', JStr (mt_completedAt s))]
     @ opt_prop ''receipt'' id (mt_receipt s) @ opt_prop ''details'' id (mt_details s)
     @ opt_prop ''attestationTransactionId'' JStr (mt_attestationTransactionId s))"

definition observation_json :: "manifest_observation \<Rightarrow> json" where
  "observation_json ob = JObj ([(''stage'', JStr (mo_stage ob)), (''observedAt'', JStr (mo_observedAt ob)),
     (''indexer'', JObj [(''available'', JBool (mo_available ob)), (''source'', nullable_json (mo_source ob))])]
     @ opt_prop ''transactionId'' JStr (mo_transactionId ob) @ opt_prop ''registry'' id (mo_registry ob)
     @ opt_prop ''referendum'' id (mo_referendum ob))"

definition action_json :: "manifest_action \<Rightarrow> json" where
  "action_json a = JObj [(''actionId'', JStr (ma_actionId a)), (''actionIdDigest'', JStr (ma_actionIdDigest a)),
     (''idempotencyKeyDigest'', JStr (ma_idempotencyKeyDigest a)), (''requestHash'', JStr (ma_requestHash a)),
     (''txDigest'', JStr (ma_txDigest a)), (''capabilityDigest'', JStr (ma_capabilityDigest a)),
     (''transactionId'', JStr (ma_transactionId a)), (''status'', JStr (ma_status a))]"

definition relay_json :: "manifest_relay \<Rightarrow> json" where
  "relay_json r = JObj [(''submissionTransport'', JStr (ml_submissionTransport r)), (''durableStore'', JStr (ml_durableStore r)),
     (''legacyApiEnabled'', JBool (ml_legacyApiEnabled r)), (''states'', JArr (map JStr (ml_states r))),
     (''accepted'', JBool (ml_accepted r)), (''duplicateResolved'', JBool (ml_duplicateResolved r)),
     (''concurrentIdempotent'', JBool (ml_concurrentIdempotent r)), (''restartRecovered'', JBool (ml_restartRecovered r))]"

definition lifecycle_json :: "manifest_lifecycle \<Rightarrow> json" where
  "lifecycle_json y = JObj [(''castTransactionId'', JStr (my_castTransactionId y)), (''closeTransactionId'', JStr (my_closeTransactionId y)),
     (''revealTransactionId'', JStr (my_revealTransactionId y)), (''finalizeTransactionId'', JStr (my_finalizeTransactionId y)),
     (''replayRejected'', JBool (my_replayRejected y)), (''finalized'', JBool (my_finalized y)),
     (''indexerObservations'', JNum (JInt (my_indexerObservations y)))]"

definition dust_json :: "manifest_dust \<Rightarrow> json" where
  "dust_json d = JObj [(''before'', nullable_json (md_before d)), (''after'', nullable_json (md_after d)),
     (''spent'', nullable_json (md_spent d)), (''beforeObservedAt'', nullable_json (md_beforeObservedAt d)),
     (''afterObservedAt'', nullable_json (md_afterObservedAt d)), (''valuationAt'', nullable_json (md_valuationAt d)),
     (''accounted'', JBool (md_accounted d))]"

definition registry_json :: "manifest_registry \<Rightarrow> json" where
  "registry_json g = JObj [(''contractAddress'', nullable_json (mg_contractAddress g)),
     (''registryContractBindingHex'', nullable_json (mg_registryContractBindingHex g)), (''registryIdHex'', JStr (mg_registryIdHex g)),
     (''issuerId'', JStr (mg_issuerId g)), (''issuerIdHex'', JStr (mg_issuerIdHex g)), (''credentialEpoch'', JStr (mg_credentialEpoch g)),
     (''currentRootField'', nullable_json (mg_currentRootField g)), (''frozenRootField'', nullable_json (mg_frozenRootField g)),
     (''credentialCount'', nullable_json (mg_credentialCount g)), (''frozen'', JBool (mg_frozen g)),
     (''enrollmentModel'', JStr (mg_enrollmentModel g))]"

definition manifest_json :: "manifest \<Rightarrow> json" where
  "manifest_json m = JObj (
     [(''kind'', JStr (mm_kind m)), (''version'', JNum (JInt (mm_version m))), (''status'', JStr (mm_status m)),
      (''network'', JStr (mm_network m)), (''networkId'', JStr (mm_networkId m)), (''generatedAt'', JStr (mm_generatedAt m))]
     @ opt_prop ''source'' (\<lambda>(c, t). JObj [(''commit'', JStr c), (''tree'', JStr t)]) (mm_source m)
     @ opt_prop ''services'' id (mm_services m)
     @ [(''runtime'', JObj [(''apiUrl'', JStr (mm_apiUrl m)), (''credentialTtlMs'', JNum (JInt (mm_credentialTtlMs m))),
          (''uniquenessTimestampUpperBoundUnixSeconds'', JStr (mm_uniquenessTimestampUpperBound m))]),
        (''artifacts'', mm_artifacts m), (''endpoints'', mm_endpoints m), (''dust'', dust_json (mm_dust m))]
     @ opt_prop ''submissionTransport'' JStr (mm_submissionTransport m) @ opt_prop ''action'' action_json (mm_action m)
     @ opt_prop ''relay'' relay_json (mm_relay m) @ opt_prop ''lifecycle'' lifecycle_json (mm_lifecycle m)
     @ opt_prop ''manifestDigest'' JStr (mm_manifestDigest m)
     @ [(''registry'', registry_json (mm_registry m)), (''referenda'', JArr (map referendum_wire (mm_referenda m))),
        (''transcript'', JObj [(''steps'', JArr (map step_json (mm_steps m))), (''observations'', JArr (map observation_json (mm_observations m)))])])"

definition record_or_none :: "json option \<Rightarrow> bool" where
  "record_or_none v = (case v of None \<Rightarrow> True | Some w \<Rightarrow> isRecord w)"

lemma as_readers [simp]:
  "as_nullable (Some (nullable_json v)) = Some v" "as_bool (Some (JBool b)) = Some b" "as_string (JStr t) = Some t"
  "as_array (Some (JArr xs)) = Some xs" "as_record (Some (JObj ps)) = Some (JObj ps)"
  by (cases v) (simp_all add: as_nullable_def nullable_json_def as_bool_def as_string_def as_array_def as_record_def)

lemma as_record_isRecord: "isRecord v \<Longrightarrow> as_record (Some v) = Some v"
  by (cases v) (simp_all add: as_record_def)

lemma as_optional_simps [simp]: "as_optional f None = Some None" "as_optional f (Some v) = map_option Some (f (Some v))"
  by (simp_all add: as_optional_def)

lemma as_list_map: "(\<And>x. x \<in> set xs \<Longrightarrow> f (g x) = Some x) \<Longrightarrow> as_list f (Some (JArr (map g xs))) = Some xs"
  by (simp add: as_list_def option_all_map list_all_iff)

lemma read_step_json:
  assumes "record_or_none (mt_receipt s)" "record_or_none (mt_details s)"
  shows "read_step (step_json s) = Some s"
  using assms
  by (cases "mt_receipt s"; cases "mt_details s"; cases "mt_attestationTransactionId s")
     (simp_all add: read_step_def step_json_def record_or_none_def as_record_isRecord)

lemma read_observation_json:
  assumes "record_or_none (mo_registry ob)" "record_or_none (mo_referendum ob)"
  shows "read_observation (observation_json ob) = Some ob"
  using assms
  by (cases "mo_transactionId ob"; cases "mo_registry ob"; cases "mo_referendum ob")
     (simp_all add: read_observation_def observation_json_def record_or_none_def as_record_isRecord)

lemma read_part_json:
  "read_action (Some (action_json a)) = Some a" "read_relay (Some (relay_json r)) = Some r"
  "\<bar>my_indexerObservations y\<bar> \<le> max_safe \<Longrightarrow> read_lifecycle (Some (lifecycle_json y)) = Some y"
  "read_dust (Some (dust_json d)) = Some d" "read_registry (Some (registry_json g)) = Some g"
  by (simp_all add: read_action_def action_json_def read_relay_def relay_json_def read_lifecycle_def lifecycle_json_def
      read_dust_def dust_json_def read_registry_def registry_json_def as_list_map)

lemma read_referendum_wire: "present (mf_description f) \<or> mf_description f = None \<Longrightarrow> read_referendum (referendum_wire f) = Some f"
  by (cases "mf_description f") (auto simp: read_referendum_def referendum_wire_def as_list_map present_def)

definition manifest_readable :: "manifest \<Rightarrow> bool" where
  "manifest_readable m = (\<bar>mm_version m\<bar> \<le> max_safe \<and> \<bar>mm_credentialTtlMs m\<bar> \<le> max_safe
     \<and> isRecord (mm_artifacts m) \<and> isRecord (mm_endpoints m) \<and> record_or_none (mm_services m)
     \<and> (\<forall>y. mm_lifecycle m = Some y \<longrightarrow> \<bar>my_indexerObservations y\<bar> \<le> max_safe)
     \<and> list_all (\<lambda>f. present (mf_description f) \<or> mf_description f = None) (mm_referenda m)
     \<and> list_all (\<lambda>s. record_or_none (mt_receipt s) \<and> record_or_none (mt_details s)) (mm_steps m)
     \<and> list_all (\<lambda>ob. record_or_none (mo_registry ob) \<and> record_or_none (mo_referendum ob)) (mm_observations m))"

lemma read_manifest_json:
  assumes "manifest_readable m" "mm_source m = Some src" "mm_services m = Some services" "mm_submissionTransport m = Some transport"
    and "mm_action m = Some a" "mm_relay m = Some r" "mm_lifecycle m = Some y" "mm_manifestDigest m = Some d"
  shows "read_manifest (manifest_json m) = Some m"
proof -
  obtain c t where src: "src = (c, t)" by (cases src)
  have lists: "as_list read_referendum (Some (JArr (map referendum_wire (mm_referenda m)))) = Some (mm_referenda m)"
      "as_list read_step (Some (JArr (map step_json (mm_steps m)))) = Some (mm_steps m)"
      "as_list read_observation (Some (JArr (map observation_json (mm_observations m)))) = Some (mm_observations m)"
    using assms(1) by (auto simp: manifest_readable_def list_all_iff intro!: as_list_map read_referendum_wire read_step_json read_observation_json)
  have records: "as_record (Some services) = Some services" "as_record (Some (mm_artifacts m)) = Some (mm_artifacts m)"
      "as_record (Some (mm_endpoints m)) = Some (mm_endpoints m)" "read_lifecycle (Some (lifecycle_json y)) = Some y"
    using assms(1,3,7) by (auto simp: manifest_readable_def record_or_none_def as_record_isRecord read_part_json)
  show ?thesis
    using assms(1) unfolding read_manifest_def manifest_json_def assms(2-8) src
    by (simp add: lists records read_part_json manifest_readable_def) (simp add: assms(2-8) src)
qed

section \<open>A manifest\<close>

text \<open>A complete manifest, of a frozen registry or of an open one with a second root.\<close>

definition hex_a :: string where
  "hex_a = replicate 64 (CHR ''a'')"

definition step_receipt :: "string \<Rightarrow> string \<Rightarrow> string \<Rightarrow> receipt" where
  "step_receipt circuit address t = sample_receipt \<lparr> r_circuit := circuit, r_transactionId := t, r_contractAddress := address \<rparr>"

definition sample_step :: "string \<Rightarrow> string \<Rightarrow> receipt option \<Rightarrow> string option \<Rightarrow> string option \<Rightarrow> manifest_step" where
  "sample_step i status receipt root attestation = \<lparr> mt_id = i, mt_status = status, mt_completedAt = ''t'',
     mt_receipt = map_option receipt_json receipt, mt_details = map_option (\<lambda>r. JObj [(''rootField'', JStr r)]) root,
     mt_attestationTransactionId = attestation \<rparr>"

definition sample_steps :: "bool \<Rightarrow> manifest_step list" where
  "sample_steps frozen = [sample_step ''registry.deploy'' ''confirmed'' None None None, sample_step ''registry.issue'' ''confirmed'' None None None,
     sample_step ''referendum.deploy'' ''confirmed'' None None None, sample_step ''lifecycle.replay-rejected'' ''rejected'' None None None]
     @ map (\<lambda>(i, c). sample_step i ''confirmed'' (Some (step_receipt c hex_a c)) None None) lifecycle_circuits
     @ (if frozen then [sample_step ''registry.freeze'' ''confirmed'' None None None] else
        [sample_step ''registry.attest'' ''confirmed'' (Some (step_receipt ''attestCurrentRoot'' sample_address ''x2'')) (Some ''2'') None,
         sample_step ''referendum.publish-root'' ''confirmed'' (Some (step_receipt ''publishCredentialRoot'' hex_a ''x1'')) (Some ''2'') (Some ''x2'')])"

definition sample_observation :: "string \<Rightarrow> bool \<Rightarrow> string \<Rightarrow> manifest_observation" where
  "sample_observation stage available t = \<lparr> mo_stage = stage, mo_observedAt = ''t'', mo_available = available,
     mo_source = Some ''https://i.test'', mo_transactionId = Some t, mo_registry = None, mo_referendum = None \<rparr>"

definition sample_manifest_referendum :: "bool \<Rightarrow> manifest_referendum" where
  "sample_manifest_referendum frozen = \<lparr> mf_referendumId = ''r1'', mf_contractAddress = Some hex_a,
     mf_registryContractBindingHex = Some (bytesToHex (replicate 32 (CHR ''h''))), mf_registryContractAddress = Some sample_address,
     mf_eventIdHex = replicate 64 (CHR ''6''), mf_organizerKeyHex = replicate 64 (CHR ''1''), mf_rootPublisherKeyHex = replicate 64 (CHR ''2''),
     mf_initialRootField = ''1'', mf_acceptedRoots = ''1'' # (if frozen then [] else [''2'']), mf_opensAtUnix = ''10'',
     mf_enrollmentClosesAtUnix = ''20'', mf_closesAtUnix = ''30'', mf_revealClosesAtUnix = ''40'', mf_countryPolicy = Some ''032'',
     mf_minimumAssurance = ''2'', mf_requireAdult = True, mf_validityReference = ''5'', mf_title = ''t'', mf_question = ''q'',
     mf_description = None \<rparr>"

definition sample_manifest_registry :: "bool \<Rightarrow> manifest_registry" where
  "sample_manifest_registry frozen = \<lparr> mg_contractAddress = Some sample_address,
     mg_registryContractBindingHex = Some (bytesToHex (replicate 32 (CHR ''h''))), mg_registryIdHex = hex_a, mg_issuerId = ''i'',
     mg_issuerIdHex = bytesToHex (pad32 ''i''), mg_credentialEpoch = ''1'', mg_currentRootField = Some ''2'',
     mg_frozenRootField = (if frozen then Some ''1'' else None), mg_credentialCount = Some ''2'', mg_frozen = frozen,
     mg_enrollmentModel = (if frozen then ''frozen'' else ''open'') \<rparr>"

definition sample_action :: manifest_action where
  "sample_action = \<lparr> ma_actionId = ''a'', ma_actionIdDigest = hex_a, ma_idempotencyKeyDigest = hex_a, ma_requestHash = hex_a,
     ma_txDigest = hex_a, ma_capabilityDigest = hex_a, ma_transactionId = ''castVote'', ma_status = ''confirmed'' \<rparr>"

definition sample_relay :: manifest_relay where
  "sample_relay = \<lparr> ml_submissionTransport = ''v2-actions'', ml_durableStore = ''postgresql'', ml_legacyApiEnabled = False,
     ml_states = requiredRelayStates, ml_accepted = True, ml_duplicateResolved = True, ml_concurrentIdempotent = True,
     ml_restartRecovered = True \<rparr>"

definition sample_lifecycle :: manifest_lifecycle where
  "sample_lifecycle = \<lparr> my_castTransactionId = ''castVote'', my_closeTransactionId = ''closeVote'', my_revealTransactionId = ''revealVote'',
     my_finalizeTransactionId = ''finalizeVote'', my_replayRejected = True, my_finalized = True, my_indexerObservations = 4 \<rparr>"

definition sample_dust :: manifest_dust where
  "sample_dust = \<lparr> md_before = Some ''9'', md_after = Some ''2'', md_spent = Some ''7'', md_beforeObservedAt = Some ''t'',
     md_afterObservedAt = Some ''t'', md_valuationAt = Some ''t'', md_accounted = True \<rparr>"

definition sample_manifest :: "bool \<Rightarrow> manifest" where
  "sample_manifest frozen = \<lparr> mm_kind = PASSPORT_V2_MANIFEST_KIND, mm_version = 3, mm_status = ''complete'', mm_network = ''preview'',
     mm_networkId = ''preview'', mm_generatedAt = ''t'', mm_source = Some (replicate 40 (CHR ''a''), replicate 40 (CHR ''b'')),
     mm_services = Some (JObj [(''relayer'', JObj [(''version'', JStr ''1''), (''hash'', JStr hex_a)])]), mm_apiUrl = ''https://a.test'',
     mm_credentialTtlMs = 1000, mm_uniquenessTimestampUpperBound = ''9'',
     mm_artifacts = JObj [(''registry'', JStr ''v1''), (''hashes'', JObj [(''registry'', JStr hex_a)])],
     mm_endpoints = JObj (map (\<lambda>k. (k, JStr ''https://i.test'')) [''nodeRpc'', ''indexerHttp'', ''indexerWs'', ''proofServer'', ''relay'']),
     mm_dust = sample_dust, mm_submissionTransport = Some ''v2-actions'', mm_action = Some sample_action, mm_relay = Some sample_relay,
     mm_lifecycle = Some sample_lifecycle, mm_manifestDigest = Some hex_a, mm_registry = sample_manifest_registry frozen,
     mm_referenda = [sample_manifest_referendum frozen], mm_steps = sample_steps frozen,
     mm_observations = sample_observation ''deploy'' False ''d'' # map (\<lambda>(i, c). sample_observation i True c) lifecycle_circuits \<rparr>"

lemma sample_manifest_read: "read_manifest (manifest_json (sample_manifest frozen)) = Some (sample_manifest frozen)"
proof (rule read_manifest_json)
  have "isRecord (receipt_json r)" for r by (simp add: receipt_json_def)
  then show "manifest_readable (sample_manifest frozen)"
    by (simp add: manifest_readable_def sample_manifest_def max_safe_def record_or_none_def sample_lifecycle_def sample_manifest_referendum_def
        sample_steps_def sample_step_def sample_observation_def lifecycle_circuits_def)
qed (simp_all add: sample_manifest_def)

lemma sample_formats:
  "hex_digest 40 (replicate 40 (CHR ''a''))" "hex_digest 40 (replicate 40 (CHR ''b''))" "hex_digest 64 hex_a" "hex32_text hex_a"
  "hex32_text sample_address" "hex32_text (bytesToHex (replicate 32 (CHR ''h'')))" "digits_text ''1''" "digits_text ''2''"
  "trim ''1'' \<noteq> []" "trim ''a'' \<noteq> []" "trim ''castVote'' \<noteq> []" "trim ''closeVote'' \<noteq> []" "trim ''revealVote'' \<noteq> []"
  "trim ''finalizeVote'' \<noteq> []" "trim ''x2'' \<noteq> []" "hex_a \<noteq> []"
  "bytesToHex (replicate 32 (CHR ''h'')) \<noteq> []" "sample_address \<noteq> []"
  unfolding sample_address_def by code_simp+

lemma sample_receipt_read: "wf_receipt (step_receipt c a t)" if "c \<noteq> []" "a \<noteq> []" "t \<noteq> []"
proof -
  have "wf_receipt sample_receipt" by code_simp
  then show ?thesis using that by (simp add: step_receipt_def wf_receipt_def)
qed

lemma sample_step_fields:
  "mt_id (sample_step i s r d a) = i" "step_done (sample_step i ''confirmed'' r d a)" "mt_receipt (sample_step i s r d a) = map_option receipt_json r"
  "step_receipt_text (sample_step i s (Some rc) d a) ''transactionId'' = Some (r_transactionId rc)"
  "step_receipt_text (sample_step i s (Some rc) d a) ''contractAddress'' = Some (r_contractAddress rc)"
  "mt_attestationTransactionId (sample_step i s r d a) = a" "mt_status (sample_step i s r d a) = s"
  "Option.bind (mt_details (sample_step i s r d a)) (\<lambda>v. fld v ''rootField'') = map_option JStr d"
  by (simp_all add: sample_step_def step_done_def step_receipt_text_def receipt_json_def map_option_case split: option.split)

lemma sample_lifecycle_steps:
  "List.find (\<lambda>s. mt_id s = ''lifecycle.cast'') (sample_steps frozen)
     = Some (sample_step ''lifecycle.cast'' ''confirmed'' (Some (step_receipt ''castVote'' hex_a ''castVote'')) None None)"
  "List.find (\<lambda>s. mt_id s = ''lifecycle.close'') (sample_steps frozen)
     = Some (sample_step ''lifecycle.close'' ''confirmed'' (Some (step_receipt ''closeVote'' hex_a ''closeVote'')) None None)"
  "List.find (\<lambda>s. mt_id s = ''lifecycle.reveal'') (sample_steps frozen)
     = Some (sample_step ''lifecycle.reveal'' ''confirmed'' (Some (step_receipt ''revealVote'' hex_a ''revealVote'')) None None)"
  "List.find (\<lambda>s. mt_id s = ''lifecycle.finalize'') (sample_steps frozen)
     = Some (sample_step ''lifecycle.finalize'' ''confirmed'' (Some (step_receipt ''finalizeVote'' hex_a ''finalizeVote'')) None None)"
  by (simp_all add: sample_steps_def sample_step_fields lifecycle_circuits_def)

lemma lifecycle_cases:
  assumes "(i, c) \<in> set lifecycle_circuits"
  obtains "i = ''lifecycle.cast''" "c = ''castVote''" | "i = ''lifecycle.close''" "c = ''closeVote''"
    | "i = ''lifecycle.reveal''" "c = ''revealVote''" | "i = ''lifecycle.finalize''" "c = ''finalizeVote''"
  using assms by (simp add: lifecycle_circuits_def) blast

lemma sample_steps_ids: "map mt_id (sample_steps frozen) =
   [''registry.deploy'', ''registry.issue'', ''referendum.deploy'', ''lifecycle.replay-rejected'', ''lifecycle.cast'', ''lifecycle.close'',
    ''lifecycle.reveal'', ''lifecycle.finalize''] @ (if frozen then [''registry.freeze''] else [''registry.attest'', ''referendum.publish-root''])"
  by (simp add: sample_steps_def sample_step_fields lifecycle_circuits_def)

lemma sample_transcript: "assertTranscriptSteps (if frozen then ''frozen'' else ''open'') (sample_steps frozen) = Inr ()"
proof -
  have "length (sample_steps frozen) = length (map mt_id (sample_steps frozen))" by simp
  then show ?thesis
    unfolding assertTranscriptSteps_def sample_steps_ids
    by (cases frozen) (simp_all add: requiredStepIds_def repeatableStepIds_def)
qed

lemma sample_referendum_evidence: "assertReferendumEvidence (sample_steps frozen) (sample_manifest_referendum frozen) = Inr ()"
  by (cases frozen)
     (simp_all add: assertReferendumEvidence_def sample_manifest_referendum_def present_def assertHex32_def sample_formats
       assertRootProvenance_def sample_steps_def step_on_def sample_step_fields lifecycle_circuits_def same_hex_def step_receipt_def)

lemma sample_lifecycle_receipt:
  assumes "(i, c) \<in> set lifecycle_circuits"
  shows "lifecycle_receipt ''preview'' hex_a (sample_steps frozen) (i, c) = Inr (i, step_receipt c hex_a c)"
proof -
  have "List.find (\<lambda>s. mt_id s = i) (sample_steps frozen) = Some (sample_step i ''confirmed'' (Some (step_receipt c hex_a c)) None None)"
    using assms by (rule lifecycle_cases) (simp_all only: sample_lifecycle_steps)
  moreover have "c \<noteq> [] \<and> trim c \<noteq> []"
    using assms by (rule lifecycle_cases) (simp_all only: sample_formats list.distinct simp_thms)
  moreover have "r_action (step_receipt c hex_a c) = Vote" "network_str (r_network (step_receipt c hex_a c)) = ''preview''"
      "r_circuit (step_receipt c hex_a c) = c" "r_transactionId (step_receipt c hex_a c) = c" "r_contractAddress (step_receipt c hex_a c) = hex_a"
    by (simp_all add: step_receipt_def sample_receipt_def)
  ultimately show ?thesis
    using sample_receipt_read [of c hex_a c]
    by (simp add: lifecycle_receipt_def sample_step_fields present_def sanitize_receipt_json same_hex_def sample_formats)
qed

lemma sample_lifecycle_ok: "assertLifecycle (sample_manifest frozen) sample_action = Inr ()"
proof -
  let ?receipts = "map (\<lambda>(i, c). (i, step_receipt c hex_a c)) lifecycle_circuits"
  have m: "mm_referenda (sample_manifest frozen) = [sample_manifest_referendum frozen]" "mm_network (sample_manifest frozen) = ''preview''"
      "mm_steps (sample_manifest frozen) = sample_steps frozen" "mf_contractAddress (sample_manifest_referendum frozen) = Some hex_a"
      "mm_lifecycle (sample_manifest frozen) = Some sample_lifecycle" "ma_transactionId sample_action = ''castVote''"
    by (simp_all add: sample_manifest_def sample_manifest_referendum_def sample_action_def)
  have receipts: "mapM (lifecycle_receipt ''preview'' hex_a (sample_steps frozen)) lifecycle_circuits = Inr ?receipts"
    using sample_lifecycle_receipt [of _ _ frozen] by (simp add: lifecycle_circuits_def)
  have t: "r_transactionId (step_receipt c a x) = x" for c a x by (simp add: step_receipt_def)
  have replay: "map_option mt_status (List.find (\<lambda>s. mt_id s = ''lifecycle.replay-rejected'') (sample_steps frozen)) = Some ''rejected''"
    by (simp add: sample_steps_def sample_step_fields)
  have obs: "mm_observations (sample_manifest frozen)
      = sample_observation ''deploy'' False ''d'' # map (\<lambda>(i, c). sample_observation i True c) lifecycle_circuits"
    by (simp add: sample_manifest_def)
  have source: "endpoint_text (sample_manifest frozen) ''indexerHttp'' = Some (Some ''https://i.test'')"
    by (simp add: endpoint_text_def sample_manifest_def as_nullable_def)
  have facts: "distinct (map (r_transactionId \<circ> snd) ?receipts)" "transaction_of ?receipts ''lifecycle.cast'' = Some ''castVote''"
      "lifecycle_proved sample_lifecycle ?receipts"
    by (simp_all add: lifecycle_circuits_def t transaction_of_def lifecycle_proved_def sample_lifecycle_def)
  have ids: "observed_ids {} (mm_observations (sample_manifest frozen)) = Inr ()" "\<not> length (mm_observations (sample_manifest frozen)) < 5"
    unfolding obs by (simp_all add: lifecycle_circuits_def sample_observation_def sample_formats)
  have bound: "all_ok (observed_receipt (sample_manifest frozen)) ?receipts = Inr ()"
    by (simp add: lifecycle_circuits_def observed_receipt_def obs source sample_observation_def t)
  have ok: "rbind (Inr x) k = k x" "check True e = Inr ()" for x k e by (simp_all add: check_def)
  show ?thesis
    unfolding assertLifecycle_def m option.sel Let_def list.case receipts ok replay
    using facts ids bound by (simp add: receipts present_def assertHex32_def sample_formats del: all_ok_Inr)
qed

lemma demo_sha_hex_a: "demo_sha x = hex_a"
  by (simp add: demo_sha_def hex_a_def)

lemma sample_complete: "assert_complete demo_sha (manifest_json (sample_manifest frozen)) (sample_manifest frozen) = Inr ()"
proof -
  have m: "mm_action (sample_manifest frozen) = Some sample_action" "mm_relay (sample_manifest frozen) = Some sample_relay"
      "mm_registry (sample_manifest frozen) = sample_manifest_registry frozen" "mm_steps (sample_manifest frozen) = sample_steps frozen"
      "mm_referenda (sample_manifest frozen) = [sample_manifest_referendum frozen]" "mm_status (sample_manifest frozen) = ''complete''"
      "mm_submissionTransport (sample_manifest frozen) = Some ''v2-actions''" "mm_manifestDigest (sample_manifest frozen) = Some hex_a"
      "mm_dust (sample_manifest frozen) = sample_dust"
      "mg_enrollmentModel (sample_manifest_registry frozen) = (if frozen then ''frozen'' else ''open'')"
    by (simp_all add: sample_manifest_def sample_manifest_registry_def)
  have "assertIdentity (sample_manifest frozen) = Inr ()"
  proof -
    have "mm_source (sample_manifest frozen) = Some (replicate 40 (CHR ''a''), replicate 40 (CHR ''b''))" by (simp add: sample_manifest_def)
    then show ?thesis using sample_formats(1,2) by (simp add: assertIdentity_def)
  qed
  moreover have "assertServices (sample_manifest frozen) = Inr ()"
    by (simp add: assertServices_def sample_manifest_def sample_formats)
  moreover have "assertArtifactHashes (sample_manifest frozen) = Inr ()"
    by (simp add: assertArtifactHashes_def sample_manifest_def sample_formats)
  moreover have "assertAction demo_sha sample_action = Inr ()"
    by (simp add: assertAction_def sample_action_def sample_formats actionIdDigest_def demo_sha_hex_a)
  moreover have "relay_proved sample_relay" by (simp add: relay_proved_def sample_relay_def)
  moreover have "assertRegistrySnapshot (sample_manifest_registry frozen) = Inr ()"
    by (cases frozen) (simp_all add: assertRegistrySnapshot_def sample_manifest_registry_def present_def assertDecimal_def assertHex32_def sample_formats)
  moreover have "list_all (\<lambda>key. fld (mm_endpoints (sample_manifest frozen)) key \<noteq> Some JNull)
      [''nodeRpc'', ''indexerHttp'', ''indexerWs'', ''proofServer'', ''relay'']"
    by (simp add: sample_manifest_def)
  moreover have "dust_accounted sample_dust" by (simp add: dust_accounted_def sample_dust_def)
  moreover have "manifest_digest demo_sha (manifest_json (sample_manifest frozen)) = hex_a" by (simp add: manifest_digest_def demo_sha_hex_a)
  ultimately show ?thesis
    unfolding assert_complete_def m option.case
    using sample_transcript sample_referendum_evidence sample_lifecycle_ok [of frozen] sample_formats(3)
    by simp
qed

lemma sample_asserted:
  "assertCompletePassportV2DeploymentManifest demo_sha (manifest_json (sample_manifest frozen)) = Inr (sample_manifest frozen)"
  "passportV2ManifestRuntimeEnvironment demo_sha (manifest_json (sample_manifest frozen)) = Inr (runtime_environment (sample_manifest frozen))"
  by (simp_all add: passportV2ManifestRuntimeEnvironment_def assertCompletePassportV2DeploymentManifest_def sample_manifest_read sample_complete)

theorem complete_manifest_evidence_witness:
  "(\<exists>receipts. lifecycle_evidence (sample_manifest False) receipts)
   \<and> root_evidence (sample_manifest False) (sample_manifest_referendum False) ''2''"
proof -
  have m: "mm_referenda (sample_manifest False) = [sample_manifest_referendum False]"
      "filter (\<lambda>r. r \<noteq> mf_initialRootField (sample_manifest_referendum False)) (mf_acceptedRoots (sample_manifest_referendum False)) = [''2'']"
    by (simp_all add: sample_manifest_def sample_manifest_referendum_def)
  show ?thesis using complete_manifest_evidence [OF sample_asserted(1) [of False]] by (auto simp: m)
qed


lemma sample_trimmed:
  "trim ''https://a.test'' = ''https://a.test''" "trim ''preview'' = ''preview''" "trim ''i'' = ''i''" "trim ''1'' = ''1''" "trim ''9'' = ''9''"
  "trim ''1000'' = ''1000''" "trim sample_address = sample_address" "trim hex_a = hex_a"
  "trim (bytesToHex (pad32 ''i'')) = bytesToHex (pad32 ''i'')"
  unfolding sample_address_def by code_simp+

lemma sample_numbers:
  "unsignedNumber (Some (JStr ''1'')) 64 = Inr 1" "unsignedNumber (Some (JStr ''9'')) 64 = Inr 9" "unsignedBigInt (Some (JStr ''1'')) 256 = Inr 1"
  "config_bytes32 (Some (JStr hex_a)) l = Inr (replicate 32 (CHR 0xAA))"
  "config_bytes32 (Some (JStr (bytesToHex (pad32 ''i'')))) l = Inr (pad32 ''i'')"
  "config_nonEmptyString (Some (JStr hex_a)) l = Inr hex_a" "padBytes32 ''i'' = Inr (pad32 ''i'')"
  by code_simp+

lemma sample_ttl: "show_int 1000 = ''1000''" "unsignedNumber (Some (JStr ''1000'')) 53 = Inr 1000"
  by code_simp+

definition sample_reference :: "free_digest frozen_reference" where
  "sample_reference = vote_reference \<lparr> fr_registryId := replicate 32 (CHR 0xAA) \<rparr>"

lemma sample_environment:
  "map_of (runtime_environment (sample_manifest True)) ''VITE_MIDNIGHT_NETWORK'' = Some ''preview''"
  "map_of (runtime_environment (sample_manifest True)) ''VITE_CICO_ISSUER_ID'' = Some ''i''"
  "map_of (runtime_environment (sample_manifest True)) ''VITE_CICO_CREDENTIAL_EPOCH'' = Some ''1''"
  "map_of (runtime_environment (sample_manifest True)) ''VITE_CICO_CREDENTIAL_TTL_MS'' = Some ''1000''"
  "map_of (runtime_environment (sample_manifest True)) ''VITE_RARIMO_UNIQUENESS_TIMESTAMP_UPPER_BOUND'' = Some ''9''"
  "map_of (runtime_environment (sample_manifest True)) ''VITE_CICO_REGISTRY_ID_HEX'' = Some hex_a"
  "map_of (runtime_environment (sample_manifest True)) ''VITE_CICO_ISSUER_ID_HEX'' = Some (bytesToHex (pad32 ''i''))"
  "map_of (runtime_environment (sample_manifest True)) ''VITE_PASSPORT_V2_API_URL'' = Some ''https://a.test''"
  "map_of (runtime_environment (sample_manifest True)) ''VITE_CICO_REGISTRY_ADDRESS'' = Some sample_address"
  "map_of (runtime_environment (sample_manifest True)) ''VITE_CICO_FROZEN_ROOT_FIELD'' = Some ''1''"
  by (simp_all add: runtime_environment_def Let_def sample_manifest_def sample_manifest_registry_def sample_ttl)

lemma sample_wire_parsed:
  "\<exists>e. parseReferendum vote_date sample_reference Preview (referendum_wire (sample_manifest_referendum True)) = Inr e"
  by (simp add: parseReferendum_def referendum_wire_def sample_manifest_referendum_def nullable_json_def present_def vote_numbers vote_bytes
      vote_texts sample_numbers optionalText_def assertLifecycleDates_def)

lemma sample_configured:
  "\<exists>c. parsePassportV2RuntimeConfig fixed_runtime (\<lambda>_. vote_root) vote_date (map_of (runtime_environment (sample_manifest True))) = Inr (Some c)"
proof -
  let ?env = "map_of (runtime_environment (sample_manifest True))"
  have r: "required ?env ''VITE_CICO_ISSUER_ID'' = Inr ''i''" "required ?env ''VITE_CICO_CREDENTIAL_EPOCH'' = Inr ''1''"
      "required ?env ''VITE_CICO_CREDENTIAL_TTL_MS'' = Inr ''1000''" "required ?env ''VITE_RARIMO_UNIQUENESS_TIMESTAMP_UPPER_BOUND'' = Inr ''9''"
      "required ?env ''VITE_CICO_REGISTRY_ID_HEX'' = Inr hex_a" "required ?env ''VITE_CICO_ISSUER_ID_HEX'' = Inr (bytesToHex (pad32 ''i''))"
      "required ?env ''VITE_CICO_REGISTRY_ADDRESS'' = Inr sample_address" "required ?env ''VITE_CICO_FROZEN_ROOT_FIELD'' = Inr ''1''"
  proof -
    have "bytesToHex (pad32 ''i'') \<noteq> []" by code_simp
    then show "required ?env ''VITE_CICO_ISSUER_ID'' = Inr ''i''" "required ?env ''VITE_CICO_CREDENTIAL_EPOCH'' = Inr ''1''"
      "required ?env ''VITE_CICO_CREDENTIAL_TTL_MS'' = Inr ''1000''" "required ?env ''VITE_RARIMO_UNIQUENESS_TIMESTAMP_UPPER_BOUND'' = Inr ''9''"
      "required ?env ''VITE_CICO_REGISTRY_ID_HEX'' = Inr hex_a" "required ?env ''VITE_CICO_ISSUER_ID_HEX'' = Inr (bytesToHex (pad32 ''i''))"
      "required ?env ''VITE_CICO_REGISTRY_ADDRESS'' = Inr sample_address" "required ?env ''VITE_CICO_FROZEN_ROOT_FIELD'' = Inr ''1''"
      using sample_trimmed sample_formats by (simp_all add: required_def sample_environment)
  qed
  have network: "runtime_network ?env = Inr Preview" by (simp add: runtime_network_def sample_environment sample_trimmed)
  have registry: "runtime_registry fixed_runtime (\<lambda>_. vote_root) ?env 1 = Inr sample_reference"
    by (simp add: runtime_registry_def r vote_address sample_numbers sample_reference_def vote_reference_def del: required_Inr)
  obtain e where e: "parseReferendum vote_date sample_reference Preview (referendum_wire (sample_manifest_referendum True)) = Inr e"
    using sample_wire_parsed by blast
  have "mm_referenda (sample_manifest True) = [sample_manifest_referendum True]" by (simp add: sample_manifest_def)
  then have wires: "?env ''VITE_CICO_REFERENDA_JSON'' = Some (stringify (JArr [referendum_wire (sample_manifest_referendum True)]))"
      "json_parse (trim (stringify (JArr [referendum_wire (sample_manifest_referendum True)]))) = Some (JArr [referendum_wire (sample_manifest_referendum True)])"
    using environment_fields(4) [of "sample_manifest True"] wires_parse [of "[sample_manifest_referendum True]"] by (simp_all del: stringify.simps)
  have "trim (stringify (JArr [referendum_wire (sample_manifest_referendum True)])) \<noteq> []"
    by (simp add: trim_Nil_iff is_ws_def)
  then have json: "required ?env ''VITE_CICO_REFERENDA_JSON'' = Inr (trim (stringify (JArr [referendum_wire (sample_manifest_referendum True)])))"
    using wires(1) by (simp add: required_def del: stringify.simps)
  have referenda: "runtime_referenda vote_date ?env sample_reference Preview = Inr [e]"
    unfolding runtime_referenda_def json sum.case wires(2) option.case json.case list.case by (simp add: e)
  have issuer: "fr_issuerId sample_reference = pad32 ''i''" by (simp add: sample_reference_def vote_reference_def)
  show ?thesis
    unfolding parsePassportV2RuntimeConfig_def sample_environment option.case sample_trimmed Let_def network r
    by (simp add: r sample_numbers sample_ttl registry referenda issuer network del: required_Inr)
qed

definition plain_https :: gateway_url where
  "plain_https = \<lparr> gu_protocol = ''https:'', gu_hostname = ''a.test'', gu_username = [], gu_password = [], gu_pathname = ''/'',
     gu_search = [], gu_hash = [], gu_origin = ''https://a.test'', gu_href = ''https://a.test/'' \<rparr>"

lemma sample_valid:
  "validate_manifest fixed_runtime (\<lambda>_. Some plain_https) vote_date demo_sha (manifest_json (sample_manifest True)) (sample_manifest True)
     = Inr ()"
proof -
  let ?m = "sample_manifest True" and ?url = "\<lambda>_ :: string. Some plain_https"
  have url: "assertPublicUrl ?url s = Inr ()" for s by (simp add: assertPublicUrl_def plain_url_def plain_https_def)
  have api: "assertRuntimeApiUrl ?url s ''preview'' = Inr ()" for s
    by (simp add: assertRuntimeApiUrl_def plain_url_def plain_https_def Let_def)
  have artifacts: "assertPublicArtifacts (mm_artifacts ?m) = Inr ()"
  proof -
    have "trim ''v1'' \<noteq> []" by code_simp
    then show ?thesis by (simp add: assertPublicArtifacts_def sample_manifest_def)
  qed
  have endpoints: "assertPublicEndpoints ?url (mm_endpoints ?m) = Inr ()"
    by (simp add: assertPublicEndpoints_def sample_manifest_def url)
  have dust: "assertDust vote_date (mm_dust ?m) = Inr ()"
    unfolding sample_manifest_def by code_simp
  have registry: "validate_registry fixed_runtime (mm_registry ?m) = Inr ()"
    unfolding sample_manifest_def fixed_runtime_def by code_simp
  have referenda: "validate_referenda (mm_registry ?m) {} (mm_referenda ?m) = Inr ()"
    unfolding sample_manifest_def by code_simp
  have observations: "all_ok (validate_observation ?url) (mm_observations ?m) = Inr ()"
  proof -
    have "trim t \<noteq> [] \<Longrightarrow> st \<noteq> [] \<Longrightarrow> validate_observation ?url (sample_observation st av t) = Inr ()" for st av t
      by (simp add: validate_observation_def sample_observation_def url)
    moreover have "trim ''d'' \<noteq> []" by code_simp
    ultimately show ?thesis by (simp add: sample_manifest_def lifecycle_circuits_def sample_formats)
  qed
  have m: "mm_kind ?m = PASSPORT_V2_MANIFEST_KIND" "mm_version ?m = PASSPORT_V2_MANIFEST_VERSION" "mm_network ?m = ''preview''"
      "mm_networkId ?m = ''preview''" "mm_generatedAt ?m = ''t''" "mm_apiUrl ?m = ''https://a.test''" "mm_referenda ?m \<noteq> []" "trim ''t'' \<noteq> []"
    by (simp_all add: sample_manifest_def PASSPORT_V2_MANIFEST_VERSION_def trim_Nil_iff is_ws_def)
  show ?thesis
    using m artifacts endpoints dust registry referenda observations sample_complete [of True] sample_trimmed(1)
    by (simp add: validate_manifest_def api del: all_ok_Inr)
qed

theorem deployment_reaches_application_witness:
  "\<exists>c. parsePassportV2RuntimeConfig fixed_runtime (\<lambda>_. vote_root) vote_date (map_of (runtime_environment (sample_manifest True))) = Inr (Some c)
     \<and> list_all2 same_referendum [sample_manifest_referendum True] (rc_referenda c)
     \<and> fr_registryContractAddress (rc_registry c) = sample_address"
proof -
  obtain c where c: "parsePassportV2RuntimeConfig fixed_runtime (\<lambda>_. vote_root) vote_date (map_of (runtime_environment (sample_manifest True))) = Inr (Some c)"
    using sample_configured by blast
  have m: "mm_referenda (sample_manifest True) = [sample_manifest_referendum True]"
      "mg_contractAddress (mm_registry (sample_manifest True)) = Some sample_address"
    by (simp_all add: sample_manifest_def sample_manifest_registry_def)
  show ?thesis
    using deployment_reaches_application [OF sample_manifest_read sample_valid sample_asserted(2) c, of vote_args] c m sample_trimmed(7) by auto
qed

end
