(* ===== verification/Spec2Isabelle.thy ===== *)
theory Spec2Isabelle
  imports Http_Properties Lock_File Root_Publisher Referendum_Theorems Passport_Http_Properties Adapter_Properties
    Manifest_Properties
begin

text \<open>
  Verification of the Midnight referendum application.

  A citizen enrols for a civic credential with an issuer, the issuer records the
  credential in a registry contract, a publisher admits the registry's roots into open
  referenda, and the citizen casts and later reveals an anonymous ballot. Actions
  without a wallet go through a relay, which pays the fee, submits the transaction and
  answers with a canonical receipt once the indexer confirms it. The theories follow
  these parts; each names the source files it translates and keeps their names.

  \<^bold>\<open>Ground\<close>
  \<^item> \<open>Prelude\<close>: results (an error or a value), checks, association lists, JavaScript's
    string and number helpers, and the lemma collections of the other theories.
  \<^item> \<open>Js_Value\<close>, \<open>Js_Json\<close>: JavaScript values as the program inspects them (objects as
    ordered tables, inherited names), \<open>JSON.stringify\<close>, \<open>JSON.parse\<close> and UTF-8, with the
    round trip of the two. The parser's fuel is twice the length of the text plus one,
    which bounds the depth and the number of tokens of any text.
  \<^item> \<open>Utc_Date\<close>: the calendar of JavaScript's \<open>Date\<close> in UTC, from milliseconds to fields and
    to ISO text and back.
  \<^item> \<open>Receipts\<close>: \<open>api/src/receipts/canonical.ts\<close>, the canonical receipt.

  \<^bold>\<open>The relay\<close> (\<open>relayer/src\<close>)
  \<^item> \<open>V2_Types\<close>, \<open>V2_Hash\<close>, \<open>V2_Capability\<close>: \<open>v2-types.ts\<close>, \<open>v2-hash.ts\<close>, \<open>v2-capability.ts\<close>.
    The request hash binds every field of a request; a capability that verifies was
    signed for these very claims and has not expired.
  \<^item> \<open>V2_Journal\<close>: the interface \<open>V2ActionStore\<close> as a locale, the life cycle of a job and the
    step relation that every store implements. \<open>V2_Store\<close>, \<open>V2_File_Store\<close> (\<open>v2-store.ts\<close>)
    and \<open>V2_Postgres\<close> (\<open>v2-postgres.ts\<close>) are its three interpretations.
  \<^item> \<open>V2_Indexer\<close> (\<open>v2-indexer.ts\<close>), \<open>V2_Service\<close> (\<open>v2-service.ts\<close>): the resolver and the state
    machine of \<open>accept\<close>, wallet stage, reconciliation and restart. \<open>Relay_Properties\<close>
    proves over any interleaving of its events that a transaction is submitted at most
    once, that the journal keeps its type, and that the fee lease is exclusive.
  \<^item> \<open>V2_Http\<close> (\<open>v2-http.ts\<close>), \<open>Relayer_Config\<close> (\<open>config.ts\<close>, \<open>v2-runtime.ts\<close>, \<open>readiness.ts\<close>,
    \<open>funding-status.ts\<close>), \<open>Relay_Server\<close> (\<open>server.ts\<close>), \<open>Walletless_Client\<close>
    (\<open>api/src/receipts/walletless-action-client.ts\<close>) and \<open>Http_Properties\<close>, which composes
    client, routes, service and store.
  \<^item> \<open>Capability_Issuer\<close> (\<open>cico-service/src/action-capability-issuer.ts\<close>): what it issues, the
    relay accepts.

  \<^bold>\<open>Credentials\<close> (\<open>cico-service/src\<close>, \<open>api/src/passport-v2\<close>)
  \<^item> \<open>Durable_Stores\<close>, \<open>Lock_File\<close> (\<open>durable-stores.ts\<close>, and the same lock in \<open>v2-store.ts\<close>):
    the evidence book, the issuance journal and the receipt index, as files; the lock
    protocol as a transition system of processes.
  \<^item> \<open>Civic_Crypto\<close> (\<open>crypto.ts\<close>), \<open>Midnight_V2\<close> (\<open>midnight-v2.ts\<close>): derivations, private states,
    witnesses and ledger views; they agree with the circuits.
  \<^item> \<open>Issuer_Service\<close> (\<open>credential-issuer-service.ts\<close>), \<open>Epoch_Coordinator\<close>
    (\<open>credential-epoch-coordinator.ts\<close>), \<open>Root_Publisher\<close> (\<open>credential-root-publisher.ts\<close>).
  \<^item> \<open>Cico_Http\<close> (\<open>http.ts\<close>), \<open>Passport_Client\<close> (\<open>ui/src/integration/passport-v2-http-ports.ts\<close>):
    the routes of the credential service and the browser's client; \<open>Passport_Http_Properties\<close>
    composes the two with the issuer's journal.
  \<^item> \<open>Rarimo_Gateway\<close> (\<open>rarimo-http-gateway.ts\<close>): the document verifier's answers and the
    credential material that they authorize; \<open>Rarimo_Evidence\<close> proves over the interleavings of
    its requests what an issued credential rests on.
  \<^item> \<open>Rarimo_Adapter\<close> (\<open>rarimo-credential-adapter.ts\<close>): the browser's side of an enrolment, as
    steps between the answers it awaits; \<open>Adapter_Properties\<close> has its invariant over any
    interleaving and composes it with the verifier gateway.

  \<^bold>\<open>The vote\<close> (\<open>api/src/passport-v2\<close>, \<open>ui/src/integration\<close>)
  \<^item> \<open>Runtime_Config\<close> (\<open>passport-v2-runtime-config.ts\<close>), \<open>Passport_Catalog\<close>
    (\<open>passport-v2-catalog.ts\<close>): the configuration that the application reads from its public
    environment, and the referenda and the eligibility that it shows.
  \<^item> \<open>Midnight_Executor\<close> (\<open>midnight-v2-executors.ts\<close>): the arguments of the constructors and
    the receipts of finalized transactions. What the network answers to a deployment or a
    call is an input.
  \<^item> \<open>Walletless_Provider\<close> (\<open>midnight-v2-relayer-providers.ts\<close>): the capability client, the
    scope of an action, and a submission with its pending record and its wait for the
    canonical receipt. The wait consumes one round of answers at each turn; a run with too
    few rounds is still waiting, and \<open>Provider_Properties\<close> proves that 60001 rounds, paced
    by the interval, are enough for every provider that the constructor builds. It composes the
    provider with the capability issuer and the relay's admission, and shows what a stopped
    action does to the actions after it.
  \<^item> \<open>Action_Adapter\<close> (\<open>midnight-civic-action-adapter.ts\<close>): one vote from the request to the
    stored receipt, and the table of the votes in flight. \<open>Action_Properties\<close> composes it
    with the configuration, the catalogue and the two contracts.
  \<^item> \<open>Deployment_Manifest\<close> (\<open>deployment-manifest.ts\<close>): the manifest of a deployment, its
    validation, the evidence that a complete one holds, and the environment made from it.
    \<open>Manifest_Properties\<close> follows a deployment from its manifest to the application.

  \<^bold>\<open>Contracts\<close> (\<open>contracts\<close>)
  \<^item> \<open>Merkle_Tree\<close>: the trees and paths of the Compact standard library over abstract digests.
  \<^item> \<open>Registry_Contract\<close> (\<open>credential-registry-v1.compact\<close>), \<open>Referendum_Contract\<close>
    (\<open>referendum-v2.compact\<close>): ledgers and circuits; a call that fails leaves the ledger as
    it was. \<open>Referendum_Properties\<close> has the invariants of traces of calls,
    \<open>Referendum_Theorems\<close> the properties.

  \<^bold>\<open>Conventions\<close>
  A function that may throw returns \<open>Inl\<close> of an error or \<open>Inr\<close> of its value. Asynchronous
  operations that the code serialises are functions on the state of a component, and
  their order is a list of events; what a remote party answers in one run is a record
  (an environment) or a function given to the run. Integers that the contracts hold at a
  width are words; JavaScript numbers are ints with the safe-integer bound written out,
  and big integers are ints. A string is a list of code units below 256. Numbers with a
  fraction or an exponent are kept as their text. Keys named \<open>__proto__\<close> in a file and header
  values with line terminators are outside the model, and rows of a table come in the
  order of insertion where the SQL orders by a timestamp. SHA-256, HMAC, the date parser,
  the time zone of the database, the URL parser, \<open>fetch\<close>, the wallet executor and the
  hash, commitment and Merkle functions of the Compact runtime are arguments of the
  definitions that use them; a theorem that needs more of them (digests of 64 hex digits,
  injective commitments) says so. A circuit reads each private witness once per call
  site, and the model gives each call site its own value.

  \<^bold>\<open>Not modelled\<close>
  The wallet SDK and the proving, state and wallet providers around it
  (\<open>midnight-v2-providers.ts\<close>, \<open>midnight-v2-provider-runtime.ts\<close>, the issuer's runtime and
  wallet), the fixture credential adapter, the React views, the first referendum contract
  with its generated JavaScript, and the scripts: they are glue over libraries outside the
  repository, stand-ins for demonstrations, or presentation.
\<close>

end
